(* ===== verification/Missive_Prelude.thy ===== *)
theory Missive_Prelude
  imports Main "HOL-Library.Word"
begin

text \<open>
  Shared vocabulary of the development: the result type and its control flow (the question-mark
  operator, early returns, fallible loops), the iterator adaptors the sources use on slices, and
  fixed-width saturating arithmetic.  Every component theory imports this one.
\<close>

named_theorems result_iff "when a chain of fallible steps succeeds"
named_theorems ascii_simps "evaluation of byte predicates on character literals"

subsection \<open>Results\<close>

text \<open>
  \<open>Result<T, E>\<close> is the sum \<open>'e + 'a\<close> with \<open>Inl\<close> for \<open>Err\<close>.  \<open>and_then\<close> is the
  question-mark operator applied to a computed value, \<open>checks\<close> a block of statements each ending
  in a question mark, \<open>fail_if\<close> the early return \<open>if c { return Err(e) }\<close>, and
  \<open>try_for_each\<close> a \<open>for\<close> loop whose body may return an error.
\<close>

definition and_then :: "'e + 'a \<Rightarrow> ('a \<Rightarrow> 'e + 'b) \<Rightarrow> 'e + 'b" where
  "and_then r f = (case r of Inl e \<Rightarrow> Inl e | Inr x \<Rightarrow> f x)"

definition fail_if :: "bool \<Rightarrow> 'e \<Rightarrow> 'e + unit" where
  "fail_if b e = (if b then Inl e else Inr ())"

definition ok_or :: "'a option \<Rightarrow> 'e \<Rightarrow> 'e + 'a" where
  "ok_or x e = (case x of None \<Rightarrow> Inl e | Some v \<Rightarrow> Inr v)"

fun checks :: "('e + unit) list \<Rightarrow> 'e + unit" where
  "checks [] = Inr ()"
| "checks (c # cs) = (case c of Inl e \<Rightarrow> Inl e | Inr u \<Rightarrow> checks cs)"

fun try_for_each :: "('a \<Rightarrow> 'e + unit) \<Rightarrow> 'a list \<Rightarrow> 'e + unit" where
  "try_for_each f [] = Inr ()"
| "try_for_each f (x # xs) = (case f x of Inl e \<Rightarrow> Inl e | Inr u \<Rightarrow> try_for_each f xs)"

definition when_some :: "'a option \<Rightarrow> ('a \<Rightarrow> 'e + unit) \<Rightarrow> 'e + unit" where
  "when_some x f = (case x of None \<Rightarrow> Inr () | Some v \<Rightarrow> f v)"

abbreviation is_ok :: "'e + 'a \<Rightarrow> bool" where
  "is_ok r \<equiv> \<exists>x. r = Inr x"

lemma and_then_simps [simp]:
  "and_then (Inl e) f = Inl e"
  "and_then (Inr x) f = f x"
  by (simp_all add: and_then_def)

lemma and_then_Inr [result_iff]: "and_then r f = Inr y \<longleftrightarrow> (\<exists>x. r = Inr x \<and> f x = Inr y)"
  by (cases r) simp_all

lemma and_then_Inl: "and_then r f = Inl e \<longleftrightarrow> r = Inl e \<or> (\<exists>x. r = Inr x \<and> f x = Inl e)"
  by (cases r) simp_all

lemma fail_if_simps [simp]:
  "fail_if b e = Inr u \<longleftrightarrow> \<not> b"
  "fail_if b e = Inl e' \<longleftrightarrow> b \<and> e' = e"
  by (auto simp: fail_if_def)

lemma fail_if_sym [simp]:
  "Inr u = fail_if b e \<longleftrightarrow> \<not> b"
  "Inl e' = fail_if b e \<longleftrightarrow> b \<and> e' = e"
  by (auto simp: fail_if_def)

lemma fail_if_bool [simp]: "fail_if True e = Inl e" "fail_if False e = Inr ()"
  by (simp_all add: fail_if_def)

lemma ok_or_simps [simp]:
  "ok_or x e = Inr v \<longleftrightarrow> x = Some v"
  "ok_or x e = Inl e' \<longleftrightarrow> x = None \<and> e' = e"
  by (auto simp: ok_or_def split: option.splits)

lemma ok_or_cases [simp]: "ok_or None e = Inl e" "ok_or (Some v) e = Inr v"
  by (simp_all add: ok_or_def)

lemma when_some_simps [simp]:
  "when_some None f = Inr ()"
  "when_some (Some v) f = f v"
  by (simp_all add: when_some_def)

lemma when_some_Inr [result_iff]: "when_some x f = Inr u \<longleftrightarrow> (\<forall>v. x = Some v \<longrightarrow> f v = Inr ())"
  by (cases x) auto

declare checks.simps(2) [simp del]
declare try_for_each.simps(2) [simp del]

lemma checks_Cons [simp]:
  "checks (Inl e # cs) = Inl e"
  "checks (Inr u # cs) = checks cs"
  "checks (c # cs) = Inr u \<longleftrightarrow> c = Inr () \<and> checks cs = Inr u"
  "checks (c # cs) = Inl e' \<longleftrightarrow> c = Inl e' \<or> c = Inr () \<and> checks cs = Inl e'"
  by (auto simp: checks.simps(2) split: sum.splits)

lemma try_for_each_Cons [simp]:
  "try_for_each f (x # xs) = Inr u \<longleftrightarrow> f x = Inr () \<and> try_for_each f xs = Inr u"
  "try_for_each f (x # xs) = Inl e \<longleftrightarrow> f x = Inl e \<or> f x = Inr () \<and> try_for_each f xs = Inl e"
  by (auto simp: try_for_each.simps(2) split: sum.splits)

lemma checks_Inr [result_iff]: "checks cs = Inr u \<longleftrightarrow> (\<forall>c \<in> set cs. c = Inr ())"
  by (induction cs) auto

lemma checks_Inl: "checks cs = Inl e \<longleftrightarrow> (\<exists>pre post. cs = pre @ Inl e # post \<and> checks pre = Inr ())"
proof (induction cs)
  case Nil
  then show ?case by simp
next
  case (Cons c cs)
  show ?case
  proof (cases c)
    case (Inl e')
    show ?thesis
    proof
      assume "checks (c # cs) = Inl e"
      with Inl have "c # cs = [] @ Inl e # cs \<and> checks ([] :: ('a + unit) list) = Inr ()" by simp
      then show "\<exists>pre post. c # cs = pre @ Inl e # post \<and> checks pre = Inr ()" by blast
    next
      assume "\<exists>pre post. c # cs = pre @ Inl e # post \<and> checks pre = Inr ()"
      with Inl show "checks (c # cs) = Inl e" by (auto simp: Cons_eq_append_conv)
    qed
  next
    case (Inr u)
    have "(\<exists>pre post. c # cs = pre @ Inl e # post \<and> checks pre = Inr ()) \<longleftrightarrow>
          (\<exists>pre post. cs = pre @ Inl e # post \<and> checks pre = Inr ())" (is "?l \<longleftrightarrow> ?r")
    proof
      assume ?l
      with Inr show ?r by (auto simp: Cons_eq_append_conv)
    next
      assume ?r
      then obtain pre post where "cs = pre @ Inl e # post" "checks pre = Inr ()" by blast
      with Inr have "c # cs = (c # pre) @ Inl e # post \<and> checks (c # pre) = Inr ()" by simp
      then show ?l by blast
    qed
    with Inr Cons.IH show ?thesis by simp
  qed
qed

lemma checks_append: "checks (xs @ ys) = and_then (checks xs) (\<lambda>_. checks ys)"
  by (induction xs) (auto simp: checks.simps(2) split: sum.splits)

lemma try_for_each_checks: "try_for_each f xs = checks (map f xs)"
  by (induction xs) (auto simp: checks.simps(2) try_for_each.simps(2) split: sum.splits)

lemma try_for_each_Inr [result_iff]: "try_for_each f xs = Inr u \<longleftrightarrow> (\<forall>x \<in> set xs. f x = Inr ())"
  by (simp add: try_for_each_checks checks_Inr)

lemma try_for_each_append:
  "try_for_each f (xs @ ys) = and_then (try_for_each f xs) (\<lambda>_. try_for_each f ys)"
  by (simp add: try_for_each_checks checks_append)

lemma try_for_each_error:
  assumes "try_for_each f xs = Inl e" "\<And>x e'. x \<in> set xs \<Longrightarrow> f x = Inl e' \<Longrightarrow> P e'"
  shows "P e"
  using assms by (induction xs) auto

lemma unit_result_cases: "r = Inr () \<or> (\<exists>e. r = Inl e)" for r :: "'e + unit"
  by (cases r) auto

subsection \<open>Slice iterators\<close>

text \<open>\<open>iter().position(p)\<close>: the index of the first element satisfying \<open>p\<close>.\<close>

fun position :: "('a \<Rightarrow> bool) \<Rightarrow> 'a list \<Rightarrow> nat option" where
  "position p [] = None"
| "position p (x # xs) = (if p x then Some 0 else map_option Suc (position p xs))"

lemma position_None: "position p xs = None \<longleftrightarrow> (\<forall>x \<in> set xs. \<not> p x)"
  by (induction xs) auto

lemma position_Some:
  "position p xs = Some i \<longleftrightarrow> i < length xs \<and> p (xs ! i) \<and> (\<forall>j < i. \<not> p (xs ! j))"
proof (induction xs arbitrary: i)
  case Nil
  then show ?case by simp
next
  case (Cons x xs)
  show ?case
    by (cases i) (use Cons in \<open>auto simp: All_less_Suc2\<close>)
qed

lemma position_nth_distinct:
  assumes "distinct xs" "i < length xs"
  shows "position (\<lambda>y. y = xs ! i) xs = Some i"
  using assms by (auto simp: position_Some nth_eq_iff_index_eq)

lemma position_index_inj:
  assumes "position (\<lambda>y. y = a) xs = Some i" "position (\<lambda>y. y = b) xs = Some i"
  shows "a = b"
  using assms by (auto simp: position_Some)

text \<open>\<open>iter().enumerate().filter_map(|(i, x)| p(x).then_some(i))\<close>: the indices of a filter.\<close>

definition filter_indices :: "('a \<Rightarrow> bool) \<Rightarrow> 'a list \<Rightarrow> nat list" where
  "filter_indices p xs = filter (\<lambda>i. p (xs ! i)) [0..<length xs]"

lemma set_filter_indices: "set (filter_indices p xs) = {i. i < length xs \<and> p (xs ! i)}"
  by (auto simp: filter_indices_def)

lemma distinct_filter_indices [simp]: "distinct (filter_indices p xs)"
  by (simp add: filter_indices_def)

lemma sorted_filter_indices [simp]: "sorted (filter_indices p xs)"
  by (simp add: filter_indices_def sorted_wrt_filter)

lemma map_nth_filter_indices: "map ((!) xs) (filter_indices p xs) = filter p xs"
proof -
  have "filter p xs = filter p (map ((!) xs) [0..<length xs])" by (simp add: map_nth)
  also have "\<dots> = map ((!) xs) (filter_indices p xs)"
    by (simp add: filter_indices_def filter_map comp_def)
  finally show ?thesis by simp
qed

text \<open>\<open>iter().enumerate().map(f).collect()\<close>.\<close>

definition map_indexed :: "(nat \<Rightarrow> 'a \<Rightarrow> 'b) \<Rightarrow> 'a list \<Rightarrow> 'b list" where
  "map_indexed f xs = map (\<lambda>i. f i (xs ! i)) [0..<length xs]"

lemma length_map_indexed [simp]: "length (map_indexed f xs) = length xs"
  by (simp add: map_indexed_def)

lemma nth_map_indexed [simp]: "i < length xs \<Longrightarrow> map_indexed f xs ! i = f i (xs ! i)"
  by (simp add: map_indexed_def)

lemma set_map_indexed: "set (map_indexed f xs) = {f i (xs ! i) | i. i < length xs}"
  by (auto simp: map_indexed_def)

text \<open>
  \<open>slice::sort_by\<close> with a comparator whose \<open>Less\<close>-or-\<open>Equal\<close> outcome is \<open>le\<close>: a stable
  sort.  \<open>Iterator::max_by\<close> keeps the later of two elements unless the earlier compares greater.
\<close>

fun insert_by :: "('a \<Rightarrow> 'a \<Rightarrow> bool) \<Rightarrow> 'a \<Rightarrow> 'a list \<Rightarrow> 'a list" where
  "insert_by le x [] = [x]"
| "insert_by le x (y # ys) = (if le x y then x # y # ys else y # insert_by le x ys)"

definition sort_by :: "('a \<Rightarrow> 'a \<Rightarrow> bool) \<Rightarrow> 'a list \<Rightarrow> 'a list" where
  "sort_by le xs = foldr (insert_by le) xs []"

fun max_by :: "('a \<Rightarrow> 'a \<Rightarrow> bool) \<Rightarrow> 'a list \<Rightarrow> 'a option" where
  "max_by gtr [] = None"
| "max_by gtr (x # xs) = Some (fold (\<lambda>y best. if gtr best y then best else y) xs x)"

lemma set_insert_by [simp]: "set (insert_by le x xs) = insert x (set xs)"
  by (induction xs) auto

lemma length_insert_by [simp]: "length (insert_by le x xs) = Suc (length xs)"
  by (induction xs) auto

lemma distinct_insert_by [simp]: "distinct (insert_by le x xs) \<longleftrightarrow> x \<notin> set xs \<and> distinct xs"
  by (induction xs) auto

lemma set_sort_by [simp]: "set (sort_by le xs) = set xs"
  by (induction xs) (simp_all add: sort_by_def)

lemma length_sort_by [simp]: "length (sort_by le xs) = length xs"
  by (induction xs) (simp_all add: sort_by_def)

lemma distinct_sort_by [simp]: "distinct (sort_by le xs) \<longleftrightarrow> distinct xs"
proof (induction xs)
  case (Cons x xs)
  then show ?case using set_sort_by [of le xs] by (simp add: sort_by_def)
qed (simp add: sort_by_def)

lemma sorted_insert_by:
  assumes "sorted_wrt le xs" "\<And>y. y \<in> set xs \<Longrightarrow> le x y \<or> le y x"
    and "\<And>y z. y \<in> set xs \<Longrightarrow> z \<in> set xs \<Longrightarrow> le x y \<Longrightarrow> le y z \<Longrightarrow> le x z"
  shows "sorted_wrt le (insert_by le x xs)"
  using assms by (induction xs) auto

lemma sorted_sort_by:
  assumes total: "\<And>x y. x \<in> set xs \<Longrightarrow> y \<in> set xs \<Longrightarrow> le x y \<or> le y x"
    and trans: "\<And>x y z. le x y \<Longrightarrow> le y z \<Longrightarrow> le x z"
  shows "sorted_wrt le (sort_by le xs)"
  using total
proof (induction xs)
  case (Cons x xs)
  have "sorted_wrt le (insert_by le x (sort_by le xs))"
  proof (rule sorted_insert_by)
    show "sorted_wrt le (sort_by le xs)" using Cons by auto
    show "le x y \<or> le y x" if "y \<in> set (sort_by le xs)" for y
      using that Cons.prems [of x y] by auto
  qed (rule trans)
  then show ?case by (simp add: sort_by_def)
qed (simp add: sort_by_def)

lemma max_by_greatest:
  assumes "xs \<noteq> []"
    and total: "\<And>x y. x \<noteq> y \<Longrightarrow> gtr x y \<or> gtr y x"
    and trans: "\<And>x y z. gtr x y \<Longrightarrow> gtr y z \<Longrightarrow> gtr x z"
  shows "\<exists>m. max_by gtr xs = Some m \<and> m \<in> set xs \<and> (\<forall>y \<in> set xs. y \<noteq> m \<longrightarrow> gtr m y)"
proof -
  obtain x ys where xs: "xs = x # ys" using assms(1) by (cases xs) auto
  let ?f = "\<lambda>y best. if gtr best y then best else y"
  have "fold ?f ys b \<in> insert b (set ys) \<and>
        (\<forall>y \<in> insert b (set ys). y \<noteq> fold ?f ys b \<longrightarrow> gtr (fold ?f ys b) y)" for b
  proof (induction ys arbitrary: b)
    case (Cons a ys)
    let ?b = "?f a b" and ?m = "fold ?f ys (?f a b)"
    have m: "?m \<in> insert ?b (set ys)" "\<And>y. y \<in> insert ?b (set ys) \<Longrightarrow> y \<noteq> ?m \<Longrightarrow> gtr ?m y"
      using Cons.IH [of ?b] by auto
    have "gtr ?m y" if y: "y \<in> {a, b}" "y \<noteq> ?m" for y
    proof (cases "y = ?b")
      case True
      then show ?thesis using m(2) [of y] y(2) by simp
    next
      case False
      then have "gtr ?b y" using y(1) total [of a b] by (auto split: if_splits)
      then show ?thesis using m(2) [of ?b] trans [of ?m ?b y] by (cases "?m = ?b") auto
    qed
    then show ?case using m by (auto split: if_splits)
  qed simp
  from this [of x] show ?thesis by (simp add: xs)
qed

lemma position_append:
  "position p (xs @ ys) =
     (case position p xs of Some k \<Rightarrow> Some k | None \<Rightarrow> map_option (\<lambda>k. length xs + k) (position p ys))"
  by (cases "position p ys"; induction xs) (auto split: option.splits)

lemma length_filter_take: "i \<le> length xs \<Longrightarrow> length (filter (\<lambda>k. p (xs ! k)) [0..<i]) = length (filter p (take i xs))"
proof -
  assume i: "i \<le> length xs"
  have "take i xs = map ((!) xs) [0..<i]" using i by (simp add: take_map [symmetric] map_nth take_upt list_eq_iff_nth_eq)
  then show ?thesis by (simp add: filter_map comp_def)
qed

lemma position_filter_indices:
  assumes "i < length xs"
  shows "position (\<lambda>j. j = i) (filter_indices p xs) =
    (if p (xs ! i) then Some (length (filter p (take i xs))) else None)"
proof (cases "p (xs ! i)")
  case True
  let ?f = "filter (\<lambda>k. p (xs ! k))"
  have "[0..<length xs] = [0..<i] @ i # [Suc i..<length xs]"
    using assms by (metis less_imp_le_nat upt_add_eq_append upt_conv_Cons le_add_diff_inverse zero_le)
  then have "filter_indices p xs = ?f [0..<i] @ i # ?f [Suc i..<length xs]"
    using True by (simp add: filter_indices_def)
  moreover have "position (\<lambda>j. j = i) (?f [0..<i]) = None" by (auto simp: position_None)
  ultimately show ?thesis using True assms by (simp add: position_append length_filter_take)
next
  case False
  then show ?thesis by (auto simp: position_None set_filter_indices)
qed

lemma sorted_wrt_unique:
  assumes "sorted_wrt R xs" "sorted_wrt R ys" "set xs = set ys"
    and "\<And>x y. R x y \<Longrightarrow> \<not> R y x"
  shows "xs = ys"
  using assms(1-3)
proof (induction xs arbitrary: ys)
  case (Cons x xs)
  then obtain y ys' where ys: "ys = y # ys'" by (cases ys) auto
  have irr: "\<And>z. \<not> R z z" using assms(4) by blast
  have "x = y"
  proof (rule ccontr)
    assume "x \<noteq> y"
    then have "x \<in> set ys'" "y \<in> set xs" using Cons.prems(3) ys by auto
    then have "R y x" "R x y" using Cons.prems(1,2) ys by auto
    then show False using assms(4) by blast
  qed
  moreover have "x \<notin> set xs" "y \<notin> set ys'" using Cons.prems(1,2) ys irr by auto
  ultimately have "set xs = set ys'" using Cons.prems(3) ys by auto
  then show ?case using Cons ys \<open>x = y\<close> by simp
qed simp

subsection \<open>Saturating and wrapping arithmetic\<close>

type_synonym u8 = "8 word"
type_synonym u16 = "16 word"
type_synonym u32 = "32 word"
type_synonym u64 = "64 word"

text \<open>
  \<open>u64::saturating_add\<close>, and the \<open>i64\<close> operations on the integers a 64-bit two's
  complement word stands for.
\<close>

definition saturating_add_u64 :: "u64 \<Rightarrow> u64 \<Rightarrow> u64" where
  "saturating_add_u64 a b = (if unat a + unat b < 2 ^ 64 then a + b else - 1)"

definition i64_min :: int where
  "i64_min = - (2 ^ 63)"

definition i64_max :: int where
  "i64_max = 2 ^ 63 - 1"

definition is_i64 :: "int \<Rightarrow> bool" where
  "is_i64 x \<longleftrightarrow> i64_min \<le> x \<and> x \<le> i64_max"

definition saturate_i64 :: "int \<Rightarrow> int" where
  "saturate_i64 x = max i64_min (min i64_max x)"

definition wrap_i64 :: "int \<Rightarrow> int" where
  "wrap_i64 x = (x + 2 ^ 63) mod 2 ^ 64 - 2 ^ 63"

lemma unat_minus_one_u64: "unat (- 1 :: u64) = 2 ^ 64 - 1"
  by (simp only: unsigned_minus_1_eq_mask mask_eq_exp_minus_1) simp

lemma unat_saturating_add_u64:
  "unat (saturating_add_u64 a b) = min (unat a + unat b) (2 ^ 64 - 1)"
  by (auto simp: saturating_add_u64_def unat_minus_one_u64 unat_word_ariths)

lemma saturating_add_u64_ge: "a \<le> saturating_add_u64 a b"
proof -
  have "unat a < 2 ^ 64" using unsigned_less [of a] by simp
  then show ?thesis by (simp add: word_le_nat_alt unat_saturating_add_u64)
qed

lemma is_i64_saturate [simp]: "is_i64 (saturate_i64 x)"
  by (simp add: is_i64_def saturate_i64_def i64_min_def i64_max_def)

lemma saturate_i64_id: "is_i64 x \<Longrightarrow> saturate_i64 x = x"
  by (simp add: is_i64_def saturate_i64_def i64_min_def i64_max_def)

lemma is_i64_wrap [simp]: "is_i64 (wrap_i64 x)"
proof -
  have "(x + 2 ^ 63) mod 2 ^ 64 < 2 ^ 64" "0 \<le> (x + 2 ^ 63) mod (2 ^ 64 :: int)"
    by (simp_all only: pos_mod_bound pos_mod_sign zero_less_power zero_less_numeral)
  then show ?thesis by (simp add: is_i64_def wrap_i64_def i64_min_def i64_max_def)
qed

lemma wrap_i64_id: "is_i64 x \<Longrightarrow> wrap_i64 x = x"
  by (simp add: is_i64_def wrap_i64_def i64_min_def i64_max_def)

end
