(* ===== verification/Rust_Strings.thy ===== *)
theory Rust_Strings
  imports Missive_Prelude "HOL-Library.Sublist" "HOL-Library.Char_ord" "HOL-Library.List_Lexorder"
begin

text \<open>
  The part of Rust's string library the sources use.  A Rust \<open>str\<close> is its UTF-8 byte
  sequence, so \<open>string\<close> (a list of 8-bit characters) is taken as the bytes: \<open>length\<close> is
  \<open>str::len\<close>, the order of \<open>HOL-Library.List_Lexorder\<close> is \<open>Ord for str\<close>, and the
  operations on \<open>char\<close>s first cut the bytes at the character boundaries (a byte that is not a
  continuation byte) and decode each piece to its Unicode scalar value.
\<close>

subsection \<open>Bytes\<close>

abbreviation byte :: "char \<Rightarrow> nat" where
  "byte c \<equiv> of_char c"

definition is_ascii_lowercase :: "char \<Rightarrow> bool" where
  "is_ascii_lowercase c \<longleftrightarrow> 97 \<le> byte c \<and> byte c \<le> 122"

definition is_ascii_uppercase :: "char \<Rightarrow> bool" where
  "is_ascii_uppercase c \<longleftrightarrow> 65 \<le> byte c \<and> byte c \<le> 90"

definition is_ascii_digit :: "char \<Rightarrow> bool" where
  "is_ascii_digit c \<longleftrightarrow> 48 \<le> byte c \<and> byte c \<le> 57"

definition is_ascii_alphabetic :: "char \<Rightarrow> bool" where
  "is_ascii_alphabetic c \<longleftrightarrow> is_ascii_lowercase c \<or> is_ascii_uppercase c"

definition is_ascii_alphanumeric :: "char \<Rightarrow> bool" where
  "is_ascii_alphanumeric c \<longleftrightarrow> is_ascii_alphabetic c \<or> is_ascii_digit c"

definition is_ascii :: "char \<Rightarrow> bool" where
  "is_ascii c \<longleftrightarrow> byte c < 128"

text \<open>A byte that continues a multi-byte character: \<open>10xxxxxx\<close>.\<close>

definition is_cont :: "char \<Rightarrow> bool" where
  "is_cont c \<longleftrightarrow> 128 \<le> byte c \<and> byte c < 192"

definition ascii_lower :: "char \<Rightarrow> char" where
  "ascii_lower c = (if is_ascii_uppercase c then char_of (byte c + 32) else c)"

definition to_ascii_lowercase :: "string \<Rightarrow> string" where
  "to_ascii_lowercase s = map ascii_lower s"

definition eq_ignore_ascii_case :: "string \<Rightarrow> string \<Rightarrow> bool" where
  "eq_ignore_ascii_case s t \<longleftrightarrow> to_ascii_lowercase s = to_ascii_lowercase t"

lemmas ascii_defs = is_ascii_lowercase_def is_ascii_uppercase_def is_ascii_digit_def
  is_ascii_alphabetic_def is_ascii_alphanumeric_def is_ascii_def is_cont_def

lemma byte_ascii_lower: "byte (ascii_lower c) = (if is_ascii_uppercase c then byte c + 32 else byte c)"
  by (auto simp: ascii_lower_def is_ascii_uppercase_def)

lemma ascii_lower_idem [simp]: "ascii_lower (ascii_lower c) = ascii_lower c"
  by (auto simp: ascii_lower_def ascii_defs)

lemma is_cont_ascii_lower [simp]: "is_cont (ascii_lower c) \<longleftrightarrow> is_cont c"
  by (auto simp: is_cont_def byte_ascii_lower is_ascii_uppercase_def)

lemma to_ascii_lowercase_simps [simp]:
  "to_ascii_lowercase [] = []"
  "to_ascii_lowercase (c # s) = ascii_lower c # to_ascii_lowercase s"
  "to_ascii_lowercase (s @ t) = to_ascii_lowercase s @ to_ascii_lowercase t"
  by (simp_all add: to_ascii_lowercase_def)

lemma to_ascii_lowercase_idem [simp]: "to_ascii_lowercase (to_ascii_lowercase s) = to_ascii_lowercase s"
  by (simp add: to_ascii_lowercase_def)

lemma length_to_ascii_lowercase [simp]: "length (to_ascii_lowercase s) = length s"
  by (simp add: to_ascii_lowercase_def)

subsection \<open>Characters\<close>

function char_chunks :: "string \<Rightarrow> string list" where
  "char_chunks [] = []"
| "char_chunks (b # bs) = (b # takeWhile is_cont bs) # char_chunks (dropWhile is_cont bs)"
  by pat_completeness auto
termination
  by (relation "measure length") (auto simp: le_imp_less_Suc length_dropWhile_le)

text \<open>The scalar value of one encoded character of one to four bytes.\<close>

fun code_point :: "string \<Rightarrow> nat" where
  "code_point [a] = byte a"
| "code_point [a, b] = byte a mod 32 * 64 + byte b mod 64"
| "code_point [a, b, c] = byte a mod 16 * 4096 + byte b mod 64 * 64 + byte c mod 64"
| "code_point [a, b, c, d] =
     byte a mod 8 * 262144 + byte b mod 64 * 4096 + byte c mod 64 * 64 + byte d mod 64"
| "code_point _ = 65533"

definition chars :: "string \<Rightarrow> nat list" where
  "chars s = map code_point (char_chunks s)"

text \<open>\<open>char::is_whitespace\<close> is the Unicode property \<open>White_Space\<close>,
  \<open>char::is_control\<close> the general category \<open>Cc\<close>.\<close>

definition is_whitespace :: "nat \<Rightarrow> bool" where
  "is_whitespace u \<longleftrightarrow> 9 \<le> u \<and> u \<le> 13 \<or> u = 32 \<or> u = 133 \<or> u = 160 \<or> u = 5760 \<or>
     8192 \<le> u \<and> u \<le> 8202 \<or> u = 8232 \<or> u = 8233 \<or> u = 8239 \<or> u = 8287 \<or> u = 12288"

text \<open>The same test on binary integers, for evaluation.\<close>

lemma is_whitespace_code [code]:
  "is_whitespace u \<longleftrightarrow> (let i = int u in 9 \<le> i \<and> i \<le> 13 \<or> i = 32 \<or> i = 133 \<or> i = 160 \<or> i = 5760 \<or>
     8192 \<le> i \<and> i \<le> 8202 \<or> i = 8232 \<or> i = 8233 \<or> i = 8239 \<or> i = 8287 \<or> i = 12288)"
  by (simp add: is_whitespace_def Let_def int_eq_iff_numeral)

definition is_control :: "nat \<Rightarrow> bool" where
  "is_control u \<longleftrightarrow> u \<le> 31 \<or> 127 \<le> u \<and> u \<le> 159"

definition has_whitespace :: "string \<Rightarrow> bool" where
  "has_whitespace s \<longleftrightarrow> list_ex is_whitespace (chars s)"

definition has_control :: "string \<Rightarrow> bool" where
  "has_control s \<longleftrightarrow> list_ex is_control (chars s)"

text \<open>\<open>str::trim\<close>, and \<open>str::find\<close> of a character predicate, as the split it induces.\<close>

definition trim_start :: "string \<Rightarrow> string" where
  "trim_start s = concat (dropWhile (\<lambda>c. is_whitespace (code_point c)) (char_chunks s))"

definition trim_end :: "string \<Rightarrow> string" where
  "trim_end s = concat (rev (dropWhile (\<lambda>c. is_whitespace (code_point c)) (rev (char_chunks s))))"

definition trim :: "string \<Rightarrow> string" where
  "trim s = trim_end (trim_start s)"

definition before_char :: "(nat \<Rightarrow> bool) \<Rightarrow> string \<Rightarrow> string" where
  "before_char p s = concat (takeWhile (\<lambda>c. \<not> p (code_point c)) (char_chunks s))"

definition from_char :: "(nat \<Rightarrow> bool) \<Rightarrow> string \<Rightarrow> string" where
  "from_char p s = concat (dropWhile (\<lambda>c. \<not> p (code_point c)) (char_chunks s))"

text \<open>A byte string that starts at a character boundary; every \<open>str\<close> does.\<close>

definition at_boundary :: "string \<Rightarrow> bool" where
  "at_boundary s \<longleftrightarrow> (case s of [] \<Rightarrow> True | b # _ \<Rightarrow> \<not> is_cont b)"

lemma at_boundary_simps [simp]:
  "at_boundary []" "at_boundary (b # s) \<longleftrightarrow> \<not> is_cont b"
  by (simp_all add: at_boundary_def)

lemma concat_char_chunks [simp]: "concat (char_chunks s) = s"
  by (induction s rule: char_chunks.induct) simp_all

lemma char_chunks_eq_Nil [simp]: "char_chunks s = [] \<longleftrightarrow> s = []"
  by (cases s) simp_all

lemma char_chunks_append:
  "at_boundary t \<Longrightarrow> char_chunks (s @ t) = char_chunks s @ char_chunks t"
proof (induction s rule: char_chunks.induct)
  case 1
  then show ?case by simp
next
  case (2 b bs)
  show ?case
  proof (cases "\<forall>c \<in> set bs. is_cont c")
    case True
    then have "takeWhile is_cont (bs @ t) = bs" "dropWhile is_cont (bs @ t) = t"
      "takeWhile is_cont bs = bs" "dropWhile is_cont bs = []"
      using "2.prems"
      by (cases t; simp add: takeWhile_append2 dropWhile_append2 takeWhile_eq_all_conv
          dropWhile_eq_Nil_conv)+
    then show ?thesis by (simp only: append_Cons char_chunks.simps append_Nil)
  next
    case False
    then obtain c where c: "c \<in> set bs" "\<not> is_cont c" by blast
    with 2 show ?thesis by (simp add: takeWhile_append1 dropWhile_append1)
  qed
qed

definition is_chunk :: "string \<Rightarrow> bool" where
  "is_chunk c \<longleftrightarrow> (case c of [] \<Rightarrow> False | b # bs \<Rightarrow> \<not> is_cont b \<and> list_all is_cont bs)"

lemma char_chunks_chunk: "is_chunk c \<Longrightarrow> char_chunks c = [c]"
  by (cases c)
    (auto simp: is_chunk_def list_all_iff takeWhile_eq_all_conv dropWhile_eq_Nil_conv)

lemma at_boundary_concat: "list_all is_chunk cs \<Longrightarrow> at_boundary (concat cs)"
proof (cases cs)
  case (Cons c cs')
  assume "list_all is_chunk cs"
  with Cons show ?thesis by (cases c) (auto simp: is_chunk_def)
qed simp

lemma char_chunks_concat: "list_all is_chunk cs \<Longrightarrow> char_chunks (concat cs) = cs"
  by (induction cs) (simp_all add: char_chunks_append at_boundary_concat char_chunks_chunk)

lemma at_boundary_dropWhile [simp]: "at_boundary (dropWhile is_cont s)"
  by (induction s) simp_all

lemma list_all_char_chunks: "at_boundary s \<Longrightarrow> list_all is_chunk (char_chunks s)"
  by (induction s rule: char_chunks.induct)
    (auto simp: is_chunk_def list_all_iff dest: set_takeWhileD)

lemma char_chunks_ascii: "list_all is_ascii s \<Longrightarrow> char_chunks s = map (\<lambda>b. [b]) s"
proof (induction s)
  case (Cons b s)
  have "takeWhile is_cont s = [] \<and> dropWhile is_cont s = s"
    using Cons.prems by (cases s) (auto simp: is_ascii_def is_cont_def)
  with Cons show ?case by simp
qed simp

lemma chars_ascii: "list_all is_ascii s \<Longrightarrow> chars s = map byte s"
  by (simp add: chars_def char_chunks_ascii)

subsection \<open>Trimming\<close>

lemma list_all_dropWhile: "list_all p xs \<Longrightarrow> list_all p (dropWhile q xs)"
  by (auto simp: list_all_iff dest: set_dropWhileD)

lemma list_all_rev_dropWhile: "list_all p xs \<Longrightarrow> list_all p (rev (dropWhile q (rev xs)))"
  by (auto simp: list_all_iff dest: set_dropWhileD)

lemma dropWhile_idem [simp]: "dropWhile p (dropWhile p xs) = dropWhile p xs"
  by (induction xs) simp_all

lemma dropWhile_rev_dropWhile:
  "dropWhile p (rev (dropWhile p (rev (dropWhile p xs)))) = rev (dropWhile p (rev (dropWhile p xs)))"
proof (cases "dropWhile p xs")
  case (Cons y ys)
  then have y: "\<not> p y" by (simp add: dropWhile_eq_Cons_conv)
  have "rev (dropWhile p (rev (y # ys))) = y # rev (dropWhile p (rev ys))"
    using y by (cases "\<forall>z \<in> set ys. p z")
      (auto simp: dropWhile_append1 dropWhile_append2 dropWhile_append3)
  with Cons y show ?thesis by simp
next
  case Nil
  show ?thesis unfolding Nil by simp
qed

text \<open>The character pieces of any byte string, and the sublists trimming leaves of them.\<close>

definition chunk_list :: "string list \<Rightarrow> bool" where
  "chunk_list cs \<longleftrightarrow>
     (case cs of [] \<Rightarrow> True | c # cs' \<Rightarrow> c \<noteq> [] \<and> list_all is_cont (tl c) \<and> list_all is_chunk cs')"

lemma chunk_list_all: "list_all is_chunk cs \<Longrightarrow> chunk_list cs"
  by (cases cs) (auto simp: chunk_list_def is_chunk_def split: list.splits)

lemma chunk_list_char_chunks: "chunk_list (char_chunks s)"
proof (cases s)
  case (Cons b bs)
  have "list_all is_chunk (char_chunks (dropWhile is_cont bs))" by (rule list_all_char_chunks) simp
  with Cons show ?thesis by (auto simp: chunk_list_def list_all_iff dest: set_takeWhileD)
qed (simp add: chunk_list_def)

lemma chunk_list_dropWhile: "chunk_list cs \<Longrightarrow> chunk_list (dropWhile p cs)"
  by (cases cs) (auto simp: chunk_list_def intro!: list_all_dropWhile chunk_list_all [unfolded chunk_list_def])

lemma chunk_list_prefix: "chunk_list (cs @ ds) \<Longrightarrow> chunk_list cs"
  by (cases cs) (auto simp: chunk_list_def)

lemma chunk_list_rev_dropWhile: "chunk_list cs \<Longrightarrow> chunk_list (rev (dropWhile p (rev cs)))"
proof -
  have "cs = rev (dropWhile p (rev cs)) @ rev (takeWhile p (rev cs))"
    by (simp flip: rev_append)
  then show "chunk_list cs \<Longrightarrow> ?thesis" by (metis chunk_list_prefix)
qed

lemma char_chunks_concat_list: "chunk_list cs \<Longrightarrow> char_chunks (concat cs) = cs"
proof (cases cs)
  case (Cons c cs')
  assume "chunk_list cs"
  with Cons obtain b bs where c: "c = b # bs" "list_all is_cont bs" "list_all is_chunk cs'"
    by (cases c) (auto simp: chunk_list_def)
  then have "char_chunks c = [c]"
    by (auto simp: list_all_iff takeWhile_eq_all_conv dropWhile_eq_Nil_conv)
  moreover have "char_chunks (c @ concat cs') = char_chunks c @ cs'"
    using c(3) by (simp only: char_chunks_append at_boundary_concat char_chunks_concat)
  ultimately show ?thesis using Cons by simp
qed simp

lemmas chunk_lists = chunk_list_char_chunks chunk_list_dropWhile chunk_list_rev_dropWhile

lemma char_chunks_trim:
  "char_chunks (trim s) =
    rev (dropWhile (\<lambda>c. is_whitespace (code_point c))
      (rev (dropWhile (\<lambda>c. is_whitespace (code_point c)) (char_chunks s))))"
  by (simp add: trim_def trim_start_def trim_end_def char_chunks_concat_list chunk_lists)

lemma trim_idem [simp]: "trim (trim s) = trim s"
  using char_chunks_trim [of s] char_chunks_trim [of "trim s"]
  by (metis concat_char_chunks dropWhile_idem dropWhile_rev_dropWhile rev_rev_ident)

lemma char_chunks_lowercase: "char_chunks (to_ascii_lowercase s) = map to_ascii_lowercase (char_chunks s)"
  by (induction s rule: char_chunks.induct)
    (simp_all add: to_ascii_lowercase_def takeWhile_map dropWhile_map comp_def)

lemma ascii_lower_cont: "is_cont c \<Longrightarrow> ascii_lower c = c"
  by (auto simp: ascii_lower_def ascii_defs)

lemma char_chunks_tail: "c \<in> set (char_chunks s) \<Longrightarrow> c \<noteq> [] \<and> list_all is_cont (tl c)"
  using chunk_list_char_chunks [of s]
  by (cases c) (auto simp: chunk_list_def list_all_iff is_chunk_def split: list.splits)

lemma is_whitespace_ascii_lower: "is_whitespace (byte (ascii_lower a)) \<longleftrightarrow> is_whitespace (byte a)"
  by (auto simp: byte_ascii_lower is_ascii_uppercase_def is_whitespace_def)

lemma byte_ascii_lower_mod:
  "byte (ascii_lower a) mod 32 = byte a mod 32" "byte (ascii_lower a) mod 16 = byte a mod 16"
  "byte (ascii_lower a) mod 8 = byte a mod 8"
proof -
  have "(n + 32) mod 32 = n mod 32" "(n + 32) mod 16 = n mod 16" "(n + 32) mod 8 = n mod 8"
    for n :: nat
    using mod_mult_self2 [of n 32 1] mod_mult_self2 [of n 16 2] mod_mult_self2 [of n 8 4] by simp_all
  then show "byte (ascii_lower a) mod 32 = byte a mod 32" "byte (ascii_lower a) mod 16 = byte a mod 16"
    "byte (ascii_lower a) mod 8 = byte a mod 8"
    by (cases "is_ascii_uppercase a"; simp only: byte_ascii_lower if_True if_False)+
qed

lemma code_point_lowercase:
  "list_all is_cont bs \<Longrightarrow> bs \<noteq> [] \<Longrightarrow> code_point (ascii_lower b # bs) = code_point (b # bs)"
  by (cases "b # bs" rule: code_point.cases) (auto simp only: code_point.simps byte_ascii_lower_mod list.inject)

lemma to_ascii_lowercase_cont: "list_all is_cont bs \<Longrightarrow> to_ascii_lowercase bs = bs"
  by (induction bs) (simp_all add: ascii_lower_cont)

lemma whitespace_lowercase:
  assumes "c \<noteq> []" "list_all is_cont (tl c)"
  shows "is_whitespace (code_point (to_ascii_lowercase c)) \<longleftrightarrow> is_whitespace (code_point c)"
proof (cases "tl c")
  case Nil
  with assms(1) have "c = [hd c]" by (cases c) auto
  then show ?thesis by (metis code_point.simps(1) is_whitespace_ascii_lower to_ascii_lowercase_simps(1,2))
next
  case (Cons x xs)
  then have "code_point (ascii_lower (hd c) # tl c) = code_point (hd c # tl c)"
    using assms(2) by (intro code_point_lowercase) auto
  then show ?thesis using assms by (metis list.collapse to_ascii_lowercase_cont to_ascii_lowercase_simps(2))
qed

lemma trim_lowercase: "trim (to_ascii_lowercase s) = to_ascii_lowercase (trim s)"
proof -
  let ?w = "\<lambda>c. is_whitespace (code_point c)"
  have w: "?w (to_ascii_lowercase c) = ?w c" if "c \<in> set (char_chunks s)" for c
    using char_chunks_tail [OF that] by (simp add: whitespace_lowercase)
  have d: "dropWhile ?w (map to_ascii_lowercase xs) = map to_ascii_lowercase (dropWhile ?w xs)"
    if "set xs \<subseteq> set (char_chunks s)" for xs
    using that by (induction xs) (auto simp: w)
  have "char_chunks (trim (to_ascii_lowercase s)) = map to_ascii_lowercase (char_chunks (trim s))"
    unfolding char_chunks_trim char_chunks_lowercase
    by (simp add: d rev_map) (subst d, auto dest: set_dropWhileD simp: rev_map)
  then show ?thesis by (metis char_chunks_lowercase concat_char_chunks)
qed

text \<open>An ASCII string with no white space at either end is its own trimming.\<close>

lemma trim_ascii_id:
  assumes "list_all is_ascii s" "s \<noteq> []"
    and "\<not> is_whitespace (byte (hd s))" "\<not> is_whitespace (byte (last s))"
  shows "trim s = s"
proof -
  have a: "char_chunks s = map (\<lambda>b. [b]) s" using assms(1) by (rule char_chunks_ascii)
  have ts: "trim_start s = s"
    unfolding trim_start_def a using assms(2,3) by (cases s) (auto simp: comp_def)
  have "trim_end s = s"
    unfolding trim_end_def a using assms(2,4) by (cases s rule: rev_cases) (auto simp: comp_def)
  with ts show ?thesis by (simp add: trim_def)
qed

lemma before_from_char [simp]: "before_char p s @ from_char p s = s"
  by (simp add: before_char_def from_char_def flip: concat_append)

subsection \<open>Searching and parsing\<close>

text \<open>\<open>str::find\<close> of a byte string: the least offset at which the needle occurs.\<close>

fun find_str :: "string \<Rightarrow> string \<Rightarrow> nat option" where
  "find_str needle [] = (if needle = [] then Some 0 else None)"
| "find_str needle (b # bs) =
     (if prefix needle (b # bs) then Some 0 else map_option Suc (find_str needle bs))"

lemma find_str_Some:
  "find_str needle s = Some i \<Longrightarrow> i \<le> length s \<and> prefix needle (drop i s)"
  by (induction s arbitrary: i) (auto split: if_splits)

lemma find_str_least: "find_str needle s = Some i \<Longrightarrow> j < i \<Longrightarrow> \<not> prefix needle (drop j s)"
proof (induction s arbitrary: i j)
  case (Cons b s)
  then show ?case by (cases j) (auto split: if_splits)
qed (auto split: if_splits)

lemma find_str_None: "find_str needle s = None \<Longrightarrow> \<not> prefix needle (drop j s)"
proof (induction s arbitrary: j)
  case (Cons b s)
  then show ?case by (cases j) (auto split: if_splits)
qed (auto split: if_splits)

text \<open>\<open>str::parse::<u64>\<close> on a string of decimal digits.\<close>

fun parse_digits :: "nat \<Rightarrow> string \<Rightarrow> nat option" where
  "parse_digits acc [] = Some acc"
| "parse_digits acc (c # cs) =
     (if is_ascii_digit c then parse_digits (10 * acc + (byte c - 48)) cs else None)"

definition parse_u64_digits :: "string \<Rightarrow> nat option" where
  "parse_u64_digits s =
     (if s = [] then None
      else case parse_digits 0 s of None \<Rightarrow> None
        | Some n \<Rightarrow> if n < 2 ^ 64 then Some n else None)"

text \<open>Decimal rendering of an unsigned integer (\<open>Display\<close>).\<close>

fun show_nat :: "nat \<Rightarrow> string" where
  "show_nat n = (if n < 10 then [char_of (48 + n)] else show_nat (n div 10) @ [char_of (48 + n mod 10)])"

declare show_nat.simps [simp del]

definition show_int :: "int \<Rightarrow> string" where
  "show_int i = (if i < 0 then ''-'' @ show_nat (nat (- i)) else show_nat (nat i))"

lemma parse_digits_append:
  "parse_digits acc (s @ t) = Option.bind (parse_digits acc s) (\<lambda>a. parse_digits a t)"
  by (induction s arbitrary: acc) simp_all

lemma parse_show_nat: "parse_digits 0 (show_nat n) = Some n"
proof (induction n rule: show_nat.induct)
  case (1 n)
  show ?case
  proof (cases "n < 10")
    case True
    then show ?thesis by (subst show_nat.simps) (simp add: is_ascii_digit_def of_char_of take_bit_eq_mod)
  next
    case False
    have "parse_digits (n div 10) [char_of (48 + n mod 10)] = Some (10 * (n div 10) + n mod 10)"
      by (simp add: is_ascii_digit_def of_char_of take_bit_eq_mod)
    with False 1 show ?thesis by (subst show_nat.simps) (simp add: parse_digits_append)
  qed
qed

lemma parse_digits_digits: "parse_digits acc s = Some n \<Longrightarrow> list_all is_ascii_digit s"
  by (induction s arbitrary: acc) (auto split: if_splits)

end
