(* ===== verification/Rust_Collections.thy ===== *)
theory Rust_Collections
  imports Rust_Strings
begin

text \<open>
  \<open>BTreeMap\<close> and \<open>BTreeSet\<close> as the ordered sequences their iterators produce.  A map is an
  association list with strictly increasing keys; a set a strictly increasing list.  The locale
  \<open>ordered_map\<close> is the contract the metadata, JSON and configuration components rely on; it is
  interpreted on the association-list operations below, which those components call.
\<close>

subsection \<open>Operations\<close>

type_synonym ('k, 'v) btree_map = "('k \<times> 'v) list"

definition bm_get :: "'k \<Rightarrow> ('k, 'v) btree_map \<Rightarrow> 'v option" where
  "bm_get k m = map_of m k"

definition bm_contains_key :: "'k \<Rightarrow> ('k, 'v) btree_map \<Rightarrow> bool" where
  "bm_contains_key k m \<longleftrightarrow> bm_get k m \<noteq> None"

fun bm_insert :: "'k::linorder \<Rightarrow> 'v \<Rightarrow> ('k, 'v) btree_map \<Rightarrow> ('k, 'v) btree_map" where
  "bm_insert k v [] = [(k, v)]"
| "bm_insert k v ((k', v') # m) =
     (if k < k' then (k, v) # (k', v') # m
      else if k = k' then (k, v) # m
      else (k', v') # bm_insert k v m)"

definition bm_remove :: "'k \<Rightarrow> ('k, 'v) btree_map \<Rightarrow> ('k, 'v) btree_map" where
  "bm_remove k m = filter (\<lambda>e. fst e \<noteq> k) m"

text \<open>\<open>Extend\<close> and \<open>FromIterator\<close>: insert the pairs in order.\<close>

definition bm_extend :: "('k::linorder, 'v) btree_map \<Rightarrow> ('k \<times> 'v) list \<Rightarrow> ('k, 'v) btree_map" where
  "bm_extend m ps = fold (\<lambda>(k, v). bm_insert k v) ps m"

definition bm_sorted :: "('k::linorder, 'v) btree_map \<Rightarrow> bool" where
  "bm_sorted m \<longleftrightarrow> sorted_wrt (<) (map fst m)"

definition bs_insert :: "'a::linorder \<Rightarrow> 'a list \<Rightarrow> 'a list" where
  "bs_insert x xs = (if x \<in> set xs then xs else insort x xs)"

definition bs_from_iter :: "'a::linorder list \<Rightarrow> 'a list" where
  "bs_from_iter xs = fold bs_insert xs []"

subsection \<open>The contract of an ordered map\<close>

locale ordered_map =
  fixes empty :: "'m"
    and lookup :: "'k::linorder \<Rightarrow> 'm \<Rightarrow> 'v option"
    and insert :: "'k \<Rightarrow> 'v \<Rightarrow> 'm \<Rightarrow> 'm"
    and remove :: "'k \<Rightarrow> 'm \<Rightarrow> 'm"
    and entries :: "'m \<Rightarrow> ('k \<times> 'v) list"
    and invar :: "'m \<Rightarrow> bool"
  assumes lookup_empty: "lookup k empty = None"
    and invar_empty: "invar empty"
    and lookup_insert: "invar m \<Longrightarrow> lookup k (insert k' v m) = (if k = k' then Some v else lookup k m)"
    and invar_insert: "invar m \<Longrightarrow> invar (insert k v m)"
    and lookup_remove: "invar m \<Longrightarrow> lookup k (remove k' m) = (if k = k' then None else lookup k m)"
    and invar_remove: "invar m \<Longrightarrow> invar (remove k m)"
    and entries_lookup: "invar m \<Longrightarrow> (k, v) \<in> set (entries m) \<longleftrightarrow> lookup k m = Some v"
    and entries_sorted: "invar m \<Longrightarrow> sorted_wrt (<) (map fst (entries m))"
    and entries_inj: "entries m = entries m' \<Longrightarrow> m = m'"
begin

definition insert_all :: "('k \<times> 'v) list \<Rightarrow> 'm \<Rightarrow> 'm" where
  "insert_all ps m = fold (\<lambda>(k, v). insert k v) ps m"

lemma insert_all_simps [simp]:
  "insert_all [] m = m"
  "insert_all (p # ps) m = insert_all ps (insert (fst p) (snd p) m)"
  by (simp_all add: insert_all_def case_prod_beta)

lemma invar_insert_all: "invar m \<Longrightarrow> invar (insert_all ps m)"
  by (induction ps arbitrary: m) (simp_all add: invar_insert)

lemma lookup_insert_all:
  "invar m \<Longrightarrow> lookup k (insert_all ps m) =
     (case map_of (rev ps) k of None \<Rightarrow> lookup k m | Some v \<Rightarrow> Some v)"
proof (induction ps arbitrary: m)
  case (Cons p ps)
  then show ?case
    by (cases p) (simp add: invar_insert lookup_insert map_add_def split: option.split)
qed simp

lemma sorted_keys_unique:
  fixes xs ys :: "('k \<times> 'v) list"
  assumes "sorted_wrt (<) (map fst xs)" "sorted_wrt (<) (map fst ys)" "set xs = set ys"
  shows "xs = ys"
  using assms
proof (induction xs arbitrary: ys)
  case (Cons x xs)
  then obtain y ys' where ys: "ys = y # ys'" by (cases ys) auto
  have "x = y"
  proof (rule ccontr)
    assume "x \<noteq> y"
    then have "x \<in> set ys'" "y \<in> set xs" using Cons.prems(3) ys by auto
    then have "fst y < fst x" "fst x < fst y" using Cons.prems(1,2) ys by auto
    then show False by simp
  qed
  moreover have "x \<notin> set xs" "y \<notin> set ys'" using Cons.prems(1,2) ys by auto
  ultimately have "set xs = set ys'" using Cons.prems(3) ys by auto
  with Cons ys \<open>x = y\<close> show ?case by simp
qed simp

text \<open>A map is determined by its lookups.\<close>

lemma lookup_ext:
  assumes "invar m" "invar m'" "\<And>k. lookup k m = lookup k m'"
  shows "m = m'"
proof (rule entries_inj, rule sorted_keys_unique)
  show "set (entries m) = set (entries m')"
    using assms by (auto simp: entries_lookup)
qed (simp_all add: assms entries_sorted)

lemma insert_commute:
  "invar m \<Longrightarrow> k \<noteq> k' \<Longrightarrow> insert k v (insert k' v' m) = insert k' v' (insert k v m)"
  by (rule lookup_ext) (auto simp: invar_insert lookup_insert)

lemma insert_overwrite: "invar m \<Longrightarrow> insert k v (insert k v' m) = insert k v m"
  by (rule lookup_ext) (auto simp: invar_insert lookup_insert)

lemma insert_present: "invar m \<Longrightarrow> lookup k m = Some v \<Longrightarrow> insert k v m = m"
  by (rule lookup_ext) (auto simp: invar_insert lookup_insert)

lemma remove_insert: "invar m \<Longrightarrow> lookup k m = None \<Longrightarrow> remove k (insert k v m) = m"
  by (rule lookup_ext) (auto simp: invar_insert lookup_insert invar_remove lookup_remove)

lemma insert_all_entries: "invar m \<Longrightarrow> insert_all (entries m) empty = m"
proof (rule lookup_ext)
  assume m: "invar m"
  have d: "distinct (map fst (entries m))"
    using entries_sorted [OF m] by (simp add: strict_sorted_iff)
  fix k
  have mo: "map_of (rev (entries m)) = map_of (entries m)"
    using d by (intro map_of_inject_set [THEN iffD2]) (simp_all add: rev_map [symmetric])
  have "map_of (entries m) k = lookup k m"
  proof (cases "lookup k m")
    case None
    then show ?thesis using entries_lookup [OF m] by (auto simp: map_of_eq_None_iff)
  next
    case (Some v)
    then have "(k, v) \<in> set (entries m)" using entries_lookup [OF m] by blast
    with d Some show ?thesis by simp
  qed
  then show "lookup k (insert_all (entries m) empty) = lookup k m"
    by (simp add: lookup_insert_all invar_empty mo lookup_empty split: option.split)
qed (simp_all add: invar_insert_all invar_empty)

end

subsection \<open>Association lists provide it\<close>

lemma bm_sorted_simps [simp]:
  "bm_sorted []"
  "bm_sorted (e # m) \<longleftrightarrow> (\<forall>e' \<in> set m. fst e < fst e') \<and> bm_sorted m"
  by (auto simp: bm_sorted_def)

lemma bm_get_simps [simp]:
  "bm_get k [] = None"
  "bm_get k ((k', v) # m) = (if k = k' then Some v else bm_get k m)"
  by (auto simp: bm_get_def)

lemma bm_get_None: "bm_get k m = None \<longleftrightarrow> k \<notin> fst ` set m"
  by (simp add: bm_get_def map_of_eq_None_iff)

lemma set_bm_insert_fst: "fst ` set (bm_insert k v m) = insert k (fst ` set m)"
  by (induction k v m rule: bm_insert.induct) auto

lemma set_bm_insertD: "e \<in> set (bm_insert k v m) \<Longrightarrow> e = (k, v) \<or> e \<in> set m"
  by (induction k v m rule: bm_insert.induct) (auto split: if_splits)

lemma bm_sorted_insert: "bm_sorted m \<Longrightarrow> bm_sorted (bm_insert k v m)"
  by (induction k v m rule: bm_insert.induct) (auto dest!: set_bm_insertD)

lemma bm_get_insert: "bm_get k (bm_insert k' v m) = (if k = k' then Some v else bm_get k m)"
  by (induction k' v m rule: bm_insert.induct) auto

lemma bm_get_remove: "bm_get k (bm_remove k' m) = (if k = k' then None else bm_get k m)"
  by (induction m) (auto simp: bm_remove_def bm_get_None)

lemma bm_sorted_remove: "bm_sorted m \<Longrightarrow> bm_sorted (bm_remove k m)"
  by (induction m) (auto simp: bm_remove_def)

lemma bm_sorted_distinct: "bm_sorted m \<Longrightarrow> distinct (map fst m)"
  by (simp add: bm_sorted_def strict_sorted_iff)

interpretation bm: ordered_map "[]" bm_get bm_insert bm_remove "\<lambda>m. m" bm_sorted
proof unfold_locales
  fix m :: "('a, 'b) btree_map" and k v
  assume "bm_sorted m"
  then show "(k, v) \<in> set m \<longleftrightarrow> bm_get k m = Some v"
    by (simp add: bm_get_def bm_sorted_distinct)
qed (simp_all add: bm_get_insert bm_sorted_insert bm_get_remove bm_sorted_remove,
     simp add: bm_sorted_def)

lemma bm_extend_insert_all: "bm_extend m ps = bm.insert_all ps m"
  by (simp add: bm_extend_def bm.insert_all_def)

lemma bm_sorted_extend: "bm_sorted m \<Longrightarrow> bm_sorted (bm_extend m ps)"
  by (simp add: bm_extend_insert_all bm.invar_insert_all)

lemma bm_get_extend:
  assumes "bm_sorted m" "bm_sorted ps"
  shows "bm_get k (bm_extend m ps) = (case bm_get k ps of None \<Rightarrow> bm_get k m | Some v \<Rightarrow> Some v)"
proof -
  have "map_of (rev ps) = map_of ps"
    using bm_sorted_distinct [OF assms(2)]
    by (intro map_of_inject_set [THEN iffD2]) (simp_all add: rev_map [symmetric])
  then show ?thesis
    by (simp add: bm_extend_insert_all bm.lookup_insert_all assms(1)) (simp add: bm_get_def)
qed

lemma bm_get_mem: "bm_sorted m \<Longrightarrow> e \<in> set m \<Longrightarrow> bm_get (fst e) m = Some (snd e)"
  using bm.entries_lookup [of m "fst e" "snd e"] by simp

subsection \<open>Sets\<close>

lemma set_bs_insert [simp]: "set (bs_insert x xs) = insert x (set xs)"
  by (auto simp: bs_insert_def set_insort_key)

lemma strict_sorted_bs_insert: "sorted_wrt (<) xs \<Longrightarrow> sorted_wrt (<) (bs_insert x xs)"
  by (simp add: bs_insert_def strict_sorted_iff sorted_insort distinct_insort)

lemma fold_bs_insert:
  "set (fold bs_insert ys xs) = set xs \<union> set ys"
  "sorted_wrt (<) xs \<Longrightarrow> sorted_wrt (<) (fold bs_insert ys xs)"
  by (induction ys arbitrary: xs) (auto simp: strict_sorted_bs_insert)

lemma set_bs_from_iter [simp]: "set (bs_from_iter xs) = set xs"
  by (simp add: bs_from_iter_def fold_bs_insert)

lemma strict_sorted_bs_from_iter [simp]: "sorted_wrt (<) (bs_from_iter xs)"
  by (simp add: bs_from_iter_def fold_bs_insert)

lemma bs_from_iter_eq_Nil [simp]: "bs_from_iter xs = [] \<longleftrightarrow> xs = []"
  by (metis set_bs_from_iter set_empty)

lemma bs_from_iter_cong: "set xs = set ys \<Longrightarrow> bs_from_iter xs = bs_from_iter ys"
  by (metis set_bs_from_iter strict_sorted_bs_from_iter strict_sorted_equal)

end
