(* ===== verification/Rust_Floats.thy ===== *)
theory Rust_Floats
  imports Missive_Prelude
begin

unbundle bit_operations_syntax

text \<open>
  \<open>f64\<close> as its IEEE-754 binary64 bit pattern (\<open>f64::to_bits\<close>).  Only what the router and the
  store do with weights is modelled: the finiteness test, comparison with zero, the total order
  \<open>f64::total_cmp\<close> on the bits, and the test that the rounded difference of two finite weights
  is below \<open>f64::EPSILON\<close>.
\<close>

type_synonym f64 = u64

definition f64_sign :: "f64 \<Rightarrow> bool" where
  "f64_sign w \<longleftrightarrow> bit w 63"

definition f64_exponent :: "f64 \<Rightarrow> int" where
  "f64_exponent w = uint w div 2 ^ 52 mod 2 ^ 11"

definition f64_mantissa :: "f64 \<Rightarrow> int" where
  "f64_mantissa w = uint w mod 2 ^ 52"

definition f64_is_finite :: "f64 \<Rightarrow> bool" where
  "f64_is_finite w \<longleftrightarrow> f64_exponent w \<noteq> 2047"

definition f64_is_nan :: "f64 \<Rightarrow> bool" where
  "f64_is_nan w \<longleftrightarrow> f64_exponent w = 2047 \<and> f64_mantissa w \<noteq> 0"

text \<open>The comparison \<open>w > 0.0\<close>: false for a NaN, for both zeros and for negative values.\<close>

definition f64_gt_zero :: "f64 \<Rightarrow> bool" where
  "f64_gt_zero w \<longleftrightarrow> \<not> f64_is_nan w \<and> \<not> f64_sign w \<and> w \<noteq> 0"

text \<open>
  \<open>f64::total_cmp\<close>: reinterpret the bits as \<open>i64\<close> and flip the lower 63 bits of negative
  values; the results are compared as signed integers.
\<close>

definition f64_total_key :: "f64 \<Rightarrow> int" where
  "f64_total_key w = sint (w XOR (drop_bit 1 (signed_drop_bit 63 w)))"

definition f64_total_le :: "f64 \<Rightarrow> f64 \<Rightarrow> bool" where
  "f64_total_le a b \<longleftrightarrow> f64_total_key a \<le> f64_total_key b"

definition f64_total_less :: "f64 \<Rightarrow> f64 \<Rightarrow> bool" where
  "f64_total_less a b \<longleftrightarrow> f64_total_key a < f64_total_key b"

text \<open>
  The magnitude of a finite value in units of \<open>2\<^sup>-\<^sup>1\<^sup>0\<^sup>7\<^sup>4\<close>, which is an integer, and rounding an
  integer to 53 significant bits, ties to even.
\<close>

definition f64_magnitude :: "f64 \<Rightarrow> int" where
  "f64_magnitude w =
     (if f64_exponent w = 0 then f64_mantissa w
      else (2 ^ 52 + f64_mantissa w) * 2 ^ nat (f64_exponent w - 1))"

definition f64_units :: "f64 \<Rightarrow> int" where
  "f64_units w = (if f64_sign w then - f64_magnitude w else f64_magnitude w)"

fun bit_length :: "int \<Rightarrow> nat" where
  "bit_length n = (if n \<le> 0 then 0 else Suc (bit_length (n div 2)))"

declare bit_length.simps [simp del]

definition round_53 :: "int \<Rightarrow> int" where
  "round_53 n =
     (let s = bit_length n - 53; q = n div 2 ^ s; r = n mod 2 ^ s
      in if 2 * r > 2 ^ s \<or> (2 * r = 2 ^ s \<and> odd q) then (q + 1) * 2 ^ s else q * 2 ^ s)"

text \<open>\<open>(a - b).abs() < f64::EPSILON\<close> for finite \<open>a\<close>, \<open>b\<close>; \<open>f64::EPSILON\<close> is
  \<open>2\<^sup>-\<^sup>5\<^sup>2\<close>, that is \<open>2\<^sup>1\<^sup>0\<^sup>2\<^sup>2\<close> units.\<close>

definition f64_diff_below_epsilon :: "f64 \<Rightarrow> f64 \<Rightarrow> bool" where
  "f64_diff_below_epsilon a b \<longleftrightarrow> round_53 \<bar>f64_units a - f64_units b\<bar> < 2 ^ 1022"

definition f64_one :: f64 where
  "f64_one = 0x3FF0000000000000"

lemma f64_total_le_refl [simp]: "f64_total_le a a"
  by (simp add: f64_total_le_def)

lemma f64_total_le_trans: "f64_total_le a b \<Longrightarrow> f64_total_le b c \<Longrightarrow> f64_total_le a c"
  by (simp add: f64_total_le_def)

lemma f64_total_linear: "f64_total_le a b \<or> f64_total_le b a"
  by (auto simp: f64_total_le_def)

lemma f64_total_less_le: "f64_total_less a b \<longleftrightarrow> \<not> f64_total_le b a"
  by (auto simp: f64_total_le_def f64_total_less_def)

end
