(* ===== verification/Core_Error.thy ===== *)
theory Core_Error
  imports Rust_Strings Rust_Floats
begin

text \<open>
  \<open>crates/missive-core/src/error.rs\<close>: the error taxonomy, its diagnostic codes and process exit
  codes, the error value with its builder methods, and the serialisable report.

  A formatted message is the list of its pieces: literal text, the \<open>Debug\<close> rendering of a string
  (\<open>{:?}\<close>) and the \<open>Display\<close> rendering of a float, which are kept as the value they render.
\<close>

subsection \<open>Messages and source errors\<close>

datatype piece = Lit string | Dbg string | Flt f64

type_synonym message = "piece list"

text \<open>A boxed \<open>std::error::Error\<close>: its rendering and the error that caused it.\<close>

datatype std_error = StdError message "std_error option"

subsection \<open>Categories and exit codes\<close>

datatype ErrorCategory =
    Cat_Io | Cat_Config | Cat_Protocol | Cat_Transport | Cat_Storage | Cat_Auth
  | Cat_Validation | Cat_Orchestration

datatype MissiveExitCode =
    Exit_Success | Exit_Usage | Exit_Unavailable | Exit_Software | Exit_Io
  | Exit_TemporaryFailure | Exit_Protocol | Exit_Permission | Exit_Config
  | Exit_TaskFailed | Exit_TaskCancelled | Exit_TaskTimeout | Exit_TaskInputRequired

fun category_code :: "ErrorCategory \<Rightarrow> string" where
  "category_code Cat_Io = ''missive::io''"
| "category_code Cat_Config = ''missive::config''"
| "category_code Cat_Protocol = ''missive::protocol''"
| "category_code Cat_Transport = ''missive::transport''"
| "category_code Cat_Storage = ''missive::storage''"
| "category_code Cat_Auth = ''missive::auth''"
| "category_code Cat_Validation = ''missive::validation''"
| "category_code Cat_Orchestration = ''missive::orchestration''"

fun category_exit_code :: "ErrorCategory \<Rightarrow> MissiveExitCode" where
  "category_exit_code Cat_Validation = Exit_Usage"
| "category_exit_code Cat_Transport = Exit_Unavailable"
| "category_exit_code Cat_Io = Exit_Io"
| "category_exit_code Cat_Storage = Exit_TemporaryFailure"
| "category_exit_code Cat_Protocol = Exit_Protocol"
| "category_exit_code Cat_Auth = Exit_Permission"
| "category_exit_code Cat_Config = Exit_Config"
| "category_exit_code Cat_Orchestration = Exit_Software"

fun human_label :: "ErrorCategory \<Rightarrow> string" where
  "human_label Cat_Io = ''I/O''"
| "human_label Cat_Config = ''configuration''"
| "human_label Cat_Protocol = ''A2A protocol''"
| "human_label Cat_Transport = ''transport''"
| "human_label Cat_Storage = ''storage''"
| "human_label Cat_Auth = ''authentication''"
| "human_label Cat_Validation = ''validation''"
| "human_label Cat_Orchestration = ''orchestration''"

fun category_display :: "ErrorCategory \<Rightarrow> string" where
  "category_display Cat_Io = ''io''"
| "category_display Cat_Config = ''config''"
| "category_display Cat_Protocol = ''protocol''"
| "category_display Cat_Transport = ''transport''"
| "category_display Cat_Storage = ''storage''"
| "category_display Cat_Auth = ''auth''"
| "category_display Cat_Validation = ''validation''"
| "category_display Cat_Orchestration = ''orchestration''"

fun as_u8 :: "MissiveExitCode \<Rightarrow> u8" where
  "as_u8 Exit_Success = 0"
| "as_u8 Exit_Usage = 64"
| "as_u8 Exit_Unavailable = 69"
| "as_u8 Exit_Software = 70"
| "as_u8 Exit_Io = 74"
| "as_u8 Exit_TemporaryFailure = 75"
| "as_u8 Exit_Protocol = 76"
| "as_u8 Exit_Permission = 77"
| "as_u8 Exit_Config = 78"
| "as_u8 Exit_TaskFailed = 80"
| "as_u8 Exit_TaskCancelled = 81"
| "as_u8 Exit_TaskTimeout = 82"
| "as_u8 Exit_TaskInputRequired = 83"

definition as_i32 :: "MissiveExitCode \<Rightarrow> int" where
  "as_i32 c = uint (as_u8 c)"

subsection \<open>Errors\<close>

record MissiveError =
  err_category :: ErrorCategory
  err_message :: message
  err_source :: "std_error option"
  err_help :: "string option"
  err_exit_code :: "MissiveExitCode option"

type_synonym 'a outcome = "MissiveError + 'a"

definition error_new :: "ErrorCategory \<Rightarrow> message \<Rightarrow> MissiveError" where
  "error_new cat detail =
     \<lparr>err_category = cat, err_message = Lit (human_label cat @ '' error: '') # detail,
      err_source = None, err_help = None, err_exit_code = None\<rparr>"

definition error_io :: "string \<Rightarrow> std_error \<Rightarrow> MissiveError" where
  "error_io action source =
     (case source of StdError text _ \<Rightarrow>
       \<lparr>err_category = Cat_Io,
        err_message = Lit (''I/O error while '' @ action @ '': '') # text,
        err_source = Some source, err_help = None, err_exit_code = None\<rparr>)"

definition error_config :: "message \<Rightarrow> MissiveError" where
  "error_config detail = error_new Cat_Config detail"

definition error_protocol :: "message \<Rightarrow> MissiveError" where
  "error_protocol detail = error_new Cat_Protocol detail"

definition error_transport :: "message \<Rightarrow> MissiveError" where
  "error_transport detail = error_new Cat_Transport detail"

definition error_storage :: "message \<Rightarrow> MissiveError" where
  "error_storage detail = error_new Cat_Storage detail"

definition error_auth :: "message \<Rightarrow> MissiveError" where
  "error_auth detail = error_new Cat_Auth detail"

definition error_validation :: "message \<Rightarrow> MissiveError" where
  "error_validation detail = error_new Cat_Validation detail"

definition error_orchestration :: "message \<Rightarrow> MissiveError" where
  "error_orchestration detail = error_new Cat_Orchestration detail"

definition with_source :: "MissiveError \<Rightarrow> std_error \<Rightarrow> MissiveError" where
  "with_source e source = e\<lparr>err_source := Some source\<rparr>"

definition with_help :: "MissiveError \<Rightarrow> string \<Rightarrow> MissiveError" where
  "with_help e text = e\<lparr>err_help := Some text\<rparr>"

definition with_exit_code :: "MissiveError \<Rightarrow> MissiveExitCode \<Rightarrow> MissiveError" where
  "with_exit_code e code = e\<lparr>err_exit_code := Some code\<rparr>"

definition error_code :: "MissiveError \<Rightarrow> string" where
  "error_code e = category_code (err_category e)"

definition exit_code :: "MissiveError \<Rightarrow> MissiveExitCode" where
  "exit_code e =
     (case err_exit_code e of Some code \<Rightarrow> code | None \<Rightarrow> category_exit_code (err_category e))"

text \<open>The loop over \<open>source()\<close>, outermost source first.\<close>

primrec chain_messages :: "std_error \<Rightarrow> message list" where
  "chain_messages (StdError text cause) =
     text # (case map_option chain_messages cause of None \<Rightarrow> [] | Some ms \<Rightarrow> ms)"

definition source_messages :: "MissiveError \<Rightarrow> message list" where
  "source_messages e = (case err_source e of None \<Rightarrow> [] | Some s \<Rightarrow> chain_messages s)"

record ErrorReport =
  report_code :: string
  report_category :: ErrorCategory
  report_message :: message
  report_help :: "string option"
  report_sources :: "message list"
  report_exit_code :: u8

definition to_report :: "MissiveError \<Rightarrow> ErrorReport" where
  "to_report e =
     \<lparr>report_code = error_code e, report_category = err_category e,
      report_message = err_message e, report_help = err_help e,
      report_sources = source_messages e, report_exit_code = as_u8 (exit_code e)\<rparr>"

subsection \<open>Lemmas\<close>

lemmas error_kind_defs = error_config_def error_protocol_def error_transport_def
  error_storage_def error_auth_def error_validation_def error_orchestration_def

lemma error_new_sel [simp]:
  "err_category (error_new cat d) = cat"
  "err_source (error_new cat d) = None"
  "err_help (error_new cat d) = None"
  "err_exit_code (error_new cat d) = None"
  by (simp_all add: error_new_def)

lemma category_of_builders [simp]:
  "err_category (error_config d) = Cat_Config"
  "err_category (error_validation d) = Cat_Validation"
  "err_category (error_orchestration d) = Cat_Orchestration"
  "err_category (error_storage d) = Cat_Storage"
  "err_category (error_auth d) = Cat_Auth"
  "err_category (error_protocol d) = Cat_Protocol"
  "err_category (error_transport d) = Cat_Transport"
  "err_category (with_help e h) = err_category e"
  "err_category (with_source e s) = err_category e"
  "err_category (with_exit_code e c) = err_category e"
  by (simp_all add: error_kind_defs with_help_def with_source_def with_exit_code_def)

lemma exit_code_override [simp]: "exit_code (with_exit_code e c) = c"
  by (simp add: exit_code_def with_exit_code_def)

lemma inj_as_u8: "as_u8 a = as_u8 b \<longleftrightarrow> a = b"
  by (cases a; cases b) simp_all

lemma inj_category_exit_code: "category_exit_code a = category_exit_code b \<longleftrightarrow> a = b"
  by (cases a; cases b) simp_all

lemma inj_category_code: "category_code a = category_code b \<longleftrightarrow> a = b"
  by (cases a; cases b) simp_all

lemma category_exit_code_range:
  "64 \<le> as_u8 (category_exit_code c) \<and> as_u8 (category_exit_code c) \<le> 78"
  by (cases c) simp_all

end
