(* ===== verification/Rust_Json.thy ===== *)
theory Rust_Json
  imports Rust_Collections Core_Error
begin

text \<open>
  \<open>serde_json::Value\<close>.  The crate is built without \<open>preserve_order\<close>, so an object is a
  \<open>BTreeMap\<close> from keys to values.  A number keeps the representation \<open>serde_json\<close> gives it.
\<close>

datatype json_number = PosInt u64 | NegInt int | Float f64

datatype json =
    JNull
  | JBool bool
  | JNumber json_number
  | JString string
  | JArray "json list"
  | JObject "(string \<times> json) list"

text \<open>\<open>json!\<close> of an object.\<close>

definition json_object :: "(string \<times> json) list \<Rightarrow> json" where
  "json_object entries = JObject (bm_extend [] entries)"

text \<open>The accessors \<open>Value::as_str\<close> and \<open>Value::as_bool\<close>.\<close>

fun json_as_str :: "json \<Rightarrow> string option" where
  "json_as_str (JString s) = Some s"
| "json_as_str _ = None"

fun json_as_bool :: "json \<Rightarrow> bool option" where
  "json_as_bool (JBool b) = Some b"
| "json_as_bool _ = None"

text \<open>Every object, at any depth, has strictly increasing keys.\<close>

fun json_ok :: "json \<Rightarrow> bool" where
  "json_ok (JArray vs) \<longleftrightarrow> (\<forall>v \<in> set vs. json_ok v)"
| "json_ok (JObject es) \<longleftrightarrow> bm_sorted es \<and> (\<forall>e \<in> set es. json_ok (snd e))"
| "json_ok _ \<longleftrightarrow> True"

text \<open>Failures of \<open>serde\<close> deserialisation: a value of the wrong JSON type, or
  \<open>de::Error::custom\<close> around an error of the program.\<close>

datatype de_error = De_InvalidType | De_Custom MissiveError

definition de_custom :: "'a outcome \<Rightarrow> de_error + 'a" where
  "de_custom r = (case r of Inl e \<Rightarrow> Inl (De_Custom e) | Inr x \<Rightarrow> Inr x)"

lemma de_custom_simps [simp]:
  "de_custom (Inl e) = Inl (De_Custom e)"
  "de_custom (Inr x) = Inr x"
  by (simp_all add: de_custom_def)

lemma de_custom_Inr [result_iff]: "de_custom r = Inr x \<longleftrightarrow> r = Inr x"
  by (cases r) simp_all

fun deserialize_string :: "json \<Rightarrow> de_error + string" where
  "deserialize_string (JString s) = Inr s"
| "deserialize_string _ = Inl De_InvalidType"

end
