(* ===== verification/Core_Ids.thy ===== *)
theory Core_Ids
  imports Rust_Json
begin

text \<open>
  \<open>crates/missive-core/src/ids.rs\<close>: the three identifier validators and the eight identifier
  types the macro \<open>string_identifier!\<close> generates.  An identifier value is the validated string.
  The locale \<open>string_identifier\<close> is what the macro assumes of a validator; it is interpreted on
  each of the eight types.
\<close>

subsection \<open>Validators\<close>

definition NAMED_IDENTIFIER_MAX_BYTES :: nat where
  "NAMED_IDENTIFIER_MAX_BYTES = 63"

definition TRANSPORT_NAME_MAX_BYTES :: nat where
  "TRANSPORT_NAME_MAX_BYTES = 64"

definition OPAQUE_IDENTIFIER_MAX_BYTES :: nat where
  "OPAQUE_IDENTIFIER_MAX_BYTES = 256"

definition NAMED_IDENTIFIER_HELP :: string where
  "NAMED_IDENTIFIER_HELP =
     ''Use lowercase ASCII letters or digits, with '-', '_' or '.' only in the middle.''"

definition TRANSPORT_NAME_HELP :: string where
  "TRANSPORT_NAME_HELP =
     ''Use lowercase ASCII letters or digits, with '+', '-', '_' or '.' only in the middle.''"

definition OPAQUE_IDENTIFIER_HELP :: string where
  "OPAQUE_IDENTIFIER_HELP =
     ''Use a non-empty A2A identifier without whitespace or control characters.''"

definition is_ascii_lower_alphanumeric :: "char \<Rightarrow> bool" where
  "is_ascii_lower_alphanumeric b \<longleftrightarrow> is_ascii_lowercase b \<or> is_ascii_digit b"

definition is_named_separator :: "char \<Rightarrow> bool" where
  "is_named_separator b \<longleftrightarrow> b = CHR ''-'' \<or> b = CHR ''_'' \<or> b = CHR ''.''"

definition is_transport_separator :: "char \<Rightarrow> bool" where
  "is_transport_separator b \<longleftrightarrow>
     b = CHR ''+'' \<or> b = CHR ''-'' \<or> b = CHR ''_'' \<or> b = CHR ''.''"

definition invalid_identifier :: "string \<Rightarrow> string \<Rightarrow> string \<Rightarrow> string \<Rightarrow> MissiveError" where
  "invalid_identifier kind value reason help_text =
     with_help
       (error_validation [Lit (''invalid '' @ kind @ '' ''), Dbg value, Lit ('': '' @ reason)])
       help_text"

definition too_long_reason :: "nat \<Rightarrow> nat \<Rightarrow> string" where
  "too_long_reason len max_bytes =
     ''value is '' @ show_nat len @ '' bytes, but the maximum is '' @ show_nat max_bytes"

definition validate_identifier_shape ::
  "string \<Rightarrow> string \<Rightarrow> nat \<Rightarrow> string \<Rightarrow> string \<Rightarrow> (char \<Rightarrow> bool) \<Rightarrow> unit outcome" where
  "validate_identifier_shape kind value max_bytes allowed_description help_text is_separator =
     checks
       [fail_if (value = [])
          (invalid_identifier kind value ''value cannot be empty'' help_text),
        fail_if (max_bytes < length value)
          (invalid_identifier kind value (too_long_reason (length value) max_bytes) help_text),
        fail_if (\<not> is_ascii_lower_alphanumeric (value ! 0))
          (invalid_identifier kind value
            ''value must start with a lowercase ASCII letter or digit'' help_text),
        fail_if (\<not> is_ascii_lower_alphanumeric (value ! (length value - 1)))
          (invalid_identifier kind value
            ''value must end with a lowercase ASCII letter or digit'' help_text),
        try_for_each
          (\<lambda>b. fail_if (\<not> (is_ascii_lower_alphanumeric b \<or> is_separator b))
             (invalid_identifier kind value
               (''value must contain only '' @ allowed_description) help_text))
          value]"

definition validate_named_identifier :: "string \<Rightarrow> string \<Rightarrow> unit outcome" where
  "validate_named_identifier kind value =
     validate_identifier_shape kind value NAMED_IDENTIFIER_MAX_BYTES
       (''lowercase ASCII letters, digits, '-', '_' or '.'' @ [CHR 0x27]) NAMED_IDENTIFIER_HELP
       is_named_separator"

definition validate_transport_name :: "string \<Rightarrow> string \<Rightarrow> unit outcome" where
  "validate_transport_name kind value =
     validate_identifier_shape kind value TRANSPORT_NAME_MAX_BYTES
       (''lowercase ASCII letters, digits, '+', '-', '_' or '.'' @ [CHR 0x27]) TRANSPORT_NAME_HELP
       is_transport_separator"

definition validate_opaque_identifier :: "string \<Rightarrow> string \<Rightarrow> unit outcome" where
  "validate_opaque_identifier kind value =
     checks
       [fail_if (value = [])
          (invalid_identifier kind value ''value cannot be empty'' OPAQUE_IDENTIFIER_HELP),
        fail_if (OPAQUE_IDENTIFIER_MAX_BYTES < length value)
          (invalid_identifier kind value
            (too_long_reason (length value) OPAQUE_IDENTIFIER_MAX_BYTES) OPAQUE_IDENTIFIER_HELP),
        fail_if (has_whitespace value)
          (invalid_identifier kind value ''value cannot contain whitespace''
            OPAQUE_IDENTIFIER_HELP),
        fail_if (has_control value)
          (invalid_identifier kind value ''value cannot contain control characters''
            OPAQUE_IDENTIFIER_HELP)]"

subsection \<open>The identifier macro\<close>

text \<open>\<open>new\<close>, \<open>as_str\<close> (also \<open>into_string\<close> and \<open>Display\<close>), \<open>Serialize\<close> and
  \<open>Deserialize\<close> of a generated type, over its validator and kind.\<close>

definition identifier_new ::
  "(string \<Rightarrow> string \<Rightarrow> unit outcome) \<Rightarrow> string \<Rightarrow> string \<Rightarrow> string outcome" where
  "identifier_new validator kind value = and_then (validator kind value) (\<lambda>_. Inr value)"

definition identifier_serialize :: "string \<Rightarrow> json" where
  "identifier_serialize v = JString v"

definition identifier_deserialize ::
  "(string \<Rightarrow> string \<Rightarrow> unit outcome) \<Rightarrow> string \<Rightarrow> json \<Rightarrow> de_error + string" where
  "identifier_deserialize validator kind j =
     and_then (deserialize_string j) (\<lambda>value. de_custom (identifier_new validator kind value))"

type_synonym AgentAlias = string
type_synonym GroupName = string
type_synonym RankName = string
type_synonym TransportName = string
type_synonym ContextId = string
type_synonym TaskId = string
type_synonym MessageId = string
type_synonym EventId = string

definition AgentAlias_new :: "string \<Rightarrow> AgentAlias outcome" where
  "AgentAlias_new = identifier_new validate_named_identifier ''agent alias''"

definition GroupName_new :: "string \<Rightarrow> GroupName outcome" where
  "GroupName_new = identifier_new validate_named_identifier ''group name''"

definition RankName_new :: "string \<Rightarrow> RankName outcome" where
  "RankName_new = identifier_new validate_named_identifier ''rank name''"

definition TransportName_new :: "string \<Rightarrow> TransportName outcome" where
  "TransportName_new = identifier_new validate_transport_name ''transport name''"

definition ContextId_new :: "string \<Rightarrow> ContextId outcome" where
  "ContextId_new = identifier_new validate_opaque_identifier ''context id''"

definition TaskId_new :: "string \<Rightarrow> TaskId outcome" where
  "TaskId_new = identifier_new validate_opaque_identifier ''task id''"

definition MessageId_new :: "string \<Rightarrow> MessageId outcome" where
  "MessageId_new = identifier_new validate_opaque_identifier ''message id''"

definition EventId_new :: "string \<Rightarrow> EventId outcome" where
  "EventId_new = identifier_new validate_opaque_identifier ''event id''"

subsection \<open>What the validators accept\<close>

definition shaped :: "nat \<Rightarrow> (char \<Rightarrow> bool) \<Rightarrow> string \<Rightarrow> bool" where
  "shaped max_bytes is_separator v \<longleftrightarrow>
     v \<noteq> [] \<and> length v \<le> max_bytes \<and>
     is_ascii_lower_alphanumeric (hd v) \<and> is_ascii_lower_alphanumeric (last v) \<and>
     (\<forall>b \<in> set v. is_ascii_lower_alphanumeric b \<or> is_separator b)"

definition named_ok :: "string \<Rightarrow> bool" where
  "named_ok v \<longleftrightarrow> shaped 63 is_named_separator v"

definition transport_ok :: "string \<Rightarrow> bool" where
  "transport_ok v \<longleftrightarrow> shaped 64 is_transport_separator v"

definition opaque_ok :: "string \<Rightarrow> bool" where
  "opaque_ok v \<longleftrightarrow> v \<noteq> [] \<and> length v \<le> 256 \<and> \<not> has_whitespace v \<and> \<not> has_control v"

lemma validate_identifier_shape_Inr [result_iff]:
  "validate_identifier_shape kind v n d h sep = Inr u \<longleftrightarrow> shaped n sep v"
  by (cases "v = []")
    (auto simp: validate_identifier_shape_def checks_Inr try_for_each_Inr shaped_def hd_conv_nth
      last_conv_nth)

lemma validate_named_identifier_Inr [result_iff]:
  "validate_named_identifier kind v = Inr u \<longleftrightarrow> named_ok v"
  by (simp add: validate_named_identifier_def result_iff named_ok_def NAMED_IDENTIFIER_MAX_BYTES_def)

lemma validate_transport_name_Inr [result_iff]:
  "validate_transport_name kind v = Inr u \<longleftrightarrow> transport_ok v"
  by (simp add: validate_transport_name_def result_iff transport_ok_def TRANSPORT_NAME_MAX_BYTES_def)

lemma validate_opaque_identifier_Inr [result_iff]:
  "validate_opaque_identifier kind v = Inr u \<longleftrightarrow> opaque_ok v"
  by (auto simp: validate_opaque_identifier_def checks_Inr opaque_ok_def OPAQUE_IDENTIFIER_MAX_BYTES_def)

lemma invalid_identifier_category [simp]:
  "err_category (invalid_identifier k v r h) = Cat_Validation"
  by (simp add: invalid_identifier_def)

lemma validate_identifier_shape_category:
  assumes "validate_identifier_shape kind v n d h sep = Inl e"
  shows "err_category e = Cat_Validation"
  using assms by (auto simp: validate_identifier_shape_def elim!: try_for_each_error)

lemma validate_named_identifier_category:
  "validate_named_identifier kind v = Inl e \<Longrightarrow> err_category e = Cat_Validation"
  unfolding validate_named_identifier_def by (rule validate_identifier_shape_category)

lemma validate_transport_name_category:
  "validate_transport_name kind v = Inl e \<Longrightarrow> err_category e = Cat_Validation"
  unfolding validate_transport_name_def by (rule validate_identifier_shape_category)

lemma validate_opaque_identifier_category:
  assumes "validate_opaque_identifier kind v = Inl e"
  shows "err_category e = Cat_Validation"
  using assms by (auto simp: validate_opaque_identifier_def)

subsection \<open>The contract of a generated identifier type\<close>

locale string_identifier =
  fixes validator :: "string \<Rightarrow> string \<Rightarrow> unit outcome"
    and kind :: string
    and accepts :: "string \<Rightarrow> bool"
  assumes validator_iff: "validator kind v = Inr () \<longleftrightarrow> accepts v"
    and validator_category: "validator kind v = Inl e \<Longrightarrow> err_category e = Cat_Validation"
begin

lemma new_Inr: "identifier_new validator kind v = Inr a \<longleftrightarrow> a = v \<and> accepts v"
  by (auto simp: identifier_new_def and_then_Inr validator_iff)

lemma new_error: "\<not> accepts v \<longleftrightarrow> (\<exists>e. identifier_new validator kind v = Inl e \<and> err_category e = Cat_Validation)"
proof (cases "validator kind v")
  case (Inl e)
  then show ?thesis using validator_iff [of v] validator_category [of v e]
    by (simp add: identifier_new_def)
next
  case (Inr u)
  then show ?thesis using validator_iff [of v] by (simp add: identifier_new_def)
qed

text \<open>Display and parse, and serialise and deserialise, are inverse on constructed values, and
  deserialisation constructs nothing else.\<close>

lemma parse_display: "identifier_new validator kind v = Inr a \<Longrightarrow> identifier_new validator kind a = Inr a"
  by (simp add: new_Inr)

lemma deserialize_iff:
  "identifier_deserialize validator kind j = Inr a \<longleftrightarrow> j = identifier_serialize a \<and> accepts a"
  by (cases j) (auto simp: identifier_deserialize_def identifier_serialize_def new_Inr result_iff)

end

interpretation agent_alias: string_identifier validate_named_identifier "''agent alias''" named_ok
  by unfold_locales (simp_all add: result_iff validate_named_identifier_category)

interpretation group_name: string_identifier validate_named_identifier "''group name''" named_ok
  by unfold_locales (simp_all add: result_iff validate_named_identifier_category)

interpretation rank_name: string_identifier validate_named_identifier "''rank name''" named_ok
  by unfold_locales (simp_all add: result_iff validate_named_identifier_category)

interpretation transport_name: string_identifier validate_transport_name "''transport name''" transport_ok
  by unfold_locales (simp_all add: result_iff validate_transport_name_category)

interpretation context_id: string_identifier validate_opaque_identifier "''context id''" opaque_ok
  by unfold_locales (simp_all add: result_iff validate_opaque_identifier_category)

interpretation task_id: string_identifier validate_opaque_identifier "''task id''" opaque_ok
  by unfold_locales (simp_all add: result_iff validate_opaque_identifier_category)

interpretation message_id: string_identifier validate_opaque_identifier "''message id''" opaque_ok
  by unfold_locales (simp_all add: result_iff validate_opaque_identifier_category)

interpretation event_id: string_identifier validate_opaque_identifier "''event id''" opaque_ok
  by unfold_locales (simp_all add: result_iff validate_opaque_identifier_category)

end
