(* ===== verification/Core_Metadata.thy ===== *)
theory Core_Metadata
  imports Core_Ids
begin

text \<open>
  \<open>crates/missive-core/src/metadata.rs\<close>: JSON metadata maps with validated keys.  A metadata
  value is the ordered map itself; a method that mutates its receiver returns the new map.
\<close>

definition METADATA_A2A_PROTOCOL_VERSION :: string where
  "METADATA_A2A_PROTOCOL_VERSION = ''a2a.protocol_version''"

definition METADATA_A2A_EXTENSIONS :: string where
  "METADATA_A2A_EXTENSIONS = ''a2a.extensions''"

definition METADATA_A2A_SERVICE_PARAMETERS :: string where
  "METADATA_A2A_SERVICE_PARAMETERS = ''a2a.service_parameters''"

definition METADATA_KEY_MAX_BYTES :: nat where
  "METADATA_KEY_MAX_BYTES = 128"

definition METADATA_KEY_HELP :: string where
  "METADATA_KEY_HELP =
     ''Use a short non-empty metadata key without whitespace or control characters.''"

type_synonym Metadata = "(string, json) btree_map"

definition invalid_metadata_key :: "string \<Rightarrow> string \<Rightarrow> MissiveError" where
  "invalid_metadata_key key reason =
     with_help (error_validation [Lit ''invalid metadata key '', Dbg key, Lit ('': '' @ reason)])
       METADATA_KEY_HELP"

definition validate_metadata_key :: "string \<Rightarrow> unit outcome" where
  "validate_metadata_key key =
     checks
       [fail_if (key = []) (invalid_metadata_key key ''key cannot be empty''),
        fail_if (METADATA_KEY_MAX_BYTES < length key)
          (invalid_metadata_key key
            (''key is '' @ show_nat (length key) @ '' bytes, but the maximum is '' @
             show_nat METADATA_KEY_MAX_BYTES)),
        fail_if (has_whitespace key)
          (invalid_metadata_key key ''key cannot contain whitespace''),
        fail_if (has_control key)
          (invalid_metadata_key key ''key cannot contain control characters'')]"

definition metadata_new :: Metadata where
  "metadata_new = []"

definition metadata_len :: "Metadata \<Rightarrow> nat" where
  "metadata_len m = length m"

definition metadata_is_empty :: "Metadata \<Rightarrow> bool" where
  "metadata_is_empty m \<longleftrightarrow> m = []"

definition metadata_contains_key :: "Metadata \<Rightarrow> string \<Rightarrow> bool" where
  "metadata_contains_key m key \<longleftrightarrow> bm_contains_key key m"

text \<open>\<open>insert\<close> returns the updated map and the value it replaced.\<close>

definition metadata_insert :: "Metadata \<Rightarrow> string \<Rightarrow> json \<Rightarrow> (Metadata \<times> json option) outcome" where
  "metadata_insert m key value =
     and_then (validate_metadata_key key) (\<lambda>_. Inr (bm_insert key value m, bm_get key m))"

definition metadata_insert_str ::
  "Metadata \<Rightarrow> string \<Rightarrow> string \<Rightarrow> (Metadata \<times> json option) outcome" where
  "metadata_insert_str m key value = metadata_insert m key (JString value)"

fun insert_pairs :: "Metadata \<Rightarrow> (string \<times> json) list \<Rightarrow> Metadata outcome" where
  "insert_pairs m [] = Inr m"
| "insert_pairs m ((key, value) # ps) =
     and_then (metadata_insert m key value) (\<lambda>r. insert_pairs (fst r) ps)"

definition metadata_try_from_iter :: "(string \<times> json) list \<Rightarrow> Metadata outcome" where
  "metadata_try_from_iter ps = insert_pairs metadata_new ps"

definition metadata_get :: "Metadata \<Rightarrow> string \<Rightarrow> json option" where
  "metadata_get m key = bm_get key m"

definition metadata_get_str :: "Metadata \<Rightarrow> string \<Rightarrow> string option" where
  "metadata_get_str m key = Option.bind (metadata_get m key) json_as_str"

definition metadata_remove :: "Metadata \<Rightarrow> string \<Rightarrow> Metadata \<times> json option" where
  "metadata_remove m key = (bm_remove key m, bm_get key m)"

definition metadata_iter :: "Metadata \<Rightarrow> (string \<times> json) list" where
  "metadata_iter m = m"

definition metadata_merge :: "Metadata \<Rightarrow> Metadata \<Rightarrow> Metadata" where
  "metadata_merge m other = bm_extend m other"

definition metadata_serialize :: "Metadata \<Rightarrow> json" where
  "metadata_serialize m = JObject m"

fun metadata_deserialize :: "json \<Rightarrow> de_error + Metadata" where
  "metadata_deserialize (JObject es) =
     and_then (de_custom (try_for_each validate_metadata_key (map fst es))) (\<lambda>_. Inr es)"
| "metadata_deserialize _ = Inl De_InvalidType"

subsection \<open>The metadata invariant\<close>

definition metadata_key_ok :: "string \<Rightarrow> bool" where
  "metadata_key_ok k \<longleftrightarrow> k \<noteq> [] \<and> length k \<le> 128 \<and> \<not> has_whitespace k \<and> \<not> has_control k"

definition metadata_ok :: "Metadata \<Rightarrow> bool" where
  "metadata_ok m \<longleftrightarrow> bm_sorted m \<and> (\<forall>k \<in> fst ` set m. metadata_key_ok k)"

lemma validate_metadata_key_Inr [result_iff]:
  "validate_metadata_key k = Inr u \<longleftrightarrow> metadata_key_ok k"
  by (auto simp: validate_metadata_key_def metadata_key_ok_def METADATA_KEY_MAX_BYTES_def)

lemma validate_metadata_key_category:
  "validate_metadata_key k = Inl e \<Longrightarrow> err_category e = Cat_Validation"
  by (auto simp: validate_metadata_key_def invalid_metadata_key_def)

lemma metadata_ok_new [simp]: "metadata_ok metadata_new"
  by (simp add: metadata_ok_def metadata_new_def)

lemma metadata_insert_Inr:
  "metadata_insert m k v = Inr (m', old) \<longleftrightarrow>
     metadata_key_ok k \<and> m' = bm_insert k v m \<and> old = bm_get k m"
  by (auto simp: metadata_insert_def result_iff)

lemma metadata_ok_insert: "metadata_ok m \<Longrightarrow> metadata_insert m k v = Inr (m', old) \<Longrightarrow> metadata_ok m'"
  by (auto simp: metadata_insert_Inr metadata_ok_def bm_sorted_insert set_bm_insert_fst)

lemma metadata_ok_remove: "metadata_ok m \<Longrightarrow> metadata_ok (fst (metadata_remove m k))"
  by (auto simp: metadata_ok_def metadata_remove_def bm_sorted_remove) (auto simp: bm_remove_def)

lemma fst_set_bm_extend: "fst ` set (bm_extend m ps) = fst ` set m \<union> fst ` set ps"
proof (induction ps arbitrary: m)
  case (Cons p ps)
  have "bm_extend m (p # ps) = bm_extend (bm_insert (fst p) (snd p) m) ps"
    by (simp add: bm_extend_def case_prod_beta)
  with Cons show ?case by (simp add: set_bm_insert_fst)
qed (simp add: bm_extend_def)

lemma metadata_ok_merge: "metadata_ok m \<Longrightarrow> metadata_ok other \<Longrightarrow> metadata_ok (metadata_merge m other)"
  by (auto simp: metadata_ok_def metadata_merge_def bm_sorted_extend fst_set_bm_extend
      simp del: image_Un)

lemma insert_pairs_Inr:
  "insert_pairs m ps = Inr m' \<longleftrightarrow> (\<forall>p \<in> set ps. metadata_key_ok (fst p)) \<and> m' = bm_extend m ps"
proof (induction ps arbitrary: m)
  case (Cons p ps)
  obtain k v where "p = (k, v)" by (cases p)
  then show ?case
    by (auto simp: and_then_Inr metadata_insert_def result_iff Cons.IH bm_extend_def)
qed (auto simp: bm_extend_def)

lemma metadata_ok_try_from_iter: "metadata_try_from_iter ps = Inr m \<Longrightarrow> metadata_ok m"
  by (auto simp: metadata_try_from_iter_def insert_pairs_Inr metadata_ok_def metadata_new_def
      bm_sorted_extend fst_set_bm_extend)

lemma metadata_deserialize_Inr:
  "metadata_deserialize j = Inr m \<longleftrightarrow> j = metadata_serialize m \<and> (\<forall>k \<in> fst ` set m. metadata_key_ok k)"
  by (cases j) (auto simp: result_iff metadata_serialize_def)

lemma metadata_try_from_entries: "metadata_ok m \<Longrightarrow> metadata_try_from_iter (metadata_iter m) = Inr m"
  by (auto simp: metadata_try_from_iter_def insert_pairs_Inr metadata_ok_def metadata_iter_def
      metadata_new_def bm_extend_insert_all bm.insert_all_entries)

lemmas metadata_ok_ops = metadata_ok_insert metadata_ok_remove metadata_ok_merge
  metadata_ok_try_from_iter

end
