(* ===== verification/Core_Timestamp.thy ===== *)
theory Core_Timestamp
  imports Core_Metadata
begin

text \<open>
  \<open>crates/missive-core/src/timestamp.rs\<close> and \<open>envelope.rs\<close>.  \<open>MissiveTimestamp\<close> wraps the
  \<open>chrono\<close> crate's \<open>DateTime<Utc>\<close>, which is not part of the repository: the type \<open>'dt\<close> of
  date-times and the functions of \<open>chrono\<close> the code calls are parameters, collected in a record,
  and its documented laws are the hypotheses below.
\<close>

record 'dt chrono =
  chrono_from_timestamp :: "int \<Rightarrow> 'dt option"
  chrono_timestamp :: "'dt \<Rightarrow> int"
  chrono_to_rfc3339 :: "'dt \<Rightarrow> string"
  chrono_parse_rfc3339 :: "string \<Rightarrow> std_error + 'dt"

definition from_unix_timestamp :: "'dt chrono \<Rightarrow> int \<Rightarrow> 'dt outcome" where
  "from_unix_timestamp C seconds =
     ok_or (chrono_from_timestamp C seconds)
       (with_help
         (error_validation
           [Lit (''invalid unix timestamp '' @ show_int seconds @
                 '': value is outside supported range'')])
         ''Use a Unix timestamp supported by chrono.'')"

definition unix_timestamp :: "'dt chrono \<Rightarrow> 'dt \<Rightarrow> int" where
  "unix_timestamp C t = chrono_timestamp C t"

definition to_rfc3339 :: "'dt chrono \<Rightarrow> 'dt \<Rightarrow> string" where
  "to_rfc3339 C t = chrono_to_rfc3339 C t"

definition timestamp_from_str :: "'dt chrono \<Rightarrow> string \<Rightarrow> 'dt outcome" where
  "timestamp_from_str C value =
     (case chrono_parse_rfc3339 C value of
        Inr t \<Rightarrow> Inr t
      | Inl error \<Rightarrow>
          Inl (with_help
            (with_source
              (error_validation
                [Lit ''invalid timestamp '', Dbg value, Lit '': expected an RFC3339 timestamp''])
              error)
            ''Use an RFC3339 timestamp such as 2025-01-02T03:04:05Z.''))"

definition timestamp_serialize :: "'dt chrono \<Rightarrow> 'dt \<Rightarrow> json" where
  "timestamp_serialize C t = JString (to_rfc3339 C t)"

definition timestamp_deserialize :: "'dt chrono \<Rightarrow> json \<Rightarrow> de_error + 'dt" where
  "timestamp_deserialize C j =
     and_then (deserialize_string j) (\<lambda>value. de_custom (timestamp_from_str C value))"

text \<open>
  Documented behaviour of \<open>chrono\<close>: \<open>timestamp\<close> recovers the seconds of
  \<open>DateTime::from_timestamp(secs, 0)\<close>, which succeeds exactly for seconds between those of the
  least and the greatest date-time; every date-time has an \<open>i64\<close> timestamp in that range with a
  day to spare inside \<open>i64\<close>; and the order of date-times agrees with that of their seconds.
\<close>

definition chrono_seconds_law :: "'dt chrono \<Rightarrow> bool" where
  "chrono_seconds_law C \<longleftrightarrow>
     (\<forall>s t. chrono_from_timestamp C s = Some t \<longrightarrow> chrono_timestamp C t = s)"

definition chrono_order_law :: "'dt::linorder chrono \<Rightarrow> bool" where
  "chrono_order_law C \<longleftrightarrow>
     (\<forall>t u. chrono_timestamp C t < chrono_timestamp C u \<longrightarrow> t < u) \<and>
     (\<forall>t s u. chrono_from_timestamp C s = Some u \<longrightarrow> s \<le> chrono_timestamp C t \<longrightarrow> u \<le> t)"

definition chrono_range_law :: "'dt chrono \<Rightarrow> int \<Rightarrow> int \<Rightarrow> bool" where
  "chrono_range_law C lo hi \<longleftrightarrow>
     i64_min + 200000 \<le> lo \<and> hi \<le> i64_max - 200000 \<and>
     (\<forall>s. chrono_from_timestamp C s \<noteq> None \<longleftrightarrow> lo \<le> s \<and> s \<le> hi) \<and>
     (\<forall>t. lo \<le> chrono_timestamp C t \<and> chrono_timestamp C t \<le> hi)"

subsection \<open>Envelopes\<close>

record ('dt, 'p) Envelope =
  env_event_id :: EventId
  env_timestamp :: 'dt
  env_metadata :: Metadata
  env_payload :: 'p

definition envelope_new :: "EventId \<Rightarrow> 'dt \<Rightarrow> 'p \<Rightarrow> ('dt, 'p) Envelope" where
  "envelope_new event_id timestamp payload =
     \<lparr>env_event_id = event_id, env_timestamp = timestamp, env_metadata = metadata_new,
      env_payload = payload\<rparr>"

definition envelope_with_metadata :: "('dt, 'p) Envelope \<Rightarrow> Metadata \<Rightarrow> ('dt, 'p) Envelope" where
  "envelope_with_metadata e m = e\<lparr>env_metadata := m\<rparr>"

definition map_payload :: "('dt, 'p) Envelope \<Rightarrow> ('p \<Rightarrow> 'q) \<Rightarrow> ('dt, 'q) Envelope" where
  "map_payload e f =
     \<lparr>env_event_id = env_event_id e, env_timestamp = env_timestamp e,
      env_metadata = env_metadata e, env_payload = f (env_payload e)\<rparr>"

text \<open>The derived serialisation skips empty metadata and the derived deserialisation defaults
  it.\<close>

definition envelope_serialize ::
  "'dt chrono \<Rightarrow> ('p \<Rightarrow> json) \<Rightarrow> ('dt, 'p) Envelope \<Rightarrow> json" where
  "envelope_serialize C ser e =
     JObject (bm_extend []
       ([(''event_id'', identifier_serialize (env_event_id e)),
         (''timestamp'', timestamp_serialize C (env_timestamp e))] @
        (if metadata_is_empty (env_metadata e) then []
         else [(''metadata'', metadata_serialize (env_metadata e))]) @
        [(''payload'', ser (env_payload e))]))"

lemma map_payload_comp: "map_payload (map_payload e f) g = map_payload e (g \<circ> f)"
  by (simp add: map_payload_def)

lemma map_payload_id: "map_payload e id = e"
  by (simp add: map_payload_def)

end
