(* ===== verification/Core_Routing.thy ===== *)
theory Core_Routing
  imports Core_Error
begin

text \<open>
  \<open>crates/missive-core/src/routing.rs\<close>: routing policy names and their parsers.
\<close>

datatype RoutingPolicyKind =
    Direct | CapabilityMatch | TagMatch | RoundRobin | Weighted | Broadcast | FirstSuccess
  | Quorum | Fallback

definition SUPPORTED_ROUTING_POLICIES :: "string list" where
  "SUPPORTED_ROUTING_POLICIES =
     [''direct'', ''capability-match'', ''tag-match'', ''round-robin'', ''weighted'',
      ''broadcast'', ''first-success'', ''quorum'', ''fallback'']"

definition ROUTING_POLICY_HELP :: string where
  "ROUTING_POLICY_HELP =
     ''Use one of: direct, capability-match, tag-match, round-robin, weighted, broadcast, first-success, quorum, fallback.''"

fun policy_as_str :: "RoutingPolicyKind \<Rightarrow> string" where
  "policy_as_str Direct = ''direct''"
| "policy_as_str CapabilityMatch = ''capability-match''"
| "policy_as_str TagMatch = ''tag-match''"
| "policy_as_str RoundRobin = ''round-robin''"
| "policy_as_str Weighted = ''weighted''"
| "policy_as_str Broadcast = ''broadcast''"
| "policy_as_str FirstSuccess = ''first-success''"
| "policy_as_str Quorum = ''quorum''"
| "policy_as_str Fallback = ''fallback''"

text \<open>The arms of the \<open>match\<close> on the trimmed name, in order.\<close>

definition policy_names :: "(string \<times> RoutingPolicyKind) list" where
  "policy_names =
     [(''direct'', Direct),
      (''capability-match'', CapabilityMatch), (''capability_match'', CapabilityMatch),
      (''tag-match'', TagMatch), (''tag_match'', TagMatch),
      (''round-robin'', RoundRobin), (''round_robin'', RoundRobin),
      (''weighted'', Weighted),
      (''broadcast'', Broadcast),
      (''first-success'', FirstSuccess), (''first_success'', FirstSuccess),
      (''quorum'', Quorum),
      (''fallback'', Fallback)]"

definition from_name :: "string \<Rightarrow> RoutingPolicyKind option" where
  "from_name value = map_of policy_names (trim value)"

definition parse_routing_policy :: "string \<Rightarrow> RoutingPolicyKind outcome" where
  "parse_routing_policy value =
     (let trimmed = trim value
      in ok_or (from_name trimmed)
           (with_help (error_validation [Lit ''unknown routing policy '', Dbg trimmed])
             ROUTING_POLICY_HELP))"

definition parse_config_routing_policy :: "string \<Rightarrow> string \<Rightarrow> RoutingPolicyKind outcome" where
  "parse_config_routing_policy field value =
     (let trimmed = trim value
      in ok_or (from_name trimmed)
           (with_help
             (error_config [Lit (field @ '' has unknown routing policy ''), Dbg trimmed])
             ROUTING_POLICY_HELP))"

subsection \<open>Names\<close>

text \<open>The spellings of a policy: the canonical one and the \<open>snake_case\<close> alias.\<close>

definition policy_spellings :: "RoutingPolicyKind \<Rightarrow> string list" where
  "policy_spellings p =
     [policy_as_str p, map (\<lambda>c. if c = CHR ''-'' then CHR ''_'' else c) (policy_as_str p)]"

lemma policy_names_spelling: "s \<in> set (policy_spellings p) \<Longrightarrow> map_of policy_names s = Some p"
proof -
  assume s: "s \<in> set (policy_spellings p)"
  have "list_all (\<lambda>p. list_all (\<lambda>s. map_of policy_names s = Some p) (policy_spellings p))
    [Direct, CapabilityMatch, TagMatch, RoundRobin, Weighted, Broadcast, FirstSuccess, Quorum, Fallback]"
    by code_simp
  then have "list_all (\<lambda>s. map_of policy_names s = Some p) (policy_spellings p)"
    by (cases p) simp_all
  with s show ?thesis by (simp add: list_all_iff)
qed

lemma policy_names_Some: "map_of policy_names s = Some p \<longleftrightarrow> s \<in> set (policy_spellings p)"
proof
  assume "map_of policy_names s = Some p"
  then have "(s, p) \<in> set policy_names" by (rule map_of_SomeD)
  moreover have "list_all (\<lambda>(s, p). s \<in> set (policy_spellings p)) policy_names"
    by code_simp
  ultimately show "s \<in> set (policy_spellings p)" by (auto simp: list_all_iff)
qed (rule policy_names_spelling)

text \<open>A spelling is plain ASCII without white space, so trimming leaves it alone.\<close>

definition solid :: "string \<Rightarrow> bool" where
  "solid s \<longleftrightarrow> s \<noteq> [] \<and> list_all is_ascii s \<and>
     \<not> is_whitespace (byte (hd s)) \<and> \<not> is_whitespace (byte (last s))"

lemma solid_policy_spelling: "s \<in> set (policy_spellings p) \<Longrightarrow> solid s"
  by (cases p) (auto simp: policy_spellings_def solid_def is_ascii_def is_whitespace_def)

definition blank :: "string \<Rightarrow> bool" where
  "blank w \<longleftrightarrow> at_boundary w \<and> list_all is_whitespace (chars w)"

lemma at_boundary_solid: "solid s \<Longrightarrow> at_boundary (s @ t)"
  by (cases s) (auto simp: solid_def is_ascii_def is_cont_def)

lemma trim_solid_padded:
  assumes "blank w" "blank w'" "solid s"
  shows "trim (w @ s @ w') = s"
proof -
  let ?p = "\<lambda>c. is_whitespace (code_point c)"
  have sc: "char_chunks s = map (\<lambda>b. [b]) s" using assms(3) by (simp add: solid_def char_chunks_ascii)
  have cs: "char_chunks (w @ s @ w') = char_chunks w @ map (\<lambda>b. [b]) s @ char_chunks w'"
    using assms at_boundary_solid [OF assms(3), of w']
    by (simp add: char_chunks_append blank_def sc)
  have ww: "\<forall>c \<in> set (char_chunks w). ?p c" "\<forall>c \<in> set (char_chunks w'). ?p c"
    using assms(1,2) by (auto simp: blank_def chars_def list_all_iff)
  have s: "s \<noteq> []" "\<not> ?p [hd s]" "\<not> ?p [last s]" using assms(3) by (simp_all add: solid_def)
  have "dropWhile ?p (char_chunks (w @ s @ w')) = map (\<lambda>b. [b]) s @ char_chunks w'"
    unfolding cs using ww(1) s(1,2) by (cases s) (simp_all add: dropWhile_append2)
  moreover have "dropWhile ?p (rev (map (\<lambda>b. [b]) s @ char_chunks w')) = rev (map (\<lambda>b. [b]) s)"
  proof -
    have "dropWhile ?p (rev (char_chunks w') @ rev (map (\<lambda>b. [b]) s)) =
          dropWhile ?p (rev (map (\<lambda>b. [b]) s))"
      using ww(2) by (intro dropWhile_append2) simp
    then show ?thesis using s(1,3) by (cases s rule: rev_cases) simp_all
  qed
  ultimately have "char_chunks (trim (w @ s @ w')) = map (\<lambda>b. [b]) s"
    by (simp add: char_chunks_trim rev_map)
  then show ?thesis by (metis concat_char_chunks sc)
qed

lemma blank_Nil [simp]: "blank []"
  by (simp add: blank_def chars_def)

lemma trim_solid [simp]: "solid s \<Longrightarrow> trim s = s"
  using trim_solid_padded [of "[]" "[]" s] by simp

lemma from_name_spelling_padded:
  "blank w \<Longrightarrow> blank w' \<Longrightarrow> s \<in> set (policy_spellings p) \<Longrightarrow> from_name (w @ s @ w') = Some p"
  by (simp add: from_name_def trim_solid_padded solid_policy_spelling policy_names_spelling)

lemma parse_routing_policy_Inr:
  "parse_routing_policy v = Inr p \<longleftrightarrow> trim v \<in> set (policy_spellings p)"
  by (simp add: parse_routing_policy_def Let_def from_name_def policy_names_Some)

lemma parse_config_routing_policy_Inr:
  "parse_config_routing_policy f v = Inr p \<longleftrightarrow> trim v \<in> set (policy_spellings p)"
  by (simp add: parse_config_routing_policy_def Let_def from_name_def policy_names_Some)

end
