(* ===== verification/Core_Properties.thy ===== *)
theory Core_Properties
  imports Core_Timestamp Core_Routing
begin

text \<open>
  Properties of the core data types (\<open>crates/missive-core/src\<close>): identifiers, metadata,
  routing-policy names and errors.
\<close>

subsection \<open>Identifiers\<close>

text \<open>C40. Each of the eight identifier types accepts exactly the strings of its shape, keeps the string
  unchanged, and its JSON form is that string: deserialisation inverts serialisation and constructs
  nothing that the constructor would reject.\<close>

theorem identifiers_exact:
  "(AgentAlias_new s = Inr a \<longleftrightarrow> a = s \<and> named_ok s) \<and>
   (GroupName_new s = Inr a \<longleftrightarrow> a = s \<and> named_ok s) \<and>
   (RankName_new s = Inr a \<longleftrightarrow> a = s \<and> named_ok s) \<and>
   (TransportName_new s = Inr a \<longleftrightarrow> a = s \<and> transport_ok s) \<and>
   (ContextId_new s = Inr a \<longleftrightarrow> a = s \<and> opaque_ok s) \<and>
   (TaskId_new s = Inr a \<longleftrightarrow> a = s \<and> opaque_ok s) \<and>
   (MessageId_new s = Inr a \<longleftrightarrow> a = s \<and> opaque_ok s) \<and>
   (EventId_new s = Inr a \<longleftrightarrow> a = s \<and> opaque_ok s) \<and>
   (identifier_deserialize validate_named_identifier ''agent alias'' j = Inr a \<longleftrightarrow>
      j = identifier_serialize a \<and> AgentAlias_new a = Inr a) \<and>
   (identifier_deserialize validate_named_identifier ''group name'' j = Inr a \<longleftrightarrow>
      j = identifier_serialize a \<and> GroupName_new a = Inr a) \<and>
   (identifier_deserialize validate_named_identifier ''rank name'' j = Inr a \<longleftrightarrow>
      j = identifier_serialize a \<and> RankName_new a = Inr a) \<and>
   (identifier_deserialize validate_transport_name ''transport name'' j = Inr a \<longleftrightarrow>
      j = identifier_serialize a \<and> TransportName_new a = Inr a) \<and>
   (identifier_deserialize validate_opaque_identifier ''context id'' j = Inr a \<longleftrightarrow>
      j = identifier_serialize a \<and> ContextId_new a = Inr a) \<and>
   (identifier_deserialize validate_opaque_identifier ''task id'' j = Inr a \<longleftrightarrow>
      j = identifier_serialize a \<and> TaskId_new a = Inr a) \<and>
   (identifier_deserialize validate_opaque_identifier ''message id'' j = Inr a \<longleftrightarrow>
      j = identifier_serialize a \<and> MessageId_new a = Inr a) \<and>
   (identifier_deserialize validate_opaque_identifier ''event id'' j = Inr a \<longleftrightarrow>
      j = identifier_serialize a \<and> EventId_new a = Inr a)"
  unfolding AgentAlias_new_def GroupName_new_def RankName_new_def TransportName_new_def
    ContextId_new_def TaskId_new_def MessageId_new_def EventId_new_def
  by (simp add: agent_alias.new_Inr group_name.new_Inr rank_name.new_Inr transport_name.new_Inr
      context_id.new_Inr task_id.new_Inr message_id.new_Inr event_id.new_Inr
      agent_alias.deserialize_iff group_name.deserialize_iff rank_name.deserialize_iff
      transport_name.deserialize_iff context_id.deserialize_iff task_id.deserialize_iff
      message_id.deserialize_iff event_id.deserialize_iff)

lemma plain_byte:
  "is_ascii_lower_alphanumeric b \<or> is_named_separator b \<Longrightarrow>
   is_ascii b \<and> \<not> is_whitespace (byte b) \<and> \<not> is_control (byte b) \<and>
   (is_ascii_lower_alphanumeric b \<or> is_transport_separator b)"
  by (auto simp: is_ascii_lower_alphanumeric_def is_named_separator_def is_transport_separator_def
      ascii_defs is_whitespace_def is_control_def)

lemma named_ok_embeds: "named_ok s \<Longrightarrow> transport_ok s \<and> opaque_ok s"
proof -
  assume s: "named_ok s"
  then have b: "\<forall>b \<in> set s. is_ascii b \<and> \<not> is_whitespace (byte b) \<and> \<not> is_control (byte b) \<and>
      (is_ascii_lower_alphanumeric b \<or> is_transport_separator b)"
    using plain_byte by (simp add: named_ok_def shaped_def)
  then have "chars s = map byte s" by (intro chars_ascii) (simp add: list_all_iff)
  with b s show ?thesis
    by (auto simp: named_ok_def transport_ok_def shaped_def opaque_ok_def has_whitespace_def
        has_control_def list_ex_iff)
qed

text \<open>The three identifier grammars are nested: whatever is accepted as an agent alias is also
  accepted, unchanged, as a group name, a transport name and as any opaque protocol identifier.\<close>

lemma alias_is_opaque:
  assumes "AgentAlias_new s = Inr a"
  shows "GroupName_new s = Inr a \<and> TransportName_new s = Inr a \<and> ContextId_new s = Inr a \<and>
    TaskId_new s = Inr a \<and> MessageId_new s = Inr a \<and> EventId_new s = Inr a"
  using assms named_ok_embeds [of s]
  unfolding AgentAlias_new_def GroupName_new_def TransportName_new_def
    ContextId_new_def TaskId_new_def MessageId_new_def EventId_new_def
  by (simp add: agent_alias.new_Inr group_name.new_Inr transport_name.new_Inr
      context_id.new_Inr task_id.new_Inr message_id.new_Inr event_id.new_Inr)

subsection \<open>Metadata\<close>

text \<open>Every way a metadata map comes into being.\<close>

inductive metadata_built :: "Metadata \<Rightarrow> bool" where
  empty: "metadata_built metadata_new"
| from_pairs: "metadata_try_from_iter ps = Inr m \<Longrightarrow> metadata_built m"
| from_json: "json_ok j \<Longrightarrow> metadata_deserialize j = Inr m \<Longrightarrow> metadata_built m"
| inserted: "metadata_built m \<Longrightarrow> metadata_insert m k v = Inr (m', old) \<Longrightarrow> metadata_built m'"
| removed: "metadata_built m \<Longrightarrow> metadata_built (fst (metadata_remove m k))"
| merged: "metadata_built m \<Longrightarrow> metadata_built n \<Longrightarrow> metadata_built (metadata_merge m n)"

lemma metadata_ok_from_json: "json_ok j \<Longrightarrow> metadata_deserialize j = Inr m \<Longrightarrow> metadata_ok m"
  by (auto simp: metadata_deserialize_Inr metadata_serialize_def metadata_ok_def)

lemma metadata_built_ok: "metadata_built m \<Longrightarrow> metadata_ok m"
  by (induction rule: metadata_built.induct) (auto intro: metadata_ok_ops metadata_ok_from_json)

lemma demo_insert:
  "metadata_insert metadata_new ''team'' (JString ''core'') = Inr ([(''team'', JString ''core'')], None)"
  by (simp add: metadata_insert_Inr metadata_new_def metadata_key_ok_def has_whitespace_def
      has_control_def chars_ascii is_ascii_def is_whitespace_def is_control_def)

text \<open>However a metadata map was built, its keys are valid and strictly increasing, and both of its
  external forms reproduce it: the list of its entries and its JSON object.\<close>

lemma metadata_built_roundtrip:
  assumes "metadata_built m"
  shows "metadata_ok m \<and> metadata_try_from_iter (metadata_iter m) = Inr m \<and>
    metadata_deserialize (metadata_serialize m) = Inr m"
  using metadata_built_ok [OF assms]
  by (auto simp: metadata_try_from_entries metadata_deserialize_Inr metadata_ok_def)

text \<open>Lookup after each mutation: an insertion returns the value it replaced and changes only its
  key, a removal clears only its key, and a merge prefers the right-hand map.\<close>

lemma metadata_lookup:
  assumes "metadata_built m" "metadata_built n"
  shows "(metadata_insert m k v = Inr (m', old) \<longrightarrow> old = metadata_get m k \<and>
      metadata_get m' k' = (if k' = k then Some v else metadata_get m k')) \<and>
    metadata_get (fst (metadata_remove m k)) k' = (if k' = k then None else metadata_get m k') \<and>
    metadata_get (metadata_merge m n) k' =
      (case metadata_get n k' of Some w \<Rightarrow> Some w | None \<Rightarrow> metadata_get m k')"
  using metadata_built_ok [OF assms(1)] metadata_built_ok [OF assms(2)]
  by (simp add: metadata_insert_Inr metadata_get_def metadata_remove_def metadata_merge_def
      metadata_ok_def bm_get_insert bm_get_remove bm_get_extend split: option.split)

subsection \<open>Routing policy names\<close>

text \<open>A policy name parses exactly when, white space aside, it is the canonical name or its
  snake-case alias, both on the command line and in the configuration; each policy's displayed name
  parses back to it; other names are rejected as a validation or a configuration error.\<close>

lemma parse_routing_policy_exact:
  "(parse_routing_policy v = Inr p \<longleftrightarrow> trim v \<in> set (policy_spellings p)) \<and>
   (parse_config_routing_policy f v = Inr p \<longleftrightarrow> trim v \<in> set (policy_spellings p)) \<and>
   parse_routing_policy (policy_as_str p) = Inr p \<and>
   (case parse_routing_policy v of Inr _ \<Rightarrow> True | Inl e \<Rightarrow> err_category e = Cat_Validation) \<and>
   (case parse_config_routing_policy f v of Inr _ \<Rightarrow> True | Inl e \<Rightarrow> err_category e = Cat_Config)"
proof -
  have "policy_as_str p \<in> set (policy_spellings p)" by (simp add: policy_spellings_def)
  then have "trim (policy_as_str p) = policy_as_str p" by (simp add: solid_policy_spelling)
  moreover have "parse_routing_policy v = Inl e \<Longrightarrow> err_category e = Cat_Validation"
    "parse_config_routing_policy f v = Inl e \<Longrightarrow> err_category e = Cat_Config" for e
    by (auto simp: parse_routing_policy_def parse_config_routing_policy_def Let_def)
  ultimately show ?thesis
    by (auto simp: parse_routing_policy_Inr parse_config_routing_policy_Inr policy_spellings_def split: sum.splits)
qed

subsection \<open>Errors\<close>

text \<open>A report is stable for automation: without an override its exit code lies between 64 and 78
  and determines the error category, as does the code string; an override replaces the exit code
  and nothing else; and help or source text never changes either code.\<close>

lemma error_report_codes:
  "(err_exit_code e = None \<longrightarrow> err_exit_code f = None \<longrightarrow>
      64 \<le> report_exit_code (to_report e) \<and> report_exit_code (to_report e) \<le> 78 \<and>
      (report_exit_code (to_report e) = report_exit_code (to_report f) \<longleftrightarrow>
         err_category e = err_category f)) \<and>
   (report_code (to_report e) = report_code (to_report f) \<longleftrightarrow> err_category e = err_category f) \<and>
   to_report (with_exit_code e c) = (to_report e)\<lparr>report_exit_code := as_u8 c\<rparr> \<and>
   to_report (with_help e h) = (to_report e)\<lparr>report_help := Some h\<rparr> \<and>
   to_report (with_source e s) = (to_report e)\<lparr>report_sources := chain_messages s\<rparr>"
  by (simp add: to_report_def error_code_def inj_category_code exit_code_def inj_as_u8
      inj_category_exit_code category_exit_code_range with_exit_code_def with_help_def
      with_source_def source_messages_def split: option.split)

end
