(* ===== verification/Router.thy ===== *)
theory Router
  imports Core_Metadata Core_Routing
begin

text \<open>
  \<open>crates/missive-router/src/lib.rs\<close>: dry-run route planning.  The records mirror the structs, one
  function per policy builds the plan, and \<open>explain_route\<close> validates the input and dispatches.
\<close>

subsection \<open>Labels\<close>

definition normalize_label :: "string \<Rightarrow> string" where
  "normalize_label label = to_ascii_lowercase (trim label)"

definition normalized_set :: "string list \<Rightarrow> string list" where
  "normalized_set labels = bs_from_iter (map normalize_label labels)"

definition intersection_in_required_order :: "string list \<Rightarrow> string list \<Rightarrow> string list" where
  "intersection_in_required_order required available =
     filter (\<lambda>label. label \<in> set available) (map normalize_label required)"

fun validate_labels_from :: "string \<Rightarrow> string list \<Rightarrow> string list \<Rightarrow> unit outcome" where
  "validate_labels_from kind seen [] = Inr ()"
| "validate_labels_from kind seen (label # labels) =
     (let normalized = normalize_label label
      in if normalized = [] then Inl (error_validation [Lit (kind @ '' labels cannot be empty'')])
         else if normalized \<in> set seen then
           Inl (error_validation [Lit (''duplicate '' @ kind @ '' label ''), Dbg label])
         else validate_labels_from kind (bs_insert normalized seen) labels)"

definition validate_labels :: "string \<Rightarrow> string list \<Rightarrow> unit outcome" where
  "validate_labels kind labels = validate_labels_from kind [] labels"

fun collect_labels :: "json \<Rightarrow> string list \<Rightarrow> string list"
  and collect_items :: "json list \<Rightarrow> string list \<Rightarrow> string list"
  and collect_entries :: "(string \<times> json) list \<Rightarrow> string list \<Rightarrow> string list" where
  "collect_labels (JString label) labels =
     (let l = normalize_label label in if l \<noteq> [] then bs_insert l labels else labels)"
| "collect_labels (JArray items) labels = collect_items items labels"
| "collect_labels (JObject entries) labels = collect_entries entries labels"
| "collect_labels _ labels = labels"
| "collect_items [] labels = labels"
| "collect_items (v # vs) labels = collect_items vs (collect_labels v labels)"
| "collect_entries [] labels = labels"
| "collect_entries ((key, v) # es) labels =
     collect_entries es
       (if json_as_bool v = Some True then
          (let l = normalize_label key in if l \<noteq> [] then bs_insert l labels else labels)
        else collect_labels v labels)"

definition capabilities_from_metadata :: "Metadata \<Rightarrow> string list" where
  "capabilities_from_metadata m =
     fold (\<lambda>key labels. case metadata_get m key of None \<Rightarrow> labels | Some v \<Rightarrow> collect_labels v labels)
       [''capability'', ''capabilities'', ''skill'', ''skills''] []"

subsection \<open>Candidates and input\<close>

record RouteCandidate =
  cand_alias :: AgentAlias
  cand_rank :: "RankName option"
  cand_tags :: "string list"
  cand_capabilities :: "string list"
  cand_input_modes :: "string list"
  cand_output_modes :: "string list"
  cand_supports_streaming :: "bool option"
  cand_supports_push_notifications :: "bool option"
  cand_capability_cache_status :: "string option"
  cand_weight :: f64
  cand_metadata :: Metadata

definition route_candidate_new :: "AgentAlias \<Rightarrow> RouteCandidate" where
  "route_candidate_new alias =
     \<lparr>cand_alias = alias, cand_rank = None, cand_tags = [], cand_capabilities = [],
      cand_input_modes = [], cand_output_modes = [], cand_supports_streaming = None,
      cand_supports_push_notifications = None, cand_capability_cache_status = None,
      cand_weight = f64_one, cand_metadata = metadata_new\<rparr>"

definition candidate_validate :: "RouteCandidate \<Rightarrow> unit outcome" where
  "candidate_validate c =
     checks
       [fail_if (\<not> (f64_is_finite (cand_weight c) \<and> f64_gt_zero (cand_weight c)))
          (error_validation
            [Lit ''route candidate '', Dbg (cand_alias c), Lit '' has invalid weight '',
             Flt (cand_weight c), Lit ''; weights must be positive finite numbers'']),
        validate_labels ''tag'' (cand_tags c),
        validate_labels ''capability'' (cand_capabilities c),
        validate_labels ''input mode'' (cand_input_modes c),
        validate_labels ''output mode'' (cand_output_modes c)]"

record RoutePlanInput =
  in_policy :: RoutingPolicyKind
  in_candidates :: "RouteCandidate list"
  in_preferred_agent :: "AgentAlias option"
  in_required_tags :: "string list"
  in_required_capabilities :: "string list"
  in_required_input_modes :: "string list"
  in_required_output_modes :: "string list"
  in_require_streaming :: bool
  in_require_push_notifications :: bool
  in_round_robin_cursor :: u64
  in_quorum :: "nat option"

definition validate_quorum :: "nat \<Rightarrow> nat \<Rightarrow> unit outcome" where
  "validate_quorum quorum candidates =
     fail_if (quorum = 0 \<or> candidates < quorum)
       (with_help
         (error_validation
           [Lit (''quorum must be between 1 and the candidate count ('' @ show_nat candidates @
             ''); got '' @ show_nat quorum)])
         ''Lower --quorum or add more candidates to the group.'')"

definition input_validate :: "RoutePlanInput \<Rightarrow> unit outcome" where
  "input_validate inp =
     checks
       [fail_if (in_candidates inp = [])
          (with_help
            (error_validation [Lit ''route explanation requires at least one candidate''])
            ''Pass --agent at least once or choose a non-empty --group.''),
        try_for_each candidate_validate (in_candidates inp),
        validate_labels ''required tag'' (in_required_tags inp),
        validate_labels ''required capability'' (in_required_capabilities inp),
        validate_labels ''required input mode'' (in_required_input_modes inp),
        validate_labels ''required output mode'' (in_required_output_modes inp),
        when_some (in_quorum inp) (\<lambda>q. validate_quorum q (length (in_candidates inp)))]"

subsection \<open>Decisions and plans\<close>

record RouteDecision =
  dec_alias :: AgentAlias
  dec_rank :: "RankName option"
  dec_selected :: bool
  dec_order :: "nat option"
  dec_weight :: f64
  dec_reason :: string
  dec_matched_tags :: "string list"
  dec_matched_capabilities :: "string list"
  dec_matched_input_modes :: "string list"
  dec_matched_output_modes :: "string list"
  dec_missing_requirements :: "string list"

record RoutePlan =
  plan_policy :: RoutingPolicyKind
  plan_mode :: string
  plan_status :: string
  plan_total_candidates :: nat
  plan_selected :: "AgentAlias list"
  plan_decisions :: "RouteDecision list"
  plan_required_quorum :: "nat option"
  plan_next_round_robin_cursor :: "u64 option"

record DecisionRequirementDetails =
  det_matched_tags :: "string list"
  det_matched_capabilities :: "string list"
  det_matched_input_modes :: "string list"
  det_matched_output_modes :: "string list"
  det_missing_requirements :: "string list"

definition decision_with_details ::
  "RouteCandidate \<Rightarrow> bool \<Rightarrow> nat option \<Rightarrow> string \<Rightarrow> DecisionRequirementDetails \<Rightarrow> RouteDecision" where
  "decision_with_details c selected order reason details =
     \<lparr>dec_alias = cand_alias c, dec_rank = cand_rank c, dec_selected = selected,
      dec_order = order, dec_weight = cand_weight c, dec_reason = reason,
      dec_matched_tags = det_matched_tags details,
      dec_matched_capabilities = det_matched_capabilities details,
      dec_matched_input_modes = det_matched_input_modes details,
      dec_matched_output_modes = det_matched_output_modes details,
      dec_missing_requirements = det_missing_requirements details\<rparr>"

definition decision ::
  "RouteCandidate \<Rightarrow> bool \<Rightarrow> nat option \<Rightarrow> string \<Rightarrow> string list \<Rightarrow> string list \<Rightarrow> RouteDecision" where
  "decision c selected order reason matched_tags matched_capabilities =
     decision_with_details c selected order reason
       \<lparr>det_matched_tags = matched_tags, det_matched_capabilities = matched_capabilities,
        det_matched_input_modes = [], det_matched_output_modes = [],
        det_missing_requirements = []\<rparr>"

definition plan ::
  "RoutePlanInput \<Rightarrow> string \<Rightarrow> string \<Rightarrow> AgentAlias list \<Rightarrow> RouteDecision list \<Rightarrow> nat option \<Rightarrow>
   u64 option \<Rightarrow> RoutePlan" where
  "plan inp mode status selected decisions required_quorum next_cursor =
     \<lparr>plan_policy = in_policy inp, plan_mode = mode, plan_status = status,
      plan_total_candidates = length (in_candidates inp), plan_selected = selected,
      plan_decisions = decisions, plan_required_quorum = required_quorum,
      plan_next_round_robin_cursor = next_cursor\<rparr>"

definition then_some :: "bool \<Rightarrow> 'a \<Rightarrow> 'a option" where
  "then_some b x = (if b then Some x else None)"

definition alias_at :: "RoutePlanInput \<Rightarrow> nat \<Rightarrow> AgentAlias" where
  "alias_at inp i = cand_alias (in_candidates inp ! i)"

definition preferred_index_or_first :: "RoutePlanInput \<Rightarrow> nat outcome" where
  "preferred_index_or_first inp =
     (case in_preferred_agent inp of
        Some preferred \<Rightarrow>
          ok_or (position (\<lambda>c. cand_alias c = preferred) (in_candidates inp))
            (with_help
              (error_validation
                [Lit ''preferred agent '', Dbg preferred, Lit '' is not in the route candidate set''])
              ''Pass a registered --agent candidate or choose a group containing the preferred agent.'')
      | None \<Rightarrow> Inr 0)"

subsection \<open>Policies\<close>

definition explain_direct :: "RoutePlanInput \<Rightarrow> RoutePlan outcome" where
  "explain_direct inp =
     and_then (preferred_index_or_first inp) (\<lambda>selected_index.
       Inr (plan inp ''single'' ''selected'' [alias_at inp selected_index]
         (map_indexed
           (\<lambda>index c.
              decision c (index = selected_index) (then_some (index = selected_index) 0)
                (if index = selected_index then
                   (if in_preferred_agent inp \<noteq> None then ''preferred direct target''
                    else ''first candidate selected by direct policy'')
                 else ''not selected by direct policy'')
                [] [])
           (in_candidates inp))
         None None))"

fun push_missing_requirements ::
  "string \<Rightarrow> string list \<Rightarrow> string list \<Rightarrow> string list \<Rightarrow> string list" where
  "push_missing_requirements kind [] available missing = missing"
| "push_missing_requirements kind (r # required) available missing =
     (let normalized = normalize_label r
      in push_missing_requirements kind required available
           (if normalized \<notin> set available then missing @ [kind @ '':'' @ normalized] else missing))"

record CapabilityMatchOutcome =
  cap_matches :: bool
  cap_matched_tags :: "string list"
  cap_matched_capabilities :: "string list"
  cap_matched_input_modes :: "string list"
  cap_matched_output_modes :: "string list"
  cap_missing_requirements :: "string list"
  cap_score :: nat

definition support_missing :: "bool \<Rightarrow> bool option \<Rightarrow> string \<Rightarrow> string list" where
  "support_missing required supported name =
     (if required \<and> supported \<noteq> Some True then
        [case supported of Some b \<Rightarrow> name @ '':false'' | None \<Rightarrow> name @ '':unknown'']
      else [])"

definition candidate_capability_match ::
  "RoutePlanInput \<Rightarrow> RouteCandidate \<Rightarrow> CapabilityMatchOutcome" where
  "candidate_capability_match inp c =
     (let available_tags = normalized_set (cand_tags c);
          available_capabilities = normalized_set (cand_capabilities c);
          available_input_modes = normalized_set (cand_input_modes c);
          available_output_modes = normalized_set (cand_output_modes c);
          matched_tags = intersection_in_required_order (in_required_tags inp) available_tags;
          matched_capabilities =
            intersection_in_required_order (in_required_capabilities inp) available_capabilities;
          matched_input_modes =
            intersection_in_required_order (in_required_input_modes inp) available_input_modes;
          matched_output_modes =
            intersection_in_required_order (in_required_output_modes inp) available_output_modes;
          missing1 = push_missing_requirements ''tag'' (in_required_tags inp) available_tags [];
          missing2 = push_missing_requirements ''capability'' (in_required_capabilities inp)
            available_capabilities missing1;
          missing3 = push_missing_requirements ''input_mode'' (in_required_input_modes inp)
            available_input_modes missing2;
          missing4 = push_missing_requirements ''output_mode'' (in_required_output_modes inp)
            available_output_modes missing3;
          missing5 = missing4 @ support_missing (in_require_streaming inp)
            (cand_supports_streaming c) ''streaming'';
          missing = missing5 @ support_missing (in_require_push_notifications inp)
            (cand_supports_push_notifications c) ''push_notifications'';
          streaming_score =
            (if in_require_streaming inp \<and> cand_supports_streaming c = Some True then 1 else 0);
          push_score =
            (if in_require_push_notifications inp \<and> cand_supports_push_notifications c = Some True
             then 1 else 0)
      in \<lparr>cap_matches = (missing = []),
          cap_matched_tags = matched_tags, cap_matched_capabilities = matched_capabilities,
          cap_matched_input_modes = matched_input_modes,
          cap_matched_output_modes = matched_output_modes,
          cap_missing_requirements = missing,
          cap_score = length matched_tags + length matched_capabilities +
            length matched_input_modes + length matched_output_modes + streaming_score +
            push_score\<rparr>)"

definition capability_requirements_present :: "RoutePlanInput \<Rightarrow> bool" where
  "capability_requirements_present inp \<longleftrightarrow>
     in_required_tags inp \<noteq> [] \<or> in_required_capabilities inp \<noteq> [] \<or>
     in_required_input_modes inp \<noteq> [] \<or> in_required_output_modes inp \<noteq> [] \<or>
     in_require_streaming inp \<or> in_require_push_notifications inp"

definition capability_reason :: "bool \<Rightarrow> bool \<Rightarrow> string list \<Rightarrow> string" where
  "capability_reason matches has_requirements missing =
     (if matches then
        (if has_requirements then
           ''candidate satisfies capability, tag, mode, streaming, and push requirements; ties use score, weight, then deterministic candidate order''
         else
           ''no required capabilities, tags, modes, streaming, or push support; candidate remains eligible'')
      else if list_ex (suffix '':unknown'') missing then
        ''candidate is missing required Agent Card capability data; refresh the Agent Card cache and inspect missing_requirements''
      else
        ''candidate is missing one or more capability requirements; inspect missing_requirements'')"

text \<open>The comparator of the \<open>sort_by\<close> call: score descending, then weight descending, then index;
  \<open>True\<close> when \<open>left\<close> compares less than or equal to \<open>right\<close>.\<close>

definition capability_le ::
  "CapabilityMatchOutcome list \<Rightarrow> RouteCandidate list \<Rightarrow> nat \<Rightarrow> nat \<Rightarrow> bool" where
  "capability_le outcomes cands left right \<longleftrightarrow>
     (let sl = cap_score (outcomes ! left); sr = cap_score (outcomes ! right);
          wl = cand_weight (cands ! left); wr = cand_weight (cands ! right)
      in if sr < sl then True
         else if sl < sr then False
         else if f64_total_less wr wl then True
         else if f64_total_less wl wr then False
         else left \<le> right)"

definition status_of :: "'a list \<Rightarrow> string" where
  "status_of selected = (if selected = [] then ''no_match'' else ''selected'')"

definition capability_selection :: "RoutePlanInput \<Rightarrow> nat list" where
  "capability_selection inp =
     (let outcomes = map (candidate_capability_match inp) (in_candidates inp);
          indices = filter_indices cap_matches outcomes
      in if capability_requirements_present inp
         then sort_by (capability_le outcomes (in_candidates inp)) indices
         else indices)"

definition explain_capability_match :: "RoutePlanInput \<Rightarrow> RoutePlan outcome" where
  "explain_capability_match inp =
     (let outcomes = map (candidate_capability_match inp) (in_candidates inp);
          has_requirements = capability_requirements_present inp;
          selected_indices = capability_selection inp;
          selected = map (alias_at inp) selected_indices;
          decisions = map_indexed
            (\<lambda>index c.
               let outcome = outcomes ! index
               in decision_with_details c (cap_matches outcome)
                    (position (\<lambda>i. i = index) selected_indices)
                    (capability_reason (cap_matches outcome) has_requirements
                      (cap_missing_requirements outcome))
                    \<lparr>det_matched_tags = cap_matched_tags outcome,
                     det_matched_capabilities = cap_matched_capabilities outcome,
                     det_matched_input_modes = cap_matched_input_modes outcome,
                     det_matched_output_modes = cap_matched_output_modes outcome,
                     det_missing_requirements = cap_missing_requirements outcome\<rparr>)
            (in_candidates inp)
      in Inr (plan inp ''filter'' (status_of selected) selected decisions None None))"

text \<open>The loop state of \<open>explain_tag_match\<close>: the next order and the aliases selected so far.\<close>

definition tag_matches :: "RoutePlanInput \<Rightarrow> RouteCandidate \<Rightarrow> bool" where
  "tag_matches inp c \<longleftrightarrow>
     (let required = normalized_set (in_required_tags inp);
          available = normalized_set (cand_tags c)
      in required = [] \<or> set required \<subseteq> set available)"

fun tag_match_loop ::
  "RoutePlanInput \<Rightarrow> RouteCandidate list \<Rightarrow> nat \<Rightarrow> AgentAlias list \<Rightarrow>
   RouteDecision list \<times> AgentAlias list" where
  "tag_match_loop inp [] order selected = ([], selected)"
| "tag_match_loop inp (c # cs) order selected =
     (let required = normalized_set (in_required_tags inp);
          matched = intersection_in_required_order (in_required_tags inp)
            (normalized_set (cand_tags c));
          matches = tag_matches inp c;
          d = decision c matches (then_some matches order)
            (if matches then
               (if required = [] then ''no required tags; candidate remains eligible''
                else ''candidate satisfies required tags'')
             else ''candidate is missing one or more required tags'')
            matched [];
          r = tag_match_loop inp cs (if matches then order + 1 else order)
            (if matches then selected @ [cand_alias c] else selected)
      in (d # fst r, snd r))"

definition explain_tag_match :: "RoutePlanInput \<Rightarrow> RoutePlan outcome" where
  "explain_tag_match inp =
     (let r = tag_match_loop inp (in_candidates inp) 0 []
      in Inr (plan inp ''filter'' (status_of (snd r)) (snd r) (fst r) None None))"

definition round_robin_index :: "RoutePlanInput \<Rightarrow> nat" where
  "round_robin_index inp = unat (in_round_robin_cursor inp) mod length (in_candidates inp)"

definition explain_round_robin :: "RoutePlanInput \<Rightarrow> RoutePlan outcome" where
  "explain_round_robin inp =
     (let selected_index = round_robin_index inp
      in Inr (plan inp ''single'' ''selected'' [alias_at inp selected_index]
        (map_indexed
          (\<lambda>index c.
             decision c (index = selected_index) (then_some (index = selected_index) 0)
               (if index = selected_index then ''selected by round-robin cursor''
                else ''not selected for this cursor'')
               [] [])
          (in_candidates inp))
        None (Some (saturating_add_u64 (in_round_robin_cursor inp) 1))))"

text \<open>The comparator of \<open>max_by\<close>: weight, then the smaller index is the greater.\<close>

definition weighted_greater :: "RouteCandidate list \<Rightarrow> nat \<Rightarrow> nat \<Rightarrow> bool" where
  "weighted_greater cands left right \<longleftrightarrow>
     (let wl = cand_weight (cands ! left); wr = cand_weight (cands ! right)
      in if f64_total_less wr wl then True
         else if f64_total_less wl wr then False
         else left < right)"

definition weighted_index :: "RoutePlanInput \<Rightarrow> nat" where
  "weighted_index inp =
     (case max_by (weighted_greater (in_candidates inp)) [0..<length (in_candidates inp)] of
        Some i \<Rightarrow> i | None \<Rightarrow> 0)"

definition explain_weighted :: "RoutePlanInput \<Rightarrow> RoutePlan outcome" where
  "explain_weighted inp =
     (let selected_index = weighted_index inp;
          selected_weight = cand_weight (in_candidates inp ! selected_index)
      in Inr (plan inp ''single'' ''selected'' [alias_at inp selected_index]
        (map_indexed
          (\<lambda>index c.
             decision c (index = selected_index) (then_some (index = selected_index) 0)
               (if index = selected_index then
                  ''highest weight selected; ties keep deterministic candidate order''
                else if f64_diff_below_epsilon (cand_weight c) selected_weight then
                  ''same weight as selected candidate but later in deterministic order''
                else ''lower weight than selected candidate'')
               [] [])
          (in_candidates inp))
        None None))"

definition explain_all :: "RoutePlanInput \<Rightarrow> string \<Rightarrow> string \<Rightarrow> RoutePlan outcome" where
  "explain_all inp mode reason =
     Inr (plan inp mode ''selected'' (map cand_alias (in_candidates inp))
       (map_indexed (\<lambda>index c. decision c True (Some index) reason [] []) (in_candidates inp))
       None None)"

definition effective_quorum :: "RoutePlanInput \<Rightarrow> nat" where
  "effective_quorum inp =
     (case in_quorum inp of Some q \<Rightarrow> q | None \<Rightarrow> length (in_candidates inp) div 2 + 1)"

definition explain_quorum :: "RoutePlanInput \<Rightarrow> RoutePlan outcome" where
  "explain_quorum inp =
     and_then (validate_quorum (effective_quorum inp) (length (in_candidates inp))) (\<lambda>_.
       Inr (plan inp ''quorum'' ''selected'' (map cand_alias (in_candidates inp))
         (map_indexed
           (\<lambda>index c.
              decision c True (Some index) ''candidate participates in quorum attempt set'' [] [])
           (in_candidates inp))
         (Some (effective_quorum inp)) None))"

definition fallback_indices :: "RoutePlanInput \<Rightarrow> nat \<Rightarrow> nat list" where
  "fallback_indices inp primary =
     primary # filter (\<lambda>i. i \<noteq> primary) [0..<length (in_candidates inp)]"

text \<open>Every index occurs in \<open>selected_indices\<close>, so the \<open>expect\<close> of the source never fires;
  the lookup is left as the option it is.\<close>

definition explain_fallback :: "RoutePlanInput \<Rightarrow> RoutePlan outcome" where
  "explain_fallback inp =
     and_then (preferred_index_or_first inp) (\<lambda>primary.
       let selected_indices = fallback_indices inp primary
       in Inr (plan inp ''ordered_attempts'' ''selected''
         (map (alias_at inp) selected_indices)
         (map_indexed
           (\<lambda>index c.
              decision c True (position (\<lambda>i. i = index) selected_indices)
                (if index = primary then ''primary fallback target'' else ''fallback candidate'')
                [] [])
           (in_candidates inp))
         None None))"

fun explain_policy :: "RoutingPolicyKind \<Rightarrow> RoutePlanInput \<Rightarrow> RoutePlan outcome" where
  "explain_policy Direct inp = explain_direct inp"
| "explain_policy CapabilityMatch inp = explain_capability_match inp"
| "explain_policy TagMatch inp = explain_tag_match inp"
| "explain_policy RoundRobin inp = explain_round_robin inp"
| "explain_policy Weighted inp = explain_weighted inp"
| "explain_policy Broadcast inp = explain_all inp ''all'' ''broadcast''"
| "explain_policy FirstSuccess inp =
     explain_all inp ''ordered_attempts'' ''first-success-attempt-order''"
| "explain_policy Quorum inp = explain_quorum inp"
| "explain_policy Fallback inp = explain_fallback inp"

definition explain_route :: "RoutePlanInput \<Rightarrow> RoutePlan outcome" where
  "explain_route inp = and_then (input_validate inp) (\<lambda>_. explain_policy (in_policy inp) inp)"

end
