(* ===== verification/Router_Plans.thy ===== *)
theory Router_Plans
  imports Router
begin

text \<open>
  What the router's plans promise: which inputs are accepted, that every plan is the one determined
  by a list of distinct candidate indices, and what that list is for each policy.
\<close>

subsection \<open>Accepted inputs\<close>

definition labels_ok :: "string list \<Rightarrow> bool" where
  "labels_ok ls \<longleftrightarrow> (\<forall>l \<in> set ls. normalize_label l \<noteq> []) \<and> distinct (map normalize_label ls)"

definition candidate_ok :: "RouteCandidate \<Rightarrow> bool" where
  "candidate_ok c \<longleftrightarrow>
     f64_is_finite (cand_weight c) \<and> f64_gt_zero (cand_weight c) \<and>
     labels_ok (cand_tags c) \<and> labels_ok (cand_capabilities c) \<and>
     labels_ok (cand_input_modes c) \<and> labels_ok (cand_output_modes c)"

definition input_ok :: "RoutePlanInput \<Rightarrow> bool" where
  "input_ok inp \<longleftrightarrow>
     in_candidates inp \<noteq> [] \<and> (\<forall>c \<in> set (in_candidates inp). candidate_ok c) \<and>
     labels_ok (in_required_tags inp) \<and> labels_ok (in_required_capabilities inp) \<and>
     labels_ok (in_required_input_modes inp) \<and> labels_ok (in_required_output_modes inp) \<and>
     (\<forall>q. in_quorum inp = Some q \<longrightarrow> 0 < q \<and> q \<le> length (in_candidates inp))"

text \<open>The preferred agent of the two policies that use it is one of the candidates.\<close>

definition preferred_ok :: "RoutePlanInput \<Rightarrow> bool" where
  "preferred_ok inp \<longleftrightarrow>
     (\<forall>a. in_preferred_agent inp = Some a \<longrightarrow> in_policy inp \<in> {Direct, Fallback} \<longrightarrow>
        a \<in> cand_alias ` set (in_candidates inp))"

lemma normalize_label_idem [simp]: "normalize_label (normalize_label l) = normalize_label l"
  by (simp add: normalize_label_def trim_lowercase)

lemma validate_labels_from_Inr:
  "validate_labels_from kind seen ls = Inr u \<longleftrightarrow>
     labels_ok ls \<and> set (map normalize_label ls) \<inter> set seen = {}"
  by (induction ls arbitrary: seen) (auto simp: labels_ok_def Let_def)

lemma validate_labels_Inr [result_iff]: "validate_labels kind ls = Inr u \<longleftrightarrow> labels_ok ls"
  by (simp add: validate_labels_def validate_labels_from_Inr)

lemma validate_labels_category:
  "validate_labels kind ls = Inl e \<Longrightarrow> err_category e = Cat_Validation"
proof -
  have "validate_labels_from kind seen ls = Inl e \<Longrightarrow> err_category e = Cat_Validation" for seen
    by (induction ls arbitrary: seen) (auto simp: Let_def split: if_splits)
  then show "validate_labels kind ls = Inl e \<Longrightarrow> ?thesis" by (simp add: validate_labels_def)
qed

lemma validate_quorum_Inr [result_iff]: "validate_quorum q n = Inr u \<longleftrightarrow> 0 < q \<and> q \<le> n"
  by (auto simp: validate_quorum_def)

lemma candidate_validate_Inr [result_iff]: "candidate_validate c = Inr u \<longleftrightarrow> candidate_ok c"
  by (auto simp: candidate_validate_def candidate_ok_def result_iff)

lemma input_validate_Inr [result_iff]: "input_validate inp = Inr u \<longleftrightarrow> input_ok inp"
  by (auto simp: input_validate_def input_ok_def result_iff)

lemma candidate_validate_category:
  "candidate_validate c = Inl e \<Longrightarrow> err_category e = Cat_Validation"
  by (auto simp: candidate_validate_def dest: validate_labels_category)

lemma validate_quorum_category: "validate_quorum q n = Inl e \<Longrightarrow> err_category e = Cat_Validation"
  by (simp add: validate_quorum_def)

lemma input_validate_category: "input_validate inp = Inl e \<Longrightarrow> err_category e = Cat_Validation"
  by (auto simp: input_validate_def when_some_def dest: validate_labels_category
      validate_quorum_category elim!: try_for_each_error candidate_validate_category
      split: option.splits)

lemma preferred_index_Inr:
  "preferred_index_or_first inp = Inr i \<longleftrightarrow>
     (case in_preferred_agent inp of None \<Rightarrow> i = 0
      | Some a \<Rightarrow> position (\<lambda>c. cand_alias c = a) (in_candidates inp) = Some i)"
  by (auto simp: preferred_index_or_first_def split: option.splits)

lemma preferred_index_less:
  "preferred_index_or_first inp = Inr i \<Longrightarrow> in_candidates inp \<noteq> [] \<Longrightarrow> i < length (in_candidates inp)"
  by (auto simp: preferred_index_Inr position_Some split: option.splits)

lemma preferred_index_ok:
  "is_ok (preferred_index_or_first inp) \<longleftrightarrow>
     (\<forall>a. in_preferred_agent inp = Some a \<longrightarrow> a \<in> cand_alias ` set (in_candidates inp))"
proof (cases "in_preferred_agent inp")
  case (Some a)
  have "is_ok (preferred_index_or_first inp) \<longleftrightarrow>
        position (\<lambda>c. cand_alias c = a) (in_candidates inp) \<noteq> None"
    by (simp add: preferred_index_Inr Some)
  then show ?thesis using Some by (auto simp: position_None)
qed (simp add: preferred_index_Inr)

lemma preferred_index_category:
  "preferred_index_or_first inp = Inl e \<Longrightarrow> err_category e = Cat_Validation"
  by (auto simp: preferred_index_or_first_def split: option.splits)

subsection \<open>Index plans\<close>

text \<open>
  The plan a list of distinct candidate indices stands for: the selected aliases in that order, one
  decision per candidate in input order, selected exactly when listed, its order the position in
  the list.
\<close>

definition index_plan :: "RoutePlanInput \<Rightarrow> nat list \<Rightarrow> RoutePlan \<Rightarrow> bool" where
  "index_plan inp idxs p \<longleftrightarrow>
     distinct idxs \<and> (\<forall>i \<in> set idxs. i < length (in_candidates inp)) \<and>
     plan_policy p = in_policy inp \<and>
     plan_total_candidates p = length (in_candidates inp) \<and>
     plan_selected p = map (alias_at inp) idxs \<and>
     plan_status p = status_of idxs \<and>
     length (plan_decisions p) = length (in_candidates inp) \<and>
     (\<forall>i < length (in_candidates inp).
        dec_alias (plan_decisions p ! i) = alias_at inp i \<and>
        dec_weight (plan_decisions p ! i) = cand_weight (in_candidates inp ! i) \<and>
        dec_selected (plan_decisions p ! i) = (i \<in> set idxs) \<and>
        dec_order (plan_decisions p ! i) = position (\<lambda>j. j = i) idxs)"

lemma decision_sel [simp]:
  "dec_alias (decision_with_details c s k r d) = cand_alias c"
  "dec_weight (decision_with_details c s k r d) = cand_weight c"
  "dec_selected (decision_with_details c s k r d) = s"
  "dec_order (decision_with_details c s k r d) = k"
  "dec_alias (decision c s k r t q) = cand_alias c"
  "dec_weight (decision c s k r t q) = cand_weight c"
  "dec_selected (decision c s k r t q) = s"
  "dec_order (decision c s k r t q) = k"
  by (simp_all add: decision_with_details_def decision_def)

lemma plan_sel [simp]:
  "plan_policy (plan inp m st sel ds q c) = in_policy inp"
  "plan_mode (plan inp m st sel ds q c) = m"
  "plan_status (plan inp m st sel ds q c) = st"
  "plan_total_candidates (plan inp m st sel ds q c) = length (in_candidates inp)"
  "plan_selected (plan inp m st sel ds q c) = sel"
  "plan_decisions (plan inp m st sel ds q c) = ds"
  "plan_required_quorum (plan inp m st sel ds q c) = q"
  "plan_next_round_robin_cursor (plan inp m st sel ds q c) = c"
  by (simp_all add: plan_def)

lemma position_upt: "i < n \<Longrightarrow> position (\<lambda>j. j = i) [0..<n] = Some i"
  using position_nth_distinct [of "[0..<n]" i] by simp

lemma status_of_map [simp]: "status_of (map f xs) = status_of xs"
  by (simp add: status_of_def)

lemma map_alias_at: "map (alias_at inp) [0..<length (in_candidates inp)] = map cand_alias (in_candidates inp)"
proof -
  have "map (alias_at inp) [0..<length (in_candidates inp)] =
        map cand_alias (map ((!) (in_candidates inp)) [0..<length (in_candidates inp)])"
    by (simp add: alias_at_def comp_def)
  then show ?thesis by (simp add: map_nth)
qed

lemma single_index_plan:
  assumes "i < length (in_candidates inp)"
    and "\<And>j c. f j c = decision c (j = i) (then_some (j = i) 0) (r j c) [] []"
  shows "index_plan inp [i]
    (plan inp m ''selected'' [alias_at inp i] (map_indexed f (in_candidates inp)) q cu)"
  using assms(1) by (auto simp: index_plan_def assms(2) then_some_def status_of_def alias_at_def)

lemma all_index_plan:
  assumes "in_candidates inp \<noteq> []"
  shows "index_plan inp [0..<length (in_candidates inp)]
    (plan inp m ''selected'' (map cand_alias (in_candidates inp))
      (map_indexed (\<lambda>i c. decision c True (Some i) r [] []) (in_candidates inp)) q cu)"
  using assms by (auto simp: index_plan_def position_upt status_of_def alias_at_def map_alias_at)

lemma listed_index_plan:
  assumes "distinct idxs" "\<forall>i \<in> set idxs. i < length (in_candidates inp)"
    and "\<And>i. i < length (in_candidates inp) \<Longrightarrow>
      dec_alias (f i (in_candidates inp ! i)) = alias_at inp i \<and>
      dec_weight (f i (in_candidates inp ! i)) = cand_weight (in_candidates inp ! i) \<and>
      dec_selected (f i (in_candidates inp ! i)) = (i \<in> set idxs) \<and>
      dec_order (f i (in_candidates inp ! i)) = position (\<lambda>j. j = i) idxs"
  shows "index_plan inp idxs
    (plan inp m (status_of idxs) (map (alias_at inp) idxs) (map_indexed f (in_candidates inp)) q cu)"
  using assms by (auto simp: index_plan_def)


subsection \<open>Single-candidate policies\<close>

lemma round_robin_less: "in_candidates inp \<noteq> [] \<Longrightarrow> round_robin_index inp < length (in_candidates inp)"
  by (simp add: round_robin_index_def)

lemma f64_total_less_linear:
  "f64_total_less a b \<or> f64_total_less b a \<or> f64_total_key a = f64_total_key b"
  by (auto simp: f64_total_less_def)

text \<open>Candidate \<open>i\<close> beats \<open>j\<close> for the weighted policy: heavier, or as heavy and listed
  earlier.\<close>

definition outweighs :: "RouteCandidate list \<Rightarrow> nat \<Rightarrow> nat \<Rightarrow> bool" where
  "outweighs cands i j \<longleftrightarrow>
     f64_total_key (cand_weight (cands ! j)) < f64_total_key (cand_weight (cands ! i)) \<or>
     f64_total_key (cand_weight (cands ! j)) = f64_total_key (cand_weight (cands ! i)) \<and> i < j"

lemma weighted_greater_outweighs: "weighted_greater cands i j \<longleftrightarrow> outweighs cands i j"
  by (auto simp: weighted_greater_def outweighs_def f64_total_less_def Let_def)

lemma weighted_index_max:
  assumes "in_candidates inp \<noteq> []"
  shows "weighted_index inp < length (in_candidates inp)"
    and "\<And>j. j < length (in_candidates inp) \<Longrightarrow> j \<noteq> weighted_index inp \<Longrightarrow>
      outweighs (in_candidates inp) (weighted_index inp) j"
proof -
  let ?n = "length (in_candidates inp)"
  let ?g = "weighted_greater (in_candidates inp)"
  have ne: "[0..<?n] \<noteq> []" using assms by simp
  have "\<exists>m. max_by ?g [0..<?n] = Some m \<and> m \<in> set [0..<?n] \<and> (\<forall>y \<in> set [0..<?n]. y \<noteq> m \<longrightarrow> ?g m y)"
    by (rule max_by_greatest [OF ne]) (auto simp: weighted_greater_outweighs outweighs_def)
  then obtain m where m: "max_by ?g [0..<?n] = Some m" "m < ?n"
    and g: "\<And>y. y < ?n \<Longrightarrow> y \<noteq> m \<Longrightarrow> ?g m y" by auto
  from m(1) have "weighted_index inp = m" by (simp add: weighted_index_def)
  with m(2) g show "weighted_index inp < ?n"
    and "\<And>j. j < ?n \<Longrightarrow> j \<noteq> weighted_index inp \<Longrightarrow> outweighs (in_candidates inp) (weighted_index inp) j"
    by (simp_all add: weighted_greater_outweighs)
qed

subsection \<open>Tag matching\<close>

lemma tag_matches_iff:
  "tag_matches inp c \<longleftrightarrow>
     normalize_label ` set (in_required_tags inp) \<subseteq> normalize_label ` set (cand_tags c)"
  by (auto simp: tag_matches_def Let_def normalized_set_def)

lemma tag_match_loop_selected:
  "snd (tag_match_loop inp cs k sel) = sel @ map cand_alias (filter (tag_matches inp) cs)"
  by (induction cs arbitrary: k sel) (simp_all add: Let_def)

lemma tag_match_loop_decisions:
  "length (fst (tag_match_loop inp cs k sel)) = length cs"
  "i < length cs \<Longrightarrow>
     dec_alias (fst (tag_match_loop inp cs k sel) ! i) = cand_alias (cs ! i) \<and>
     dec_weight (fst (tag_match_loop inp cs k sel) ! i) = cand_weight (cs ! i) \<and>
     dec_selected (fst (tag_match_loop inp cs k sel) ! i) = tag_matches inp (cs ! i) \<and>
     dec_order (fst (tag_match_loop inp cs k sel) ! i) =
       then_some (tag_matches inp (cs ! i)) (k + length (filter (tag_matches inp) (take i cs)))"
proof (induction cs arbitrary: k sel i)
  case Nil
  { case 1 show ?case by simp next case 2 then show ?case by simp }
next
  case (Cons c cs)
  { case 1 show ?case using Cons.IH(1) by (simp add: Let_def)
  next
    case 2
    show ?case
    proof (cases i)
      case 0
      then show ?thesis by (simp add: Let_def)
    next
      case (Suc i')
      with 2 have "i' < length cs" by simp
      then show ?thesis
        using Cons.IH(2) [of i' "if tag_matches inp c then k + 1 else k"
            "if tag_matches inp c then sel @ [cand_alias c] else sel"] Suc
        by (simp add: Let_def)
    qed }
qed

lemma tag_match_index_plan:
  "explain_tag_match inp = Inr p \<Longrightarrow>
   index_plan inp (filter_indices (tag_matches inp) (in_candidates inp)) p"
proof -
  let ?idxs = "filter_indices (tag_matches inp) (in_candidates inp)"
  assume "explain_tag_match inp = Inr p"
  then have p: "p = plan inp ''filter'' (status_of (map cand_alias (filter (tag_matches inp) (in_candidates inp))))
      (map cand_alias (filter (tag_matches inp) (in_candidates inp)))
      (fst (tag_match_loop inp (in_candidates inp) 0 [])) None None"
    by (simp add: explain_tag_match_def Let_def tag_match_loop_selected)
  have sel: "map cand_alias (filter (tag_matches inp) (in_candidates inp)) = map (alias_at inp) ?idxs"
    unfolding map_nth_filter_indices [symmetric] by (simp add: alias_at_def)
  show ?thesis
    unfolding index_plan_def p sel
    by (auto simp: tag_match_loop_decisions position_filter_indices then_some_def
        set_filter_indices alias_at_def)
qed

subsection \<open>Capability matching\<close>

definition provides :: "string list \<Rightarrow> string list \<Rightarrow> bool" where
  "provides required available \<longleftrightarrow>
     normalize_label ` set required \<subseteq> normalize_label ` set available"

text \<open>A candidate satisfies every requirement of the input.\<close>

definition capable :: "RoutePlanInput \<Rightarrow> RouteCandidate \<Rightarrow> bool" where
  "capable inp c \<longleftrightarrow>
     provides (in_required_tags inp) (cand_tags c) \<and>
     provides (in_required_capabilities inp) (cand_capabilities c) \<and>
     provides (in_required_input_modes inp) (cand_input_modes c) \<and>
     provides (in_required_output_modes inp) (cand_output_modes c) \<and>
     (in_require_streaming inp \<longrightarrow> cand_supports_streaming c = Some True) \<and>
     (in_require_push_notifications inp \<longrightarrow> cand_supports_push_notifications c = Some True)"

lemma push_missing_requirements_eq:
  "push_missing_requirements kind required available missing =
     missing @ map (\<lambda>r. kind @ '':'' @ normalize_label r)
       (filter (\<lambda>r. normalize_label r \<notin> set available) required)"
  by (induction required arbitrary: missing) (simp_all add: Let_def)

lemma no_missing_iff:
  "filter (\<lambda>r. normalize_label r \<notin> set (normalized_set available)) required = [] \<longleftrightarrow>
     provides required available"
  by (auto simp: provides_def normalized_set_def filter_empty_conv)

lemma support_missing_Nil [simp]: "support_missing b s name = [] \<longleftrightarrow> (b \<longrightarrow> s = Some True)"
  by (simp add: support_missing_def)

lemma cap_matches_iff: "cap_matches (candidate_capability_match inp c) \<longleftrightarrow> capable inp c"
  by (auto simp: candidate_capability_match_def Let_def push_missing_requirements_eq
      no_missing_iff capable_def)

lemma intersection_full:
  "provides required available \<Longrightarrow>
   length (intersection_in_required_order required (normalized_set available)) = length required"
proof -
  assume "provides required available"
  then have "filter (\<lambda>label. label \<in> set (normalized_set available)) (map normalize_label required) =
    map normalize_label required"
    by (auto simp: provides_def normalized_set_def filter_id_conv)
  then show ?thesis by (simp add: intersection_in_required_order_def)
qed

definition full_score :: "RoutePlanInput \<Rightarrow> nat" where
  "full_score inp =
     length (in_required_tags inp) + length (in_required_capabilities inp) +
     length (in_required_input_modes inp) + length (in_required_output_modes inp) +
     of_bool (in_require_streaming inp) + of_bool (in_require_push_notifications inp)"

text \<open>The score of a candidate that matches depends on the requirements only.\<close>

lemma cap_score_match: "capable inp c \<Longrightarrow> cap_score (candidate_capability_match inp c) = full_score inp"
  by (auto simp: candidate_capability_match_def Let_def capable_def intersection_full full_score_def)

lemma capability_le_total: "capability_le outs cands i j \<or> capability_le outs cands j i"
  by (auto simp: capability_le_def Let_def f64_total_less_def)

lemma capability_le_trans:
  "capability_le outs cands i j \<Longrightarrow> capability_le outs cands j k \<Longrightarrow> capability_le outs cands i k"
  by (auto simp: capability_le_def Let_def f64_total_less_def split: if_splits)

lemma capability_le_match:
  assumes "i < length (in_candidates inp)" "j < length (in_candidates inp)"
    and "capable inp (in_candidates inp ! i)" "capable inp (in_candidates inp ! j)" "i \<noteq> j"
  shows "capability_le (map (candidate_capability_match inp) (in_candidates inp)) (in_candidates inp) i j
    \<longleftrightarrow> outweighs (in_candidates inp) i j"
  using assms by (auto simp: capability_le_def Let_def cap_score_match outweighs_def f64_total_less_def)

lemma set_capability_selection:
  "set (capability_selection inp) =
     {i. i < length (in_candidates inp) \<and> capable inp (in_candidates inp ! i)}"
  by (auto simp: capability_selection_def Let_def set_filter_indices cap_matches_iff)

lemma distinct_capability_selection: "distinct (capability_selection inp)"
  by (simp add: capability_selection_def Let_def)

lemma capability_selection_sorted:
  assumes "capability_requirements_present inp"
  shows "sorted_wrt (outweighs (in_candidates inp)) (capability_selection inp)"
proof -
  let ?outs = "map (candidate_capability_match inp) (in_candidates inp)"
  let ?le = "capability_le ?outs (in_candidates inp)"
  let ?sel = "capability_selection inp"
  have "sorted_wrt ?le ?sel"
    using assms unfolding capability_selection_def Let_def
    by simp (rule sorted_sort_by, rule capability_le_total, erule (1) capability_le_trans)
  then have "sorted_wrt (\<lambda>i j. i \<noteq> j \<and> ?le i j) ?sel"
    using distinct_capability_selection [of inp]
    by (auto simp: sorted_wrt_iff_nth_less distinct_conv_nth)
  moreover have "outweighs (in_candidates inp) i j"
    if "i \<in> set ?sel" "j \<in> set ?sel" "i \<noteq> j \<and> ?le i j" for i j
    using that capability_le_match [of i inp j] by (simp add: set_capability_selection)
  ultimately show ?thesis by (rule sorted_wrt_mono_rel [rotated])
qed

lemma capability_match_index_plan:
  "explain_capability_match inp = Inr p \<Longrightarrow> index_plan inp (capability_selection inp) p"
proof -
  assume "explain_capability_match inp = Inr p"
  then show ?thesis
    unfolding explain_capability_match_def Let_def
    by simp (erule subst, rule listed_index_plan,
      auto simp: distinct_capability_selection set_capability_selection cap_matches_iff alias_at_def)
qed

subsection \<open>What each policy selects\<close>

text \<open>The first candidate carrying the preferred alias, or the first candidate.\<close>

definition primary :: "RoutePlanInput \<Rightarrow> nat \<Rightarrow> bool" where
  "primary inp i \<longleftrightarrow>
     i < length (in_candidates inp) \<and>
     (case in_preferred_agent inp of
        None \<Rightarrow> i = 0
      | Some a \<Rightarrow> alias_at inp i = a \<and> (\<forall>j < i. alias_at inp j \<noteq> a))"

text \<open>
  The contract of a policy, stated without the code's loops and sorts: the list of candidate
  indices in attempt order.
\<close>

fun policy_selects :: "RoutingPolicyKind \<Rightarrow> RoutePlanInput \<Rightarrow> nat list \<Rightarrow> bool" where
  "policy_selects Direct inp idxs \<longleftrightarrow> (\<exists>i. primary inp i \<and> idxs = [i])"
| "policy_selects CapabilityMatch inp idxs \<longleftrightarrow>
     set idxs = {i. i < length (in_candidates inp) \<and> capable inp (in_candidates inp ! i)} \<and>
     sorted_wrt (if capability_requirements_present inp then outweighs (in_candidates inp) else (<)) idxs"
| "policy_selects TagMatch inp idxs \<longleftrightarrow>
     set idxs = {i. i < length (in_candidates inp) \<and>
       provides (in_required_tags inp) (cand_tags (in_candidates inp ! i))} \<and>
     sorted_wrt (<) idxs"
| "policy_selects RoundRobin inp idxs \<longleftrightarrow>
     idxs = [unat (in_round_robin_cursor inp) mod length (in_candidates inp)]"
| "policy_selects Weighted inp idxs \<longleftrightarrow>
     (\<exists>i < length (in_candidates inp). idxs = [i] \<and>
        (\<forall>j < length (in_candidates inp). j \<noteq> i \<longrightarrow> outweighs (in_candidates inp) i j))"
| "policy_selects Broadcast inp idxs \<longleftrightarrow> idxs = [0..<length (in_candidates inp)]"
| "policy_selects FirstSuccess inp idxs \<longleftrightarrow> idxs = [0..<length (in_candidates inp)]"
| "policy_selects Quorum inp idxs \<longleftrightarrow> idxs = [0..<length (in_candidates inp)]"
| "policy_selects Fallback inp idxs \<longleftrightarrow>
     (\<exists>i rest. primary inp i \<and> idxs = i # rest \<and> sorted_wrt (<) rest \<and>
        set rest = {j. j < length (in_candidates inp) \<and> j \<noteq> i})"

lemma preferred_index_primary:
  "preferred_index_or_first inp = Inr i \<Longrightarrow> in_candidates inp \<noteq> [] \<Longrightarrow> primary inp i"
  by (auto simp: preferred_index_Inr primary_def position_Some alias_at_def split: option.splits)

lemma primary_unique: "primary inp i \<Longrightarrow> primary inp j \<Longrightarrow> i = j"
  by (auto simp: primary_def split: option.splits) (metis linorder_neqE_nat)

lemma outweighs_asym: "outweighs cands i j \<Longrightarrow> \<not> outweighs cands j i"
  by (auto simp: outweighs_def)

lemma policy_selects_unique:
  "policy_selects pol inp xs \<Longrightarrow> policy_selects pol inp ys \<Longrightarrow> xs = ys"
proof (cases pol)
  case CapabilityMatch
  assume "policy_selects pol inp xs" "policy_selects pol inp ys"
  with CapabilityMatch show ?thesis
    using sorted_wrt_unique [of "outweighs (in_candidates inp)" xs ys, OF _ _ _ outweighs_asym]
      sorted_wrt_unique [of "(<)" xs ys]
    by (simp split: if_splits)
next
  case TagMatch
  assume "policy_selects pol inp xs" "policy_selects pol inp ys"
  with TagMatch show ?thesis using sorted_wrt_unique [of "(<)" xs ys] by simp
next
  case Weighted
  assume "policy_selects pol inp xs" "policy_selects pol inp ys"
  with Weighted show ?thesis by simp (metis outweighs_asym)
next
  case Fallback
  assume "policy_selects pol inp xs" "policy_selects pol inp ys"
  with Fallback obtain i r s where "xs = i # r" "ys = i # s" "sorted_wrt (<) r" "sorted_wrt (<) s"
    "set r = set s" using primary_unique by auto
  then show ?thesis using sorted_wrt_unique [of "(<)" r s] by auto
qed (auto dest: primary_unique)

lemma fallback_index_plan:
  assumes "explain_fallback inp = Inr p" "in_candidates inp \<noteq> []"
  shows "\<exists>i. primary inp i \<and> index_plan inp (fallback_indices inp i) p"
proof -
  obtain i where i: "preferred_index_or_first inp = Inr i"
    using assms(1) by (auto simp: explain_fallback_def and_then_Inr)
  have sel: "''selected'' = status_of (fallback_indices inp i)"
    by (simp add: status_of_def fallback_indices_def)
  have "index_plan inp (fallback_indices inp i) p"
    using assms(1) preferred_index_less [OF i assms(2)]
    unfolding explain_fallback_def i Let_def and_then_simps sel sum.inject
    by - (erule subst, rule listed_index_plan, auto simp: fallback_indices_def alias_at_def)
  then show ?thesis using preferred_index_primary [OF i assms(2)] by blast
qed

lemma direct_index_plan:
  assumes "explain_direct inp = Inr p" "in_candidates inp \<noteq> []"
  shows "\<exists>i. primary inp i \<and> index_plan inp [i] p"
proof -
  obtain i where i: "preferred_index_or_first inp = Inr i"
    using assms(1) by (auto simp: explain_direct_def and_then_Inr)
  have "index_plan inp [i] p"
    using assms(1) unfolding explain_direct_def i and_then_simps
    by simp (erule subst, rule single_index_plan [OF preferred_index_less [OF i assms(2)]], rule refl)
  then show ?thesis using preferred_index_primary [OF i assms(2)] by blast
qed

lemma round_robin_index_plan:
  "explain_round_robin inp = Inr p \<Longrightarrow> in_candidates inp \<noteq> [] \<Longrightarrow> index_plan inp [round_robin_index inp] p"
  unfolding explain_round_robin_def Let_def
  by simp (erule subst, rule single_index_plan [OF round_robin_less], assumption, rule refl)

lemma weighted_index_plan:
  "explain_weighted inp = Inr p \<Longrightarrow> in_candidates inp \<noteq> [] \<Longrightarrow> index_plan inp [weighted_index inp] p"
  unfolding explain_weighted_def Let_def
  by simp (erule subst, rule single_index_plan [OF weighted_index_max(1)], assumption, rule refl)

lemma explain_all_index_plan:
  "explain_all inp m r = Inr p \<Longrightarrow> in_candidates inp \<noteq> [] \<Longrightarrow>
   index_plan inp [0..<length (in_candidates inp)] p"
  unfolding explain_all_def by simp (erule subst, rule all_index_plan, assumption)

lemma quorum_index_plan:
  "explain_quorum inp = Inr p \<Longrightarrow> in_candidates inp \<noteq> [] \<Longrightarrow>
   index_plan inp [0..<length (in_candidates inp)] p"
  unfolding explain_quorum_def and_then_Inr by simp (erule conjE, erule subst, rule all_index_plan, assumption)

lemma sorted_wrt_less_filter_indices: "sorted_wrt (<) (filter_indices q xs)"
  by (simp add: filter_indices_def sorted_wrt_filter)

lemma explain_policy_refines:
  assumes "explain_policy pol inp = Inr p" "in_candidates inp \<noteq> []"
  shows "\<exists>idxs. policy_selects pol inp idxs \<and> index_plan inp idxs p"
proof (cases pol)
  case Direct
  then show ?thesis using direct_index_plan [of inp p] assms by auto
next
  case CapabilityMatch
  have "policy_selects pol inp (capability_selection inp)"
    using capability_selection_sorted [of inp] CapabilityMatch
    by (simp add: set_capability_selection)
      (simp add: capability_selection_def Let_def sorted_wrt_less_filter_indices)
  then show ?thesis using capability_match_index_plan [of inp p] assms CapabilityMatch by (metis explain_policy.simps(2))
next
  case TagMatch
  have "policy_selects pol inp (filter_indices (tag_matches inp) (in_candidates inp))"
    using TagMatch by (simp add: set_filter_indices tag_matches_iff provides_def sorted_wrt_less_filter_indices)
  then show ?thesis using tag_match_index_plan [of inp p] assms TagMatch by (metis explain_policy.simps(3))
next
  case RoundRobin
  then show ?thesis using round_robin_index_plan [of inp p] assms by (auto simp: round_robin_index_def)
next
  case Weighted
  then show ?thesis using weighted_index_plan [of inp p] weighted_index_max [of inp] assms by auto
next
  case Fallback
  have "policy_selects pol inp (fallback_indices inp i)" if "primary inp i" for i
    using that Fallback by (auto simp: fallback_indices_def sorted_wrt_filter)
  then show ?thesis using fallback_index_plan [of inp p] assms Fallback by (metis explain_policy.simps(9))
qed (use assms in \<open>auto dest: explain_all_index_plan quorum_index_plan\<close>)

lemma explain_policy_ok:
  assumes "input_ok inp"
  shows "is_ok (explain_policy (in_policy inp) inp) \<longleftrightarrow> preferred_ok inp"
proof -
  have q: "0 < effective_quorum inp \<and> effective_quorum inp \<le> length (in_candidates inp)"
    using assms by (cases "in_candidates inp") (auto simp: effective_quorum_def input_ok_def split: option.splits)
  show ?thesis
    using preferred_index_ok [of inp]
    by (cases "in_policy inp")
      (simp_all add: preferred_ok_def explain_direct_def explain_fallback_def and_then_Inr Let_def
        explain_capability_match_def explain_tag_match_def explain_round_robin_def explain_weighted_def
        explain_all_def explain_quorum_def result_iff q)
qed

lemma explain_policy_category:
  "explain_policy pol inp = Inl e \<Longrightarrow> err_category e = Cat_Validation"
proof (cases pol)
  case Direct
  assume "explain_policy pol inp = Inl e"
  with Direct have "preferred_index_or_first inp = Inl e" by (simp add: explain_direct_def and_then_Inl)
  then show ?thesis by (rule preferred_index_category)
next
  case Fallback
  assume "explain_policy pol inp = Inl e"
  with Fallback have "preferred_index_or_first inp = Inl e"
    by (simp add: explain_fallback_def and_then_Inl Let_def)
  then show ?thesis by (rule preferred_index_category)
next
  case Quorum
  assume "explain_policy pol inp = Inl e"
  with Quorum have "validate_quorum (effective_quorum inp) (length (in_candidates inp)) = Inl e"
    by (simp add: explain_quorum_def and_then_Inl)
  then show ?thesis by (rule validate_quorum_category)
qed (simp_all add: explain_capability_match_def explain_tag_match_def explain_round_robin_def
    explain_weighted_def explain_all_def Let_def)

lemma explain_route_Inr [result_iff]:
  "explain_route inp = Inr p \<longleftrightarrow> input_ok inp \<and> explain_policy (in_policy inp) inp = Inr p"
  by (simp add: explain_route_def result_iff)

lemma input_ok_candidates: "input_ok inp \<Longrightarrow> in_candidates inp \<noteq> []"
  by (simp add: input_ok_def)
subsection \<open>Round robin over time\<close>

text \<open>Planning \<open>k\<close> times, persisting the cursor each plan returns.\<close>

fun rotation :: "nat \<Rightarrow> RoutePlanInput \<Rightarrow> AgentAlias list" where
  "rotation 0 inp = []"
| "rotation (Suc k) inp =
     (case explain_route inp of
        Inl e \<Rightarrow> []
      | Inr p \<Rightarrow> plan_selected p @
          rotation k (case plan_next_round_robin_cursor p of
            None \<Rightarrow> inp | Some c \<Rightarrow> inp\<lparr>in_round_robin_cursor := c\<rparr>))"

lemma input_ok_cursor [simp]: "input_ok (inp\<lparr>in_round_robin_cursor := c\<rparr>) = input_ok inp"
  by (simp add: input_ok_def)

lemma rotation_step:
  assumes "input_ok inp" "in_policy inp = RoundRobin"
  shows "rotation (Suc k) inp =
    alias_at inp (round_robin_index inp) #
    rotation k (inp\<lparr>in_round_robin_cursor := saturating_add_u64 (in_round_robin_cursor inp) 1\<rparr>)"
proof -
  have "explain_route inp = explain_round_robin inp"
    using assms by (simp add: explain_route_def result_iff) (metis and_then_simps(2) input_validate_Inr)
  then show ?thesis by (simp add: explain_round_robin_def Let_def)
qed

lemma rotation_nth:
  assumes "input_ok inp" "in_policy inp = RoundRobin" "unat (in_round_robin_cursor inp) + k < 2 ^ 64"
  shows "rotation k inp = map (\<lambda>i. alias_at inp ((unat (in_round_robin_cursor inp) + i) mod
    length (in_candidates inp))) [0..<k]"
  using assms
proof (induction k arbitrary: inp)
  case (Suc k)
  let ?c = "in_round_robin_cursor inp"
  let ?inp = "inp\<lparr>in_round_robin_cursor := saturating_add_u64 ?c 1\<rparr>"
  have c: "unat (saturating_add_u64 ?c 1) = unat ?c + 1"
    using Suc.prems(3) by (simp add: unat_saturating_add_u64)
  have "rotation k ?inp = map (\<lambda>i. alias_at ?inp ((unat ?c + 1 + i) mod length (in_candidates inp))) [0..<k]"
    using Suc.IH [of ?inp] Suc.prems c by simp
  moreover have "alias_at ?inp = alias_at inp" by (rule ext) (simp add: alias_at_def)
  ultimately show ?case
    using Suc.prems by (simp only: rotation_step) (simp add: round_robin_index_def upt_conv_Cons
        map_Suc_upt [symmetric] comp_def del: upt_Suc)
qed simp

lemma rotate_map_nth: "map (\<lambda>i. xs ! ((c + i) mod length xs)) [0..<length xs] = rotate c xs"
  by (rule nth_equalityI) (simp_all add: nth_rotate add.commute)

subsection \<open>Capability labels of metadata\<close>

definition label_set_ok :: "string list \<Rightarrow> bool" where
  "label_set_ok ls \<longleftrightarrow> sorted_wrt (<) ls \<and> (\<forall>l \<in> set ls. l \<noteq> [] \<and> normalize_label l = l)"

lemma label_set_ok_insert: "label_set_ok ls \<Longrightarrow> normalize_label l \<noteq> [] \<Longrightarrow> label_set_ok (bs_insert (normalize_label l) ls)"
  by (auto simp: label_set_ok_def strict_sorted_bs_insert)

lemma collect_labels_ok:
  "label_set_ok ls \<Longrightarrow> label_set_ok (collect_labels v ls)"
  "label_set_ok ls \<Longrightarrow> label_set_ok (collect_items vs ls)"
  "label_set_ok ls \<Longrightarrow> label_set_ok (collect_entries es ls)"
  by (induction v ls and vs ls and es ls rule: collect_labels_collect_items_collect_entries.induct)
    (auto simp: Let_def label_set_ok_insert)

lemma capabilities_from_metadata_ok: "label_set_ok (capabilities_from_metadata m)"
proof -
  have "label_set_ok ls \<Longrightarrow> label_set_ok (fold (\<lambda>key labels. case metadata_get m key of None \<Rightarrow> labels
      | Some v \<Rightarrow> collect_labels v labels) keys ls)" for keys ls
    by (induction keys arbitrary: ls) (auto split: option.splits intro: collect_labels_ok)
  then show ?thesis unfolding capabilities_from_metadata_def by this (simp add: label_set_ok_def)
qed

text \<open>The labels a JSON value declares: its strings, and the keys of an object set to true.\<close>

inductive declares :: "json \<Rightarrow> string \<Rightarrow> bool" where
  str: "declares (JString s) s"
| item: "v \<in> set vs \<Longrightarrow> declares v s \<Longrightarrow> declares (JArray vs) s"
| flag: "(k, JBool True) \<in> set es \<Longrightarrow> declares (JObject es) k"
| entry: "(k, v) \<in> set es \<Longrightarrow> declares v s \<Longrightarrow> declares (JObject es) s"

inductive_simps declares_simps:
  "declares (JString s) l" "declares (JArray vs) l" "declares (JObject es) l"
  "declares JNull l" "declares (JBool b) l" "declares (JNumber n) l"

definition declared :: "json \<Rightarrow> string set" where
  "declared v = {normalize_label s | s. declares v s} - {[]}"

lemma declared_simps:
  "declared (JString s) = {normalize_label s} - {[]}"
  "declared (JArray vs) = (\<Union>v \<in> set vs. declared v)"
  "declared JNull = {}" "declared (JBool b) = {}" "declared (JNumber n) = {}"
  by (auto simp: declared_def declares_simps)

definition entry_labels :: "string \<times> json \<Rightarrow> string set" where
  "entry_labels e = (if snd e = JBool True then {normalize_label (fst e)} - {[]} else declared (snd e))"

lemma declared_object: "declared (JObject es) = (\<Union>e \<in> set es. entry_labels e)"
proof
  show "declared (JObject es) \<subseteq> (\<Union>e \<in> set es. entry_labels e)"
  proof
    fix l assume "l \<in> declared (JObject es)"
    then obtain s where l: "l = normalize_label s" "l \<noteq> []" "declares (JObject es) s"
      by (auto simp: declared_def)
    from l(3) consider "(s, JBool True) \<in> set es" | k v where "(k, v) \<in> set es" "declares v s"
      by (auto simp: declares_simps)
    then show "l \<in> (\<Union>e \<in> set es. entry_labels e)"
    proof cases
      case 1
      then show ?thesis using l by (force simp: entry_labels_def)
    next
      case 2
      then have "l \<in> entry_labels (k, v)"
        using l by (auto simp: entry_labels_def declared_def declares_simps)
      with 2 show ?thesis by blast
    qed
  qed
next
  have "entry_labels (k, v) \<subseteq> declared (JObject es)" if "(k, v) \<in> set es" for k v
    using declares.flag [of k es] declares.entry [OF that] that
    by (auto simp: entry_labels_def declared_def split: if_splits)
  then show "(\<Union>e \<in> set es. entry_labels e) \<subseteq> declared (JObject es)" by (auto simp: subset_iff)
qed

lemma json_as_bool_True: "json_as_bool v = Some True \<longleftrightarrow> v = JBool True"
  by (cases v) auto

lemma set_collect_labels:
  "set (collect_labels v ls) = set ls \<union> declared v"
  "set (collect_items vs ls) = set ls \<union> (\<Union>v \<in> set vs. declared v)"
  "set (collect_entries es ls) = set ls \<union> (\<Union>e \<in> set es. entry_labels e)"
  by (induction v ls and vs ls and es ls rule: collect_labels_collect_items_collect_entries.induct)
    (auto simp: Let_def declared_simps declared_object json_as_bool_True entry_labels_def)

definition capability_keys :: "string list" where
  "capability_keys = [''capability'', ''capabilities'', ''skill'', ''skills'']"

lemma set_capabilities_from_metadata:
  "set (capabilities_from_metadata m) =
     (\<Union>key \<in> set capability_keys. case metadata_get m key of None \<Rightarrow> {} | Some v \<Rightarrow> declared v)"
proof -
  have "set (fold (\<lambda>key labels. case metadata_get m key of None \<Rightarrow> labels
      | Some v \<Rightarrow> collect_labels v labels) keys ls) =
    set ls \<union> (\<Union>key \<in> set keys. case metadata_get m key of None \<Rightarrow> {} | Some v \<Rightarrow> declared v)" for keys ls
    by (induction keys arbitrary: ls) (auto simp: set_collect_labels split: option.splits)
  from this [of capability_keys "[]"] show ?thesis
    unfolding capabilities_from_metadata_def capability_keys_def [symmetric] by simp
qed

subsection \<open>Properties of the router\<close>

text \<open>C1. Every plan the router returns is determined by one list of candidate indices, and that list
  is the one the policy's declarative contract admits: the selected aliases are the listed
  candidates in order, there is one decision per candidate in input order, and a decision is marked
  selected, with its order, exactly when the candidate is listed.\<close>

theorem explain_route_refines:
  assumes "explain_route inp = Inr p"
  shows "\<exists>!idxs. policy_selects (in_policy inp) inp idxs \<and> index_plan inp idxs p"
proof -
  from assms have "explain_policy (in_policy inp) inp = Inr p" "in_candidates inp \<noteq> []"
    by (simp_all add: result_iff input_ok_def)
  then obtain idxs where "policy_selects (in_policy inp) inp idxs \<and> index_plan inp idxs p"
    using explain_policy_refines by blast
  then show ?thesis using policy_selects_unique by blast
qed

text \<open>A three-candidate input used by the witnesses.\<close>

definition demo_candidate :: "string \<Rightarrow> string list \<Rightarrow> f64 \<Rightarrow> RouteCandidate" where
  "demo_candidate a tags w = (route_candidate_new a)\<lparr>cand_tags := tags, cand_weight := w\<rparr>"

definition demo_input :: "RoutingPolicyKind \<Rightarrow> RoutePlanInput" where
  "demo_input pol =
     \<lparr>in_policy = pol,
      in_candidates =
        [demo_candidate ''a'' [''rust''] f64_one, demo_candidate ''b'' [] f64_one,
         demo_candidate ''c'' [''Rust ''] 0x4000000000000000],
      in_preferred_agent = None, in_required_tags = [''rust''], in_required_capabilities = [],
      in_required_input_modes = [], in_required_output_modes = [], in_require_streaming = False,
      in_require_push_notifications = False, in_round_robin_cursor = 4, in_quorum = None\<rparr>"

lemma demo_input_sel [simp]:
  "in_policy (demo_input pol) = pol"
  "map cand_alias (in_candidates (demo_input pol)) = [''a'', ''b'', ''c'']"
  "length (in_candidates (demo_input pol)) = 3"
  "in_preferred_agent (demo_input pol) = None"
  "in_round_robin_cursor (demo_input pol) = 4"
  by (simp_all add: demo_input_def demo_candidate_def route_candidate_new_def)

lemma demo_requirements [simp]:
  "in_required_tags (demo_input pol) = [''rust'']"
  "in_required_capabilities (demo_input pol) = []"
  "in_required_input_modes (demo_input pol) = []"
  "in_required_output_modes (demo_input pol) = []"
  "\<not> in_require_streaming (demo_input pol)"
  "\<not> in_require_push_notifications (demo_input pol)"
  "cand_tags (in_candidates (demo_input pol) ! Suc 0) = []"
  by (simp_all add: demo_input_def demo_candidate_def route_candidate_new_def)

lemma demo_input_ok: "input_ok (demo_input pol)"
proof -
  have f: "f64_is_finite w \<and> f64_gt_zero w" if "w = f64_one \<or> w = 0x4000000000000000" for w
    using that by (auto simp: f64_is_finite_def f64_gt_zero_def f64_is_nan_def f64_sign_def
        f64_mantissa_def f64_exponent_def f64_one_def)
  have "trim ''rust'' = ''rust''" "trim ''Rust '' = ''Rust''"
    using trim_solid_padded [of "[]" "[]" "''rust''"] trim_solid_padded [of "[]" "'' ''" "''Rust''"]
    by (simp_all add: solid_def blank_def chars_ascii is_ascii_def is_whitespace_def is_cont_def)
  then have "labels_ok [''rust'']" "labels_ok [''Rust '']" "labels_ok []"
    by (simp_all add: labels_ok_def normalize_label_def)
  with f show ?thesis
    by (simp add: input_ok_def demo_input_def candidate_ok_def demo_candidate_def route_candidate_new_def)
qed

lemma demo_explain_route: "\<exists>p. explain_route (demo_input pol) = Inr p"
  using explain_policy_ok [OF demo_input_ok [of pol]]
  by (simp add: result_iff demo_input_ok preferred_ok_def)

theorem explain_route_refines_witness:
  "\<exists>p. explain_route (demo_input CapabilityMatch) = Inr p \<and>
     (\<exists>!idxs. policy_selects CapabilityMatch (demo_input CapabilityMatch) idxs \<and>
        index_plan (demo_input CapabilityMatch) idxs p)"
proof -
  obtain p where p: "explain_route (demo_input CapabilityMatch) = Inr p"
    using demo_explain_route by blast
  with explain_route_refines [OF p] show ?thesis by simp
qed

text \<open>C2. The router accepts exactly the inputs with at least one candidate, positive finite
  weights, non-blank labels that stay distinct after normalisation, a quorum within the candidate
  count and, for the direct and fallback policies, a preferred agent among the candidates; every
  rejection is a validation error.\<close>

theorem explain_route_total:
  "case explain_route inp of
     Inr p \<Rightarrow> input_ok inp \<and> preferred_ok inp
   | Inl e \<Rightarrow> \<not> (input_ok inp \<and> preferred_ok inp) \<and> err_category e = Cat_Validation"
proof (cases "explain_route inp")
  case (Inl e)
  then have "err_category e = Cat_Validation"
    by (auto simp: explain_route_def and_then_Inl dest: input_validate_category explain_policy_category)
  moreover have "\<not> (\<exists>p. explain_route inp = Inr p)" using Inl by simp
  then have "\<not> (input_ok inp \<and> preferred_ok inp)"
    using explain_policy_ok [of inp] by (auto simp: result_iff)
  ultimately show ?thesis using Inl by simp
next
  case (Inr p)
  then have "input_ok inp" "explain_policy (in_policy inp) inp = Inr p" by (simp_all add: result_iff)
  then show ?thesis using Inr explain_policy_ok [of inp] by auto
qed

text \<open>C3. Round robin is fair: planning as many times as there are candidates, each time from the
  cursor the previous plan returned, visits every candidate exactly once, in candidate order
  starting at the cursor, as long as the 64-bit cursor does not saturate.\<close>

theorem round_robin_fair:
  assumes "input_ok inp" "in_policy inp = RoundRobin"
    and "unat (in_round_robin_cursor inp) + length (in_candidates inp) < 2 ^ 64"
  shows "rotation (length (in_candidates inp)) inp =
    rotate (unat (in_round_robin_cursor inp)) (map cand_alias (in_candidates inp))"
proof -
  let ?n = "length (in_candidates inp)" and ?c = "unat (in_round_robin_cursor inp)"
  have "0 < ?n" using assms(1) by (simp add: input_ok_def)
  then have "map (\<lambda>i. alias_at inp ((?c + i) mod ?n)) [0..<?n] =
      map cand_alias (map (\<lambda>i. in_candidates inp ! ((?c + i) mod ?n)) [0..<?n])"
    by (simp add: alias_at_def comp_def)
  then show ?thesis using rotation_nth [OF assms] by (simp add: rotate_map_nth rotate_map)
qed

theorem round_robin_fair_witness:
  "rotation 3 (demo_input RoundRobin) = [''b'', ''c'', ''a'']"
proof -
  have "rotate 4 [''a'', ''b'', ''c''] = [''b'', ''c'', ''a'']" by code_simp
  then show ?thesis
    using round_robin_fair [OF demo_input_ok [of RoundRobin]] by (simp del: rotation.simps)
qed

text \<open>Once the cursor has reached the largest 64-bit value it saturates: the plan's next cursor is
  the same cursor, so every later plan selects the same single candidate.\<close>

lemma round_robin_saturates:
  assumes "input_ok inp" "in_policy inp = RoundRobin" "in_round_robin_cursor inp = - 1"
  shows "rotation k inp = replicate k (alias_at inp ((2 ^ 64 - 1) mod length (in_candidates inp)))"
proof (induction k)
  case (Suc k)
  have "unat (saturating_add_u64 (- 1) 1) = unat (- 1 :: u64)"
    by (simp add: unat_saturating_add_u64 unat_minus_one_u64)
  then have "saturating_add_u64 (- 1) 1 = - 1" by (simp only: word_unat_eq_iff)
  then have "inp\<lparr>in_round_robin_cursor := saturating_add_u64 (in_round_robin_cursor inp) 1\<rparr> = inp"
    using assms(3) by simp
  then show ?case
    using Suc assms rotation_step [OF assms(1,2), of k] by (simp add: round_robin_index_def unat_minus_one_u64)
qed simp

text \<open>A quorum plan attempts every candidate and requires the requested quorum, or by default a
  strict majority: then any two sets of candidates that each reach the quorum have a member in
  common.\<close>

lemma quorum_plan:
  assumes "explain_route inp = Inr p" "in_policy inp = Quorum"
  shows "\<exists>q. plan_required_quorum p = Some q \<and> 1 \<le> q \<and> q \<le> length (in_candidates inp) \<and>
    plan_selected p = map cand_alias (in_candidates inp) \<and>
    (in_quorum inp = Some q \<or>
     in_quorum inp = None \<and>
       (\<forall>A B. A \<subseteq> {..<length (in_candidates inp)} \<longrightarrow> B \<subseteq> {..<length (in_candidates inp)} \<longrightarrow>
          q \<le> card A \<longrightarrow> q \<le> card B \<longrightarrow> A \<inter> B \<noteq> {}))"
proof -
  let ?n = "length (in_candidates inp)" and ?q = "effective_quorum inp"
  from assms have p: "plan_required_quorum p = Some ?q" "1 \<le> ?q" "?q \<le> ?n"
    "plan_selected p = map cand_alias (in_candidates inp)"
    by (auto simp: result_iff explain_quorum_def)
  have "A \<inter> B \<noteq> {}"
    if "in_quorum inp = None" and A: "A \<subseteq> {..<?n}" "?q \<le> card A" and B: "B \<subseteq> {..<?n}" "?q \<le> card B" for A B
  proof
    assume "A \<inter> B = {}"
    moreover have "finite A" "finite B" using A(1) B(1) finite_subset by blast+
    ultimately have "card A + card B = card (A \<union> B)" by (simp add: card_Un_disjoint)
    also have "\<dots> \<le> ?n" using A(1) B(1) card_mono [of "{..<?n}" "A \<union> B"] by simp
    finally show False using A(2) B(2) that(1) by (simp add: effective_quorum_def)
  qed
  then show ?thesis using p by (cases "in_quorum inp") (auto simp: effective_quorum_def)
qed

text \<open>The capability labels extracted from metadata are exactly the normalised non-blank labels
  its capability and skill entries declare (strings at any depth and object keys set to true), in
  strictly increasing order; so they always pass the label validation a candidate is put to.\<close>

lemma capabilities_from_metadata_exact:
  "set (capabilities_from_metadata m) =
     (\<Union>key \<in> {''capability'', ''capabilities'', ''skill'', ''skills''}.
        case metadata_get m key of None \<Rightarrow> {} | Some v \<Rightarrow> declared v) \<and>
   sorted_wrt (<) (capabilities_from_metadata m) \<and>
   validate_labels ''capability'' (capabilities_from_metadata m) = Inr ()"
proof -
  let ?ls = "capabilities_from_metadata m"
  have ok: "sorted_wrt (<) ?ls" "\<forall>l \<in> set ?ls. l \<noteq> [] \<and> normalize_label l = l"
    using capabilities_from_metadata_ok [of m] by (simp_all add: label_set_ok_def)
  then have "map normalize_label ?ls = ?ls" by (simp add: map_idI)
  then have "labels_ok ?ls" using ok by (auto simp: labels_ok_def strict_sorted_iff)
  then show ?thesis
    using ok(1) set_capabilities_from_metadata [of m] by (simp add: result_iff capability_keys_def)
qed

definition unmet :: "string \<Rightarrow> string list \<Rightarrow> string list \<Rightarrow> string list" where
  "unmet kind required available =
     map (\<lambda>r. kind @ '':'' @ normalize_label r)
       (filter (\<lambda>r. normalize_label r \<notin> normalize_label ` set available) required)"

text \<open>C4. Under the capability policy the requirements a decision lists as missing are exactly the
  unmet ones, labelled with their kind and in the order tags, capabilities, input modes, output
  modes, streaming, push; the candidate is selected exactly when that list is empty.\<close>

theorem capability_match_explained:
  assumes "explain_route inp = Inr p" "in_policy inp = CapabilityMatch"
    and "i < length (in_candidates inp)" "c = in_candidates inp ! i" "d = plan_decisions p ! i"
  shows "dec_missing_requirements d =
      unmet ''tag'' (in_required_tags inp) (cand_tags c) @
      unmet ''capability'' (in_required_capabilities inp) (cand_capabilities c) @
      unmet ''input_mode'' (in_required_input_modes inp) (cand_input_modes c) @
      unmet ''output_mode'' (in_required_output_modes inp) (cand_output_modes c) @
      (if in_require_streaming inp \<and> cand_supports_streaming c \<noteq> Some True
       then [if cand_supports_streaming c = None then ''streaming:unknown'' else ''streaming:false''] else []) @
      (if in_require_push_notifications inp \<and> cand_supports_push_notifications c \<noteq> Some True
       then [if cand_supports_push_notifications c = None then ''push_notifications:unknown''
             else ''push_notifications:false''] else []) \<and>
    (dec_selected d \<longleftrightarrow> dec_missing_requirements d = [])"
proof -
  let ?o = "candidate_capability_match inp c"
  have "explain_capability_match inp = Inr p" using assms by (simp add: result_iff)
  then have d: "dec_selected d = cap_matches ?o \<and> dec_missing_requirements d = cap_missing_requirements ?o"
    using assms(3-5) by (auto simp: explain_capability_match_def Let_def decision_with_details_def)
  moreover have "cap_matches ?o \<longleftrightarrow> cap_missing_requirements ?o = []"
    by (simp add: candidate_capability_match_def Let_def)
  moreover have "cap_missing_requirements ?o =
      unmet ''tag'' (in_required_tags inp) (cand_tags c) @
      unmet ''capability'' (in_required_capabilities inp) (cand_capabilities c) @
      unmet ''input_mode'' (in_required_input_modes inp) (cand_input_modes c) @
      unmet ''output_mode'' (in_required_output_modes inp) (cand_output_modes c) @
      support_missing (in_require_streaming inp) (cand_supports_streaming c) ''streaming'' @
      support_missing (in_require_push_notifications inp) (cand_supports_push_notifications c) ''push_notifications''"
    by (simp add: candidate_capability_match_def Let_def push_missing_requirements_eq unmet_def
        normalized_set_def)
  ultimately show ?thesis by (simp add: support_missing_def split: option.splits)
qed

theorem capability_match_explained_witness:
  "\<exists>p. explain_route (demo_input CapabilityMatch) = Inr p \<and>
     (dec_selected (plan_decisions p ! 1) \<longleftrightarrow> dec_missing_requirements (plan_decisions p ! 1) = []) \<and>
     dec_missing_requirements (plan_decisions p ! 1) = [''tag:rust'']"
proof -
  obtain p where p: "explain_route (demo_input CapabilityMatch) = Inr p"
    using demo_explain_route by blast
  have "trim ''rust'' = ''rust''"
    using trim_solid [of "''rust''"] by (simp add: solid_def is_ascii_def is_whitespace_def)
  then have "unmet ''tag'' [''rust''] [] = [''tag:rust'']" "unmet k [] ls = []" for k ls
    by (simp_all add: unmet_def normalize_label_def ascii_lower_def is_ascii_uppercase_def)
  then show ?thesis
    using p capability_match_explained [OF p, of 1, OF _ _ refl refl] by simp
qed

definition tiny_input :: RoutePlanInput where
  "tiny_input = (demo_input Weighted)\<lparr>in_candidates :=
     [demo_candidate ''a'' [] 0x3C30000000000000, demo_candidate ''b'' [] 0x3C40000000000000]\<rparr>"

lemma round_53_le: "0 \<le> n \<Longrightarrow> round_53 n \<le> 2 * n"
proof -
  assume n: "0 \<le> n"
  define m where "m = (2 :: int) ^ (bit_length n - 53)"
  define q where "q = n div m"
  define r where "r = n mod m"
  have e: "n = q * m + r" unfolding q_def r_def by (rule div_mult_mod_eq [symmetric])
  have pos: "0 \<le> r" "0 \<le> q * m" using n by (simp_all add: q_def r_def m_def pos_imp_zdiv_nonneg_iff)
  have "round_53 n = (if 2 * r > m \<or> 2 * r = m \<and> odd q then (q + 1) * m else q * m)"
    by (simp add: round_53_def Let_def m_def q_def r_def)
  also have "\<dots> \<le> 2 * (q * m + r)" using pos by (auto simp: distrib_right mult.commute [of m q])
  finally show ?thesis by (simp add: e)
qed

text \<open>The weighted policy explains a lighter candidate as one of equal weight: the reason is
  chosen by a difference below the machine epsilon, an absolute bound, while the selection compares
  the weights exactly.  Of two candidates with weights \<open>2\<^sup>-\<^sup>6\<^sup>0\<close> and \<open>2\<^sup>-\<^sup>5\<^sup>9\<close> the
  second is selected, and the first, listed earlier and half as heavy, is reported as being of the
  same weight but later in the order.\<close>

lemma weighted_reason_epsilon:
  "explain_policy Weighted tiny_input = explain_weighted tiny_input \<and>
   (\<exists>p. explain_weighted tiny_input = Inr p \<and> plan_selected p = [''b''] \<and>
     dec_alias (plan_decisions p ! 0) = ''a'' \<and>
     f64_total_less (dec_weight (plan_decisions p ! 0)) (dec_weight (plan_decisions p ! 1)) \<and>
     dec_reason (plan_decisions p ! 0) =
       ''same weight as selected candidate but later in deterministic order'')"
proof -
  have less: "f64_total_less 0x3C30000000000000 0x3C40000000000000" by code_simp
  then have idx: "weighted_index tiny_input = 1"
    by (simp add: weighted_index_def tiny_input_def weighted_greater_def f64_total_less_def
        demo_candidate_def upt_conv_Cons)
  have "f64_units 0x3C40000000000000 = 2 ^ 1015" "f64_units 0x3C30000000000000 = 2 ^ 1014"
    by (simp_all add: f64_units_def f64_sign_def f64_magnitude_def f64_exponent_def f64_mantissa_def)
  then have "f64_diff_below_epsilon 0x3C30000000000000 0x3C40000000000000"
    using round_53_le [of "2 ^ 1014"] by (simp add: f64_diff_below_epsilon_def)
  with idx less show ?thesis
    by (simp add: explain_weighted_def Let_def alias_at_def tiny_input_def demo_candidate_def
        route_candidate_new_def decision_def decision_with_details_def)
qed
end
