(* ===== verification/Rust_Net.thy ===== *)
theory Rust_Net
  imports Rust_Strings
begin

text \<open>
  \<open>str::parse::<SocketAddr>\<close>: the reader of Rust's \<open>core::net\<close> parser.  A reader takes the
  remaining input and returns a value with the input left, or \<open>None\<close>; a failing reader consumes
  nothing.
\<close>

type_synonym 'a reader = "string \<Rightarrow> ('a \<times> string) option"

fun read_given_char :: "char \<Rightarrow> string \<Rightarrow> string option" where
  "read_given_char c [] = None"
| "read_given_char c (b # bs) = (if b = c then Some bs else None)"

text \<open>\<open>char::to_digit\<close> for radix 10 and 16.\<close>

definition to_digit :: "int \<Rightarrow> char \<Rightarrow> int option" where
  "to_digit radix c =
     (let d = (if is_ascii_digit c then Some (of_char c - 48)
               else if is_ascii_lowercase c then Some (of_char c - 87)
               else if is_ascii_uppercase c then Some (of_char c - 55)
               else None)
      in case d of Some v \<Rightarrow> if v < radix then Some v else None | None \<Rightarrow> None)"

text \<open>
  \<open>read_number(radix, max_digits, allow_zero_prefix)\<close> into an unsigned type with greatest value
  \<open>limit\<close>: the checked multiplication and addition fail on overflow, more than \<open>max_digits\<close>
  digits fail, and no digit fails.
\<close>

fun read_digits :: "int \<Rightarrow> nat option \<Rightarrow> int \<Rightarrow> int \<Rightarrow> nat \<Rightarrow> (int \<times> nat) reader" where
  "read_digits radix max_digits limit result count [] = Some ((result, count), [])"
| "read_digits radix max_digits limit result count (c # cs) =
     (case to_digit radix c of
        None \<Rightarrow> Some ((result, count), c # cs)
      | Some digit \<Rightarrow>
          if limit < result * radix + digit then None
          else if (case max_digits of None \<Rightarrow> False | Some m \<Rightarrow> m < count + 1) then None
          else read_digits radix max_digits limit (result * radix + digit) (count + 1) cs)"

definition read_number :: "int \<Rightarrow> nat option \<Rightarrow> bool \<Rightarrow> int \<Rightarrow> int reader" where
  "read_number radix max_digits allow_zero_prefix limit s =
     (case read_digits radix max_digits limit 0 0 s of
        None \<Rightarrow> None
      | Some ((result, count), rest) \<Rightarrow>
          if count = 0 then None
          else if \<not> allow_zero_prefix \<and> s \<noteq> [] \<and> hd s = CHR ''0'' \<and> 1 < count then None
          else Some (result, rest))"

definition read_separator :: "char \<Rightarrow> nat \<Rightarrow> 'a reader \<Rightarrow> 'a reader" where
  "read_separator sep index inner s =
     (if 0 < index then Option.bind (read_given_char sep s) inner else inner s)"

fun read_octets :: "nat \<Rightarrow> nat \<Rightarrow> int list reader" where
  "read_octets 0 index s = Some ([], s)"
| "read_octets (Suc n) index s =
     Option.bind (read_separator CHR ''.'' index (read_number 10 (Some 3) False 255) s)
       (\<lambda>(octet, rest). map_option (\<lambda>(os, r). (octet # os, r)) (read_octets n (index + 1) rest))"

definition read_ipv4_addr :: "int list reader" where
  "read_ipv4_addr s = read_octets 4 0 s"

text \<open>\<open>read_groups\<close>: how many of at most \<open>limit\<close> groups were read, whether an embedded IPv4
  address ended them, the groups and the input left.\<close>

function read_groups :: "nat \<Rightarrow> nat \<Rightarrow> string \<Rightarrow> int list \<times> bool \<times> string" where
  "read_groups limit i s =
     (if limit \<le> i then ([], False, s)
      else
        case (if i < limit - 1 then read_separator CHR '':'' i read_ipv4_addr s else None) of
          Some (os, rest) \<Rightarrow>
            ([os ! 0 * 256 + os ! 1, os ! 2 * 256 + os ! 3], True, rest)
        | None \<Rightarrow>
            (case read_separator CHR '':'' i (read_number 16 (Some 4) True 65535) s of
               None \<Rightarrow> ([], False, s)
             | Some (g, rest) \<Rightarrow>
                 (let r = read_groups limit (i + 1) rest in (g # fst r, snd r))))"
  by pat_completeness auto
termination
  by (relation "measure (\<lambda>(limit, i, s). limit - i)") auto

declare read_groups.simps [simp del]

definition read_ipv6_addr :: "int list reader" where
  "read_ipv6_addr s =
     (let (head, head_ipv4, rest) = read_groups 8 0 s
      in if length head = 8 then Some (head, rest)
         else if head_ipv4 then None
         else Option.bind (read_given_char CHR '':'' rest) (\<lambda>r1.
                Option.bind (read_given_char CHR '':'' r1) (\<lambda>r2.
                  let (tail, _, rest') = read_groups (8 - (length head + 1)) 0 r2
                  in Some (head @ replicate (8 - length head - length tail) 0 @ tail, rest'))))"

definition read_port :: "int reader" where
  "read_port s = Option.bind (read_given_char CHR '':'' s) (read_number 10 None True 65535)"

definition read_scope_id :: "int reader" where
  "read_scope_id s = Option.bind (read_given_char CHR ''%'' s) (read_number 10 None True 4294967295)"

datatype socket_addr = V4 "int list" int | V6 "int list" int int

definition read_socket_addr_v4 :: "socket_addr reader" where
  "read_socket_addr_v4 s =
     Option.bind (read_ipv4_addr s) (\<lambda>(ip, rest).
       map_option (\<lambda>(port, r). (V4 ip port, r)) (read_port rest))"

definition read_socket_addr_v6 :: "socket_addr reader" where
  "read_socket_addr_v6 s =
     Option.bind (read_given_char CHR ''['' s) (\<lambda>r1.
       Option.bind (read_ipv6_addr r1) (\<lambda>(ip, r2).
         let (scope, r3) = (case read_scope_id r2 of Some (v, r) \<Rightarrow> (v, r) | None \<Rightarrow> (0, r2))
         in Option.bind (read_given_char CHR '']'' r3) (\<lambda>r4.
              map_option (\<lambda>(port, r). (V6 ip scope port, r)) (read_port r4))))"

definition parse_socket_addr :: "string \<Rightarrow> socket_addr option" where
  "parse_socket_addr s =
     (case (case read_socket_addr_v4 s of Some r \<Rightarrow> Some r | None \<Rightarrow> read_socket_addr_v6 s) of
        Some (addr, []) \<Rightarrow> Some addr
      | _ \<Rightarrow> None)"

end
