(* ===== verification/Core_Config_Text.thy ===== *)
theory Core_Config_Text
  imports Core_Ids Core_Routing Rust_Net
begin

text \<open>
  The text validators of \<open>crates/missive-core/src/config.rs\<close>: identifiers, bindings, protocol
  versions, header names, URLs, durations and paths.  A path is the byte string of its
  \<open>OsStr\<close>.  \<open>Url::parse\<close> of the \<open>url\<close> crate is a parameter: what the code reads of
  the parsed URL is its scheme, whether it has a host, the user name and whether it has a password.
\<close>

record url_parts =
  url_scheme :: string
  url_has_host :: bool
  url_username :: string
  url_has_password :: bool

type_synonym url_parser = "string \<Rightarrow> url_parts option"

definition config_error_help :: "message \<Rightarrow> string \<Rightarrow> MissiveError" where
  "config_error_help detail h = with_help (error_config detail) h"

subsection \<open>Identifiers\<close>

definition NAMED_CONFIG_IDENTIFIER_MAX_BYTES :: nat where
  "NAMED_CONFIG_IDENTIFIER_MAX_BYTES = 63"

definition CONFIG_IDENTIFIER_HELP :: string where
  "CONFIG_IDENTIFIER_HELP =
     ''Use lowercase ASCII letters or digits, with '' @ [CHR 0x27, CHR ''-'', CHR 0x27] @ '', '' @
     [CHR 0x27, CHR ''_'', CHR 0x27] @ '' or '' @ [CHR 0x27, CHR ''.'', CHR 0x27] @
     '' only in the middle.''"

definition invalid_config_identifier :: "string \<Rightarrow> string \<Rightarrow> MissiveError" where
  "invalid_config_identifier kind reason =
     config_error_help [Lit (''invalid '' @ kind @ '': '' @ reason)] CONFIG_IDENTIFIER_HELP"

definition validate_named_config_identifier :: "string \<Rightarrow> string \<Rightarrow> unit outcome" where
  "validate_named_config_identifier kind value =
     (if value = [] then Inl (invalid_config_identifier kind ''value cannot be empty'')
      else checks
        [fail_if (NAMED_CONFIG_IDENTIFIER_MAX_BYTES < length value)
           (invalid_config_identifier kind
             (''value is '' @ show_nat (length value) @ '' bytes, but the maximum is '' @
              show_nat NAMED_CONFIG_IDENTIFIER_MAX_BYTES)),
         fail_if (\<not> is_ascii_lower_alphanumeric (value ! 0))
           (invalid_config_identifier kind ''value must start with a lowercase ASCII letter or digit''),
         fail_if (\<not> is_ascii_lower_alphanumeric (value ! (length value - 1)))
           (invalid_config_identifier kind ''value must end with a lowercase ASCII letter or digit''),
         try_for_each
           (\<lambda>b. fail_if (\<not> (is_ascii_lower_alphanumeric b \<or> b \<in> {CHR ''-'', CHR ''_'', CHR ''.''}))
              (invalid_config_identifier kind
                (''value must contain only lowercase ASCII letters, digits, '' @
                 [CHR 0x27, CHR ''-'', CHR 0x27] @ '', '' @ [CHR 0x27, CHR ''_'', CHR 0x27] @ '' or '' @
                 [CHR 0x27, CHR ''.'', CHR 0x27])))
           value])"

definition validate_transport_binding :: "string \<Rightarrow> string \<Rightarrow> unit outcome" where
  "validate_transport_binding field value =
     (if value = [] then
        Inl (config_error_help [Lit (field @ '' binding cannot be empty'')]
          ''Use bindings such as http+json, json-rpc, or grpc.'')
      else checks
        [fail_if (64 < length value)
           (config_error_help [Lit (field @ '' binding is too long'')]
             ''Use short transport binding names such as http+json or json-rpc.''),
         fail_if (\<not> is_ascii_lower_alphanumeric (value ! 0) \<or>
                  \<not> is_ascii_lower_alphanumeric (value ! (length value - 1)))
           (config_error_help
             [Lit (field @ '' binding must start and end with a lowercase ASCII letter or digit'')]
             ''Use bindings such as http+json, json-rpc, or grpc.''),
         try_for_each
           (\<lambda>b. fail_if (\<not> (is_ascii_lower_alphanumeric b \<or>
                b \<in> {CHR ''+'', CHR ''-'', CHR ''_'', CHR ''.''}))
              (config_error_help [Lit (field @ '' binding contains unsupported characters'')]
                (''Use lowercase ASCII letters, digits, '' @ [CHR 0x27, CHR ''+'', CHR 0x27] @ '', '' @
                 [CHR 0x27, CHR ''-'', CHR 0x27] @ '', '' @ [CHR 0x27, CHR ''_'', CHR 0x27] @ '' or '' @
                 [CHR 0x27, CHR ''.'', CHR 0x27] @ ''.'')))
           value])"

subsection \<open>Text fields\<close>

definition validate_optional_text :: "string \<Rightarrow> string \<Rightarrow> unit outcome" where
  "validate_optional_text field value =
     fail_if (has_control value) (error_config [Lit (field @ '' cannot contain control characters'')])"

definition validate_required_text :: "string \<Rightarrow> string option \<Rightarrow> unit outcome" where
  "validate_required_text field value =
     and_then (ok_or value (error_config [Lit (field @ '' is required'')])) (\<lambda>value.
       and_then
         (fail_if (trim value = []) (error_config [Lit (field @ '' cannot be empty'')]))
         (\<lambda>_. validate_optional_text field value))"

definition validate_protocol_version :: "string \<Rightarrow> string \<Rightarrow> unit outcome" where
  "validate_protocol_version field value =
     checks
       [validate_required_text field (Some value),
        fail_if (64 < length value)
          (config_error_help [Lit (field @ '' must be at most 64 bytes'')]
            ''Use a short A2A protocol version such as 1.0.''),
        fail_if (list_ex (\<lambda>b. \<not> (is_ascii_alphanumeric b \<or> b \<in> {CHR ''.'', CHR ''-'', CHR ''_''})) value)
          (config_error_help [Lit (field @ '' contains unsupported characters'')]
            (''Use ASCII letters, digits, '' @ [CHR 0x27, CHR ''.'', CHR 0x27] @ '', '' @
             [CHR 0x27, CHR ''-'', CHR 0x27] @ '' or '' @ [CHR 0x27, CHR ''_'', CHR 0x27] @ '' only.''))]"

definition validate_a2a_extension :: "string \<Rightarrow> string \<Rightarrow> unit outcome" where
  "validate_a2a_extension field value =
     checks
       [validate_required_text field (Some value),
        fail_if (512 < length value)
          (error_config [Lit (field @ '' extension identifier must be at most 512 bytes'')]),
        fail_if (has_whitespace value \<or> CHR '','' \<in> set value)
          (config_error_help
            [Lit (field @ '' extension identifiers must not contain whitespace or commas'')]
            ''Use compact URI-like extension identifiers.'')]"

definition validate_service_parameter_value :: "string \<Rightarrow> string \<Rightarrow> unit outcome" where
  "validate_service_parameter_value field value =
     checks
       [validate_required_text field (Some value),
        fail_if (8 * 1024 < length value)
          (error_config [Lit (field @ '' service parameter value must be at most 8192 bytes'')])]"

definition is_reserved_a2a_service_parameter :: "string \<Rightarrow> bool" where
  "is_reserved_a2a_service_parameter value \<longleftrightarrow>
     eq_ignore_ascii_case value ''A2A-Version'' \<or> eq_ignore_ascii_case value ''A2A-Extensions''"

definition HTTP_URL_HELP :: string where
  "HTTP_URL_HELP = ''Use a URL such as https://agent.example or http://127.0.0.1:8080.''"

definition validate_http_url :: "url_parser \<Rightarrow> string \<Rightarrow> string \<Rightarrow> unit outcome" where
  "validate_http_url U field value =
     and_then
       (checks
         [validate_required_text field (Some value),
          fail_if (has_whitespace value \<or> has_control value)
            (config_error_help
              [Lit (field @ '' must be an HTTP(S) URL without whitespace or control characters'')]
              HTTP_URL_HELP)])
       (\<lambda>_. and_then
         (ok_or (U value)
           (config_error_help [Lit (field @ '' must be a valid absolute HTTP(S) URL'')] HTTP_URL_HELP))
         (\<lambda>parsed. checks
           [fail_if (\<not> (url_scheme parsed = ''http'' \<or> url_scheme parsed = ''https'') \<or>
                     \<not> url_has_host parsed)
              (config_error_help [Lit (field @ '' must use http or https and include a host'')]
                HTTP_URL_HELP),
            fail_if (url_username parsed \<noteq> [] \<or> url_has_password parsed)
              (config_error_help [Lit (field @ '' must not include embedded credentials'')]
                ''Use auth_refs for authentication material instead of username/password URLs.'')]))"

definition validate_header_name :: "string \<Rightarrow> string \<Rightarrow> unit outcome" where
  "validate_header_name field value =
     checks
       [validate_required_text field (Some value),
        fail_if (list_ex (\<lambda>b. \<not> (is_ascii_alphanumeric b \<or> b = CHR ''-'')) value)
          (config_error_help [Lit (field @ '' must be an HTTP header name'')]
            (''Use ASCII letters, digits, and '' @ [CHR 0x27, CHR ''-'', CHR 0x27] @
             '' only, for example Authorization.''))]"

definition validate_auth_scheme :: "string \<Rightarrow> string \<Rightarrow> unit outcome" where
  "validate_auth_scheme field value =
     checks
       [validate_required_text field (Some value),
        fail_if (list_ex (\<lambda>b. \<not> (is_ascii_alphanumeric b \<or> b \<in> {CHR ''-'', CHR ''_''})) value)
          (config_error_help [Lit (field @ '' must be an auth scheme token'')]
            ''Use a scheme such as Bearer, Basic, Token, or ApiKey.'')]"

text \<open>The first byte exists: the required-text check has rejected the empty value.\<close>

definition validate_env_var_name :: "string \<Rightarrow> string \<Rightarrow> unit outcome" where
  "validate_env_var_name field value =
     and_then (validate_required_text field (Some value)) (\<lambda>_.
       checks
         [fail_if (\<not> (is_ascii_alphabetic (value ! 0) \<or> value ! 0 = CHR ''_''))
            (config_error_help [Lit (field @ '' must start with an ASCII letter or underscore'')]
              ''Set env to an environment variable name, not to a token value.''),
          fail_if (list_ex (\<lambda>b. \<not> (is_ascii_alphanumeric b \<or> b = CHR ''_'')) value)
            (config_error_help
              [Lit (field @ '' must contain only ASCII letters, digits, and underscore'')]
              ''Set env to an environment variable name, not to a token value.'')])"

definition validate_config_path :: "string \<Rightarrow> string \<Rightarrow> unit outcome" where
  "validate_config_path field path =
     checks
       [fail_if (path = []) (error_config [Lit (field @ '' cannot be empty'')]),
        fail_if (has_control path)
          (error_config [Lit (field @ '' cannot contain control characters'')])]"

definition DURATION_HELP :: string where
  "DURATION_HELP = ''Use duration strings such as 250ms, 30s, 2m, or 1h.''"

definition not_digit :: "nat \<Rightarrow> bool" where
  "not_digit u \<longleftrightarrow> \<not> (48 \<le> u \<and> u \<le> 57)"

definition validate_duration :: "string \<Rightarrow> string \<Rightarrow> unit outcome" where
  "validate_duration field value =
     and_then (validate_required_text field (Some value)) (\<lambda>_.
       let number = before_char not_digit value; unit = from_char not_digit value
       in and_then
         (fail_if (number = [] \<or> unit = [])
           (config_error_help [Lit (field @ '' must include a positive integer and unit'')] DURATION_HELP))
         (\<lambda>_. and_then
           (ok_or (parse_u64_digits number)
             (config_error_help [Lit (field @ '' duration amount is invalid'')] DURATION_HELP))
           (\<lambda>amount. fail_if (amount = 0 \<or> unit \<notin> {''ms'', ''s'', ''m'', ''h''})
             (config_error_help
               [Lit (field @ '' must use a positive duration with unit ms, s, m, or h'')]
               DURATION_HELP))))"

definition validate_positive_u16 :: "string \<Rightarrow> u16 \<Rightarrow> unit outcome" where
  "validate_positive_u16 field value =
     fail_if (value = 0) (error_config [Lit (field @ '' must be greater than zero'')])"

definition env_flag_enabled :: "string \<Rightarrow> bool" where
  "env_flag_enabled value \<longleftrightarrow>
     to_ascii_lowercase (trim value) \<in> {''1'', ''true'', ''yes'', ''on''}"

subsection \<open>What the validators accept\<close>

definition text_ok :: "string \<Rightarrow> bool" where
  "text_ok v \<longleftrightarrow> trim v \<noteq> [] \<and> \<not> has_control v"

definition http_url_ok :: "url_parser \<Rightarrow> string \<Rightarrow> bool" where
  "http_url_ok U v \<longleftrightarrow>
     text_ok v \<and> \<not> has_whitespace v \<and>
     (\<exists>u. U v = Some u \<and> url_scheme u \<in> {''http'', ''https''} \<and> url_has_host u \<and>
        url_username u = [] \<and> \<not> url_has_password u)"

definition token_ok :: "char list \<Rightarrow> string \<Rightarrow> bool" where
  "token_ok extra v \<longleftrightarrow> v \<noteq> [] \<and> (\<forall>b \<in> set v. is_ascii_alphanumeric b \<or> b \<in> set extra)"

definition env_name_ok :: "string \<Rightarrow> bool" where
  "env_name_ok v \<longleftrightarrow> token_ok [CHR ''_''] v \<and> \<not> is_ascii_digit (hd v)"

definition duration_ok :: "string \<Rightarrow> bool" where
  "duration_ok v \<longleftrightarrow>
     (\<exists>ds u n. v = ds @ u \<and> ds \<noteq> [] \<and> parse_digits 0 ds = Some n \<and> 0 < n \<and> n < 2 ^ 64 \<and>
        u \<in> {''ms'', ''s'', ''m'', ''h''})"

lemma config_error_help_category [simp]: "err_category (config_error_help d h) = Cat_Config"
  by (simp add: config_error_help_def)

lemma named_separator_set: "is_named_separator b \<longleftrightarrow> b \<in> {CHR ''-'', CHR ''_'', CHR ''.''}"
  by (auto simp: is_named_separator_def)

lemma transport_separator_set:
  "is_transport_separator b \<longleftrightarrow> b \<in> {CHR ''+'', CHR ''-'', CHR ''_'', CHR ''.''}"
  by (auto simp: is_transport_separator_def)

lemma validate_named_config_identifier_Inr [result_iff]:
  "validate_named_config_identifier kind v = Inr u \<longleftrightarrow> named_ok v"
proof (cases "v = []")
  case False
  then have "validate_named_config_identifier kind v = Inr u \<longleftrightarrow>
      length v \<le> 63 \<and> is_ascii_lower_alphanumeric (v ! 0) \<and>
      is_ascii_lower_alphanumeric (v ! (length v - 1)) \<and>
      (\<forall>b \<in> set v. is_ascii_lower_alphanumeric b \<or> is_named_separator b)"
    unfolding validate_named_config_identifier_def named_separator_set NAMED_CONFIG_IDENTIFIER_MAX_BYTES_def
    by (simp add: try_for_each_Inr not_less)
  with False show ?thesis by (simp add: named_ok_def shaped_def hd_conv_nth last_conv_nth)
qed (simp add: validate_named_config_identifier_def named_ok_def shaped_def)

lemma validate_transport_binding_Inr [result_iff]:
  "validate_transport_binding field v = Inr u \<longleftrightarrow> transport_ok v"
proof (cases "v = []")
  case False
  then have "validate_transport_binding field v = Inr u \<longleftrightarrow>
      length v \<le> 64 \<and> is_ascii_lower_alphanumeric (v ! 0) \<and>
      is_ascii_lower_alphanumeric (v ! (length v - 1)) \<and>
      (\<forall>b \<in> set v. is_ascii_lower_alphanumeric b \<or> is_transport_separator b)"
    unfolding validate_transport_binding_def transport_separator_set
    by (simp add: try_for_each_Inr not_less)
  with False show ?thesis by (simp add: transport_ok_def shaped_def hd_conv_nth last_conv_nth)
qed (simp add: validate_transport_binding_def transport_ok_def shaped_def)

lemma validate_optional_text_Inr [result_iff]:
  "validate_optional_text field v = Inr u \<longleftrightarrow> \<not> has_control v"
  by (simp add: validate_optional_text_def)

lemma validate_required_text_Inr [result_iff]:
  "validate_required_text field v = Inr u \<longleftrightarrow> (\<exists>t. v = Some t \<and> text_ok t)"
  by (cases v) (auto simp: validate_required_text_def text_ok_def result_iff)

lemma validate_http_url_Inr [result_iff]:
  "validate_http_url U field v = Inr u \<longleftrightarrow> http_url_ok U v"
  by (auto simp: validate_http_url_def result_iff http_url_ok_def text_ok_def)

text \<open>A non-empty string of printable ASCII bytes is neither blank nor holds control characters.\<close>

lemma graphic_byte:
  "45 \<le> byte b \<and> byte b \<le> 122 \<Longrightarrow> is_ascii b \<and> \<not> is_whitespace (byte b) \<and> \<not> is_control (byte b)"
  unfolding is_ascii_def is_whitespace_def is_control_def by linarith

lemma token_byte:
  assumes "is_ascii_alphanumeric b \<or> b \<in> {CHR ''-'', CHR ''_'', CHR ''.''}"
  shows "45 \<le> byte b \<and> byte b \<le> 122"
proof (cases "is_ascii_alphanumeric b")
  case True
  then show ?thesis unfolding ascii_defs by linarith
next
  case False
  then show ?thesis using assms by auto
qed

lemma token_text_ok:
  assumes "token_ok extra v" "set extra \<subseteq> {CHR ''-'', CHR ''_'', CHR ''.''}"
  shows "text_ok v"
proof -
  have b: "is_ascii b \<and> \<not> is_whitespace (byte b) \<and> \<not> is_control (byte b)" if "b \<in> set v" for b
    using assms that by (intro graphic_byte token_byte) (auto simp: token_ok_def)
  have ne: "v \<noteq> []" using assms(1) by (simp add: token_ok_def)
  have "chars v = map byte v" using b by (intro chars_ascii) (simp add: list_all_iff)
  moreover have "trim v = v" using b ne by (intro trim_ascii_id) (auto simp: list_all_iff)
  ultimately show ?thesis using b ne by (auto simp: text_ok_def has_control_def list_ex_iff)
qed

lemma text_ok_nonempty: "text_ok v \<Longrightarrow> v \<noteq> []"
  by (auto simp: text_ok_def trim_def trim_start_def trim_end_def)

lemma validate_header_name_Inr [result_iff]:
  "validate_header_name field v = Inr u \<longleftrightarrow> token_ok [CHR ''-''] v"
  using token_text_ok [of "[CHR ''-'']" v] text_ok_nonempty [of v]
  by (auto simp: validate_header_name_def result_iff token_ok_def list_ex_iff)

lemma validate_auth_scheme_Inr [result_iff]:
  "validate_auth_scheme field v = Inr u \<longleftrightarrow> token_ok [CHR ''-'', CHR ''_''] v"
  using token_text_ok [of "[CHR ''-'', CHR ''_'']" v] text_ok_nonempty [of v]
  by (auto simp: validate_auth_scheme_def result_iff token_ok_def list_ex_iff)

lemma validate_env_var_name_Inr [result_iff]:
  "validate_env_var_name field v = Inr u \<longleftrightarrow> env_name_ok v"
proof -
  have "validate_env_var_name field v = Inr u \<longleftrightarrow>
      text_ok v \<and> (is_ascii_alphabetic (v ! 0) \<or> v ! 0 = CHR ''_'') \<and>
      (\<forall>b \<in> set v. is_ascii_alphanumeric b \<or> b = CHR ''_'')"
    by (auto simp: validate_env_var_name_def result_iff list_ex_iff)
  moreover have "is_ascii_alphanumeric b \<and> \<not> is_ascii_digit b \<longleftrightarrow> is_ascii_alphabetic b" for b
    by (auto simp: ascii_defs)
  moreover have "\<not> is_ascii_digit CHR ''_''" by (simp add: is_ascii_digit_def)
  ultimately show ?thesis
    using token_text_ok [of "[CHR ''_'']" v] text_ok_nonempty [of v]
    by (cases v) (auto simp: env_name_ok_def token_ok_def)
qed

lemma validate_protocol_version_Inr [result_iff]:
  "validate_protocol_version field v = Inr u \<longleftrightarrow>
     token_ok [CHR ''.'', CHR ''-'', CHR ''_''] v \<and> length v \<le> 64"
  using token_text_ok [of "[CHR ''.'', CHR ''-'', CHR ''_'']" v] text_ok_nonempty [of v]
  by (auto simp: validate_protocol_version_def result_iff token_ok_def list_ex_iff)

definition extension_ok :: "string \<Rightarrow> bool" where
  "extension_ok v \<longleftrightarrow> text_ok v \<and> length v \<le> 512 \<and> \<not> has_whitespace v \<and> CHR '','' \<notin> set v"

lemma validate_a2a_extension_Inr [result_iff]:
  "validate_a2a_extension field v = Inr u \<longleftrightarrow> extension_ok v"
  by (auto simp: validate_a2a_extension_def result_iff extension_ok_def)

lemma validate_service_parameter_value_Inr [result_iff]:
  "validate_service_parameter_value field v = Inr u \<longleftrightarrow> text_ok v \<and> length v \<le> 8192"
  by (auto simp: validate_service_parameter_value_def result_iff)

lemma validate_config_path_Inr [result_iff]:
  "validate_config_path field v = Inr u \<longleftrightarrow> v \<noteq> [] \<and> \<not> has_control v"
  by (auto simp: validate_config_path_def)

lemma validate_positive_u16_Inr [result_iff]: "validate_positive_u16 field n = Inr u \<longleftrightarrow> n \<noteq> 0"
  by (simp add: validate_positive_u16_def)

subsection \<open>Durations\<close>

lemma before_from_ascii:
  assumes "list_all is_ascii v"
  shows "before_char p v = takeWhile (\<lambda>b. \<not> p (byte b)) v" "from_char p v = dropWhile (\<lambda>b. \<not> p (byte b)) v"
  using assms by (simp_all add: before_char_def from_char_def char_chunks_ascii takeWhile_map
      dropWhile_map comp_def)

lemma not_digit_byte: "not_digit (byte b) \<longleftrightarrow> \<not> is_ascii_digit b"
  by (simp add: not_digit_def is_ascii_digit_def)

lemma split_digits:
  assumes "list_all is_ascii_digit ds" "list_all is_ascii u" "u \<noteq> []" "\<not> is_ascii_digit (hd u)"
  shows "before_char not_digit (ds @ u) = ds \<and> from_char not_digit (ds @ u) = u"
proof -
  have "list_all is_ascii (ds @ u)" using assms(1,2) by (auto simp: list_all_iff ascii_defs)
  moreover have "takeWhile is_ascii_digit u = [] \<and> dropWhile is_ascii_digit u = u"
    using assms(3,4) by (cases u) auto
  ultimately show ?thesis
    using assms(1) by (simp add: before_from_ascii not_digit_byte list_all_iff)
qed

definition duration_units :: "string list" where
  "duration_units = [''ms'', ''s'', ''m'', ''h'']"

lemma duration_unit_ascii: "u \<in> set duration_units \<Longrightarrow> list_all is_ascii u \<and> u \<noteq> [] \<and> \<not> is_ascii_digit (hd u)
   \<and> \<not> is_whitespace (byte (last u)) \<and> (\<forall>b \<in> set u. is_ascii_alphanumeric b)"
  by (auto simp: duration_units_def ascii_defs is_whitespace_def)

lemma validate_duration_Inr [result_iff]: "validate_duration field v = Inr w \<longleftrightarrow> duration_ok v"
proof
  assume v: "validate_duration field v = Inr w"
  then obtain n where n: "parse_digits 0 (before_char not_digit v) = Some n" "0 < n" "n < 2 ^ 64"
      "before_char not_digit v \<noteq> []" "from_char not_digit v \<in> {''ms'', ''s'', ''m'', ''h''}"
    by (auto simp: validate_duration_def Let_def result_iff parse_u64_digits_def split: if_splits option.splits)
  then show "duration_ok v" unfolding duration_ok_def using before_from_char [of not_digit v] by metis
next
  assume "duration_ok v"
  then obtain ds u n where v: "v = ds @ u" "ds \<noteq> []" "parse_digits 0 ds = Some n" "0 < n" "n < 2 ^ 64"
      "u \<in> set duration_units" by (auto simp: duration_ok_def duration_units_def)
  have ds: "list_all is_ascii_digit ds" using v(3) by (rule parse_digits_digits)
  note u = duration_unit_ascii [OF v(6)]
  have split: "before_char not_digit v = ds" "from_char not_digit v = u"
    using split_digits [OF ds] u v(1) by auto
  have "token_ok [] v" using ds u v(1,2) by (auto simp: token_ok_def list_all_iff is_ascii_alphanumeric_def)
  then have "text_ok v" by (rule token_text_ok) simp
  moreover have "parse_u64_digits ds = Some n" using v(2-5) by (simp add: parse_u64_digits_def)
  moreover have "u \<in> {''ms'', ''s'', ''m'', ''h''}" using v(6) by (auto simp: duration_units_def)
  ultimately show "validate_duration field v = Inr w"
    using v(2,4) u unfolding validate_duration_def Let_def split by (simp add: result_iff)
qed

lemma duration_ok_show_nat:
  assumes "u \<in> {''ms'', ''s'', ''m'', ''h''}" "0 < n" "n < 2 ^ 64"
  shows "duration_ok (show_nat n @ u)"
  unfolding duration_ok_def using assms parse_show_nat [of n]
  by (intro exI [of _ "show_nat n"] exI [of _ u] exI [of _ n]) (auto simp: show_nat.simps [of n])

subsection \<open>Every rejection is a configuration error\<close>

named_theorems config_category

lemma validate_named_config_identifier_category [config_category]:
  "validate_named_config_identifier kind v = Inl e \<Longrightarrow> err_category e = Cat_Config"
  by (auto simp: validate_named_config_identifier_def invalid_config_identifier_def
      elim!: try_for_each_error split: if_splits)

lemma validate_transport_binding_category [config_category]:
  "validate_transport_binding field v = Inl e \<Longrightarrow> err_category e = Cat_Config"
  by (auto simp: validate_transport_binding_def elim!: try_for_each_error split: if_splits)

lemma validate_optional_text_category [config_category]:
  "validate_optional_text field v = Inl e \<Longrightarrow> err_category e = Cat_Config"
  by (simp add: validate_optional_text_def)

lemma validate_required_text_category [config_category]:
  "validate_required_text field v = Inl e \<Longrightarrow> err_category e = Cat_Config"
  by (auto simp: validate_required_text_def and_then_Inl validate_optional_text_def)

lemma validate_text_categories [config_category]:
  "validate_protocol_version field v = Inl e \<Longrightarrow> err_category e = Cat_Config"
  "validate_a2a_extension field v = Inl e \<Longrightarrow> err_category e = Cat_Config"
  "validate_service_parameter_value field v = Inl e \<Longrightarrow> err_category e = Cat_Config"
  "validate_header_name field v = Inl e \<Longrightarrow> err_category e = Cat_Config"
  "validate_auth_scheme field v = Inl e \<Longrightarrow> err_category e = Cat_Config"
  "validate_env_var_name field v = Inl e \<Longrightarrow> err_category e = Cat_Config"
  "validate_config_path field v = Inl e \<Longrightarrow> err_category e = Cat_Config"
  "validate_positive_u16 field n = Inl e \<Longrightarrow> err_category e = Cat_Config"
  by (auto simp: validate_protocol_version_def validate_a2a_extension_def validate_header_name_def
      validate_service_parameter_value_def validate_auth_scheme_def validate_env_var_name_def
      validate_config_path_def validate_positive_u16_def and_then_Inl
      dest: validate_required_text_category)

lemma validate_http_url_category [config_category]:
  "validate_http_url U field v = Inl e \<Longrightarrow> err_category e = Cat_Config"
  by (auto simp: validate_http_url_def and_then_Inl dest: validate_required_text_category)

lemma validate_duration_category [config_category]:
  "validate_duration field v = Inl e \<Longrightarrow> err_category e = Cat_Config"
  by (auto simp: validate_duration_def and_then_Inl Let_def dest: validate_required_text_category)
end
