(* ===== verification/Core_Config.thy ===== *)
theory Core_Config
  imports Core_Config_Text Core_Metadata
begin

text \<open>
  The configuration schema of \<open>crates/missive-core/src/config.rs\<close>: one record per struct, the
  \<open>Default\<close> instances, the \<open>validate\<close> method of each and the accessors of a loaded
  configuration.  A \<open>PathBuf\<close> is its byte string.
\<close>

subsection \<open>Constants\<close>

definition CONFIG_SCHEMA_VERSION :: string where
  "CONFIG_SCHEMA_VERSION = ''missive.config.v1''"

definition DEFAULT_A2A_PROTOCOL_VERSION :: string where
  "DEFAULT_A2A_PROTOCOL_VERSION = ''1.0''"

definition DEFAULT_PROFILE :: string where
  "DEFAULT_PROFILE = ''default''"

definition DEFAULT_GATEWAY_BIND :: string where
  "DEFAULT_GATEWAY_BIND = ''127.0.0.1:7347''"

definition DEFAULT_TIMEOUT :: string where
  "DEFAULT_TIMEOUT = ''30s''"

definition DEFAULT_CONNECT_TIMEOUT :: string where
  "DEFAULT_CONNECT_TIMEOUT = ''10s''"

definition DEFAULT_RETRY_BACKOFF :: string where
  "DEFAULT_RETRY_BACKOFF = ''250ms''"

definition DEFAULT_MAX_REQUEST_BYTES :: u64 where
  "DEFAULT_MAX_REQUEST_BYTES = 1024 * 1024"

definition DEFAULT_CONCURRENCY :: u16 where
  "DEFAULT_CONCURRENCY = 4"

definition DEFAULT_BUSY_QUEUE_DEPTH :: u16 where
  "DEFAULT_BUSY_QUEUE_DEPTH = 32"

subsection \<open>Schema\<close>

datatype AuthRefKind = AuthEnv | AuthKeyring

record AuthRefConfig =
  auth_kind :: AuthRefKind
  auth_env :: "string option"
  auth_keyring_service :: "string option"
  auth_keyring_account :: "string option"
  auth_header :: string
  auth_scheme :: string

datatype StorageBackend = Sqlite

record StorageConfig =
  storage_backend :: StorageBackend
  storage_database_path :: "string option"

datatype OutputFormat = Human | Json | Ndjson | Quiet

datatype ColorMode = ColorAuto | ColorAlways | ColorNever

record OutputConfig =
  output_format :: OutputFormat
  output_color :: ColorMode
  output_redact_secrets :: bool

record ProtocolConfig =
  protocol_version :: string
  protocol_extensions :: "string list"
  protocol_service_parameters :: "(string, string) btree_map"

datatype BusyInputMode = Queue | Interrupt | Steer

record BusyInputConfig =
  busy_mode :: BusyInputMode
  busy_unsupported_steer_fallback :: BusyInputMode
  busy_interrupt_remote_cancel :: bool
  busy_max_queue_depth :: u16

record GatewayConfig =
  gateway_enabled :: bool
  gateway_bind_address :: string
  gateway_public_base_url :: "string option"
  gateway_job_concurrency :: u16
  gateway_busy_input :: BusyInputConfig

record RoutingConfig =
  routing_default_policy :: string

record AdapterConfig =
  adapter_kind :: string
  adapter_enabled :: bool
  adapter_session_profile :: "string option"
  adapter_busy_input :: "BusyInputConfig option"
  adapter_settings :: Metadata

record QosConfig =
  qos_timeout :: string
  qos_connect_timeout :: string
  qos_retry_attempts :: u8
  qos_retry_backoff :: string
  qos_max_request_bytes :: u64
  qos_concurrency :: u16

record ProfileConfig =
  profile_description :: "string option"
  profile_default_agent :: "string option"
  profile_storage :: "StorageConfig option"
  profile_output :: "OutputConfig option"
  profile_protocol :: "ProtocolConfig option"
  profile_gateway :: "GatewayConfig option"
  profile_routing :: "RoutingConfig option"
  profile_qos :: "QosConfig option"
  profile_metadata :: Metadata

record AgentConfig =
  agent_base_url :: string
  agent_interface_urls :: "(string, string) btree_map"
  agent_binding_preference :: "string list"
  agent_auth_ref :: "string option"
  agent_tags :: "string list"
  agent_notes :: "string option"
  agent_metadata :: Metadata

record MissiveConfig =
  cfg_schema_version :: string
  cfg_default_profile :: string
  cfg_profiles :: "(string, ProfileConfig) btree_map"
  cfg_agents :: "(string, AgentConfig) btree_map"
  cfg_auth_refs :: "(string, AuthRefConfig) btree_map"
  cfg_storage :: StorageConfig
  cfg_output :: OutputConfig
  cfg_protocol :: ProtocolConfig
  cfg_gateway :: GatewayConfig
  cfg_routing :: RoutingConfig
  cfg_adapters :: "(string, AdapterConfig) btree_map"
  cfg_qos :: QosConfig

fun output_format_as_str :: "OutputFormat \<Rightarrow> string" where
  "output_format_as_str Human = ''human''"
| "output_format_as_str Json = ''json''"
| "output_format_as_str Ndjson = ''ndjson''"
| "output_format_as_str Quiet = ''quiet''"

fun busy_mode_as_str :: "BusyInputMode \<Rightarrow> string" where
  "busy_mode_as_str Queue = ''queue''"
| "busy_mode_as_str Interrupt = ''interrupt''"
| "busy_mode_as_str Steer = ''steer''"

subsection \<open>Defaults\<close>

definition AuthRefConfig_default :: AuthRefConfig where
  "AuthRefConfig_default =
     \<lparr>auth_kind = AuthEnv, auth_env = None, auth_keyring_service = None,
      auth_keyring_account = None, auth_header = ''Authorization'', auth_scheme = ''Bearer''\<rparr>"

definition StorageConfig_default :: StorageConfig where
  "StorageConfig_default = \<lparr>storage_backend = Sqlite, storage_database_path = None\<rparr>"

definition OutputConfig_default :: OutputConfig where
  "OutputConfig_default =
     \<lparr>output_format = Human, output_color = ColorAuto, output_redact_secrets = True\<rparr>"

definition ProtocolConfig_default :: ProtocolConfig where
  "ProtocolConfig_default =
     \<lparr>protocol_version = DEFAULT_A2A_PROTOCOL_VERSION, protocol_extensions = [],
      protocol_service_parameters = []\<rparr>"

definition BusyInputConfig_default :: BusyInputConfig where
  "BusyInputConfig_default =
     \<lparr>busy_mode = Queue, busy_unsupported_steer_fallback = Queue,
      busy_interrupt_remote_cancel = True, busy_max_queue_depth = DEFAULT_BUSY_QUEUE_DEPTH\<rparr>"

definition GatewayConfig_default :: GatewayConfig where
  "GatewayConfig_default =
     \<lparr>gateway_enabled = False, gateway_bind_address = DEFAULT_GATEWAY_BIND,
      gateway_public_base_url = None, gateway_job_concurrency = DEFAULT_CONCURRENCY,
      gateway_busy_input = BusyInputConfig_default\<rparr>"

definition RoutingConfig_default :: RoutingConfig where
  "RoutingConfig_default = \<lparr>routing_default_policy = ''direct''\<rparr>"

definition AdapterConfig_default :: AdapterConfig where
  "AdapterConfig_default =
     \<lparr>adapter_kind = [], adapter_enabled = True, adapter_session_profile = None,
      adapter_busy_input = None, adapter_settings = metadata_new\<rparr>"

definition QosConfig_default :: QosConfig where
  "QosConfig_default =
     \<lparr>qos_timeout = DEFAULT_TIMEOUT, qos_connect_timeout = DEFAULT_CONNECT_TIMEOUT,
      qos_retry_attempts = 2, qos_retry_backoff = DEFAULT_RETRY_BACKOFF,
      qos_max_request_bytes = DEFAULT_MAX_REQUEST_BYTES, qos_concurrency = DEFAULT_CONCURRENCY\<rparr>"

definition ProfileConfig_default :: ProfileConfig where
  "ProfileConfig_default =
     \<lparr>profile_description = None, profile_default_agent = None, profile_storage = None,
      profile_output = None, profile_protocol = None, profile_gateway = None,
      profile_routing = None, profile_qos = None, profile_metadata = metadata_new\<rparr>"

definition AgentConfig_default :: AgentConfig where
  "AgentConfig_default =
     \<lparr>agent_base_url = [], agent_interface_urls = [],
      agent_binding_preference = [''http+json'', ''json-rpc''], agent_auth_ref = None,
      agent_tags = [], agent_notes = None, agent_metadata = metadata_new\<rparr>"

definition MissiveConfig_default :: MissiveConfig where
  "MissiveConfig_default =
     \<lparr>cfg_schema_version = CONFIG_SCHEMA_VERSION, cfg_default_profile = DEFAULT_PROFILE,
      cfg_profiles = bm_insert DEFAULT_PROFILE ProfileConfig_default [], cfg_agents = [],
      cfg_auth_refs = [], cfg_storage = StorageConfig_default, cfg_output = OutputConfig_default,
      cfg_protocol = ProtocolConfig_default, cfg_gateway = GatewayConfig_default,
      cfg_routing = RoutingConfig_default, cfg_adapters = [], cfg_qos = QosConfig_default\<rparr>"

subsection \<open>Validation of the sections\<close>

definition storage_validate :: "StorageConfig \<Rightarrow> unit outcome" where
  "storage_validate c = when_some (storage_database_path c) (validate_config_path ''storage.database_path'')"

definition output_validate :: "OutputConfig \<Rightarrow> unit outcome" where
  "output_validate c =
     fail_if (\<not> output_redact_secrets c)
       (config_error_help [Lit ''output.redact_secrets cannot be disabled'']
         ''missive always redacts known secret-like config and output fields.'')"

text \<open>The loop over the extensions, with the set of those seen so far.\<close>

fun validate_extensions :: "string \<Rightarrow> string list \<Rightarrow> string list \<Rightarrow> unit outcome" where
  "validate_extensions pfx seen [] = Inr ()"
| "validate_extensions pfx seen (extension # rest) =
     and_then (validate_a2a_extension (pfx @ ''.extensions'') extension) (\<lambda>_.
       if extension \<in> set seen then
         Inl (config_error_help
           [Lit (pfx @ ''.extensions contains duplicate extension ''), Dbg extension]
           ''List each A2A extension at most once.'')
       else validate_extensions pfx (bs_insert extension seen) rest)"

definition validate_service_parameter :: "string \<Rightarrow> string \<times> string \<Rightarrow> unit outcome" where
  "validate_service_parameter pfx entry =
     checks
       [validate_header_name (pfx @ ''.service_parameters'') (fst entry),
        fail_if (is_reserved_a2a_service_parameter (fst entry))
          (config_error_help
            [Lit (pfx @ ''.service_parameters must not redefine reserved A2A service parameter ''),
             Dbg (fst entry)]
            ''Use protocol_version for A2A-Version and extensions for A2A-Extensions.''),
        validate_service_parameter_value (pfx @ ''.service_parameters.'' @ fst entry) (snd entry)]"

definition protocol_validate :: "string \<Rightarrow> ProtocolConfig \<Rightarrow> unit outcome" where
  "protocol_validate pfx c =
     checks
       [validate_protocol_version (pfx @ ''.protocol_version'') (protocol_version c),
        validate_extensions pfx [] (protocol_extensions c),
        try_for_each (validate_service_parameter pfx) (protocol_service_parameters c)]"

definition busy_input_validate :: "string \<Rightarrow> BusyInputConfig \<Rightarrow> unit outcome" where
  "busy_input_validate pfx c =
     checks
       [validate_positive_u16 (pfx @ ''.max_queue_depth'') (busy_max_queue_depth c),
        fail_if (busy_unsupported_steer_fallback c = Steer)
          (config_error_help
            [Lit (pfx @ ''.unsupported_steer_fallback must be queue or interrupt'')]
            ''Use queue to preserve the follow-up input or interrupt to cancel the active task when steering is unsupported.'')]"

definition gateway_validate :: "url_parser \<Rightarrow> GatewayConfig \<Rightarrow> unit outcome" where
  "gateway_validate U c =
     checks
       [fail_if (parse_socket_addr (gateway_bind_address c) = None)
          (config_error_help
            [Lit ''gateway.bind_address must be an IP socket address such as '', Dbg DEFAULT_GATEWAY_BIND]
            ''Use an explicit IP address and port, for example 127.0.0.1:7347.''),
        when_some (gateway_public_base_url c) (validate_http_url U ''gateway.public_base_url''),
        validate_positive_u16 ''gateway.job_concurrency'' (gateway_job_concurrency c),
        busy_input_validate ''gateway.busy_input'' (gateway_busy_input c)]"

definition routing_validate :: "string \<Rightarrow> RoutingConfig \<Rightarrow> unit outcome" where
  "routing_validate pfx c =
     and_then (parse_config_routing_policy (pfx @ ''.default_policy'') (routing_default_policy c))
       (\<lambda>_. Inr ())"

definition qos_validate :: "string \<Rightarrow> QosConfig \<Rightarrow> unit outcome" where
  "qos_validate pfx c =
     checks
       [validate_duration (pfx @ ''.timeout'') (qos_timeout c),
        validate_duration (pfx @ ''.connect_timeout'') (qos_connect_timeout c),
        validate_duration (pfx @ ''.retry_backoff'') (qos_retry_backoff c),
        fail_if (10 < qos_retry_attempts c)
          (config_error_help [Lit (pfx @ ''.retry_attempts must be at most 10'')]
            ''Use a small bounded retry count so CLI commands fail deterministically.''),
        fail_if (qos_max_request_bytes c = 0)
          (error_config [Lit (pfx @ ''.max_request_bytes must be greater than zero'')]),
        validate_positive_u16 (pfx @ ''.concurrency'') (qos_concurrency c)]"

definition auth_ref_validate :: "string \<Rightarrow> AuthRefConfig \<Rightarrow> unit outcome" where
  "auth_ref_validate name c =
     and_then
       (checks
         [validate_header_name (''auth_refs.'' @ name @ ''.header'') (auth_header c),
          validate_auth_scheme (''auth_refs.'' @ name @ ''.scheme'') (auth_scheme c)])
       (\<lambda>_. case auth_kind c of
          AuthEnv \<Rightarrow>
            and_then
              (ok_or (auth_env c)
                (config_error_help
                  [Lit (''auth_refs.'' @ name @ ''.env is required for kind = '' @
                        [CHR 0x22] @ ''env'' @ [CHR 0x22])]
                  ''Set env to the name of an environment variable, not to a token value.''))
              (validate_env_var_name (''auth_refs.'' @ name @ ''.env''))
        | AuthKeyring \<Rightarrow>
            checks
              [validate_required_text (''auth_refs.'' @ name @ ''.keyring_service'')
                 (auth_keyring_service c),
               validate_required_text (''auth_refs.'' @ name @ ''.keyring_account'')
                 (auth_keyring_account c)])"

subsection \<open>Validation with cross-references\<close>

definition profile_validate :: "url_parser \<Rightarrow> MissiveConfig \<Rightarrow> string \<Rightarrow> ProfileConfig \<Rightarrow> unit outcome" where
  "profile_validate U config name c =
     checks
       [when_some (profile_description c) (validate_optional_text ''profile description''),
        when_some (profile_default_agent c) (\<lambda>default_agent.
          checks
            [validate_named_config_identifier ''profile default_agent'' default_agent,
             fail_if (\<not> bm_contains_key default_agent (cfg_agents config))
               (config_error_help
                 [Lit ''profile '', Dbg name, Lit '' references missing default_agent '', Dbg default_agent]
                 ''Add [agents.<alias>] for the default agent or choose an existing alias.'')]),
        when_some (profile_storage c) storage_validate,
        when_some (profile_output c) output_validate,
        when_some (profile_protocol c) (protocol_validate (''profiles.'' @ name @ ''.protocol'')),
        when_some (profile_gateway c) (gateway_validate U),
        when_some (profile_routing c) (routing_validate (''profiles.'' @ name @ ''.routing'')),
        when_some (profile_qos c) (qos_validate (''profiles.'' @ name @ ''.qos''))]"

definition agent_validate :: "url_parser \<Rightarrow> MissiveConfig \<Rightarrow> string \<Rightarrow> AgentConfig \<Rightarrow> unit outcome" where
  "agent_validate U config alias c =
     checks
       [validate_http_url U (''agents.'' @ alias @ ''.base_url'') (agent_base_url c),
        try_for_each
          (\<lambda>(binding, url). checks
             [validate_transport_binding (''agents.'' @ alias @ ''.interface_urls'') binding,
              validate_http_url U (''agents.'' @ alias @ ''.interface_urls.'' @ binding) url])
          (agent_interface_urls c),
        try_for_each (validate_transport_binding (''agents.'' @ alias @ ''.binding_preference''))
          (agent_binding_preference c),
        when_some (agent_auth_ref c) (\<lambda>auth_ref.
          checks
            [validate_named_config_identifier (''agents.'' @ alias @ ''.auth_ref'') auth_ref,
             fail_if (\<not> bm_contains_key auth_ref (cfg_auth_refs config))
               (config_error_help
                 [Lit ''agent '', Dbg alias, Lit '' references missing auth_ref '', Dbg auth_ref]
                 ''Add [auth_refs.<name>] or remove the agent auth_ref.'')]),
        try_for_each (validate_named_config_identifier (''agents.'' @ alias @ ''.tags'')) (agent_tags c),
        when_some (agent_notes c) (validate_optional_text (''agents.'' @ alias @ ''.notes''))]"

definition adapter_validate :: "MissiveConfig \<Rightarrow> string \<Rightarrow> AdapterConfig \<Rightarrow> unit outcome" where
  "adapter_validate config name c =
     checks
       [validate_named_config_identifier (''adapters.'' @ name @ ''.kind'') (adapter_kind c),
        when_some (adapter_session_profile c) (\<lambda>profile.
          checks
            [validate_named_config_identifier (''adapters.'' @ name @ ''.session_profile'') profile,
             fail_if (\<not> bm_contains_key profile (cfg_profiles config))
               (config_error_help
                 [Lit ''adapter '', Dbg name, Lit '' references missing session_profile '', Dbg profile]
                 ''Choose an existing [profiles.<name>] entry for this adapter.'')]),
        when_some (adapter_busy_input c) (busy_input_validate (''adapters.'' @ name @ ''.busy_input''))]"

definition named_entries ::
  "string \<Rightarrow> (string \<Rightarrow> 'a \<Rightarrow> unit outcome) \<Rightarrow> (string, 'a) btree_map \<Rightarrow> unit outcome" where
  "named_entries kind validate m =
     try_for_each (\<lambda>(name, c). checks [validate_named_config_identifier kind name, validate name c]) m"

definition config_validate :: "url_parser \<Rightarrow> MissiveConfig \<Rightarrow> unit outcome" where
  "config_validate U c =
     checks
       [fail_if (cfg_schema_version c \<noteq> CONFIG_SCHEMA_VERSION)
          (config_error_help
            [Lit ''unsupported config schema_version '', Dbg (cfg_schema_version c),
             Lit ''; expected '', Dbg CONFIG_SCHEMA_VERSION]
            ''Update the config file to the schema documented in docs/configuration.md.''),
        validate_named_config_identifier ''default_profile'' (cfg_default_profile c),
        fail_if (cfg_profiles c = [])
          (config_error_help [Lit ''configuration must define at least one profile'']
            ''Add [profiles.default] or set default_profile to an existing profile.''),
        fail_if (\<not> bm_contains_key (cfg_default_profile c) (cfg_profiles c))
          (config_error_help
            [Lit ''default_profile '', Dbg (cfg_default_profile c),
             Lit '' does not match any [profiles.<name>] entry'']
            ''Set default_profile to an existing profile name or add the missing profile.''),
        named_entries ''profile name'' (profile_validate U c) (cfg_profiles c),
        named_entries ''agent alias'' (agent_validate U c) (cfg_agents c),
        named_entries ''auth ref name'' auth_ref_validate (cfg_auth_refs c),
        storage_validate (cfg_storage c),
        output_validate (cfg_output c),
        protocol_validate ''protocol'' (cfg_protocol c),
        gateway_validate U (cfg_gateway c),
        routing_validate ''routing'' (cfg_routing c),
        qos_validate ''qos'' (cfg_qos c),
        named_entries ''adapter name'' (adapter_validate c) (cfg_adapters c)]"

definition config_profile :: "MissiveConfig \<Rightarrow> string \<Rightarrow> ProfileConfig outcome" where
  "config_profile c name =
     and_then (validate_named_config_identifier ''profile name'' name) (\<lambda>_.
       ok_or (bm_get name (cfg_profiles c))
         (config_error_help [Lit ''profile '', Dbg name, Lit '' is not defined'']
           ''Choose an existing [profiles.<name>] entry or update --profile.''))"

subsection \<open>Loaded configurations\<close>

datatype ConfigSourceKind = ExplicitPath | Environment | RepositoryLocal | Xdg | BuiltInDefault

fun source_kind_as_str :: "ConfigSourceKind \<Rightarrow> string" where
  "source_kind_as_str ExplicitPath = ''explicit_path''"
| "source_kind_as_str Environment = ''environment''"
| "source_kind_as_str RepositoryLocal = ''repository_local''"
| "source_kind_as_str Xdg = ''xdg''"
| "source_kind_as_str BuiltInDefault = ''built_in_default''"

record ConfigSource =
  source_kind :: ConfigSourceKind
  source_path :: "string option"

definition config_source_path :: "ConfigSourceKind \<Rightarrow> string \<Rightarrow> ConfigSource" where
  "config_source_path kind path = \<lparr>source_kind = kind, source_path = Some path\<rparr>"

definition built_in_default :: ConfigSource where
  "built_in_default = \<lparr>source_kind = BuiltInDefault, source_path = None\<rparr>"

record LoadedConfig =
  loaded_config :: MissiveConfig
  loaded_source :: ConfigSource
  loaded_selected_profile :: string

definition selected_profile_config :: "LoadedConfig \<Rightarrow> ProfileConfig outcome" where
  "selected_profile_config l = config_profile (loaded_config l) (loaded_selected_profile l)"

definition unwrap_or :: "'a option \<Rightarrow> 'a \<Rightarrow> 'a" where
  "unwrap_or x d = (case x of Some v \<Rightarrow> v | None \<Rightarrow> d)"

definition loaded_output_format :: "LoadedConfig \<Rightarrow> OutputFormat outcome" where
  "loaded_output_format l =
     and_then (selected_profile_config l) (\<lambda>profile.
       Inr (case profile_output profile of
              None \<Rightarrow> output_format (cfg_output (loaded_config l))
            | Some c \<Rightarrow> output_format c))"

definition protocol_config :: "LoadedConfig \<Rightarrow> ProtocolConfig outcome" where
  "protocol_config l =
     and_then (selected_profile_config l) (\<lambda>profile.
       Inr (unwrap_or (profile_protocol profile) (cfg_protocol (loaded_config l))))"

definition gateway_config :: "LoadedConfig \<Rightarrow> GatewayConfig outcome" where
  "gateway_config l =
     and_then (selected_profile_config l) (\<lambda>profile.
       Inr (unwrap_or (profile_gateway profile) (cfg_gateway (loaded_config l))))"

definition routing_config :: "LoadedConfig \<Rightarrow> RoutingConfig outcome" where
  "routing_config l =
     and_then (selected_profile_config l) (\<lambda>profile.
       Inr (unwrap_or (profile_routing profile) (cfg_routing (loaded_config l))))"

definition busy_input_config_for_source :: "LoadedConfig \<Rightarrow> string option \<Rightarrow> BusyInputConfig outcome" where
  "busy_input_config_for_source l source_name =
     (let base = and_then (gateway_config l) (\<lambda>g. Inr (gateway_busy_input g))
      in case source_name of
           None \<Rightarrow> base
         | Some name \<Rightarrow>
             and_then (validate_named_config_identifier ''busy input source name'' name) (\<lambda>_.
               case Option.bind (bm_get name (cfg_adapters (loaded_config l))) adapter_busy_input of
                 Some busy_input \<Rightarrow> Inr busy_input
               | None \<Rightarrow> base))"

subsection \<open>What validation accepts\<close>

definition storage_ok :: "StorageConfig \<Rightarrow> bool" where
  "storage_ok c \<longleftrightarrow> (\<forall>p. storage_database_path c = Some p \<longrightarrow> p \<noteq> [] \<and> \<not> has_control p)"

definition parameter_ok :: "string \<times> string \<Rightarrow> bool" where
  "parameter_ok e \<longleftrightarrow>
     token_ok [CHR ''-''] (fst e) \<and>
     to_ascii_lowercase (fst e) \<notin> {''a2a-version'', ''a2a-extensions''} \<and>
     text_ok (snd e) \<and> length (snd e) \<le> 8192"

definition protocol_ok :: "ProtocolConfig \<Rightarrow> bool" where
  "protocol_ok c \<longleftrightarrow>
     token_ok [CHR ''.'', CHR ''-'', CHR ''_''] (protocol_version c) \<and> length (protocol_version c) \<le> 64 \<and>
     distinct (protocol_extensions c) \<and> (\<forall>x \<in> set (protocol_extensions c). extension_ok x) \<and>
     (\<forall>e \<in> set (protocol_service_parameters c). parameter_ok e)"

definition busy_ok :: "BusyInputConfig \<Rightarrow> bool" where
  "busy_ok c \<longleftrightarrow> busy_max_queue_depth c \<noteq> 0 \<and> busy_unsupported_steer_fallback c \<noteq> Steer"

definition gateway_ok :: "url_parser \<Rightarrow> GatewayConfig \<Rightarrow> bool" where
  "gateway_ok U c \<longleftrightarrow>
     parse_socket_addr (gateway_bind_address c) \<noteq> None \<and>
     (\<forall>u. gateway_public_base_url c = Some u \<longrightarrow> http_url_ok U u) \<and>
     gateway_job_concurrency c \<noteq> 0 \<and> busy_ok (gateway_busy_input c)"

definition routing_ok :: "RoutingConfig \<Rightarrow> bool" where
  "routing_ok c \<longleftrightarrow> (\<exists>p. trim (routing_default_policy c) \<in> set (policy_spellings p))"

definition qos_ok :: "QosConfig \<Rightarrow> bool" where
  "qos_ok c \<longleftrightarrow>
     duration_ok (qos_timeout c) \<and> duration_ok (qos_connect_timeout c) \<and>
     duration_ok (qos_retry_backoff c) \<and> qos_retry_attempts c \<le> 10 \<and>
     qos_max_request_bytes c \<noteq> 0 \<and> qos_concurrency c \<noteq> 0"

definition auth_ref_ok :: "AuthRefConfig \<Rightarrow> bool" where
  "auth_ref_ok c \<longleftrightarrow>
     token_ok [CHR ''-''] (auth_header c) \<and> token_ok [CHR ''-'', CHR ''_''] (auth_scheme c) \<and>
     (case auth_kind c of
        AuthEnv \<Rightarrow> (\<exists>e. auth_env c = Some e \<and> env_name_ok e)
      | AuthKeyring \<Rightarrow> (\<exists>s a. auth_keyring_service c = Some s \<and> auth_keyring_account c = Some a \<and>
          text_ok s \<and> text_ok a))"

definition profile_ok :: "url_parser \<Rightarrow> MissiveConfig \<Rightarrow> ProfileConfig \<Rightarrow> bool" where
  "profile_ok U config c \<longleftrightarrow>
     (\<forall>d. profile_description c = Some d \<longrightarrow> \<not> has_control d) \<and>
     (\<forall>a. profile_default_agent c = Some a \<longrightarrow> named_ok a \<and> a \<in> fst ` set (cfg_agents config)) \<and>
     (\<forall>s. profile_storage c = Some s \<longrightarrow> storage_ok s) \<and>
     (\<forall>s. profile_output c = Some s \<longrightarrow> output_redact_secrets s) \<and>
     (\<forall>s. profile_protocol c = Some s \<longrightarrow> protocol_ok s) \<and>
     (\<forall>s. profile_gateway c = Some s \<longrightarrow> gateway_ok U s) \<and>
     (\<forall>s. profile_routing c = Some s \<longrightarrow> routing_ok s) \<and>
     (\<forall>s. profile_qos c = Some s \<longrightarrow> qos_ok s)"

definition agent_ok :: "url_parser \<Rightarrow> MissiveConfig \<Rightarrow> AgentConfig \<Rightarrow> bool" where
  "agent_ok U config c \<longleftrightarrow>
     http_url_ok U (agent_base_url c) \<and>
     (\<forall>(b, u) \<in> set (agent_interface_urls c). transport_ok b \<and> http_url_ok U u) \<and>
     (\<forall>b \<in> set (agent_binding_preference c). transport_ok b) \<and>
     (\<forall>a. agent_auth_ref c = Some a \<longrightarrow> named_ok a \<and> a \<in> fst ` set (cfg_auth_refs config)) \<and>
     (\<forall>t \<in> set (agent_tags c). named_ok t) \<and>
     (\<forall>n. agent_notes c = Some n \<longrightarrow> \<not> has_control n)"

definition adapter_ok :: "MissiveConfig \<Rightarrow> AdapterConfig \<Rightarrow> bool" where
  "adapter_ok config c \<longleftrightarrow>
     named_ok (adapter_kind c) \<and>
     (\<forall>p. adapter_session_profile c = Some p \<longrightarrow> named_ok p \<and> p \<in> fst ` set (cfg_profiles config)) \<and>
     (\<forall>b. adapter_busy_input c = Some b \<longrightarrow> busy_ok b)"

definition all_entries :: "('a \<Rightarrow> bool) \<Rightarrow> (string, 'a) btree_map \<Rightarrow> bool" where
  "all_entries ok m \<longleftrightarrow> (\<forall>(name, c) \<in> set m. named_ok name \<and> ok c)"

definition config_ok :: "url_parser \<Rightarrow> MissiveConfig \<Rightarrow> bool" where
  "config_ok U c \<longleftrightarrow>
     cfg_schema_version c = ''missive.config.v1'' \<and>
     named_ok (cfg_default_profile c) \<and> cfg_default_profile c \<in> fst ` set (cfg_profiles c) \<and>
     all_entries (profile_ok U c) (cfg_profiles c) \<and>
     all_entries (agent_ok U c) (cfg_agents c) \<and>
     all_entries auth_ref_ok (cfg_auth_refs c) \<and>
     storage_ok (cfg_storage c) \<and> output_redact_secrets (cfg_output c) \<and>
     protocol_ok (cfg_protocol c) \<and> gateway_ok U (cfg_gateway c) \<and> routing_ok (cfg_routing c) \<and>
     qos_ok (cfg_qos c) \<and> all_entries (adapter_ok c) (cfg_adapters c)"

lemma storage_validate_Inr [result_iff]: "storage_validate c = Inr u \<longleftrightarrow> storage_ok c"
  by (simp add: storage_validate_def storage_ok_def result_iff)

lemma output_validate_Inr [result_iff]: "output_validate c = Inr u \<longleftrightarrow> output_redact_secrets c"
  by (simp add: output_validate_def)

lemma validate_extensions_Inr:
  "validate_extensions pfx seen xs = Inr u \<longleftrightarrow>
     distinct xs \<and> set xs \<inter> set seen = {} \<and> (\<forall>x \<in> set xs. extension_ok x)"
  by (induction xs arbitrary: seen) (auto simp: result_iff)

lemma validate_service_parameter_Inr [result_iff]:
  "validate_service_parameter pfx e = Inr u \<longleftrightarrow> parameter_ok e"
proof -
  have "to_ascii_lowercase ''A2A-Version'' = ''a2a-version''"
    "to_ascii_lowercase ''A2A-Extensions'' = ''a2a-extensions''" by code_simp+
  then show ?thesis
    by (simp add: validate_service_parameter_def result_iff parameter_ok_def
        is_reserved_a2a_service_parameter_def eq_ignore_ascii_case_def)
qed

lemma protocol_validate_Inr [result_iff]: "protocol_validate pfx c = Inr u \<longleftrightarrow> protocol_ok c"
  by (auto simp: protocol_validate_def protocol_ok_def result_iff validate_extensions_Inr)

lemma busy_input_validate_Inr [result_iff]: "busy_input_validate pfx c = Inr u \<longleftrightarrow> busy_ok c"
  by (simp add: busy_input_validate_def busy_ok_def result_iff)

lemma gateway_validate_Inr [result_iff]: "gateway_validate U c = Inr u \<longleftrightarrow> gateway_ok U c"
  by (simp add: gateway_validate_def gateway_ok_def result_iff)

lemma routing_validate_Inr [result_iff]: "routing_validate pfx c = Inr u \<longleftrightarrow> routing_ok c"
  by (auto simp: routing_validate_def routing_ok_def and_then_Inr parse_config_routing_policy_Inr)

lemma qos_validate_Inr [result_iff]: "qos_validate pfx c = Inr u \<longleftrightarrow> qos_ok c"
  by (simp add: qos_validate_def qos_ok_def result_iff not_less)

lemma auth_ref_validate_Inr [result_iff]: "auth_ref_validate name c = Inr u \<longleftrightarrow> auth_ref_ok c"
  by (auto simp: auth_ref_validate_def auth_ref_ok_def result_iff split: AuthRefKind.splits)

lemma bm_contains_key_iff: "bm_contains_key k m \<longleftrightarrow> k \<in> fst ` set m"
  by (simp add: bm_contains_key_def bm_get_None)

lemma profile_validate_Inr [result_iff]: "profile_validate U config name c = Inr u \<longleftrightarrow> profile_ok U config c"
  by (simp add: profile_validate_def profile_ok_def result_iff bm_contains_key_iff)

lemma agent_validate_Inr [result_iff]: "agent_validate U config name c = Inr u \<longleftrightarrow> agent_ok U config c"
  by (simp add: agent_validate_def agent_ok_def result_iff bm_contains_key_iff case_prod_beta)

lemma adapter_validate_Inr [result_iff]: "adapter_validate config name c = Inr u \<longleftrightarrow> adapter_ok config c"
  by (simp add: adapter_validate_def adapter_ok_def result_iff bm_contains_key_iff)

lemma named_entries_Inr:
  assumes "\<And>name c. validate name c = Inr () \<longleftrightarrow> ok c"
  shows "named_entries kind validate m = Inr u \<longleftrightarrow> all_entries ok m"
  by (simp add: named_entries_def all_entries_def result_iff case_prod_beta assms)

lemma config_validate_Inr [result_iff]: "config_validate U c = Inr u \<longleftrightarrow> config_ok U c"
proof -
  have "cfg_default_profile c \<in> fst ` set (cfg_profiles c) \<Longrightarrow> cfg_profiles c \<noteq> []" by auto
  then show ?thesis
    unfolding config_validate_def config_ok_def
    by (simp add: named_entries_Inr [where ok = "profile_ok U c"] named_entries_Inr [where ok = "agent_ok U c"]
        named_entries_Inr [where ok = auth_ref_ok] named_entries_Inr [where ok = "adapter_ok c"]
        result_iff bm_contains_key_iff CONFIG_SCHEMA_VERSION_def) blast
qed

lemma config_profile_Inr [result_iff]:
  "config_profile c name = Inr p \<longleftrightarrow> named_ok name \<and> bm_get name (cfg_profiles c) = Some p"
  by (simp add: config_profile_def result_iff)

subsection \<open>Every rejection is a configuration error\<close>

definition config_failures :: "'a outcome \<Rightarrow> bool" where
  "config_failures r \<longleftrightarrow> (\<forall>e. r = Inl e \<longrightarrow> err_category e = Cat_Config)"

named_theorems config_failures

lemma config_failures_checks [config_failures]:
  "list_all config_failures cs \<Longrightarrow> config_failures (checks cs)"
  by (induction cs) (auto simp: config_failures_def)

lemma config_failures_fail_if [config_failures]:
  "err_category e = Cat_Config \<Longrightarrow> config_failures (fail_if b e)"
  by (simp add: config_failures_def)

lemma config_failures_when_some [config_failures]:
  "(\<And>v. config_failures (f v)) \<Longrightarrow> config_failures (when_some x f)"
  by (cases x) (simp_all add: config_failures_def)

lemma config_failures_for_each [config_failures]:
  "(\<And>x. config_failures (f x)) \<Longrightarrow> config_failures (try_for_each f xs)"
  by (auto simp: config_failures_def elim: try_for_each_error)

lemma config_failures_and_then [config_failures]:
  "config_failures r \<Longrightarrow> (\<And>x. config_failures (f x)) \<Longrightarrow> config_failures (and_then r f)"
  by (auto simp: config_failures_def and_then_Inl)

lemma config_failures_ok_or [config_failures]:
  "err_category e = Cat_Config \<Longrightarrow> config_failures (ok_or x e)"
  by (simp add: config_failures_def)

lemma config_failures_Inr [config_failures]: "config_failures (Inr x)"
  by (simp add: config_failures_def)

lemma config_failures_texts [config_failures]:
  "config_failures (validate_named_config_identifier k v)"
  "config_failures (validate_transport_binding k v)"
  "config_failures (validate_optional_text k v)"
  "config_failures (validate_required_text k ov)"
  "config_failures (validate_protocol_version k v)"
  "config_failures (validate_a2a_extension k v)"
  "config_failures (validate_service_parameter_value k v)"
  "config_failures (validate_header_name k v)"
  "config_failures (validate_auth_scheme k v)"
  "config_failures (validate_env_var_name k v)"
  "config_failures (validate_config_path k v)"
  "config_failures (validate_positive_u16 k n)"
  "config_failures (validate_http_url U k v)"
  "config_failures (validate_duration k v)"
  by (auto simp: config_failures_def dest: config_category)

lemma config_failures_sections [config_failures]:
  "config_failures (storage_validate sc)" "config_failures (output_validate oc)"
  "config_failures (validate_service_parameter pfx e)"
  "config_failures (busy_input_validate pfx bc)"
  "config_failures (gateway_validate U gc)"
  "config_failures (qos_validate pfx qc)"
  by (simp_all add: storage_validate_def output_validate_def validate_service_parameter_def
      busy_input_validate_def gateway_validate_def qos_validate_def config_failures)

lemma config_failures_extensions [config_failures]: "config_failures (validate_extensions pfx seen xs)"
proof (induction xs arbitrary: seen)
  case (Cons x xs)
  then show ?case
    by (auto simp: config_failures_def and_then_Inl dest: config_category split: if_splits)
qed (simp add: config_failures)

lemma config_failures_protocol [config_failures]: "config_failures (protocol_validate pfx pc)"
  by (simp add: protocol_validate_def config_failures)

lemma config_failures_routing [config_failures]: "config_failures (routing_validate pfx rc)"
  by (auto simp: config_failures_def routing_validate_def and_then_Inl parse_config_routing_policy_def Let_def)

lemma config_failures_auth_ref [config_failures]: "config_failures (auth_ref_validate name c)"
  by (cases "auth_kind c") (simp_all add: auth_ref_validate_def config_failures)

lemma config_failures_profile [config_failures]: "config_failures (profile_validate U config name c)"
  by (simp add: profile_validate_def config_failures)

lemma config_failures_agent [config_failures]: "config_failures (agent_validate U config alias c)"
  by (simp add: agent_validate_def config_failures case_prod_beta)

lemma config_failures_adapter [config_failures]: "config_failures (adapter_validate config name c)"
  by (simp add: adapter_validate_def config_failures)

lemma config_failures_named_entries [config_failures]:
  "(\<And>name c. config_failures (validate name c)) \<Longrightarrow> config_failures (named_entries kind validate m)"
  by (simp add: named_entries_def config_failures case_prod_beta)

lemma config_failures_config [config_failures]: "config_failures (config_validate U c)"
  by (simp add: config_validate_def config_failures)

lemma config_failures_config_profile [config_failures]: "config_failures (config_profile c name)"
  by (simp add: config_profile_def config_failures)

subsection \<open>The built-in configuration\<close>

lemma BusyInputConfig_default_ok: "busy_ok BusyInputConfig_default"
  by (simp add: busy_ok_def BusyInputConfig_default_def DEFAULT_BUSY_QUEUE_DEPTH_def)

lemma ProtocolConfig_default_ok: "protocol_ok ProtocolConfig_default"
  by (simp add: protocol_ok_def ProtocolConfig_default_def DEFAULT_A2A_PROTOCOL_VERSION_def token_ok_def ascii_defs)

lemma GatewayConfig_default_ok: "gateway_ok U GatewayConfig_default"
proof -
  have "parse_socket_addr ''127.0.0.1:7347'' = Some (V4 [127, 0, 0, 1] 7347)" by code_simp
  then show ?thesis
    by (simp add: gateway_ok_def GatewayConfig_default_def DEFAULT_GATEWAY_BIND_def
        DEFAULT_CONCURRENCY_def BusyInputConfig_default_ok)
qed

lemma duration_literals: "duration_ok ''30s'' \<and> duration_ok ''10s'' \<and> duration_ok ''250ms''"
proof -
  have "show_nat 30 = ''30''" "show_nat 10 = ''10''" "show_nat 250 = ''250''" by code_simp+
  then show ?thesis
    using duration_ok_show_nat [of "''s''" 30] duration_ok_show_nat [of "''s''" 10]
      duration_ok_show_nat [of "''ms''" 250] by simp
qed

lemma QosConfig_default_ok: "qos_ok QosConfig_default"
  using duration_literals
  by (simp add: qos_ok_def QosConfig_default_def DEFAULT_TIMEOUT_def DEFAULT_CONNECT_TIMEOUT_def
      DEFAULT_RETRY_BACKOFF_def DEFAULT_MAX_REQUEST_BYTES_def DEFAULT_CONCURRENCY_def)

lemma RoutingConfig_default_ok: "routing_ok RoutingConfig_default"
proof -
  have "''direct'' \<in> set (policy_spellings Direct)" by (simp add: policy_spellings_def)
  moreover from this have "trim ''direct'' = ''direct''" by (simp add: solid_policy_spelling)
  ultimately show ?thesis by (auto simp: routing_ok_def RoutingConfig_default_def)
qed

lemma MissiveConfig_default_ok: "config_ok U MissiveConfig_default"
proof -
  have "named_ok ''default''"
    by (simp add: named_ok_def shaped_def is_ascii_lower_alphanumeric_def ascii_defs)
  moreover have "profile_ok U c ProfileConfig_default" for c
    by (simp add: profile_ok_def ProfileConfig_default_def)
  ultimately show ?thesis
    by (simp add: config_ok_def MissiveConfig_default_def CONFIG_SCHEMA_VERSION_def DEFAULT_PROFILE_def
        all_entries_def storage_ok_def StorageConfig_default_def OutputConfig_default_def
        ProtocolConfig_default_ok GatewayConfig_default_ok RoutingConfig_default_ok QosConfig_default_ok)
qed

subsection \<open>Effective settings of a loaded configuration\<close>

text \<open>A loaded configuration: validated, maps in key order, and the selected profile defined.\<close>

definition loaded_ok :: "url_parser \<Rightarrow> LoadedConfig \<Rightarrow> bool" where
  "loaded_ok U l \<longleftrightarrow>
     config_ok U (loaded_config l) \<and> is_ok (selected_profile_config l)"

lemma all_entries_get: "all_entries ok m \<Longrightarrow> bm_get k m = Some v \<Longrightarrow> named_ok k \<and> ok v"
  by (auto simp: all_entries_def bm_get_def dest!: map_of_SomeD)

lemma selected_profile_ok:
  assumes "loaded_ok U l"
  shows "\<exists>p. selected_profile_config l = Inr p \<and> profile_ok U (loaded_config l) p"
proof -
  obtain p where p: "selected_profile_config l = Inr p" "all_entries (profile_ok U (loaded_config l))
      (cfg_profiles (loaded_config l))" using assms by (simp add: loaded_ok_def config_ok_def) blast
  then have "bm_get (loaded_selected_profile l) (cfg_profiles (loaded_config l)) = Some p"
    by (simp add: selected_profile_config_def result_iff)
  from all_entries_get [OF p(2) this] p(1) show ?thesis by blast
qed

lemma gateway_config_ok: "loaded_ok U l \<Longrightarrow> \<exists>g. gateway_config l = Inr g \<and> gateway_ok U g"
proof -
  assume l: "loaded_ok U l"
  obtain p where p: "selected_profile_config l = Inr p" "profile_ok U (loaded_config l) p"
    using selected_profile_ok [OF l] by blast
  have "gateway_ok U (cfg_gateway (loaded_config l))" using l by (simp add: loaded_ok_def config_ok_def)
  with p show ?thesis
    by (simp add: gateway_config_def unwrap_or_def profile_ok_def split: option.split)
qed

lemma protocol_config_ok: "loaded_ok U l \<Longrightarrow> \<exists>p. protocol_config l = Inr p \<and> protocol_ok p"
proof -
  assume l: "loaded_ok U l"
  obtain p where p: "selected_profile_config l = Inr p" "profile_ok U (loaded_config l) p"
    using selected_profile_ok [OF l] by blast
  have "protocol_ok (cfg_protocol (loaded_config l))" using l by (simp add: loaded_ok_def config_ok_def)
  with p show ?thesis
    by (simp add: protocol_config_def unwrap_or_def profile_ok_def split: option.split)
qed

lemma routing_config_ok: "loaded_ok U l \<Longrightarrow> \<exists>r. routing_config l = Inr r \<and> routing_ok r"
proof -
  assume l: "loaded_ok U l"
  obtain p where p: "selected_profile_config l = Inr p" "profile_ok U (loaded_config l) p"
    using selected_profile_ok [OF l] by blast
  have "routing_ok (cfg_routing (loaded_config l))" using l by (simp add: loaded_ok_def config_ok_def)
  with p show ?thesis
    by (simp add: routing_config_def unwrap_or_def profile_ok_def split: option.split)
qed

lemma adapter_busy_ok:
  "loaded_ok U l \<Longrightarrow> bm_get name (cfg_adapters (loaded_config l)) = Some a \<Longrightarrow>
   adapter_busy_input a = Some b \<Longrightarrow> busy_ok b"
  using all_entries_get [of "adapter_ok (loaded_config l)" "cfg_adapters (loaded_config l)" name a]
  by (simp add: loaded_ok_def config_ok_def adapter_ok_def)

lemma busy_input_config_ok:
  assumes "loaded_ok U l" "\<forall>n. source_name = Some n \<longrightarrow> named_ok n"
  shows "\<exists>b. busy_input_config_for_source l source_name = Inr b \<and> busy_ok b"
proof -
  obtain g where g: "gateway_config l = Inr g" "busy_ok (gateway_busy_input g)"
    using gateway_config_ok [OF assms(1)] by (auto simp: gateway_ok_def)
  show ?thesis
  proof (cases source_name)
    case None
    with g show ?thesis by (simp add: busy_input_config_for_source_def)
  next
    case (Some n)
    then have "validate_named_config_identifier ''busy input source name'' n = Inr ()"
      using assms(2) by (simp add: result_iff)
    with Some g adapter_busy_ok [OF assms(1), of n] show ?thesis
      by (auto simp: busy_input_config_for_source_def split: option.splits bind_splits)
  qed
qed

end
