(* ===== verification/Rust_Paths.thy ===== *)
theory Rust_Paths
  imports Rust_Strings
begin

text \<open>
  \<open>std::path::Path\<close> on Unix, a path being its bytes: \<open>is_absolute\<close>, \<open>join\<close>
  (\<open>PathBuf::push\<close>) and \<open>parent\<close>.  \<open>parent\<close> follows the component parser read from the
  back: a trailing empty or dot component is skipped, a leading dot is a component of its own, and
  the root has no parent.
\<close>

definition is_absolute :: "string \<Rightarrow> bool" where
  "is_absolute p \<longleftrightarrow> p \<noteq> [] \<and> hd p = CHR ''/''"

definition path_join :: "string \<Rightarrow> string \<Rightarrow> string" where
  "path_join base p =
     (if is_absolute p then p
      else if base = [] \<or> last base = CHR ''/'' then base @ p
      else base @ ''/'' @ p)"

text \<open>\<open>len_before_body\<close>: the root slash, or a leading dot component.\<close>

definition body_start :: "string \<Rightarrow> nat" where
  "body_start p = (if is_absolute p \<or> p = ''.'' \<or> take 2 p = ''./'' then 1 else 0)"

definition last_component :: "string \<Rightarrow> string" where
  "last_component p = rev (takeWhile (\<lambda>c. c \<noteq> CHR ''/'') (rev (drop (body_start p) p)))"

text \<open>The bytes \<open>parse_next_component_back\<close> takes off: the component and its separator.\<close>

definition last_size :: "string \<Rightarrow> nat" where
  "last_size p =
     length (last_component p) + (if CHR ''/'' \<in> set (drop (body_start p) p) then 1 else 0)"

lemma last_size_pos: "body_start p < length p \<Longrightarrow> 0 < last_size p"
proof -
  assume "body_start p < length p"
  then obtain c cs where c: "rev (drop (body_start p) p) = c # cs"
    by (cases "rev (drop (body_start p) p)") auto
  then have "c \<in> set (drop (body_start p) p)" by (metis list.set_intros(1) set_rev)
  then show ?thesis by (auto simp: last_size_def last_component_def c)
qed

function trim_right :: "string \<Rightarrow> string" where
  "trim_right p =
     (if body_start p < length p \<and> last_component p \<in> {[], ''.''}
      then trim_right (take (length p - last_size p) p) else p)"
  by pat_completeness auto
termination
  by (relation "measure length") (auto intro!: diff_less last_size_pos)

declare trim_right.simps [simp del]

definition parent :: "string \<Rightarrow> string option" where
  "parent p =
     (let q = trim_right p
      in if body_start q < length q then Some (trim_right (take (length q - last_size q) q))
         else if q = ''.'' then Some [] else None)"

lemma length_trim_right: "length (trim_right p) \<le> length p"
proof (induction p rule: trim_right.induct)
  case (1 p)
  then show ?case by (subst trim_right.simps) auto
qed

lemma length_parent: "parent p = Some q \<Longrightarrow> length q < length p"
proof -
  assume a: "parent p = Some q"
  let ?r = "trim_right p"
  have r: "length ?r \<le> length p" by (rule length_trim_right)
  show ?thesis
  proof (cases "body_start ?r < length ?r")
    case True
    then have "q = trim_right (take (length ?r - last_size ?r) ?r)" using a by (simp add: parent_def Let_def)
    then have "length q \<le> length ?r - last_size ?r" using length_trim_right [of "take (length ?r - last_size ?r) ?r"] by simp
    then show ?thesis using True r last_size_pos [OF True] by linarith
  next
    case False
    then have "?r = ''.''" "q = []" using a by (auto simp: parent_def Let_def split: if_splits)
    then show ?thesis using r by auto
  qed
qed

end
