(* ===== verification/Core_Config_Discovery.thy ===== *)
theory Core_Config_Discovery
  imports Core_Config Rust_Paths
begin

text \<open>
  Configuration discovery and loading (\<open>ConfigDiscovery\<close> and \<open>parse_toml_config\<close> in
  \<open>crates/missive-core/src/config.rs\<close>).  The file system and the \<open>toml\<close> crate are
  parameters, collected in a record: what \<open>is_file\<close>, \<open>exists\<close> and \<open>read_to_string\<close> answer,
  and what deserialising a TOML text gives, an error carrying the start of its span.
\<close>

record world =
  fs_is_file :: "string \<Rightarrow> bool"
  fs_exists :: "string \<Rightarrow> bool"
  fs_read_to_string :: "string \<Rightarrow> std_error + string"
  toml_from_str :: "string \<Rightarrow> nat option + MissiveConfig"
  url_parse :: url_parser

definition ENV_CONFIG :: string where
  "ENV_CONFIG = ''MISSIVE_CONFIG''"

definition ENV_REPOSITORY_CONFIG :: string where
  "ENV_REPOSITORY_CONFIG = ''MISSIVE_REPO_CONFIG''"

definition REPOSITORY_CONFIG_FILE :: string where
  "REPOSITORY_CONFIG_FILE = ''missive.toml''"

definition REPOSITORY_DOT_CONFIG_FILE :: string where
  "REPOSITORY_DOT_CONFIG_FILE = ''.missive.toml''"

subsection \<open>Parsing\<close>

text \<open>The loop over \<open>char_indices\<close>: the byte index of the next character, line and column.\<close>

fun line_column_from :: "string list \<Rightarrow> nat \<Rightarrow> nat \<Rightarrow> nat \<Rightarrow> nat \<Rightarrow> nat \<times> nat" where
  "line_column_from [] index byte_index line column = (line, column)"
| "line_column_from (c # cs) index byte_index line column =
     (if byte_index \<le> index then (line, column)
      else if c = [CHR 0x0A] then line_column_from cs (index + length c) byte_index (line + 1) 1
      else line_column_from cs (index + length c) byte_index line (column + 1))"

definition line_column :: "string \<Rightarrow> nat \<Rightarrow> nat \<times> nat" where
  "line_column input byte_index = line_column_from (char_chunks input) 0 byte_index 1 1"

definition parse_toml_config :: "world \<Rightarrow> string \<Rightarrow> string \<Rightarrow> MissiveConfig outcome" where
  "parse_toml_config W input label =
     (case toml_from_str W input of
        Inl span \<Rightarrow>
          (let location = (case map_option (line_column input) span of
                 None \<Rightarrow> []
               | Some (line, column) \<Rightarrow>
                   '' near line '' @ show_nat line @ '', column '' @ show_nat column)
           in Inl (config_error_help
             [Lit (''failed to parse TOML configuration at '' @ label @ location)]
             ''Check TOML syntax and the schema documented in docs/configuration.md.''))
      | Inr config \<Rightarrow> and_then (config_validate (url_parse W) config) (\<lambda>_. Inr config))"

definition from_toml_str :: "world \<Rightarrow> string \<Rightarrow> MissiveConfig outcome" where
  "from_toml_str W input = parse_toml_config W input ''inline configuration''"

definition from_path :: "world \<Rightarrow> string \<Rightarrow> MissiveConfig outcome" where
  "from_path W path =
     (case fs_read_to_string W path of
        Inl error \<Rightarrow>
          Inl (with_help (error_io (''reading configuration '' @ path) error)
            ''Check the path passed with --config or MISSIVE_CONFIG.'')
      | Inr input \<Rightarrow> parse_toml_config W input path)"

subsection \<open>Discovery\<close>

record ConfigDiscovery =
  disc_explicit_path :: "string option"
  disc_selected_profile :: "string option"
  disc_allow_repository_config :: bool
  disc_env :: "(string, string) btree_map"
  disc_current_dir :: string

definition discovery_new :: ConfigDiscovery where
  "discovery_new =
     \<lparr>disc_explicit_path = None, disc_selected_profile = None, disc_allow_repository_config = False,
      disc_env = [], disc_current_dir = ''.''\<rparr>"

definition with_explicit_path :: "ConfigDiscovery \<Rightarrow> string option \<Rightarrow> ConfigDiscovery" where
  "with_explicit_path d path = d\<lparr>disc_explicit_path := path\<rparr>"

definition with_selected_profile :: "ConfigDiscovery \<Rightarrow> string option \<Rightarrow> ConfigDiscovery" where
  "with_selected_profile d profile = d\<lparr>disc_selected_profile := profile\<rparr>"

definition with_repository_config :: "ConfigDiscovery \<Rightarrow> bool \<Rightarrow> ConfigDiscovery" where
  "with_repository_config d enabled = d\<lparr>disc_allow_repository_config := enabled\<rparr>"

definition with_env :: "ConfigDiscovery \<Rightarrow> (string \<times> string) list \<Rightarrow> ConfigDiscovery" where
  "with_env d env = d\<lparr>disc_env := bm_extend [] env\<rparr>"

definition with_current_dir :: "ConfigDiscovery \<Rightarrow> string \<Rightarrow> ConfigDiscovery" where
  "with_current_dir d current_dir = d\<lparr>disc_current_dir := current_dir\<rparr>"

text \<open>\<open>from_process\<close> reads the working directory and the environment of the process.\<close>

definition from_process :: "std_error + string \<Rightarrow> (string \<times> string) list \<Rightarrow> ConfigDiscovery outcome" where
  "from_process cwd vars =
     (case cwd of
        Inl error \<Rightarrow> Inl (error_io ''reading current directory for config discovery'' error)
      | Inr current_dir \<Rightarrow> Inr (with_current_dir (with_env discovery_new vars) current_dir))"

definition resolve_path :: "ConfigDiscovery \<Rightarrow> string \<Rightarrow> string outcome" where
  "resolve_path d path =
     (if path = [] then
        Inl (config_error_help [Lit ''configuration path cannot be empty'']
          ''Pass a non-empty path to --config or MISSIVE_CONFIG.'')
      else if is_absolute path then Inr path
      else Inr (path_join (disc_current_dir d) path))"

definition repository_config_requested :: "ConfigDiscovery \<Rightarrow> bool" where
  "repository_config_requested d \<longleftrightarrow>
     disc_allow_repository_config d \<or>
     (case bm_get ENV_REPOSITORY_CONFIG (disc_env d) of
        None \<Rightarrow> False | Some value \<Rightarrow> env_flag_enabled value)"

definition repository_candidates :: "string \<Rightarrow> string list" where
  "repository_candidates directory =
     map (path_join directory) [REPOSITORY_CONFIG_FILE, REPOSITORY_DOT_CONFIG_FILE]"

text \<open>The loop over the directory and its ancestors; each parent is shorter, so it ends.\<close>

function find_repository_config_from :: "world \<Rightarrow> string \<Rightarrow> string option" where
  "find_repository_config_from W directory =
     (case List.find (fs_is_file W) (repository_candidates directory) of
        Some candidate \<Rightarrow> Some candidate
      | None \<Rightarrow>
          if fs_exists W (path_join directory ''.git'') then None
          else case parent directory of
            None \<Rightarrow> None
          | Some up \<Rightarrow> find_repository_config_from W up)"
  by pat_completeness auto
termination
  by (relation "measure (\<lambda>(W, d). length d)") (auto dest: length_parent)

declare find_repository_config_from.simps [simp del]

definition find_repository_config :: "world \<Rightarrow> ConfigDiscovery \<Rightarrow> string option" where
  "find_repository_config W d = find_repository_config_from W (disc_current_dir d)"

definition push_config_candidates :: "string list \<Rightarrow> string \<Rightarrow> string list" where
  "push_config_candidates candidates root =
     candidates @ [path_join (path_join root ''missive'') ''config.toml'', path_join root ''missive.toml'']"

text \<open>\<open>str::split(':')\<close>.\<close>

fun split_on :: "char \<Rightarrow> string \<Rightarrow> string list" where
  "split_on sep [] = [[]]"
| "split_on sep (c # cs) =
     (if c = sep then [] # split_on sep cs
      else case split_on sep cs of [] \<Rightarrow> [[c]] | p # ps \<Rightarrow> (c # p) # ps)"

definition non_empty :: "string option \<Rightarrow> string option" where
  "non_empty v = (if v = Some [] then None else v)"

definition xdg_config_candidates :: "ConfigDiscovery \<Rightarrow> string list" where
  "xdg_config_candidates d =
     (let user =
        (case non_empty (bm_get ''XDG_CONFIG_HOME'' (disc_env d)) of
           Some home \<Rightarrow> push_config_candidates [] home
         | None \<Rightarrow>
             (case non_empty (bm_get ''HOME'' (disc_env d)) of
                Some home \<Rightarrow> push_config_candidates [] (path_join home ''.config'')
              | None \<Rightarrow> []));
        system_dirs =
          (case bm_get ''XDG_CONFIG_DIRS'' (disc_env d) of Some v \<Rightarrow> v | None \<Rightarrow> ''/etc/xdg'')
      in fold (\<lambda>directory candidates. push_config_candidates candidates directory)
           (filter (\<lambda>part. part \<noteq> []) (split_on CHR '':'' system_dirs)) user)"

definition find_xdg_config :: "world \<Rightarrow> ConfigDiscovery \<Rightarrow> string option" where
  "find_xdg_config W d = List.find (fs_is_file W) (xdg_config_candidates d)"

definition discover_path :: "world \<Rightarrow> ConfigDiscovery \<Rightarrow> ConfigSource option outcome" where
  "discover_path W d =
     (case disc_explicit_path d of
        Some path \<Rightarrow>
          and_then (resolve_path d path) (\<lambda>p. Inr (Some (config_source_path ExplicitPath p)))
      | None \<Rightarrow>
          (case bm_get ENV_CONFIG (disc_env d) of
             Some path \<Rightarrow>
               if trim path = [] then
                 Inl (config_error_help [Lit (ENV_CONFIG @ '' is set but empty'')]
                   ''Unset MISSIVE_CONFIG or set it to a TOML configuration file path.'')
               else and_then (resolve_path d path) (\<lambda>p. Inr (Some (config_source_path Environment p)))
           | None \<Rightarrow>
               (case (if repository_config_requested d then find_repository_config W d else None) of
                  Some path \<Rightarrow> Inr (Some (config_source_path RepositoryLocal path))
                | None \<Rightarrow> Inr (map_option (config_source_path Xdg) (find_xdg_config W d)))))"

definition load :: "world \<Rightarrow> ConfigDiscovery \<Rightarrow> LoadedConfig outcome" where
  "load W d =
     and_then (discover_path W d) (\<lambda>found.
       let source = unwrap_or found built_in_default
       in and_then
         (case source_path source of
            Some path \<Rightarrow> from_path W path
          | None \<Rightarrow>
              and_then (config_validate (url_parse W) MissiveConfig_default)
                (\<lambda>_. Inr MissiveConfig_default))
         (\<lambda>config.
           let selected_profile = unwrap_or (disc_selected_profile d) (cfg_default_profile config)
           in and_then (config_profile config selected_profile) (\<lambda>_.
             Inr \<lparr>loaded_config = config, loaded_source = source,
                  loaded_selected_profile = selected_profile\<rparr>)))"

end
