(* ===== verification/Core_Config_Properties.thy ===== *)
theory Core_Config_Properties
  imports Core_Config_Discovery
begin

text \<open>Properties of configuration validation, discovery and loading.\<close>

subsection \<open>Validators\<close>

text \<open>The configuration's own text checks agree with the identifier types the rest of the program
  uses: a configured name is accepted exactly when it is an agent alias, a binding exactly when it
  is a transport name.\<close>

lemma config_names_agree:
  "(validate_named_config_identifier kind v = Inr () \<longleftrightarrow> AgentAlias_new v = Inr v) \<and>
   (validate_transport_binding field v = Inr () \<longleftrightarrow> TransportName_new v = Inr v)"
  unfolding AgentAlias_new_def TransportName_new_def
  by (simp add: result_iff agent_alias.new_Inr transport_name.new_Inr)

text \<open>A duration is accepted exactly when it is a run of decimal digits whose value is positive
  and fits in 64 bits, followed by one of the four units; so every positive 64-bit amount printed
  in decimal with a unit is accepted, and a zero amount never is.\<close>

lemma validate_duration_exact:
  "(validate_duration field v = Inr () \<longleftrightarrow>
     (\<exists>digits u n. v = digits @ u \<and> digits \<noteq> [] \<and> parse_digits 0 digits = Some n \<and> 0 < n \<and>
        n < 2 ^ 64 \<and> u \<in> {''ms'', ''s'', ''m'', ''h''})) \<and>
   (u' \<in> {''ms'', ''s'', ''m'', ''h''} \<longrightarrow> n' < 2 ^ 64 \<longrightarrow>
     (validate_duration field (show_nat n' @ u') = Inr () \<longleftrightarrow> n' \<noteq> 0))"
proof -
  have "\<not> duration_ok (show_nat 0 @ u')" if u: "u' \<in> {''ms'', ''s'', ''m'', ''h''}"
  proof
    assume "duration_ok (show_nat 0 @ u')"
    moreover have "show_nat 0 = ''0''" by code_simp
    ultimately have z: "validate_duration [] (''0'' @ u') = Inr ()" by (simp add: result_iff)
    have "u' \<in> set duration_units" using u by (auto simp: duration_units_def)
    then have "before_char not_digit (''0'' @ u') = ''0''"
      using split_digits [of "''0''" u'] duration_unit_ascii [of u'] by (simp add: is_ascii_digit_def)
    with z show False
      by (simp add: validate_duration_def Let_def result_iff parse_u64_digits_def is_ascii_digit_def)
  qed
  then have "duration_ok (show_nat n' @ u') \<longleftrightarrow> n' \<noteq> 0"
    if "u' \<in> {''ms'', ''s'', ''m'', ''h''}" "n' < 2 ^ 64"
    using that duration_ok_show_nat [of u' n'] by (cases "n' = 0") (blast, auto)
  then show ?thesis unfolding validate_duration_Inr duration_ok_def [of v, symmetric] by blast
qed

text \<open>C8. Validation accepts exactly the well-formed configurations, in which every section is within its
  bounds and every reference (the default profile, a profile's default agent, an agent's
  authentication reference, an adapter's session profile) names an entry that exists, and rejects
  every other configuration with a configuration error.\<close>

theorem config_validate_exact:
  "case config_validate U c of
     Inr u \<Rightarrow> config_ok U c
   | Inl e \<Rightarrow> \<not> config_ok U c \<and> err_category e = Cat_Config"
  using config_validate_Inr [of U c] config_failures_config [of U c]
  by (auto simp: config_failures_def split: sum.splits)

subsection \<open>Loading\<close>

lemma from_path_Inr:
  "from_path W path = Inr c \<longleftrightarrow>
     (\<exists>text. fs_read_to_string W path = Inr text \<and> toml_from_str W text = Inr c \<and> config_ok (url_parse W) c)"
  by (auto simp: from_path_def parse_toml_config_def Let_def result_iff split: sum.splits)

lemma discover_path_source:
  "discover_path W d = Inr (Some s) \<Longrightarrow> source_kind s \<noteq> BuiltInDefault \<and> source_path s \<noteq> None"
  by (auto simp: discover_path_def config_source_path_def and_then_Inr split: option.splits if_splits)

lemma load_facts:
  assumes "load W d = Inr l"
  shows "loaded_ok (url_parse W) l \<and>
    loaded_selected_profile l =
      (case disc_selected_profile d of Some p \<Rightarrow> p | None \<Rightarrow> cfg_default_profile (loaded_config l)) \<and>
    (case source_path (loaded_source l) of
       Some path \<Rightarrow> discover_path W d = Inr (Some (loaded_source l)) \<and>
         (\<exists>text. fs_read_to_string W path = Inr text \<and> toml_from_str W text = Inr (loaded_config l))
     | None \<Rightarrow> discover_path W d = Inr None \<and> source_kind (loaded_source l) = BuiltInDefault \<and>
         loaded_config l = MissiveConfig_default)"
proof -
  obtain found c p where f: "discover_path W d = Inr found"
    and c: "(case source_path (unwrap_or found built_in_default) of
            Some path \<Rightarrow> from_path W path
          | None \<Rightarrow> and_then (config_validate (url_parse W) MissiveConfig_default)
                (\<lambda>_. Inr MissiveConfig_default)) = Inr c"
    and p: "config_profile c (unwrap_or (disc_selected_profile d) (cfg_default_profile c)) = Inr p"
    and l: "l = \<lparr>loaded_config = c, loaded_source = unwrap_or found built_in_default,
        loaded_selected_profile = unwrap_or (disc_selected_profile d) (cfg_default_profile c)\<rparr>"
    using assms by (auto simp: load_def Let_def and_then_Inr)
  have "loaded_ok (url_parse W) l"
    using c p by (auto simp: loaded_ok_def l selected_profile_config_def from_path_Inr and_then_Inr
        result_iff split: option.splits)
  then show ?thesis
    using f c discover_path_source [of W d]
    by (cases found)
      (auto simp: l unwrap_or_def built_in_default_def from_path_Inr and_then_Inr split: option.splits)
qed

text \<open>C9. A loaded configuration is validated, its selected profile (the requested one, or the
  configuration's default) is defined in it, and it is the content of the discovered file, or the
  built-in configuration when no file was discovered.\<close>

theorem load_sound:
  assumes "load W d = Inr l"
  shows "loaded_ok (url_parse W) l \<and>
    loaded_selected_profile l =
      (case disc_selected_profile d of Some p \<Rightarrow> p | None \<Rightarrow> cfg_default_profile (loaded_config l)) \<and>
    (case source_path (loaded_source l) of
       Some path \<Rightarrow> discover_path W d = Inr (Some (loaded_source l)) \<and>
         (\<exists>text. fs_read_to_string W path = Inr text \<and> toml_from_str W text = Inr (loaded_config l))
     | None \<Rightarrow> discover_path W d = Inr None \<and> source_kind (loaded_source l) = BuiltInDefault \<and>
         loaded_config l = MissiveConfig_default)"
  by (rule load_facts [OF assms])

text \<open>A file system without files, used by the witnesses.\<close>

definition empty_world :: world where
  "empty_world =
     \<lparr>fs_is_file = (\<lambda>p. False), fs_exists = (\<lambda>p. False), fs_read_to_string = (\<lambda>p. Inl (StdError [] None)),
      toml_from_str = (\<lambda>t. Inl None), url_parse = (\<lambda>u. None)\<rparr>"

subsection \<open>Repository search\<close>

text \<open>A directory followed by its ancestors, and the part of such a list up to and including the first
  directory that holds a \<open>.git\<close> entry.\<close>

function ancestors :: "string \<Rightarrow> string list" where
  "ancestors dir = dir # (case parent dir of None \<Rightarrow> [] | Some up \<Rightarrow> ancestors up)"
  by pat_completeness auto
termination
  by (relation "measure length") (auto dest: length_parent)

declare ancestors.simps [simp del]

fun repository_scope :: "world \<Rightarrow> string list \<Rightarrow> string list" where
  "repository_scope W [] = []"
| "repository_scope W (dir # dirs) =
     dir # (if fs_exists W (path_join dir ''.git'') then [] else repository_scope W dirs)"

lemma find_append: "List.find p (xs @ ys) = (case List.find p xs of Some x \<Rightarrow> Some x | None \<Rightarrow> List.find p ys)"
  by (induction xs) auto

lemma find_repository_config_scope:
  "find_repository_config_from W dir =
     List.find (fs_is_file W) (concat (map repository_candidates (repository_scope W (ancestors dir))))"
proof (induction dir rule: ancestors.induct)
  case (1 dir)
  show ?case
  proof (cases "parent dir")
    case None
    then show ?thesis
      by (subst find_repository_config_from.simps, subst ancestors.simps)
        (simp add: find_append split: option.split)
  next
    case (Some up)
    then show ?thesis using 1
      by (subst find_repository_config_from.simps, subst ancestors.simps)
        (simp add: find_append split: option.split)
  qed
qed

text \<open>The repository search looks, from the working directory upwards, at \<open>missive.toml\<close> and
  then \<open>.missive.toml\<close> of each directory, stops at the first regular file, and never looks
  above a directory that holds a \<open>.git\<close> entry; it always ends.\<close>

lemma find_repository_config_exact:
  "find_repository_config W d =
     List.find (fs_is_file W)
       (concat (map (\<lambda>dir. [path_join dir ''missive.toml'', path_join dir ''.missive.toml''])
         (repository_scope W (ancestors (disc_current_dir d)))))"
proof -
  have "repository_candidates = (\<lambda>dir. [path_join dir ''missive.toml'', path_join dir ''.missive.toml''])"
    by (rule ext) (simp add: repository_candidates_def REPOSITORY_CONFIG_FILE_def REPOSITORY_DOT_CONFIG_FILE_def)
  then show ?thesis by (simp add: find_repository_config_def find_repository_config_scope)
qed

subsection \<open>Precedence\<close>

text \<open>Discovery prefers the explicit path, then \<open>MISSIVE_CONFIG\<close>, then the repository when it was
  asked for, then the XDG locations: the kind of the discovered source tells exactly which of them
  was set or found, and an explicit or environment path is never empty and is resolved against the
  working directory.\<close>

lemma discover_path_precedence:
  assumes "discover_path W d = Inr found"
  shows "case found of
      None \<Rightarrow> disc_explicit_path d = None \<and> bm_get ENV_CONFIG (disc_env d) = None \<and>
        find_xdg_config W d = None \<and>
        (repository_config_requested d \<longrightarrow> find_repository_config W d = None)
    | Some s \<Rightarrow>
        (case source_kind s of
           ExplicitPath \<Rightarrow> \<exists>p. disc_explicit_path d = Some p \<and> p \<noteq> [] \<and>
             source_path s = Some (if is_absolute p then p else path_join (disc_current_dir d) p)
         | Environment \<Rightarrow> disc_explicit_path d = None \<and>
             (\<exists>p. bm_get ENV_CONFIG (disc_env d) = Some p \<and> trim p \<noteq> [] \<and>
               source_path s = Some (if is_absolute p then p else path_join (disc_current_dir d) p))
         | RepositoryLocal \<Rightarrow> disc_explicit_path d = None \<and> bm_get ENV_CONFIG (disc_env d) = None \<and>
             repository_config_requested d \<and> source_path s = find_repository_config W d \<and>
             find_repository_config W d \<noteq> None
         | Xdg \<Rightarrow> disc_explicit_path d = None \<and> bm_get ENV_CONFIG (disc_env d) = None \<and>
             (repository_config_requested d \<longrightarrow> find_repository_config W d = None) \<and>
             source_path s = find_xdg_config W d \<and> find_xdg_config W d \<noteq> None
         | BuiltInDefault \<Rightarrow> False)"
proof (cases "disc_explicit_path d")
  case (Some p)
  then show ?thesis
    using assms by (auto simp: discover_path_def resolve_path_def config_source_path_def and_then_Inr
        split: if_splits)
next
  case None
  note ex = this
  show ?thesis
  proof (cases "bm_get ENV_CONFIG (disc_env d)")
    case (Some p)
    then show ?thesis
      using assms ex by (auto simp: discover_path_def resolve_path_def config_source_path_def and_then_Inr
          split: if_splits)
  next
    case None
    then show ?thesis
      using assms ex by (cases "find_repository_config W d"; cases "find_xdg_config W d")
        (auto simp: discover_path_def config_source_path_def split: if_splits)
  qed
qed

subsection \<open>Loading without a file\<close>

lemma load_builtin:
  assumes "disc_explicit_path d = None" "bm_get ENV_CONFIG (disc_env d) = None"
    and "disc_selected_profile d = None \<or> disc_selected_profile d = Some ''default''"
    and "\<forall>p. \<not> fs_is_file W p"
  shows "load W d = Inr \<lparr>loaded_config = MissiveConfig_default, loaded_source = built_in_default,
    loaded_selected_profile = ''default''\<rparr>"
proof -
  have none: "List.find (fs_is_file W) ps = None" for ps using assms(4) by (simp add: find_None_iff)
  then have "discover_path W d = Inr None"
    using assms(1,2) by (simp add: discover_path_def find_xdg_config_def find_repository_config_def
        find_repository_config_scope)
  moreover have "config_validate (url_parse W) MissiveConfig_default = Inr ()"
    by (simp add: result_iff MissiveConfig_default_ok)
  moreover have "config_profile MissiveConfig_default ''default'' = Inr ProfileConfig_default"
    by (simp add: result_iff named_ok_def shaped_def is_ascii_lower_alphanumeric_def ascii_defs
        MissiveConfig_default_def DEFAULT_PROFILE_def)
  moreover have "unwrap_or (disc_selected_profile d) (cfg_default_profile MissiveConfig_default) = ''default''"
    using assms(3) by (auto simp: unwrap_or_def MissiveConfig_default_def DEFAULT_PROFILE_def)
  ultimately show ?thesis
    by (simp add: load_def Let_def unwrap_or_def [of None] built_in_default_def)
qed

theorem load_sound_witness:
  "\<exists>l. load empty_world discovery_new = Inr l \<and> loaded_ok (url_parse empty_world) l"
proof -
  have "load empty_world discovery_new = Inr \<lparr>loaded_config = MissiveConfig_default,
     loaded_source = built_in_default, loaded_selected_profile = ''default''\<rparr>"
    by (rule load_builtin) (simp_all add: discovery_new_def empty_world_def)
  from load_sound [OF this] this show ?thesis by blast
qed

subsection \<open>Error locations\<close>

lemma line_column_from_prefix:
  assumes "\<forall>c \<in> set cs. c \<noteq> []"
  shows "line_column_from (cs @ ds) idx (idx + length (concat cs)) line column =
    (line + count_list cs [CHR 0x0A],
     if [CHR 0x0A] \<in> set cs then 1 + length (takeWhile (\<lambda>c. c \<noteq> [CHR 0x0A]) (rev cs))
     else column + length cs)"
  using assms
proof (induction cs arbitrary: idx line column)
  case Nil
  then show ?case by (cases ds) simp_all
next
  case (Cons c cs)
  have len: "\<not> idx + length (concat (c # cs)) \<le> idx" using Cons.prems by (cases c) auto
  have idx: "idx + length (concat (c # cs)) = (idx + length c) + length (concat cs)" by simp
  have tw: "takeWhile (\<lambda>c. c \<noteq> [CHR 0x0A]) (rev cs @ [c]) =
      (if [CHR 0x0A] \<in> set cs then takeWhile (\<lambda>c. c \<noteq> [CHR 0x0A]) (rev cs)
       else if c = [CHR 0x0A] then rev cs else rev cs @ [c])"
    by (auto simp: takeWhile_append)
  have ih: "line_column_from (cs @ ds) (idx + length c) (idx + length c + length (concat cs)) l k =
    (l + count_list cs [CHR 0x0A],
     if [CHR 0x0A] \<in> set cs then 1 + length (takeWhile (\<lambda>c. c \<noteq> [CHR 0x0A]) (rev cs)) else k + length cs)" for l k
    using Cons.prems by (intro Cons.IH) simp
  have step: "line_column_from ((c # cs) @ ds) idx (idx + length (concat (c # cs))) line column =
    (if c = [CHR 0x0A] then line_column_from (cs @ ds) (idx + length c) (idx + length c + length (concat cs)) (line + 1) 1
     else line_column_from (cs @ ds) (idx + length c) (idx + length c + length (concat cs)) line (column + 1))"
    using len unfolding idx append_Cons line_column_from.simps by (simp only: if_False)
  show ?case unfolding step ih rev.simps tw by auto
qed

text \<open>The location reported for a parse error at the end of a prefix of the text is one plus the number
  of line feeds in the prefix, and one plus the number of characters since the last of them.\<close>

lemma line_column_exact:
  assumes "at_boundary q"
  shows "line_column (p @ q) (length p) =
    (1 + count_list (char_chunks p) [CHR 0x0A],
     1 + length (takeWhile (\<lambda>c. c \<noteq> [CHR 0x0A]) (rev (char_chunks p))))"
proof -
  have "\<forall>c \<in> set (char_chunks p). c \<noteq> []" using char_chunks_tail by blast
  from line_column_from_prefix [OF this, of "char_chunks q" 0 1 1]
  have "line_column (p @ q) (length p) = (1 + count_list (char_chunks p) [CHR 0x0A],
     if [CHR 0x0A] \<in> set (char_chunks p) then 1 + length (takeWhile (\<lambda>c. c \<noteq> [CHR 0x0A]) (rev (char_chunks p)))
     else 1 + length (char_chunks p))"
    using assms by (simp add: line_column_def char_chunks_append)
  moreover have "length (takeWhile (\<lambda>c. c \<noteq> [CHR 0x0A]) (rev (char_chunks p))) = length (char_chunks p)"
    if "[CHR 0x0A] \<notin> set (char_chunks p)"
  proof -
    have "takeWhile (\<lambda>c. c \<noteq> [CHR 0x0A]) (rev (char_chunks p)) = rev (char_chunks p)"
      using that unfolding takeWhile_eq_all_conv by auto
    then show ?thesis by (simp only: length_rev)
  qed
  ultimately show ?thesis by (simp split: if_splits)
qed

end
