(* ===== verification/Core_Config_Redaction.thy ===== *)
theory Core_Config_Redaction
  imports Core_Config_Text
begin

text \<open>
  Redaction of rendered configuration (the \<open>redact_*\<close> functions of
  \<open>crates/missive-core/src/config.rs\<close>).
\<close>

definition CONFIG_REDACTED :: string where
  "CONFIG_REDACTED = ''[REDACTED]''"

subsection \<open>Text\<close>

definition find_ascii_case_insensitive :: "string \<Rightarrow> string \<Rightarrow> nat option" where
  "find_ascii_case_insensitive haystack needle =
     find_str (to_ascii_lowercase needle) (to_ascii_lowercase haystack)"

definition ends_secret :: "nat \<Rightarrow> bool" where
  "ends_secret u \<longleftrightarrow> is_whitespace u \<or> u = 44 \<or> u = 59"

lemma find_ascii_case_insensitive_le:
  "find_ascii_case_insensitive s needle = Some i \<Longrightarrow> i + length needle \<le> length s"
  unfolding find_ascii_case_insensitive_def
  by (drule find_str_Some) (auto dest: prefix_length_le)

lemma length_from_char: "length (from_char p s) \<le> length s"
  by (metis before_from_char length_append le_add2)

text \<open>The loop of \<open>redact_after_auth_scheme\<close>: \<open>remaining\<close> shrinks by at least the scheme and
  its space in each round.\<close>

function redact_after_auth_scheme :: "string \<Rightarrow> string \<Rightarrow> string" where
  "redact_after_auth_scheme remaining scheme =
     (let needle = scheme @ '' ''
      in case find_ascii_case_insensitive remaining needle of
           None \<Rightarrow> remaining
         | Some index \<Rightarrow>
             (let prefix_end = index + length needle;
                  rest = drop prefix_end remaining
              in take prefix_end remaining @
                 (if before_char ends_secret rest \<noteq> [] then CONFIG_REDACTED else []) @
                 redact_after_auth_scheme (from_char ends_secret rest) scheme))"
  by pat_completeness auto
termination
proof (relation "measure (\<lambda>(r, s). length r)")
  fix remaining scheme needle index prefix_end rest
  assume "needle = scheme @ '' ''" "find_ascii_case_insensitive remaining needle = Some index"
    "prefix_end = index + length needle" "rest = drop prefix_end remaining"
  then show "((from_char ends_secret rest, scheme), (remaining, scheme)) \<in> measure (\<lambda>(r, s). length r)"
    using length_from_char [of ends_secret rest] find_ascii_case_insensitive_le [of remaining needle index]
    by auto
qed simp

declare redact_after_auth_scheme.simps [simp del]

definition auth_schemes :: "string list" where
  "auth_schemes = [''Bearer'', ''Basic'', ''Token'', ''ApiKey'']"

definition redact_config_text :: "string \<Rightarrow> string" where
  "redact_config_text input = fold (\<lambda>scheme output. redact_after_auth_scheme output scheme) auth_schemes input"

definition is_auth_scheme :: "string \<Rightarrow> bool" where
  "is_auth_scheme value \<longleftrightarrow>
     to_ascii_lowercase value \<in> {''bearer'', ''basic'', ''token'', ''apikey'', ''api-key''}"

definition redact_header_value :: "string \<Rightarrow> string" where
  "redact_header_value value =
     (let trimmed = trim value;
          scheme = before_char is_whitespace trimmed
      in if from_char is_whitespace trimmed \<noteq> [] \<and> is_auth_scheme scheme
         then scheme @ '' '' @ CONFIG_REDACTED else CONFIG_REDACTED)"

subsection \<open>Keys\<close>

definition secret_names :: "string list" where
  "secret_names =
     [''authorization'', ''proxyauthorization'', ''cookie'', ''setcookie'', ''apikey'', ''xapikey'',
      ''xauthtoken'', ''xcsrftoken'', ''token'', ''secret'', ''password'', ''passwd'', ''credential'',
      ''credentials'', ''clientsecret'', ''refreshtoken'', ''accesstoken'', ''accesskey'',
      ''privatekey'', ''sessiontoken'']"

definition is_secret_key :: "string \<Rightarrow> bool" where
  "is_secret_key key \<longleftrightarrow>
     (let normalized = to_ascii_lowercase (filter is_ascii_alphanumeric key)
      in normalized \<in> set secret_names \<or> suffix ''token'' normalized \<or> suffix ''secret'' normalized \<or>
         suffix ''password'' normalized \<or> suffix ''apikey'' normalized)"

subsection \<open>JSON values\<close>

definition is_headers_key :: "string \<Rightarrow> bool" where
  "is_headers_key key \<longleftrightarrow>
     to_ascii_lowercase key = ''headers'' \<or> to_ascii_lowercase key = ''http_headers''"

function (sequential) redact_config_json :: "json \<Rightarrow> json"
  and redact_items :: "json list \<Rightarrow> json list"
  and redact_config_object :: "(string \<times> json) list \<Rightarrow> bool \<Rightarrow> (string \<times> json) list \<Rightarrow> (string \<times> json) list"
  and redact_config_header_value :: "string \<Rightarrow> json \<Rightarrow> json" where
  "redact_config_json (JObject entries) = JObject (redact_config_object entries False [])"
| "redact_config_json (JArray items) = JArray (redact_items items)"
| "redact_config_json (JString text) = JString (redact_config_text text)"
| "redact_config_json other = other"
| "redact_items [] = []"
| "redact_items (v # vs) = redact_config_json v # redact_items vs"
| "redact_config_object [] headers_context redacted = redacted"
| "redact_config_object ((key, v) # entries) headers_context redacted =
     (let value =
        (if headers_context then redact_config_header_value key v
         else if is_secret_key key then JString CONFIG_REDACTED
         else if is_headers_key key then
           (case v of JObject headers \<Rightarrow> JObject (redact_config_object headers True [])
                    | other \<Rightarrow> redact_config_json other)
         else redact_config_json v)
      in redact_config_object entries headers_context (bm_insert key value redacted))"
| "redact_config_header_value name (JString text) =
     (if is_secret_key name then JString (redact_header_value text)
      else JString (redact_config_text text))"
| "redact_config_header_value name other =
     (if is_secret_key name then JString CONFIG_REDACTED else redact_config_json other)"
  by pat_completeness auto
termination
  by (relation "measure (\<lambda>x. case x of
      Inl (Inl v) \<Rightarrow> 2 * size v
    | Inl (Inr vs) \<Rightarrow> 2 * size_list size vs
    | Inr (Inl (es, b, acc)) \<Rightarrow> 2 * size_list (size_prod (\<lambda>x. 0) size) es + 1
    | Inr (Inr (n, v)) \<Rightarrow> 2 * size v + 1)") auto

text \<open>
  \<open>to_redacted_json\<close> of a configuration and of a loaded configuration: the derived
  serialisation (\<open>serde_json::to_value\<close>) is a parameter.
\<close>

definition to_redacted_json :: "('c \<Rightarrow> std_error + json) \<Rightarrow> 'c \<Rightarrow> json outcome" where
  "to_redacted_json to_value c =
     (case to_value c of
        Inl error \<Rightarrow>
          Inl (with_help
            (with_source
              (error_orchestration [Lit ''failed to serialize configuration for redacted rendering''])
              error)
            ''Report this as a missive bug; the config schema should be serializable.'')
      | Inr value \<Rightarrow> Inr (redact_config_json value))"

definition loaded_to_redacted_json :: "('c \<Rightarrow> std_error + json) \<Rightarrow> 'c \<Rightarrow> json outcome" where
  "loaded_to_redacted_json to_value c =
     (case to_value c of
        Inl error \<Rightarrow>
          Inl (with_source (error_orchestration [Lit ''failed to serialize loaded configuration'']) error)
      | Inr value \<Rightarrow> Inr (redact_config_json value))"

subsection \<open>Where a scheme occurs\<close>

text \<open>A \<open>str\<close>: each character is a single ASCII byte or starts with a lead byte.\<close>

definition char_ok :: "string \<Rightarrow> bool" where
  "char_ok c \<longleftrightarrow> is_chunk c \<and> (if tl c = [] then is_ascii (hd c) else 192 \<le> byte (hd c))"

definition str_ok :: "string \<Rightarrow> bool" where
  "str_ok s \<longleftrightarrow> list_all char_ok (char_chunks s)"

definition is_lower_word :: "string \<Rightarrow> bool" where
  "is_lower_word w \<longleftrightarrow> w \<noteq> [] \<and> list_all is_ascii_lowercase w"

text \<open>The scheme \<open>w\<close>, in lower case, with its space occurs at offset \<open>i\<close>.\<close>

definition occurs :: "string \<Rightarrow> string \<Rightarrow> nat \<Rightarrow> bool" where
  "occurs w s i \<longleftrightarrow> prefix (w @ '' '') (drop i (to_ascii_lowercase s))"

definition plain :: "string \<Rightarrow> bool" where
  "plain t \<longleftrightarrow> CHR '' '' \<notin> set t"

definition delim_char :: "string \<Rightarrow> bool" where
  "delim_char d \<longleftrightarrow> d = '' '' \<or> (\<forall>b \<in> set d. b \<noteq> CHR '' '' \<and> \<not> is_ascii_lowercase (ascii_lower b)) \<and> d \<noteq> []"

lemma ascii_lower_space [simp]: "ascii_lower b = CHR '' '' \<longleftrightarrow> b = CHR '' ''"
proof
  assume a: "ascii_lower b = CHR '' ''"
  then have "byte (ascii_lower b) = 32" by simp
  then have "\<not> is_ascii_uppercase b" by (auto simp: byte_ascii_lower is_ascii_uppercase_def)
  then show "b = CHR '' ''" using a by (simp add: ascii_lower_def)
qed (simp add: ascii_lower_def is_ascii_uppercase_def)

lemma prefix_drop_nth:
  "prefix n (drop i L) \<longleftrightarrow> i + length n \<le> length L \<and> (\<forall>m < length n. L ! (i + m) = n ! m) \<or> n = []"
proof (cases "n = []")
  case False
  show ?thesis
  proof (intro iffI; (elim disjE conjE)?)
    assume p: "prefix n (drop i L)"
    then obtain z where z: "drop i L = n @ z" by (auto simp: prefix_def)
    then have "length L - i = length n + length z" by (metis length_append length_drop)
    moreover have "0 < length n" using False by simp
    ultimately have le: "i + length n \<le> length L" by linarith
    moreover have "L ! (i + m) = n ! m" if "m < length n" for m
      using z that le by (metis add_leD1 nth_append nth_drop)
    ultimately show "i + length n \<le> length L \<and> (\<forall>m < length n. L ! (i + m) = n ! m) \<or> n = []" by blast
  next
    assume a: "i + length n \<le> length L" "\<forall>m < length n. L ! (i + m) = n ! m"
    then have "take (length n) (drop i L) = n" by (intro nth_equalityI) auto
    then show "prefix n (drop i L)" by (metis take_is_prefix)
  qed (use False in simp)
qed simp

lemma occurs_nth:
  "occurs w s i \<longleftrightarrow>
     i + length w < length s \<and> (\<forall>m < length w. ascii_lower (s ! (i + m)) = w ! m) \<and>
     s ! (i + length w) = CHR '' ''"
proof -
  have l: "to_ascii_lowercase s ! k = ascii_lower (s ! k)" if "k < length s" for k
    using that by (simp add: to_ascii_lowercase_def)
  have "occurs w s i \<longleftrightarrow> i + length w < length s \<and>
      (\<forall>m < Suc (length w). to_ascii_lowercase s ! (i + m) = (w @ '' '') ! m)"
    by (auto simp: occurs_def prefix_drop_nth)
  then show ?thesis
    by (auto simp: All_less_Suc l nth_append)
qed

lemma not_occurs_plain: "plain t \<Longrightarrow> \<not> occurs w t i"
  by (auto simp: occurs_nth plain_def) (metis nth_mem)

lemma occurs_split:
  assumes w: "is_lower_word w" and t: "plain t" and d: "delim_char d"
  shows "occurs w (t @ d @ r) i \<longleftrightarrow>
    i + length w = length t \<and> d = '' '' \<and> to_ascii_lowercase (drop i t) = w \<or>
    (\<exists>j. i = length t + length d + j \<and> occurs w r j)"
proof
  let ?s = "t @ d @ r" and ?k = "length w" and ?T = "length t" and ?D = "length d"
  have dne: "0 < ?D" using d by (auto simp: delim_char_def)
  assume "occurs w ?s i"
  then have len: "i + ?k < length ?s" and lt: "\<And>m. m < ?k \<Longrightarrow> ascii_lower (?s ! (i + m)) = w ! m"
    and sp: "?s ! (i + ?k) = CHR '' ''" by (auto simp: occurs_nth)
  have low: "is_ascii_lowercase (w ! m)" if "m < ?k" for m
    using w that by (auto simp: is_lower_word_def list_all_length)
  consider "i + ?k < ?T" | "?T \<le> i + ?k" "i + ?k < ?T + ?D" | "?T + ?D \<le> i + ?k" "i < ?T + ?D" | "?T + ?D \<le> i"
    by linarith
  then show "i + ?k = ?T \<and> d = '' '' \<and> to_ascii_lowercase (drop i t) = w \<or>
    (\<exists>j. i = ?T + ?D + j \<and> occurs w r j)"
  proof cases
    case 1
    then have "CHR '' '' \<in> set t" using sp by (metis nth_append nth_mem)
    then show ?thesis using t by (simp add: plain_def)
  next
    case 2
    have lt2: "i + ?k - ?T < ?D" using 2 by linarith
    then have "d ! (i + ?k - ?T) = CHR '' ''" using 2 sp by (simp add: nth_append)
    with lt2 have "CHR '' '' \<in> set d" by (metis nth_mem)
    then have d1: "d = '' ''" using d by (auto simp: delim_char_def)
    then have e: "i + ?k = ?T" using 2 by simp
    have "to_ascii_lowercase (drop i t) = w"
    proof (rule nth_equalityI)
      show "length (to_ascii_lowercase (drop i t)) = ?k" using e by simp
      fix m assume "m < length (to_ascii_lowercase (drop i t))"
      then have "i + m < ?T" "m < ?k" using e by auto
      then show "to_ascii_lowercase (drop i t) ! m = w ! m"
        using lt [of m] by (simp add: to_ascii_lowercase_def nth_append)
    qed
    then show ?thesis using d1 e by simp
  next
    case 3
    define p where "p = ?T + ?D - 1"
    have p: "i \<le> p" "p < i + ?k" "?T \<le> p" "p - ?T < ?D" using 3 dne unfolding p_def by linarith+
    have "?s ! p = d ! (p - ?T)" using p(3,4) by (simp add: nth_append)
    then have mem: "?s ! p \<in> set d" using p(4) by simp
    have "is_ascii_lowercase (ascii_lower (?s ! p))" using lt [of "p - i"] low [of "p - i"] p by simp
    moreover from this have "?s ! p \<noteq> CHR '' ''" by (auto simp: ascii_lower_def ascii_defs)
    ultimately show ?thesis using d mem by (auto simp: delim_char_def)
  next
    case 4
    define j where "j = i - (?T + ?D)"
    have i: "i = ?T + ?D + j" using 4 by (simp add: j_def)
    have nth: "?s ! (i + m) = r ! (j + m)" for m using i by (simp add: nth_append)
    have "ascii_lower (r ! (j + m)) = w ! m" if "m < ?k" for m using lt [OF that] nth [of m] by simp
    moreover have "r ! (j + ?k) = CHR '' ''" using sp nth [of ?k] by simp
    moreover have "j + ?k < length r" using len i by simp
    ultimately have "occurs w r j" by (simp add: occurs_nth)
    then show ?thesis using i by blast
  qed
next
  assume "i + length w = length t \<and> d = '' '' \<and> to_ascii_lowercase (drop i t) = w \<or>
    (\<exists>j. i = length t + length d + j \<and> occurs w r j)"
  then show "occurs w (t @ d @ r) i"
  proof (elim disjE exE conjE)
    assume a: "i + length w = length t" "d = '' ''" "to_ascii_lowercase (drop i t) = w"
    have "ascii_lower (t ! (i + m)) = w ! m" if "m < length w" for m
      using a(1) that unfolding a(3) [symmetric] by (simp add: to_ascii_lowercase_def)
    then show ?thesis using a(1,2) by (auto simp: occurs_nth nth_append)
  next
    fix j assume i: "i = length t + length d + j" and "occurs w r j"
    then show ?thesis by (auto simp: occurs_nth nth_append algebra_simps)
  qed
qed

lemma find_occurs:
  assumes "w = to_ascii_lowercase scheme"
  shows "find_ascii_case_insensitive s (scheme @ '' '') = Some i \<longleftrightarrow> occurs w s i \<and> (\<forall>j < i. \<not> occurs w s j)"
    and "find_ascii_case_insensitive s (scheme @ '' '') = None \<longleftrightarrow> (\<forall>j. \<not> occurs w s j)"
proof -
  let ?f = "find_str (w @ '' '') (to_ascii_lowercase s)"
  have f: "find_ascii_case_insensitive s (scheme @ '' '') = ?f"
    by (simp add: find_ascii_case_insensitive_def assms ascii_lower_def is_ascii_uppercase_def)
  have some: "occurs w s k \<and> (\<forall>j < k. \<not> occurs w s j)" if "?f = Some k" for k
    using find_str_Some [OF that] find_str_least [OF that] by (auto simp: occurs_def)
  have none: "\<forall>j. \<not> occurs w s j" if "?f = None"
    using find_str_None [OF that] by (auto simp: occurs_def)
  show "find_ascii_case_insensitive s (scheme @ '' '') = None \<longleftrightarrow> (\<forall>j. \<not> occurs w s j)"
    unfolding f using some none by (cases ?f) auto
  show "find_ascii_case_insensitive s (scheme @ '' '') = Some i \<longleftrightarrow> occurs w s i \<and> (\<forall>j < i. \<not> occurs w s j)"
    unfolding f using some none by (cases ?f) (auto, metis linorder_neqE_nat)
qed

text \<open>What happens right after a scheme: the secret gives way to the marker.\<close>

definition redact_next :: "string \<Rightarrow> string \<Rightarrow> string" where
  "redact_next scheme r =
     (if before_char ends_secret r \<noteq> [] then CONFIG_REDACTED else []) @
     redact_after_auth_scheme (from_char ends_secret r) scheme"

definition scheme_word :: "string \<Rightarrow> bool" where
  "scheme_word scheme \<longleftrightarrow> is_lower_word (to_ascii_lowercase scheme)"

definition ends_scheme :: "string \<Rightarrow> string \<Rightarrow> bool" where
  "ends_scheme scheme t \<longleftrightarrow> suffix (to_ascii_lowercase scheme) (to_ascii_lowercase t)"

lemma redact_plain: "plain t \<Longrightarrow> redact_after_auth_scheme t scheme = t"
proof -
  assume "plain t"
  then have "find_ascii_case_insensitive t (scheme @ '' '') = None"
    using find_occurs(2) [OF refl] not_occurs_plain by blast
  then show ?thesis by (subst redact_after_auth_scheme.simps) simp
qed

lemma redact_some:
  "find_ascii_case_insensitive s (scheme @ '' '') = Some i \<Longrightarrow>
   redact_after_auth_scheme s scheme =
     take (i + length scheme + 1) s @ redact_next scheme (drop (i + length scheme + 1) s)"
  by (subst redact_after_auth_scheme.simps) (simp add: redact_next_def)

lemma redact_scheme_step:
  assumes w: "scheme_word scheme" and t: "plain t" "ends_scheme scheme t"
  shows "redact_after_auth_scheme (t @ '' '' @ r) scheme = t @ '' '' @ redact_next scheme r"
proof -
  let ?w = "to_ascii_lowercase scheme"
  obtain z where z: "to_ascii_lowercase t = z @ ?w" using t(2) by (auto simp: ends_scheme_def suffix_def)
  define i where "i = length z"
  have len: "i + length ?w = length t" using z by (metis i_def length_append length_to_ascii_lowercase)
  have "to_ascii_lowercase (drop i t) = ?w"
    using z by (simp add: i_def to_ascii_lowercase_def flip: drop_map)
  moreover have d: "delim_char '' ''" by (simp add: delim_char_def)
  moreover have w': "is_lower_word ?w" using w by (simp add: scheme_word_def)
  ultimately have "occurs ?w (t @ '' '' @ r) i" using occurs_split [OF w' t(1) d, of r i] len by blast
  moreover have "\<not> occurs ?w (t @ '' '' @ r) j" if "j < i" for j
    using occurs_split [OF w' t(1) d, of r j] that len by auto
  ultimately have "find_ascii_case_insensitive (t @ '' '' @ r) (scheme @ '' '') = Some i"
    by (simp add: find_occurs(1) [OF refl])
  then have "redact_after_auth_scheme (t @ '' '' @ r) scheme =
      take (length t + 1) (t @ '' '' @ r) @ redact_next scheme (drop (length t + 1) (t @ '' '' @ r))"
    using redact_some [of "t @ '' '' @ r" scheme i] len by simp
  then show ?thesis by simp
qed

lemma redact_other_step:
  assumes w: "scheme_word scheme" and t: "plain t" and d: "delim_char d"
    and no: "\<not> (ends_scheme scheme t \<and> d = '' '')"
  shows "redact_after_auth_scheme (t @ d @ r) scheme = t @ d @ redact_after_auth_scheme r scheme"
proof -
  let ?w = "to_ascii_lowercase scheme" and ?s = "t @ d @ r"
  have w': "is_lower_word ?w" using w by (simp add: scheme_word_def)
  have "suffix ?w (to_ascii_lowercase t)" if "to_ascii_lowercase (drop i t) = ?w" for i
    using that by (metis suffix_drop to_ascii_lowercase_def drop_map)
  then have occ: "occurs ?w ?s i \<longleftrightarrow> (\<exists>j. i = length t + length d + j \<and> occurs ?w r j)" for i
    using no by (auto simp: occurs_split [OF w' t d] ends_scheme_def)
  show ?thesis
  proof (cases "find_ascii_case_insensitive r (scheme @ '' '')")
    case None
    then have "\<forall>j. \<not> occurs ?w ?s j" using occ by (simp add: find_occurs(2) [OF refl])
    then have "find_ascii_case_insensitive ?s (scheme @ '' '') = None" by (simp add: find_occurs(2) [OF refl])
    then have "redact_after_auth_scheme ?s scheme = ?s" by (subst redact_after_auth_scheme.simps) simp
    moreover have "redact_after_auth_scheme r scheme = r"
      by (subst redact_after_auth_scheme.simps) (simp add: None)
    ultimately show ?thesis by simp
  next
    case (Some j)
    then have j: "occurs ?w r j" "\<And>k. k < j \<Longrightarrow> \<not> occurs ?w r k" by (simp_all add: find_occurs(1) [OF refl])
    let ?i = "length t + length d + j"
    have "occurs ?w ?s ?i" using occ [of ?i] j(1) by blast
    moreover have "\<not> occurs ?w ?s k" if "k < ?i" for k using occ [of k] j(2) that by auto
    ultimately have "find_ascii_case_insensitive ?s (scheme @ '' '') = Some ?i"
      by (simp add: find_occurs(1) [OF refl])
    then have "redact_after_auth_scheme ?s scheme =
        take (?i + length scheme + 1) ?s @ redact_next scheme (drop (?i + length scheme + 1) ?s)"
      by (rule redact_some)
    also have "take (?i + length scheme + 1) ?s = t @ d @ take (j + length scheme + 1) r" by simp
    also have "drop (?i + length scheme + 1) ?s = drop (j + length scheme + 1) r" by simp
    finally show ?thesis using redact_some [OF Some] by simp
  qed
qed


subsection \<open>Redaction on tokens\<close>

text \<open>
  A text as its tokens: pairs of a token and the separator character after it, and the last token.
  The reference redaction walks the tokens once and replaces a non-empty token by the marker when
  the token before it ends in the scheme and a space follows it.
\<close>

type_synonym pieces = "(string \<times> string) list \<times> string"

fun split_pieces :: "string list \<Rightarrow> pieces" where
  "split_pieces [] = ([], [])"
| "split_pieces (c # cs) =
     (let (ps, l) = split_pieces cs
      in if ends_secret (code_point c) then (([], c) # ps, l)
         else case ps of [] \<Rightarrow> ([], c @ l) | (t, d) # ps' \<Rightarrow> ((c @ t, d) # ps', l))"

definition join :: "pieces \<Rightarrow> string" where
  "join P = concat (map (\<lambda>(t, d). t @ d) (fst P)) @ snd P"

definition mask :: "bool \<Rightarrow> string \<Rightarrow> string" where
  "mask flag t = (if flag \<and> t \<noteq> [] then CONFIG_REDACTED else t)"

fun mask_pieces :: "string \<Rightarrow> bool \<Rightarrow> (string \<times> string) list \<Rightarrow> string \<Rightarrow> pieces" where
  "mask_pieces scheme flag [] l = ([], mask flag l)"
| "mask_pieces scheme flag ((t, d) # ps) l =
     (let t' = mask flag t;
          r = mask_pieces scheme (ends_scheme scheme t' \<and> d = '' '') ps l
      in ((t', d) # fst r, snd r))"

definition token :: "string \<Rightarrow> bool" where
  "token t \<longleftrightarrow> list_all (\<lambda>c. char_ok c \<and> \<not> ends_secret (code_point c)) (char_chunks t)"

definition separator :: "string \<Rightarrow> bool" where
  "separator d \<longleftrightarrow> char_ok d \<and> ends_secret (code_point d)"

definition pieces_ok :: "pieces \<Rightarrow> bool" where
  "pieces_ok P \<longleftrightarrow> (\<forall>(t, d) \<in> set (fst P). token t \<and> separator d) \<and> token (snd P)"

lemma join_simps [simp]:
  "join ([], l) = l"
  "join ((t, d) # ps, l) = t @ d @ join (ps, l)"
  by (simp_all add: join_def)

lemma char_ok_boundary: "char_ok c \<Longrightarrow> at_boundary (c @ s) \<and> c \<noteq> []"
  by (cases c) (auto simp: char_ok_def is_chunk_def)

lemma char_chunks_char: "char_ok c \<Longrightarrow> at_boundary s \<Longrightarrow> char_chunks (c @ s) = c # char_chunks s"
  by (simp add: char_chunks_append char_chunks_chunk char_ok_def)

lemma token_boundary: "token t \<Longrightarrow> at_boundary s \<Longrightarrow> at_boundary (t @ s)"
proof (cases t)
  case (Cons b bs)
  assume "token t"
  then have "char_ok (b # takeWhile is_cont bs)" using Cons by (simp add: token_def)
  then show ?thesis using Cons by (simp add: char_ok_def is_chunk_def)
qed simp

lemma separator_boundary: "separator d \<Longrightarrow> at_boundary (d @ s)"
  by (simp add: separator_def char_ok_boundary)

lemma join_boundary: "pieces_ok (ps, l) \<Longrightarrow> at_boundary (join (ps, l))"
proof (cases ps)
  case Nil
  assume "pieces_ok (ps, l)"
  then show ?thesis using Nil token_boundary [of l "[]"] by (simp add: pieces_ok_def)
next
  case (Cons p ps')
  assume ok: "pieces_ok (ps, l)"
  obtain t d where p: "p = (t, d)" by (cases p)
  show ?thesis using ok Cons p by (simp add: pieces_ok_def token_boundary separator_boundary)
qed

lemma char_chunks_join:
  assumes "pieces_ok ((t, d) # ps, l)"
  shows "char_chunks (join ((t, d) # ps, l)) = char_chunks t @ d # char_chunks (join (ps, l))"
proof -
  have ok: "separator d" "pieces_ok (ps, l)" using assms by (simp_all add: pieces_ok_def)
  then have "char_chunks (d @ join (ps, l)) = d # char_chunks (join (ps, l))"
    by (intro char_chunks_char join_boundary) (simp_all add: separator_def)
  then show ?thesis using ok separator_boundary by (simp add: char_chunks_append)
qed

lemma before_from_join:
  assumes "pieces_ok ((t, d) # ps, l)"
  shows "before_char ends_secret (t @ d @ join (ps, l)) = t"
    and "from_char ends_secret (t @ d @ join (ps, l)) = d @ join (ps, l)"
proof -
  have c: "char_chunks (t @ d @ join (ps, l)) = char_chunks t @ d # char_chunks (join (ps, l))"
    using char_chunks_join [OF assms] by simp
  have "\<forall>c \<in> set (char_chunks t). \<not> ends_secret (code_point c)" "ends_secret (code_point d)"
    using assms by (auto simp: pieces_ok_def token_def separator_def list_all_iff)
  then show "before_char ends_secret (t @ d @ join (ps, l)) = t"
    "from_char ends_secret (t @ d @ join (ps, l)) = d @ join (ps, l)"
    unfolding before_char_def from_char_def c
    by (simp_all add: takeWhile_append2 dropWhile_append2)
qed

lemma before_from_token:
  assumes "token l"
  shows "before_char ends_secret l = l" "from_char ends_secret l = []"
proof -
  have a: "\<forall>c \<in> set (char_chunks l). \<not> ends_secret (code_point c)"
    using assms by (auto simp: token_def list_all_iff)
  then have "takeWhile (\<lambda>c. \<not> ends_secret (code_point c)) (char_chunks l) = char_chunks l"
    "dropWhile (\<lambda>c. \<not> ends_secret (code_point c)) (char_chunks l) = []"
    by (simp_all add: takeWhile_eq_all_conv dropWhile_eq_Nil_conv)
  then show "before_char ends_secret l = l" "from_char ends_secret l = []"
    unfolding before_char_def from_char_def by (simp_all only: concat_char_chunks concat.simps(1))
qed


lemma char_ok_bytes:
  assumes "char_ok c" "b \<in> set c" "byte b < 128"
  shows "c = [b]"
proof -
  obtain a as where c: "c = a # as" using assms(1) by (cases c) (auto simp: char_ok_def is_chunk_def)
  have "\<not> is_cont b" using assms(3) by (simp add: is_cont_def)
  then have "b = a" using assms(1,2) c by (auto simp: char_ok_def is_chunk_def list_all_iff)
  moreover have "as = []" using assms(1,3) c \<open>b = a\<close> by (auto simp: char_ok_def split: if_splits)
  ultimately show ?thesis using c by simp
qed

lemma token_plain: "token t \<Longrightarrow> plain t"
proof (rule ccontr)
  assume t: "token t" and "\<not> plain t"
  then have "CHR '' '' \<in> set (concat (char_chunks t))" by (simp add: plain_def)
  then obtain c where c: "c \<in> set (char_chunks t)" "CHR '' '' \<in> set c" unfolding set_concat by blast
  then have "char_ok c" "\<not> ends_secret (code_point c)" using t by (auto simp: token_def list_all_iff)
  then show False using char_ok_bytes [OF _ c(2)] by (simp add: ends_secret_def is_whitespace_def)
qed

lemma separator_delim: "separator d \<Longrightarrow> delim_char d"
proof -
  assume d: "separator d"
  then have ok: "char_ok d" "d \<noteq> []" using char_ok_boundary by (auto simp: separator_def)
  show ?thesis
  proof (cases "d = '' ''")
    case False
    have "b \<noteq> CHR '' '' \<and> \<not> is_ascii_lowercase (ascii_lower b)" if b: "b \<in> set d" for b
    proof (cases "byte b < 128")
      case True
      then have db: "d = [b]" using char_ok_bytes ok(1) b by blast
      then have "ends_secret (byte b)" "b \<noteq> CHR '' ''" using d False by (auto simp: separator_def)
      moreover from this have "byte b < 65" using True by (auto simp: ends_secret_def is_whitespace_def)
      ultimately show ?thesis by (auto simp: ascii_defs byte_ascii_lower)
    next
      case False
      then show ?thesis by (auto simp: ascii_defs byte_ascii_lower)
    qed
    with ok(2) show ?thesis by (auto simp: delim_char_def)
  qed (simp add: delim_char_def)
qed

lemma marker_token: "token CONFIG_REDACTED"
proof -
  have "char_chunks CONFIG_REDACTED = map (\<lambda>b. [b]) CONFIG_REDACTED"
    by (rule char_chunks_ascii) (simp add: CONFIG_REDACTED_def is_ascii_def)
  then show ?thesis
    by (simp add: token_def CONFIG_REDACTED_def char_ok_def is_chunk_def is_ascii_def is_cont_def
        ends_secret_def is_whitespace_def)
qed

lemma marker_not_scheme: "scheme_word scheme \<Longrightarrow> \<not> ends_scheme scheme CONFIG_REDACTED"
proof
  assume w: "scheme_word scheme" and "ends_scheme scheme CONFIG_REDACTED"
  then have "last (to_ascii_lowercase scheme) = last (to_ascii_lowercase CONFIG_REDACTED)"
    by (auto simp: ends_scheme_def scheme_word_def is_lower_word_def suffix_def)
  also have "\<dots> = CHR '']''" by code_simp
  finally have "CHR '']'' \<in> set (to_ascii_lowercase scheme)"
    using w by (metis is_lower_word_def last_in_set scheme_word_def)
  then show False using w by (auto simp: scheme_word_def is_lower_word_def list_all_iff is_ascii_lowercase_def)
qed

lemma empty_not_scheme: "scheme_word scheme \<Longrightarrow> \<not> ends_scheme scheme []"
  by (simp add: ends_scheme_def scheme_word_def is_lower_word_def)

lemma redact_pieces:
  assumes "scheme_word scheme" "pieces_ok (ps, l)"
  shows "redact_after_auth_scheme (join (ps, l)) scheme = join (mask_pieces scheme False ps l) \<and>
    redact_next scheme (join (ps, l)) = join (mask_pieces scheme True ps l)"
  using assms(2)
proof (induction ps)
  case Nil
  then have l: "token l" by (simp add: pieces_ok_def)
  have "redact_after_auth_scheme [] scheme = []" by (rule redact_plain) (simp add: plain_def)
  with l show ?case
    by (simp add: redact_plain token_plain redact_next_def before_from_token mask_def)
next
  case (Cons p ps)
  obtain t d where p: "p = (t, d)" by (cases p)
  let ?r = "join (ps, l)"
  have ok: "token t" "separator d" "pieces_ok (ps, l)" using Cons.prems p by (simp_all add: pieces_ok_def)
  note ih = Cons.IH [OF ok(3)]
  note pl = token_plain [OF ok(1)] and de = separator_delim [OF ok(2)]
  have r: "redact_after_auth_scheme (t @ d @ ?r) scheme =
      t @ d @ join (mask_pieces scheme (ends_scheme scheme t \<and> d = '' '') ps l)"
  proof (cases "ends_scheme scheme t \<and> d = '' ''")
    case True
    then show ?thesis using redact_scheme_step [OF assms(1) pl, of ?r] ih by simp
  next
    case False
    then have f: "(ends_scheme scheme t \<and> d = '' '') = False" by blast
    show ?thesis unfolding f using redact_other_step [OF assms(1) pl de False, of ?r] ih by simp
  qed
  have n: "redact_after_auth_scheme (d @ ?r) scheme = d @ join (mask_pieces scheme False ps l)"
    using redact_other_step [OF assms(1) _ de, of "[]" ?r] ih empty_not_scheme [OF assms(1)]
    by (simp add: plain_def)
  have "redact_next scheme (t @ d @ ?r) = mask True t @ d @ join (mask_pieces scheme False ps l)"
    using before_from_join [OF Cons.prems [unfolded p]] n by (simp add: redact_next_def mask_def)
  moreover have "\<not> ends_scheme scheme (mask True t)"
    using marker_not_scheme [OF assms(1)] empty_not_scheme [OF assms(1)] by (simp add: mask_def)
  ultimately show ?case using r by (simp add: p mask_def [of False] Let_def case_prod_beta join_def)
qed


lemma token_Nil [simp]: "token []"
  by (simp add: token_def)

lemma token_cons:
  "char_ok c \<Longrightarrow> \<not> ends_secret (code_point c) \<Longrightarrow> token t \<Longrightarrow> token (c @ t)"
  using char_chunks_char [of c t] token_boundary [of t "[]"] by (simp add: token_def)

lemma split_pieces_ok:
  assumes "list_all char_ok cs"
  shows "join (split_pieces cs) = concat cs \<and> pieces_ok (split_pieces cs)"
  using assms
proof (induction cs)
  case (Cons c cs)
  obtain ps l where sp: "split_pieces cs = (ps, l)" by (cases "split_pieces cs")
  have ih: "join (ps, l) = concat cs" "pieces_ok (ps, l)" and c: "char_ok c" using Cons sp by auto
  show ?case
  proof (cases "ends_secret (code_point c)")
    case True
    then show ?thesis using ih c sp by (auto simp: pieces_ok_def separator_def)
  next
    case False
    show ?thesis
    proof (cases ps)
      case Nil
      then show ?thesis using ih c sp False by (simp add: pieces_ok_def token_cons)
    next
      case (Cons p ps')
      obtain t d where "p = (t, d)" by (cases p)
      then show ?thesis using ih c sp False Cons by (simp add: pieces_ok_def token_cons)
    qed
  qed
qed (simp add: pieces_ok_def)

definition pieces_of :: "string \<Rightarrow> pieces" where
  "pieces_of s = split_pieces (char_chunks s)"

lemma pieces_of_ok: "str_ok s \<Longrightarrow> join (pieces_of s) = s \<and> pieces_ok (pieces_of s)"
  using split_pieces_ok [of "char_chunks s"] by (simp add: str_ok_def pieces_of_def)

lemma mask_token: "token t \<Longrightarrow> token (mask flag t)"
  by (simp add: mask_def marker_token)

lemma mask_pieces_ok: "pieces_ok (ps, l) \<Longrightarrow> pieces_ok (mask_pieces scheme flag ps l)"
proof (induction ps arbitrary: flag)
  case (Cons p ps)
  obtain t d where "p = (t, d)" by (cases p)
  then show ?case using Cons by (simp add: pieces_ok_def mask_token Let_def)
qed (simp add: pieces_ok_def mask_token)

text \<open>Every token after a scheme is empty or the marker.\<close>

fun masked :: "string \<Rightarrow> bool \<Rightarrow> (string \<times> string) list \<Rightarrow> string \<Rightarrow> bool" where
  "masked scheme flag [] l \<longleftrightarrow> (flag \<longrightarrow> l \<in> {[], CONFIG_REDACTED})"
| "masked scheme flag ((t, d) # ps) l \<longleftrightarrow>
     (flag \<longrightarrow> t \<in> {[], CONFIG_REDACTED}) \<and> masked scheme (ends_scheme scheme t \<and> d = '' '') ps l"

lemma masked_mono: "masked scheme flag ps l \<Longrightarrow> masked scheme False ps l"
  by (cases ps) auto

lemma masked_mask: "masked scheme flag (fst (mask_pieces scheme flag ps l)) (snd (mask_pieces scheme flag ps l))"
proof (induction ps arbitrary: flag)
  case (Cons p ps)
  obtain t d where "p = (t, d)" by (cases p)
  with Cons show ?case by (simp add: Let_def mask_def)
qed (simp add: mask_def)

lemma masked_mask_id: "masked scheme flag ps l \<Longrightarrow> mask_pieces scheme flag ps l = (ps, l)"
proof (induction ps arbitrary: flag)
  case (Cons p ps)
  obtain t d where p: "p = (t, d)" by (cases p)
  with Cons.prems have t: "mask flag t = t" by (auto simp: mask_def)
  from Cons.prems p have "masked scheme (ends_scheme scheme t \<and> d = '' '') ps l" by simp
  from Cons.IH [OF this] p t show ?case by (simp add: Let_def)
qed (auto simp: mask_def)

lemma masked_other:
  assumes "scheme_word scheme" "masked scheme flag ps l"
  shows "masked scheme flag (fst (mask_pieces other flag' ps l)) (snd (mask_pieces other flag' ps l))"
  using assms(2)
proof (induction ps arbitrary: flag flag')
  case Nil
  then show ?case by (auto simp: mask_def)
next
  case (Cons p ps)
  obtain t d where p: "p = (t, d)" by (cases p)
  let ?t = "mask flag' t"
  have m: "masked scheme (ends_scheme scheme t \<and> d = '' '') ps l" and t: "flag \<longrightarrow> t \<in> {[], CONFIG_REDACTED}"
    using Cons.prems p by simp_all
  have "masked scheme (ends_scheme scheme ?t \<and> d = '' '') ps l"
  proof (cases "?t = t")
    case False
    then have "?t = CONFIG_REDACTED" by (auto simp: mask_def split: if_splits)
    then show ?thesis using masked_mono [OF m] marker_not_scheme [OF assms(1)] by simp
  qed (use m in simp)
  then show ?case using Cons.IH t p by (auto simp: Let_def mask_def)
qed

subsection \<open>Redacted text\<close>

lemma auth_schemes_words: "scheme \<in> set auth_schemes \<Longrightarrow> scheme_word scheme"
proof -
  have "list_all scheme_word auth_schemes" by code_simp
  then show "scheme \<in> set auth_schemes \<Longrightarrow> scheme_word scheme" by (simp add: list_all_iff)
qed

definition mask_text :: "string \<Rightarrow> pieces \<Rightarrow> pieces" where
  "mask_text scheme P = mask_pieces scheme False (fst P) (snd P)"

lemma mask_text_ok: "pieces_ok P \<Longrightarrow> pieces_ok (mask_text scheme P)"
  by (cases P) (simp add: mask_text_def mask_pieces_ok)

lemma redact_fold:
  assumes "\<forall>scheme \<in> set schemes. scheme_word scheme" "pieces_ok P"
  shows "fold (\<lambda>scheme output. redact_after_auth_scheme output scheme) schemes (join P) =
      join (fold mask_text schemes P) \<and> pieces_ok (fold mask_text schemes P)"
  using assms
proof (induction schemes arbitrary: P)
  case (Cons scheme schemes)
  have "redact_after_auth_scheme (join P) scheme = join (mask_text scheme P)"
    using redact_pieces [of scheme "fst P" "snd P"] Cons.prems by (simp add: mask_text_def)
  then show ?case using Cons.IH [of "mask_text scheme P"] Cons.prems mask_text_ok by simp
qed simp

definition masked_text :: "string \<Rightarrow> pieces \<Rightarrow> bool" where
  "masked_text scheme P \<longleftrightarrow> masked scheme False (fst P) (snd P)"

lemma masked_fold:
  assumes "scheme_word scheme" "masked_text scheme P"
  shows "masked_text scheme (fold mask_text schemes P)"
  using assms(2)
proof (induction schemes arbitrary: P)
  case (Cons other schemes)
  then have "masked_text scheme (mask_text other P)"
    using masked_other [OF assms(1)] by (simp add: masked_text_def mask_text_def)
  then show ?case using Cons.IH by simp
qed simp

lemma fold_mask_masked:
  assumes "\<forall>scheme \<in> set schemes. scheme_word scheme" "scheme \<in> set schemes"
  shows "masked_text scheme (fold mask_text schemes P)"
  using assms
proof (induction schemes arbitrary: P)
  case (Cons s schemes)
  show ?case
  proof (cases "scheme \<in> set schemes")
    case True
    then show ?thesis using Cons by simp
  next
    case False
    then have "scheme = s" using Cons.prems by simp
    then have "masked_text scheme (mask_text s P)"
      by (simp add: masked_text_def mask_text_def masked_mask)
    then show ?thesis using masked_fold [of scheme] Cons.prems \<open>scheme = s\<close> by simp
  qed
qed simp

lemma fold_mask_id:
  assumes "\<forall>scheme \<in> set schemes. masked_text scheme P"
  shows "fold mask_text schemes P = P"
  using assms by (induction schemes) (simp_all add: masked_text_def mask_text_def masked_mask_id)

definition redacted_pieces :: "string \<Rightarrow> pieces" where
  "redacted_pieces s = fold mask_text auth_schemes (pieces_of s)"

lemma redact_config_text_pieces:
  "str_ok s \<Longrightarrow> redact_config_text s = join (redacted_pieces s) \<and> pieces_ok (redacted_pieces s)"
  using redact_fold [of auth_schemes "pieces_of s"] pieces_of_ok [of s] auth_schemes_words
  by (simp add: redact_config_text_def redacted_pieces_def)

lemma redacted_pieces_masked: "scheme \<in> set auth_schemes \<Longrightarrow> masked_text scheme (redacted_pieces s)"
  using fold_mask_masked [of auth_schemes scheme] auth_schemes_words by (simp add: redacted_pieces_def)

lemma redact_config_text_idem:
  assumes "str_ok s"
  shows "redact_config_text (redact_config_text s) = redact_config_text s"
proof -
  let ?P = "redacted_pieces s"
  have t: "redact_config_text s = join ?P" "pieces_ok ?P" using redact_config_text_pieces [OF assms] by simp_all
  have "redact_config_text (join ?P) = join (fold mask_text auth_schemes ?P)"
    using redact_fold [of auth_schemes ?P] auth_schemes_words t(2) by (simp add: redact_config_text_def)
  then show ?thesis using t fold_mask_id [of auth_schemes ?P] redacted_pieces_masked by simp
qed

text \<open>Back to bytes: after every occurrence of a scheme there is no secret.\<close>

lemma masked_occurs:
  assumes "scheme_word scheme" "pieces_ok (ps, l)" "masked scheme flag ps l"
    and "occurs (to_ascii_lowercase scheme) (join (ps, l)) i"
  shows "before_char ends_secret (drop (i + length scheme + 1) (join (ps, l))) \<in> {[], CONFIG_REDACTED}"
  using assms(2-4)
proof (induction ps arbitrary: flag i)
  case Nil
  then have "plain l" by (simp add: pieces_ok_def token_plain)
  then show ?case using Nil.prems(3) not_occurs_plain by simp
next
  case (Cons p ps)
  obtain t d where p: "p = (t, d)" by (cases p)
  have ok: "token t" "separator d" "pieces_ok (ps, l)" using Cons.prems(1) p by (simp_all add: pieces_ok_def)
  have w: "is_lower_word (to_ascii_lowercase scheme)" using assms(1) by (simp add: scheme_word_def)
  have m: "masked scheme (ends_scheme scheme t \<and> d = '' '') ps l" using Cons.prems(2) p by simp
  have "occurs (to_ascii_lowercase scheme) (t @ d @ join (ps, l)) i" using Cons.prems(3) p by simp
  then consider "i + length scheme = length t" "d = '' ''" "to_ascii_lowercase (drop i t) = to_ascii_lowercase scheme"
    | j where "i = length t + length d + j" "occurs (to_ascii_lowercase scheme) (join (ps, l)) j"
    using occurs_split [OF w token_plain [OF ok(1)] separator_delim [OF ok(2)], of "join (ps, l)" i] by auto
  then show ?case
  proof cases
    case 1
    then have e: "ends_scheme scheme t"
      by (metis drop_map ends_scheme_def suffix_drop to_ascii_lowercase_def)
    have "before_char ends_secret (join (ps, l)) \<in> {[], CONFIG_REDACTED}"
    proof (cases ps)
      case Nil
      then show ?thesis using m e 1(2) ok(3) before_from_token by (auto simp: pieces_ok_def)
    next
      case (Cons q qs)
      obtain t2 d2 where "q = (t2, d2)" by (cases q)
      then show ?thesis using m e 1(2) ok(3) before_from_join(1) [of t2 d2 qs l] Cons by auto
    qed
    then show ?thesis using p 1 by simp
  next
    case 2
    then show ?thesis using Cons.IH [OF ok(3) m 2(2)] p by (simp add: algebra_simps)
  qed
qed

subsection \<open>Redacted JSON\<close>

definition text_clean :: "string \<Rightarrow> bool" where
  "text_clean s \<longleftrightarrow>
     (\<forall>scheme \<in> set auth_schemes. \<forall>i. occurs (to_ascii_lowercase scheme) s i \<longrightarrow>
        before_char ends_secret (drop (i + length scheme + 1) s) \<in> {[], CONFIG_REDACTED})"

lemma redact_config_text_clean: "str_ok s \<Longrightarrow> text_clean (redact_config_text s)"
proof -
  assume "str_ok s"
  then have t: "redact_config_text s = join (redacted_pieces s)" "pieces_ok (redacted_pieces s)"
    using redact_config_text_pieces by simp_all
  obtain ps l where P: "redacted_pieces s = (ps, l)" by (cases "redacted_pieces s")
  show ?thesis
    unfolding text_clean_def t(1) P
    using masked_occurs [OF auth_schemes_words, of _ ps l False] redacted_pieces_masked [of _ s] t(2) P
    by (simp add: masked_text_def)
qed

text \<open>A redacted header: the marker, alone or after an authentication scheme.\<close>

definition header_marker :: "json \<Rightarrow> bool" where
  "header_marker v \<longleftrightarrow>
     v = JString CONFIG_REDACTED \<or>
     (\<exists>scheme. is_auth_scheme scheme \<and> v = JString (scheme @ '' '' @ CONFIG_REDACTED))"

fun strs_ok :: "json \<Rightarrow> bool" where
  "strs_ok (JString s) \<longleftrightarrow> str_ok s"
| "strs_ok (JArray vs) \<longleftrightarrow> (\<forall>v \<in> set vs. strs_ok v)"
| "strs_ok (JObject es) \<longleftrightarrow> (\<forall>e \<in> set es. strs_ok (snd e))"
| "strs_ok _ \<longleftrightarrow> True"

text \<open>
  No secret is left: the value of a secret key is the marker (within a headers object possibly after
  the name of the scheme), and every other text has nothing but the marker after a scheme.
\<close>

lemma size_json_mem: "v \<in> set vs \<Longrightarrow> size v \<le> size_list size (vs :: json list)"
  by (induction vs) auto

lemma size_entry_mem:
  "(k, v) \<in> set es \<Longrightarrow> size v \<le> size_list (size_prod (\<lambda>x. 0) size) (es :: (string \<times> json) list)"
  by (induction es) auto

function (sequential) sanitized :: "json \<Rightarrow> bool"
  and entry_sanitized :: "bool \<Rightarrow> string \<Rightarrow> json \<Rightarrow> bool" where
  "sanitized (JString s) \<longleftrightarrow> text_clean s"
| "sanitized (JArray vs) \<longleftrightarrow> (\<forall>v \<in> set vs. sanitized v)"
| "sanitized (JObject es) \<longleftrightarrow> (\<forall>e \<in> set es. entry_sanitized False (fst e) (snd e))"
| "sanitized _ \<longleftrightarrow> True"
| "entry_sanitized headers key (JObject es) \<longleftrightarrow>
     \<not> is_secret_key key \<and>
     (\<forall>e \<in> set es. entry_sanitized (\<not> headers \<and> is_headers_key key) (fst e) (snd e))"
| "entry_sanitized headers key v \<longleftrightarrow>
     (if is_secret_key key then v = JString CONFIG_REDACTED \<or> headers \<and> header_marker v
      else sanitized v)"
  by pat_completeness auto
termination
  by (relation "measure (\<lambda>x. case x of Inl v \<Rightarrow> 2 * size v | Inr (h, k, v) \<Rightarrow> 2 * size v + 1)")
    (auto dest: size_json_mem size_entry_mem)


definition entries_sanitized :: "bool \<Rightarrow> (string \<times> json) list \<Rightarrow> bool" where
  "entries_sanitized headers es \<longleftrightarrow> (\<forall>e \<in> set es. entry_sanitized headers (fst e) (snd e))"

lemma entry_sanitized_plain:
  "\<not> is_secret_key k \<Longrightarrow> \<not> (\<not> h \<and> is_headers_key k) \<Longrightarrow> entry_sanitized h k v = sanitized v"
  by (cases v) auto

lemma entry_sanitized_not_object:
  "\<not> is_secret_key k \<Longrightarrow> (\<And>es. v \<noteq> JObject es) \<Longrightarrow> entry_sanitized h k v = sanitized v"
  by (cases v) auto

lemma entries_sanitized_insert:
  "entries_sanitized h es \<Longrightarrow> entry_sanitized h k v \<Longrightarrow> entries_sanitized h (bm_insert k v es)"
  by (auto simp: entries_sanitized_def dest!: set_bm_insertD)

lemma redact_header_value_marker: "header_marker (JString (redact_header_value s))"
  by (auto simp: redact_header_value_def header_marker_def Let_def)

lemma redact_config_json_object:
  "(\<exists>es. redact_config_json v = JObject es) \<longleftrightarrow> (\<exists>es. v = JObject es)"
  by (cases v) auto

definition redact_entry :: "bool \<Rightarrow> string \<Rightarrow> json \<Rightarrow> json" where
  "redact_entry headers key v =
     (if headers then redact_config_header_value key v
      else if is_secret_key key then JString CONFIG_REDACTED
      else if is_headers_key key then
        (case v of JObject hs \<Rightarrow> JObject (redact_config_object hs True [])
                 | other \<Rightarrow> redact_config_json other)
      else redact_config_json v)"

lemma redact_config_object_step:
  "redact_config_object ((key, v) # es) h acc = redact_config_object es h (bm_insert key (redact_entry h key v) acc)"
  by (simp add: redact_entry_def Let_def)

lemma redact_items_map: "redact_items vs = map redact_config_json vs"
  by (induction vs) simp_all

lemma redact_config_object_sanitized:
  assumes "\<And>k v. (k, v) \<in> set es \<Longrightarrow> entry_sanitized h k (redact_entry h k v)" "entries_sanitized h acc"
  shows "entries_sanitized h (redact_config_object es h acc)"
  using assms
proof (induction es arbitrary: acc)
  case (Cons e es)
  obtain k v where e: "e = (k, v)" by (cases e)
  have "entries_sanitized h (bm_insert k (redact_entry h k v) acc)"
    using Cons.prems e by (intro entries_sanitized_insert) auto
  then show ?case using Cons.IH Cons.prems(1) unfolding e redact_config_object_step by simp
qed simp

definition redacts :: "json \<Rightarrow> bool" where
  "redacts v \<longleftrightarrow>
     sanitized (redact_config_json v) \<and>
     (\<forall>name. entry_sanitized True name (redact_config_header_value name v)) \<and>
     (\<forall>hs. v = JObject hs \<longrightarrow> entries_sanitized True (redact_config_object hs True []))"

lemma redacts_entry: "redacts v \<Longrightarrow> entry_sanitized h k (redact_entry h k v)"
proof (cases "h \<or> is_secret_key k")
  case True
  assume "redacts v"
  with True show ?thesis by (auto simp: redact_entry_def redacts_def)
next
  case False
  assume v: "redacts v"
  show ?thesis
  proof (cases "is_headers_key k")
    case True
    then show ?thesis
      using False v by (cases v) (auto simp: redact_entry_def redacts_def entries_sanitized_def)
  next
    case no: False
    then show ?thesis using False v by (simp add: redact_entry_def redacts_def entry_sanitized_plain)
  qed
qed

lemma strs_ok_redacts: "strs_ok v \<Longrightarrow> redacts v"
proof (induction v)
  case (JString s)
  then show ?case
    using redact_header_value_marker [of s] by (simp add: redacts_def redact_config_text_clean)
next
  case (JArray vs)
  then have "redacts v" if "v \<in> set vs" for v using that by simp
  then show ?case by (auto simp: redacts_def redact_items_map)
next
  case (JObject es)
  have e: "entry_sanitized h k (redact_entry h k v)" if "(k, v) \<in> set es" for h k v
  proof (rule redacts_entry)
    show "redacts v" using JObject.IH [of "(k, v)" v] JObject.prems that by auto
  qed
  have o: "entries_sanitized h (redact_config_object es h [])" for h
    using e by (intro redact_config_object_sanitized) (auto simp: entries_sanitized_def)
  then have s: "sanitized (redact_config_json (JObject es))" by (simp add: entries_sanitized_def)
  have "entry_sanitized True name (redact_config_header_value name (JObject es))" for name
    using s by (simp add: entry_sanitized_plain)
  with o s show ?case by (simp add: redacts_def)
qed (auto simp: redacts_def)

text \<open>Redaction keeps the keys of an object.\<close>

lemma redact_config_object_map:
  assumes "bm_sorted es"
  shows "redact_config_object es h [] = map (\<lambda>(k, v). (k, redact_entry h k v)) es"
proof -
  have "redact_config_object es h acc = bm_extend acc (map (\<lambda>(k, v). (k, redact_entry h k v)) es)" for acc
  proof (induction es arbitrary: acc)
    case (Cons e es)
    obtain k v where e: "e = (k, v)" by (cases e)
    show ?case unfolding e redact_config_object_step Cons.IH by (simp add: bm_extend_def)
  qed (simp add: bm_extend_def)
  moreover have "bm_sorted (map (\<lambda>(k, v). (k, redact_entry h k v)) es)"
    using assms by (induction es) (auto simp: case_prod_beta)
  ultimately show ?thesis by (simp add: bm_extend_insert_all bm.insert_all_entries)
qed
subsection \<open>Properties of redaction\<close>

lemma str_ok_ascii: "list_all is_ascii s \<Longrightarrow> str_ok s"
  by (auto simp: str_ok_def char_chunks_ascii char_ok_def is_chunk_def list_all_iff ascii_defs)

text \<open>C33. The byte-searching redaction loop computes the one-pass redaction on tokens: cut the text at
  white space, commas and semicolons, and replace each non-empty token that follows a token ending
  in the scheme (in any case) and one space.\<close>

theorem redact_after_auth_scheme_tokens:
  assumes "str_ok s" "scheme \<in> set auth_schemes"
  shows "redact_after_auth_scheme s scheme = join (mask_text scheme (pieces_of s))"
proof -
  obtain ps l where P: "pieces_of s = (ps, l)" by (cases "pieces_of s")
  have s: "s = join (ps, l)" "pieces_ok (ps, l)" using pieces_of_ok [OF assms(1)] P by simp_all
  have "redact_after_auth_scheme (join (ps, l)) scheme = join (mask_pieces scheme False ps l)"
    using redact_pieces [OF auth_schemes_words [OF assms(2)] s(2)] by simp
  then show ?thesis using P s(1) by (simp add: mask_text_def)
qed

theorem redact_after_auth_scheme_tokens_witness:
  "redact_after_auth_scheme ''Basic dXNlcg==, x'' ''Basic'' = ''Basic [REDACTED], x''"
proof -
  have "join (mask_text ''Basic'' (pieces_of ''Basic dXNlcg==, x'')) = ''Basic [REDACTED], x''" by code_simp
  moreover have "str_ok ''Basic dXNlcg==, x''" by (rule str_ok_ascii) (simp add: is_ascii_def)
  moreover have "''Basic'' \<in> set auth_schemes" by (simp add: auth_schemes_def)
  ultimately show ?thesis using redact_after_auth_scheme_tokens by simp
qed

text \<open>In redacted text, whatever directly follows an authentication scheme and a space, in any
  letter case, is the marker or nothing, for all four schemes at once; and redacting again changes
  nothing.\<close>

lemma redact_config_text_safe:
  assumes "str_ok s"
  shows "(\<forall>scheme \<in> set auth_schemes. \<forall>i.
      occurs (to_ascii_lowercase scheme) (redact_config_text s) i \<longrightarrow>
      before_char ends_secret (drop (i + length scheme + 1) (redact_config_text s)) \<in> {[], CONFIG_REDACTED}) \<and>
    redact_config_text (redact_config_text s) = redact_config_text s"
  using redact_config_text_clean [OF assms] redact_config_text_idem [OF assms] by (simp add: text_clean_def)

text \<open>C34. Redacted JSON holds no secret the redactor knows: at any depth the value of a secret key is the
  marker, in a headers object possibly after the name of its scheme, and every other text is safe in
  the sense above; the keys of the object stay as they were.\<close>

theorem redact_config_json_safe:
  assumes "strs_ok v" "json_ok v"
  shows "sanitized (redact_config_json v) \<and>
    (\<forall>es. v = JObject es \<longrightarrow> (\<exists>es'. redact_config_json v = JObject es' \<and> map fst es' = map fst es))"
proof -
  have "sanitized (redact_config_json v)" using strs_ok_redacts [OF assms(1)] by (simp add: redacts_def)
  moreover have "map fst (redact_config_object es False []) = map fst es" if "v = JObject es" for es
    using assms(2) that by (simp add: redact_config_object_map case_prod_beta comp_def)
  ultimately show ?thesis by auto
qed

theorem redact_config_json_safe_witness:
  "sanitized (redact_config_json (JObject [(''api_key'', JString ''abc''), (''url'', JString ''x'')])) \<and>
   redact_config_json (JObject [(''api_key'', JString ''abc''), (''url'', JString ''x'')]) =
     JObject [(''api_key'', JString ''[REDACTED]''), (''url'', JString ''x'')]"
proof -
  have "str_ok ''abc''" "str_ok ''x''" by (rule str_ok_ascii, simp add: is_ascii_def)+
  then have "sanitized (redact_config_json (JObject [(''api_key'', JString ''abc''), (''url'', JString ''x'')]))"
    using redact_config_json_safe [of "JObject [(''api_key'', JString ''abc''), (''url'', JString ''x'')]"]
    by simp
  moreover have "redact_config_json (JObject [(''api_key'', JString ''abc''), (''url'', JString ''x'')]) =
     JObject [(''api_key'', JString ''[REDACTED]''), (''url'', JString ''x'')]" by code_simp
  ultimately show ?thesis by blast
qed

text \<open>Two spaces after a scheme defeat the text redaction, as does a second scheme name before the
  credentials: in both cases the credentials stay in the text.\<close>

lemma redact_config_text_leaks:
  "redact_config_text ''Bearer  abc'' = ''Bearer  abc'' \<and>
   redact_config_text ''Bearer Token abc'' = ''Bearer [REDACTED] abc''"
  by code_simp

end
