(* ===== verification/Store_Types.thy ===== *)
theory Store_Types
  imports Core_Timestamp
begin

text \<open>
  The value types of \<open>crates/missive-store/src/repository.rs\<close>: the enumerations the macro
  \<open>impl_string_enum!\<close> generates, the identifiers of \<open>store_identifier!\<close>, the field
  validators and the integer conversions to and from SQLite's 64-bit integers.  The locale
  \<open>string_enum\<close> is what the first macro relies on; it is interpreted on each enumeration.
  The identifiers are further instances of the locale \<open>string_identifier\<close>.
\<close>

subsection \<open>String enumerations\<close>

text \<open>\<open>slice::join\<close>.\<close>

fun join_with :: "string \<Rightarrow> string list \<Rightarrow> string" where
  "join_with sep [] = []"
| "join_with sep [s] = s"
| "join_with sep (s # ss) = s @ sep @ join_with sep ss"

definition string_enum_from_str ::
  "'a list \<Rightarrow> ('a \<Rightarrow> string) \<Rightarrow> string \<Rightarrow> string \<Rightarrow> 'a outcome" where
  "string_enum_from_str variants as_str label value =
     ok_or (List.find (\<lambda>v. as_str v = value) variants)
       (error_validation
         [Lit (''invalid '' @ label @ '' ''), Dbg value,
          Lit (''; expected one of '' @ join_with '', '' (map as_str variants))])"

datatype StoreAuthRefKind = SAuth_Env | SAuth_Keyring | SAuth_External

fun auth_ref_kind_as_str :: "StoreAuthRefKind \<Rightarrow> string" where
  "auth_ref_kind_as_str SAuth_Env = ''env''"
| "auth_ref_kind_as_str SAuth_Keyring = ''keyring''"
| "auth_ref_kind_as_str SAuth_External = ''external''"

datatype AuthSecretStorage = Secret_External | Secret_Env | Secret_Keyring

fun auth_secret_storage_as_str :: "AuthSecretStorage \<Rightarrow> string" where
  "auth_secret_storage_as_str Secret_External = ''external''"
| "auth_secret_storage_as_str Secret_Env = ''env''"
| "auth_secret_storage_as_str Secret_Keyring = ''keyring''"

datatype AgentSource = Source_Local | Source_ConfigSeed | Source_Discovered

fun agent_source_as_str :: "AgentSource \<Rightarrow> string" where
  "agent_source_as_str Source_Local = ''local''"
| "agent_source_as_str Source_ConfigSeed = ''config_seed''"
| "agent_source_as_str Source_Discovered = ''discovered''"

datatype ContextState = Context_Open | Context_Closed | Context_Archived

fun context_state_as_str :: "ContextState \<Rightarrow> string" where
  "context_state_as_str Context_Open = ''open''"
| "context_state_as_str Context_Closed = ''closed''"
| "context_state_as_str Context_Archived = ''archived''"

datatype TaskState = Task_Submitted | Task_Working | Task_InputRequired | Task_Completed | Task_Failed | Task_Cancelled | Task_Unknown

fun task_state_as_str :: "TaskState \<Rightarrow> string" where
  "task_state_as_str Task_Submitted = ''submitted''"
| "task_state_as_str Task_Working = ''working''"
| "task_state_as_str Task_InputRequired = ''input_required''"
| "task_state_as_str Task_Completed = ''completed''"
| "task_state_as_str Task_Failed = ''failed''"
| "task_state_as_str Task_Cancelled = ''cancelled''"
| "task_state_as_str Task_Unknown = ''unknown''"

datatype TaskSource = TaskSource_Remote | TaskSource_Local | TaskSource_Gateway

fun task_source_as_str :: "TaskSource \<Rightarrow> string" where
  "task_source_as_str TaskSource_Remote = ''remote''"
| "task_source_as_str TaskSource_Local = ''local''"
| "task_source_as_str TaskSource_Gateway = ''gateway''"

datatype ArtifactKind = Artifact_Text | Artifact_Json | Artifact_File | Artifact_Bytes | Artifact_Unknown

fun artifact_kind_as_str :: "ArtifactKind \<Rightarrow> string" where
  "artifact_kind_as_str Artifact_Text = ''text''"
| "artifact_kind_as_str Artifact_Json = ''json''"
| "artifact_kind_as_str Artifact_File = ''file''"
| "artifact_kind_as_str Artifact_Bytes = ''bytes''"
| "artifact_kind_as_str Artifact_Unknown = ''unknown''"

datatype MessageDirection = Message_Request | Message_Response | Message_StreamEvent | Message_Push | Message_Local

fun message_direction_as_str :: "MessageDirection \<Rightarrow> string" where
  "message_direction_as_str Message_Request = ''request''"
| "message_direction_as_str Message_Response = ''response''"
| "message_direction_as_str Message_StreamEvent = ''stream_event''"
| "message_direction_as_str Message_Push = ''push''"
| "message_direction_as_str Message_Local = ''local''"

datatype MessageRole = Role_User | Role_Agent | Role_System | Role_Tool | Role_Unknown

fun message_role_as_str :: "MessageRole \<Rightarrow> string" where
  "message_role_as_str Role_User = ''user''"
| "message_role_as_str Role_Agent = ''agent''"
| "message_role_as_str Role_System = ''system''"
| "message_role_as_str Role_Tool = ''tool''"
| "message_role_as_str Role_Unknown = ''unknown''"

datatype GatewayJobState = Job_Queued | Job_Running | Job_Succeeded | Job_Failed | Job_Cancelled | Job_Retrying

fun job_state_as_str :: "GatewayJobState \<Rightarrow> string" where
  "job_state_as_str Job_Queued = ''queued''"
| "job_state_as_str Job_Running = ''running''"
| "job_state_as_str Job_Succeeded = ''succeeded''"
| "job_state_as_str Job_Failed = ''failed''"
| "job_state_as_str Job_Cancelled = ''cancelled''"
| "job_state_as_str Job_Retrying = ''retrying''"

datatype GatewaySessionResetMode = Reset_None | Reset_Daily | Reset_Idle | Reset_Both

fun reset_mode_as_str :: "GatewaySessionResetMode \<Rightarrow> string" where
  "reset_mode_as_str Reset_None = ''none''"
| "reset_mode_as_str Reset_Daily = ''daily''"
| "reset_mode_as_str Reset_Idle = ''idle''"
| "reset_mode_as_str Reset_Both = ''both''"


definition auth_ref_kind_from_str :: "string \<Rightarrow> StoreAuthRefKind outcome" where
  "auth_ref_kind_from_str =
     string_enum_from_str [SAuth_Env, SAuth_Keyring, SAuth_External]
       auth_ref_kind_as_str ''auth ref kind''"

definition auth_secret_storage_from_str :: "string \<Rightarrow> AuthSecretStorage outcome" where
  "auth_secret_storage_from_str =
     string_enum_from_str [Secret_External, Secret_Env, Secret_Keyring]
       auth_secret_storage_as_str ''auth secret storage''"

definition agent_source_from_str :: "string \<Rightarrow> AgentSource outcome" where
  "agent_source_from_str =
     string_enum_from_str [Source_Local, Source_ConfigSeed, Source_Discovered]
       agent_source_as_str ''agent source''"

definition context_state_from_str :: "string \<Rightarrow> ContextState outcome" where
  "context_state_from_str =
     string_enum_from_str [Context_Open, Context_Closed, Context_Archived]
       context_state_as_str ''context state''"

definition task_state_from_str :: "string \<Rightarrow> TaskState outcome" where
  "task_state_from_str =
     string_enum_from_str [Task_Submitted, Task_Working, Task_InputRequired, Task_Completed, Task_Failed, Task_Cancelled, Task_Unknown]
       task_state_as_str ''task state''"

definition task_source_from_str :: "string \<Rightarrow> TaskSource outcome" where
  "task_source_from_str =
     string_enum_from_str [TaskSource_Remote, TaskSource_Local, TaskSource_Gateway]
       task_source_as_str ''task source''"

definition artifact_kind_from_str :: "string \<Rightarrow> ArtifactKind outcome" where
  "artifact_kind_from_str =
     string_enum_from_str [Artifact_Text, Artifact_Json, Artifact_File, Artifact_Bytes, Artifact_Unknown]
       artifact_kind_as_str ''artifact kind''"

definition message_direction_from_str :: "string \<Rightarrow> MessageDirection outcome" where
  "message_direction_from_str =
     string_enum_from_str [Message_Request, Message_Response, Message_StreamEvent, Message_Push, Message_Local]
       message_direction_as_str ''message direction''"

definition message_role_from_str :: "string \<Rightarrow> MessageRole outcome" where
  "message_role_from_str =
     string_enum_from_str [Role_User, Role_Agent, Role_System, Role_Tool, Role_Unknown]
       message_role_as_str ''message role''"

definition job_state_from_str :: "string \<Rightarrow> GatewayJobState outcome" where
  "job_state_from_str =
     string_enum_from_str [Job_Queued, Job_Running, Job_Succeeded, Job_Failed, Job_Cancelled, Job_Retrying]
       job_state_as_str ''gateway job state''"

definition reset_mode_from_str :: "string \<Rightarrow> GatewaySessionResetMode outcome" where
  "reset_mode_from_str =
     string_enum_from_str [Reset_None, Reset_Daily, Reset_Idle, Reset_Both]
       reset_mode_as_str ''gateway session reset mode''"

subsection \<open>The contract of a string enumeration\<close>

locale string_enum =
  fixes variants :: "'a list"
    and as_str :: "'a \<Rightarrow> string"
    and label :: string
  assumes complete: "v \<in> set variants"
    and distinct_names: "as_str v = as_str w \<Longrightarrow> v = w"
begin

lemma from_str_Inr: "string_enum_from_str variants as_str label s = Inr v \<longleftrightarrow> s = as_str v"
proof
  assume "string_enum_from_str variants as_str label s = Inr v"
  then show "s = as_str v" by (auto simp: string_enum_from_str_def find_Some_iff)
next
  assume s: "s = as_str v"
  then have "List.find (\<lambda>v. as_str v = s) variants \<noteq> None"
    using complete [of v] by (auto simp: find_None_iff)
  then obtain w where w: "List.find (\<lambda>v. as_str v = s) variants = Some w" by blast
  then have "as_str w = s" by (auto simp: find_Some_iff)
  with s have "w = v" using distinct_names by simp
  with w show "string_enum_from_str variants as_str label s = Inr v"
    by (simp add: string_enum_from_str_def)
qed

lemma from_as_str: "string_enum_from_str variants as_str label (as_str v) = Inr v"
  by (simp add: from_str_Inr)

lemma from_str_category: "string_enum_from_str variants as_str label s = Inl e \<Longrightarrow> err_category e = Cat_Validation"
  by (auto simp: string_enum_from_str_def)

end

interpretation auth_ref_kind: string_enum "[SAuth_Env, SAuth_Keyring, SAuth_External]"
    auth_ref_kind_as_str "''auth ref kind''"
proof
  show "v \<in> set [SAuth_Env, SAuth_Keyring, SAuth_External]" for v by (cases v) simp_all
  show "auth_ref_kind_as_str v = auth_ref_kind_as_str w \<Longrightarrow> v = w" for v w by (cases v; cases w) simp_all
qed

interpretation auth_secret_storage: string_enum "[Secret_External, Secret_Env, Secret_Keyring]"
    auth_secret_storage_as_str "''auth secret storage''"
proof
  show "v \<in> set [Secret_External, Secret_Env, Secret_Keyring]" for v by (cases v) simp_all
  show "auth_secret_storage_as_str v = auth_secret_storage_as_str w \<Longrightarrow> v = w" for v w by (cases v; cases w) simp_all
qed

interpretation agent_source: string_enum "[Source_Local, Source_ConfigSeed, Source_Discovered]"
    agent_source_as_str "''agent source''"
proof
  show "v \<in> set [Source_Local, Source_ConfigSeed, Source_Discovered]" for v by (cases v) simp_all
  show "agent_source_as_str v = agent_source_as_str w \<Longrightarrow> v = w" for v w by (cases v; cases w) simp_all
qed

interpretation context_state: string_enum "[Context_Open, Context_Closed, Context_Archived]"
    context_state_as_str "''context state''"
proof
  show "v \<in> set [Context_Open, Context_Closed, Context_Archived]" for v by (cases v) simp_all
  show "context_state_as_str v = context_state_as_str w \<Longrightarrow> v = w" for v w by (cases v; cases w) simp_all
qed

interpretation task_state: string_enum "[Task_Submitted, Task_Working, Task_InputRequired, Task_Completed, Task_Failed, Task_Cancelled, Task_Unknown]"
    task_state_as_str "''task state''"
proof
  show "v \<in> set [Task_Submitted, Task_Working, Task_InputRequired, Task_Completed, Task_Failed, Task_Cancelled, Task_Unknown]" for v by (cases v) simp_all
  show "task_state_as_str v = task_state_as_str w \<Longrightarrow> v = w" for v w by (cases v; cases w) simp_all
qed

interpretation task_source: string_enum "[TaskSource_Remote, TaskSource_Local, TaskSource_Gateway]"
    task_source_as_str "''task source''"
proof
  show "v \<in> set [TaskSource_Remote, TaskSource_Local, TaskSource_Gateway]" for v by (cases v) simp_all
  show "task_source_as_str v = task_source_as_str w \<Longrightarrow> v = w" for v w by (cases v; cases w) simp_all
qed

interpretation artifact_kind: string_enum "[Artifact_Text, Artifact_Json, Artifact_File, Artifact_Bytes, Artifact_Unknown]"
    artifact_kind_as_str "''artifact kind''"
proof
  show "v \<in> set [Artifact_Text, Artifact_Json, Artifact_File, Artifact_Bytes, Artifact_Unknown]" for v by (cases v) simp_all
  show "artifact_kind_as_str v = artifact_kind_as_str w \<Longrightarrow> v = w" for v w by (cases v; cases w) simp_all
qed

interpretation message_direction: string_enum "[Message_Request, Message_Response, Message_StreamEvent, Message_Push, Message_Local]"
    message_direction_as_str "''message direction''"
proof
  show "v \<in> set [Message_Request, Message_Response, Message_StreamEvent, Message_Push, Message_Local]" for v by (cases v) simp_all
  show "message_direction_as_str v = message_direction_as_str w \<Longrightarrow> v = w" for v w by (cases v; cases w) simp_all
qed

interpretation message_role: string_enum "[Role_User, Role_Agent, Role_System, Role_Tool, Role_Unknown]"
    message_role_as_str "''message role''"
proof
  show "v \<in> set [Role_User, Role_Agent, Role_System, Role_Tool, Role_Unknown]" for v by (cases v) simp_all
  show "message_role_as_str v = message_role_as_str w \<Longrightarrow> v = w" for v w by (cases v; cases w) simp_all
qed

interpretation job_state: string_enum "[Job_Queued, Job_Running, Job_Succeeded, Job_Failed, Job_Cancelled, Job_Retrying]"
    job_state_as_str "''gateway job state''"
proof
  show "v \<in> set [Job_Queued, Job_Running, Job_Succeeded, Job_Failed, Job_Cancelled, Job_Retrying]" for v by (cases v) simp_all
  show "job_state_as_str v = job_state_as_str w \<Longrightarrow> v = w" for v w by (cases v; cases w) simp_all
qed

interpretation reset_mode: string_enum "[Reset_None, Reset_Daily, Reset_Idle, Reset_Both]"
    reset_mode_as_str "''gateway session reset mode''"
proof
  show "v \<in> set [Reset_None, Reset_Daily, Reset_Idle, Reset_Both]" for v by (cases v) simp_all
  show "reset_mode_as_str v = reset_mode_as_str w \<Longrightarrow> v = w" for v w by (cases v; cases w) simp_all
qed

subsection \<open>Identifiers and validators\<close>

definition STORE_IDENTIFIER_MAX_BYTES :: nat where
  "STORE_IDENTIFIER_MAX_BYTES = 256"

definition STORE_IDENTIFIER_HELP :: string where
  "STORE_IDENTIFIER_HELP = ''Use a non-empty identifier without whitespace or control characters.''"

definition invalid_store_identifier :: "string \<Rightarrow> string \<Rightarrow> string \<Rightarrow> MissiveError" where
  "invalid_store_identifier kind value reason =
     with_help
       (error_validation [Lit (''invalid '' @ kind @ '' ''), Dbg value, Lit ('': '' @ reason)])
       STORE_IDENTIFIER_HELP"

definition validate_store_identifier :: "string \<Rightarrow> string \<Rightarrow> unit outcome" where
  "validate_store_identifier kind value =
     checks
       [fail_if (value = []) (invalid_store_identifier kind value ''value cannot be empty''),
        fail_if (STORE_IDENTIFIER_MAX_BYTES < length value)
          (invalid_store_identifier kind value
            (too_long_reason (length value) STORE_IDENTIFIER_MAX_BYTES)),
        fail_if (has_whitespace value)
          (invalid_store_identifier kind value ''value cannot contain whitespace''),
        fail_if (has_control value)
          (invalid_store_identifier kind value ''value cannot contain control characters'')]"

type_synonym GatewayJobId = string
type_synonym GatewaySessionId = string
type_synonym AdapterBindingId = string
type_synonym ArtifactId = string
type_synonym PushConfigId = string

text \<open>The macro \<open>store_identifier!\<close> generates the same operations as \<open>string_identifier!\<close>.\<close>

definition GatewayJobId_new :: "string \<Rightarrow> GatewayJobId outcome" where
  "GatewayJobId_new = identifier_new validate_store_identifier ''gateway job id''"

definition GatewaySessionId_new :: "string \<Rightarrow> GatewaySessionId outcome" where
  "GatewaySessionId_new = identifier_new validate_store_identifier ''gateway session id''"

definition AdapterBindingId_new :: "string \<Rightarrow> AdapterBindingId outcome" where
  "AdapterBindingId_new = identifier_new validate_store_identifier ''adapter binding id''"

definition ArtifactId_new :: "string \<Rightarrow> ArtifactId outcome" where
  "ArtifactId_new = identifier_new validate_store_identifier ''artifact id''"

definition PushConfigId_new :: "string \<Rightarrow> PushConfigId outcome" where
  "PushConfigId_new = identifier_new validate_store_identifier ''push config id''"

definition validate_non_empty :: "string \<Rightarrow> string \<Rightarrow> unit outcome" where
  "validate_non_empty label value =
     fail_if (value = []) (error_validation [Lit (label @ '' cannot be empty'')])"

definition validate_required_option :: "string \<Rightarrow> string option \<Rightarrow> unit outcome" where
  "validate_required_option label value =
     and_then (ok_or value (error_validation [Lit (label @ '' is required'')]))
       (validate_non_empty label)"

definition validate_len :: "string \<Rightarrow> string \<Rightarrow> nat \<Rightarrow> unit outcome" where
  "validate_len label value max_bytes =
     checks
       [validate_non_empty label value,
        fail_if (max_bytes < length value)
          (error_validation
            [Lit (label @ '' is '' @ show_nat (length value) @ '' bytes, but the maximum is '' @
                  show_nat max_bytes)])]"

definition validate_positive_weight :: "f64 \<Rightarrow> unit outcome" where
  "validate_positive_weight weight =
     fail_if (\<not> (f64_is_finite weight \<and> f64_gt_zero weight))
       (error_validation
         [Lit ''group member weight must be a positive finite number, got '', Flt weight])"

definition validate_gateway_attempts :: "u32 \<Rightarrow> u32 \<Rightarrow> unit outcome" where
  "validate_gateway_attempts retry_count max_attempts =
     checks
       [fail_if (max_attempts = 0)
          (error_validation [Lit ''gateway job max_attempts must be at least 1'']),
        fail_if (max_attempts < retry_count)
          (error_validation
            [Lit (''gateway job retry_count '' @ show_nat (unat retry_count) @
                  '' cannot exceed max_attempts '' @ show_nat (unat max_attempts))])]"

definition validate_gateway_session_reset_policy ::
  "GatewaySessionResetMode \<Rightarrow> u8 \<Rightarrow> u64 option \<Rightarrow> unit outcome" where
  "validate_gateway_session_reset_policy mode daily_reset_hour idle_timeout_seconds =
     and_then
       (fail_if (23 < daily_reset_hour)
         (error_validation
           [Lit (''gateway session daily_reset_hour must be between 0 and 23, got '' @
                 show_nat (unat daily_reset_hour))]))
       (\<lambda>_. if mode = Reset_Idle \<or> mode = Reset_Both then
          and_then
            (ok_or idle_timeout_seconds
              (error_validation
                [Lit ''gateway session idle_timeout_seconds is required for idle and both reset modes'']))
            (\<lambda>seconds. fail_if (seconds = 0)
              (error_validation
                [Lit ''gateway session idle_timeout_seconds must be greater than zero'']))
        else
          fail_if (idle_timeout_seconds \<noteq> None)
            (error_validation
              [Lit ''gateway session idle_timeout_seconds is only valid for idle and both reset modes'']))"

subsection \<open>Integers\<close>

text \<open>The \<open>TryFromIntError\<close> of a failed integer conversion.\<close>

definition try_from_int_error :: std_error where
  "try_from_int_error = StdError [Lit ''out of range integral type conversion attempted''] None"

definition u64_to_i64 :: "string \<Rightarrow> u64 \<Rightarrow> int outcome" where
  "u64_to_i64 label value =
     (if uint value \<le> i64_max then Inr (uint value)
      else Inl (with_source
        (error_validation [Lit (label @ '' is too large to store in SQLite'')]) try_from_int_error))"

definition optional_u64_to_i64 :: "string \<Rightarrow> u64 option \<Rightarrow> int option outcome" where
  "optional_u64_to_i64 label value =
     (case value of None \<Rightarrow> Inr None | Some v \<Rightarrow> and_then (u64_to_i64 label v) (\<lambda>i. Inr (Some i)))"

text \<open>The conversions of a column value; an error becomes \<open>FromSqlConversionFailure\<close>, which
  is kept as the error it wraps.\<close>

definition u8_from_sql :: "int \<Rightarrow> std_error + u8" where
  "u8_from_sql value =
     (if 0 \<le> value \<and> value < 2 ^ 8 then Inr (word_of_int value) else Inl try_from_int_error)"

definition u32_from_sql :: "int \<Rightarrow> std_error + u32" where
  "u32_from_sql value =
     (if 0 \<le> value \<and> value < 2 ^ 32 then Inr (word_of_int value) else Inl try_from_int_error)"

definition u64_from_sql :: "int \<Rightarrow> std_error + u64" where
  "u64_from_sql value =
     (if 0 \<le> value \<and> value < 2 ^ 64 then Inr (word_of_int value) else Inl try_from_int_error)"

definition optional_u64_from_sql :: "int option \<Rightarrow> std_error + u64 option" where
  "optional_u64_from_sql value =
     (case value of None \<Rightarrow> Inr None | Some v \<Rightarrow> and_then (u64_from_sql v) (\<lambda>u. Inr (Some u)))"

subsection \<open>What the validators accept\<close>

definition reset_policy_ok :: "GatewaySessionResetMode \<Rightarrow> u8 \<Rightarrow> u64 option \<Rightarrow> bool" where
  "reset_policy_ok mode hour timeout \<longleftrightarrow>
     hour \<le> 23 \<and> (timeout \<noteq> None \<longleftrightarrow> mode \<in> {Reset_Idle, Reset_Both}) \<and> timeout \<noteq> Some 0"

lemma validate_store_identifier_Inr [result_iff]: "validate_store_identifier kind v = Inr u \<longleftrightarrow> opaque_ok v"
  by (auto simp: validate_store_identifier_def checks_Inr opaque_ok_def STORE_IDENTIFIER_MAX_BYTES_def)

lemma validate_store_identifier_category:
  "validate_store_identifier kind v = Inl e \<Longrightarrow> err_category e = Cat_Validation"
  by (auto simp: validate_store_identifier_def invalid_store_identifier_def)

lemma validate_len_Inr [result_iff]: "validate_len label v n = Inr u \<longleftrightarrow> v \<noteq> [] \<and> length v \<le> n"
  by (auto simp: validate_len_def validate_non_empty_def)

lemma validate_gateway_attempts_Inr [result_iff]:
  "validate_gateway_attempts r m = Inr u \<longleftrightarrow> m \<noteq> 0 \<and> r \<le> m"
  by (auto simp: validate_gateway_attempts_def)

lemma validate_reset_policy_Inr [result_iff]:
  "validate_gateway_session_reset_policy mode hour timeout = Inr u \<longleftrightarrow> reset_policy_ok mode hour timeout"
  by (auto simp: validate_gateway_session_reset_policy_def reset_policy_ok_def and_then_Inr)

lemma u64_to_i64_Inr [result_iff]: "u64_to_i64 label v = Inr i \<longleftrightarrow> i = uint v \<and> uint v \<le> i64_max"
  by (auto simp: u64_to_i64_def)

lemma optional_u64_to_i64_Inr [result_iff]:
  "optional_u64_to_i64 label v = Inr i \<longleftrightarrow>
     i = map_option uint v \<and> (\<forall>u. v = Some u \<longrightarrow> uint u \<le> i64_max)"
  by (auto simp: optional_u64_to_i64_def result_iff split: option.splits)

lemma uint_from_sql [simp]:
  "u8_from_sql (uint a) = Inr a" "u32_from_sql (uint b) = Inr b" "u64_from_sql (uint c) = Inr c"
  using uint_lt2p [of a] uint_lt2p [of b] uint_lt2p [of c]
  by (simp_all add: u8_from_sql_def u32_from_sql_def u64_from_sql_def)

lemma uint_from_sql_Inr [result_iff]:
  "u8_from_sql i = Inr a \<longleftrightarrow> i = uint a"
  "u32_from_sql i = Inr b \<longleftrightarrow> i = uint b"
  "u64_from_sql i = Inr c \<longleftrightarrow> i = uint c"
proof -
  have "word_of_int i = a \<Longrightarrow> 0 \<le> i \<Longrightarrow> i < 2 ^ 8 \<Longrightarrow> i = uint a"
    "word_of_int i = b \<Longrightarrow> 0 \<le> i \<Longrightarrow> i < 2 ^ 32 \<Longrightarrow> i = uint b"
    "word_of_int i = c \<Longrightarrow> 0 \<le> i \<Longrightarrow> i < 2 ^ 64 \<Longrightarrow> i = uint c"
    by (auto simp: uint_word_of_int_eq take_bit_int_eq_self)
  then show "u8_from_sql i = Inr a \<longleftrightarrow> i = uint a" "u32_from_sql i = Inr b \<longleftrightarrow> i = uint b"
    "u64_from_sql i = Inr c \<longleftrightarrow> i = uint c"
    using uint_lt2p [of a] uint_lt2p [of b] uint_lt2p [of c]
    by (auto simp: u8_from_sql_def u32_from_sql_def u64_from_sql_def split: if_splits)
qed

lemma optional_u64_from_sql_Inr [result_iff]: "optional_u64_from_sql i = Inr v \<longleftrightarrow> i = map_option uint v"
  by (cases i; cases v) (auto simp: optional_u64_from_sql_def result_iff)

lemma optional_uint_from_sql [simp]: "optional_u64_from_sql (map_option uint v) = Inr v"
  by (cases v) (simp_all add: optional_u64_from_sql_def)

interpretation gateway_job_id: string_identifier validate_store_identifier "''gateway job id''" opaque_ok
  by unfold_locales (simp_all add: result_iff validate_store_identifier_category)

interpretation gateway_session_id: string_identifier validate_store_identifier "''gateway session id''" opaque_ok
  by unfold_locales (simp_all add: result_iff validate_store_identifier_category)

interpretation adapter_binding_id: string_identifier validate_store_identifier "''adapter binding id''" opaque_ok
  by unfold_locales (simp_all add: result_iff validate_store_identifier_category)

interpretation artifact_id: string_identifier validate_store_identifier "''artifact id''" opaque_ok
  by unfold_locales (simp_all add: result_iff validate_store_identifier_category)

interpretation push_config_id: string_identifier validate_store_identifier "''push config id''" opaque_ok
  by unfold_locales (simp_all add: result_iff validate_store_identifier_category)

end
