(* ===== verification/Store_Gateway.thy ===== *)
theory Store_Gateway
  imports Store_Types
begin

text \<open>
  The gateway tables of \<open>crates/missive-store/src/repository.rs\<close>: jobs, sessions and the event
  journal.  A row is the record of its SQL columns, texts and 64-bit integers, as the statements
  bind and read them; a table keyed by text is an ordered map from the key to the row, which is the
  order of \<open>ORDER BY\<close> on it.  An operation maps the database to a result and the database it
  leaves, since a failing operation keeps what earlier statements wrote.

  SQLite, \<open>serde_json\<close> and \<open>chrono\<close> are parameters, collected in a record: the text of a
  JSON value and back, date-times, and the error with which SQLite refuses to write a row, if it
  does (a constraint on another table, a full disk).  Running a query is taken to succeed; decoding
  its rows is not.
\<close>

subsection \<open>Records\<close>

text \<open>A stored record has the fields of the input and the two times SQLite records.\<close>

record 'dt GatewayJobUpsert =
  job_id :: GatewayJobId
  job_kind :: string
  job_state :: GatewayJobState
  job_agent_alias :: "AgentAlias option"
  job_context_id :: "ContextId option"
  job_task_id :: "TaskId option"
  job_group_name :: "GroupName option"
  job_adapter_binding_id :: "AdapterBindingId option"
  job_request_json :: json
  job_result_json :: "json option"
  job_metadata :: Metadata
  job_retry_count :: u32
  job_max_attempts :: u32
  job_next_run_at :: "'dt option"
  job_locked_by :: "string option"
  job_locked_until :: "'dt option"
  job_completed_at :: "'dt option"

record 'dt GatewayJobRecord = "'dt GatewayJobUpsert" +
  job_created_at :: 'dt
  job_updated_at :: 'dt

record 'dt GatewaySessionUpsert =
  session_id :: GatewaySessionId
  session_source_kind :: string
  session_source_id :: string
  session_agent_alias :: AgentAlias
  session_resume_name :: string
  session_context_id :: ContextId
  session_reset_mode :: GatewaySessionResetMode
  session_daily_reset_hour :: u8
  session_idle_timeout_seconds :: "u64 option"
  session_last_active_at :: 'dt
  session_last_reset_at :: "'dt option"
  session_reset_count :: u64
  session_metadata :: Metadata

record 'dt GatewaySessionRecord = "'dt GatewaySessionUpsert" +
  session_created_at :: 'dt
  session_updated_at :: 'dt

record 'dt EventInsert =
  event_id :: EventId
  event_timestamp :: "'dt option"
  event_source :: string
  event_type :: string
  event_agent_alias :: "AgentAlias option"
  event_context_id :: "ContextId option"
  event_task_id :: "TaskId option"
  event_group_name :: "GroupName option"
  event_gateway_job_id :: "GatewayJobId option"
  event_adapter_binding_id :: "AdapterBindingId option"
  event_payload_json :: json
  event_metadata :: Metadata
  event_redacted :: bool

definition GatewayJobUpsert_new :: "GatewayJobId \<Rightarrow> string \<Rightarrow> json \<Rightarrow> 'dt GatewayJobUpsert" where
  "GatewayJobUpsert_new gateway_job_id kind request_json =
     \<lparr>job_id = gateway_job_id, job_kind = kind, job_state = Job_Queued, job_agent_alias = None,
      job_context_id = None, job_task_id = None, job_group_name = None,
      job_adapter_binding_id = None, job_request_json = request_json, job_result_json = None,
      job_metadata = metadata_new, job_retry_count = 0, job_max_attempts = 1,
      job_next_run_at = None, job_locked_by = None, job_locked_until = None,
      job_completed_at = None\<rparr>"

text \<open>\<open>now\<close> is what \<open>MissiveTimestamp::now_utc\<close> returns.\<close>

definition GatewaySessionUpsert_new ::
  "'dt \<Rightarrow> GatewaySessionId \<Rightarrow> string \<Rightarrow> string \<Rightarrow> AgentAlias \<Rightarrow> string \<Rightarrow> ContextId \<Rightarrow>
   'dt GatewaySessionUpsert" where
  "GatewaySessionUpsert_new now gateway_session_id kind source agent_alias resume_name context =
     \<lparr>session_id = gateway_session_id, session_source_kind = kind, session_source_id = source,
      session_agent_alias = agent_alias, session_resume_name = resume_name,
      session_context_id = context, session_reset_mode = Reset_None, session_daily_reset_hour = 0,
      session_idle_timeout_seconds = None, session_last_active_at = now,
      session_last_reset_at = None, session_reset_count = 0, session_metadata = metadata_new\<rparr>"

definition EventInsert_new :: "EventId \<Rightarrow> string \<Rightarrow> string \<Rightarrow> json \<Rightarrow> 'dt EventInsert" where
  "EventInsert_new ident source ty payload_json =
     \<lparr>event_id = ident, event_timestamp = None, event_source = source, event_type = ty,
      event_agent_alias = None, event_context_id = None, event_task_id = None,
      event_group_name = None, event_gateway_job_id = None, event_adapter_binding_id = None,
      event_payload_json = payload_json, event_metadata = metadata_new, event_redacted = True\<rparr>"

definition event_record_a2a_protocol_version :: "'dt EventInsert \<Rightarrow> string \<Rightarrow> 'dt EventInsert outcome" where
  "event_record_a2a_protocol_version e version =
     and_then (validate_store_identifier ''A2A protocol version'' version) (\<lambda>_.
       and_then (metadata_insert_str (event_metadata e) METADATA_A2A_PROTOCOL_VERSION version)
         (\<lambda>(m, old). Inr (e\<lparr>event_metadata := m\<rparr>)))"

subsection \<open>Rows and the database\<close>

record GatewayJobRow =
  jrow_gateway_job_id :: string
  jrow_kind :: string
  jrow_state :: string
  jrow_agent_alias :: "string option"
  jrow_context_id :: "string option"
  jrow_task_id :: "string option"
  jrow_group_name :: "string option"
  jrow_adapter_binding_id :: "string option"
  jrow_request_json :: string
  jrow_result_json :: "string option"
  jrow_metadata_json :: string
  jrow_retry_count :: int
  jrow_max_attempts :: int
  jrow_next_run_at :: "string option"
  jrow_locked_by :: "string option"
  jrow_locked_until :: "string option"
  jrow_created_at :: string
  jrow_updated_at :: string
  jrow_completed_at :: "string option"

record GatewaySessionRow =
  srow_gateway_session_id :: string
  srow_source_kind :: string
  srow_source_id :: string
  srow_agent_alias :: string
  srow_resume_name :: string
  srow_context_id :: string
  srow_reset_mode :: string
  srow_daily_reset_hour :: int
  srow_idle_timeout_seconds :: "int option"
  srow_last_active_at :: string
  srow_last_reset_at :: "string option"
  srow_reset_count :: int
  srow_metadata_json :: string
  srow_created_at :: string
  srow_updated_at :: string

record EventRow =
  erow_sequence :: int
  erow_event_id :: string
  erow_timestamp :: string
  erow_source :: string
  erow_event_type :: string
  erow_agent_alias :: "string option"
  erow_context_id :: "string option"
  erow_task_id :: "string option"
  erow_group_name :: "string option"
  erow_gateway_job_id :: "string option"
  erow_adapter_binding_id :: "string option"
  erow_payload_json :: string
  erow_metadata_json :: string
  erow_redacted :: bool

text \<open>The counter is the greatest sequence number an event was ever given (\<open>AUTOINCREMENT\<close>).\<close>

record gateway_db =
  db_jobs :: "(string, GatewayJobRow) btree_map"
  db_sessions :: "(string, GatewaySessionRow) btree_map"
  db_events :: "EventRow list"
  db_last_sequence :: int

record 'dt sqlite =
  serde_to_string :: "json \<Rightarrow> std_error + string"
  serde_from_str :: "string \<Rightarrow> std_error + json"
  serde_de_error :: "de_error \<Rightarrow> std_error"
  sql_chrono :: "'dt chrono"
  sql_refuses_job :: "gateway_db \<Rightarrow> GatewayJobRow \<Rightarrow> std_error option"
  sql_refuses_session :: "gateway_db \<Rightarrow> GatewaySessionRow \<Rightarrow> std_error option"
  sql_refuses_event :: "gateway_db \<Rightarrow> EventRow \<Rightarrow> std_error option"
  sql_refuses_delete :: "gateway_db \<Rightarrow> string \<Rightarrow> std_error option"

subsection \<open>Sequencing\<close>

type_synonym ('a, 's) state_op = "'s \<Rightarrow> 'a outcome \<times> 's"
type_synonym 'a db_op = "('a, gateway_db) state_op"

definition db_return :: "'a \<Rightarrow> ('a, 's) state_op" where
  "db_return x db = (Inr x, db)"

definition db_outcome :: "'a outcome \<Rightarrow> ('a, 's) state_op" where
  "db_outcome r db = (r, db)"

definition db_bind :: "('a, 's) state_op \<Rightarrow> ('a \<Rightarrow> ('b, 's) state_op) \<Rightarrow> ('b, 's) state_op" where
  "db_bind m f db = (case m db of (Inl e, db') \<Rightarrow> (Inl e, db') | (Inr x, db') \<Rightarrow> f x db')"

subsection \<open>Column texts\<close>

definition storage_error :: "string \<Rightarrow> std_error \<Rightarrow> MissiveError" where
  "storage_error action error =
     (case error of StdError text cause \<Rightarrow>
       with_help (with_source (error_storage (Lit (action @ '': '') # text)) error)
         ''Inspect the SQLite database path, migrations, and profile state permissions.'')"

definition missing_after_write :: "string \<Rightarrow> string \<Rightarrow> MissiveError" where
  "missing_after_write kind ident =
     with_help
       (error_storage
         [Lit (kind @ '' ''), Dbg ident, Lit '' was written but could not be read back''])
       ''Inspect the SQLite database and repository write transaction.''"

definition to_json_text :: "'dt sqlite \<Rightarrow> string \<Rightarrow> json \<Rightarrow> string outcome" where
  "to_json_text S label value =
     (case serde_to_string S value of
        Inr text \<Rightarrow> Inr text
      | Inl error \<Rightarrow>
          Inl (with_help
            (with_source (error_storage [Lit (''serializing '' @ label @ '' as JSON for SQLite'')]) error)
            ''Only valid JSON-compatible values can be persisted in missive state.''))"

definition optional_json_text :: "'dt sqlite \<Rightarrow> string \<Rightarrow> json option \<Rightarrow> string option outcome" where
  "optional_json_text S label value =
     (case value of
        None \<Rightarrow> Inr None
      | Some v \<Rightarrow> and_then (to_json_text S label v) (\<lambda>text. Inr (Some text)))"

text \<open>A conversion error wraps the error of the failed conversion.\<close>

definition conversion_error :: "MissiveError \<Rightarrow> std_error" where
  "conversion_error e = StdError (err_message e) (err_source e)"

definition parse_sql :: "(string \<Rightarrow> 'a outcome) \<Rightarrow> string \<Rightarrow> std_error + 'a" where
  "parse_sql from_str value =
     (case from_str value of Inl e \<Rightarrow> Inl (conversion_error e) | Inr v \<Rightarrow> Inr v)"

definition optional_sql :: "(string \<Rightarrow> std_error + 'a) \<Rightarrow> string option \<Rightarrow> std_error + 'a option" where
  "optional_sql f value =
     (case value of None \<Rightarrow> Inr None | Some text \<Rightarrow> and_then (f text) (\<lambda>v. Inr (Some v)))"

definition json_from_sql :: "'dt sqlite \<Rightarrow> string \<Rightarrow> std_error + json" where
  "json_from_sql S value = serde_from_str S value"

definition metadata_from_sql :: "'dt sqlite \<Rightarrow> string \<Rightarrow> std_error + Metadata" where
  "metadata_from_sql S value =
     and_then (serde_from_str S value) (\<lambda>j.
       case metadata_deserialize j of Inl e \<Rightarrow> Inl (serde_de_error S e) | Inr m \<Rightarrow> Inr m)"

definition timestamp_from_sql :: "'dt sqlite \<Rightarrow> string \<Rightarrow> std_error + 'dt" where
  "timestamp_from_sql S value = parse_sql (timestamp_from_str (sql_chrono S)) value"

subsection \<open>Gateway jobs\<close>

text \<open>The bound parameters of the statement, with the default of the two time columns.\<close>

definition gateway_job_row :: "'dt sqlite \<Rightarrow> string \<Rightarrow> 'dt GatewayJobUpsert \<Rightarrow> GatewayJobRow outcome" where
  "gateway_job_row S stamp input =
     and_then (to_json_text S ''gateway job request'' (job_request_json input)) (\<lambda>request_json.
     and_then (optional_json_text S ''gateway job result'' (job_result_json input)) (\<lambda>result_json.
     and_then (to_json_text S ''gateway job metadata'' (metadata_serialize (job_metadata input)))
       (\<lambda>metadata_json.
         Inr \<lparr>jrow_gateway_job_id = job_id input, jrow_kind = job_kind input,
           jrow_state = job_state_as_str (job_state input),
           jrow_agent_alias = job_agent_alias input, jrow_context_id = job_context_id input,
           jrow_task_id = job_task_id input, jrow_group_name = job_group_name input,
           jrow_adapter_binding_id = job_adapter_binding_id input,
           jrow_request_json = request_json, jrow_result_json = result_json,
           jrow_metadata_json = metadata_json,
           jrow_retry_count = uint (job_retry_count input),
           jrow_max_attempts = uint (job_max_attempts input),
           jrow_next_run_at = map_option (to_rfc3339 (sql_chrono S)) (job_next_run_at input),
           jrow_locked_by = job_locked_by input,
           jrow_locked_until = map_option (to_rfc3339 (sql_chrono S)) (job_locked_until input),
           jrow_created_at = stamp, jrow_updated_at = stamp,
           jrow_completed_at = map_option (to_rfc3339 (sql_chrono S)) (job_completed_at input)\<rparr>)))"

text \<open>\<open>INSERT .. ON CONFLICT DO UPDATE\<close> keeps the creation time of the row it replaces.\<close>

definition put_gateway_job :: "GatewayJobRow \<Rightarrow> gateway_db \<Rightarrow> gateway_db" where
  "put_gateway_job row db =
     db\<lparr>db_jobs := bm_insert (jrow_gateway_job_id row)
       (case bm_get (jrow_gateway_job_id row) (db_jobs db) of
          None \<Rightarrow> row
        | Some old \<Rightarrow> row\<lparr>jrow_created_at := jrow_created_at old\<rparr>)
       (db_jobs db)\<rparr>"

definition read_gateway_job_row :: "'dt sqlite \<Rightarrow> GatewayJobRow \<Rightarrow> std_error + 'dt GatewayJobRecord" where
  "read_gateway_job_row S row =
     and_then (parse_sql GatewayJobId_new (jrow_gateway_job_id row)) (\<lambda>ident.
     and_then (parse_sql job_state_from_str (jrow_state row)) (\<lambda>state.
     and_then (optional_sql (parse_sql AgentAlias_new) (jrow_agent_alias row)) (\<lambda>agent_alias.
     and_then (optional_sql (parse_sql ContextId_new) (jrow_context_id row)) (\<lambda>context.
     and_then (optional_sql (parse_sql TaskId_new) (jrow_task_id row)) (\<lambda>task.
     and_then (optional_sql (parse_sql GroupName_new) (jrow_group_name row)) (\<lambda>group.
     and_then (optional_sql (parse_sql AdapterBindingId_new) (jrow_adapter_binding_id row)) (\<lambda>binding.
     and_then (json_from_sql S (jrow_request_json row)) (\<lambda>request_json.
     and_then (optional_sql (json_from_sql S) (jrow_result_json row)) (\<lambda>result_json.
     and_then (metadata_from_sql S (jrow_metadata_json row)) (\<lambda>metadata.
     and_then (u32_from_sql (jrow_retry_count row)) (\<lambda>retry_count.
     and_then (u32_from_sql (jrow_max_attempts row)) (\<lambda>max_attempts.
     and_then (optional_sql (timestamp_from_sql S) (jrow_next_run_at row)) (\<lambda>next_run_at.
     and_then (optional_sql (timestamp_from_sql S) (jrow_locked_until row)) (\<lambda>locked_until.
     and_then (timestamp_from_sql S (jrow_created_at row)) (\<lambda>created_at.
     and_then (timestamp_from_sql S (jrow_updated_at row)) (\<lambda>updated_at.
     and_then (optional_sql (timestamp_from_sql S) (jrow_completed_at row)) (\<lambda>completed_at.
       Inr \<lparr>job_id = ident, job_kind = jrow_kind row, job_state = state,
         job_agent_alias = agent_alias, job_context_id = context, job_task_id = task,
         job_group_name = group, job_adapter_binding_id = binding,
         job_request_json = request_json, job_result_json = result_json, job_metadata = metadata,
         job_retry_count = retry_count, job_max_attempts = max_attempts,
         job_next_run_at = next_run_at, job_locked_by = jrow_locked_by row,
         job_locked_until = locked_until, job_completed_at = completed_at,
         job_created_at = created_at, job_updated_at = updated_at\<rparr>)))))))))))))))))"

text \<open>\<open>query_row(..).optional()\<close>, and \<open>collect_rows\<close> over the rows of a query.\<close>

definition query_row :: "string \<Rightarrow> ('row \<Rightarrow> std_error + 'a) \<Rightarrow> 'row option \<Rightarrow> 'a option outcome" where
  "query_row action read row =
     (case row of
        None \<Rightarrow> Inr None
      | Some r \<Rightarrow>
          (case read r of Inl error \<Rightarrow> Inl (storage_error action error) | Inr x \<Rightarrow> Inr (Some x)))"

fun collect_rows :: "string \<Rightarrow> ('row \<Rightarrow> std_error + 'a) \<Rightarrow> 'row list \<Rightarrow> 'a list outcome" where
  "collect_rows action read [] = Inr []"
| "collect_rows action read (r # rs) =
     (case read r of
        Inl error \<Rightarrow> Inl (storage_error action error)
      | Inr x \<Rightarrow> and_then (collect_rows action read rs) (\<lambda>xs. Inr (x # xs)))"

definition get_gateway_job :: "'dt sqlite \<Rightarrow> GatewayJobId \<Rightarrow> 'dt GatewayJobRecord option db_op" where
  "get_gateway_job S ident db =
     (query_row ''reading gateway job'' (read_gateway_job_row S) (bm_get ident (db_jobs db)), db)"

definition upsert_gateway_job ::
  "'dt sqlite \<Rightarrow> string \<Rightarrow> 'dt GatewayJobUpsert \<Rightarrow> 'dt GatewayJobRecord db_op" where
  "upsert_gateway_job S stamp input =
     db_bind (db_outcome
       (and_then
         (checks
           [validate_len ''gateway job kind'' (job_kind input) 63,
            validate_gateway_attempts (job_retry_count input) (job_max_attempts input)])
         (\<lambda>_. gateway_job_row S stamp input)))
     (\<lambda>row db.
       (case sql_refuses_job S db row of
          Some error \<Rightarrow> (Inl (storage_error ''upserting gateway job'' error), db)
        | None \<Rightarrow>
            db_bind (get_gateway_job S (job_id input))
              (\<lambda>stored. db_outcome
                (ok_or stored (missing_after_write ''gateway job'' (job_id input))))
              (put_gateway_job row db)))"

definition list_gateway_jobs :: "'dt sqlite \<Rightarrow> 'dt GatewayJobRecord list db_op" where
  "list_gateway_jobs S db =
     (collect_rows ''listing gateway jobs'' (read_gateway_job_row S) (map snd (db_jobs db)), db)"

text \<open>Deleting a job also clears the references of events to it (\<open>ON DELETE SET NULL\<close>).\<close>

definition delete_gateway_job :: "'dt sqlite \<Rightarrow> GatewayJobId \<Rightarrow> bool db_op" where
  "delete_gateway_job S ident db =
     (case sql_refuses_delete S db ident of
        Some error \<Rightarrow> (Inl (storage_error ''deleting gateway job'' error), db)
      | None \<Rightarrow>
          (Inr (bm_contains_key ident (db_jobs db)),
           db\<lparr>db_jobs := bm_remove ident (db_jobs db),
              db_events := map (\<lambda>e. if erow_gateway_job_id e = Some ident
                then e\<lparr>erow_gateway_job_id := None\<rparr> else e) (db_events db)\<rparr>))"

subsection \<open>Gateway sessions\<close>

definition gateway_session_row ::
  "'dt sqlite \<Rightarrow> string \<Rightarrow> 'dt GatewaySessionUpsert \<Rightarrow> GatewaySessionRow outcome" where
  "gateway_session_row S stamp input =
     and_then (optional_u64_to_i64 ''gateway session idle_timeout_seconds''
       (session_idle_timeout_seconds input)) (\<lambda>idle_timeout_seconds.
     and_then (u64_to_i64 ''gateway session reset_count'' (session_reset_count input)) (\<lambda>reset_count.
     and_then (to_json_text S ''gateway session metadata'' (metadata_serialize (session_metadata input)))
       (\<lambda>metadata_json.
         Inr \<lparr>srow_gateway_session_id = session_id input,
           srow_source_kind = session_source_kind input, srow_source_id = session_source_id input,
           srow_agent_alias = session_agent_alias input,
           srow_resume_name = session_resume_name input,
           srow_context_id = session_context_id input,
           srow_reset_mode = reset_mode_as_str (session_reset_mode input),
           srow_daily_reset_hour = uint (session_daily_reset_hour input),
           srow_idle_timeout_seconds = idle_timeout_seconds,
           srow_last_active_at = to_rfc3339 (sql_chrono S) (session_last_active_at input),
           srow_last_reset_at = map_option (to_rfc3339 (sql_chrono S)) (session_last_reset_at input),
           srow_reset_count = reset_count, srow_metadata_json = metadata_json,
           srow_created_at = stamp, srow_updated_at = stamp\<rparr>)))"

definition put_gateway_session :: "GatewaySessionRow \<Rightarrow> gateway_db \<Rightarrow> gateway_db" where
  "put_gateway_session row db =
     db\<lparr>db_sessions := bm_insert (srow_gateway_session_id row)
       (case bm_get (srow_gateway_session_id row) (db_sessions db) of
          None \<Rightarrow> row
        | Some old \<Rightarrow> row\<lparr>srow_created_at := srow_created_at old\<rparr>)
       (db_sessions db)\<rparr>"

definition read_gateway_session_row ::
  "'dt sqlite \<Rightarrow> GatewaySessionRow \<Rightarrow> std_error + 'dt GatewaySessionRecord" where
  "read_gateway_session_row S row =
     and_then (parse_sql GatewaySessionId_new (srow_gateway_session_id row)) (\<lambda>ident.
     and_then (parse_sql AgentAlias_new (srow_agent_alias row)) (\<lambda>agent_alias.
     and_then (parse_sql ContextId_new (srow_context_id row)) (\<lambda>context.
     and_then (parse_sql reset_mode_from_str (srow_reset_mode row)) (\<lambda>mode.
     and_then (u8_from_sql (srow_daily_reset_hour row)) (\<lambda>daily_reset_hour.
     and_then (optional_u64_from_sql (srow_idle_timeout_seconds row)) (\<lambda>idle_timeout_seconds.
     and_then (timestamp_from_sql S (srow_last_active_at row)) (\<lambda>last_active_at.
     and_then (optional_sql (timestamp_from_sql S) (srow_last_reset_at row)) (\<lambda>last_reset_at.
     and_then (u64_from_sql (srow_reset_count row)) (\<lambda>reset_count.
     and_then (metadata_from_sql S (srow_metadata_json row)) (\<lambda>metadata.
     and_then (timestamp_from_sql S (srow_created_at row)) (\<lambda>created_at.
     and_then (timestamp_from_sql S (srow_updated_at row)) (\<lambda>updated_at.
       Inr \<lparr>session_id = ident, session_source_kind = srow_source_kind row,
         session_source_id = srow_source_id row, session_agent_alias = agent_alias,
         session_resume_name = srow_resume_name row, session_context_id = context,
         session_reset_mode = mode, session_daily_reset_hour = daily_reset_hour,
         session_idle_timeout_seconds = idle_timeout_seconds,
         session_last_active_at = last_active_at, session_last_reset_at = last_reset_at,
         session_reset_count = reset_count, session_metadata = metadata,
         session_created_at = created_at, session_updated_at = updated_at\<rparr>))))))))))))"

definition get_gateway_session :: "'dt sqlite \<Rightarrow> GatewaySessionId \<Rightarrow> 'dt GatewaySessionRecord option db_op" where
  "get_gateway_session S ident db =
     (query_row ''reading gateway session'' (read_gateway_session_row S)
        (bm_get ident (db_sessions db)), db)"

definition upsert_gateway_session ::
  "'dt sqlite \<Rightarrow> string \<Rightarrow> 'dt GatewaySessionUpsert \<Rightarrow> 'dt GatewaySessionRecord db_op" where
  "upsert_gateway_session S stamp input =
     db_bind (db_outcome
       (and_then
         (checks
           [validate_store_identifier ''gateway session source kind'' (session_source_kind input),
            validate_store_identifier ''gateway session source id'' (session_source_id input),
            validate_len ''gateway session resume_name'' (session_resume_name input) 128,
            validate_gateway_session_reset_policy (session_reset_mode input)
              (session_daily_reset_hour input) (session_idle_timeout_seconds input)])
         (\<lambda>_. gateway_session_row S stamp input)))
     (\<lambda>row db.
       (case sql_refuses_session S db row of
          Some error \<Rightarrow> (Inl (storage_error ''upserting gateway session'' error), db)
        | None \<Rightarrow>
            db_bind (get_gateway_session S (session_id input))
              (\<lambda>stored. db_outcome
                (ok_or stored (missing_after_write ''gateway session'' (session_id input))))
              (put_gateway_session row db)))"

text \<open>The table's \<open>UNIQUE\<close> constraint leaves at most one row for the query.\<close>

definition get_gateway_session_by_resume ::
  "'dt sqlite \<Rightarrow> string \<Rightarrow> string \<Rightarrow> AgentAlias \<Rightarrow> string \<Rightarrow> 'dt GatewaySessionRecord option db_op" where
  "get_gateway_session_by_resume S kind source agent_alias resume_name =
     db_bind (db_outcome
       (checks
         [validate_store_identifier ''gateway session source kind'' kind,
          validate_store_identifier ''gateway session source id'' source,
          validate_len ''gateway session resume_name'' resume_name 128]))
     (\<lambda>_ db.
       (query_row ''reading gateway session by resume name'' (read_gateway_session_row S)
          (List.find (\<lambda>r. srow_source_kind r = kind \<and> srow_source_id r = source \<and>
             srow_agent_alias r = agent_alias \<and> srow_resume_name r = resume_name)
             (map snd (db_sessions db))), db))"

definition session_order :: "GatewaySessionRow \<Rightarrow> GatewaySessionRow \<Rightarrow> bool" where
  "session_order a b \<longleftrightarrow>
     [srow_source_kind a, srow_source_id a, srow_agent_alias a, srow_resume_name a] \<le>
     [srow_source_kind b, srow_source_id b, srow_agent_alias b, srow_resume_name b]"

definition list_gateway_sessions :: "'dt sqlite \<Rightarrow> 'dt GatewaySessionRecord list db_op" where
  "list_gateway_sessions S db =
     (collect_rows ''listing gateway sessions'' (read_gateway_session_row S)
        (sort_by session_order (map snd (db_sessions db))), db)"

definition list_gateway_sessions_for_agent ::
  "'dt sqlite \<Rightarrow> AgentAlias \<Rightarrow> 'dt GatewaySessionRecord list db_op" where
  "list_gateway_sessions_for_agent S agent_alias db =
     (collect_rows ''listing gateway sessions for agent'' (read_gateway_session_row S)
        (sort_by session_order
          (filter (\<lambda>r. srow_agent_alias r = agent_alias) (map snd (db_sessions db)))), db)"

definition delete_gateway_session :: "'dt sqlite \<Rightarrow> GatewaySessionId \<Rightarrow> bool db_op" where
  "delete_gateway_session S ident db =
     (case sql_refuses_delete S db ident of
        Some error \<Rightarrow> (Inl (storage_error ''deleting gateway session'' error), db)
      | None \<Rightarrow>
          (Inr (bm_contains_key ident (db_sessions db)),
           db\<lparr>db_sessions := bm_remove ident (db_sessions db)\<rparr>))"

subsection \<open>The event journal\<close>

record 'dt EventRecord =
  erec_sequence :: int
  erec_event_id :: EventId
  erec_timestamp :: 'dt
  erec_source :: string
  erec_event_type :: string
  erec_agent_alias :: "AgentAlias option"
  erec_context_id :: "ContextId option"
  erec_task_id :: "TaskId option"
  erec_group_name :: "GroupName option"
  erec_gateway_job_id :: "GatewayJobId option"
  erec_adapter_binding_id :: "AdapterBindingId option"
  erec_payload_json :: json
  erec_metadata :: Metadata
  erec_redacted :: bool

definition event_row :: "'dt sqlite \<Rightarrow> string \<Rightarrow> int \<Rightarrow> 'dt EventInsert \<Rightarrow> EventRow outcome" where
  "event_row S stamp sequence input =
     and_then (to_json_text S ''event payload'' (event_payload_json input)) (\<lambda>payload_json.
     and_then (to_json_text S ''event metadata'' (metadata_serialize (event_metadata input)))
       (\<lambda>metadata_json.
         Inr \<lparr>erow_sequence = sequence, erow_event_id = event_id input,
           erow_timestamp =
             (case map_option (to_rfc3339 (sql_chrono S)) (event_timestamp input) of
                Some t \<Rightarrow> t | None \<Rightarrow> stamp),
           erow_source = event_source input, erow_event_type = event_type input,
           erow_agent_alias = event_agent_alias input, erow_context_id = event_context_id input,
           erow_task_id = event_task_id input, erow_group_name = event_group_name input,
           erow_gateway_job_id = event_gateway_job_id input,
           erow_adapter_binding_id = event_adapter_binding_id input,
           erow_payload_json = payload_json, erow_metadata_json = metadata_json,
           erow_redacted = event_redacted input\<rparr>))"

definition read_event_row :: "'dt sqlite \<Rightarrow> EventRow \<Rightarrow> std_error + 'dt EventRecord" where
  "read_event_row S row =
     and_then (parse_sql EventId_new (erow_event_id row)) (\<lambda>ident.
     and_then (timestamp_from_sql S (erow_timestamp row)) (\<lambda>timestamp.
     and_then (optional_sql (parse_sql AgentAlias_new) (erow_agent_alias row)) (\<lambda>agent_alias.
     and_then (optional_sql (parse_sql ContextId_new) (erow_context_id row)) (\<lambda>context.
     and_then (optional_sql (parse_sql TaskId_new) (erow_task_id row)) (\<lambda>task.
     and_then (optional_sql (parse_sql GroupName_new) (erow_group_name row)) (\<lambda>group.
     and_then (optional_sql (parse_sql GatewayJobId_new) (erow_gateway_job_id row)) (\<lambda>job.
     and_then (optional_sql (parse_sql AdapterBindingId_new) (erow_adapter_binding_id row)) (\<lambda>binding.
     and_then (json_from_sql S (erow_payload_json row)) (\<lambda>payload.
     and_then (metadata_from_sql S (erow_metadata_json row)) (\<lambda>metadata.
       Inr \<lparr>erec_sequence = erow_sequence row, erec_event_id = ident, erec_timestamp = timestamp,
         erec_source = erow_source row, erec_event_type = erow_event_type row,
         erec_agent_alias = agent_alias, erec_context_id = context, erec_task_id = task,
         erec_group_name = group, erec_gateway_job_id = job, erec_adapter_binding_id = binding,
         erec_payload_json = payload, erec_metadata = metadata,
         erec_redacted = erow_redacted row\<rparr>))))))))))"

text \<open>\<open>event_id\<close> is \<open>UNIQUE\<close>, so the query has at most one row.\<close>

definition get_event :: "'dt sqlite \<Rightarrow> EventId \<Rightarrow> 'dt EventRecord option db_op" where
  "get_event S ident db =
     (query_row ''reading event'' (read_event_row S)
        (List.find (\<lambda>r. erow_event_id r = ident) (db_events db)), db)"

definition append_event :: "'dt sqlite \<Rightarrow> string \<Rightarrow> 'dt EventInsert \<Rightarrow> 'dt EventRecord db_op" where
  "append_event S stamp input db =
     db_bind (db_outcome
       (and_then
         (checks
           [validate_len ''event source'' (event_source input) 128,
            validate_len ''event type'' (event_type input) 128])
         (\<lambda>_. event_row S stamp (db_last_sequence db + 1) input)))
     (\<lambda>row db.
       (case sql_refuses_event S db row of
          Some error \<Rightarrow> (Inl (storage_error ''appending event'' error), db)
        | None \<Rightarrow>
            db_bind (get_event S (event_id input))
              (\<lambda>stored. db_outcome (ok_or stored (missing_after_write ''event'' (event_id input))))
              (db\<lparr>db_events := db_events db @ [row], db_last_sequence := db_last_sequence db + 1\<rparr>)))
     db"

definition list_events :: "'dt sqlite \<Rightarrow> 'dt EventRecord list db_op" where
  "list_events S db = (collect_rows ''listing events'' (read_event_row S) (db_events db), db)"

definition delete_event :: "'dt sqlite \<Rightarrow> EventId \<Rightarrow> bool db_op" where
  "delete_event S ident db =
     (case sql_refuses_delete S db ident of
        Some error \<Rightarrow> (Inl (storage_error ''deleting event'' error), db)
      | None \<Rightarrow>
          (Inr (\<exists>e \<in> set (db_events db). erow_event_id e = ident),
           db\<lparr>db_events := filter (\<lambda>e. erow_event_id e \<noteq> ident) (db_events db)\<rparr>))"

end
