(* ===== verification/Store_Properties.thy ===== *)
theory Store_Properties
  imports Store_Gateway
begin

text \<open>
  Properties of the gateway tables: what an upsert stores is read back unchanged, other rows are
  untouched, and every row written has been validated.
\<close>

subsection \<open>Round trips through column texts\<close>

text \<open>
  What the code relies on of \<open>serde_json\<close> and \<open>chrono\<close>.  A JSON value is read back from its own
  text.  A date-time is rendered to the second (\<open>SecondsFormat::Secs\<close>), so its fraction is lost: when
  the text parses, it gives a date-time of the same Unix second, and the date-time itself when that
  is a whole second, one \<open>DateTime::from_timestamp(secs, 0)\<close> yields.
\<close>

definition json_stable :: "'dt sqlite \<Rightarrow> json \<Rightarrow> bool" where
  "json_stable S v \<longleftrightarrow> (\<forall>t. serde_to_string S v = Inr t \<longrightarrow> serde_from_str S t = Inr v)"

definition time_kept :: "'dt chrono \<Rightarrow> 'dt \<Rightarrow> 'dt \<Rightarrow> bool" where
  "time_kept C t u \<longleftrightarrow>
     chrono_timestamp C u = chrono_timestamp C t \<and> (\<forall>s. chrono_from_timestamp C s = Some t \<longrightarrow> u = t)"

definition chrono_text_law :: "'dt chrono \<Rightarrow> bool" where
  "chrono_text_law C \<longleftrightarrow>
     (\<forall>t u. chrono_parse_rfc3339 C (chrono_to_rfc3339 C t) = Inr u \<longrightarrow> time_kept C t u)"

text \<open>A record with the times another one has after being stored and read.\<close>

definition with_times_of ::
  "('dt, 'm) GatewayJobUpsert_scheme \<Rightarrow> 'dt GatewayJobUpsert \<Rightarrow> 'dt GatewayJobUpsert" where
  "with_times_of r j = j\<lparr>job_next_run_at := job_next_run_at r, job_locked_until := job_locked_until r,
     job_completed_at := job_completed_at r\<rparr>"

definition times_kept ::
  "'dt chrono \<Rightarrow> ('dt, 'm) GatewayJobUpsert_scheme \<Rightarrow> ('dt, 'n) GatewayJobUpsert_scheme \<Rightarrow> bool" where
  "times_kept C j r \<longleftrightarrow>
     rel_option (time_kept C) (job_next_run_at j) (job_next_run_at r) \<and>
     rel_option (time_kept C) (job_locked_until j) (job_locked_until r) \<and>
     rel_option (time_kept C) (job_completed_at j) (job_completed_at r)"

text \<open>The type invariants of the identifiers and of the metadata of an input.\<close>

definition job_typed :: "('dt, 'm) GatewayJobUpsert_scheme \<Rightarrow> bool" where
  "job_typed j \<longleftrightarrow>
     opaque_ok (job_id j) \<and> (\<forall>a. job_agent_alias j = Some a \<longrightarrow> named_ok a) \<and>
     (\<forall>c. job_context_id j = Some c \<longrightarrow> opaque_ok c) \<and> (\<forall>t. job_task_id j = Some t \<longrightarrow> opaque_ok t) \<and>
     (\<forall>g. job_group_name j = Some g \<longrightarrow> named_ok g) \<and>
     (\<forall>b. job_adapter_binding_id j = Some b \<longrightarrow> opaque_ok b) \<and> metadata_ok (job_metadata j)"

definition job_stable :: "'dt sqlite \<Rightarrow> ('dt, 'm) GatewayJobUpsert_scheme \<Rightarrow> bool" where
  "job_stable S j \<longleftrightarrow>
     json_stable S (job_request_json j) \<and> (\<forall>r. job_result_json j = Some r \<longrightarrow> json_stable S r) \<and>
     json_stable S (metadata_serialize (job_metadata j))"

lemma parse_sql_Inr [result_iff]: "parse_sql f v = Inr x \<longleftrightarrow> f v = Inr x"
  by (simp add: parse_sql_def split: sum.splits)

lemma optional_sql_Inr [result_iff]:
  "optional_sql f v = Inr x \<longleftrightarrow> (case v of None \<Rightarrow> x = None | Some t \<Rightarrow> (\<exists>y. x = Some y \<and> f t = Inr y))"
  by (auto simp: optional_sql_def and_then_Inr split: option.splits)

lemma to_json_text_Inr [result_iff]: "to_json_text S label v = Inr t \<longleftrightarrow> serde_to_string S v = Inr t"
  by (simp add: to_json_text_def split: sum.splits)

lemma optional_json_text_Inr [result_iff]:
  "optional_json_text S label v = Inr x \<longleftrightarrow>
     (case v of None \<Rightarrow> x = None | Some j \<Rightarrow> (\<exists>t. x = Some t \<and> serde_to_string S j = Inr t))"
  by (auto simp: optional_json_text_def result_iff split: option.splits)

lemma metadata_from_text:
  assumes "json_stable S (metadata_serialize m)" "metadata_ok m"
    and "serde_to_string S (metadata_serialize m) = Inr t"
  shows "metadata_from_sql S t = Inr m"
proof -
  have "metadata_deserialize (metadata_serialize m) = Inr m"
    using assms(2) by (simp add: metadata_deserialize_Inr metadata_ok_def)
  then show ?thesis using assms(1,3) by (simp add: metadata_from_sql_def json_stable_def)
qed

lemma timestamp_from_text:
  "chrono_text_law (sql_chrono S) \<Longrightarrow> timestamp_from_sql S (to_rfc3339 (sql_chrono S) t) = Inr u \<Longrightarrow>
     time_kept (sql_chrono S) t u"
  by (auto simp: timestamp_from_sql_def result_iff timestamp_from_str_def chrono_text_law_def to_rfc3339_def
      split: sum.splits)

lemma optional_timestamp_from_text:
  "chrono_text_law (sql_chrono S) \<Longrightarrow>
     optional_sql (timestamp_from_sql S) (map_option (to_rfc3339 (sql_chrono S)) t) = Inr u \<Longrightarrow>
     rel_option (time_kept (sql_chrono S)) t u"
  by (cases t) (auto simp: result_iff timestamp_from_text)

lemma identifier_from_text:
  "named_ok a \<Longrightarrow> parse_sql AgentAlias_new a = Inr a"
  "named_ok g \<Longrightarrow> parse_sql GroupName_new g = Inr g"
  "opaque_ok c \<Longrightarrow> parse_sql ContextId_new c = Inr c"
  "opaque_ok c \<Longrightarrow> parse_sql TaskId_new c = Inr c"
  "opaque_ok c \<Longrightarrow> parse_sql EventId_new c = Inr c"
  "opaque_ok c \<Longrightarrow> parse_sql GatewayJobId_new c = Inr c"
  "opaque_ok c \<Longrightarrow> parse_sql GatewaySessionId_new c = Inr c"
  "opaque_ok c \<Longrightarrow> parse_sql AdapterBindingId_new c = Inr c"
  by (simp_all add: result_iff AgentAlias_new_def GroupName_new_def ContextId_new_def TaskId_new_def
      EventId_new_def GatewayJobId_new_def GatewaySessionId_new_def AdapterBindingId_new_def
      agent_alias.new_Inr group_name.new_Inr context_id.new_Inr task_id.new_Inr event_id.new_Inr
      gateway_job_id.new_Inr gateway_session_id.new_Inr adapter_binding_id.new_Inr)

lemma optional_identifier_from_text:
  "(\<And>a. v = Some a \<Longrightarrow> f a = Inr a) \<Longrightarrow> optional_sql f v = Inr v"
  by (cases v) (simp_all add: result_iff)

lemma enum_from_text [simp]:
  "parse_sql job_state_from_str (job_state_as_str s) = Inr s"
  "parse_sql reset_mode_from_str (reset_mode_as_str m) = Inr m"
  by (simp_all add: result_iff job_state_from_str_def reset_mode_from_str_def job_state.from_as_str
      reset_mode.from_as_str)

lemma read_job_row_of:
  assumes "gateway_job_row S stamp input = Inr row"
    and "job_typed input" "job_stable S input" "chrono_text_law (sql_chrono S)"
    and read: "read_gateway_job_row S (row\<lparr>jrow_created_at := created\<rparr>) = Inr r"
  shows "GatewayJobUpsert.truncate r = with_times_of r (GatewayJobUpsert.truncate input) \<and>
    times_kept (sql_chrono S) input r"
proof -
  have opt: "optional_sql (parse_sql AgentAlias_new) (job_agent_alias input) = Inr (job_agent_alias input)"
    "optional_sql (parse_sql ContextId_new) (job_context_id input) = Inr (job_context_id input)"
    "optional_sql (parse_sql TaskId_new) (job_task_id input) = Inr (job_task_id input)"
    "optional_sql (parse_sql GroupName_new) (job_group_name input) = Inr (job_group_name input)"
    "optional_sql (parse_sql AdapterBindingId_new) (job_adapter_binding_id input) = Inr (job_adapter_binding_id input)"
    "parse_sql GatewayJobId_new (job_id input) = Inr (job_id input)"
    using assms(2) by (auto intro!: optional_identifier_from_text simp: job_typed_def identifier_from_text)
  obtain rt mt where t: "serde_to_string S (job_request_json input) = Inr rt"
    "serde_to_string S (metadata_serialize (job_metadata input)) = Inr mt"
    and row: "jrow_request_json row = rt" "jrow_metadata_json row = mt"
      "jrow_gateway_job_id row = job_id input" "jrow_kind row = job_kind input"
      "jrow_state row = job_state_as_str (job_state input)"
      "jrow_agent_alias row = job_agent_alias input" "jrow_context_id row = job_context_id input"
      "jrow_task_id row = job_task_id input" "jrow_group_name row = job_group_name input"
      "jrow_adapter_binding_id row = job_adapter_binding_id input"
      "jrow_retry_count row = uint (job_retry_count input)"
      "jrow_max_attempts row = uint (job_max_attempts input)"
      "jrow_next_run_at row = map_option (to_rfc3339 (sql_chrono S)) (job_next_run_at input)"
      "jrow_locked_by row = job_locked_by input"
      "jrow_locked_until row = map_option (to_rfc3339 (sql_chrono S)) (job_locked_until input)"
      "jrow_updated_at row = stamp"
      "jrow_completed_at row = map_option (to_rfc3339 (sql_chrono S)) (job_completed_at input)"
    and res: "optional_json_text S ''gateway job result'' (job_result_json input) = Inr (jrow_result_json row)"
    using assms(1) unfolding gateway_job_row_def and_then_Inr to_json_text_Inr by auto
  have json: "json_from_sql S rt = Inr (job_request_json input)"
    "metadata_from_sql S mt = Inr (job_metadata input)"
    using assms(2,3) t metadata_from_text [OF _ _ t(2)]
    by (simp_all add: json_from_sql_def job_stable_def json_stable_def job_typed_def)
  have result: "optional_sql (json_from_sql S) (jrow_result_json row) = Inr (job_result_json input)"
    using res assms(3) unfolding optional_json_text_Inr
    by (auto simp: optional_sql_Inr json_from_sql_def job_stable_def json_stable_def split: option.splits)
  obtain n l c where times: "optional_sql (timestamp_from_sql S) (jrow_next_run_at row) = Inr n"
    "optional_sql (timestamp_from_sql S) (jrow_locked_until row) = Inr l"
    "optional_sql (timestamp_from_sql S) (jrow_completed_at row) = Inr c"
    using read unfolding read_gateway_job_row_def and_then_Inr by auto
  have "GatewayJobUpsert.truncate r = (GatewayJobUpsert.truncate input)
    \<lparr>job_next_run_at := n, job_locked_until := l, job_completed_at := c\<rparr>"
    using read times opt json result
    by (auto simp: read_gateway_job_row_def row and_then_Inr GatewayJobUpsert.defs)
  moreover from this have "job_next_run_at r = n" "job_locked_until r = l" "job_completed_at r = c"
    by (simp_all add: GatewayJobUpsert.defs)
  ultimately show ?thesis
    using times optional_timestamp_from_text [OF assms(4)] by (simp add: times_kept_def with_times_of_def row)
qed

subsection \<open>Successful writes\<close>

definition stored_job :: "GatewayJobRow \<Rightarrow> gateway_db \<Rightarrow> GatewayJobRow" where
  "stored_job row db =
     (case bm_get (jrow_gateway_job_id row) (db_jobs db) of
        None \<Rightarrow> row | Some old \<Rightarrow> row\<lparr>jrow_created_at := jrow_created_at old\<rparr>)"

definition stored_session :: "GatewaySessionRow \<Rightarrow> gateway_db \<Rightarrow> GatewaySessionRow" where
  "stored_session row db =
     (case bm_get (srow_gateway_session_id row) (db_sessions db) of
        None \<Rightarrow> row | Some old \<Rightarrow> row\<lparr>srow_created_at := srow_created_at old\<rparr>)"

lemma put_gateway_job_alt:
  "put_gateway_job row db = db\<lparr>db_jobs := bm_insert (jrow_gateway_job_id row) (stored_job row db) (db_jobs db)\<rparr>"
  by (simp add: put_gateway_job_def stored_job_def)

lemma put_gateway_session_alt:
  "put_gateway_session row db =
     db\<lparr>db_sessions := bm_insert (srow_gateway_session_id row) (stored_session row db) (db_sessions db)\<rparr>"
  by (simp add: put_gateway_session_def stored_session_def)

lemma gateway_job_row_id: "gateway_job_row S stamp input = Inr row \<Longrightarrow> jrow_gateway_job_id row = job_id input"
  by (auto simp: gateway_job_row_def and_then_Inr)

lemma gateway_session_row_id:
  "gateway_session_row S stamp input = Inr row \<Longrightarrow> srow_gateway_session_id row = session_id input"
  by (auto simp: gateway_session_row_def and_then_Inr)

lemma db_bind_Inr:
  "db_bind m f db = (Inr y, db') \<longleftrightarrow> (\<exists>x db1. m db = (Inr x, db1) \<and> f x db1 = (Inr y, db'))"
  by (auto simp: db_bind_def split: prod.splits sum.splits)

lemma db_bind_cases:
  "db_bind m f db = (r, db') \<longleftrightarrow>
     (\<exists>e. m db = (Inl e, db') \<and> r = Inl e) \<or> (\<exists>x db1. m db = (Inr x, db1) \<and> f x db1 = (r, db'))"
  by (auto simp: db_bind_def split: prod.splits sum.splits)

lemma db_bind_snd: "snd (db_bind m f db) = (case m db of (Inl e, db1) \<Rightarrow> db1 | (Inr x, db1) \<Rightarrow> snd (f x db1))"
  by (simp add: db_bind_def split: prod.splits sum.splits)

lemma db_outcome_Inr: "db_outcome r db = (Inr y, db') \<longleftrightarrow> r = Inr y \<and> db' = db"
  by (auto simp: db_outcome_def)

lemma query_row_Inr:
  "query_row action f row = Inr x \<longleftrightarrow>
     (case row of None \<Rightarrow> x = None | Some r \<Rightarrow> (\<exists>y. x = Some y \<and> f r = Inr y))"
  by (auto simp: query_row_def split: option.splits sum.splits)

definition job_valid :: "('dt, 'm) GatewayJobUpsert_scheme \<Rightarrow> bool" where
  "job_valid j \<longleftrightarrow>
     job_kind j \<noteq> [] \<and> length (job_kind j) \<le> 63 \<and>
     job_max_attempts j \<noteq> 0 \<and> job_retry_count j \<le> job_max_attempts j"

abbreviation job_checks :: "('dt, 'm) GatewayJobUpsert_scheme \<Rightarrow> unit outcome" where
  "job_checks input \<equiv>
     checks
       [validate_len ''gateway job kind'' (job_kind input) 63,
        validate_gateway_attempts (job_retry_count input) (job_max_attempts input)]"

lemma job_checks_Inr: "job_checks input = Inr u \<longleftrightarrow> job_valid input"
  by (simp add: result_iff job_valid_def)

lemma get_put_gateway_job:
  assumes "bm_sorted (db_jobs db)"
  shows "get_gateway_job S k (put_gateway_job row db) =
    (if k = jrow_gateway_job_id row
     then query_row ''reading gateway job'' (read_gateway_job_row S) (Some (stored_job row db))
     else fst (get_gateway_job S k db), put_gateway_job row db)"
  using assms by (simp add: get_gateway_job_def put_gateway_job_alt bm_get_insert)

lemma upsert_gateway_job_eq:
  assumes "bm_sorted (db_jobs db)"
  shows "upsert_gateway_job S stamp input db =
    (case and_then (job_checks input) (\<lambda>_. gateway_job_row S stamp input) of
       Inl e \<Rightarrow> (Inl e, db)
     | Inr row \<Rightarrow>
         (case sql_refuses_job S db row of
            Some error \<Rightarrow> (Inl (storage_error ''upserting gateway job'' error), db)
          | None \<Rightarrow>
              (case read_gateway_job_row S (stored_job row db) of
                 Inl error \<Rightarrow> (Inl (storage_error ''reading gateway job'' error), put_gateway_job row db)
               | Inr r \<Rightarrow> (Inr r, put_gateway_job row db))))"
proof (cases "and_then (job_checks input) (\<lambda>_. gateway_job_row S stamp input)")
  case (Inl e)
  then show ?thesis by (simp add: upsert_gateway_job_def db_bind_def db_outcome_def del: checks_Cons)
next
  case (Inr row)
  then have "jrow_gateway_job_id row = job_id input" by (auto simp: and_then_Inr intro: gateway_job_row_id)
  with Inr assms show ?thesis
    by (simp add: upsert_gateway_job_def db_bind_def db_outcome_def get_put_gateway_job query_row_def
        del: checks_Cons split: option.split sum.split)
qed

lemma upsert_gateway_job_Inr:
  assumes "bm_sorted (db_jobs db)"
  shows "upsert_gateway_job S stamp input db = (Inr r, db') \<longleftrightarrow> job_valid input \<and>
    (\<exists>row. gateway_job_row S stamp input = Inr row \<and> sql_refuses_job S db row = None \<and>
       db' = put_gateway_job row db \<and> read_gateway_job_row S (stored_job row db) = Inr r)"
proof -
  have iff: "and_then (job_checks input) (\<lambda>_. gateway_job_row S stamp input) = Inr row \<longleftrightarrow>
      job_valid input \<and> gateway_job_row S stamp input = Inr row" for row
    by (simp add: and_then_Inr job_checks_Inr del: checks_Cons)
  show ?thesis
  proof (cases "and_then (job_checks input) (\<lambda>_. gateway_job_row S stamp input)")
    case (Inl e)
    then show ?thesis using iff unfolding upsert_gateway_job_eq [OF assms]
      by (simp del: checks_Cons)
  next
    case (Inr row)
    then show ?thesis using iff [of row] unfolding upsert_gateway_job_eq [OF assms]
      by (auto simp del: checks_Cons split: sum.splits option.splits)
  qed
qed

lemma truncate_upsert [simp]: "GatewayJobUpsert.truncate (j :: 'dt GatewayJobUpsert) = j"
  by (simp add: GatewayJobUpsert.defs)

lemma gateway_job_row_stamp:
  "gateway_job_row S stamp input = Inr row \<Longrightarrow> jrow_created_at row = stamp \<and> jrow_updated_at row = stamp"
  by (auto simp: gateway_job_row_def and_then_Inr)

lemma read_job_times:
  "read_gateway_job_row S row = Inr r \<Longrightarrow>
     timestamp_from_sql S (jrow_created_at row) = Inr (job_created_at r) \<and>
     timestamp_from_sql S (jrow_updated_at row) = Inr (job_updated_at r)"
  by (auto simp: read_gateway_job_row_def and_then_Inr)

lemma stored_job_created: "stored_job row db = row\<lparr>jrow_created_at := jrow_created_at (stored_job row db)\<rparr>"
  by (simp add: stored_job_def split: option.split)

lemma upsert_gateway_job_reads_back:
  assumes u: "upsert_gateway_job S stamp input db = (Inr r, db')" and sorted: "bm_sorted (db_jobs db)"
    and typed: "job_typed input" "job_stable S input" "chrono_text_law (sql_chrono S)"
  shows "GatewayJobUpsert.truncate r = with_times_of r (GatewayJobUpsert.truncate input) \<and>
    times_kept (sql_chrono S) input r \<and>
    timestamp_from_sql S stamp = Inr (job_updated_at r) \<and>
    get_gateway_job S (job_id input) db' = (Inr (Some r), db')"
proof -
  obtain row where row: "gateway_job_row S stamp input = Inr row" "db' = put_gateway_job row db"
    "read_gateway_job_row S (stored_job row db) = Inr r"
    using u unfolding upsert_gateway_job_Inr [OF sorted] by blast
  have "jrow_updated_at (stored_job row db) = stamp"
    using gateway_job_row_stamp [OF row(1)] by (simp add: stored_job_def split: option.split)
  moreover note read_job_times [OF row(3)]
  moreover have "GatewayJobUpsert.truncate r = with_times_of r (GatewayJobUpsert.truncate input) \<and>
      times_kept (sql_chrono S) input r"
    using row(3) by (subst (asm) stored_job_created) (rule read_job_row_of [OF row(1) typed])
  ultimately show ?thesis
    using row(3)
    by (simp add: get_gateway_job_def row(2) put_gateway_job_alt bm_get_insert
        gateway_job_row_id [OF row(1)] query_row_def)
qed

subsection \<open>Sessions\<close>

definition session_valid :: "('dt, 'm) GatewaySessionUpsert_scheme \<Rightarrow> bool" where
  "session_valid s \<longleftrightarrow>
     opaque_ok (session_source_kind s) \<and> opaque_ok (session_source_id s) \<and>
     session_resume_name s \<noteq> [] \<and> length (session_resume_name s) \<le> 128 \<and>
     reset_policy_ok (session_reset_mode s) (session_daily_reset_hour s) (session_idle_timeout_seconds s)"

abbreviation session_checks :: "('dt, 'm) GatewaySessionUpsert_scheme \<Rightarrow> unit outcome" where
  "session_checks input \<equiv>
     checks
       [validate_store_identifier ''gateway session source kind'' (session_source_kind input),
        validate_store_identifier ''gateway session source id'' (session_source_id input),
        validate_len ''gateway session resume_name'' (session_resume_name input) 128,
        validate_gateway_session_reset_policy (session_reset_mode input)
          (session_daily_reset_hour input) (session_idle_timeout_seconds input)]"

lemma session_checks_Inr: "session_checks input = Inr u \<longleftrightarrow> session_valid input"
  by (simp add: result_iff session_valid_def)

lemma upsert_gateway_session_eq:
  assumes "bm_sorted (db_sessions db)"
  shows "upsert_gateway_session S stamp input db =
    (case and_then (session_checks input) (\<lambda>_. gateway_session_row S stamp input) of
       Inl e \<Rightarrow> (Inl e, db)
     | Inr row \<Rightarrow>
         (case sql_refuses_session S db row of
            Some error \<Rightarrow> (Inl (storage_error ''upserting gateway session'' error), db)
          | None \<Rightarrow>
              (case read_gateway_session_row S (stored_session row db) of
                 Inl error \<Rightarrow>
                   (Inl (storage_error ''reading gateway session'' error), put_gateway_session row db)
               | Inr r \<Rightarrow> (Inr r, put_gateway_session row db))))"
proof (cases "and_then (session_checks input) (\<lambda>_. gateway_session_row S stamp input)")
  case (Inl e)
  then show ?thesis by (simp add: upsert_gateway_session_def db_bind_def db_outcome_def del: checks_Cons)
next
  case (Inr row)
  then have "srow_gateway_session_id row = session_id input"
    by (auto simp: and_then_Inr intro: gateway_session_row_id)
  with Inr assms show ?thesis
    by (simp add: upsert_gateway_session_def db_bind_def db_outcome_def get_gateway_session_def
        put_gateway_session_alt bm_get_insert query_row_def
        del: checks_Cons split: option.split sum.split)
qed

subsection \<open>The invariant of the tables\<close>

definition job_row_ok :: "GatewayJobRow \<Rightarrow> bool" where
  "job_row_ok r \<longleftrightarrow>
     jrow_kind r \<noteq> [] \<and> length (jrow_kind r) \<le> 63 \<and> (\<exists>s. jrow_state r = job_state_as_str s) \<and>
     0 \<le> jrow_retry_count r \<and> jrow_retry_count r \<le> jrow_max_attempts r \<and>
     1 \<le> jrow_max_attempts r \<and> jrow_max_attempts r < 2 ^ 32"

definition session_row_ok :: "GatewaySessionRow \<Rightarrow> bool" where
  "session_row_ok r \<longleftrightarrow>
     (\<exists>mode hour timeout. srow_reset_mode r = reset_mode_as_str mode \<and>
        srow_daily_reset_hour r = uint (hour :: u8) \<and>
        srow_idle_timeout_seconds r = map_option uint (timeout :: u64 option) \<and>
        (\<forall>t. timeout = Some t \<longrightarrow> uint t \<le> i64_max) \<and> reset_policy_ok mode hour timeout) \<and>
     0 \<le> srow_reset_count r \<and> srow_reset_count r \<le> i64_max"

definition events_ok :: "int \<Rightarrow> EventRow list \<Rightarrow> bool" where
  "events_ok bound es \<longleftrightarrow>
     sorted_wrt (<) (map erow_sequence es) \<and> (\<forall>e \<in> set es. erow_sequence e \<le> bound)"

definition db_ok :: "gateway_db \<Rightarrow> bool" where
  "db_ok db \<longleftrightarrow>
     bm_sorted (db_jobs db) \<and> (\<forall>(k, r) \<in> set (db_jobs db). k = jrow_gateway_job_id r \<and> job_row_ok r) \<and>
     bm_sorted (db_sessions db) \<and>
     (\<forall>(k, r) \<in> set (db_sessions db). k = srow_gateway_session_id r \<and> session_row_ok r) \<and>
     events_ok (db_last_sequence db) (db_events db)"

lemma set_bm_insert_subset: "set (bm_insert k v m) \<subseteq> insert (k, v) (set m)"
  by (induction m rule: bm_insert.induct [of "\<lambda>k v m. set (bm_insert k v m) \<subseteq> insert (k, v) (set m)", case_names Nil Cons])
    auto

lemma job_row_ok_encode:
  assumes "job_valid input" "gateway_job_row S stamp input = Inr row"
  shows "job_row_ok (stored_job row db)"
proof -
  have "job_row_ok row"
    using assms uint_lt2p [of "job_max_attempts input"]
    by (auto simp: gateway_job_row_def and_then_Inr job_row_ok_def job_valid_def word_le_def
        uint_0_iff order.strict_iff_order int_one_le_iff_zero_less)
  then show ?thesis by (simp add: stored_job_def job_row_ok_def split: option.split)
qed

lemma session_row_ok_encode:
  assumes "session_valid input" "gateway_session_row S stamp input = Inr row"
  shows "session_row_ok (stored_session row db)"
proof -
  have "session_row_ok row"
    using assms by (auto simp: gateway_session_row_def result_iff session_row_ok_def session_valid_def) blast
  then show ?thesis by (simp add: stored_session_def session_row_ok_def split: option.split)
qed

lemma db_ok_put_job:
  assumes "db_ok db" "job_valid input" "gateway_job_row S stamp input = Inr row"
  shows "db_ok (put_gateway_job row db)"
proof -
  have "jrow_gateway_job_id (stored_job row db) = jrow_gateway_job_id row"
    by (simp add: stored_job_def split: option.split)
  then show ?thesis
    using assms(1) job_row_ok_encode [OF assms(2,3), of db]
      set_bm_insert_subset [of "jrow_gateway_job_id row" "stored_job row db" "db_jobs db"]
    by (auto simp: db_ok_def put_gateway_job_alt bm_sorted_insert)
qed

lemma db_ok_put_session:
  assumes "db_ok db" "session_valid input" "gateway_session_row S stamp input = Inr row"
  shows "db_ok (put_gateway_session row db)"
proof -
  have "srow_gateway_session_id (stored_session row db) = srow_gateway_session_id row"
    by (simp add: stored_session_def split: option.split)
  then show ?thesis
    using assms(1) session_row_ok_encode [OF assms(2,3), of db]
      set_bm_insert_subset [of "srow_gateway_session_id row" "stored_session row db" "db_sessions db"]
    by (auto simp: db_ok_def put_gateway_session_alt bm_sorted_insert)
qed

lemma db_ok_upsert_job: "db_ok db \<Longrightarrow> db_ok (snd (upsert_gateway_job S stamp input db))"
proof -
  assume ok: "db_ok db"
  then have sorted: "bm_sorted (db_jobs db)" by (simp add: db_ok_def)
  have "db_ok (put_gateway_job row db)"
    if "and_then (job_checks input) (\<lambda>_. gateway_job_row S stamp input) = Inr row" for row
    using that ok by (auto simp: and_then_Inr job_checks_Inr simp del: checks_Cons intro: db_ok_put_job)
  with ok show ?thesis
    unfolding upsert_gateway_job_eq [OF sorted] by (simp del: checks_Cons split: sum.split option.split)
qed

lemma db_ok_upsert_session: "db_ok db \<Longrightarrow> db_ok (snd (upsert_gateway_session S stamp input db))"
proof -
  assume ok: "db_ok db"
  then have sorted: "bm_sorted (db_sessions db)" by (simp add: db_ok_def)
  have "db_ok (put_gateway_session row db)"
    if "and_then (session_checks input) (\<lambda>_. gateway_session_row S stamp input) = Inr row" for row
    using that ok by (auto simp: and_then_Inr session_checks_Inr simp del: checks_Cons intro: db_ok_put_session)
  with ok show ?thesis
    unfolding upsert_gateway_session_eq [OF sorted] by (simp del: checks_Cons split: sum.split option.split)
qed

lemma event_row_sequence: "event_row S stamp n input = Inr row \<Longrightarrow> erow_sequence row = n"
  by (auto simp: event_row_def and_then_Inr)

lemma append_event_db:
  "snd (append_event S stamp input db) = db \<or>
   (\<exists>row. event_row S stamp (db_last_sequence db + 1) input = Inr row \<and> sql_refuses_event S db row = None \<and>
      snd (append_event S stamp input db) =
        db\<lparr>db_events := db_events db @ [row], db_last_sequence := db_last_sequence db + 1\<rparr>)"
proof (cases "and_then
    (checks [validate_len ''event source'' (event_source input) 128,
      validate_len ''event type'' (event_type input) 128])
    (\<lambda>_. event_row S stamp (db_last_sequence db + 1) input)")
  case (Inl e)
  then show ?thesis by (simp add: append_event_def db_bind_def db_outcome_def del: checks_Cons)
next
  case (Inr row)
  then have "event_row S stamp (db_last_sequence db + 1) input = Inr row" by (auto simp: and_then_Inr)
  then show ?thesis using Inr
    by (cases "sql_refuses_event S db row")
      (simp_all add: append_event_def db_bind_def db_outcome_def get_event_def del: checks_Cons
        split: sum.splits)
qed

lemma events_ok_append:
  assumes "events_ok n es" "erow_sequence row = n + 1"
  shows "events_ok (n + 1) (es @ [row])"
  using assms by (fastforce simp: events_ok_def sorted_wrt_append)

lemma db_ok_append_event: "db_ok db \<Longrightarrow> db_ok (snd (append_event S stamp input db))"
  using append_event_db [of S stamp input db]
  by (auto simp: db_ok_def dest: event_row_sequence events_ok_append)

lemma events_ok_filter: "events_ok n es \<Longrightarrow> events_ok n (filter p es)"
  by (auto simp: events_ok_def sorted_wrt_map intro: sorted_wrt_filter)

lemma events_ok_map:
  "(\<And>e. erow_sequence (f e) = erow_sequence e) \<Longrightarrow> events_ok n es \<Longrightarrow> events_ok n (map f es)"
  by (auto simp: events_ok_def comp_def)

lemma set_bm_remove_subset: "x \<in> set (bm_remove k m) \<Longrightarrow> x \<in> set m"
  by (simp add: bm_remove_def)

lemma db_ok_deletes:
  assumes "db_ok db"
  shows "db_ok (snd (delete_gateway_job S job db))"
    and "db_ok (snd (delete_gateway_session S session db))"
    and "db_ok (snd (delete_event S event db))"
proof -
  have "events_ok (db_last_sequence db) (map (\<lambda>e. if erow_gateway_job_id e = Some job
      then e\<lparr>erow_gateway_job_id := None\<rparr> else e) (db_events db))"
    using assms by (intro events_ok_map) (simp_all add: db_ok_def)
  then show "db_ok (snd (delete_gateway_job S job db))"
    using assms by (auto simp: delete_gateway_job_def db_ok_def bm_sorted_remove
        split: option.split dest: set_bm_remove_subset)
  show "db_ok (snd (delete_gateway_session S session db))"
    using assms by (auto simp: delete_gateway_session_def db_ok_def bm_sorted_remove
        split: option.split dest: set_bm_remove_subset)
  show "db_ok (snd (delete_event S event db))"
    using assms by (auto simp: delete_event_def db_ok_def events_ok_filter split: option.split)
qed

subsection \<open>What the tables hold\<close>

definition empty_db :: gateway_db where
  "empty_db = \<lparr>db_jobs = [], db_sessions = [], db_events = [], db_last_sequence = 0\<rparr>"

lemma db_ok_empty: "db_ok empty_db"
  by (simp add: empty_db_def db_ok_def bm_sorted_def events_ok_def)

lemma read_job_row_valid: "read_gateway_job_row S row = Inr r \<Longrightarrow> job_row_ok row \<Longrightarrow> job_valid r"
  by (auto simp: read_gateway_job_row_def and_then_Inr uint_from_sql_Inr job_row_ok_def job_valid_def
      word_le_def)

lemma read_session_row_valid:
  assumes "read_gateway_session_row S row = Inr s" "session_row_ok row"
  shows "reset_policy_ok (session_reset_mode s) (session_daily_reset_hour s) (session_idle_timeout_seconds s) \<and>
    (\<forall>t. session_idle_timeout_seconds s = Some t \<longrightarrow> uint t \<le> i64_max)"
proof -
  obtain mode hour timeout where row: "srow_reset_mode row = reset_mode_as_str mode"
    "srow_daily_reset_hour row = uint (hour :: u8)"
    "srow_idle_timeout_seconds row = map_option uint (timeout :: u64 option)"
    and ok: "\<forall>t. timeout = Some t \<longrightarrow> uint t \<le> i64_max" "reset_policy_ok mode hour timeout"
    using assms(2) by (auto simp: session_row_ok_def)
  have "session_reset_mode s = mode" "session_daily_reset_hour s = hour"
    "session_idle_timeout_seconds s = timeout"
    using assms(1) by (auto simp: read_gateway_session_row_def and_then_Inr row)
  with ok show ?thesis by simp
qed

lemma collect_rows_Inr:
  "collect_rows action f rs = Inr xs \<longleftrightarrow> list_all2 (\<lambda>r x. f r = Inr x) rs xs"
proof (induction rs arbitrary: xs)
  case Nil
  then show ?case by auto
next
  case (Cons r rs)
  then show ?case by (cases "f r"; cases xs) (auto simp: and_then_Inr)
qed

lemma read_job_row_id: "read_gateway_job_row S row = Inr r \<Longrightarrow> job_id r = jrow_gateway_job_id row"
  by (auto simp: read_gateway_job_row_def and_then_Inr parse_sql_Inr GatewayJobId_new_def
      gateway_job_id.new_Inr)

lemma list_all2_map_eq: "list_all2 P xs ys \<Longrightarrow> (\<And>x y. P x y \<Longrightarrow> f x = g y) \<Longrightarrow> map f xs = map g ys"
  by (induction rule: list_all2_induct) auto

lemma list_gateway_jobs_ids:
  assumes "db_ok db" "list_gateway_jobs S db = (Inr js, db')"
  shows "map job_id js = map fst (db_jobs db)"
proof -
  have "list_all2 (\<lambda>r j. read_gateway_job_row S r = Inr j) (map snd (db_jobs db)) js"
    using assms(2) unfolding list_gateway_jobs_def prod.inject collect_rows_Inr by blast
  then have "map jrow_gateway_job_id (map snd (db_jobs db)) = map job_id js"
    by (rule list_all2_map_eq) (simp add: read_job_row_id)
  moreover have "map jrow_gateway_job_id (map snd (db_jobs db)) = map fst (db_jobs db)"
    using assms(1) by (auto simp: db_ok_def)
  ultimately show ?thesis by simp
qed

lemma list_gateway_jobs_valid:
  assumes "db_ok db" "list_gateway_jobs S db = (Inr js, db')" "j \<in> set js"
  shows "job_valid j"
proof -
  have "list_all2 (\<lambda>r j. read_gateway_job_row S r = Inr j) (map snd (db_jobs db)) js"
    using assms(2) unfolding list_gateway_jobs_def prod.inject collect_rows_Inr by blast
  then obtain r where "r \<in> snd ` set (db_jobs db)" "read_gateway_job_row S r = Inr j"
    using assms(3) by (auto simp: list_all2_conv_all_nth in_set_conv_nth) (metis nth_mem snd_conv imageI)
  moreover have "job_row_ok r" using assms(1) calculation(1) by (auto simp: db_ok_def)
  ultimately show ?thesis using read_job_row_valid by blast
qed

text \<open>C13. What an upsert of a gateway job returns is its input with the creation and update times of the
  row, its three scheduled times kept to the second (and exactly when they are whole seconds), and
  everything else as given; it is what reading the job gives afterwards.  The reading of every other
  job is unchanged, and an upsert of an existing job keeps its creation time.  This relies on the JSON
  values being read back from their texts, and on the text of a date-time keeping its second.\<close>

theorem gateway_job_roundtrip:
  assumes "upsert_gateway_job S stamp input db = (Inr r, db')" "db_ok db"
    and "job_typed input" "job_stable S input" "chrono_text_law (sql_chrono S)"
  shows "GatewayJobUpsert.truncate r = with_times_of r (GatewayJobUpsert.truncate input) \<and>
    times_kept (sql_chrono S) input r \<and>
    get_gateway_job S (job_id input) db' = (Inr (Some r), db') \<and>
    (\<forall>k. k \<noteq> job_id input \<longrightarrow> fst (get_gateway_job S k db') = fst (get_gateway_job S k db)) \<and>
    (\<forall>old. fst (get_gateway_job S (job_id input) db) = Inr (Some old) \<longrightarrow>
       job_created_at r = job_created_at old)"
proof -
  have sorted: "bm_sorted (db_jobs db)" using assms(2) by (simp add: db_ok_def)
  obtain row where row: "gateway_job_row S stamp input = Inr row" "db' = put_gateway_job row db"
    "read_gateway_job_row S (stored_job row db) = Inr r"
    using assms(1) unfolding upsert_gateway_job_Inr [OF sorted] by blast
  note rid = gateway_job_row_id [OF row(1)]
  have "fst (get_gateway_job S k db') = fst (get_gateway_job S k db)" if "k \<noteq> job_id input" for k
    using that by (simp add: row(2) get_put_gateway_job [OF sorted] rid)
  moreover have "job_created_at r = job_created_at old"
    if old: "fst (get_gateway_job S (job_id input) db) = Inr (Some old)" for old
  proof -
    obtain orow where "bm_get (job_id input) (db_jobs db) = Some orow" "read_gateway_job_row S orow = Inr old"
      using old by (auto simp: get_gateway_job_def query_row_Inr split: option.splits)
    then have "timestamp_from_sql S (jrow_created_at (stored_job row db)) = Inr (job_created_at old)"
      using read_job_times [of S orow old] by (simp add: stored_job_def rid)
    then show ?thesis using read_job_times [OF row(3)] by simp
  qed
  ultimately show ?thesis
    using upsert_gateway_job_reads_back [OF assms(1) sorted assms(3,4,5)] by blast
qed

text \<open>A store whose date-times are texts, used by the witnesses: the second is the length of the text up
  to a point, what follows the point is the fraction, and the rendering drops it.\<close>

definition whole_second :: "string \<Rightarrow> string" where
  "whole_second t = takeWhile (\<lambda>c. c \<noteq> CHR ''.'') t"

definition text_chrono :: "string chrono" where
  "text_chrono =
     \<lparr>chrono_from_timestamp = (\<lambda>s. Some (replicate (nat s) (CHR ''|''))),
      chrono_timestamp = (\<lambda>t. int (length (whole_second t))), chrono_to_rfc3339 = whole_second,
      chrono_parse_rfc3339 = Inr\<rparr>"

lemma text_chrono_law: "chrono_text_law text_chrono"
  by (auto simp: chrono_text_law_def time_kept_def text_chrono_def whole_second_def takeWhile_idem)

definition text_store :: "string sqlite" where
  "text_store =
     \<lparr>serde_to_string = (\<lambda>v. Inr (if v = JNull then ''null'' else ''{}'')),
      serde_from_str = (\<lambda>t. Inr (if t = ''null'' then JNull else JObject [])),
      serde_de_error = (\<lambda>e. StdError [] None), sql_chrono = text_chrono,
      sql_refuses_job = (\<lambda>db r. None), sql_refuses_session = (\<lambda>db r. None),
      sql_refuses_event = (\<lambda>db r. None), sql_refuses_delete = (\<lambda>db k. None)\<rparr>"

text \<open>A job, and the same job with a next run at a fraction of a second.\<close>

definition demo_job :: "string GatewayJobUpsert" where
  "demo_job = GatewayJobUpsert_new ''job-1'' ''send'' JNull"

definition demo_timed_job :: "string GatewayJobUpsert" where
  "demo_timed_job = demo_job\<lparr>job_next_run_at := Some ''||.5''\<rparr>"

lemma demo_job_upsert:
  "upsert_gateway_job text_store ''t0'' demo_timed_job empty_db =
     (Inr (GatewayJobUpsert.extend (demo_job\<lparr>job_next_run_at := Some ''||''\<rparr>) (GatewayJobRecord.fields ''t0'' ''t0'')),
      snd (upsert_gateway_job text_store ''t0'' demo_timed_job empty_db))"
  by code_simp

theorem gateway_job_roundtrip_witness:
  "get_gateway_job text_store ''job-1'' (snd (upsert_gateway_job text_store ''t0'' demo_timed_job empty_db)) =
     (Inr (Some (GatewayJobUpsert.extend (demo_job\<lparr>job_next_run_at := Some ''||''\<rparr>) (GatewayJobRecord.fields ''t0'' ''t0''))),
      snd (upsert_gateway_job text_store ''t0'' demo_timed_job empty_db)) \<and>
   time_kept text_chrono ''||.5'' ''||''"
proof -
  have "job_typed demo_timed_job"
    by (simp add: job_typed_def demo_timed_job_def demo_job_def GatewayJobUpsert_new_def opaque_ok_def) code_simp
  moreover have "job_stable text_store demo_timed_job"
    by (simp add: job_stable_def json_stable_def demo_timed_job_def demo_job_def GatewayJobUpsert_new_def
        text_store_def metadata_serialize_def metadata_new_def)
  moreover have chrono: "sql_chrono text_store = text_chrono" by (simp add: text_store_def)
  moreover have "job_id demo_timed_job = ''job-1''" "job_next_run_at demo_timed_job = Some ''||.5''"
    by (simp_all add: demo_timed_job_def demo_job_def GatewayJobUpsert_new_def)
  moreover have "job_next_run_at (GatewayJobUpsert.extend (demo_job\<lparr>job_next_run_at := Some ''||''\<rparr>)
      (GatewayJobRecord.fields ''t0'' ''t0'')) = Some ''||''"
    by (simp add: GatewayJobUpsert.defs)
  ultimately show ?thesis
    using gateway_job_roundtrip [OF demo_job_upsert db_ok_empty] text_chrono_law by (simp add: times_kept_def)
qed

end
