(* ===== verification/Gateway_Session.thy ===== *)
theory Gateway_Session
  imports Store_Properties
begin

text \<open>
  \<open>crates/missive-gateway/src/session.rs\<close>: when a persistent gateway session has to rotate to a
  fresh context.  The clock is an argument: \<open>now\<close> is what \<open>GatewaySessionClock::now\<close> returns.
\<close>

definition SECONDS_PER_DAY :: int where
  "SECONDS_PER_DAY = 86400"

definition SECONDS_PER_HOUR :: int where
  "SECONDS_PER_HOUR = 3600"

datatype GatewaySessionResetReason = Reason_Daily | Reason_Idle

record 'dt GatewaySessionResetEvaluation =
  eval_now :: 'dt
  eval_should_reset :: bool
  eval_reasons :: "GatewaySessionResetReason list"

definition daily_reset_boundary :: "'dt chrono \<Rightarrow> 'dt \<Rightarrow> u8 \<Rightarrow> 'dt outcome" where
  "daily_reset_boundary C now reset_hour =
     (if 23 < reset_hour then
        Inl (error_validation
          [Lit (''gateway session daily_reset_hour must be between 0 and 23, got '' @
                show_nat (unat reset_hour))])
      else
        (let now_seconds = unix_timestamp C now;
             day_start = wrap_i64 (now_seconds div SECONDS_PER_DAY * SECONDS_PER_DAY);
             candidate = saturate_i64 (day_start + uint reset_hour * SECONDS_PER_HOUR);
             boundary = (if now_seconds < candidate then saturate_i64 (candidate - SECONDS_PER_DAY)
                         else candidate)
         in from_unix_timestamp C boundary))"

definition daily_reference_timestamp :: "('dt::linorder, 'm) GatewaySessionRecord_scheme \<Rightarrow> 'dt" where
  "daily_reference_timestamp session =
     (case session_last_reset_at session of
        Some last_reset \<Rightarrow> max last_reset (session_last_active_at session)
      | None \<Rightarrow> session_last_active_at session)"

definition daily_reset_due ::
  "'dt::linorder chrono \<Rightarrow> ('dt, 'm) GatewaySessionRecord_scheme \<Rightarrow> 'dt \<Rightarrow> bool outcome" where
  "daily_reset_due C session now =
     and_then (daily_reset_boundary C now (session_daily_reset_hour session))
       (\<lambda>boundary. Inr (daily_reference_timestamp session < boundary))"

definition idle_reset_due ::
  "'dt chrono \<Rightarrow> ('dt, 'm) GatewaySessionRecord_scheme \<Rightarrow> 'dt \<Rightarrow> bool outcome" where
  "idle_reset_due C session now =
     and_then
       (ok_or (session_idle_timeout_seconds session)
         (error_validation [Lit ''gateway session idle reset mode requires idle_timeout_seconds'']))
     (\<lambda>timeout_seconds.
       if timeout_seconds = 0 then
         Inl (error_validation [Lit ''gateway session idle_timeout_seconds must be greater than zero''])
       else if i64_max < uint timeout_seconds then
         Inl (with_source
           (error_validation [Lit ''gateway session idle_timeout_seconds is too large''])
           try_from_int_error)
       else
         (let idle_deadline =
            saturate_i64 (unix_timestamp C (session_last_active_at session) + uint timeout_seconds)
          in Inr (idle_deadline < unix_timestamp C now)))"

definition evaluate_session_reset ::
  "'dt::linorder chrono \<Rightarrow> ('dt, 'm) GatewaySessionRecord_scheme \<Rightarrow> 'dt \<Rightarrow>
   'dt GatewaySessionResetEvaluation outcome" where
  "evaluate_session_reset C session now =
     and_then
       (case session_reset_mode session of
          Reset_None \<Rightarrow> Inr []
        | Reset_Daily \<Rightarrow>
            and_then (daily_reset_due C session now)
              (\<lambda>due. Inr (if due then [Reason_Daily] else []))
        | Reset_Idle \<Rightarrow>
            and_then (idle_reset_due C session now)
              (\<lambda>due. Inr (if due then [Reason_Idle] else []))
        | Reset_Both \<Rightarrow>
            and_then (idle_reset_due C session now) (\<lambda>idle.
              and_then (daily_reset_due C session now) (\<lambda>daily.
                Inr ((if idle then [Reason_Idle] else []) @ (if daily then [Reason_Daily] else [])))))
       (\<lambda>reasons. Inr \<lparr>eval_now = now, eval_should_reset = (reasons \<noteq> []), eval_reasons = reasons\<rparr>)"

subsection \<open>What is due\<close>

text \<open>
  The specification: a daily reset is due when a reset instant lies after the last activity and
  reset of the session and not after now; an idle reset when the time since the last activity
  exceeds the timeout.
\<close>

definition daily_due :: "'dt::linorder chrono \<Rightarrow> ('dt, 'm) GatewaySessionRecord_scheme \<Rightarrow> 'dt \<Rightarrow> bool" where
  "daily_due C session now \<longleftrightarrow>
     (\<exists>s b. chrono_from_timestamp C s = Some b \<and>
        s mod 86400 = 3600 * uint (session_daily_reset_hour session) \<and>
        s \<le> chrono_timestamp C now \<and> session_last_active_at session < b \<and>
        (\<forall>r. session_last_reset_at session = Some r \<longrightarrow> r < b))"

definition idle_due :: "'dt chrono \<Rightarrow> ('dt, 'm) GatewaySessionRecord_scheme \<Rightarrow> 'dt \<Rightarrow> bool" where
  "idle_due C session now \<longleftrightarrow>
     (\<exists>t. session_idle_timeout_seconds session = Some t \<and>
        uint t < chrono_timestamp C now - chrono_timestamp C (session_last_active_at session))"

definition due_reasons ::
  "'dt::linorder chrono \<Rightarrow> ('dt, 'm) GatewaySessionRecord_scheme \<Rightarrow> 'dt \<Rightarrow> GatewaySessionResetReason list" where
  "due_reasons C session now =
     (if session_reset_mode session \<in> {Reset_Idle, Reset_Both} \<and> idle_due C session now
      then [Reason_Idle] else []) @
     (if session_reset_mode session \<in> {Reset_Daily, Reset_Both} \<and> daily_due C session now
      then [Reason_Daily] else [])"

lemma latest_boundary:
  fixes now :: int and h :: int
  assumes "0 \<le> h" "h \<le> 82800"
  defines "c \<equiv> now div 86400 * 86400 + h"
  defines "b \<equiv> if now < c then c - 86400 else c"
  shows "b \<le> now" "now < b + 86400" "b mod 86400 = h"
proof -
  have "now div 86400 * 86400 \<le> now" "now < now div 86400 * 86400 + 86400"
    by (simp_all add: minus_mod_eq_div_mult [symmetric])
  then show "b \<le> now" "now < b + 86400" using assms by (auto simp: b_def c_def)
  show "b mod 86400 = h" using assms(1,2) by (simp add: b_def c_def mod_diff_eq [symmetric])
qed

lemma boundary_unique_latest:
  fixes s b now h :: int
  assumes "s mod 86400 = h" "b mod 86400 = h" "s \<le> now" "now < b + 86400"
  shows "s \<le> b"
proof -
  have "(s - b) mod 86400 = 0" using assms(1,2) by (simp add: mod_diff_eq [symmetric])
  then obtain k where k: "s - b = 86400 * k" by (metis dvd_def mod_0_imp_dvd)
  moreover have "s - b < 86400" using assms(3,4) by simp
  ultimately have "k \<le> 0" by linarith
  then show ?thesis using k by linarith
qed

lemma uint_hour: "h \<le> 23 \<Longrightarrow> 0 \<le> uint h * 3600 \<and> uint h * 3600 \<le> 82800" for h :: u8
  by (simp add: word_le_def)

lemma daily_reset_boundary_seconds:
  fixes now :: 'dt
  assumes "chrono_range_law C lo hi" "hour \<le> 23"
  defines "n \<equiv> chrono_timestamp C now"
  defines "c \<equiv> n div 86400 * 86400 + uint hour * 3600"
  shows "daily_reset_boundary C now hour = from_unix_timestamp C (if n < c then c - 86400 else c)"
proof -
  have "lo \<le> n" "n \<le> hi" "i64_min + 200000 \<le> lo" "hi \<le> i64_max - 200000"
    using assms(1) by (auto simp: chrono_range_law_def n_def)
  moreover have "n div 86400 * 86400 \<le> n" "n < n div 86400 * 86400 + 86400"
    by (simp_all add: minus_mod_eq_div_mult [symmetric])
  moreover note uint_hour [OF assms(2)]
  ultimately have "is_i64 (n div 86400 * 86400)" "is_i64 c" "is_i64 (c - 86400)"
    unfolding is_i64_def c_def by linarith+
  moreover have "\<not> 23 < hour" using assms(2) by simp
  ultimately show ?thesis
    by (simp add: daily_reset_boundary_def unix_timestamp_def SECONDS_PER_DAY_def
        SECONDS_PER_HOUR_def n_def [symmetric] wrap_i64_id saturate_i64_id c_def [symmetric] Let_def)
qed

lemma daily_reset_due_iff:
  assumes laws: "chrono_seconds_law C" "chrono_order_law C" "chrono_range_law C lo hi"
    and hour: "session_daily_reset_hour session \<le> 23" and now: "lo + 86400 \<le> chrono_timestamp C now"
  shows "daily_reset_due C session now = Inr (daily_due C session now)"
proof -
  define n where "n = chrono_timestamp C now"
  define h where "h = uint (session_daily_reset_hour session) * 3600"
  define c where "c = n div 86400 * 86400 + h"
  define b where "b = (if n < c then c - 86400 else c)"
  have h: "0 \<le> h" "h \<le> 82800" using uint_hour [OF hour] by (simp_all add: h_def)
  note bd = latest_boundary [OF h, of n, folded c_def, folded b_def]
  have "lo \<le> b" "b \<le> hi" using bd(1,2) now laws(3) by (auto simp: chrono_range_law_def n_def) (meson order_trans)
  then obtain t where t: "chrono_from_timestamp C b = Some t"
    using laws(3) by (auto simp: chrono_range_law_def)
  have "daily_reset_boundary C now (session_daily_reset_hour session) = from_unix_timestamp C b"
    unfolding b_def c_def h_def n_def by (rule daily_reset_boundary_seconds [OF laws(3) hour])
  then have due: "daily_reset_due C session now = Inr (daily_reference_timestamp session < t)"
    using t by (simp add: daily_reset_due_def from_unix_timestamp_def)
  have ref: "daily_reference_timestamp session < x \<longleftrightarrow>
      session_last_active_at session < x \<and> (\<forall>r. session_last_reset_at session = Some r \<longrightarrow> r < x)" for x
    by (auto simp: daily_reference_timestamp_def split: option.splits)
  have "u \<le> t" if "chrono_from_timestamp C s = Some u" "s mod 86400 = h" "s \<le> n" for s u
  proof -
    have "s \<le> b" using boundary_unique_latest [OF that(2) bd(3) that(3) bd(2)] .
    then show ?thesis using that(1) t laws(1,2) by (auto simp: chrono_order_law_def chrono_seconds_law_def)
  qed
  then have "daily_due C session now \<longleftrightarrow> daily_reference_timestamp session < t"
    unfolding daily_due_def ref using t bd by (auto simp: n_def h_def mult.commute) (meson less_le_trans)+
  with due show ?thesis by simp
qed

lemma idle_reset_due_iff:
  assumes "chrono_range_law C lo hi" "session_idle_timeout_seconds session = Some t" "t \<noteq> 0" "uint t \<le> i64_max"
  shows "idle_reset_due C session now = Inr (idle_due C session now)"
proof -
  define n l k where "n = chrono_timestamp C now" and "l = chrono_timestamp C (session_last_active_at session)"
    and "k = uint t"
  have "n \<le> i64_max" "i64_min \<le> l" "0 \<le> k"
    using assms(1) by (auto simp: chrono_range_law_def n_def l_def k_def) (smt (verit, best))+
  then have "saturate_i64 (l + k) < n \<longleftrightarrow> k < n - l" unfolding saturate_i64_def by linarith
  then show ?thesis
    using assms(2-4) by (simp add: idle_reset_due_def idle_due_def unix_timestamp_def Let_def
        n_def [symmetric] l_def [symmetric] k_def [symmetric])
qed

lemma evaluate_session_reset_due:
  assumes laws: "chrono_seconds_law C" "chrono_order_law C" "chrono_range_law C lo hi"
    and ok: "reset_policy_ok (session_reset_mode session) (session_daily_reset_hour session)
      (session_idle_timeout_seconds session)"
    and fits: "\<forall>t. session_idle_timeout_seconds session = Some t \<longrightarrow> uint t \<le> i64_max"
    and now: "lo + 86400 \<le> chrono_timestamp C now"
  shows "evaluate_session_reset C session now =
    Inr \<lparr>eval_now = now, eval_should_reset = (due_reasons C session now \<noteq> []),
         eval_reasons = due_reasons C session now\<rparr>"
proof -
  have daily: "daily_reset_due C session now = Inr (daily_due C session now)"
    using ok by (intro daily_reset_due_iff [OF laws _ now]) (simp add: reset_policy_ok_def)
  have idle: "idle_reset_due C session now = Inr (idle_due C session now)"
    if "session_reset_mode session \<in> {Reset_Idle, Reset_Both}"
    using that ok fits idle_reset_due_iff [OF laws(3), of session _ now] by (auto simp: reset_policy_ok_def)
  show ?thesis
    by (cases "session_reset_mode session")
      (simp_all add: evaluate_session_reset_def due_reasons_def daily idle)
qed

text \<open>C19. For every session the store can return (its gateway tables satisfy \<open>db_ok\<close>, as they do after any
  sequence of store operations), reset evaluation succeeds and gives exactly the reasons
  that are due: idle, in the idle modes, when more whole seconds than the timeout have passed since
  the last activity; daily, in the daily modes, when an instant at the reset hour (UTC) lies after the
  last activity and the last reset and not after now.  A reset is asked for exactly when there is a
  reason.  The clock has to be a day above the least date-time of \<open>chrono\<close>.\<close>

theorem stored_session_reset_exact:
  assumes "db_ok db" "fst (get_gateway_session S k db) = Inr (Some session)"
    and "chrono_seconds_law (sql_chrono S)" "chrono_order_law (sql_chrono S)"
    and "chrono_range_law (sql_chrono S) lo hi" "lo + 86400 \<le> chrono_timestamp (sql_chrono S) now"
  shows "evaluate_session_reset (sql_chrono S) session now =
    Inr \<lparr>eval_now = now, eval_should_reset = (due_reasons (sql_chrono S) session now \<noteq> []),
         eval_reasons = due_reasons (sql_chrono S) session now\<rparr>"
proof -
  obtain row where row: "bm_get k (db_sessions db) = Some row" "read_gateway_session_row S row = Inr session"
    using assms(2) by (auto simp: get_gateway_session_def query_row_Inr split: option.splits)
  have "session_row_ok row"
    using assms(1) row(1) by (auto simp: db_ok_def bm_get_def dest: map_of_SomeD)
  from read_session_row_valid [OF row(2) this] show ?thesis
    by (intro evaluate_session_reset_due [OF assms(3-5) _ _ assms(6)]) simp_all
qed

text \<open>A store whose date-times are the seconds of a 32-bit clock, used by the witness.\<close>

definition word_chrono :: "u32 chrono" where
  "word_chrono =
     \<lparr>chrono_from_timestamp = (\<lambda>s. if 0 \<le> s \<and> s \<le> 4294967295 then Some (word_of_int s) else None),
      chrono_timestamp = uint, chrono_to_rfc3339 = (\<lambda>t. ''t''), chrono_parse_rfc3339 = (\<lambda>t. Inr 0)\<rparr>"

definition word_store :: "u32 sqlite" where
  "word_store =
     \<lparr>serde_to_string = (\<lambda>v. Inr ''{}''), serde_from_str = (\<lambda>t. Inr (JObject [])),
      serde_de_error = (\<lambda>e. StdError [] None), sql_chrono = word_chrono,
      sql_refuses_job = (\<lambda>db r. None), sql_refuses_session = (\<lambda>db r. None),
      sql_refuses_event = (\<lambda>db r. None), sql_refuses_delete = (\<lambda>db k. None)\<rparr>"

definition demo_session :: "u32 GatewaySessionUpsert" where
  "demo_session =
     (GatewaySessionUpsert_new 0 ''s-1'' ''cli'' ''me'' ''echo'' ''default'' ''ctx'')
       \<lparr>session_reset_mode := Reset_Both, session_daily_reset_hour := 3,
        session_idle_timeout_seconds := Some 60\<rparr>"

definition demo_session_db :: gateway_db where
  "demo_session_db = snd (upsert_gateway_session word_store ''t'' demo_session empty_db)"

lemma word_chrono_laws:
  "chrono_seconds_law word_chrono" "chrono_order_law word_chrono" "chrono_range_law word_chrono 0 4294967295"
proof -
  have u: "uint (word_of_int s :: u32) = s" if "0 \<le> s" "s \<le> 4294967295" for s
    using that by (simp add: uint_word_of_int_eq take_bit_int_eq_self)
  show "chrono_seconds_law word_chrono" by (simp add: chrono_seconds_law_def word_chrono_def u)
  show "chrono_order_law word_chrono"
    by (auto simp: chrono_order_law_def word_chrono_def word_less_def word_le_def u)
  have "uint (t :: u32) \<le> 4294967295" for t using uint_lt2p [of t] by simp
  then show "chrono_range_law word_chrono 0 4294967295"
    by (simp add: chrono_range_law_def word_chrono_def i64_min_def i64_max_def)
qed

theorem stored_session_reset_exact_witness:
  "\<exists>session. fst (get_gateway_session word_store ''s-1'' demo_session_db) = Inr (Some session) \<and>
     evaluate_session_reset word_chrono session 200000 =
       Inr \<lparr>eval_now = 200000, eval_should_reset = (due_reasons word_chrono session 200000 \<noteq> []),
            eval_reasons = due_reasons word_chrono session 200000\<rparr> \<and>
     eval_reasons (projr (evaluate_session_reset word_chrono session 200000)) = [Reason_Idle, Reason_Daily]"
proof -
  define session :: "u32 GatewaySessionRecord" where
    "session = GatewaySessionUpsert.extend demo_session (GatewaySessionRecord.fields 0 0)"
  have g: "fst (get_gateway_session word_store ''s-1'' demo_session_db) = Inr (Some session)"
    unfolding session_def by code_simp
  have r: "db_ok demo_session_db"
    unfolding demo_session_db_def by (intro db_ok_upsert_session db_ok_empty)
  have c: "sql_chrono word_store = word_chrono" by (simp add: word_store_def)
  have n: "0 + 86400 \<le> chrono_timestamp word_chrono 200000" by (simp add: word_chrono_def)
  have "evaluate_session_reset word_chrono session 200000 =
    Inr \<lparr>eval_now = 200000, eval_should_reset = (due_reasons word_chrono session 200000 \<noteq> []),
         eval_reasons = due_reasons word_chrono session 200000\<rparr>"
    using stored_session_reset_exact [OF r g, unfolded c, OF word_chrono_laws n] .
  moreover have "eval_reasons (projr (evaluate_session_reset word_chrono session 200000)) = [Reason_Idle, Reason_Daily]"
    by (simp add: session_def demo_session_def GatewaySessionUpsert_new_def GatewaySessionUpsert.defs
        GatewaySessionRecord.defs evaluate_session_reset_def idle_reset_due_def daily_reset_due_def
        daily_reset_boundary_def daily_reference_timestamp_def from_unix_timestamp_def
        unix_timestamp_def word_chrono_def SECONDS_PER_DAY_def SECONDS_PER_HOUR_def Let_def
        wrap_i64_def saturate_i64_def i64_min_def i64_max_def)
  ultimately show ?thesis using g by blast
qed

end
