(* ===== verification/Gateway_Busy.thy ===== *)
theory Gateway_Busy
  imports Core_Config Store_Types
begin

text \<open>
  \<open>crates/missive-gateway/src/busy.rs\<close>: what happens to an input that arrives while its source is
  busy.  \<open>apply_mode\<close> and \<open>apply_steer\<close> call each other; the model gives each call a unit of
  fuel and returns \<open>None\<close> when the calls are deeper than the fuel allows.
\<close>

datatype BusyInputDisposition = StartNow | Queued | InterruptQueued | Steered

datatype BusyOperationState = Running | Interrupting

record BusyInputSource =
  src_kind :: string
  src_id :: string

record BusyInput =
  inp_id :: string
  inp_source :: BusyInputSource
  inp_agent_alias :: AgentAlias
  inp_context_id :: "ContextId option"
  inp_task_id :: "TaskId option"
  inp_metadata :: Metadata

record InFlightOperation =
  op_id :: string
  op_agent_alias :: AgentAlias
  op_context_id :: "ContextId option"
  op_task_id :: "TaskId option"
  op_state :: BusyOperationState
  op_local_wait_active :: bool
  op_subscription_job_id :: "GatewayJobId option"
  op_remote_task_cancellable :: bool
  op_steerable :: bool

record QueuedBusyInput =
  queued_position :: nat
  queued_input :: BusyInput

record BusyInputState =
  busy_active :: "InFlightOperation option"
  busy_queued_inputs :: "QueuedBusyInput list"

record BusySteeringTarget =
  target_context_id :: "ContextId option"
  target_task_id :: "TaskId option"

datatype BusyInputAction =
    StartInput string
  | QueueInput string nat
  | MarkActiveInterrupting string
  | CancelLocalWait string
  | CancelSubscription string GatewayJobId
  | RequestRemoteTaskCancellation string AgentAlias TaskId
  | AppendFollowUp string string "ContextId option" "TaskId option"
  | UnsupportedSteerFallback string BusyInputMode string

record BusyInputOutcome =
  out_requested_mode :: BusyInputMode
  out_mode_used :: BusyInputMode
  out_fallback_used :: bool
  out_disposition :: BusyInputDisposition
  out_actions :: "BusyInputAction list"
  out_state :: BusyInputState

subsection \<open>Construction\<close>

definition validate_source_part :: "string \<Rightarrow> string \<Rightarrow> unit outcome" where
  "validate_source_part label value =
     checks
       [fail_if (trim value = []) (error_validation [Lit (label @ '' cannot be empty'')]),
        fail_if (256 < length value) (error_validation [Lit (label @ '' must be at most 256 bytes'')]),
        fail_if (has_control value)
          (error_validation [Lit (label @ '' must not contain control characters'')])]"

definition BusyInputSource_new :: "string \<Rightarrow> string \<Rightarrow> BusyInputSource outcome" where
  "BusyInputSource_new kind ident =
     and_then
       (checks
         [validate_source_part ''busy input source_kind'' kind,
          validate_source_part ''busy input source_id'' ident])
       (\<lambda>_. Inr \<lparr>src_kind = kind, src_id = ident\<rparr>)"

definition BusyInput_new :: "string \<Rightarrow> BusyInputSource \<Rightarrow> AgentAlias \<Rightarrow> BusyInput outcome" where
  "BusyInput_new input_id source agent_alias =
     and_then (validate_source_part ''busy input id'' input_id) (\<lambda>_.
       Inr \<lparr>inp_id = input_id, inp_source = source, inp_agent_alias = agent_alias,
            inp_context_id = None, inp_task_id = None, inp_metadata = metadata_new\<rparr>)"

definition InFlightOperation_new :: "string \<Rightarrow> AgentAlias \<Rightarrow> InFlightOperation outcome" where
  "InFlightOperation_new operation_id agent_alias =
     and_then (validate_source_part ''busy operation id'' operation_id) (\<lambda>_.
       Inr \<lparr>op_id = operation_id, op_agent_alias = agent_alias, op_context_id = None,
            op_task_id = None, op_state = Running, op_local_wait_active = False,
            op_subscription_job_id = None, op_remote_task_cancellable = False,
            op_steerable = False\<rparr>)"

definition steering_target :: "InFlightOperation \<Rightarrow> BusySteeringTarget option" where
  "steering_target op =
     (if \<not> op_steerable op then None
      else if op_context_id op = None \<and> op_task_id op = None then None
      else Some \<lparr>target_context_id = op_context_id op, target_task_id = op_task_id op\<rparr>)"

definition queue_depth :: "BusyInputState \<Rightarrow> nat" where
  "queue_depth s = length (busy_queued_inputs s)"

subsection \<open>Evaluation\<close>

text \<open>\<open>push_queue\<close> updates the state and returns the position.\<close>

definition push_queue ::
  "BusyInputConfig \<Rightarrow> BusyInputState \<Rightarrow> BusyInput \<Rightarrow> (BusyInputState \<times> nat) outcome" where
  "push_queue policy state input =
     (let max_depth = unat (busy_max_queue_depth policy)
      in if max_depth \<le> length (busy_queued_inputs state) then
           Inl (with_help
             (error_orchestration
               [Lit (''busy input queue for source '' @ src_kind (inp_source input) @ '':'' @
                  src_id (inp_source input) @ '' is full at '' @ show_nat max_depth @ '' item(s)'')])
             ''Increase gateway.busy_input.max_queue_depth or configure the source for interrupt/steer when safe.'')
         else
           (let position = length (busy_queued_inputs state) + 1
            in Inr (state\<lparr>busy_queued_inputs :=
                 busy_queued_inputs state @ [\<lparr>queued_position = position, queued_input = input\<rparr>]\<rparr>,
               position)))"

definition apply_queue ::
  "BusyInputConfig \<Rightarrow> BusyInputState \<Rightarrow> BusyInput \<Rightarrow> BusyInputMode \<Rightarrow> bool \<Rightarrow>
   BusyInputAction list \<Rightarrow> BusyInputOutcome outcome" where
  "apply_queue policy state input requested_mode fallback_used actions =
     and_then (push_queue policy state input) (\<lambda>(state, position).
       let input_id = inp_id (queued_input (busy_queued_inputs state ! (position - 1)))
       in Inr \<lparr>out_requested_mode = requested_mode, out_mode_used = Queue,
            out_fallback_used = fallback_used, out_disposition = Queued,
            out_actions = actions @ [QueueInput input_id position], out_state = state\<rparr>)"

text \<open>The actions \<open>apply_interrupt\<close> pushes for the active operation, in order.\<close>

definition interrupt_actions :: "BusyInputConfig \<Rightarrow> InFlightOperation \<Rightarrow> BusyInputAction list" where
  "interrupt_actions policy active =
     [MarkActiveInterrupting (op_id active)] @
     (if op_local_wait_active active then [CancelLocalWait (op_id active)] else []) @
     (case op_subscription_job_id active of
        Some gateway_job_id \<Rightarrow> [CancelSubscription (op_id active) gateway_job_id] | None \<Rightarrow> []) @
     (if busy_interrupt_remote_cancel policy \<and> op_remote_task_cancellable active then
        (case op_task_id active of
           Some task_id \<Rightarrow>
             [RequestRemoteTaskCancellation (op_id active) (op_agent_alias active) task_id]
         | None \<Rightarrow> [])
      else [])"

definition apply_interrupt ::
  "BusyInputConfig \<Rightarrow> BusyInputState \<Rightarrow> InFlightOperation \<Rightarrow> BusyInput \<Rightarrow> BusyInputMode \<Rightarrow> bool \<Rightarrow>
   BusyInputAction list \<Rightarrow> BusyInputOutcome outcome" where
  "apply_interrupt policy state active input requested_mode fallback_used actions =
     (let state = state\<lparr>busy_active := Some (active\<lparr>op_state := Interrupting\<rparr>)\<rparr>;
          actions = actions @ interrupt_actions policy active
      in and_then (push_queue policy state input) (\<lambda>(state, position).
           let input_id = inp_id (queued_input (busy_queued_inputs state ! (position - 1)))
           in Inr \<lparr>out_requested_mode = requested_mode, out_mode_used = Interrupt,
                out_fallback_used = fallback_used, out_disposition = InterruptQueued,
                out_actions = actions @ [QueueInput input_id position], out_state = state\<rparr>))"

definition steer_reason :: "InFlightOperation \<Rightarrow> string" where
  "steer_reason active =
     (if op_steerable active then
        ''active operation is marked steerable but has no context_id or task_id''
      else
        ''active operation does not accept follow-up input in its current protocol state'')"

text \<open>The active operation is the one \<open>apply_mode\<close> found; the \<open>expect\<close> of the source reads
  it again.\<close>

fun apply_mode ::
    "nat \<Rightarrow> BusyInputConfig \<Rightarrow> BusyInputState \<Rightarrow> BusyInput \<Rightarrow> BusyInputMode \<Rightarrow> BusyInputMode \<Rightarrow> bool \<Rightarrow>
     BusyInputAction list \<Rightarrow> BusyInputOutcome outcome option"
  and apply_steer ::
    "nat \<Rightarrow> BusyInputConfig \<Rightarrow> BusyInputState \<Rightarrow> InFlightOperation \<Rightarrow> BusyInput \<Rightarrow> BusyInputMode \<Rightarrow>
     BusyInputAction list \<Rightarrow> BusyInputOutcome outcome option" where
  "apply_mode 0 policy state input requested_mode mode fallback_used prefix_actions = None"
| "apply_mode (Suc n) policy state input requested_mode mode fallback_used prefix_actions =
     (case busy_active state of
        None \<Rightarrow>
          Some (Inr \<lparr>out_requested_mode = requested_mode, out_mode_used = mode,
            out_fallback_used = fallback_used, out_disposition = StartNow,
            out_actions = prefix_actions @ [StartInput (inp_id input)], out_state = state\<rparr>)
      | Some active \<Rightarrow>
          (case mode of
             Queue \<Rightarrow> Some (apply_queue policy state input requested_mode fallback_used prefix_actions)
           | Interrupt \<Rightarrow>
               Some (apply_interrupt policy state active input requested_mode fallback_used prefix_actions)
           | Steer \<Rightarrow> apply_steer n policy state active input requested_mode prefix_actions))"
| "apply_steer 0 policy state active input requested_mode actions = None"
| "apply_steer (Suc n) policy state active input requested_mode actions =
     (case steering_target active of
        Some target \<Rightarrow>
          Some (Inr \<lparr>out_requested_mode = requested_mode, out_mode_used = Steer,
            out_fallback_used = False, out_disposition = Steered,
            out_actions = actions @
              [AppendFollowUp (op_id active) (inp_id input) (target_context_id target)
                (target_task_id target)],
            out_state = state\<rparr>)
      | None \<Rightarrow>
          (let fallback = busy_unsupported_steer_fallback policy
           in apply_mode n policy state input requested_mode fallback True
                (actions @ [UnsupportedSteerFallback (inp_id input) fallback (steer_reason active)])))"

definition apply_busy_input ::
  "nat \<Rightarrow> BusyInputConfig \<Rightarrow> BusyInputState \<Rightarrow> BusyInput \<Rightarrow> BusyInputOutcome outcome option" where
  "apply_busy_input fuel policy state input =
     apply_mode fuel policy state input (busy_mode policy) (busy_mode policy) False []"

subsection \<open>What evaluation does\<close>

text \<open>Positions number the queue from one, and the queue is within the configured depth.\<close>

definition queue_ok :: "BusyInputConfig \<Rightarrow> BusyInputState \<Rightarrow> bool" where
  "queue_ok policy s \<longleftrightarrow>
     map queued_position (busy_queued_inputs s) = [1..<Suc (queue_depth s)] \<and>
     queue_depth s \<le> unat (busy_max_queue_depth policy)"

definition queued_inputs :: "BusyInputState \<Rightarrow> BusyInput list" where
  "queued_inputs s = map queued_input (busy_queued_inputs s)"

definition queue_full :: "BusyInputConfig \<Rightarrow> BusyInputState \<Rightarrow> bool" where
  "queue_full policy s \<longleftrightarrow> unat (busy_max_queue_depth policy) \<le> queue_depth s"

text \<open>
  The specification decides in one step: the input starts when nothing is active, is steered to the
  active operation when the policy asks for it and the operation can take it, and otherwise waits in
  the queue, after marking the operation interrupted when the mode in effect is interrupt.
\<close>

definition falls_back :: "BusyInputConfig \<Rightarrow> InFlightOperation \<Rightarrow> bool" where
  "falls_back policy active \<longleftrightarrow> busy_mode policy = Steer \<and> steering_target active = None"

definition effective_mode :: "BusyInputConfig \<Rightarrow> InFlightOperation \<Rightarrow> BusyInputMode" where
  "effective_mode policy active =
     (if falls_back policy active then busy_unsupported_steer_fallback policy else busy_mode policy)"

definition enqueue :: "BusyInput \<Rightarrow> BusyInputState \<Rightarrow> BusyInputState" where
  "enqueue input s =
     s\<lparr>busy_queued_inputs := busy_queued_inputs s @
        [\<lparr>queued_position = queue_depth s + 1, queued_input = input\<rparr>]\<rparr>"

definition refuses :: "BusyInputConfig \<Rightarrow> BusyInputState \<Rightarrow> bool" where
  "refuses policy s \<longleftrightarrow>
     (\<exists>active. busy_active s = Some active \<and> effective_mode policy active \<noteq> Steer) \<and> queue_full policy s"

definition decision :: "BusyInputConfig \<Rightarrow> BusyInput \<Rightarrow> BusyInputState \<Rightarrow> BusyInputOutcome" where
  "decision policy input s =
     (case busy_active s of
        None \<Rightarrow>
          \<lparr>out_requested_mode = busy_mode policy, out_mode_used = busy_mode policy,
           out_fallback_used = False, out_disposition = StartNow,
           out_actions = [StartInput (inp_id input)], out_state = s\<rparr>
      | Some active \<Rightarrow>
          (let mode = effective_mode policy active;
               note =
                 (if falls_back policy active
                  then [UnsupportedSteerFallback (inp_id input) mode (steer_reason active)] else []);
               wait = QueueInput (inp_id input) (queue_depth s + 1)
           in \<lparr>out_requested_mode = busy_mode policy, out_mode_used = mode,
               out_fallback_used = falls_back policy active,
               out_disposition = (case mode of Queue \<Rightarrow> Queued | Interrupt \<Rightarrow> InterruptQueued | Steer \<Rightarrow> Steered),
               out_actions = note @
                 (case mode of
                    Queue \<Rightarrow> [wait]
                  | Interrupt \<Rightarrow> interrupt_actions policy active @ [wait]
                  | Steer \<Rightarrow>
                      [AppendFollowUp (op_id active) (inp_id input) (op_context_id active)
                        (op_task_id active)]),
               out_state =
                 (case mode of
                    Queue \<Rightarrow> enqueue input s
                  | Interrupt \<Rightarrow> enqueue input (s\<lparr>busy_active := Some (active\<lparr>op_state := Interrupting\<rparr>)\<rparr>)
                  | Steer \<Rightarrow> s)\<rparr>))"

lemma push_queue_Inr:
  "push_queue policy s input = Inr r \<longleftrightarrow> \<not> queue_full policy s \<and> r = (enqueue input s, queue_depth s + 1)"
  by (auto simp: push_queue_def queue_full_def queue_depth_def enqueue_def Let_def)

lemma push_queue_free: "\<not> queue_full policy s \<Longrightarrow> push_queue policy s input = Inr (enqueue input s, queue_depth s + 1)"
  by (simp add: push_queue_Inr)

lemma push_queue_full:
  "queue_full policy s \<Longrightarrow> \<exists>e. push_queue policy s input = Inl e \<and> err_category e = Cat_Orchestration"
  by (simp add: push_queue_def queue_full_def queue_depth_def Let_def)

lemma queue_active [simp]:
  "queue_full policy (s\<lparr>busy_active := a\<rparr>) = queue_full policy s"
  "queue_depth (s\<lparr>busy_active := a\<rparr>) = queue_depth s"
  "queue_ok policy (s\<lparr>busy_active := a\<rparr>) = queue_ok policy s"
  "queued_inputs (s\<lparr>busy_active := a\<rparr>) = queued_inputs s"
  by (simp_all add: queue_full_def queue_depth_def queue_ok_def queued_inputs_def)

lemma last_enqueued [simp]: "busy_queued_inputs (enqueue input s) ! queue_depth s =
    \<lparr>queued_position = queue_depth s + 1, queued_input = input\<rparr>"
  by (simp add: enqueue_def queue_depth_def nth_append)

lemma last_enqueued_active [simp]:
  "busy_queued_inputs (enqueue input (s\<lparr>busy_active := a\<rparr>)) ! queue_depth s =
    \<lparr>queued_position = queue_depth s + 1, queued_input = input\<rparr>"
  using last_enqueued [of input "s\<lparr>busy_active := a\<rparr>"] by simp

lemma queue_ok_enqueue: "queue_ok policy s \<Longrightarrow> \<not> queue_full policy s \<Longrightarrow> queue_ok policy (enqueue input s)"
  by (simp add: queue_ok_def queue_full_def enqueue_def queue_depth_def)

lemma queued_enqueue [simp]: "queued_inputs (enqueue input s) = queued_inputs s @ [input]"
  by (simp add: queued_inputs_def enqueue_def)

subsection \<open>Depth of the calls\<close>

text \<open>The two functions call each other forever when steering is asked for, cannot be done, and is
  its own fallback.\<close>

definition steers_forever :: "BusyInputConfig \<Rightarrow> BusyInputState \<Rightarrow> bool" where
  "steers_forever policy s \<longleftrightarrow>
     (\<exists>active. busy_active s = Some active \<and> falls_back policy active) \<and>
     busy_unsupported_steer_fallback policy = Steer"

lemma apply_steer_forever:
  assumes "busy_active s = Some active" "steering_target active = None"
    and "busy_unsupported_steer_fallback policy = Steer"
  shows "apply_mode n policy s input requested Steer used actions = None \<and>
    apply_steer n policy s active input requested actions = None"
proof (induction n arbitrary: used actions rule: less_induct)
  case (less n)
  show ?case
  proof (cases n)
    case (Suc m)
    then show ?thesis using less [of m] assms by (simp add: Let_def)
  qed simp
qed

lemma apply_busy_input_refusal:
  assumes "\<not> steers_forever policy s" "refuses policy s"
  shows "\<exists>e. apply_busy_input (Suc (Suc (Suc n))) policy s input = Some (Inl e) \<and>
    err_category e = Cat_Orchestration"
proof -
  obtain active where a: "busy_active s = Some active" "effective_mode policy active \<noteq> Steer"
    and full: "queue_full policy s" using assms(2) by (auto simp: refuses_def)
  obtain e where e: "push_queue policy s input = Inl e" "err_category e = Cat_Orchestration"
    using push_queue_full [OF full] by blast
  obtain e' where e': "push_queue policy (s\<lparr>busy_active := Some (active\<lparr>op_state := Interrupting\<rparr>)\<rparr>) input = Inl e'"
    "err_category e' = Cat_Orchestration"
    using push_queue_full [of policy "s\<lparr>busy_active := Some (active\<lparr>op_state := Interrupting\<rparr>)\<rparr>" input] full
    by auto
  show ?thesis
    using a e e'
    by (auto simp: apply_busy_input_def effective_mode_def falls_back_def apply_queue_def apply_interrupt_def
        Let_def split: BusyInputMode.splits option.splits if_splits)
qed

lemma apply_busy_input_decision:
  assumes "\<not> steers_forever policy s" "\<not> refuses policy s"
  shows "apply_busy_input (Suc (Suc (Suc n))) policy s input = Some (Inr (decision policy input s))"
proof (cases "busy_active s")
  case None
  then show ?thesis by (simp add: apply_busy_input_def decision_def)
next
  case (Some active)
  have free: "effective_mode policy active \<noteq> Steer \<Longrightarrow> \<not> queue_full policy s"
    using assms(2) Some by (auto simp: refuses_def)
  have no_loop: "falls_back policy active \<Longrightarrow> busy_unsupported_steer_fallback policy \<noteq> Steer"
    using assms(1) Some by (auto simp: steers_forever_def)
  have target: "steering_target active = Some t \<Longrightarrow>
      target_context_id t = op_context_id active \<and> target_task_id t = op_task_id active" for t
    by (auto simp: steering_target_def split: if_splits)
  show ?thesis
    using Some free no_loop target
    by (cases "busy_mode policy"; cases "busy_unsupported_steer_fallback policy"; cases "steering_target active")
      (auto simp: apply_busy_input_def decision_def effective_mode_def falls_back_def apply_queue_def
        apply_interrupt_def push_queue_free Let_def)
qed

lemma apply_busy_input_forever: "steers_forever policy s \<Longrightarrow> apply_busy_input n policy s input = None"
  using apply_steer_forever by (auto simp: steers_forever_def falls_back_def apply_busy_input_def)

lemma apply_busy_input_enough:
  "apply_busy_input (3 + n) policy s input = apply_busy_input 3 policy s input"
proof -
  have "apply_busy_input (Suc (Suc (Suc n))) policy s input = apply_busy_input (Suc (Suc (Suc 0))) policy s input"
  proof (cases "busy_active s")
    case (Some active)
    show ?thesis
    proof (cases "steers_forever policy s")
      case False
      then have no_loop: "falls_back policy active \<Longrightarrow> busy_unsupported_steer_fallback policy \<noteq> Steer"
        using Some by (auto simp: steers_forever_def)
      then show ?thesis using Some
        by (cases "busy_mode policy"; cases "steering_target active")
          (auto simp: apply_busy_input_def falls_back_def Let_def split: BusyInputMode.splits)
    qed (simp only: apply_busy_input_forever)
  qed (simp add: apply_busy_input_def)
  then show ?thesis by (simp only: numeral_3_eq_3 add_Suc add_0)
qed

lemma busy_ok_not_forever: "busy_ok policy \<Longrightarrow> \<not> steers_forever policy s"
  by (simp add: busy_ok_def steers_forever_def)

subsection \<open>Properties\<close>

text \<open>An input and an idle source, used by the witnesses.\<close>

definition demo_busy_input :: BusyInput where
  "demo_busy_input = \<lparr>inp_id = ''in-1'', inp_source = \<lparr>src_kind = ''cli'', src_id = ''me''\<rparr>,
     inp_agent_alias = ''echo'', inp_context_id = None, inp_task_id = None, inp_metadata = []\<rparr>"

definition idle_source :: BusyInputState where
  "idle_source = \<lparr>busy_active = None, busy_queued_inputs = []\<rparr>"

text \<open>C21. Evaluation ends unless steering is requested, the active operation cannot be steered, and the
  configured fallback is steering again; three nested calls are then enough, and under a policy that
  passes validation evaluation always ends.\<close>

theorem busy_input_terminates:
  "((\<exists>fuel r. apply_busy_input fuel policy s input = Some r) \<longleftrightarrow>
      \<not> (busy_mode policy = Steer \<and> busy_unsupported_steer_fallback policy = Steer \<and>
         (\<exists>active. busy_active s = Some active \<and> steering_target active = None))) \<and>
   apply_busy_input (3 + n) policy s input = apply_busy_input 3 policy s input \<and>
   (busy_input_validate pfx policy = Inr () \<longrightarrow> (\<exists>r. apply_busy_input 3 policy s input = Some r))"
proof -
  have ends: "\<exists>r. apply_busy_input 3 policy s input = Some r" if "\<not> steers_forever policy s"
    using apply_busy_input_decision [OF that, of 0 input] apply_busy_input_refusal [OF that, of 0 input]
    by (auto simp: numeral_3_eq_3)
  have "(\<exists>fuel r. apply_busy_input fuel policy s input = Some r) \<longleftrightarrow> \<not> steers_forever policy s"
    using ends apply_busy_input_forever by fastforce
  moreover have "steers_forever policy s \<longleftrightarrow>
      busy_mode policy = Steer \<and> busy_unsupported_steer_fallback policy = Steer \<and>
         (\<exists>active. busy_active s = Some active \<and> steering_target active = None)"
    by (auto simp: steers_forever_def falls_back_def)
  moreover have "busy_input_validate pfx policy = Inr () \<longrightarrow> (\<exists>r. apply_busy_input 3 policy s input = Some r)"
    using ends busy_ok_not_forever [of policy s] by (auto simp: result_iff)
  ultimately show ?thesis using apply_busy_input_enough by blast
qed

theorem busy_input_terminates_witness:
  "\<exists>r. apply_busy_input 3 BusyInputConfig_default idle_source demo_busy_input = Some r"
proof -
  have "busy_input_validate ''gateway.busy_input'' BusyInputConfig_default = Inr ()" by code_simp
  then show ?thesis using busy_input_terminates by blast
qed

text \<open>C20. Under a policy whose fallback is not steering, evaluation is the one-step decision: the input is
  refused, with an orchestration error, exactly when it would have to wait in a full queue, whether
  the mode in effect is queue or interrupt; otherwise the mode used, the disposition, the actions in
  order and the new state are those of the specification.\<close>

theorem busy_input_refines:
  assumes "busy_unsupported_steer_fallback policy \<noteq> Steer"
  shows "case apply_busy_input 3 policy s input of
      None \<Rightarrow> False
    | Some (Inl e) \<Rightarrow> refuses policy s \<and> err_category e = Cat_Orchestration
    | Some (Inr outcome) \<Rightarrow> \<not> refuses policy s \<and> outcome = decision policy input s"
proof -
  have "\<not> steers_forever policy s" using assms by (simp add: steers_forever_def)
  then show ?thesis
    using apply_busy_input_decision [of policy s 0 input] apply_busy_input_refusal [of policy s 0 input]
    by (cases "refuses policy s") (auto simp: numeral_3_eq_3)
qed

text \<open>A source whose inputs are evaluated one after the other, up to the first refusal.\<close>

fun feed :: "BusyInputConfig \<Rightarrow> BusyInputState \<Rightarrow> BusyInput list \<Rightarrow> BusyInputState option" where
  "feed policy s [] = Some s"
| "feed policy s (input # rest) =
     (case apply_busy_input 3 policy s input of
        Some (Inr outcome) \<Rightarrow> feed policy (out_state outcome) rest
      | _ \<Rightarrow> None)"

definition waits :: "BusyInputConfig \<Rightarrow> BusyInputState \<Rightarrow> bool" where
  "waits policy s \<longleftrightarrow> (\<exists>active. busy_active s = Some active \<and> effective_mode policy active \<noteq> Steer)"

lemma refuses_waits: "refuses policy s \<longleftrightarrow> waits policy s \<and> queue_full policy s"
  by (simp add: refuses_def waits_def)

lemma waits_decision: "waits policy (out_state (decision policy input s)) = waits policy s"
proof (cases "busy_active s")
  case (Some active)
  have "steering_target (active\<lparr>op_state := x\<rparr>) = steering_target active" for x
    by (simp add: steering_target_def)
  then have "effective_mode policy (active\<lparr>op_state := x\<rparr>) = effective_mode policy active" for x
    by (simp add: effective_mode_def falls_back_def)
  then show ?thesis
    using Some by (auto simp: waits_def decision_def Let_def enqueue_def split: BusyInputMode.split)
qed (simp add: waits_def decision_def)

lemma decision_queue:
  "queued_inputs (out_state (decision policy input s)) = queued_inputs s @ (if waits policy s then [input] else [])"
  "queue_depth (out_state (decision policy input s)) = queue_depth s + (if waits policy s then 1 else 0)"
  "queue_ok policy s \<Longrightarrow> \<not> refuses policy s \<Longrightarrow> queue_ok policy (out_state (decision policy input s))"
proof -
  have d: "queue_depth (enqueue input s') = queue_depth s' + 1" for s' by (simp add: enqueue_def queue_depth_def)
  show "queued_inputs (out_state (decision policy input s)) = queued_inputs s @ (if waits policy s then [input] else [])"
    "queue_depth (out_state (decision policy input s)) = queue_depth s + (if waits policy s then 1 else 0)"
    by (auto simp: decision_def waits_def Let_def d split: option.split BusyInputMode.split)
  show "queue_ok policy s \<Longrightarrow> \<not> refuses policy s \<Longrightarrow> queue_ok policy (out_state (decision policy input s))"
    by (auto simp: decision_def refuses_def Let_def queue_ok_enqueue split: option.split BusyInputMode.split)
qed

lemma feed_spec:
  assumes "busy_unsupported_steer_fallback policy \<noteq> Steer" "queue_ok policy s"
  shows "case feed policy s inputs of
      Some s' \<Rightarrow> queue_ok policy s' \<and>
        queued_inputs s' = queued_inputs s @ (if waits policy s then inputs else [])
    | None \<Rightarrow> waits policy s \<and> unat (busy_max_queue_depth policy) < queue_depth s + length inputs"
  using assms(2)
proof (induction inputs arbitrary: s)
  case (Cons input inputs)
  have loop: "\<not> steers_forever policy s" using assms(1) by (simp add: steers_forever_def)
  show ?case
  proof (cases "refuses policy s")
    case True
    then obtain e where "apply_busy_input 3 policy s input = Some (Inl e)"
      using apply_busy_input_refusal [OF loop True, of 0 input] by (auto simp: numeral_3_eq_3)
    then show ?thesis using True by (simp add: refuses_waits queue_full_def)
  next
    case False
    have a: "apply_busy_input 3 policy s input = Some (Inr (decision policy input s))"
      using apply_busy_input_decision [OF loop False, of 0 input] by (simp add: numeral_3_eq_3)
    show ?thesis
      using Cons.IH [OF decision_queue(3) [OF Cons.prems False, of input]]
      by (simp add: a waits_decision decision_queue(1,2) split: option.splits if_splits)
  qed
qed simp

text \<open>Inputs evaluated one after the other keep the queue numbered from one and within its configured
  depth, and wait in the order of their arrival; evaluation stops early only because the inputs do
  not fit into the queue.\<close>

lemma busy_queue_fifo:
  assumes "busy_input_validate pfx policy = Inr ()" "queue_ok policy s"
  shows "case feed policy s inputs of
      Some s' \<Rightarrow> queue_ok policy s' \<and>
        queued_inputs s' = queued_inputs s @ (if waits policy s then inputs else [])
    | None \<Rightarrow> waits policy s \<and> unat (busy_max_queue_depth policy) < queue_depth s + length inputs"
  using assms by (intro feed_spec) (auto simp: result_iff busy_ok_def)

theorem busy_input_refines_witness:
  "\<exists>outcome. apply_busy_input 3 BusyInputConfig_default idle_source demo_busy_input =
     Some (Inr outcome) \<and> out_disposition outcome = StartNow"
proof -
  have "busy_unsupported_steer_fallback BusyInputConfig_default \<noteq> Steer" by (simp add: BusyInputConfig_default_def)
  from busy_input_refines [OF this, of "idle_source" demo_busy_input]
  show ?thesis
    by (auto simp: refuses_def decision_def idle_source_def split: option.splits sum.splits)
qed

end
