(* ===== verification/A2a_Service.thy ===== *)
theory A2a_Service
  imports Core_Metadata Core_Config Store_Types
begin

text \<open>
  Service parameters and authentication headers of \<open>crates/missive-a2a/src/lib.rs\<close>, and the
  assembly of service parameters from the configuration and the global flags in
  \<open>crates/missive-cli/src/lib.rs\<close>.  The header types of the \<open>http\<close> crate and the two header names
  of the SDK are parameters: \<open>hdr_name\<close> is \<open>HeaderName::from_bytes\<close> with the normalised name,
  \<open>hdr_value\<close> is \<open>HeaderValue::from_str\<close>.  A request is the list of the headers put on it.
\<close>

record http_headers =
  hdr_name :: "string \<Rightarrow> std_error + string"
  hdr_value :: "string \<Rightarrow> std_error + string"
  svc_param_version :: string
  svc_param_extensions :: string

type_synonym request = "(string \<times> string) list"

subsection \<open>Service parameters\<close>

record ServiceParameters =
  sp_protocol_version :: string
  sp_extensions :: "string list"
  sp_extra :: "(string, string) btree_map"

definition validate_protocol_version_text :: "string \<Rightarrow> unit outcome" where
  "validate_protocol_version_text value =
     checks
       [fail_if (value = [] \<or> 64 < length value)
          (with_help (error_validation [Lit ''A2A protocol version must be 1 to 64 bytes''])
            ''Use a short version such as 1.0.''),
        fail_if (list_ex (\<lambda>b. \<not> (is_ascii_alphanumeric b \<or> b \<in> {CHR ''.'', CHR ''-'', CHR ''_''})) value)
          (with_help (error_validation [Lit ''A2A protocol version contains unsupported characters''])
            (''Use ASCII letters, digits, '' @ [CHR 0x27, CHR ''.'', CHR 0x27] @ '', '' @
             [CHR 0x27, CHR ''-'', CHR 0x27] @ '' or '' @ [CHR 0x27, CHR ''_'', CHR 0x27] @ '' only.''))]"

definition a2a_validate_service_parameter_value :: "string \<Rightarrow> string \<Rightarrow> unit outcome" where
  "a2a_validate_service_parameter_value name value =
     checks
       [fail_if (trim value = [])
          (error_validation [Lit ''A2A service parameter '', Dbg name, Lit '' cannot be empty'']),
        fail_if (8 * 1024 < length value)
          (error_validation [Lit ''A2A service parameter '', Dbg name, Lit '' must be at most 8192 bytes'']),
        fail_if (has_control value)
          (error_validation
            [Lit ''A2A service parameter '', Dbg name, Lit '' cannot contain control characters''])]"

definition validate_extension_value :: "string \<Rightarrow> unit outcome" where
  "validate_extension_value value =
     checks
       [a2a_validate_service_parameter_value ''A2A-Extensions'' value,
        fail_if (has_whitespace value \<or> CHR '','' \<in> set value)
          (with_help
            (error_validation [Lit ''A2A extension identifiers must not contain whitespace or commas''])
            ''Use compact URI-like extension identifiers.'')]"

definition service_parameter_header_name :: "http_headers \<Rightarrow> string \<Rightarrow> string outcome" where
  "service_parameter_header_name H name =
     (case hdr_name H name of
        Inl error \<Rightarrow>
          Inl (with_help
            (with_source
              (error_validation
                [Lit ''A2A service parameter name '', Dbg name, Lit '' is not a valid HTTP header name'']) error)
            ''Use ASCII HTTP header names such as A2A-Trace or A2A-Tenant.'')
      | Inr header \<Rightarrow> Inr header)"

definition service_parameter_header_value :: "http_headers \<Rightarrow> string \<Rightarrow> string \<Rightarrow> string outcome" where
  "service_parameter_header_value H name value =
     and_then (a2a_validate_service_parameter_value name value) (\<lambda>_.
       case hdr_value H value of
         Inl error \<Rightarrow>
           Inl (with_help
             (with_source
               (error_validation
                 [Lit ''A2A service parameter '', Dbg name, Lit '' is not a valid HTTP header value'']) error)
             ''Avoid control characters and newline characters in service parameters.'')
       | Inr header \<Rightarrow> Inr header)"

definition is_reserved_service_parameter_name :: "http_headers \<Rightarrow> string \<Rightarrow> bool" where
  "is_reserved_service_parameter_name H name \<longleftrightarrow>
     eq_ignore_ascii_case name (svc_param_version H) \<or> eq_ignore_ascii_case name (svc_param_extensions H)"

definition validate_extra_service_parameter :: "http_headers \<Rightarrow> string \<times> string \<Rightarrow> unit outcome" where
  "validate_extra_service_parameter H e =
     (let (name, value) = e
      in and_then (service_parameter_header_name H name) (\<lambda>_.
           checks
             [fail_if (is_reserved_service_parameter_name H name)
                (with_help
                  (error_validation
                    [Lit ''extra A2A service parameters must not redefine reserved header '', Dbg name])
                  ''Use protocol_version for A2A-Version and extensions for A2A-Extensions.''),
              a2a_validate_service_parameter_value name value]))"

fun validate_extension_values :: "string list \<Rightarrow> string list \<Rightarrow> unit outcome" where
  "validate_extension_values seen [] = Inr ()"
| "validate_extension_values seen (extension # rest) =
     and_then (validate_extension_value extension) (\<lambda>_.
       if extension \<in> set seen then
         Inl (with_help (error_validation [Lit ''duplicate A2A extension '', Dbg extension])
           ''List each A2A extension at most once.'')
       else validate_extension_values (extension # seen) rest)"

definition service_parameters_validate :: "http_headers \<Rightarrow> ServiceParameters \<Rightarrow> unit outcome" where
  "service_parameters_validate H sp =
     checks
       [a2a_validate_service_parameter_value ''A2A-Version'' (sp_protocol_version sp),
        validate_protocol_version_text (sp_protocol_version sp),
        validate_extension_values [] (sp_extensions sp),
        try_for_each (validate_extra_service_parameter H) (sp_extra sp)]"

definition ServiceParameters_new ::
  "http_headers \<Rightarrow> string \<Rightarrow> string list \<Rightarrow> (string, string) btree_map \<Rightarrow> ServiceParameters outcome" where
  "ServiceParameters_new H version extensions extra =
     (let sp = \<lparr>sp_protocol_version = version, sp_extensions = extensions, sp_extra = extra\<rparr>
      in and_then (service_parameters_validate H sp) (\<lambda>_. Inr sp))"

fun apply_extra :: "http_headers \<Rightarrow> (string \<times> string) list \<Rightarrow> request \<Rightarrow> request outcome" where
  "apply_extra H [] request = Inr request"
| "apply_extra H ((name, value) # rest) request =
     and_then (service_parameter_header_name H name) (\<lambda>header_name.
     and_then (service_parameter_header_value H name value) (\<lambda>header_value.
       apply_extra H rest (request @ [(header_name, header_value)])))"

definition apply_service_parameters :: "http_headers \<Rightarrow> ServiceParameters \<Rightarrow> request \<Rightarrow> request outcome" where
  "apply_service_parameters H sp request =
     and_then (service_parameters_validate H sp) (\<lambda>_.
     and_then (service_parameter_header_value H (svc_param_version H) (sp_protocol_version sp)) (\<lambda>version.
     and_then
       (if sp_extensions sp = [] then Inr (request @ [(svc_param_version H, version)])
        else
          and_then
            (service_parameter_header_value H (svc_param_extensions H) (join_with '', '' (sp_extensions sp)))
            (\<lambda>value. Inr (request @ [(svc_param_version H, version), (svc_param_extensions H, value)])))
       (apply_extra H (sp_extra sp))))"

definition record_metadata :: "ServiceParameters \<Rightarrow> Metadata \<Rightarrow> Metadata outcome" where
  "record_metadata sp m =
     and_then (metadata_insert_str m METADATA_A2A_PROTOCOL_VERSION (sp_protocol_version sp)) (\<lambda>(m, old).
     and_then
       (if sp_extensions sp = [] then Inr (m, None)
        else metadata_insert m METADATA_A2A_EXTENSIONS (JArray (map JString (sp_extensions sp))))
       (\<lambda>(m, old).
     and_then
       (if sp_extra sp = [] then Inr (m, None)
        else metadata_insert m METADATA_A2A_SERVICE_PARAMETERS
          (JObject (map (\<lambda>(k, v). (k, JString v)) (sp_extra sp))))
       (\<lambda>(m, old). Inr m)))"

definition to_metadata :: "ServiceParameters \<Rightarrow> Metadata outcome" where
  "to_metadata sp = record_metadata sp metadata_new"

subsection \<open>Authentication headers\<close>

type_synonym AuthHeaders = "(string, string) btree_map"

definition AUTH_REDACTED :: string where
  "AUTH_REDACTED = ''[REDACTED]''"

definition auth_header_name :: "http_headers \<Rightarrow> string \<Rightarrow> string outcome" where
  "auth_header_name H name =
     (if name = [] then Inl (error_validation [Lit ''auth header name cannot be empty''])
      else
        (case hdr_name H name of
           Inl error \<Rightarrow>
             Inl (with_help
               (with_source (error_validation [Lit ''auth header name is not a valid HTTP header name'']) error)
               ''Use ASCII HTTP header names such as Authorization or X-Api-Key.'')
         | Inr header \<Rightarrow> Inr header))"

definition auth_header_value :: "http_headers \<Rightarrow> string \<Rightarrow> string \<Rightarrow> string outcome" where
  "auth_header_value H name value =
     and_then
       (checks
         [fail_if (value = [])
            (error_validation [Lit ''auth header '', Dbg name, Lit '' value cannot be empty'']),
          fail_if (8 * 1024 < length value)
            (error_validation [Lit ''auth header '', Dbg name, Lit '' value must be at most 8192 bytes''])])
     (\<lambda>_. case hdr_value H value of
        Inl error \<Rightarrow>
          Inl (with_help
            (with_source
              (error_validation [Lit ''auth header '', Dbg name, Lit '' value is not a valid HTTP header value''])
              error)
            ''Avoid control characters and newline characters in auth headers.'')
      | Inr header \<Rightarrow> Inr header)"

definition auth_headers_insert :: "http_headers \<Rightarrow> string \<Rightarrow> string \<Rightarrow> AuthHeaders \<Rightarrow> AuthHeaders outcome" where
  "auth_headers_insert H name value headers =
     (let name = trim name; value = trim value
      in and_then (auth_header_name H name) (\<lambda>header_name.
         and_then (auth_header_value H name value) (\<lambda>_.
           Inr (bm_insert header_name value headers))))"

fun apply_auth_headers :: "http_headers \<Rightarrow> AuthHeaders \<Rightarrow> request \<Rightarrow> request outcome" where
  "apply_auth_headers H [] request = Inr request"
| "apply_auth_headers H ((name, value) # rest) request =
     and_then (auth_header_name H name) (\<lambda>header_name.
     and_then (auth_header_value H name value) (\<lambda>header_value.
       apply_auth_headers H rest (request @ [(header_name, header_value)])))"

definition redact_auth_header_value :: "string \<Rightarrow> string \<Rightarrow> string" where
  "redact_auth_header_value name value =
     (let normalized = to_ascii_lowercase (filter is_ascii_alphanumeric name)
      in if (normalized = ''authorization'' \<or> normalized = ''proxyauthorization'') \<and>
            has_whitespace (trim value)
         then before_char is_whitespace (trim value) @ '' '' @ AUTH_REDACTED
         else AUTH_REDACTED)"

definition auth_headers_redacted :: "AuthHeaders \<Rightarrow> (string, string) btree_map" where
  "auth_headers_redacted headers =
     map (\<lambda>(name, value). (name, redact_auth_header_value name value)) headers"

subsection \<open>Assembly from the configuration and the flags\<close>

record GlobalArgs =
  globals_protocol_version :: "string option"
  globals_a2a_extensions :: "string list"
  globals_service_params :: "string list"
  globals_bearer_token_env :: "string option"
  globals_headers :: "string list"

definition split_global_key_value :: "string \<Rightarrow> string \<Rightarrow> (string \<times> string) outcome" where
  "split_global_key_value flag value =
     (case dropWhile (\<lambda>c. c \<noteq> CHR ''='') value of
        [] \<Rightarrow> Inl (error_validation [Lit (flag @ '' value ''), Dbg value, Lit '' must use NAME=VALUE syntax''])
      | c # raw_value \<Rightarrow>
          (let key = takeWhile (\<lambda>c. c \<noteq> CHR ''='') value
           in if key = [] \<or> raw_value = [] then
                Inl (error_validation
                  [Lit (flag @ '' value ''), Dbg value, Lit '' must include a non-empty name and value''])
              else Inr (key, raw_value)))"

fun insert_service_params ::
  "string list \<Rightarrow> (string, string) btree_map \<Rightarrow> (string, string) btree_map outcome" where
  "insert_service_params [] extra = Inr extra"
| "insert_service_params (value # values) extra =
     and_then (split_global_key_value ''--service-param'' value) (\<lambda>(name, parameter_value).
       insert_service_params values (bm_insert name parameter_value extra))"

definition service_parameters_from_config_and_globals ::
  "http_headers \<Rightarrow> LoadedConfig \<Rightarrow> GlobalArgs \<Rightarrow> ServiceParameters outcome" where
  "service_parameters_from_config_and_globals H l globals =
     and_then (protocol_config l) (\<lambda>protocol.
     and_then (insert_service_params (globals_service_params globals) (protocol_service_parameters protocol))
       (\<lambda>extra.
         ServiceParameters_new H (unwrap_or (globals_protocol_version globals) (protocol_version protocol))
           (protocol_extensions protocol @ globals_a2a_extensions globals) extra))"

subsection \<open>What validation accepts\<close>

text \<open>Documented behaviour of the \<open>http\<close> crate and of the SDK: names of letters, digits and hyphens
  are header names up to 65535 bytes, and the two reserved names.\<close>

definition header_law :: "http_headers \<Rightarrow> bool" where
  "header_law H \<longleftrightarrow>
     (\<forall>n. token_ok [CHR ''-''] n \<longrightarrow> length n \<le> 65535 \<longrightarrow> hdr_name H n = Inr (to_ascii_lowercase n)) \<and>
     svc_param_version H = ''A2A-Version'' \<and> svc_param_extensions H = ''A2A-Extensions''"

definition parameter_value_ok :: "string \<Rightarrow> bool" where
  "parameter_value_ok v \<longleftrightarrow> text_ok v \<and> length v \<le> 8192"

lemma a2a_validate_value_Inr [result_iff]: "a2a_validate_service_parameter_value n v = Inr u \<longleftrightarrow> parameter_value_ok v"
  by (auto simp: a2a_validate_service_parameter_value_def parameter_value_ok_def text_ok_def)

lemma validate_extension_value_Inr [result_iff]:
  "validate_extension_value v = Inr u \<longleftrightarrow> parameter_value_ok v \<and> \<not> has_whitespace v \<and> CHR '','' \<notin> set v"
  by (auto simp: validate_extension_value_def result_iff)

lemma validate_protocol_version_text_Inr [result_iff]:
  "validate_protocol_version_text v = Inr u \<longleftrightarrow>
     token_ok [CHR ''.'', CHR ''-'', CHR ''_''] v \<and> length v \<le> 64"
  by (auto simp: validate_protocol_version_text_def token_ok_def list_ex_iff)

lemma validate_extension_values_Inr:
  "validate_extension_values seen es = Inr u \<longleftrightarrow>
     (\<forall>e \<in> set es. parameter_value_ok e \<and> \<not> has_whitespace e \<and> CHR '','' \<notin> set e) \<and>
     distinct es \<and> set es \<inter> set seen = {}"
  by (induction es arbitrary: seen) (auto simp: result_iff)

lemma reserved_name:
  assumes "header_law H"
  shows "is_reserved_service_parameter_name H n \<longleftrightarrow> to_ascii_lowercase n \<in> {''a2a-version'', ''a2a-extensions''}"
proof -
  have "to_ascii_lowercase ''A2A-Version'' = ''a2a-version''"
    "to_ascii_lowercase ''A2A-Extensions'' = ''a2a-extensions''" by code_simp+
  with assms show ?thesis
    unfolding is_reserved_service_parameter_name_def eq_ignore_ascii_case_def header_law_def by simp
qed

lemma validate_extra_Inr:
  assumes "header_law H" "token_ok [CHR ''-''] n" "length n \<le> 65535"
  shows "validate_extra_service_parameter H (n, v) = Inr u \<longleftrightarrow>
    to_ascii_lowercase n \<notin> {''a2a-version'', ''a2a-extensions''} \<and> parameter_value_ok v"
proof -
  have "hdr_name H n = Inr (to_ascii_lowercase n)" using assms by (simp add: header_law_def)
  then show ?thesis
    by (simp add: validate_extra_service_parameter_def service_parameter_header_name_def
        reserved_name [OF assms(1)] result_iff)
qed

text \<open>A protocol section that passes the configuration's validation passes this one.\<close>

lemma protocol_ok_service_parameters:
  assumes "protocol_ok c" "header_law H" "\<forall>(n, v) \<in> set (protocol_service_parameters c). length n \<le> 65535"
  shows "service_parameters_validate H
    \<lparr>sp_protocol_version = protocol_version c, sp_extensions = protocol_extensions c,
     sp_extra = protocol_service_parameters c\<rparr> = Inr ()"
proof -
  have "text_ok (protocol_version c)"
    using assms(1) by (auto simp: protocol_ok_def intro: token_text_ok)
  moreover have "\<forall>e \<in> set (protocol_service_parameters c). validate_extra_service_parameter H e = Inr ()"
    using assms validate_extra_Inr [OF assms(2)]
    by (fastforce simp: protocol_ok_def parameter_ok_def parameter_value_ok_def)
  ultimately show ?thesis using assms(1)
    by (auto simp: service_parameters_validate_def result_iff validate_extension_values_Inr
        protocol_ok_def extension_ok_def parameter_value_ok_def)
qed

lemma to_metadata_total: "\<exists>m. to_metadata sp = Inr m"
proof -
  have keys: "metadata_key_ok METADATA_A2A_PROTOCOL_VERSION" "metadata_key_ok METADATA_A2A_EXTENSIONS"
    "metadata_key_ok METADATA_A2A_SERVICE_PARAMETERS" by code_simp+
  have ins: "metadata_key_ok k \<Longrightarrow> metadata_insert m k v = Inr (bm_insert k v m, bm_get k m)" for k m v
    by (simp add: metadata_insert_Inr)
  show ?thesis
    by (simp add: to_metadata_def record_metadata_def metadata_insert_str_def ins keys)
qed

lemma apply_service_parameters_long:
  assumes "8192 < length (join_with '', '' (sp_extensions sp))"
  shows "\<not> is_ok (apply_service_parameters H sp request)"
proof -
  have "sp_extensions sp \<noteq> []" using assms by auto
  moreover have "\<not> parameter_value_ok (join_with '', '' (sp_extensions sp))" using assms by (simp add: parameter_value_ok_def)
  ultimately show ?thesis
    by (auto simp: apply_service_parameters_def and_then_Inr service_parameter_header_value_def result_iff)
qed

end
