(* ===== verification/Gateway_Jobs.thy ===== *)
theory Gateway_Jobs
  imports Store_Properties A2a_Service
begin

text \<open>
  \<open>crates/missive-gateway/src/jobs.rs\<close>: the background job manager.  It scans the job table,
  claims due jobs by marking them running under a lock that expires, executes them, and records the
  result as a terminal state or as a retry with backoff; each transition appends an event.  The
  execution of the four kinds of jobs talks to agents over the network: it is a parameter, which
  returns \<open>None\<close> when the worker task itself fails.  Readings of the clock and fresh identifiers
  are arguments, one \<open>tick\<close> per transition.
\<close>

subsection \<open>Durations and backoff\<close>

text \<open>A \<open>Duration\<close> in milliseconds.\<close>

type_synonym duration = nat

definition BACKGROUND_JOB_KIND_SEND :: string where
  "BACKGROUND_JOB_KIND_SEND = ''send''"

definition BACKGROUND_JOB_KIND_STREAM :: string where
  "BACKGROUND_JOB_KIND_STREAM = ''stream''"

definition BACKGROUND_JOB_KIND_WAIT :: string where
  "BACKGROUND_JOB_KIND_WAIT = ''wait''"

definition BACKGROUND_JOB_KIND_REDUCE :: string where
  "BACKGROUND_JOB_KIND_REDUCE = ''reduce''"

definition JOB_SOURCE :: string where
  "JOB_SOURCE = ''gateway:jobs''"

definition JOB_LOCK_TTL :: duration where
  "JOB_LOCK_TTL = 60 * 1000"

definition JOB_MIN_BACKOFF :: duration where
  "JOB_MIN_BACKOFF = 1 * 1000"

definition JOB_MAX_BACKOFF :: duration where
  "JOB_MAX_BACKOFF = 30 * 1000"

definition JOBS_REDACTED :: string where
  "JOBS_REDACTED = ''[REDACTED]''"

definition is_background_job_kind :: "string \<Rightarrow> bool" where
  "is_background_job_kind kind \<longleftrightarrow>
     kind \<in> {BACKGROUND_JOB_KIND_SEND, BACKGROUND_JOB_KIND_STREAM, BACKGROUND_JOB_KIND_WAIT,
       BACKGROUND_JOB_KIND_REDUCE}"

definition duration_millis :: "duration \<Rightarrow> u64" where
  "duration_millis d = (if d < 2 ^ 64 then of_nat d else - 1)"

definition saturating_mul_u64 :: "u64 \<Rightarrow> u64 \<Rightarrow> u64" where
  "saturating_mul_u64 a b = (if unat a * unat b < 2 ^ 64 then a * b else - 1)"

definition bounded_backoff :: "u32 \<Rightarrow> duration" where
  "bounded_backoff attempt =
     (let exponent = min (if attempt = 0 then 0 else attempt - 1) 5;
          multiplier = push_bit (unat exponent) (1 :: u64);
          millis = saturating_mul_u64 (duration_millis JOB_MIN_BACKOFF) multiplier
      in unat (min millis (duration_millis JOB_MAX_BACKOFF)))"

definition timestamp_after :: "'dt chrono \<Rightarrow> 'dt \<Rightarrow> duration \<Rightarrow> 'dt outcome" where
  "timestamp_after C now d =
     (let seconds = max (d div 1000) 1
      in if int seconds \<le> i64_max then
           from_unix_timestamp C (saturate_i64 (unix_timestamp C now + int seconds))
         else
           Inl (with_source (error_validation [Lit ''gateway job duration is too large''])
             try_from_int_error))"

definition saturating_succ_u32 :: "u32 \<Rightarrow> u32" where
  "saturating_succ_u32 n = (if n = - 1 then n else n + 1)"

subsection \<open>Redaction of event payloads\<close>

definition job_secret_names :: "string list" where
  "job_secret_names =
     [''authorization'', ''proxyauthorization'', ''token'', ''accesstoken'', ''refreshtoken'',
      ''apikey'', ''password'', ''secret'', ''credentials'', ''cookie'', ''setcookie'']"

definition job_is_secret_key :: "string \<Rightarrow> bool" where
  "job_is_secret_key key \<longleftrightarrow>
     to_ascii_lowercase (filter is_ascii_alphanumeric key) \<in> set job_secret_names"

text \<open>The entries of an object keep their order, so inserting them one by one rebuilds it.\<close>

fun redact_json :: "json \<Rightarrow> json" where
  "redact_json (JObject es) =
     JObject (bm_extend []
       (map (\<lambda>(key, value).
          (key, if job_is_secret_key key then JString JOBS_REDACTED else redact_json value)) es))"
| "redact_json (JArray values) = JArray (map redact_json values)"
| "redact_json other = other"

subsection \<open>Data\<close>

record JobManagerConfig =
  jm_profile :: string
  jm_service_parameters :: ServiceParameters
  jm_job_concurrency :: u16

record JobExecutionOutput =
  output_result_json :: json
  output_agent_alias :: "AgentAlias option"
  output_context_id :: "ContextId option"
  output_task_id :: "TaskId option"
  output_group_name :: "GroupName option"
  output_message :: string

datatype JobAttemptResult =
    Succeeded JobExecutionOutput
  | AttemptCancelled JobExecutionOutput
  | FailedPermanent JobExecutionOutput string
  | RetriableError string

record JobAttempt =
  att_job_id :: GatewayJobId
  att_kind :: string
  att_result :: JobAttemptResult

record JobSnapshot =
  snap_due :: nat
  snap_queued :: nat
  snap_running :: nat
  snap_retrying :: nat
  snap_terminal :: nat

record 'dt ScanResult =
  scan_candidates :: "'dt GatewayJobRecord list"
  scan_snapshot :: JobSnapshot

record 'dt tick =
  tick_now :: 'dt
  tick_job_stamp :: string
  tick_event_stamp :: string
  tick_fresh_id :: string

definition json_opt_str :: "string option \<Rightarrow> json" where
  "json_opt_str v = (case v of None \<Rightarrow> JNull | Some s \<Rightarrow> JString s)"

definition json_u32 :: "u32 \<Rightarrow> json" where
  "json_u32 n = JNumber (PosInt (ucast n))"

fun attempt_status :: "JobAttemptResult \<Rightarrow> string" where
  "attempt_status (Succeeded output) = ''succeeded''"
| "attempt_status (AttemptCancelled output) = ''cancelled''"
| "attempt_status (FailedPermanent output error) = ''failed''"
| "attempt_status (RetriableError error) = ''retrying''"

fun attempt_message :: "JobAttemptResult \<Rightarrow> string" where
  "attempt_message (Succeeded output) = output_message output"
| "attempt_message (AttemptCancelled output) = output_message output"
| "attempt_message (FailedPermanent output error) = error"
| "attempt_message (RetriableError error) = error"

subsection \<open>Lifecycle events\<close>

text \<open>\<open>event_type.rsplit('.').next()\<close>, and \<open>prefix.replace('_', "-")\<close>.\<close>

definition last_segment :: "string \<Rightarrow> string" where
  "last_segment s = rev (takeWhile (\<lambda>c. c \<noteq> CHR ''.'') (rev s))"

definition new_job_event_id :: "string \<Rightarrow> string \<Rightarrow> EventId outcome" where
  "new_job_event_id fresh pfx =
     EventId_new (''evt/job/'' @ map (\<lambda>c. if c = CHR ''_'' then CHR ''-'' else c) pfx @ ''/'' @ fresh)"

definition insert_strs :: "Metadata \<Rightarrow> (string \<times> string) list \<Rightarrow> Metadata outcome" where
  "insert_strs m kvs = insert_pairs m (map (\<lambda>(k, v). (k, JString v)) kvs)"

definition append_job_lifecycle_event ::
  "'dt sqlite \<Rightarrow> JobManagerConfig \<Rightarrow> 'dt tick \<Rightarrow> string \<Rightarrow> 'dt GatewayJobRecord \<Rightarrow> json \<Rightarrow> unit db_op" where
  "append_job_lifecycle_event S config tick ty job payload =
     db_bind (db_outcome
       (and_then (new_job_event_id (tick_fresh_id tick) (last_segment ty)) (\<lambda>ident.
        and_then (to_metadata (jm_service_parameters config)) (\<lambda>metadata.
        and_then
          (insert_strs metadata
            [(''gateway.job.profile'', jm_profile config), (''gateway.job.kind'', job_kind job),
             (''gateway.job.id'', job_id job)])
          (\<lambda>metadata.
            event_record_a2a_protocol_version
              ((EventInsert_new ident JOB_SOURCE ty (redact_json payload))
                 \<lparr>event_agent_alias := job_agent_alias job, event_context_id := job_context_id job,
                  event_task_id := job_task_id job, event_group_name := job_group_name job,
                  event_gateway_job_id := Some (job_id job), event_metadata := metadata\<rparr>)
              (sp_protocol_version (jm_service_parameters config)))))))
     (\<lambda>event. db_bind (append_event S (tick_event_stamp tick) event) (\<lambda>_. db_return ()))"

subsection \<open>Claiming\<close>

definition job_to_upsert :: "('dt, 'm) GatewayJobRecord_scheme \<Rightarrow> 'dt GatewayJobUpsert" where
  "job_to_upsert job =
     \<lparr>job_id = job_id job, job_kind = job_kind job, job_state = job_state job,
      job_agent_alias = job_agent_alias job, job_context_id = job_context_id job,
      job_task_id = job_task_id job, job_group_name = job_group_name job,
      job_adapter_binding_id = job_adapter_binding_id job,
      job_request_json = job_request_json job, job_result_json = job_result_json job,
      job_metadata = job_metadata job, job_retry_count = job_retry_count job,
      job_max_attempts = job_max_attempts job, job_next_run_at = job_next_run_at job,
      job_locked_by = job_locked_by job, job_locked_until = job_locked_until job,
      job_completed_at = job_completed_at job\<rparr>"

fun job_is_due :: "('dt::linorder, 'm) GatewayJobRecord_scheme \<Rightarrow> 'dt \<Rightarrow> bool" where
  "job_is_due job now =
     (case job_state job of
        Job_Queued \<Rightarrow> (case job_next_run_at job of None \<Rightarrow> True | Some t \<Rightarrow> t \<le> now)
      | Job_Retrying \<Rightarrow> (case job_next_run_at job of None \<Rightarrow> True | Some t \<Rightarrow> t \<le> now)
      | Job_Running \<Rightarrow> (case job_locked_until job of None \<Rightarrow> False | Some t \<Rightarrow> t \<le> now)
      | Job_Succeeded \<Rightarrow> False | Job_Failed \<Rightarrow> False | Job_Cancelled \<Rightarrow> False)"

definition running_job_upsert ::
  "'dt chrono \<Rightarrow> JobManagerConfig \<Rightarrow> 'dt \<Rightarrow> ('dt, 'm) GatewayJobRecord_scheme \<Rightarrow> 'dt GatewayJobUpsert outcome" where
  "running_job_upsert C config now job =
     and_then (timestamp_after C now JOB_LOCK_TTL) (\<lambda>until.
     and_then
       (insert_strs (job_metadata job)
         [(''gateway.job.profile'', jm_profile config), (''gateway.job.kind'', job_kind job)])
       (\<lambda>metadata.
         Inr ((job_to_upsert job)
           \<lparr>job_state := Job_Running, job_locked_by := Some (''gateway:jobs:'' @ jm_profile config),
            job_locked_until := Some until, job_next_run_at := None, job_completed_at := None,
            job_result_json := None, job_metadata := metadata\<rparr>)))"

definition count_state :: "GatewayJobState \<Rightarrow> JobSnapshot \<Rightarrow> JobSnapshot" where
  "count_state state snap =
     (case state of
        Job_Queued \<Rightarrow> snap\<lparr>snap_queued := snap_queued snap + 1\<rparr>
      | Job_Running \<Rightarrow> snap\<lparr>snap_running := snap_running snap + 1\<rparr>
      | Job_Retrying \<Rightarrow> snap\<lparr>snap_retrying := snap_retrying snap + 1\<rparr>
      | _ \<Rightarrow> snap\<lparr>snap_terminal := snap_terminal snap + 1\<rparr>)"

definition mark_running ::
  "'dt sqlite \<Rightarrow> JobManagerConfig \<Rightarrow> 'dt tick \<Rightarrow> 'dt GatewayJobUpsert \<Rightarrow> 'dt GatewayJobRecord db_op" where
  "mark_running S config tick running =
     db_bind (upsert_gateway_job S (tick_job_stamp tick) running) (\<lambda>claimed.
     db_bind
       (append_job_lifecycle_event S config tick ''missive.gateway.job.started'' claimed
         (json_object
           [(''profile'', JString (jm_profile config)), (''job_id'', JString (job_id claimed)),
            (''kind'', JString (job_kind claimed)), (''retry_count'', json_u32 (job_retry_count claimed)),
            (''max_attempts'', json_u32 (job_max_attempts claimed))]))
       (\<lambda>_. db_return claimed))"

definition claim_job ::
  "'dt sqlite \<Rightarrow> JobManagerConfig \<Rightarrow> 'dt tick \<Rightarrow> 'dt GatewayJobRecord \<Rightarrow> 'dt GatewayJobRecord db_op" where
  "claim_job S config tick job =
     db_bind (db_outcome (running_job_upsert (sql_chrono S) config (tick_now tick) job))
       (mark_running S config tick)"

text \<open>The loop over the listed jobs; \<open>ticks\<close> gives the tick at which a job is claimed.\<close>

fun scan_jobs ::
  "'dt::linorder sqlite \<Rightarrow> JobManagerConfig \<Rightarrow> 'dt \<Rightarrow> (GatewayJobId \<Rightarrow> 'dt tick) \<Rightarrow>
   'dt GatewayJobRecord list \<Rightarrow> JobSnapshot \<Rightarrow> 'dt GatewayJobRecord list \<Rightarrow> 'dt ScanResult db_op" where
  "scan_jobs S config now ticks [] snap candidates =
     db_return \<lparr>scan_candidates = candidates, scan_snapshot = snap\<rparr>"
| "scan_jobs S config now ticks (job # jobs) snap candidates =
     (if \<not> is_background_job_kind (job_kind job) then
        scan_jobs S config now ticks jobs snap candidates
      else
        (let snap = count_state (job_state job) snap
         in if max (unat (jm_job_concurrency config)) 1 \<le> length candidates \<or> \<not> job_is_due job now then
              scan_jobs S config now ticks jobs snap candidates
            else
              db_bind (claim_job S config (ticks (job_id job)) job) (\<lambda>claimed.
                scan_jobs S config now ticks jobs (snap\<lparr>snap_due := snap_due snap + 1\<rparr>)
                  (candidates @ [claimed]))))"

definition scan_background_jobs_blocking ::
  "'dt::linorder sqlite \<Rightarrow> JobManagerConfig \<Rightarrow> 'dt \<Rightarrow> (GatewayJobId \<Rightarrow> 'dt tick) \<Rightarrow> 'dt ScanResult db_op" where
  "scan_background_jobs_blocking S config now ticks =
     db_bind (list_gateway_jobs S) (\<lambda>jobs.
       scan_jobs S config now ticks jobs
         \<lparr>snap_due = 0, snap_queued = 0, snap_running = 0, snap_retrying = 0, snap_terminal = 0\<rparr> [])"

subsection \<open>Execution\<close>

text \<open>The four executors, which may write to the database, the failure of the worker task with the
  database it leaves, and the rendering of an error message as text.\<close>

record 'dt executors =
  exec_send :: "'dt GatewayJobRecord \<Rightarrow> JobExecutionOutput db_op"
  exec_stream :: "'dt GatewayJobRecord \<Rightarrow> JobExecutionOutput db_op"
  exec_wait :: "'dt GatewayJobRecord \<Rightarrow> JobAttemptResult db_op"
  exec_reduce :: "'dt GatewayJobRecord \<Rightarrow> JobExecutionOutput db_op"
  exec_panic :: "'dt GatewayJobRecord \<Rightarrow> gateway_db \<Rightarrow> (std_error \<times> gateway_db) option"
  exec_render :: "message \<Rightarrow> string"

definition job_cancelled :: "'dt sqlite \<Rightarrow> GatewayJobId \<Rightarrow> bool db_op" where
  "job_cancelled S ident =
     db_bind (get_gateway_job S ident) (\<lambda>stored.
       db_return (case stored of None \<Rightarrow> False | Some job \<Rightarrow> job_state job = Job_Cancelled))"

definition job_output :: "'dt GatewayJobRecord \<Rightarrow> json \<Rightarrow> string \<Rightarrow> JobExecutionOutput" where
  "job_output job result text =
     \<lparr>output_result_json = result, output_agent_alias = job_agent_alias job,
      output_context_id = job_context_id job, output_task_id = job_task_id job,
      output_group_name = job_group_name job, output_message = text\<rparr>"

definition execute_job_inner ::
  "'dt sqlite \<Rightarrow> 'dt executors \<Rightarrow> 'dt GatewayJobRecord \<Rightarrow> JobAttemptResult db_op" where
  "execute_job_inner S X job =
     db_bind (job_cancelled S (job_id job)) (\<lambda>cancelled.
       if cancelled then
         db_return (AttemptCancelled (job_output job
           (json_object [(''status'', JString ''cancelled''),
             (''reason'', JString ''cancelled_before_start'')])
           (''Background job '' @ job_id job @ '' was cancelled before execution'')))
       else if job_kind job = BACKGROUND_JOB_KIND_SEND then
         db_bind (exec_send X job) (\<lambda>output. db_return (Succeeded output))
       else if job_kind job = BACKGROUND_JOB_KIND_STREAM then
         db_bind (exec_stream X job) (\<lambda>output. db_return (Succeeded output))
       else if job_kind job = BACKGROUND_JOB_KIND_WAIT then exec_wait X job
       else if job_kind job = BACKGROUND_JOB_KIND_REDUCE then
         db_bind (exec_reduce X job) (\<lambda>output. db_return (Succeeded output))
       else
         db_return (FailedPermanent
           (job_output job
             (json_object [(''status'', JString ''failed''),
               (''reason'', JString ''unsupported_job_kind''), (''kind'', JString (job_kind job))])
             (''Unsupported background job kind '' @ job_kind job))
           (exec_render X [Lit ''unsupported background job kind '', Dbg (job_kind job)])))"

definition execute_job_blocking ::
  "'dt sqlite \<Rightarrow> 'dt executors \<Rightarrow> 'dt GatewayJobRecord \<Rightarrow> gateway_db \<Rightarrow> JobAttemptResult \<times> gateway_db" where
  "execute_job_blocking S X job db =
     (case execute_job_inner S X job db of
        (Inr result, db') \<Rightarrow> (result, db')
      | (Inl error, db') \<Rightarrow> (RetriableError (exec_render X (err_message error)), db'))"

definition run_job_attempt ::
  "'dt sqlite \<Rightarrow> 'dt executors \<Rightarrow> 'dt GatewayJobRecord \<Rightarrow> gateway_db \<Rightarrow> JobAttempt \<times> gateway_db" where
  "run_job_attempt S X job db =
     (let (result, db') =
        (case exec_panic X job db of
           None \<Rightarrow> execute_job_blocking S X job db
         | Some (error, db') \<Rightarrow>
             (RetriableError (exec_render X (err_message
               (with_source (error_orchestration [Lit ''joining gateway background job worker'']) error))),
              db'))
      in (\<lparr>att_job_id = job_id job, att_kind = job_kind job, att_result = result\<rparr>, db'))"

subsection \<open>Finishing\<close>

definition opt_or :: "'a option \<Rightarrow> 'a option \<Rightarrow> 'a option" where
  "opt_or a b = (case a of None \<Rightarrow> b | Some x \<Rightarrow> Some x)"

definition terminal_job_upsert ::
  "'dt \<Rightarrow> ('dt, 'm) GatewayJobRecord_scheme \<Rightarrow> GatewayJobState \<Rightarrow> JobExecutionOutput \<Rightarrow> 'dt GatewayJobUpsert outcome" where
  "terminal_job_upsert now job state output =
     and_then (insert_strs (job_metadata job) [(''gateway.job.status'', job_state_as_str state)])
       (\<lambda>metadata.
         Inr ((job_to_upsert job)
           \<lparr>job_state := state,
            job_agent_alias := opt_or (output_agent_alias output) (job_agent_alias job),
            job_context_id := opt_or (output_context_id output) (job_context_id job),
            job_task_id := opt_or (output_task_id output) (job_task_id job),
            job_group_name := opt_or (output_group_name output) (job_group_name job),
            job_result_json := Some (output_result_json output), job_next_run_at := None,
            job_locked_by := None, job_locked_until := None, job_completed_at := Some now,
            job_metadata := metadata\<rparr>))"

definition finish_terminal_job ::
  "'dt sqlite \<Rightarrow> JobManagerConfig \<Rightarrow> 'dt tick \<Rightarrow> 'dt GatewayJobRecord \<Rightarrow> GatewayJobState \<Rightarrow>
   JobExecutionOutput \<Rightarrow> string \<Rightarrow> unit db_op" where
  "finish_terminal_job S config tick job state output ty =
     db_bind (db_outcome (terminal_job_upsert (tick_now tick) job state output)) (\<lambda>upsert.
     db_bind (upsert_gateway_job S (tick_job_stamp tick) upsert) (\<lambda>updated.
       append_job_lifecycle_event S config tick ty updated
         (json_object
           [(''profile'', JString (jm_profile config)), (''job_id'', JString (job_id updated)),
            (''kind'', JString (job_kind updated)),
            (''state'', JString (job_state_as_str (job_state updated))),
            (''agent'', json_opt_str (job_agent_alias updated)),
            (''context_id'', json_opt_str (job_context_id updated)),
            (''task_id'', json_opt_str (job_task_id updated)),
            (''group'', json_opt_str (job_group_name updated)),
            (''result'', output_result_json output), (''message'', JString (output_message output))])))"

definition retry_job_upsert ::
  "'dt chrono \<Rightarrow> 'dt \<Rightarrow> ('dt, 'm) GatewayJobRecord_scheme \<Rightarrow> u32 \<Rightarrow> duration \<Rightarrow> string \<Rightarrow>
   ('dt GatewayJobUpsert \<times> 'dt) outcome" where
  "retry_job_upsert C now job next_retry_count backoff error =
     and_then (timestamp_after C now backoff) (\<lambda>next_run_at.
     and_then
       (insert_pairs (job_metadata job)
         [(''gateway.job.retry_reason'', JString error),
          (''gateway.job.backoff_ms'', JNumber (PosInt (duration_millis backoff)))])
       (\<lambda>metadata.
         Inr ((job_to_upsert job)
           \<lparr>job_state := Job_Retrying, job_retry_count := next_retry_count,
            job_next_run_at := Some next_run_at, job_locked_by := None, job_locked_until := None,
            job_completed_at := None,
            job_result_json := Some (json_object
              [(''status'', JString ''retrying''), (''error'', JString error),
               (''retry_count'', json_u32 next_retry_count),
               (''max_attempts'', json_u32 (job_max_attempts job)),
               (''backoff_ms'', JNumber (PosInt (duration_millis backoff))),
               (''next_run_at'', timestamp_serialize C next_run_at)]),
            job_metadata := metadata\<rparr>, next_run_at)))"

definition failed_output :: "'dt GatewayJobRecord \<Rightarrow> u32 \<Rightarrow> string \<Rightarrow> JobExecutionOutput" where
  "failed_output job next_retry_count error =
     job_output job
       (json_object
         [(''status'', JString ''failed''), (''error'', JString error),
          (''retry_count'', json_u32 (min next_retry_count (job_max_attempts job))),
          (''max_attempts'', json_u32 (job_max_attempts job))])
       error"

definition finish_retry_or_fail ::
  "'dt sqlite \<Rightarrow> JobManagerConfig \<Rightarrow> 'dt tick \<Rightarrow> 'dt GatewayJobRecord \<Rightarrow> string \<Rightarrow> unit db_op" where
  "finish_retry_or_fail S config tick job error =
     (let next_retry_count = saturating_succ_u32 (job_retry_count job)
      in if next_retry_count < job_max_attempts job then
           (let backoff = bounded_backoff next_retry_count
            in db_bind (db_outcome
                 (retry_job_upsert (sql_chrono S) (tick_now tick) job next_retry_count backoff error))
               (\<lambda>(retry, next_run_at).
               db_bind (upsert_gateway_job S (tick_job_stamp tick) retry) (\<lambda>updated.
                 append_job_lifecycle_event S config tick ''missive.gateway.job.retrying'' updated
                   (json_object
                     [(''profile'', JString (jm_profile config)), (''job_id'', JString (job_id updated)),
                      (''kind'', JString (job_kind updated)),
                      (''retry_count'', json_u32 (job_retry_count updated)),
                      (''max_attempts'', json_u32 (job_max_attempts updated)),
                      (''backoff_ms'', JNumber (PosInt (duration_millis backoff))),
                      (''next_run_at'', timestamp_serialize (sql_chrono S) next_run_at),
                      (''error'', JString error)]))))
         else
           finish_terminal_job S config tick job Job_Failed (failed_output job next_retry_count error)
             ''missive.gateway.job.failed'')"

definition finish_job_attempt_blocking ::
  "'dt sqlite \<Rightarrow> JobManagerConfig \<Rightarrow> 'dt tick \<Rightarrow> JobAttempt \<Rightarrow> unit db_op" where
  "finish_job_attempt_blocking S config tick attempt =
     db_bind (get_gateway_job S (att_job_id attempt)) (\<lambda>stored.
       case stored of
         None \<Rightarrow> db_return ()
       | Some job \<Rightarrow>
           if job_state job = Job_Cancelled then
             append_job_lifecycle_event S config tick ''missive.gateway.job.cancelled'' job
               (json_object
                 [(''profile'', JString (jm_profile config)), (''job_id'', JString (job_id job)),
                  (''kind'', JString (job_kind job)), (''reason'', JString ''cancelled_while_running'')])
           else
             (case att_result attempt of
                Succeeded output \<Rightarrow>
                  finish_terminal_job S config tick job Job_Succeeded output
                    ''missive.gateway.job.succeeded''
              | AttemptCancelled output \<Rightarrow>
                  finish_terminal_job S config tick job Job_Cancelled output
                    ''missive.gateway.job.cancelled''
              | FailedPermanent output error \<Rightarrow>
                  finish_terminal_job S config tick job Job_Failed output
                    ''missive.gateway.job.failed''
              | RetriableError error \<Rightarrow> finish_retry_or_fail S config tick job error))"

subsection \<open>One sweep of the manager\<close>

record JobManagerSummary =
  sum_started :: u64
  sum_succeeded :: u64
  sum_failed :: u64
  sum_retrying :: u64
  sum_cancelled :: u64
  sum_queued :: u64
  sum_running :: u64
  sum_last_error :: "string option"

definition count_result :: "JobAttemptResult \<Rightarrow> JobManagerSummary \<Rightarrow> JobManagerSummary" where
  "count_result result summary =
     (let summary =
        (case result of
           Succeeded output \<Rightarrow>
             summary\<lparr>sum_succeeded := saturating_add_u64 (sum_succeeded summary) 1\<rparr>
         | AttemptCancelled output \<Rightarrow>
             summary\<lparr>sum_cancelled := saturating_add_u64 (sum_cancelled summary) 1\<rparr>
         | FailedPermanent output error \<Rightarrow>
             summary\<lparr>sum_failed := saturating_add_u64 (sum_failed summary) 1, sum_last_error := Some error\<rparr>
         | RetriableError error \<Rightarrow>
             summary\<lparr>sum_retrying := saturating_add_u64 (sum_retrying summary) 1,
                     sum_last_error := Some error\<rparr>)
      in summary\<lparr>sum_started := saturating_add_u64 (sum_started summary) 1\<rparr>)"

text \<open>The attempts of one sweep, in the order of the candidates; \<open>stop\<close> tells before which of them
  the shutdown signal is seen.\<close>

fun run_candidates ::
  "'dt sqlite \<Rightarrow> JobManagerConfig \<Rightarrow> 'dt executors \<Rightarrow> (GatewayJobId \<Rightarrow> bool) \<Rightarrow>
   (GatewayJobId \<Rightarrow> 'dt tick) \<Rightarrow> 'dt GatewayJobRecord list \<Rightarrow> JobManagerSummary \<Rightarrow>
   JobManagerSummary db_op" where
  "run_candidates S config X stop ticks [] summary = db_return summary"
| "run_candidates S config X stop ticks (job # jobs) summary =
     (if stop (job_id job) then db_return summary
      else
        (\<lambda>db.
          let (attempt, db) = run_job_attempt S X job db
          in db_bind (finish_job_attempt_blocking S config (ticks (job_id job)) attempt) (\<lambda>_.
               run_candidates S config X stop ticks jobs (count_result (att_result attempt) summary)) db))"

definition usize_to_u64 :: "nat \<Rightarrow> u64" where
  "usize_to_u64 n = (if n < 2 ^ 64 then of_nat n else - 1)"

text \<open>One round of the loop of \<open>run_job_manager\<close>: scan, publish the counts, run the candidates.\<close>

definition job_sweep ::
  "'dt::linorder sqlite \<Rightarrow> JobManagerConfig \<Rightarrow> 'dt executors \<Rightarrow> (GatewayJobId \<Rightarrow> bool) \<Rightarrow> 'dt \<Rightarrow>
   (GatewayJobId \<Rightarrow> 'dt tick) \<Rightarrow> (GatewayJobId \<Rightarrow> 'dt tick) \<Rightarrow> JobManagerSummary \<Rightarrow> JobManagerSummary db_op" where
  "job_sweep S config X stop now claim_ticks finish_ticks summary =
     db_bind (scan_background_jobs_blocking S config now claim_ticks) (\<lambda>scan.
       run_candidates S config X stop finish_ticks (scan_candidates scan)
         (summary\<lparr>sum_queued := usize_to_u64 (snap_queued (scan_snapshot scan)),
                  sum_running := usize_to_u64 (snap_running (scan_snapshot scan))\<rparr>))"

end
