(* ===== verification/Gateway_Jobs_Properties.thy ===== *)
theory Gateway_Jobs_Properties
  imports Gateway_Jobs
begin

text \<open>Properties of the background job manager: backoff, claims, transitions and the retry budget.\<close>

subsection \<open>Backoff\<close>

lemma bounded_backoff_eq: "bounded_backoff n = min 30000 (1000 * 2 ^ min (unat n - 1) 5)"
proof -
  define e where "e = min (if n = 0 then 0 else n - 1) 5"
  have "unat (if n = 0 then 0 else n - 1) = unat n - 1"
    by (simp add: unat_minus_one)
  moreover have "unat (min a 5) = min (unat a) 5" for a :: u32
    by (simp add: min_def word_le_nat_alt)
  ultimately have e: "unat e = min (unat n - 1) 5" by (simp add: e_def)
  then have "unat e \<in> {0, 1, 2, 3, 4, 5}" by auto
  then show ?thesis
    unfolding bounded_backoff_def e_def [symmetric] e [symmetric] Let_def
    by (auto simp: saturating_mul_u64_def duration_millis_def JOB_MIN_BACKOFF_def JOB_MAX_BACKOFF_def
        push_bit_eq_mult min_def)
qed

lemma unat_saturating_succ_u32: "unat (saturating_succ_u32 n) = min (unat n + 1) (2 ^ 32 - 1)"
proof (cases "n = - 1")
  case True
  moreover have "unat (- 1 :: u32) = 2 ^ 32 - 1"
    by (simp only: unsigned_minus_1_eq_mask mask_eq_exp_minus_1) simp
  ultimately show ?thesis by (simp add: saturating_succ_u32_def)
next
  case False
  have "unat (- 1 :: u32) = 2 ^ 32 - 1"
    by (simp only: unsigned_minus_1_eq_mask mask_eq_exp_minus_1) simp
  with False have "unat n \<noteq> 2 ^ 32 - 1" by (metis word_unat_eq_iff)
  moreover have "unat n < 2 ^ 32" using unsigned_less [of n] by simp
  ultimately have "unat n + 1 < 2 ^ 32" by linarith
  then show ?thesis using False by (simp add: saturating_succ_u32_def unat_word_ariths)
qed

lemma bounded_backoff_closed: "bounded_backoff n = min 30000 (1000 * 2 ^ (unat n - 1))"
proof (cases "unat n - 1 \<le> 5")
  case False
  then have "(2 :: nat) ^ 5 \<le> 2 ^ (unat n - 1)" by (intro power_increasing) auto
  then show ?thesis using False by (simp add: bounded_backoff_eq min_def)
qed (simp add: bounded_backoff_eq min_def)

text \<open>C35. The backoff before retry n is one second doubled n-1 times, at most thirty seconds; so it is never
  below one second, never above thirty, and never shrinks as the retries go on.\<close>

theorem bounded_backoff_exact:
  "bounded_backoff n = min 30000 (1000 * 2 ^ (unat n - 1)) \<and>
   1000 \<le> bounded_backoff n \<and> bounded_backoff n \<le> 30000 \<and>
   bounded_backoff n \<le> bounded_backoff (saturating_succ_u32 n)"
proof -
  have mono: "min 30000 (1000 * 2 ^ j) \<le> min 30000 (1000 * 2 ^ k :: nat)" if "j \<le> k" for j k
    using power_increasing [OF that, of "2 :: nat"] by (intro min.mono) auto
  have "unat n < 2 ^ 32" using unsigned_less [of n] by simp
  then have "unat n - 1 \<le> unat (saturating_succ_u32 n) - 1"
    unfolding unat_saturating_succ_u32 by linarith
  moreover have "(1 :: nat) \<le> 2 ^ k" for k by simp
  ultimately show ?thesis
    unfolding bounded_backoff_closed using mono by auto
qed

lemma succ_below: "saturating_succ_u32 n < m \<Longrightarrow> unat (saturating_succ_u32 n) = unat n + 1"
proof -
  assume "saturating_succ_u32 n < m"
  then have "unat (saturating_succ_u32 n) < unat m" by (simp add: word_less_nat_alt)
  moreover have "unat m < 2 ^ 32" using unsigned_less [of m] by simp
  ultimately show ?thesis unfolding unat_saturating_succ_u32 by linarith
qed

subsection \<open>What the store keeps of a job\<close>

definition same_schedule ::
  "'dt chrono \<Rightarrow> ('dt, 'm) GatewayJobUpsert_scheme \<Rightarrow> ('dt, 'n) GatewayJobUpsert_scheme \<Rightarrow> bool" where
  "same_schedule C r j \<longleftrightarrow>
     job_id r = job_id j \<and> job_kind r = job_kind j \<and> job_state r = job_state j \<and>
     job_agent_alias r = job_agent_alias j \<and> job_context_id r = job_context_id j \<and>
     job_task_id r = job_task_id j \<and> job_group_name r = job_group_name j \<and>
     job_retry_count r = job_retry_count j \<and> job_max_attempts r = job_max_attempts j \<and>
     job_locked_by r = job_locked_by j \<and> times_kept C j r"

lemma identifier_parsed:
  "AgentAlias_new a = Inr b \<Longrightarrow> b = a" "GroupName_new a = Inr b \<Longrightarrow> b = a"
  "ContextId_new a = Inr b \<Longrightarrow> b = a" "TaskId_new a = Inr b \<Longrightarrow> b = a"
  "GatewayJobId_new a = Inr b \<Longrightarrow> b = a"
  by (simp_all add: AgentAlias_new_def GroupName_new_def ContextId_new_def TaskId_new_def
      GatewayJobId_new_def agent_alias.new_Inr group_name.new_Inr context_id.new_Inr task_id.new_Inr
      gateway_job_id.new_Inr)

lemma optional_parsed:
  "optional_sql (parse_sql f) v = Inr x \<Longrightarrow> (\<And>a b. f a = Inr b \<Longrightarrow> b = a) \<Longrightarrow> x = v"
  by (cases v) (auto simp: optional_sql_Inr parse_sql_Inr)

lemma read_job_fields:
  assumes "read_gateway_job_row S row = Inr r"
  shows "parse_sql GatewayJobId_new (jrow_gateway_job_id row) = Inr (job_id r)"
    and "job_kind r = jrow_kind row"
    and "parse_sql job_state_from_str (jrow_state row) = Inr (job_state r)"
    and "optional_sql (parse_sql AgentAlias_new) (jrow_agent_alias row) = Inr (job_agent_alias r)"
    and "optional_sql (parse_sql ContextId_new) (jrow_context_id row) = Inr (job_context_id r)"
    and "optional_sql (parse_sql TaskId_new) (jrow_task_id row) = Inr (job_task_id r)"
    and "optional_sql (parse_sql GroupName_new) (jrow_group_name row) = Inr (job_group_name r)"
    and "u32_from_sql (jrow_retry_count row) = Inr (job_retry_count r)"
    and "u32_from_sql (jrow_max_attempts row) = Inr (job_max_attempts r)"
    and "optional_sql (timestamp_from_sql S) (jrow_next_run_at row) = Inr (job_next_run_at r)"
    and "optional_sql (timestamp_from_sql S) (jrow_locked_until row) = Inr (job_locked_until r)"
    and "optional_sql (timestamp_from_sql S) (jrow_completed_at row) = Inr (job_completed_at r)"
    and "job_locked_by r = jrow_locked_by row"
  using assms unfolding read_gateway_job_row_def and_then_Inr by auto

lemma read_job_schedule:
  assumes row: "gateway_job_row S stamp input = Inr row"
    and read: "read_gateway_job_row S (row\<lparr>jrow_created_at := c\<rparr>) = Inr r"
    and law: "chrono_text_law (sql_chrono S)"
  shows "same_schedule (sql_chrono S) r input"
proof -
  have cols: "jrow_gateway_job_id row = job_id input" "jrow_kind row = job_kind input"
      "jrow_state row = job_state_as_str (job_state input)"
      "jrow_agent_alias row = job_agent_alias input" "jrow_context_id row = job_context_id input"
      "jrow_task_id row = job_task_id input" "jrow_group_name row = job_group_name input"
      "jrow_retry_count row = uint (job_retry_count input)"
      "jrow_max_attempts row = uint (job_max_attempts input)"
      "jrow_next_run_at row = map_option (to_rfc3339 (sql_chrono S)) (job_next_run_at input)"
      "jrow_locked_by row = job_locked_by input"
      "jrow_locked_until row = map_option (to_rfc3339 (sql_chrono S)) (job_locked_until input)"
      "jrow_completed_at row = map_option (to_rfc3339 (sql_chrono S)) (job_completed_at input)"
    using row unfolding gateway_job_row_def and_then_Inr by auto
  note f = read_job_fields [OF read]
  have "job_agent_alias r = job_agent_alias input" "job_context_id r = job_context_id input"
    "job_task_id r = job_task_id input" "job_group_name r = job_group_name input"
    using f(4-7) identifier_parsed by (auto simp: cols dest!: optional_parsed)
  moreover have "job_id r = job_id input" using f(1) identifier_parsed(5) by (simp add: cols parse_sql_Inr)
  moreover have "times_kept (sql_chrono S) input r"
    using f(10-12) optional_timestamp_from_text [OF law] by (simp add: cols times_kept_def)
  ultimately show ?thesis using f(2,3,8,9,13) by (simp add: same_schedule_def cols)
qed

lemma upsert_job_schedule:
  assumes "upsert_gateway_job S stamp input db = (Inr r, db')" "db_ok db" "chrono_text_law (sql_chrono S)"
  shows "same_schedule (sql_chrono S) r input \<and> job_valid r \<and>
    fst (get_gateway_job S (job_id input) db') = Inr (Some r) \<and>
    (\<forall>k. k \<noteq> job_id input \<longrightarrow> fst (get_gateway_job S k db') = fst (get_gateway_job S k db)) \<and>
    db_events db' = db_events db \<and> db_ok db'"
proof -
  have sorted: "bm_sorted (db_jobs db)" using assms(2) by (simp add: db_ok_def)
  obtain row where valid: "job_valid input" and row: "gateway_job_row S stamp input = Inr row"
    "db' = put_gateway_job row db" "read_gateway_job_row S (stored_job row db) = Inr r"
    using assms(1) unfolding upsert_gateway_job_Inr [OF sorted] by blast
  have "same_schedule (sql_chrono S) r input"
    using row(3) by (subst (asm) stored_job_created) (rule read_job_schedule [OF row(1) _ assms(3)])
  moreover have "job_valid r" by (rule read_job_row_valid [OF row(3) job_row_ok_encode [OF valid row(1)]])
  moreover have "db_ok db'" unfolding row(2) by (rule db_ok_put_job [OF assms(2) valid row(1)])
  moreover have "fst (get_gateway_job S (job_id input) db') = Inr (Some r)"
    "\<forall>k. k \<noteq> job_id input \<longrightarrow> fst (get_gateway_job S k db') = fst (get_gateway_job S k db)"
    using row(3) by (simp_all add: row(2) get_put_gateway_job [OF sorted] gateway_job_row_id [OF row(1)]
        query_row_def)
  moreover have "db_events db' = db_events db" by (simp add: row(2) put_gateway_job_alt)
  ultimately show ?thesis by blast
qed


subsection \<open>The journal entry of a transition\<close>

definition journaled :: "string \<Rightarrow> GatewayJobId \<Rightarrow> gateway_db \<Rightarrow> gateway_db \<Rightarrow> bool" where
  "journaled ty ident db db' \<longleftrightarrow>
     (\<exists>row. db_events db' = db_events db @ [row] \<and> erow_event_type row = ty \<and>
        erow_source row = JOB_SOURCE \<and> erow_gateway_job_id row = Some ident \<and> erow_redacted row)"

lemma append_event_Inr:
  assumes "append_event S stamp input db = (Inr r, db')"
  shows "\<exists>row. event_row S stamp (db_last_sequence db + 1) input = Inr row \<and>
    db' = db\<lparr>db_events := db_events db @ [row], db_last_sequence := db_last_sequence db + 1\<rparr>"
proof -
  obtain row where "event_row S stamp (db_last_sequence db + 1) input = Inr row"
    and "(case sql_refuses_event S db row of
          Some error \<Rightarrow> (Inl (storage_error ''appending event'' error), db)
        | None \<Rightarrow>
            db_bind (get_event S (event_id input))
              (\<lambda>stored. db_outcome (ok_or stored (missing_after_write ''event'' (event_id input))))
              (db\<lparr>db_events := db_events db @ [row], db_last_sequence := db_last_sequence db + 1\<rparr>)) = (Inr r, db')"
    using assms unfolding append_event_def db_bind_Inr [of "db_outcome _"] db_outcome_Inr and_then_Inr by blast
  then show ?thesis
    by (auto simp: db_bind_Inr db_outcome_Inr get_event_def split: option.splits)
qed

lemma event_record_version_fields:
  "event_record_a2a_protocol_version e v = Inr e' \<Longrightarrow>
     event_type e' = event_type e \<and> event_source e' = event_source e \<and>
     event_gateway_job_id e' = event_gateway_job_id e \<and> event_redacted e' = event_redacted e"
  by (auto simp: event_record_a2a_protocol_version_def and_then_Inr)

lemma event_row_fields:
  "event_row S stamp n e = Inr row \<Longrightarrow>
     erow_event_type row = event_type e \<and> erow_source row = event_source e \<and>
     erow_gateway_job_id row = event_gateway_job_id e \<and> erow_redacted row = event_redacted e"
  by (auto simp: event_row_def and_then_Inr)

lemma lifecycle_event_appended:
  assumes "append_job_lifecycle_event S config tick ty job payload db = (Inr u, db')"
  shows "journaled ty (job_id job) db db' \<and> db_jobs db' = db_jobs db \<and> (db_ok db \<longrightarrow> db_ok db')"
proof -
  obtain e ident m r where e: "event_record_a2a_protocol_version
      ((EventInsert_new ident JOB_SOURCE ty (redact_json payload))
                 \<lparr>event_agent_alias := job_agent_alias job, event_context_id := job_context_id job,
                  event_task_id := job_task_id job, event_group_name := job_group_name job,
                  event_gateway_job_id := Some (job_id job), event_metadata := m\<rparr>)
      (sp_protocol_version (jm_service_parameters config)) = Inr e"
    and a: "append_event S (tick_event_stamp tick) e db = (Inr r, db')"
    using assms unfolding append_job_lifecycle_event_def db_bind_Inr db_outcome_Inr and_then_Inr db_return_def
    by blast
  from append_event_Inr [OF a] obtain row
    where "event_row S (tick_event_stamp tick) (db_last_sequence db + 1) e = Inr row"
    and db': "db' = db\<lparr>db_events := db_events db @ [row], db_last_sequence := db_last_sequence db + 1\<rparr>"
    by blast
  then have "erow_event_type row = ty \<and> erow_source row = JOB_SOURCE \<and>
      erow_gateway_job_id row = Some (job_id job) \<and> erow_redacted row"
    using event_record_version_fields [OF e] by (auto simp: EventInsert_new_def dest!: event_row_fields)
  with db' show ?thesis using db_ok_append_event [of db S "tick_event_stamp tick" e] a
    by (simp add: journaled_def)
qed

lemma stored_job_id:
  assumes "fst (get_gateway_job S k db) = Inr (Some job)" "db_ok db"
  shows "job_id job = k"
proof -
  obtain row where "bm_get k (db_jobs db) = Some row" "read_gateway_job_row S row = Inr job"
    using assms(1) by (auto simp: get_gateway_job_def query_row_Inr split: option.splits)
  moreover then have "jrow_gateway_job_id row = k"
    using assms(2) by (auto simp: db_ok_def bm_get_def dest!: map_of_SomeD)
  ultimately show ?thesis by (simp add: read_job_row_id)
qed

lemma get_gateway_job_cong: "db_jobs db' = db_jobs db \<Longrightarrow> fst (get_gateway_job S k db') = fst (get_gateway_job S k db)"
  by (simp add: get_gateway_job_def)

text \<open>A write of a job followed by its journal entry.\<close>

lemma upsert_then_journal:
  assumes "upsert_gateway_job S stamp input db = (Inr r, db1)"
    and "append_job_lifecycle_event S config tick ty r payload db1 = (Inr u, db')"
    and "db_ok db" "chrono_text_law (sql_chrono S)"
  shows "same_schedule (sql_chrono S) r input \<and> fst (get_gateway_job S (job_id input) db') = Inr (Some r) \<and>
    (\<forall>k. k \<noteq> job_id input \<longrightarrow> fst (get_gateway_job S k db') = fst (get_gateway_job S k db)) \<and>
    journaled ty (job_id input) db db' \<and> db_ok db'"
proof -
  note l = lifecycle_event_appended [OF assms(2)]
  have "fst (get_gateway_job S k db') = fst (get_gateway_job S k db1)" for k
    using l by (intro get_gateway_job_cong) blast
  then show ?thesis using upsert_job_schedule [OF assms(1,3,4)] l
    by (simp add: journaled_def same_schedule_def)
qed

subsection \<open>The schedule of a job\<close>

text \<open>What the manager's decisions depend on, and what finishing an attempt does to it.\<close>

record 'dt schedule =
  sch_state :: GatewayJobState
  sch_retry_count :: nat
  sch_max_attempts :: nat
  sch_next_run_at :: "'dt option"
  sch_lock :: "string option \<times> 'dt option"
  sch_completed_at :: "'dt option"

definition schedule_of :: "('dt, 'm) GatewayJobUpsert_scheme \<Rightarrow> 'dt schedule" where
  "schedule_of j =
     \<lparr>sch_state = job_state j, sch_retry_count = unat (job_retry_count j),
      sch_max_attempts = unat (job_max_attempts j), sch_next_run_at = job_next_run_at j,
      sch_lock = (job_locked_by j, job_locked_until j), sch_completed_at = job_completed_at j\<rparr>"

definition completed :: "'dt \<Rightarrow> GatewayJobState \<Rightarrow> 'dt schedule \<Rightarrow> 'dt schedule" where
  "completed at state s =
     s\<lparr>sch_state := state, sch_next_run_at := None, sch_lock := (None, None), sch_completed_at := Some at\<rparr>"

definition retried :: "'dt \<Rightarrow> 'dt schedule \<Rightarrow> 'dt schedule" where
  "retried due s =
     s\<lparr>sch_state := Job_Retrying, sch_retry_count := sch_retry_count s + 1, sch_next_run_at := Some due,
       sch_lock := (None, None), sch_completed_at := None\<rparr>"

inductive finish_step :: "'dt chrono \<Rightarrow> 'dt \<Rightarrow> JobAttemptResult \<Rightarrow> 'dt schedule \<Rightarrow> 'dt schedule \<Rightarrow> bool"
  for C now where
  step_already_cancelled: "sch_state s = Job_Cancelled \<Longrightarrow> finish_step C now result s s"
| step_succeeded: "sch_state s \<noteq> Job_Cancelled \<Longrightarrow> time_kept C now at \<Longrightarrow>
    finish_step C now (Succeeded output) s (completed at Job_Succeeded s)"
| step_cancelled: "sch_state s \<noteq> Job_Cancelled \<Longrightarrow> time_kept C now at \<Longrightarrow>
    finish_step C now (AttemptCancelled output) s (completed at Job_Cancelled s)"
| step_failed: "sch_state s \<noteq> Job_Cancelled \<Longrightarrow> time_kept C now at \<Longrightarrow>
    finish_step C now (FailedPermanent output error) s (completed at Job_Failed s)"
| step_retry: "sch_state s \<noteq> Job_Cancelled \<Longrightarrow> sch_retry_count s + 1 < sch_max_attempts s \<Longrightarrow>
    timestamp_after C now (min 30000 (1000 * 2 ^ sch_retry_count s)) = Inr due \<Longrightarrow>
    finish_step C now (RetriableError error) s (retried due s)"
| step_exhausted: "sch_state s \<noteq> Job_Cancelled \<Longrightarrow> sch_max_attempts s \<le> sch_retry_count s + 1 \<Longrightarrow>
    time_kept C now at \<Longrightarrow> finish_step C now (RetriableError error) s (completed at Job_Failed s)"

inductive_cases finish_step_retriableE: "finish_step C now (RetriableError error) s s'"

text \<open>A schedule as it is read after being stored: its times are kept to the second, and exactly when they
  come from a Unix timestamp, as all but the time of completion do.\<close>

definition schedule_kept :: "'dt chrono \<Rightarrow> 'dt schedule \<Rightarrow> 'dt schedule \<Rightarrow> bool" where
  "schedule_kept C s s' \<longleftrightarrow>
     sch_state s' = sch_state s \<and> sch_retry_count s' = sch_retry_count s \<and>
     sch_max_attempts s' = sch_max_attempts s \<and> fst (sch_lock s') = fst (sch_lock s) \<and>
     rel_option (time_kept C) (sch_next_run_at s) (sch_next_run_at s') \<and>
     rel_option (time_kept C) (snd (sch_lock s)) (snd (sch_lock s')) \<and>
     rel_option (time_kept C) (sch_completed_at s) (sch_completed_at s')"

lemma same_schedule_of: "same_schedule C r j \<Longrightarrow> schedule_kept C (schedule_of j) (schedule_of r)"
  by (simp add: same_schedule_def schedule_of_def schedule_kept_def times_kept_def)

lemma time_kept_whole: "timestamp_after C now d = Inr t \<Longrightarrow> time_kept C t u \<longleftrightarrow> u = t"
  by (auto simp: timestamp_after_def from_unix_timestamp_def time_kept_def Let_def ok_or_def
      split: if_splits option.splits)

lemma schedule_kept_completed:
  "schedule_kept C (completed now state s) s' \<Longrightarrow> \<exists>at. time_kept C now at \<and> s' = completed at state s"
  by (cases s') (auto simp: schedule_kept_def completed_def option_rel_Some1 intro!: schedule.equality prod_eqI)

lemma schedule_kept_retried:
  "schedule_kept C (retried due s) s' \<Longrightarrow> timestamp_after C now d = Inr due \<Longrightarrow> s' = retried due s"
  by (cases s') (auto simp: schedule_kept_def retried_def option_rel_Some1 time_kept_whole
      intro!: schedule.equality prod_eqI)

definition locked :: "string \<Rightarrow> 'dt \<Rightarrow> 'dt schedule \<Rightarrow> 'dt schedule" where
  "locked owner until s =
     s\<lparr>sch_state := Job_Running, sch_next_run_at := None, sch_lock := (Some owner, Some until),
       sch_completed_at := None\<rparr>"

lemma schedule_kept_locked:
  "schedule_kept C (locked owner until s) s' \<Longrightarrow> timestamp_after C now d = Inr until \<Longrightarrow> s' = locked owner until s"
  by (cases s') (auto simp: schedule_kept_def locked_def option_rel_Some1 time_kept_whole
      intro!: schedule.equality prod_eqI)

definition finished ::
  "'dt sqlite \<Rightarrow> GatewayJobId \<Rightarrow> gateway_db \<Rightarrow> gateway_db \<Rightarrow> 'dt schedule \<Rightarrow> bool" where
  "finished S ident db db' s \<longleftrightarrow>
     (\<exists>job'. fst (get_gateway_job S ident db') = Inr (Some job') \<and> schedule_of job' = s) \<and>
     (\<forall>k. k \<noteq> ident \<longrightarrow> fst (get_gateway_job S k db') = fst (get_gateway_job S k db)) \<and>
     journaled (''missive.gateway.job.'' @ job_state_as_str (sch_state s)) ident db db' \<and> db_ok db'"

lemma upsert_finished:
  assumes "upsert_gateway_job S stamp input db = (Inr r, db1)"
    and "append_job_lifecycle_event S config tick ty r payload db1 = (Inr u, db')"
    and "db_ok db" "chrono_text_law (sql_chrono S)"
    and "ty = ''missive.gateway.job.'' @ job_state_as_str (job_state input)"
  shows "\<exists>s. schedule_kept (sql_chrono S) (schedule_of input) s \<and> finished S (job_id input) db db' s"
proof -
  have "schedule_kept (sql_chrono S) (schedule_of input) (schedule_of r)"
    using upsert_then_journal [OF assms(1-4)] same_schedule_of by blast
  moreover from this have "finished S (job_id input) db db' (schedule_of r)"
    using upsert_then_journal [OF assms(1-4)] assms(5)
    unfolding finished_def by (auto simp: schedule_kept_def schedule_of_def)
  ultimately show ?thesis by blast
qed

lemma finish_terminal_job_schedule:
  assumes "finish_terminal_job S config tick job state output ty db = (Inr u, db')"
    and "db_ok db" "chrono_text_law (sql_chrono S)"
    and "ty = ''missive.gateway.job.'' @ job_state_as_str state"
  shows "\<exists>at. time_kept (sql_chrono S) (tick_now tick) at \<and>
    finished S (job_id job) db db' (completed at state (schedule_of job))"
proof -
  obtain input r db1 payload where
    u: "terminal_job_upsert (tick_now tick) job state output = Inr input"
      "upsert_gateway_job S (tick_job_stamp tick) input db = (Inr r, db1)"
      "append_job_lifecycle_event S config tick ty r payload db1 = (Inr u, db')"
    using assms(1) unfolding finish_terminal_job_def db_bind_Inr db_outcome_Inr by blast
  have "job_id input = job_id job" "job_state input = state"
    "schedule_of input = completed (tick_now tick) state (schedule_of job)"
    using u(1) by (auto simp: terminal_job_upsert_def and_then_Inr job_to_upsert_def schedule_of_def completed_def)
  then show ?thesis using upsert_finished [OF u(2,3) assms(2,3)] assms(4) schedule_kept_completed by force
qed

lemma finish_retry_or_fail_schedule:
  assumes f: "finish_retry_or_fail S config tick job error db = (Inr u, db')"
    and ok: "db_ok db" "chrono_text_law (sql_chrono S)" and "job_state job \<noteq> Job_Cancelled"
  shows "\<exists>s'. finish_step (sql_chrono S) (tick_now tick) (RetriableError error) (schedule_of job) s' \<and>
    finished S (job_id job) db db' s'"
proof (cases "saturating_succ_u32 (job_retry_count job) < job_max_attempts job")
  case True
  define n where "n = saturating_succ_u32 (job_retry_count job)"
  obtain retry due r db1 payload where
    u: "retry_job_upsert (sql_chrono S) (tick_now tick) job n (bounded_backoff n) error = Inr (retry, due)"
      "upsert_gateway_job S (tick_job_stamp tick) retry db = (Inr r, db1)"
      "append_job_lifecycle_event S config tick ''missive.gateway.job.retrying'' r payload db1 = (Inr u, db')"
    using f True unfolding finish_retry_or_fail_def Let_def n_def [symmetric] if_P [OF True [folded n_def]]
      db_bind_Inr db_outcome_Inr by (fastforce simp: db_bind_Inr)
  have n: "unat n = unat (job_retry_count job) + 1" using True succ_below [of "job_retry_count job"] by (simp add: n_def)
  have due: "timestamp_after (sql_chrono S) (tick_now tick) (bounded_backoff n) = Inr due"
    and input: "job_id retry = job_id job" "job_state retry = Job_Retrying"
      "schedule_of retry = retried due (schedule_of job)"
    using u(1) n by (auto simp: retry_job_upsert_def and_then_Inr job_to_upsert_def schedule_of_def retried_def)
  moreover have "sch_retry_count (schedule_of job) + 1 < sch_max_attempts (schedule_of job)"
    using True n by (simp add: schedule_of_def n_def word_less_nat_alt)
  moreover obtain s where "schedule_kept (sql_chrono S) (retried due (schedule_of job)) s"
    "finished S (job_id job) db db' s"
    using upsert_finished [OF u(2,3) ok] by (auto simp: input)
  ultimately show ?thesis
    using schedule_kept_retried [of _ due "schedule_of job" s, OF _ due] assms(4) due [unfolded bounded_backoff_closed n]
    by (intro exI [of _ s] conjI) (auto intro!: step_retry simp: schedule_of_def)
next
  case False
  then have "sch_max_attempts (schedule_of job) \<le> sch_retry_count (schedule_of job) + 1"
    by (simp add: schedule_of_def word_less_nat_alt unat_saturating_succ_u32)
  moreover have "\<exists>at. time_kept (sql_chrono S) (tick_now tick) at \<and>
      finished S (job_id job) db db' (completed at Job_Failed (schedule_of job))"
    using f False by (intro finish_terminal_job_schedule [OF _ ok]) (auto simp: finish_retry_or_fail_def)
  ultimately show ?thesis using assms(4) step_exhausted [of "schedule_of job"]
    by (metis (no_types, lifting) schedule.select_convs(1) schedule_of_def)
qed

lemma db_bind_get_gateway_job:
  "db_bind (get_gateway_job S k) f db =
     (case fst (get_gateway_job S k db) of Inl e \<Rightarrow> (Inl e, db) | Inr stored \<Rightarrow> f stored db)"
  by (simp add: db_bind_def get_gateway_job_def)

lemma finish_cancelled_schedule:
  assumes f: "finish_job_attempt_blocking S config tick attempt db = (Inr u, db')" and "db_ok db"
    and g: "fst (get_gateway_job S (att_job_id attempt) db) = Inr (Some job)" and c: "job_state job = Job_Cancelled"
  shows "finished S (att_job_id attempt) db db' (schedule_of job)"
proof -
  obtain payload where "append_job_lifecycle_event S config tick ''missive.gateway.job.cancelled'' job payload db = (Inr u, db')"
    using f g c by (simp add: finish_job_attempt_blocking_def db_bind_get_gateway_job)
  note l = lifecycle_event_appended [OF this]
  have "fst (get_gateway_job S k db') = fst (get_gateway_job S k db)" for k
    using l by (intro get_gateway_job_cong) blast
  then show ?thesis
    using l g c assms(2) stored_job_id [OF g assms(2)] by (simp add: finished_def schedule_of_def)
qed

lemma finish_attempt_schedule:
  assumes "finish_job_attempt_blocking S config tick attempt db = (Inr u, db')"
    and "db_ok db" "chrono_text_law (sql_chrono S)"
  shows "(case fst (get_gateway_job S (att_job_id attempt) db) of
      Inl e \<Rightarrow> False
    | Inr None \<Rightarrow> db' = db
    | Inr (Some job) \<Rightarrow>
        \<exists>s'. finish_step (sql_chrono S) (tick_now tick) (att_result attempt) (schedule_of job) s' \<and>
          finished S (att_job_id attempt) db db' s')"
proof (cases "fst (get_gateway_job S (att_job_id attempt) db)")
  case (Inl e)
  then show ?thesis using assms(1)
    by (simp add: finish_job_attempt_blocking_def db_bind_get_gateway_job)
next
  case (Inr stored)
  show ?thesis
  proof (cases stored)
    case None
    then show ?thesis using assms(1) Inr
      by (simp add: finish_job_attempt_blocking_def db_bind_get_gateway_job db_return_def)
  next
    case (Some job)
    note g = Inr [unfolded Some]
    note ident = stored_job_id [OF g assms(2)]
    have fin: "\<exists>s'. finish_step (sql_chrono S) (tick_now tick) result (schedule_of job) s' \<and>
        finished S (att_job_id attempt) db db' s'"
      if "finish_terminal_job S config tick job state out ty db = (Inr u, db')"
        "ty = ''missive.gateway.job.'' @ job_state_as_str state"
        "\<And>at. time_kept (sql_chrono S) (tick_now tick) at \<Longrightarrow>
          finish_step (sql_chrono S) (tick_now tick) result (schedule_of job) (completed at state (schedule_of job))"
      for result state out ty
      using finish_terminal_job_schedule [OF that(1) assms(2,3) that(2)] that(3) ident by auto
    show ?thesis
    proof (cases "job_state job = Job_Cancelled")
      case True
      then have "sch_state (schedule_of job) = Job_Cancelled" by (simp add: schedule_of_def)
      then show ?thesis using finish_cancelled_schedule [OF assms(1,2) g True]
        by (auto simp: g intro: step_already_cancelled)
    next
      case False
      then have nc: "sch_state (schedule_of job) \<noteq> Job_Cancelled" by (simp add: schedule_of_def)
      note f = assms(1) [unfolded finish_job_attempt_blocking_def db_bind_get_gateway_job g]
      show ?thesis
      proof (cases "att_result attempt")
        case (RetriableError error)
        then show ?thesis using finish_retry_or_fail_schedule [of S config tick job error db u db'] f g
            assms(2,3) False ident by simp
      qed (use f g nc False in \<open>auto intro!: fin finish_step.intros\<close>)
    qed
  qed
qed

text \<open>C10. Finishing an attempt takes the job's schedule along the state machine \<open>finish_step\<close>: a job cancelled
   meanwhile keeps its schedule, an outcome completes it in the second of now (the store keeps times to
   the second) with its lock released, and a retriable
  error waits one second doubled per earlier retry, up to thirty, until the attempts are spent and
  the job fails.  Every other job is as before, the journal has exactly one new entry, named after
  the state reached, and a job deleted meanwhile changes nothing.\<close>

theorem finish_job_attempt_step:
  assumes "finish_job_attempt_blocking S config tick attempt db = (Inr u, db')"
    and "db_ok db" "chrono_text_law (sql_chrono S)"
  shows "(case fst (get_gateway_job S (att_job_id attempt) db) of
      Inl e \<Rightarrow> False
    | Inr None \<Rightarrow> db' = db
    | Inr (Some job) \<Rightarrow>
        \<exists>s'. finish_step (sql_chrono S) (tick_now tick) (att_result attempt) (schedule_of job) s' \<and>
          finished S (att_job_id attempt) db db' s')"
  by (rule finish_attempt_schedule [OF assms])

text \<open>A job with its attempts and a profile; the date-times are those of \<open>text_chrono\<close>, whose seconds are
  written in unary and whose rendering drops the fraction.\<close>

definition demo_manager :: JobManagerConfig where
  "demo_manager =
     \<lparr>jm_profile = ''p'', jm_service_parameters =
        \<lparr>sp_protocol_version = ''1.0'', sp_extensions = [], sp_extra = []\<rparr>,
      jm_job_concurrency = 1\<rparr>"

definition demo_tick :: "string \<Rightarrow> string \<Rightarrow> string tick" where
  "demo_tick now ident =
     \<lparr>tick_now = now, tick_job_stamp = now, tick_event_stamp = now, tick_fresh_id = ident\<rparr>"

definition demo_db :: "u32 \<Rightarrow> gateway_db" where
  "demo_db attempts = snd (upsert_gateway_job text_store [] (demo_job\<lparr>job_max_attempts := attempts\<rparr>) empty_db)"

definition demo_failure :: JobAttempt where
  "demo_failure = \<lparr>att_job_id = ''job-1'', att_kind = ''send'', att_result = RetriableError ''boom''\<rparr>"

lemma demo_laws: "db_ok (demo_db n)" "chrono_text_law (sql_chrono text_store)"
  by (simp_all add: demo_db_def text_chrono_law text_store_def db_ok_upsert_job db_ok_empty)

lemma demo_finish:
  "fst (finish_job_attempt_blocking text_store demo_manager (demo_tick ''|.5'' ''a'') demo_failure (demo_db 1)) = Inr ()"
  by code_simp

lemma demo_get:
  "fst (get_gateway_job text_store ''job-1'' (demo_db 1)) =
     Inr (Some (GatewayJobUpsert.extend demo_job (GatewayJobRecord.fields [] [])))"
  by code_simp

theorem finish_job_attempt_step_witness:
  "\<exists>db' at. finish_job_attempt_blocking text_store demo_manager (demo_tick ''|.5'' ''a'') demo_failure (demo_db 1) = (Inr (), db') \<and>
     finished text_store ''job-1'' (demo_db 1) db' (completed at Job_Failed (schedule_of demo_job)) \<and>
     time_kept text_chrono ''|.5'' at"
proof -
  define db' where
    "db' = snd (finish_job_attempt_blocking text_store demo_manager (demo_tick ''|.5'' ''a'') demo_failure (demo_db 1))"
  have f: "finish_job_attempt_blocking text_store demo_manager (demo_tick ''|.5'' ''a'') demo_failure (demo_db 1) = (Inr (), db')"
    using demo_finish by (simp add: db'_def prod_eq_iff)
  have s: "schedule_of (GatewayJobUpsert.extend demo_job (GatewayJobRecord.fields [] [])) = schedule_of demo_job"
    by (simp add: schedule_of_def demo_job_def GatewayJobUpsert_new_def GatewayJobUpsert.defs GatewayJobRecord.defs)
  have "sch_max_attempts (schedule_of demo_job) = 1" "sch_state (schedule_of demo_job) = Job_Queued"
    by (simp_all add: schedule_of_def demo_job_def GatewayJobUpsert_new_def)
  with finish_job_attempt_step [OF f demo_laws] f show ?thesis
    by (auto simp: text_store_def [THEN arg_cong [of _ _ sql_chrono]] demo_failure_def demo_get s demo_tick_def elim!: finish_step_retriableE)
qed

subsection \<open>The retry budget\<close>

text \<open>One job through \<open>n\<close> failing attempts, each a claim of a due job and a retriable error; between
  them anything may happen that leaves the job as it is.\<close>

inductive failing_attempts ::
  "'dt::linorder sqlite \<Rightarrow> JobManagerConfig \<Rightarrow> GatewayJobId \<Rightarrow> gateway_db \<Rightarrow> nat \<Rightarrow> gateway_db \<Rightarrow> bool"
  for S config ident db where
  no_attempt: "failing_attempts S config ident db 0 db"
| elsewhere: "failing_attempts S config ident db n db1 \<Longrightarrow> db_ok db2 \<Longrightarrow>
    fst (get_gateway_job S ident db2) = fst (get_gateway_job S ident db1) \<Longrightarrow>
    failing_attempts S config ident db n db2"
| attempt_fails: "failing_attempts S config ident db n db1 \<Longrightarrow>
    fst (get_gateway_job S ident db1) = Inr (Some job) \<Longrightarrow> job_is_due job now \<Longrightarrow>
    claim_job S config claim job db1 = (Inr claimed, db2) \<Longrightarrow>
    finish_job_attempt_blocking S config finish
      \<lparr>att_job_id = ident, att_kind = job_kind job, att_result = RetriableError error\<rparr> db2 = (Inr u, db3) \<Longrightarrow>
    failing_attempts S config ident db (Suc n) db3"

lemma claim_job_schedule:
  assumes "claim_job S config tick job db = (Inr claimed, db')" "db_ok db" "chrono_text_law (sql_chrono S)"
  shows "\<exists>until. timestamp_after (sql_chrono S) (tick_now tick) JOB_LOCK_TTL = Inr until \<and>
    job_id claimed = job_id job \<and> job_kind claimed = job_kind job \<and>
    schedule_of claimed = locked (''gateway:jobs:'' @ jm_profile config) until (schedule_of job) \<and>
    fst (get_gateway_job S (job_id job) db') = Inr (Some claimed) \<and>
    (\<forall>k. k \<noteq> job_id job \<longrightarrow> fst (get_gateway_job S k db') = fst (get_gateway_job S k db)) \<and>
    journaled ''missive.gateway.job.started'' (job_id job) db db' \<and> db_ok db'"
proof -
  obtain running db1 payload u where
    u: "running_job_upsert (sql_chrono S) config (tick_now tick) job = Inr running"
      "upsert_gateway_job S (tick_job_stamp tick) running db = (Inr claimed, db1)"
      "append_job_lifecycle_event S config tick ''missive.gateway.job.started'' claimed payload db1 = (Inr u, db')"
    using assms(1) unfolding claim_job_def mark_running_def db_bind_Inr db_outcome_Inr db_return_def by auto
  obtain until where until: "timestamp_after (sql_chrono S) (tick_now tick) JOB_LOCK_TTL = Inr until"
    and input: "job_id running = job_id job" "job_kind running = job_kind job"
      "schedule_of running = locked (''gateway:jobs:'' @ jm_profile config) until (schedule_of job)"
    using u(1) by (auto simp: running_job_upsert_def and_then_Inr job_to_upsert_def schedule_of_def locked_def)
  note stored = upsert_then_journal [OF u(2,3) assms(2,3)]
  have "schedule_of claimed = locked (''gateway:jobs:'' @ jm_profile config) until (schedule_of job)"
    using stored same_schedule_of [of "sql_chrono S" claimed running] schedule_kept_locked [OF _ until]
    by (simp add: input)
  then show ?thesis
    using stored until by (auto simp: same_schedule_def input)
qed

definition spent :: "nat \<Rightarrow> nat \<Rightarrow> nat \<Rightarrow> 'dt schedule \<Rightarrow> bool" where
  "spent r m n s \<longleftrightarrow>
     r + n \<le> m \<and> sch_max_attempts s = m \<and>
     (if r + n = m then sch_state s = Job_Failed
      else sch_retry_count s = r + n \<and> (0 < n \<longrightarrow> sch_state s = Job_Retrying))"

lemma failed_attempt_spends:
  assumes "spent r m n (schedule_of job)" "job_is_due job now"
    and get: "fst (get_gateway_job S ident db1) = Inr (Some job)"
    and claim: "claim_job S config claim job db1 = (Inr claimed, db2)"
    and finish: "finish_job_attempt_blocking S config finish
      \<lparr>att_job_id = ident, att_kind = kind, att_result = RetriableError error\<rparr> db2 = (Inr u, db3)"
    and ok: "db_ok db1" "chrono_text_law (sql_chrono S)"
  shows "\<exists>job'. fst (get_gateway_job S ident db3) = Inr (Some job') \<and> spent r m (Suc n) (schedule_of job') \<and> db_ok db3"
proof -
  have below: "r + n < m" "sch_retry_count (schedule_of job) = r + n" "sch_max_attempts (schedule_of job) = m"
    using assms(1,2) by (auto simp: spent_def schedule_of_def split: if_splits)
  obtain until where c: "schedule_of claimed = locked (''gateway:jobs:'' @ jm_profile config) until (schedule_of job)"
    "fst (get_gateway_job S ident db2) = Inr (Some claimed)" "db_ok db2"
    using claim_job_schedule [OF claim ok] stored_job_id [OF get ok(1)] by auto
  obtain s' where f: "finish_step (sql_chrono S) (tick_now finish) (RetriableError error) (schedule_of claimed) s'"
    "finished S ident db2 db3 s'"
    using finish_attempt_schedule [OF finish c(3) ok(2)] c(2) by auto
  have "spent r m (Suc n) s'"
    using f(1) below by (cases rule: finish_step_retriableE) (auto simp: c(1) locked_def spent_def completed_def retried_def)
  with f(2) show ?thesis by (auto simp: finished_def)
qed

text \<open>C11. A job with \<open>m\<close> attempts of which \<open>r < m\<close> are used up can fail at most \<open>m - r\<close> more times
  whatever happens to other jobs: after fewer failures it waits for its next try with the failures
  counted, and the last one leaves it failed, never due again.\<close>

theorem retry_budget_exact:
  assumes "failing_attempts S config ident db n db'" "db_ok db" "chrono_text_law (sql_chrono S)"
    and "fst (get_gateway_job S ident db) = Inr (Some job)" "job_retry_count job < job_max_attempts job"
  shows "\<exists>job'. fst (get_gateway_job S ident db') = Inr (Some job') \<and>
    n \<le> unat (job_max_attempts job) - unat (job_retry_count job) \<and>
    (n = unat (job_max_attempts job) - unat (job_retry_count job) \<longrightarrow>
       job_state job' = Job_Failed \<and> (\<forall>now. \<not> job_is_due job' now)) \<and>
    (n < unat (job_max_attempts job) - unat (job_retry_count job) \<longrightarrow>
       unat (job_retry_count job') = unat (job_retry_count job) + n \<and> (0 < n \<longrightarrow> job_state job' = Job_Retrying))"
proof -
  define r m where "r = unat (job_retry_count job)" and "m = unat (job_max_attempts job)"
  have rm: "r < m" using assms(5) by (simp add: r_def m_def word_less_nat_alt)
  from assms(1) have "\<exists>job'. fst (get_gateway_job S ident db') = Inr (Some job') \<and> spent r m n (schedule_of job') \<and> db_ok db'"
  proof induction
    case no_attempt
    then show ?case using assms(2,4) rm by (simp add: spent_def schedule_of_def r_def m_def)
  next
    case (elsewhere n db1 db2)
    then show ?case by auto
  next
    case (attempt_fails n db1 job' now claim claimed db2 finish error u db3)
    then show ?case using failed_attempt_spends [of r m n job' now S ident db1] assms(3) by auto
  qed
  then show ?thesis using rm unfolding r_def [symmetric] m_def [symmetric]
    by (force simp: spent_def schedule_of_def split: if_splits)
qed

definition demo_record :: "string GatewayJobRecord" where
  "demo_record = GatewayJobUpsert.extend demo_job (GatewayJobRecord.fields [] [])"

definition demo_running :: "string GatewayJobUpsert" where
  "demo_running = demo_job
     \<lparr>job_state := Job_Running, job_locked_by := Some ''gateway:jobs:p'',
      job_locked_until := Some (replicate 60 (CHR ''|'')),
      job_metadata := [(''gateway.job.kind'', JString ''send''), (''gateway.job.profile'', JString ''p'')]\<rparr>"

lemma demo_lock: "timestamp_after text_chrono [] JOB_LOCK_TTL = Inr (replicate 60 (CHR ''|''))"
  by (simp add: timestamp_after_def JOB_LOCK_TTL_def text_chrono_def whole_second_def from_unix_timestamp_def
      unix_timestamp_def saturate_i64_def i64_max_def i64_min_def ok_or_def)

lemma demo_running_upsert:
  "running_job_upsert text_chrono demo_manager [] demo_record = Inr demo_running"
proof -
  have "insert_strs (job_metadata demo_record)
      [(''gateway.job.profile'', jm_profile demo_manager), (''gateway.job.kind'', job_kind demo_record)] =
    Inr [(''gateway.job.kind'', JString ''send''), (''gateway.job.profile'', JString ''p'')]" by code_simp
  then show ?thesis
    by (simp add: running_job_upsert_def demo_lock demo_running_def job_to_upsert_def demo_record_def
        demo_job_def GatewayJobUpsert_new_def GatewayJobUpsert.defs GatewayJobRecord.defs demo_manager_def)
qed

lemma demo_claim:
  "claim_job text_store demo_manager (demo_tick [] ''c'') demo_record db =
     mark_running text_store demo_manager (demo_tick [] ''c'') demo_running db"
  by (simp add: claim_job_def text_store_def demo_tick_def demo_running_upsert db_bind_def db_outcome_def)

definition demo_claimed :: gateway_db where
  "demo_claimed = snd (mark_running text_store demo_manager (demo_tick [] ''c'') demo_running (demo_db 1))"

lemma demo_attempt_claim:
  "fst (mark_running text_store demo_manager (demo_tick [] ''c'') demo_running (demo_db 1)) =
     Inr (GatewayJobUpsert.extend (demo_running\<lparr>job_metadata := []\<rparr>) (GatewayJobRecord.fields [] []))"
  by code_simp

lemma demo_attempt_finish:
  "fst (finish_job_attempt_blocking text_store demo_manager (demo_tick ''|'' ''f'')
    \<lparr>att_job_id = ''job-1'', att_kind = job_kind demo_record, att_result = RetriableError ''boom''\<rparr> demo_claimed) = Inr ()"
  by code_simp

theorem retry_budget_exact_witness:
  "\<exists>db' job'. failing_attempts text_store demo_manager ''job-1'' (demo_db 1) 1 db' \<and>
     fst (get_gateway_job text_store ''job-1'' db') = Inr (Some job') \<and> job_state job' = Job_Failed"
proof -
  have get: "fst (get_gateway_job text_store ''job-1'' (demo_db 1)) = Inr (Some demo_record)"
    by (simp add: demo_get demo_record_def)
  have due: "job_is_due demo_record []" by code_simp
  obtain db' where "finish_job_attempt_blocking text_store demo_manager (demo_tick ''|'' ''f'')
    \<lparr>att_job_id = ''job-1'', att_kind = job_kind demo_record, att_result = RetriableError ''boom''\<rparr> demo_claimed = (Inr (), db')"
    using demo_attempt_finish by (metis prod.collapse)
  moreover obtain claimed where "claim_job text_store demo_manager (demo_tick [] ''c'') demo_record (demo_db 1) =
      (Inr claimed, demo_claimed)"
    unfolding demo_claim demo_claimed_def using demo_attempt_claim by (metis prod.collapse)
  ultimately have f: "failing_attempts text_store demo_manager ''job-1'' (demo_db 1) 1 db'"
    using attempt_fails [OF no_attempt get due] by (metis One_nat_def)
  have "job_retry_count demo_record = 0" "job_max_attempts demo_record = 1" by code_simp+
  with retry_budget_exact [OF f demo_laws get] f show ?thesis by auto
qed

subsection \<open>Claims of a sweep\<close>

text \<open>When a job may be claimed, and what one sweep owes each job it claims.\<close>

definition claimable :: "('dt::linorder, 'm) GatewayJobUpsert_scheme \<Rightarrow> 'dt \<Rightarrow> bool" where
  "claimable job now \<longleftrightarrow>
     (job_state job \<in> {Job_Queued, Job_Retrying} \<and> (\<forall>t. job_next_run_at job = Some t \<longrightarrow> t \<le> now)) \<or>
     (job_state job = Job_Running \<and> (\<exists>t. job_locked_until job = Some t \<and> t \<le> now))"

lemma job_is_due_iff: "job_is_due job now \<longleftrightarrow> claimable job now"
  by (cases "job_state job") (auto simp: claimable_def split: option.splits)

definition claimed_from ::
  "'dt::linorder sqlite \<Rightarrow> JobManagerConfig \<Rightarrow> 'dt \<Rightarrow> gateway_db \<Rightarrow> gateway_db \<Rightarrow> 'dt GatewayJobRecord \<Rightarrow> bool" where
  "claimed_from S config now db db' claimed \<longleftrightarrow>
     (\<exists>job. fst (get_gateway_job S (job_id claimed) db) = Inr (Some job) \<and>
        is_background_job_kind (job_kind job) \<and> claimable job now \<and>
        job_retry_count claimed = job_retry_count job) \<and>
     job_state claimed = Job_Running \<and> job_locked_by claimed = Some (''gateway:jobs:'' @ jm_profile config) \<and>
     job_locked_until claimed \<noteq> None \<and>
     fst (get_gateway_job S (job_id claimed) db') = Inr (Some claimed)"

lemma claim_job_claims:
  assumes "claim_job S config tick job db1 = (Inr claimed, db2)" "db_ok db1" "chrono_text_law (sql_chrono S)"
    and "fst (get_gateway_job S (job_id job) db) = Inr (Some job)" "is_background_job_kind (job_kind job)"
    and "job_is_due job now"
  shows "claimed_from S config now db db2 claimed"
proof -
  have "job_retry_count claimed = job_retry_count job"
    using claim_job_schedule [OF assms(1-3)] by (auto simp: schedule_of_def locked_def word_unat_eq_iff)
  then show ?thesis using claim_job_schedule [OF assms(1-3)] assms(4-6)
    unfolding job_is_due_iff by (auto simp: claimed_from_def schedule_of_def locked_def)
qed

lemma scan_jobs_claims:
  assumes "scan_jobs S config now ticks jobs snap candidates db1 = (Inr result, db2)"
    and "db_ok db1" "chrono_text_law (sql_chrono S)" "distinct (map job_id jobs)"
    and "\<forall>job \<in> set jobs. fst (get_gateway_job S (job_id job) db) = Inr (Some job)"
    and "\<forall>c \<in> set candidates. claimed_from S config now db db1 c \<and> job_id c \<notin> job_id ` set jobs"
    and "distinct (map job_id candidates)" "length candidates \<le> max (unat (jm_job_concurrency config)) 1"
    and "\<forall>k. k \<notin> job_id ` set candidates \<longrightarrow> fst (get_gateway_job S k db1) = fst (get_gateway_job S k db)"
  shows "(\<forall>c \<in> set (scan_candidates result). claimed_from S config now db db2 c) \<and>
    distinct (map job_id (scan_candidates result)) \<and>
    length (scan_candidates result) \<le> max (unat (jm_job_concurrency config)) 1 \<and>
    (\<forall>k. k \<notin> job_id ` set (scan_candidates result) \<longrightarrow>
       fst (get_gateway_job S k db2) = fst (get_gateway_job S k db)) \<and> db_ok db2"
  using assms
proof (induction jobs arbitrary: snap candidates db1)
  case Nil
  then show ?case by (auto simp: db_return_def)
next
  case (Cons job jobs)
  show ?case
  proof (cases "is_background_job_kind (job_kind job) \<and> job_is_due job now \<and>
      length candidates < max (unat (jm_job_concurrency config)) 1")
    case False
    then obtain snap' where "scan_jobs S config now ticks jobs snap' candidates db1 = (Inr result, db2)"
      using Cons.prems(1) by (auto simp: Let_def not_less split: if_splits simp del: job_is_due.simps)
    from Cons.IH [OF this] Cons.prems show ?thesis by auto
  next
    case True
    then obtain claimed db' snap' where claim: "claim_job S config (ticks (job_id job)) job db1 = (Inr claimed, db')"
      and rest: "scan_jobs S config now ticks jobs snap' (candidates @ [claimed]) db' = (Inr result, db2)"
      using Cons.prems(1) by (auto simp: Let_def db_bind_Inr simp del: job_is_due.simps split: if_splits)
    have new: "claimed_from S config now db db' claimed"
      using claim_job_claims [OF claim Cons.prems(2,3)] Cons.prems(5) True by auto
    have c: "job_id claimed = job_id job" "db_ok db'"
      "\<forall>k. k \<noteq> job_id job \<longrightarrow> fst (get_gateway_job S k db') = fst (get_gateway_job S k db1)"
      using claim_job_schedule [OF claim Cons.prems(2,3)] by auto
    have old: "\<forall>c \<in> set candidates. claimed_from S config now db db' c \<and> job_id c \<notin> job_id ` set jobs"
      using Cons.prems(6) c(3) by (auto simp: claimed_from_def)
    show ?thesis
      by (rule Cons.IH [OF rest c(2) Cons.prems(3)])
        (use Cons.prems old new c True in \<open>auto\<close>)
  qed
qed

lemma scan_jobs_complete:
  assumes "scan_jobs S config now ticks jobs snap candidates db1 = (Inr result, db2)"
    and "db_ok db1" "chrono_text_law (sql_chrono S)"
    and "length (scan_candidates result) < max (unat (jm_job_concurrency config)) 1"
  shows "length candidates \<le> length (scan_candidates result) \<and>
    job_id ` set candidates \<subseteq> job_id ` set (scan_candidates result) \<and>
    (\<forall>job \<in> set jobs. is_background_job_kind (job_kind job) \<longrightarrow> job_is_due job now \<longrightarrow>
       job_id job \<in> job_id ` set (scan_candidates result))"
  using assms
proof (induction jobs arbitrary: snap candidates db1)
  case Nil
  then show ?case by (auto simp: db_return_def)
next
  case (Cons job jobs)
  show ?case
  proof (cases "is_background_job_kind (job_kind job) \<and> job_is_due job now \<and>
      length candidates < max (unat (jm_job_concurrency config)) 1")
    case False
    then obtain snap' where "scan_jobs S config now ticks jobs snap' candidates db1 = (Inr result, db2)"
      using Cons.prems(1) by (auto simp: Let_def not_less split: if_splits simp del: job_is_due.simps)
    from Cons.IH [OF this] Cons.prems False show ?thesis by (auto simp del: job_is_due.simps)
  next
    case True
    then obtain claimed db' snap' where claim: "claim_job S config (ticks (job_id job)) job db1 = (Inr claimed, db')"
      and rest: "scan_jobs S config now ticks jobs snap' (candidates @ [claimed]) db' = (Inr result, db2)"
      using Cons.prems(1) by (auto simp: Let_def db_bind_Inr simp del: job_is_due.simps split: if_splits)
    show ?thesis using claim_job_schedule [OF claim Cons.prems(2,3)] Cons.IH [OF rest] Cons.prems(3,4)
      by (auto simp del: job_is_due.simps)
  qed
qed

lemma listed_jobs_stored:
  assumes "db_ok db" "list_gateway_jobs S db = (Inr js, db')"
  shows "db' = db \<and> distinct (map job_id js) \<and>
    (\<forall>j \<in> set js. fst (get_gateway_job S (job_id j) db) = Inr (Some j)) \<and>
    (\<forall>k j. fst (get_gateway_job S k db) = Inr (Some j) \<longrightarrow> j \<in> set js)"
proof -
  have dist: "distinct (map fst (db_jobs db))"
    using assms(1) strict_sorted_iff by (auto simp: db_ok_def bm_sorted_def)
  have all: "list_all2 (\<lambda>r j. read_gateway_job_row S r = Inr j) (map snd (db_jobs db)) js"
    using assms(2) unfolding list_gateway_jobs_def prod.inject collect_rows_Inr by blast
  have "fst (get_gateway_job S (job_id j) db) = Inr (Some j)" if mem: "j \<in> set js" for j
  proof -
    obtain i where i: "i < length js" "js ! i = j" using mem by (auto simp: in_set_conv_nth)
    have "length (db_jobs db) = length js" using all by (auto dest: list_all2_lengthD)
    moreover have "fst (db_jobs db ! i) = job_id j"
      using list_gateway_jobs_ids [OF assms] i calculation by (metis nth_map)
    ultimately have "bm_get (job_id j) (db_jobs db) = Some (snd (db_jobs db ! i))"
      using dist i by (metis bm_get_def map_of_is_SomeI nth_mem prod.collapse)
    moreover have "read_gateway_job_row S (snd (db_jobs db ! i)) = Inr j"
      using list_all2_nthD2 [OF all i(1)] i \<open>length (db_jobs db) = length js\<close> by simp
    ultimately show ?thesis by (simp add: get_gateway_job_def query_row_def)
  qed
  moreover have "j \<in> set js" if g: "fst (get_gateway_job S k db) = Inr (Some j)" for k j
  proof -
    obtain row where "(k, row) \<in> set (db_jobs db)" "read_gateway_job_row S row = Inr j"
      using g by (auto simp: get_gateway_job_def query_row_Inr bm_get_def split: option.splits dest: map_of_SomeD)
    moreover then obtain i where "i < length (db_jobs db)" "db_jobs db ! i = (k, row)"
      by (auto simp: in_set_conv_nth)
    ultimately show ?thesis using list_all2_nthD [OF all, of i] list_all2_lengthD [OF all]
      by (auto simp: in_set_conv_nth)
  qed
  moreover have "distinct (map job_id js)" using list_gateway_jobs_ids [OF assms] dist by simp
  ultimately show ?thesis using assms(2) by (auto simp: list_gateway_jobs_def)
qed

text \<open>C12. A scan claims at most the configured number of jobs (one when it is zero), no job twice, and only
  background jobs that were due: each is left running, locked for this profile, with its retry
  count as it was.  Jobs not claimed read as before, and when the scan stops short of the number, it
  has claimed every stored background job that was due.\<close>

theorem scan_claims_due_jobs:
  assumes "scan_background_jobs_blocking S config now ticks db = (Inr result, db')"
    and "db_ok db" "chrono_text_law (sql_chrono S)"
  shows "(\<forall>c \<in> set (scan_candidates result). claimed_from S config now db db' c) \<and>
    distinct (map job_id (scan_candidates result)) \<and>
    length (scan_candidates result) \<le> max (unat (jm_job_concurrency config)) 1 \<and>
    (\<forall>k. k \<notin> job_id ` set (scan_candidates result) \<longrightarrow>
       fst (get_gateway_job S k db') = fst (get_gateway_job S k db)) \<and> db_ok db' \<and>
    (length (scan_candidates result) < max (unat (jm_job_concurrency config)) 1 \<longrightarrow>
       (\<forall>k job. fst (get_gateway_job S k db) = Inr (Some job) \<longrightarrow> is_background_job_kind (job_kind job) \<longrightarrow>
          claimable job now \<longrightarrow> k \<in> job_id ` set (scan_candidates result)))"
proof -
  obtain jobs where list: "list_gateway_jobs S db = (Inr jobs, db)"
    and scan: "scan_jobs S config now ticks jobs
      \<lparr>snap_due = 0, snap_queued = 0, snap_running = 0, snap_retrying = 0, snap_terminal = 0\<rparr> [] db = (Inr result, db')"
    using assms(1) unfolding scan_background_jobs_blocking_def db_bind_Inr
    by (metis list_gateway_jobs_def prod.inject)
  note stored = listed_jobs_stored [OF assms(2) list]
  have "k \<in> job_id ` set (scan_candidates result)"
    if "length (scan_candidates result) < max (unat (jm_job_concurrency config)) 1"
      and g: "fst (get_gateway_job S k db) = Inr (Some job)"
      and "is_background_job_kind (job_kind job)" "claimable job now" for k job
    using scan_jobs_complete [OF scan assms(2,3) that(1)] stored that stored_job_id [OF g assms(2)]
    unfolding job_is_due_iff by blast
  then show ?thesis
    using scan_jobs_claims [OF scan assms(2,3), of db] stored by (simp del: job_is_due.simps)
qed

lemma demo_scan_jobs: "fst (list_gateway_jobs text_store (demo_db 1)) = Inr [demo_record]"
  by code_simp

theorem scan_claims_due_jobs_witness:
  "\<exists>result db'. scan_background_jobs_blocking text_store demo_manager [] (\<lambda>k. demo_tick [] ''c'') (demo_db 1) = (Inr result, db') \<and>
     map job_id (scan_candidates result) = [''job-1''] \<and>
     (\<forall>c \<in> set (scan_candidates result). claimed_from text_store demo_manager [] (demo_db 1) db' c)"
proof -
  define claimed where
    "claimed = GatewayJobUpsert.extend (demo_running\<lparr>job_metadata := []\<rparr>) (GatewayJobRecord.fields ([] :: string) [])"
  have "claim_job text_store demo_manager (demo_tick [] ''c'') demo_record (demo_db 1) = (Inr claimed, demo_claimed)"
    unfolding demo_claim demo_claimed_def claimed_def using demo_attempt_claim by (metis prod.collapse)
  moreover have "list_gateway_jobs text_store (demo_db 1) = (Inr [demo_record], demo_db 1)"
    using demo_scan_jobs by (simp add: list_gateway_jobs_def)
  moreover have "is_background_job_kind (job_kind demo_record)" "job_is_due demo_record []" by code_simp+
  ultimately have scan: "\<exists>snap. scan_background_jobs_blocking text_store demo_manager [] (\<lambda>k. demo_tick [] ''c'') (demo_db 1) =
      (Inr \<lparr>scan_candidates = [claimed], scan_snapshot = snap\<rparr>, demo_claimed)"
    by (simp add: scan_background_jobs_blocking_def db_bind_def db_return_def Let_def max_def del: job_is_due.simps)
  have "job_id claimed = ''job-1''"
    by (simp add: claimed_def demo_running_def demo_job_def GatewayJobUpsert_new_def GatewayJobUpsert.defs)
  with scan scan_claims_due_jobs [OF _ demo_laws] show ?thesis by fastforce
qed

end
