(* ===== verification/A2a_Negotiation.thy ===== *)
theory A2a_Negotiation
  imports Store_Types
begin

text \<open>
  Interface negotiation of \<open>crates/missive-a2a/src/lib.rs\<close>: from the bindings a caller prefers, or
  the one it insists on, and the interfaces an agent card advertises, the first that both sides
  support; a card without interfaces falls back to registered URLs.  The parser of the \<open>url\<close> crate
  is a parameter, which tells whether the parsed URL has a host.  Of the SDK's agent card only the
  interfaces matter here.
\<close>

subsection \<open>Bindings\<close>

definition HTTP_JSON_BINDING :: string where
  "HTTP_JSON_BINDING = ''http+json''"

definition JSON_RPC_BINDING :: string where
  "JSON_RPC_BINDING = ''json-rpc''"

definition GRPC_BINDING :: string where
  "GRPC_BINDING = ''grpc''"

definition LOCALLY_SUPPORTED_BINDINGS :: "string list" where
  "LOCALLY_SUPPORTED_BINDINGS = [HTTP_JSON_BINDING, JSON_RPC_BINDING]"

definition PLANNED_BINDINGS :: "string list" where
  "PLANNED_BINDINGS = [GRPC_BINDING]"

datatype NegotiatedInterfaceSource = AgentCard | RegistryOverride | BaseUrlFallback

fun interface_source_as_str :: "NegotiatedInterfaceSource \<Rightarrow> string" where
  "interface_source_as_str AgentCard = ''agent_card''"
| "interface_source_as_str RegistryOverride = ''registry_override''"
| "interface_source_as_str BaseUrlFallback = ''base_url_fallback''"

record NegotiatedInterface =
  nego_binding :: string
  nego_protocol_binding :: string
  nego_url :: string
  nego_tenant :: "string option"
  nego_protocol_version :: string
  nego_source :: NegotiatedInterfaceSource

text \<open>An interface of the SDK's agent card.\<close>

record AgentInterface =
  iface_url :: string
  iface_protocol_binding :: string
  iface_tenant :: "string option"
  iface_protocol_version :: string

record InterfaceNegotiationOptions =
  opt_preferred_bindings :: "string list"
  opt_binding_override :: "string option"
  opt_fallback_interface_urls :: "(string, string) btree_map"
  opt_fallback_base_url :: "string option"

type_synonym url_host = "string \<Rightarrow> std_error + bool"

definition a2a_default_binding_preference :: "string list" where
  "a2a_default_binding_preference = LOCALLY_SUPPORTED_BINDINGS"

definition InterfaceNegotiationOptions_default :: InterfaceNegotiationOptions where
  "InterfaceNegotiationOptions_default =
     \<lparr>opt_preferred_bindings = a2a_default_binding_preference, opt_binding_override = None,
      opt_fallback_interface_urls = [], opt_fallback_base_url = None\<rparr>"

definition is_locally_supported_binding :: "string \<Rightarrow> bool" where
  "is_locally_supported_binding binding \<longleftrightarrow> binding \<in> set LOCALLY_SUPPORTED_BINDINGS"

definition locally_supported_bindings_text :: string where
  "locally_supported_bindings_text = join_with '', '' LOCALLY_SUPPORTED_BINDINGS"

definition canonical_protocol_binding :: "string \<Rightarrow> string" where
  "canonical_protocol_binding value =
     (let folded = to_ascii_lowercase (trim value);
          compact = filter (\<lambda>c. c \<notin> {CHR ''+'', CHR ''-'', CHR ''_''}) folded
      in if compact = ''httpjson'' then HTTP_JSON_BINDING
         else if compact = ''jsonrpc'' then JSON_RPC_BINDING
         else if compact = ''grpc'' then GRPC_BINDING
         else folded)"

definition local_support_help :: "string option \<Rightarrow> string" where
  "local_support_help binding =
     ''Choose one of the locally supported A2A bindings: '' @ locally_supported_bindings_text @ ''.'' @
     (case binding of
        Some b \<Rightarrow>
          if b \<in> set PLANNED_BINDINGS
          then '' gRPC is recognized by the negotiation layer but is not implemented yet.'' else []
      | None \<Rightarrow> [])"

definition binding_byte :: "char \<Rightarrow> bool" where
  "binding_byte b \<longleftrightarrow>
     is_ascii_lowercase b \<or> is_ascii_digit b \<or> b \<in> {CHR ''+'', CHR ''-'', CHR ''_'', CHR ''.''}"

definition normalize_requested_binding :: "string \<Rightarrow> string \<Rightarrow> string outcome" where
  "normalize_requested_binding label value =
     (let binding = canonical_protocol_binding value
      in if binding = [] then
           Inl (with_help (error_validation [Lit (label @ '' cannot be empty'')]) (local_support_help None))
         else if list_ex (\<lambda>b. \<not> binding_byte b) binding then
           Inl (with_help
             (error_validation [Lit (label @ '' ''), Dbg value, Lit '' is not a valid protocol binding name''])
             (local_support_help None))
         else Inr binding)"

text \<open>The loop of \<open>normalized_preferences\<close>; \<open>seen\<close> holds the bindings pushed so far.\<close>

fun normalize_preferences_from :: "string list \<Rightarrow> string list \<Rightarrow> string list outcome" where
  "normalize_preferences_from seen [] = Inr seen"
| "normalize_preferences_from seen (value # values) =
     and_then (normalize_requested_binding ''binding preference'' value) (\<lambda>binding.
       normalize_preferences_from (if binding \<in> set seen then seen else seen @ [binding]) values)"

definition normalized_preferences :: "string list \<Rightarrow> string list outcome" where
  "normalized_preferences values =
     normalize_preferences_from [] (if values = [] then a2a_default_binding_preference else values)"

definition ensure_locally_supported :: "string \<Rightarrow> unit outcome" where
  "ensure_locally_supported binding =
     (if is_locally_supported_binding binding then Inr ()
      else
        Inl (with_help
          (error_transport
            [Lit ''A2A binding '', Dbg binding,
             Lit ('' is not supported locally; missive supports locally: '' @ locally_supported_bindings_text)])
          (local_support_help (Some binding))))"

subsection \<open>Interfaces of the card\<close>

definition first_card_interface :: "AgentInterface list \<Rightarrow> string \<Rightarrow> AgentInterface option" where
  "first_card_interface interfaces binding =
     List.find (\<lambda>i. canonical_protocol_binding (iface_protocol_binding i) = binding) interfaces"

definition interface_from_agent_card :: "AgentInterface \<Rightarrow> NegotiatedInterface" where
  "interface_from_agent_card i =
     \<lparr>nego_binding = canonical_protocol_binding (iface_protocol_binding i),
      nego_protocol_binding = iface_protocol_binding i, nego_url = iface_url i,
      nego_tenant = iface_tenant i, nego_protocol_version = iface_protocol_version i,
      nego_source = AgentCard\<rparr>"

definition remote_bindings_text :: "AgentInterface list \<Rightarrow> string" where
  "remote_bindings_text interfaces =
     (let bindings = bs_from_iter (map (\<lambda>i. canonical_protocol_binding (iface_protocol_binding i)) interfaces)
      in if bindings = [] then ''none'' else join_with '', '' bindings)"

definition no_mutual_interface_error :: "AgentInterface list \<Rightarrow> MissiveError" where
  "no_mutual_interface_error interfaces =
     with_help
       (error_transport
         [Lit (''no mutually supported A2A interface could be negotiated; missive supports locally: '' @
            locally_supported_bindings_text @ ''; remote advertised: '' @ remote_bindings_text interfaces)])
       ''Use an agent that advertises HTTP+JSON or JSONRPC, or add local support for another binding in a future extension.''"

subsection \<open>Fallback\<close>

definition ABSOLUTE_URL_HELP :: string where
  "ABSOLUTE_URL_HELP = ''Use an absolute http(s) URL such as https://agent.example/a2a.''"

definition validate_interface_url :: "url_host \<Rightarrow> string \<Rightarrow> string \<Rightarrow> unit outcome" where
  "validate_interface_url U label value =
     (case U value of
        Inl error \<Rightarrow>
          Inl (with_help
            (with_source (error_validation [Lit (label @ '' must be an absolute URL'')]) error)
            ABSOLUTE_URL_HELP)
      | Inr has_host \<Rightarrow>
          if \<not> has_host then
            Inl (with_help (error_validation [Lit (label @ '' must include a host'')]) ABSOLUTE_URL_HELP)
          else Inr ())"

definition fallback_interface :: "string \<Rightarrow> string \<Rightarrow> NegotiatedInterfaceSource \<Rightarrow> NegotiatedInterface" where
  "fallback_interface binding url source =
     \<lparr>nego_binding = binding, nego_protocol_binding = binding, nego_url = url, nego_tenant = None,
      nego_protocol_version = ''unknown'', nego_source = source\<rparr>"

definition fallback_interface_for_binding ::
  "url_host \<Rightarrow> InterfaceNegotiationOptions \<Rightarrow> string \<Rightarrow> NegotiatedInterface option outcome" where
  "fallback_interface_for_binding U options binding =
     (case List.find (\<lambda>(candidate, url). canonical_protocol_binding candidate = binding)
         (opt_fallback_interface_urls options) of
        Some (candidate, url) \<Rightarrow>
          and_then (validate_interface_url U ''registry fallback interface URL'' url)
            (\<lambda>_. Inr (Some (fallback_interface binding url RegistryOverride)))
      | None \<Rightarrow>
          (if binding = HTTP_JSON_BINDING then
             (case opt_fallback_base_url options of
                Some url \<Rightarrow>
                  and_then (validate_interface_url U ''base URL fallback interface'' url)
                    (\<lambda>_. Inr (Some (fallback_interface binding url BaseUrlFallback)))
              | None \<Rightarrow> Inr None)
           else Inr None))"

fun fallback_loop ::
  "url_host \<Rightarrow> InterfaceNegotiationOptions \<Rightarrow> string list \<Rightarrow> NegotiatedInterface option outcome" where
  "fallback_loop U options [] = Inr None"
| "fallback_loop U options (binding # bindings) =
     and_then (fallback_interface_for_binding U options binding) (\<lambda>found.
       case found of
         Some interface \<Rightarrow> Inr (Some interface)
       | None \<Rightarrow> fallback_loop U options bindings)"

definition negotiate_missing_interfaces_fallback ::
  "url_host \<Rightarrow> InterfaceNegotiationOptions \<Rightarrow> string list \<Rightarrow> string option \<Rightarrow> NegotiatedInterface outcome" where
  "negotiate_missing_interfaces_fallback U options bindings requested_binding =
     and_then (fallback_loop U options bindings) (\<lambda>found.
       ok_or found
         (with_help
           (error_transport
             ([Lit ''A2A Agent Card does not declare supportedInterfaces and no registry/base-URL fallback interface is available''] @
              (case requested_binding of
                 Some binding \<Rightarrow> [Lit '' for requested binding '', Dbg binding] | None \<Rightarrow> []) @
              [Lit (''; missive supports locally: '' @ locally_supported_bindings_text)]))
           ''Add an explicit agent interface URL, use the HTTP+JSON base-URL fallback, or update the remote Agent Card.''))"

subsection \<open>Negotiation\<close>

definition negotiate_requested_binding ::
  "url_host \<Rightarrow> AgentInterface list \<Rightarrow> InterfaceNegotiationOptions \<Rightarrow> string \<Rightarrow> NegotiatedInterface outcome" where
  "negotiate_requested_binding U interfaces options binding =
     (case first_card_interface interfaces binding of
        Some interface \<Rightarrow> Inr (interface_from_agent_card interface)
      | None \<Rightarrow>
          if interfaces = [] then
            negotiate_missing_interfaces_fallback U options [binding] (Some binding)
          else
            Inl (with_help
              (error_transport
                [Lit ''A2A binding override '', Dbg binding,
                 Lit ('' is not advertised by the Agent Card; missive supports locally: '' @
                   locally_supported_bindings_text @ ''; remote advertised: '' @ remote_bindings_text interfaces)])
              ''Choose a binding advertised in supportedInterfaces, or refresh/update the Agent Card.''))"

fun card_loop :: "AgentInterface list \<Rightarrow> string list \<Rightarrow> AgentInterface option" where
  "card_loop interfaces [] = None"
| "card_loop interfaces (binding # bindings) =
     (case first_card_interface interfaces binding of
        Some interface \<Rightarrow> Some interface
      | None \<Rightarrow> card_loop interfaces bindings)"

definition negotiate_agent_interface ::
  "url_host \<Rightarrow> AgentInterface list \<Rightarrow> InterfaceNegotiationOptions \<Rightarrow> NegotiatedInterface outcome" where
  "negotiate_agent_interface U interfaces options =
     and_then (normalized_preferences (opt_preferred_bindings options)) (\<lambda>preferences.
       case opt_binding_override options of
         Some override_binding \<Rightarrow>
           and_then (normalize_requested_binding ''binding override'' override_binding) (\<lambda>binding.
           and_then (ensure_locally_supported binding) (\<lambda>_.
             negotiate_requested_binding U interfaces options binding))
       | None \<Rightarrow>
           (let locally_supported_preference = filter is_locally_supported_binding preferences
            in if locally_supported_preference = [] then
                 Inl (with_help
                   (error_transport
                     [Lit (''A2A interface negotiation cannot proceed because binding preference ['' @
                        join_with '', '' preferences @
                        ''] contains no locally supported bindings; missive supports locally: '' @
                        locally_supported_bindings_text)])
                   (local_support_help None))
               else
                 (case card_loop interfaces locally_supported_preference of
                    Some interface \<Rightarrow> Inr (interface_from_agent_card interface)
                  | None \<Rightarrow>
                      if interfaces = [] then
                        negotiate_missing_interfaces_fallback U options locally_supported_preference None
                      else Inl (no_mutual_interface_error interfaces))))"

text \<open>The options \<open>resolve_agent_interface\<close> (\<open>crates/missive-gateway/src/jobs.rs\<close>) builds from a
  stored agent: its preferred transports, its interface URLs by transport, and its base URL.\<close>

definition agent_negotiation_options ::
  "TransportName list \<Rightarrow> (TransportName, string) btree_map \<Rightarrow> string \<Rightarrow> InterfaceNegotiationOptions" where
  "agent_negotiation_options binding_preference interface_urls base_url =
     \<lparr>opt_preferred_bindings = binding_preference, opt_binding_override = None,
      opt_fallback_interface_urls = interface_urls, opt_fallback_base_url = Some base_url\<rparr>"

end
