(* ===== verification/A2a_Negotiation_Properties.thy ===== *)
theory A2a_Negotiation_Properties
  imports A2a_Negotiation
begin

text \<open>
  Negotiation against its specification: of the bindings the caller wants, in order, the first one
  with an offer decides.
\<close>

subsection \<open>Specification\<close>

fun first_some :: "('a \<Rightarrow> 'b option) \<Rightarrow> 'a list \<Rightarrow> 'b option" where
  "first_some f [] = None"
| "first_some f (x # xs) = (case f x of Some y \<Rightarrow> Some y | None \<Rightarrow> first_some f xs)"

text \<open>The bindings the caller accepts, most wanted first, and what the other side offers for one.\<close>

definition requested :: "InterfaceNegotiationOptions \<Rightarrow> string list" where
  "requested options =
     (case opt_binding_override options of
        Some b \<Rightarrow> [b]
      | None \<Rightarrow>
          if opt_preferred_bindings options = [] then LOCALLY_SUPPORTED_BINDINGS
          else opt_preferred_bindings options)"

definition wanted :: "InterfaceNegotiationOptions \<Rightarrow> string list" where
  "wanted options =
     filter (\<lambda>b. b \<in> {''http+json'', ''json-rpc''}) (map canonical_protocol_binding (requested options))"

definition registered :: "InterfaceNegotiationOptions \<Rightarrow> string \<Rightarrow> NegotiatedInterface option" where
  "registered options w =
     (case List.find (\<lambda>(candidate, url). canonical_protocol_binding candidate = w)
         (opt_fallback_interface_urls options) of
        Some (candidate, url) \<Rightarrow> Some (fallback_interface w url RegistryOverride)
      | None \<Rightarrow>
          if w = ''http+json''
          then map_option (\<lambda>url. fallback_interface w url BaseUrlFallback) (opt_fallback_base_url options)
          else None)"

definition offer :: "AgentInterface list \<Rightarrow> InterfaceNegotiationOptions \<Rightarrow> string \<Rightarrow> NegotiatedInterface option" where
  "offer interfaces options w =
     (if interfaces = [] then registered options w
      else map_option interface_from_agent_card
        (List.find (\<lambda>i. canonical_protocol_binding (iface_protocol_binding i) = w) interfaces))"

text \<open>A registered URL is checked when it is used, an advertised one is not.\<close>

definition usable :: "url_host \<Rightarrow> NegotiatedInterface \<Rightarrow> bool" where
  "usable U r \<longleftrightarrow> nego_source r = AgentCard \<or> U (nego_url r) = Inr True"

definition binding_name_ok :: "string \<Rightarrow> bool" where
  "binding_name_ok b \<longleftrightarrow> canonical_protocol_binding b \<noteq> [] \<and> list_all binding_byte (canonical_protocol_binding b)"

definition binding_names_ok :: "InterfaceNegotiationOptions \<Rightarrow> bool" where
  "binding_names_ok options \<longleftrightarrow>
     list_all binding_name_ok (opt_preferred_bindings options) \<and>
     (\<forall>b. opt_binding_override options = Some b \<longrightarrow> binding_name_ok b)"

subsection \<open>Preferences\<close>

lemma first_some_append: "first_some f (xs @ ys) = (case first_some f xs of Some y \<Rightarrow> Some y | None \<Rightarrow> first_some f ys)"
  by (induction xs) (auto split: option.splits)

lemma first_some_None: "first_some f xs = None \<longleftrightarrow> (\<forall>x \<in> set xs. f x = None)"
  by (induction xs) (auto split: option.splits)

lemma first_some_SomeD: "first_some f xs = Some y \<Longrightarrow> \<exists>x \<in> set xs. f x = Some y"
  by (induction xs) (auto split: option.splits)

lemma first_some_repeated: "b \<in> set xs \<Longrightarrow> first_some f (xs @ b # ys) = first_some f (xs @ ys)"
  using first_some_None [of f xs] by (cases "first_some f xs") (auto simp: first_some_append)

lemma normalize_requested_binding_Inr [result_iff]:
  "normalize_requested_binding label v = Inr b \<longleftrightarrow> binding_name_ok v \<and> b = canonical_protocol_binding v"
  by (auto simp: normalize_requested_binding_def binding_name_ok_def Let_def list_all_iff list_ex_iff)

lemma normalize_preferences_from_Inr:
  "(\<exists>ps. normalize_preferences_from seen vs = Inr ps) \<longleftrightarrow> list_all binding_name_ok vs"
  by (induction vs arbitrary: seen) (auto simp: result_iff)

lemma normalize_preferences_first:
  "normalize_preferences_from seen vs = Inr ps \<Longrightarrow>
     first_some f (filter P ps) = first_some f (filter P (seen @ map canonical_protocol_binding vs))"
proof (induction vs arbitrary: seen)
  case Nil
  then show ?case by simp
next
  case (Cons v vs)
  define b where "b = canonical_protocol_binding v"
  have "normalize_preferences_from (if b \<in> set seen then seen else seen @ [b]) vs = Inr ps"
    using Cons.prems by (auto simp: result_iff b_def)
  then have ps: "first_some f (filter P ps) =
      first_some f (filter P ((if b \<in> set seen then seen else seen @ [b]) @ map canonical_protocol_binding vs))"
    by (rule Cons.IH)
  show ?case
  proof (cases "b \<in> set seen \<and> P b")
    case True
    then have "b \<in> set (filter P seen)" by simp
    from first_some_repeated [OF this, of f] show ?thesis using True ps by (simp add: b_def)
  qed (use ps in \<open>auto simp: b_def\<close>)
qed

lemma canonical_local: "list_all binding_name_ok LOCALLY_SUPPORTED_BINDINGS"
  by code_simp

lemma normalized_preferences_Inr:
  "(\<exists>ps. normalized_preferences vs = Inr ps) \<longleftrightarrow> list_all binding_name_ok vs"
  using normalize_preferences_from_Inr [of "[]"] canonical_local
  by (auto simp: normalized_preferences_def a2a_default_binding_preference_def)

lemma locally_supported: "is_locally_supported_binding = (\<lambda>b. b \<in> {''http+json'', ''json-rpc''})"
  by (auto simp: is_locally_supported_binding_def LOCALLY_SUPPORTED_BINDINGS_def HTTP_JSON_BINDING_def
      JSON_RPC_BINDING_def)

lemma preferences_first:
  assumes "normalized_preferences (opt_preferred_bindings options) = Inr ps" "opt_binding_override options = None"
  shows "first_some f (filter is_locally_supported_binding ps) = first_some f (wanted options)"
  using normalize_preferences_first [of "[]" _ ps f is_locally_supported_binding] assms
  by (simp add: normalized_preferences_def wanted_def requested_def a2a_default_binding_preference_def
      locally_supported)

subsection \<open>Loops\<close>

lemma card_loop_first: "card_loop interfaces bs = first_some (first_card_interface interfaces) bs"
  by (induction bs) (auto split: option.splits)

lemma validate_interface_url_Inr [result_iff]: "validate_interface_url U label v = Inr u \<longleftrightarrow> U v = Inr True"
  by (auto simp: validate_interface_url_def split: sum.splits)

lemma validate_interface_url_category: "validate_interface_url U label v = Inl e \<Longrightarrow> err_category e = Cat_Validation"
  by (auto simp: validate_interface_url_def split: sum.splits if_splits)

lemma fallback_interface_sel [simp]:
  "nego_url (fallback_interface b url src) = url" "nego_source (fallback_interface b url src) = src"
  "nego_binding (fallback_interface b url src) = b"
  by (simp_all add: fallback_interface_def)

lemma fallback_interface_Inr:
  "fallback_interface_for_binding U options b = Inr found \<longleftrightarrow>
     found = registered options b \<and> (\<forall>r. found = Some r \<longrightarrow> usable U r)"
  by (auto simp: fallback_interface_for_binding_def registered_def usable_def HTTP_JSON_BINDING_def
      result_iff split: option.splits)

lemma fallback_loop_Inr:
  "fallback_loop U options bs = Inr found \<longleftrightarrow>
     found = first_some (registered options) bs \<and> (\<forall>r. found = Some r \<longrightarrow> usable U r)"
  by (induction bs) (auto simp: and_then_Inr fallback_interface_Inr split: option.splits)

lemma fallback_loop_category: "fallback_loop U options bs = Inl e \<Longrightarrow> err_category e = Cat_Validation"
  by (induction bs)
    (auto simp: and_then_Inl fallback_interface_for_binding_def dest: validate_interface_url_category
      split: option.splits if_splits)

lemma missing_interfaces_Inr:
  "negotiate_missing_interfaces_fallback U options bs req = Inr r \<longleftrightarrow>
     first_some (registered options) bs = Some r \<and> usable U r"
  by (auto simp: negotiate_missing_interfaces_fallback_def and_then_Inr fallback_loop_Inr)

lemma missing_interfaces_category:
  "negotiate_missing_interfaces_fallback U options bs req = Inl e \<Longrightarrow> err_category e \<in> {Cat_Validation, Cat_Transport}"
  by (auto simp: negotiate_missing_interfaces_fallback_def and_then_Inl dest: fallback_loop_category)

subsection \<open>Negotiation\<close>

lemma requested_binding_Inr:
  "negotiate_requested_binding U interfaces options b = Inr r \<longleftrightarrow>
     offer interfaces options b = Some r \<and> usable U r"
  by (auto simp: negotiate_requested_binding_def offer_def first_card_interface_def missing_interfaces_Inr
      usable_def interface_from_agent_card_def split: option.splits)

lemma requested_binding_category:
  "negotiate_requested_binding U interfaces options b = Inl e \<Longrightarrow> err_category e \<in> {Cat_Validation, Cat_Transport}"
  by (auto simp: negotiate_requested_binding_def dest: missing_interfaces_category split: option.splits if_splits)

lemma offer_eq:
  "offer interfaces options w =
     (if interfaces = [] then registered options w
      else map_option interface_from_agent_card (first_card_interface interfaces w))"
  by (simp add: offer_def first_card_interface_def)

lemma first_offer:
  "first_some (offer interfaces options) ws =
     (if interfaces = [] then first_some (registered options) ws
      else map_option interface_from_agent_card (first_some (first_card_interface interfaces) ws))"
  by (induction ws) (auto simp: offer_eq split: option.splits)

lemma no_card_interface [simp]: "first_some (first_card_interface []) ws = None"
  by (simp add: first_some_None first_card_interface_def)

lemma negotiate_preferred_Inr:
  assumes "opt_binding_override options = None"
  shows "negotiate_agent_interface U interfaces options = Inr r \<longleftrightarrow>
    binding_names_ok options \<and> first_some (offer interfaces options) (wanted options) = Some r \<and> usable U r"
proof (cases "normalized_preferences (opt_preferred_bindings options)")
  case (Inl e)
  then show ?thesis using normalized_preferences_Inr [of "opt_preferred_bindings options"] assms
    by (auto simp: negotiate_agent_interface_def binding_names_ok_def)
next
  case (Inr ps)
  define ws where "ws = filter is_locally_supported_binding ps"
  have ok: "binding_names_ok options"
    using normalized_preferences_Inr [of "opt_preferred_bindings options"] Inr assms by (auto simp: binding_names_ok_def)
  have first_nego: "first_some f ws = first_some f (wanted options)" for f :: "string \<Rightarrow> NegotiatedInterface option"
    using preferences_first [OF Inr assms] by (simp add: ws_def)
  have "negotiate_agent_interface U interfaces options = Inr r \<longleftrightarrow>
      first_some (offer interfaces options) ws = Some r \<and> usable U r"
    unfolding negotiate_agent_interface_def Inr and_then_simps assms option.case Let_def ws_def [symmetric]
    by (cases "ws = []"; cases "interfaces = []")
      (auto simp: first_offer card_loop_first missing_interfaces_Inr usable_def interface_from_agent_card_def
        split: option.splits)
  then show ?thesis using ok first_nego by simp
qed

lemma negotiate_override_Inr:
  assumes "opt_binding_override options = Some b"
  shows "negotiate_agent_interface U interfaces options = Inr r \<longleftrightarrow>
    binding_names_ok options \<and> first_some (offer interfaces options) (wanted options) = Some r \<and> usable U r"
proof -
  have "(\<exists>ps. normalized_preferences (opt_preferred_bindings options) = Inr ps) \<longleftrightarrow>
      list_all binding_name_ok (opt_preferred_bindings options)" by (rule normalized_preferences_Inr)
  moreover have "wanted options =
      (if is_locally_supported_binding (canonical_protocol_binding b) then [canonical_protocol_binding b] else [])"
    using assms by (auto simp: wanted_def requested_def locally_supported)
  ultimately show ?thesis
    by (auto simp: negotiate_agent_interface_def assms and_then_Inr result_iff requested_binding_Inr
        ensure_locally_supported_def binding_names_ok_def split: option.splits if_splits)
qed

lemma negotiate_category:
  assumes "negotiate_agent_interface U interfaces options = Inl e"
  shows "err_category e \<in> {Cat_Validation, Cat_Transport}"
proof -
  have name: "normalize_requested_binding label v = Inl e \<Longrightarrow> err_category e = Cat_Validation" for label v e
    by (auto simp: normalize_requested_binding_def Let_def split: if_splits)
  have "normalize_preferences_from seen vs = Inl e \<Longrightarrow> err_category e = Cat_Validation" for seen vs e
    by (induction vs arbitrary: seen) (auto simp: and_then_Inl dest: name)
  then show ?thesis
    using assms unfolding negotiate_agent_interface_def normalized_preferences_def
    by (auto simp: and_then_Inl Let_def ensure_locally_supported_def no_mutual_interface_error_def
        dest: name requested_binding_category missing_interfaces_category split: option.splits if_splits)
qed

lemma offer_binding: "offer interfaces options w = Some r \<Longrightarrow> nego_binding r = w"
  by (auto simp: offer_def registered_def interface_from_agent_card_def find_Some_iff
      split: option.splits if_splits)

text \<open>C23. Negotiation returns an interface exactly when every requested binding name is well-formed and, of
  the bindings wanted (the override alone, or the preferences in order, as far as they are supported
  locally), the first with an offer has a usable URL; it then returns that offer: the first interface
  of the card with the binding, or a registered URL when the card has none.  So the result always has
  a locally supported binding, and a refusal is a validation or transport error.\<close>

theorem negotiate_agent_interface_exact:
  "(negotiate_agent_interface U interfaces options = Inr r \<longleftrightarrow>
      binding_names_ok options \<and> first_some (offer interfaces options) (wanted options) = Some r \<and> usable U r) \<and>
   (case negotiate_agent_interface U interfaces options of
      Inr r \<Rightarrow> nego_binding r \<in> {''http+json'', ''json-rpc''}
    | Inl e \<Rightarrow> err_category e \<in> {Cat_Validation, Cat_Transport})"
proof -
  have exact: "negotiate_agent_interface U interfaces options = Inr r \<longleftrightarrow>
      binding_names_ok options \<and> first_some (offer interfaces options) (wanted options) = Some r \<and> usable U r" for r
    by (cases "opt_binding_override options") (simp_all add: negotiate_preferred_Inr negotiate_override_Inr)
  have "nego_binding r \<in> {''http+json'', ''json-rpc''}" if n: "negotiate_agent_interface U interfaces options = Inr r" for r
  proof -
    obtain w where "w \<in> set (wanted options)" "offer interfaces options w = Some r"
      using n exact [of r] first_some_SomeD [of "offer interfaces options" "wanted options" r] by blast
    then show ?thesis using offer_binding [of interfaces options w r] by (simp add: wanted_def)
  qed
  then have "case negotiate_agent_interface U interfaces options of
      Inr r \<Rightarrow> nego_binding r \<in> {''http+json'', ''json-rpc''}
    | Inl e \<Rightarrow> err_category e \<in> {Cat_Validation, Cat_Transport}"
    using negotiate_category [of U interfaces options] by (simp split: sum.split)
  with exact [of r] show ?thesis by simp
qed

subsection \<open>Stored agents\<close>

lemma transport_byte:
  assumes "is_ascii_lower_alphanumeric b \<or> is_transport_separator b"
  shows "is_ascii b \<and> ascii_lower b = b \<and> binding_byte b"
proof (cases "is_transport_separator b")
  case True
  then have "b \<in> {CHR ''+'', CHR ''-'', CHR ''_'', CHR ''.''}" by (auto simp: is_transport_separator_def)
  then show ?thesis by (elim insertE emptyE) (hypsubst, code_simp)+
next
  case False
  then have "is_ascii_lowercase b \<or> is_ascii_digit b" using assms by (simp add: is_ascii_lower_alphanumeric_def)
  then show ?thesis unfolding binding_byte_def is_ascii_lowercase_def is_ascii_digit_def is_ascii_def ascii_lower_def
      is_ascii_uppercase_def by auto
qed

lemma transport_binding_name:
  assumes "transport_ok b"
  shows "binding_name_ok b"
proof -
  have bytes: "is_ascii c \<and> ascii_lower c = c \<and> binding_byte c" if "c \<in> set b" for c
    using assms that by (intro transport_byte) (auto simp: transport_ok_def shaped_def)
  have ends: "b \<noteq> []" "\<not> is_whitespace (byte (hd b))" "\<not> is_whitespace (byte (last b))"
    using assms unfolding transport_ok_def shaped_def is_ascii_lower_alphanumeric_def is_ascii_lowercase_def
      is_ascii_digit_def is_whitespace_def by auto
  have "trim b = b" using bytes ends by (intro trim_ascii_id) (auto simp: list_all_iff)
  moreover have "to_ascii_lowercase b = b" using bytes by (simp add: to_ascii_lowercase_def map_idI)
  ultimately have cases: "canonical_protocol_binding b \<in> {b, ''http+json'', ''json-rpc'', ''grpc''}"
    by (simp add: canonical_protocol_binding_def Let_def HTTP_JSON_BINDING_def JSON_RPC_BINDING_def GRPC_BINDING_def)
  have "list_all binding_byte ''http+json''" "list_all binding_byte ''json-rpc''" "list_all binding_byte ''grpc''"
    by code_simp+
  with cases bytes ends(1) show ?thesis by (auto simp: binding_name_ok_def list_all_iff)
qed

lemma find_mem: "List.find P xs = Some x \<Longrightarrow> x \<in> set xs"
  by (induction xs) (auto split: if_splits)

lemma negotiate_transport_error:
  assumes "binding_names_ok options" "opt_binding_override options = None"
    and "\<And>w r. registered options w = Some r \<Longrightarrow> usable U r"
    and n: "negotiate_agent_interface U interfaces options = Inl e"
  shows "err_category e = Cat_Transport"
proof -
  obtain ps where ps: "normalized_preferences (opt_preferred_bindings options) = Inr ps"
    using normalized_preferences_Inr assms(1) by (auto simp: binding_names_ok_def)
  have "fallback_loop U options bs = Inr (first_some (registered options) bs)" for bs
    using assms(3) first_some_SomeD [of "registered options" bs] by (simp add: fallback_loop_Inr) blast
  then have "negotiate_missing_interfaces_fallback U options bs req = Inl e \<Longrightarrow> err_category e = Cat_Transport" for bs req
    by (auto simp: negotiate_missing_interfaces_fallback_def)
  with n show ?thesis
    by (auto simp: negotiate_agent_interface_def ps assms(2) Let_def no_mutual_interface_error_def
        split: option.splits if_splits)
qed

lemma canonical_http_json: "canonical_protocol_binding ''http+json'' = ''http+json''"
  by code_simp

text \<open>For an agent as the store keeps it, with valid transport names and URLs that have a host, interface
  negotiation fails only for want of a common binding, with a transport error; and when its card
  lists no interface, an agent with no stated preference or one that includes HTTP+JSON always gets
  an interface.\<close>

lemma stored_agent_negotiation:
  assumes "\<forall>b \<in> set preference. transport_ok b" "\<forall>(k, u) \<in> set urls. U u = Inr True" "U base = Inr True"
  shows "(negotiate_agent_interface U interfaces (agent_negotiation_options preference urls base) = Inr r \<longleftrightarrow>
      first_some (offer interfaces (agent_negotiation_options preference urls base))
        (wanted (agent_negotiation_options preference urls base)) = Some r) \<and>
    (\<forall>e. negotiate_agent_interface U interfaces (agent_negotiation_options preference urls base) = Inl e \<longrightarrow>
       err_category e = Cat_Transport) \<and>
    (interfaces = [] \<longrightarrow> preference = [] \<or> ''http+json'' \<in> set preference \<longrightarrow>
       is_ok (negotiate_agent_interface U interfaces (agent_negotiation_options preference urls base)))"
proof -
  define options where "options = agent_negotiation_options preference urls base"
  have none: "opt_binding_override options = None" by (simp add: options_def agent_negotiation_options_def)
  have names: "binding_names_ok options"
    using assms(1) transport_binding_name
    by (auto simp: binding_names_ok_def options_def agent_negotiation_options_def list_all_iff)
  have registered: "usable U r" if "registered options w = Some r" for w r
    using that assms(2,3)
    by (auto simp: registered_def usable_def options_def agent_negotiation_options_def
        split: option.splits if_splits dest!: find_mem)
  then have usable: "usable U r" if "offer interfaces options w = Some r" for w r
    using that by (auto simp: offer_def usable_def interface_from_agent_card_def split: if_splits)
  have exact: "negotiate_agent_interface U interfaces options = Inr r \<longleftrightarrow>
      first_some (offer interfaces options) (wanted options) = Some r" for r
    using negotiate_preferred_Inr [OF none, of U interfaces r] names usable
      first_some_SomeD [of "offer interfaces options" "wanted options" r] by blast
  have ok: "is_ok (negotiate_agent_interface U interfaces options)"
    if "interfaces = []" "preference = [] \<or> ''http+json'' \<in> set preference"
  proof -
    have "''http+json'' \<in> set (wanted options)"
      using that(2) canonical_http_json
      by (force simp: wanted_def requested_def options_def agent_negotiation_options_def
          LOCALLY_SUPPORTED_BINDINGS_def HTTP_JSON_BINDING_def)
    moreover have "offer interfaces options ''http+json'' \<noteq> None"
      using that(1) by (simp add: offer_def registered_def options_def agent_negotiation_options_def split: option.split)
    ultimately have "first_some (offer interfaces options) (wanted options) \<noteq> None"
      using bspec [of "set (wanted options)" "\<lambda>w. offer interfaces options w = None" "''http+json''"]
      by (simp only: first_some_None) metis
    then show ?thesis using exact by auto
  qed
  show ?thesis using exact [of r] ok negotiate_transport_error [OF names none, where U = U and interfaces = interfaces] registered
    unfolding options_def [symmetric] by blast
qed

end
