(* ===== verification/A2a_Stream.thy ===== *)
theory A2a_Stream
  imports A2a_Negotiation
begin

text \<open>
  Server-sent event streams of \<open>crates/missive-a2a/src/lib.rs\<close>: the reader that cuts a response
  body into records, the decoding of a record's data, and the numbering of the events handed to the
  caller.  The body is its text up to the point where reading fails, if it does (a broken
  connection, a line that is not UTF-8).  The caller's closure is a function on a state of its own.
  The JSON parser and the SDK's message types are parameters.
\<close>

subsection \<open>Lines\<close>

definition newline :: char where
  "newline = CHR 0x0A"

definition carriage_return :: char where
  "carriage_return = CHR 0x0D"

record body =
  body_text :: string
  body_failure :: "std_error option"

text \<open>\<open>BufRead::read_line\<close>: the bytes up to and with the next newline, or the rest of the text at
  its end; the failure comes once no complete line is left.\<close>

definition read_line :: "body \<Rightarrow> std_error + (string \<times> body)" where
  "read_line b =
     (let line = takeWhile (\<lambda>c. c \<noteq> newline) (body_text b);
          rest = dropWhile (\<lambda>c. c \<noteq> newline) (body_text b)
      in case rest of
           c # text \<Rightarrow> Inr (line @ [c], b\<lparr>body_text := text\<rparr>)
         | [] \<Rightarrow>
             (case body_failure b of
                Some error \<Rightarrow> Inl error
              | None \<Rightarrow> Inr (line, b\<lparr>body_text := []\<rparr>)))"

lemma read_line_shorter: "read_line b = Inr (line, b') \<Longrightarrow> line \<noteq> [] \<Longrightarrow> length (body_text b') < length (body_text b)"
proof -
  assume r: "read_line b = Inr (line, b')" "line \<noteq> []"
  have "length (dropWhile (\<lambda>c. c \<noteq> newline) (body_text b)) \<le> length (body_text b)"
    by (rule length_dropWhile_le)
  with r show ?thesis
    by (auto simp: read_line_def Let_def split: list.splits option.splits dest: takeWhile_eq_Nil_iff [THEN iffD2])
qed

text \<open>\<open>trim_end_matches(['\r', '\n'])\<close> and \<open>split_once(':')\<close>.\<close>

definition trim_line_end :: "string \<Rightarrow> string" where
  "trim_line_end line = rev (dropWhile (\<lambda>c. c = carriage_return \<or> c = newline) (rev line))"

definition split_colon :: "string \<Rightarrow> (string \<times> string) option" where
  "split_colon s =
     (case dropWhile (\<lambda>c. c \<noteq> CHR '':'') s of
        [] \<Rightarrow> None
      | c # rest \<Rightarrow> Some (takeWhile (\<lambda>c. c \<noteq> CHR '':'') s, rest))"

fun strip_space :: "string \<Rightarrow> string" where
  "strip_space [] = []"
| "strip_space (c # cs) = (if c = CHR '' '' then cs else c # cs)"

subsection \<open>Records\<close>

definition MAX_SSE_EVENT_DATA_BYTES :: nat where
  "MAX_SSE_EVENT_DATA_BYTES = 16 * 1024 * 1024"

record SseRecord =
  sse_event_type :: "string option"
  sse_data :: string

text \<open>The three local variables of the reader.\<close>

record sse_state =
  st_event_type :: "string option"
  st_data_lines :: "string list"
  st_data_bytes :: nat

definition sse_init :: sse_state where
  "sse_init = \<lparr>st_event_type = None, st_data_lines = [], st_data_bytes = 0\<rparr>"

type_synonym ('r, 's) consumer = "'r \<Rightarrow> 's \<Rightarrow> unit outcome \<times> 's"

definition dispatch_sse_record ::
  "(SseRecord, 's) consumer \<Rightarrow> sse_state \<Rightarrow> 's \<Rightarrow> sse_state outcome \<times> 's" where
  "dispatch_sse_record on_record st s =
     (if st_data_lines st = [] then
        (Inr (st\<lparr>st_event_type := None, st_data_bytes := 0\<rparr>), s)
      else
        (case on_record
            \<lparr>sse_event_type = st_event_type st, sse_data = join_with [newline] (st_data_lines st)\<rparr> s of
           (Inl e, s') \<Rightarrow> (Inl e, s')
         | (Inr u, s') \<Rightarrow> (Inr (st\<lparr>st_event_type := None, st_data_lines := [], st_data_bytes := 0\<rparr>), s')))"

text \<open>A line that is neither empty nor a comment.  The byte count saturates at the size of memory,
  which no stream reaches.\<close>

definition sse_field :: "string \<Rightarrow> string \<Rightarrow> sse_state \<Rightarrow> sse_state outcome" where
  "sse_field endpoint field_line st =
     (let (field, value) =
        (case split_colon field_line of
           Some (field, value) \<Rightarrow> (field, strip_space value)
         | None \<Rightarrow> (field_line, []))
      in if field = ''event'' then Inr (st\<lparr>st_event_type := Some value\<rparr>)
         else if field = ''data'' then
           (let bytes = st_data_bytes st + length value
            in if MAX_SSE_EVENT_DATA_BYTES < bytes then
                 Inl (error_protocol
                   [Lit (''A2A SSE event from '' @ endpoint @ '' exceeds the '' @
                      show_nat MAX_SSE_EVENT_DATA_BYTES @ '' byte data limit'')])
               else Inr (st\<lparr>st_data_bytes := bytes, st_data_lines := st_data_lines st @ [value]\<rparr>))
         else Inr st)"

function read_sse_loop ::
  "string \<Rightarrow> (SseRecord, 's) consumer \<Rightarrow> body \<Rightarrow> sse_state \<Rightarrow> 's \<Rightarrow> unit outcome \<times> 's" where
  "read_sse_loop endpoint on_record b st s =
     (case read_line b of
        Inl error \<Rightarrow>
          (Inl (with_source
            (error_transport [Lit (''reading A2A SSE stream from '' @ endpoint @ '' failed'')]) error), s)
      | Inr (line, b') \<Rightarrow>
          if line = [] then
            (case dispatch_sse_record on_record st s of
               (Inl e, s') \<Rightarrow> (Inl e, s') | (Inr st', s') \<Rightarrow> (Inr (), s'))
          else
            (let field_line = trim_line_end line
             in if field_line = [] then
                  (case dispatch_sse_record on_record st s of
                     (Inl e, s') \<Rightarrow> (Inl e, s')
                   | (Inr st', s') \<Rightarrow> read_sse_loop endpoint on_record b' st' s')
                else if hd field_line = CHR '':'' then read_sse_loop endpoint on_record b' st s
                else
                  (case sse_field endpoint field_line st of
                     Inl e \<Rightarrow> (Inl e, s)
                   | Inr st' \<Rightarrow> read_sse_loop endpoint on_record b' st' s)))"
  by pat_completeness auto
termination
  by (relation "measure (\<lambda>(endpoint, f, b, st, s). length (body_text b))") (auto dest: read_line_shorter)

declare read_sse_loop.simps [simp del]

definition read_sse_records ::
  "string \<Rightarrow> (SseRecord, 's) consumer \<Rightarrow> body \<Rightarrow> 's \<Rightarrow> unit outcome \<times> 's" where
  "read_sse_records endpoint on_record b s = read_sse_loop endpoint on_record b sse_init s"

subsection \<open>Events\<close>

text \<open>What the reader uses of the SDK and of \<open>serde_json\<close>.\<close>

record rpc_response =
  rpc_error :: "(int \<times> string) option"
  rpc_result :: "json option"

record 'ev sdk =
  sdk_from_str :: "string \<Rightarrow> std_error + json"
  sdk_rpc_response :: "json \<Rightarrow> std_error + rpc_response"
  sdk_stream_response :: "json \<Rightarrow> std_error + 'ev"
  sdk_version_not_supported :: int

text \<open>A status code with the text it is displayed as.\<close>

record http_status =
  status_code :: nat
  status_text :: string

definition status_ok :: http_status where
  "status_ok = \<lparr>status_code = 200, status_text = ''200 OK''\<rparr>"

definition status_is_success :: "http_status \<Rightarrow> bool" where
  "status_is_success status \<longleftrightarrow> 200 \<le> status_code status \<and> status_code status < 300"

definition unsupported_protocol_version_error :: "string \<Rightarrow> string \<Rightarrow> http_status \<Rightarrow> MissiveError" where
  "unsupported_protocol_version_error requested_version url status =
     with_help
       (error_protocol
         [Lit ''A2A protocol version '', Dbg requested_version,
          Lit ('' is not supported by '' @ url @ '' (HTTP '' @ status_text status @ '')'')])
       ''Choose a protocol_version supported by the remote Agent Card or retry without --protocol-version.''"

fun json_as_i64 :: "json \<Rightarrow> int option" where
  "json_as_i64 (JNumber (PosInt n)) = (if uint n \<le> i64_max then Some (uint n) else None)"
| "json_as_i64 (JNumber (NegInt n)) = Some n"
| "json_as_i64 other = None"

fun json_contains_unsupported_version :: "'ev sdk \<Rightarrow> json \<Rightarrow> bool" where
  "json_contains_unsupported_version P (JObject object) \<longleftrightarrow>
     Option.bind (bm_get ''code'' object) json_as_i64 = Some (sdk_version_not_supported P) \<or>
     Option.bind (bm_get ''reason'' object) json_as_str = Some ''VERSION_NOT_SUPPORTED'' \<or>
     list_ex (\<lambda>(key, value). json_contains_unsupported_version P value) object"
| "json_contains_unsupported_version P (JArray values) \<longleftrightarrow>
     list_ex (json_contains_unsupported_version P) values"
| "json_contains_unsupported_version P (JString text) \<longleftrightarrow> text = ''VERSION_NOT_SUPPORTED''"
| "json_contains_unsupported_version P other \<longleftrightarrow> False"

definition response_reports_unsupported_version :: "'ev sdk \<Rightarrow> string \<Rightarrow> bool" where
  "response_reports_unsupported_version P text =
     (case sdk_from_str P text of Inl error \<Rightarrow> False | Inr value \<Rightarrow> json_contains_unsupported_version P value)"

fun looks_like_json_rpc_response :: "json \<Rightarrow> bool" where
  "looks_like_json_rpc_response (JObject object) \<longleftrightarrow>
     bm_contains_key ''jsonrpc'' object \<or> bm_contains_key ''result'' object \<or> bm_contains_key ''error'' object"
| "looks_like_json_rpc_response other \<longleftrightarrow> False"

definition event_label :: "nat \<Rightarrow> string \<Rightarrow> string" where
  "event_label sequence endpoint = ''A2A stream event '' @ show_nat sequence @ '' from '' @ endpoint"

definition unwrap_rpc ::
  "'ev sdk \<Rightarrow> json \<Rightarrow> string \<Rightarrow> nat \<Rightarrow> string \<Rightarrow> json outcome" where
  "unwrap_rpc P raw_json endpoint sequence protocol_version =
     (case sdk_rpc_response P raw_json of
        Inl error \<Rightarrow>
          Inl (with_source
            (error_protocol [Lit (event_label sequence endpoint @ '' is not a JSON-RPC response'')]) error)
      | Inr response \<Rightarrow>
          (case rpc_error response of
             Some (code, text) \<Rightarrow>
               if code = sdk_version_not_supported P then
                 Inl (unsupported_protocol_version_error protocol_version endpoint status_ok)
               else
                 Inl (with_help
                   (error_protocol
                     [Lit (''A2A stream event '' @ show_nat sequence @ '' failed with JSON-RPC code '' @
                        show_int code @ '': '' @ text)])
                   ''Inspect the remote agent error data and retry if appropriate.'')
           | None \<Rightarrow>
               ok_or (rpc_result response)
                 (error_protocol [Lit (event_label sequence endpoint @ '' did not include result or error'')])))"

definition parse_stream_event_data ::
  "'ev sdk \<Rightarrow> string \<Rightarrow> string \<Rightarrow> nat \<Rightarrow> string \<Rightarrow> ('ev \<times> json) outcome" where
  "parse_stream_event_data P data endpoint sequence protocol_version =
     and_then
       (case sdk_from_str P data of
          Inl error \<Rightarrow>
            Inl (with_help
              (with_source
                (error_protocol [Lit (event_label sequence endpoint @ '' is not valid JSON'')]) error)
              ''Each SSE data field must contain one complete JSON stream response object.'')
        | Inr raw_json \<Rightarrow> Inr raw_json)
     (\<lambda>raw_json.
     and_then
       (if looks_like_json_rpc_response raw_json
        then unwrap_rpc P raw_json endpoint sequence protocol_version else Inr raw_json)
     (\<lambda>event_json.
       case sdk_stream_response P event_json of
         Inl error \<Rightarrow>
           Inl (with_help
             (with_source
               (error_protocol [Lit (''malformed A2A stream event '' @ show_nat sequence @ '' from '' @ endpoint)]) error)
             ''Expected exactly one of task, message, statusUpdate, or artifactUpdate.'')
       | Inr event \<Rightarrow> Inr (event, event_json)))"

record 'ev StreamMessageEvent =
  stream_sequence :: nat
  stream_sse_event_type :: "string option"
  stream_event :: 'ev
  stream_raw_json :: json

record StreamMessageOutcome =
  stream_url :: string
  stream_status :: nat
  stream_interface :: NegotiatedInterface
  stream_event_count :: nat

text \<open>The closure of \<open>stream_sse_response\<close>: its state is the number of events so far and the state of
  the caller's closure.  The count is of 64 bits, which no stream reaches.\<close>

definition on_stream_record ::
  "'ev sdk \<Rightarrow> string \<Rightarrow> string \<Rightarrow> ('ev StreamMessageEvent, 's) consumer \<Rightarrow>
   SseRecord \<Rightarrow> nat \<times> 's \<Rightarrow> unit outcome \<times> (nat \<times> 's)" where
  "on_stream_record P endpoint protocol_version on_event rec st =
     (let (count, s) = st
      in case parse_stream_event_data P (sse_data rec) endpoint count protocol_version of
           Inl e \<Rightarrow> (Inl e, (count, s))
         | Inr (event, raw_json) \<Rightarrow>
             (let (r, s') = on_event
                \<lparr>stream_sequence = count, stream_sse_event_type = sse_event_type rec,
                 stream_event = event, stream_raw_json = raw_json\<rparr> s
              in (r, (count + 1, s'))))"

text \<open>An error response's body is read as text, which may fail as well.\<close>

definition stream_sse_response ::
  "'ev sdk \<Rightarrow> http_status \<Rightarrow> body \<Rightarrow> string \<Rightarrow> NegotiatedInterface \<Rightarrow> string \<Rightarrow> string \<Rightarrow>
   ('ev StreamMessageEvent, 's) consumer \<Rightarrow> 's \<Rightarrow> StreamMessageOutcome outcome \<times> 's" where
  "stream_sse_response P status b endpoint interface protocol_version label on_event s =
     (if \<not> status_is_success status then
        ((case body_failure b of
            Some error \<Rightarrow>
              Inl (with_source
                (error_transport
                  [Lit (''reading '' @ label @ '' error response from '' @ endpoint @ '' failed'')]) error)
          | None \<Rightarrow>
              if response_reports_unsupported_version P (body_text b) then
                Inl (unsupported_protocol_version_error protocol_version endpoint status)
              else
                Inl (with_help
                  (error_transport
                    [Lit (label @ '' returned HTTP '' @ status_text status @ '' for '' @ endpoint)])
                  ''Inspect the remote agent logs or retry after refreshing its Agent Card.'')), s)
      else
        (case read_sse_records endpoint (on_stream_record P endpoint protocol_version on_event) b (0, s) of
           (Inl e, (count, s')) \<Rightarrow> (Inl e, s')
         | (Inr u, (count, s')) \<Rightarrow>
             (Inr \<lparr>stream_url = endpoint, stream_status = status_code status,
               stream_interface = interface, stream_event_count = count\<rparr>, s')))"

end
