(* ===== verification/A2a_Stream_Properties.thy ===== *)
theory A2a_Stream_Properties
  imports A2a_Stream
begin

text \<open>
  The stream reader against a reference: the body is cut at empty lines, each block gives at most
  one record, and the records go to the caller in order until one is refused.
\<close>

subsection \<open>Lines of a body\<close>

fun split_lines :: "string \<Rightarrow> string list \<times> string" where
  "split_lines [] = ([], [])"
| "split_lines (c # cs) =
     (let (ls, rest) = split_lines cs
      in if c = newline then ([] # ls, rest)
         else (case ls of [] \<Rightarrow> ([], c # rest) | l # ls \<Rightarrow> ((c # l) # ls, rest)))"

definition body_lines :: "body \<Rightarrow> string list" where
  "body_lines b =
     (let (ls, rest) = split_lines (body_text b)
      in if rest = [] \<or> body_failure b \<noteq> None then ls else ls @ [rest])"

lemma split_lines_none: "split_lines t = ([], rest) \<Longrightarrow> rest = t \<and> newline \<notin> set t"
  by (induction t arbitrary: rest) (auto simp: Let_def split: prod.splits if_splits list.splits)

lemma split_lines_cons:
  "split_lines t = (l # ls, rest) \<Longrightarrow>
     takeWhile (\<lambda>c. c \<noteq> newline) t = l \<and>
     (\<exists>t'. dropWhile (\<lambda>c. c \<noteq> newline) t = newline # t' \<and> split_lines t' = (ls, rest))"
  by (induction t arbitrary: l ls rest) (auto simp: Let_def split: prod.splits if_splits list.splits)

lemma read_line_complete:
  assumes "split_lines (body_text b) = (l # ls, rest)"
  shows "\<exists>t'. read_line b = Inr (l @ [newline], b\<lparr>body_text := t'\<rparr>) \<and> split_lines t' = (ls, rest)"
  using split_lines_cons [OF assms] by (auto simp: read_line_def Let_def)

lemma read_line_last:
  assumes "split_lines (body_text b) = ([], rest)"
  shows "read_line b = (case body_failure b of
      Some e \<Rightarrow> Inl e | None \<Rightarrow> Inr (rest, b\<lparr>body_text := []\<rparr>))"
proof -
  have "rest = body_text b" "newline \<notin> set (body_text b)" using split_lines_none [OF assms] by auto
  then have "takeWhile (\<lambda>c. c \<noteq> newline) (body_text b) = rest" "dropWhile (\<lambda>c. c \<noteq> newline) (body_text b) = []"
    by (auto simp: takeWhile_eq_all_conv)
  then show ?thesis by (simp only: read_line_def Let_def list.case)
qed

subsection \<open>One pass over the lines\<close>

definition pending :: "sse_state \<Rightarrow> SseRecord list" where
  "pending st =
     (if st_data_lines st = [] then []
      else [\<lparr>sse_event_type = st_event_type st, sse_data = join_with [newline] (st_data_lines st)\<rparr>])"

fun sse_cut :: "string \<Rightarrow> string list \<Rightarrow> sse_state \<Rightarrow> SseRecord list \<times> (MissiveError + sse_state)" where
  "sse_cut endpoint [] st = ([], Inr st)"
| "sse_cut endpoint (line # lines) st =
     (let field_line = trim_line_end line
      in if field_line = [] then
           (let (rs, r) = sse_cut endpoint lines sse_init in (pending st @ rs, r))
         else if hd field_line = CHR '':'' then sse_cut endpoint lines st
         else
           (case sse_field endpoint field_line st of
              Inl e \<Rightarrow> ([], Inl e)
            | Inr st' \<Rightarrow> sse_cut endpoint lines st'))"

fun consume :: "('r, 's) consumer \<Rightarrow> 'r list \<Rightarrow> 's \<Rightarrow> unit outcome \<times> 's" where
  "consume f [] s = (Inr (), s)"
| "consume f (r # rs) s =
     (case f r s of (Inl e, s') \<Rightarrow> (Inl e, s') | (Inr u, s') \<Rightarrow> consume f rs s')"

definition then_fail :: "unit outcome \<times> 's \<Rightarrow> MissiveError option \<Rightarrow> unit outcome \<times> 's" where
  "then_fail r failure =
     (case r of (Inl e, s) \<Rightarrow> (Inl e, s)
      | (Inr u, s) \<Rightarrow> ((case failure of Some e \<Rightarrow> Inl e | None \<Rightarrow> Inr ()), s))"

definition reading_failed :: "string \<Rightarrow> std_error \<Rightarrow> MissiveError" where
  "reading_failed endpoint error =
     with_source (error_transport [Lit (''reading A2A SSE stream from '' @ endpoint @ '' failed'')]) error"

definition sse_end :: "string \<Rightarrow> body \<Rightarrow> SseRecord list \<times> (MissiveError + sse_state) \<Rightarrow> SseRecord list \<times> MissiveError option" where
  "sse_end endpoint b parsed =
     (case parsed of
        (rs, Inl e) \<Rightarrow> (rs, Some e)
      | (rs, Inr st) \<Rightarrow>
          (case body_failure b of
             Some error \<Rightarrow> (rs, Some (reading_failed endpoint error))
           | None \<Rightarrow> (rs @ pending st, None)))"

definition run_parsed :: "(SseRecord, 's) consumer \<Rightarrow> SseRecord list \<times> MissiveError option \<Rightarrow> 's \<Rightarrow> unit outcome \<times> 's" where
  "run_parsed f parsed s = then_fail (consume f (fst parsed) s) (snd parsed)"

lemma consume_append:
  "consume f (xs @ ys) s = (case consume f xs s of (Inl e, s') \<Rightarrow> (Inl e, s') | (Inr u, s') \<Rightarrow> consume f ys s')"
  by (induction xs arbitrary: s) (auto split: prod.splits sum.splits)

lemma dispatch_consume:
  "dispatch_sse_record f st s =
     (case consume f (pending st) s of (Inl e, s') \<Rightarrow> (Inl e, s') | (Inr u, s') \<Rightarrow> (Inr sse_init, s'))"
  by (simp add: dispatch_sse_record_def pending_def sse_init_def split: prod.splits sum.splits)

lemma trim_line_newline [simp]: "trim_line_end (l @ [newline]) = trim_line_end l"
  by (simp add: trim_line_end_def)

lemma trim_line_Nil [simp]: "trim_line_end [] = []"
  by (simp add: trim_line_end_def)

lemma pending_init [simp]: "pending sse_init = []"
  by (simp add: pending_def sse_init_def)

lemma run_parsed_append:
  "run_parsed f (rs @ fst p, snd p) s =
     (case consume f rs s of (Inl e, s') \<Rightarrow> (Inl e, s') | (Inr u, s') \<Rightarrow> run_parsed f p s')"
  by (simp add: run_parsed_def then_fail_def consume_append split: prod.splits sum.splits)

lemma sse_end_append: "sse_end endpoint b (rs @ fst p, snd p) = (rs @ fst (sse_end endpoint b p), snd (sse_end endpoint b p))"
  by (auto simp: sse_end_def split: prod.splits sum.splits option.splits)

lemma sse_end_text [simp]: "sse_end endpoint (b\<lparr>body_text := t\<rparr>) = sse_end endpoint b"
  by (simp add: sse_end_def fun_eq_iff)

text \<open>The reader on an exhausted body.\<close>

lemma read_sse_loop_end:
  assumes "body_text b = []"
  shows "read_sse_loop endpoint f b st s = run_parsed f (sse_end endpoint b ([], Inr st)) s"
proof -
  have "read_line b = (case body_failure b of Some e \<Rightarrow> Inl e | None \<Rightarrow> Inr ([], b\<lparr>body_text := []\<rparr>))"
    using assms by (intro read_line_last) simp
  then show ?thesis
    by (subst read_sse_loop.simps)
      (auto simp: run_parsed_def then_fail_def sse_end_def reading_failed_def dispatch_consume
        split: option.splits prod.splits sum.splits)
qed

text \<open>One step of the reader, on a line that is not empty.\<close>

lemma read_sse_loop_line:
  assumes "read_line b = Inr (line, b')" "line \<noteq> []"
    and rest: "\<And>st s. read_sse_loop endpoint f b' st s = run_parsed f (sse_end endpoint b (sse_cut endpoint ls st)) s"
    and "trim_line_end line = trim_line_end l"
  shows "read_sse_loop endpoint f b st s = run_parsed f (sse_end endpoint b (sse_cut endpoint (l # ls) st)) s"
proof -
  consider (empty) "trim_line_end l = []" | (comment) "trim_line_end l \<noteq> []" "hd (trim_line_end l) = CHR '':''"
    | (field) "trim_line_end l \<noteq> []" "hd (trim_line_end l) \<noteq> CHR '':''" by blast
  then show ?thesis
  proof cases
    case empty
    have "sse_cut endpoint (l # ls) st =
        (pending st @ fst (sse_cut endpoint ls sse_init), snd (sse_cut endpoint ls sse_init))"
      using empty by (simp add: case_prod_beta)
    then have "run_parsed f (sse_end endpoint b (sse_cut endpoint (l # ls) st)) s =
        (case consume f (pending st) s of (Inl e, s') \<Rightarrow> (Inl e, s')
         | (Inr u, s') \<Rightarrow> run_parsed f (sse_end endpoint b (sse_cut endpoint ls sse_init)) s')"
      by (simp only: sse_end_append run_parsed_append)
    then show ?thesis
      using empty by (subst read_sse_loop.simps) (simp add: assms dispatch_consume split: prod.split sum.split)
  next
    case comment
    then show ?thesis by (subst read_sse_loop.simps) (simp add: assms)
  next
    case field
    then show ?thesis
      by (subst read_sse_loop.simps)
        (simp add: assms run_parsed_def then_fail_def sse_end_def split: sum.split)
  qed
qed

lemma read_sse_loop_cut:
  "read_sse_loop endpoint f b st s = run_parsed f (sse_end endpoint b (sse_cut endpoint (body_lines b) st)) s"
proof -
  obtain ls rest where "split_lines (body_text b) = (ls, rest)" by (cases "split_lines (body_text b)") blast
  then show ?thesis
  proof (induction ls arbitrary: b st s)
    case Nil
    note last = read_line_last [OF Nil]
    show ?case
    proof (cases "body_failure b = None \<and> rest \<noteq> []")
      case True
      have "read_sse_loop endpoint f (b\<lparr>body_text := []\<rparr>) st s =
          run_parsed f (sse_end endpoint b (sse_cut endpoint [] st)) s" for st s
        by (simp add: read_sse_loop_end)
      moreover have "read_line b = Inr (rest, b\<lparr>body_text := []\<rparr>)" using True last by simp
      ultimately have "read_sse_loop endpoint f b st s = run_parsed f (sse_end endpoint b (sse_cut endpoint [rest] st)) s"
        using True by (intro read_sse_loop_line) auto
      moreover have "body_lines b = [rest]" using True Nil by (simp add: body_lines_def)
      ultimately show ?thesis by (simp only:)
    next
      case False
      then have lines: "body_lines b = []" using Nil by (auto simp: body_lines_def)
      show ?thesis
      proof (cases "body_failure b")
        case None
        then have "body_text b = []" using False split_lines_none [OF Nil] by simp
        from read_sse_loop_end [OF this] show ?thesis by (simp add: lines del: read_sse_loop.simps)
      next
        case (Some e)
        then show ?thesis
          by (subst read_sse_loop.simps)
            (simp add: last lines run_parsed_def then_fail_def sse_end_def reading_failed_def)
      qed
    qed
  next
    case (Cons l ls)
    obtain t' where t': "read_line b = Inr (l @ [newline], b\<lparr>body_text := t'\<rparr>)" "split_lines t' = (ls, rest)"
      using read_line_complete [OF Cons.prems] by blast
    have "read_sse_loop endpoint f (b\<lparr>body_text := t'\<rparr>) st s =
        run_parsed f (sse_end endpoint b (sse_cut endpoint (body_lines (b\<lparr>body_text := t'\<rparr>)) st)) s" for st s
      using Cons.IH [of "b\<lparr>body_text := t'\<rparr>"] t'(2) by simp
    from read_sse_loop_line [OF t'(1) _ this, of l]
    have "read_sse_loop endpoint f b st s =
        run_parsed f (sse_end endpoint b (sse_cut endpoint (l # body_lines (b\<lparr>body_text := t'\<rparr>)) st)) s"
      by simp
    moreover have "body_lines b = l # body_lines (b\<lparr>body_text := t'\<rparr>)"
      using Cons.prems t'(2) by (simp add: body_lines_def)
    ultimately show ?case by (simp only:)
  qed
qed

subsection \<open>Blocks\<close>

text \<open>Field lines between empty lines; comments do not count.\<close>

fun blocks :: "string list \<Rightarrow> string list list" where
  "blocks [] = [[]]"
| "blocks (l # ls) =
     (case blocks ls of
        [] \<Rightarrow> [[l]]
      | b # bs \<Rightarrow> if l = [] then [] # b # bs else (l # b) # bs)"

definition field_of :: "string \<Rightarrow> string \<times> string" where
  "field_of l =
     (case split_colon l of Some (field, value) \<Rightarrow> (field, strip_space value) | None \<Rightarrow> (l, []))"

definition fields_of :: "string list \<Rightarrow> (string \<times> string) list" where
  "fields_of block = map field_of (filter (\<lambda>l. hd l \<noteq> CHR '':'') block)"

definition values_of :: "string \<Rightarrow> string list \<Rightarrow> string list" where
  "values_of name block = map snd (filter (\<lambda>(field, value). field = name) (fields_of block))"

definition block_record :: "string list \<Rightarrow> SseRecord list" where
  "block_record block =
     (if values_of ''data'' block = [] then []
      else [\<lparr>sse_event_type = (if values_of ''event'' block = [] then None else Some (last (values_of ''event'' block))),
             sse_data = join_with [newline] (values_of ''data'' block)\<rparr>])"

definition block_fits :: "string list \<Rightarrow> bool" where
  "block_fits block \<longleftrightarrow> sum_list (map length (values_of ''data'' block)) \<le> 16777216"

definition body_blocks :: "body \<Rightarrow> string list list" where
  "body_blocks b = blocks (map trim_line_end (body_lines b))"

text \<open>The state after the field lines of a block.\<close>

definition block_state :: "sse_state \<Rightarrow> string list \<Rightarrow> sse_state" where
  "block_state st block =
     \<lparr>st_event_type = (if values_of ''event'' block = [] then st_event_type st else Some (last (values_of ''event'' block))),
      st_data_lines = st_data_lines st @ values_of ''data'' block,
      st_data_bytes = st_data_bytes st + sum_list (map length (values_of ''data'' block))\<rparr>"

lemma blocks_nonempty [simp]: "blocks ls \<noteq> []"
  by (induction ls) (auto split: list.splits)

lemma values_of_Nil [simp]: "values_of name [] = []"
  by (simp add: values_of_def fields_of_def)

lemma values_of_Cons:
  "values_of name (l # ls) =
     (if hd l \<noteq> CHR '':'' \<and> fst (field_of l) = name then snd (field_of l) # values_of name ls else values_of name ls)"
  by (auto simp: values_of_def fields_of_def split: prod.splits)

lemma block_state_Nil [simp]: "block_state st [] = st"
  by (simp add: block_state_def)

lemma max_bytes: "MAX_SSE_EVENT_DATA_BYTES = 16777216"
  by (simp add: MAX_SSE_EVENT_DATA_BYTES_def)

lemma sse_field_fits:
  assumes "hd l \<noteq> CHR '':''" "st_data_bytes (block_state st (l # ls)) \<le> 16777216"
  shows "\<exists>st'. sse_field endpoint l st = Inr st' \<and> block_state st' ls = block_state st (l # ls)"
  using assms
  by (auto simp: sse_field_def field_of_def block_state_def values_of_Cons max_bytes Let_def
      split: option.splits prod.splits)

lemma sse_cut_blocks:
  assumes "blocks (map trim_line_end ls) = block # bs"
    and "st_data_bytes (block_state st block) \<le> 16777216" "\<forall>b \<in> set bs. block_fits b"
  shows "\<exists>rs st'. sse_cut endpoint ls st = (rs, Inr st') \<and>
    rs @ pending st' = pending (block_state st block) @ concat (map block_record bs)"
  using assms
proof (induction ls arbitrary: st block bs)
  case Nil
  then show ?case by simp
next
  case (Cons l ls)
  obtain b bs' where bb: "blocks (map trim_line_end ls) = b # bs'" by (cases "blocks (map trim_line_end ls)") auto
  show ?case
  proof (cases "trim_line_end l = []")
    case True
    then have split: "block = []" "bs = b # bs'" using Cons.prems(1) bb by auto
    have init: "pending (block_state sse_init b) = block_record b"
      by (simp add: pending_def block_state_def sse_init_def block_record_def)
    have "st_data_bytes (block_state sse_init b) \<le> 16777216"
      using Cons.prems(3) split by (simp add: block_state_def sse_init_def block_fits_def)
    from Cons.IH [OF bb this] Cons.prems(3) split
    obtain rs st' where "sse_cut endpoint ls sse_init = (rs, Inr st')"
      "rs @ pending st' = pending (block_state sse_init b) @ concat (map block_record bs')" by auto
    then show ?thesis using True split init by simp
  next
    case False
    then have split: "block = trim_line_end l # b" "bs = bs'" using Cons.prems(1) bb by auto
    show ?thesis
    proof (cases "hd (trim_line_end l) = CHR '':''")
      case True
      then have "block_state st block = block_state st b" by (simp add: split block_state_def values_of_Cons)
      then show ?thesis using Cons.IH [OF bb, of st] Cons.prems(2,3) False True split by simp
    next
      case field: False
      obtain st1 where "sse_field endpoint (trim_line_end l) st = Inr st1" "block_state st1 b = block_state st block"
        using sse_field_fits [OF field, of st b endpoint] Cons.prems(2) split by auto
      then show ?thesis using Cons.IH [OF bb, of st1] Cons.prems(2,3) False field split by simp
    qed
  qed
qed

lemma read_sse_blocks:
  assumes "body_failure b = None" "\<forall>block \<in> set (body_blocks b). block_fits block"
  shows "read_sse_records endpoint f b s = consume f (concat (map block_record (body_blocks b))) s"
proof -
  obtain block bs where bb: "body_blocks b = block # bs" by (cases "body_blocks b") (auto simp: body_blocks_def)
  have fits: "st_data_bytes (block_state sse_init block) \<le> 16777216" "\<forall>b \<in> set bs. block_fits b"
    using assms(2) bb by (simp_all add: block_state_def sse_init_def block_fits_def)
  have first: "pending (block_state sse_init block) = block_record block"
    by (simp add: pending_def block_state_def sse_init_def block_record_def)
  obtain rs st where "sse_cut endpoint (body_lines b) sse_init = (rs, Inr st)"
    "rs @ pending st = concat (map block_record (body_blocks b))"
    using sse_cut_blocks [OF bb [unfolded body_blocks_def] fits, of endpoint] first bb by auto
  then show ?thesis
    by (simp add: read_sse_records_def read_sse_loop_cut sse_end_def assms(1) run_parsed_def then_fail_def
        split: prod.split sum.split)
qed

text \<open>C24. On a body that is read to its end and whose blocks each have at most 16 MiB of data, the reader
  hands the caller exactly one record per block with a data field, in order, until the caller
  refuses one: its data is the block's data values joined by newlines and its type the block's last
  event value.  Comments, unknown fields and trailing carriage returns do not count, and the last
  block need not be terminated.\<close>

theorem read_sse_records_blocks:
  assumes "body_failure b = None" "\<forall>block \<in> set (body_blocks b). block_fits block"
  shows "read_sse_records endpoint f b s = consume f (concat (map block_record (body_blocks b))) s"
  by (rule read_sse_blocks [OF assms])

definition demo_body :: body where
  "demo_body =
     \<lparr>body_text = ''event: a'' @ [newline] @ ''data: x'' @ [newline] @ ''data:y'' @ [newline, newline] @ '':c'' @ [newline] @ ''data: z'',
      body_failure = None\<rparr>"

definition collect :: "('r, 'r list) consumer" where
  "collect r rs = (Inr (), rs @ [r])"

theorem read_sse_records_blocks_witness:
  "read_sse_records ''u'' collect demo_body [] =
     (Inr (), [\<lparr>sse_event_type = Some ''a'', sse_data = ''x'' @ [newline] @ ''y''\<rparr>,
       \<lparr>sse_event_type = None, sse_data = ''z''\<rparr>])"
proof -
  have "body_blocks demo_body = [[''event: a'', ''data: x'', ''data:y''], ['':c'', ''data: z'']]" by code_simp
  moreover have "block_fits [''event: a'', ''data: x'', ''data:y'']" "block_fits ['':c'', ''data: z'']"
    by (simp_all add: block_fits_def values_of_def fields_of_def field_of_def split_colon_def)
  ultimately have "read_sse_records ''u'' collect demo_body [] =
      consume collect (concat (map block_record [[''event: a'', ''data: x'', ''data:y''], ['':c'', ''data: z'']])) []"
    using read_sse_records_blocks [of demo_body "''u''" collect "[]"] by (simp add: demo_body_def)
  also have "\<dots> = (Inr (), [\<lparr>sse_event_type = Some ''a'', sse_data = ''x'' @ [newline] @ ''y''\<rparr>,
       \<lparr>sse_event_type = None, sse_data = ''z''\<rparr>])" by code_simp
  finally show ?thesis .
qed

subsection \<open>Round trip\<close>

definition newline_lines :: "string \<Rightarrow> string list" where
  "newline_lines t = (let (ls, rest) = split_lines t in ls @ [rest])"

definition sse_lines :: "SseRecord \<Rightarrow> string list" where
  "sse_lines r =
     (case sse_event_type r of Some e \<Rightarrow> [''event: '' @ e] | None \<Rightarrow> []) @
     map (\<lambda>l. ''data: '' @ l) (newline_lines (sse_data r))"

definition sse_text :: "SseRecord list \<Rightarrow> string" where
  "sse_text rs = concat (map (\<lambda>l. l @ [newline]) (concat (map (\<lambda>r. sse_lines r @ [[]]) rs)))"

definition sse_record_ok :: "SseRecord \<Rightarrow> bool" where
  "sse_record_ok r \<longleftrightarrow>
     carriage_return \<notin> set (sse_data r) \<and> length (sse_data r) \<le> 16777216 \<and>
     (\<forall>e. sse_event_type r = Some e \<longrightarrow> carriage_return \<notin> set e \<and> newline \<notin> set e)"

lemma split_lines_terminated:
  "\<forall>l \<in> set ls. newline \<notin> set l \<Longrightarrow> split_lines (concat (map (\<lambda>l. l @ [newline]) ls)) = (ls, [])"
proof (induction ls)
  case Nil
  then show ?case by simp
next
  case (Cons l ls)
  have step: "newline \<notin> set l \<Longrightarrow> split_lines t = (ls, rest) \<Longrightarrow> split_lines (l @ newline # t) = (l # ls, rest)" for t rest
    by (induction l) auto
  show ?case using Cons step by simp
qed

lemma split_lines_join: "split_lines t = (ls, rest) \<Longrightarrow> join_with [newline] (ls @ [rest]) = t"
proof (induction t arbitrary: ls rest)
  case Nil
  then show ?case by simp
next
  case (Cons c t)
  obtain ls' rest' where sp: "split_lines t = (ls', rest')" by (cases "split_lines t") blast
  have cons: "join_with [newline] ((c # l) # xs) = c # join_with [newline] (l # xs)" for c l xs
    by (cases xs) simp_all
  have nil: "xs \<noteq> [] \<Longrightarrow> join_with [newline] ([] # xs) = newline # join_with [newline] xs" for xs
    by (cases xs) simp_all
  show ?case using Cons.prems Cons.IH [OF sp] sp
    by (auto simp: cons nil Let_def split: if_splits list.splits)
qed

lemma split_lines_parts: "split_lines t = (ls, rest) \<Longrightarrow> \<forall>l \<in> set (ls @ [rest]). newline \<notin> set l \<and> set l \<subseteq> set t"
  by (induction t arbitrary: ls rest) (fastforce simp: Let_def split: prod.splits if_splits list.splits)+

lemma split_lines_size: "split_lines t = (ls, rest) \<Longrightarrow> sum_list (map length (ls @ [rest])) \<le> length t"
  by (induction t arbitrary: ls rest) (fastforce simp: Let_def split: prod.splits if_splits list.splits)+

lemma newline_lines_facts:
  "newline_lines t \<noteq> []" "join_with [newline] (newline_lines t) = t"
  "l \<in> set (newline_lines t) \<Longrightarrow> newline \<notin> set l \<and> set l \<subseteq> set t"
  "sum_list (map length (newline_lines t)) \<le> length t"
proof -
  obtain ls rest where sp: "split_lines t = (ls, rest)" by (cases "split_lines t") blast
  then have nl: "newline_lines t = ls @ [rest]" by (simp add: newline_lines_def)
  show "newline_lines t \<noteq> []" "join_with [newline] (newline_lines t) = t"
    "sum_list (map length (newline_lines t)) \<le> length t"
    "l \<in> set (newline_lines t) \<Longrightarrow> newline \<notin> set l \<and> set l \<subseteq> set t"
    unfolding nl using split_lines_join [OF sp] split_lines_size [OF sp] split_lines_parts [OF sp] by blast+
qed

lemma blocks_split: "[] \<notin> set xs \<Longrightarrow> blocks (xs @ [] # ys) = xs # blocks ys"
proof (induction xs)
  case Nil
  then show ?case by (cases "blocks ys") auto
qed auto

lemma trim_line_id: "carriage_return \<notin> set l \<Longrightarrow> newline \<notin> set l \<Longrightarrow> trim_line_end l = l"
  by (cases l rule: rev_cases) (auto simp: trim_line_end_def)

lemma sse_lines_plain:
  assumes "sse_record_ok r" "l \<in> set (sse_lines r)"
  shows "l \<noteq> [] \<and> newline \<notin> set l \<and> trim_line_end l = l"
proof -
  have data: "carriage_return \<notin> set x \<and> newline \<notin> set x" if "x \<in> set (newline_lines (sse_data r))" for x
    using newline_lines_facts(3) [OF that] assms(1) by (auto simp: sse_record_ok_def)
  have "carriage_return \<notin> set l \<and> newline \<notin> set l"
    using assms data
    by (auto simp: sse_lines_def sse_record_ok_def newline_def carriage_return_def split: option.splits)
  moreover have "l \<noteq> []" using assms(2) by (auto simp: sse_lines_def split: option.splits)
  ultimately show ?thesis by (simp add: trim_line_id)
qed

lemma field_of_literals:
  "field_of (''data: '' @ l) = (''data'', l)" "field_of (''event: '' @ l) = (''event'', l)"
  "hd (''data: '' @ l) \<noteq> CHR '':''" "hd (''event: '' @ l) \<noteq> CHR '':''"
  by (simp_all add: field_of_def split_colon_def)

lemma values_of_data: "values_of name (map (\<lambda>l. ''data: '' @ l) ls) = (if name = ''data'' then ls else [])"
  by (induction ls) (auto simp: values_of_Cons field_of_literals simp del: append_Cons)

lemma values_of_append: "values_of name (xs @ ys) = values_of name xs @ values_of name ys"
  by (simp add: values_of_def fields_of_def)

lemma values_of_event: "values_of name [''event: '' @ e] = (if name = ''event'' then [e] else [])"
  by (simp add: values_of_Cons field_of_literals del: append_Cons)

lemma sse_lines_values:
  "values_of ''data'' (sse_lines r) = newline_lines (sse_data r)"
  "values_of ''event'' (sse_lines r) = (case sse_event_type r of Some e \<Rightarrow> [e] | None \<Rightarrow> [])"
  by (auto simp: sse_lines_def values_of_append values_of_event values_of_data simp del: append_Cons split: option.split)

lemma block_record_lines: "block_record (sse_lines r) = [r]"
  by (simp add: block_record_def sse_lines_values newline_lines_facts split: option.split)

lemma block_fits_lines: "sse_record_ok r \<Longrightarrow> block_fits (sse_lines r)"
  using newline_lines_facts(4) [of "sse_data r"] by (simp add: block_fits_def sse_lines_values sse_record_ok_def)

lemma body_blocks_text:
  assumes "\<forall>r \<in> set rs. sse_record_ok r"
  shows "body_blocks \<lparr>body_text = sse_text rs, body_failure = None\<rparr> = map sse_lines rs @ [[]]"
proof -
  have plain: "\<forall>l \<in> set (concat (map (\<lambda>r. sse_lines r @ [[]]) rs)). newline \<notin> set l \<and> trim_line_end l = l"
    using assms sse_lines_plain by auto
  then have "body_lines \<lparr>body_text = sse_text rs, body_failure = None\<rparr> = concat (map (\<lambda>r. sse_lines r @ [[]]) rs)"
    by (simp add: body_lines_def sse_text_def split_lines_terminated)
  moreover have "map trim_line_end (concat (map (\<lambda>r. sse_lines r @ [[]]) rs)) = concat (map (\<lambda>r. sse_lines r @ [[]]) rs)"
    by (intro map_idI) (use plain in blast)
  moreover have "blocks (concat (map (\<lambda>r. sse_lines r @ [[]]) rs)) = map sse_lines rs @ [[]]"
    using assms
  proof (induction rs)
    case (Cons r rs)
    have "[] \<notin> set (sse_lines r)" using Cons.prems sse_lines_plain by force
    with Cons show ?case by (simp add: blocks_split)
  qed simp
  ultimately show ?thesis by (simp add: body_blocks_def)
qed

text \<open>C25. Records written as server-sent events, each data line and the type on a line of its own with an
  empty line after the record, are read back as they are and in order by every caller, as long as
  their texts have no carriage return, the type no newline, and the data at most 16 MiB.\<close>

theorem sse_roundtrip:
  assumes "\<forall>r \<in> set rs. sse_record_ok r"
  shows "read_sse_records endpoint f \<lparr>body_text = sse_text rs, body_failure = None\<rparr> s = consume f rs s"
proof -
  have "\<forall>block \<in> set (map sse_lines rs @ [[]]). block_fits block"
    using assms block_fits_lines by (auto simp: block_fits_def)
  moreover have "concat (map block_record (map sse_lines rs @ [[]])) = rs"
    by (simp add: block_record_lines comp_def block_record_def [of "[]"])
  ultimately show ?thesis
    using read_sse_blocks [of "\<lparr>body_text = sse_text rs, body_failure = None\<rparr>" endpoint f s]
    by (simp add: body_blocks_text [OF assms])
qed

theorem sse_roundtrip_witness:
  "read_sse_records ''u'' collect
     \<lparr>body_text = sse_text [\<lparr>sse_event_type = Some ''a'', sse_data = ''x'' @ [newline] @ ''y''\<rparr>], body_failure = None\<rparr> [] =
   (Inr (), [\<lparr>sse_event_type = Some ''a'', sse_data = ''x'' @ [newline] @ ''y''\<rparr>])"
proof -
  have "sse_record_ok \<lparr>sse_event_type = Some ''a'', sse_data = ''x'' @ [newline] @ ''y''\<rparr>"
    by (simp add: sse_record_ok_def newline_def carriage_return_def)
  then show ?thesis
    using sse_roundtrip [of "[\<lparr>sse_event_type = Some ''a'', sse_data = ''x'' @ [newline] @ ''y''\<rparr>]" "''u''" collect "[]"]
    by (simp add: collect_def)
qed

subsection \<open>Events\<close>

definition decodes :: "'ev sdk \<Rightarrow> string \<Rightarrow> string \<Rightarrow> SseRecord \<Rightarrow> 'ev StreamMessageEvent \<Rightarrow> bool" where
  "decodes P endpoint version rec event \<longleftrightarrow>
     parse_stream_event_data P (sse_data rec) endpoint (stream_sequence event) version =
       Inr (stream_event event, stream_raw_json event) \<and>
     stream_sse_event_type event = sse_event_type rec"

lemma consume_decodes:
  assumes "consume (on_stream_record P endpoint version collect) rs (n, events) = (r, (n', events'))"
  shows "\<exists>new. events' = events @ new \<and> n' = n + length new \<and> length new \<le> length rs \<and>
    map stream_sequence new = [n..<n + length new] \<and>
    list_all2 (decodes P endpoint version) (take (length new) rs) new \<and>
    (\<forall>u. r = Inr u \<longrightarrow> length new = length rs)"
  using assms
proof (induction rs arbitrary: n events)
  case Nil
  then show ?case by simp
next
  case (Cons rec rs)
  show ?case
  proof (cases "parse_stream_event_data P (sse_data rec) endpoint n version")
    case (Inl e)
    then have "r = Inl e" "events' = events" "n' = n" using Cons.prems by (simp_all add: on_stream_record_def)
    then show ?thesis by simp
  next
    case (Inr x)
    define event where "event = \<lparr>stream_sequence = n, stream_sse_event_type = sse_event_type rec,
      stream_event = fst x, stream_raw_json = snd x\<rparr>"
    have "on_stream_record P endpoint version collect rec (n, events) = (Inr (), (n + 1, events @ [event]))"
      using Inr by (simp add: on_stream_record_def collect_def event_def split: prod.split)
    then have "consume (on_stream_record P endpoint version collect) rs (n + 1, events @ [event]) = (r, (n', events'))"
      using Cons.prems by simp
    from Cons.IH [OF this] obtain new where new: "events' = (events @ [event]) @ new" "n' = n + 1 + length new"
      "length new \<le> length rs" "map stream_sequence new = [n + 1..<n + 1 + length new]"
      "list_all2 (decodes P endpoint version) (take (length new) rs) new"
      "\<forall>u. r = Inr u \<longrightarrow> length new = length rs" by blast
    have "decodes P endpoint version rec event" using Inr by (simp add: decodes_def event_def)
    moreover have "map stream_sequence (event # new) = [n..<n + length (event # new)]"
      using new(4) by (simp add: event_def upt_conv_Cons del: upt_Suc)
    ultimately show ?thesis using new by (intro exI [of _ "event # new"]) (simp del: upt_Suc)
  qed
qed

text \<open>The events a caller collects from a response are numbered from zero without gaps, and event i is
  the decoding of the body's i-th record with its type; when the whole response succeeds, every
  record has become an event and their number is the reported count.  A response whose status is not
  a success yields no event and fails.\<close>

lemma stream_events_numbered:
  assumes "body_failure b = None" "\<forall>block \<in> set (body_blocks b). block_fits block"
  shows "case stream_sse_response P status b endpoint interface version label collect [] of (r, events) \<Rightarrow>
    map stream_sequence events = [0..<length events] \<and>
    list_all2 (decodes P endpoint version)
      (take (length events) (concat (map block_record (body_blocks b)))) events \<and>
    (\<forall>out. r = Inr out \<longrightarrow> stream_event_count out = length events \<and>
       length events = length (concat (map block_record (body_blocks b)))) \<and>
    (\<not> status_is_success status \<longrightarrow> events = [] \<and> \<not> is_ok r)"
proof (cases "status_is_success status")
  case False
  then show ?thesis by (auto simp: stream_sse_response_def split: option.splits)
next
  case True
  define rs where "rs = concat (map block_record (body_blocks b))"
  obtain r n events where c: "consume (on_stream_record P endpoint version collect) rs (0, []) = (r, (n, events))"
    by (metis prod.collapse)
  have "stream_sse_response P status b endpoint interface version label collect [] =
      (case r of Inl e \<Rightarrow> (Inl e, events)
       | Inr u \<Rightarrow> (Inr \<lparr>stream_url = endpoint, stream_status = status_code status,
           stream_interface = interface, stream_event_count = n\<rparr>, events))"
    using True c by (simp add: stream_sse_response_def read_sse_blocks [OF assms] rs_def split: sum.split)
  with consume_decodes [OF c] True show ?thesis
    unfolding rs_def [symmetric] by (auto split: sum.splits)
qed

definition demo_sdk :: "string sdk" where
  "demo_sdk =
     \<lparr>sdk_from_str = (\<lambda>t. Inr (JString t)), sdk_rpc_response = (\<lambda>j. Inl (StdError [] None)),
      sdk_stream_response = (\<lambda>j. case j of JString t \<Rightarrow> Inr t | _ \<Rightarrow> Inl (StdError [] None)),
      sdk_version_not_supported = - 32009\<rparr>"

definition demo_interface :: NegotiatedInterface where
  "demo_interface = fallback_interface ''http+json'' ''u'' BaseUrlFallback"

end
