(* ===== verification/Store_Schema.thy ===== *)
theory Store_Schema
  imports Store_Properties
begin

text \<open>
  The schema of the store: the columns of the tables beside those of \<open>Store_Gateway\<close>, and the
  constraints the two migrations of \<open>crates/missive-store/migrations\<close> declare, as the checks
  SQLite makes before it writes a row and the actions it takes when a referenced row goes away
  (\<open>CASCADE\<close>, \<open>SET NULL\<close>, \<open>RESTRICT\<close>; \<open>configure_connection\<close> of
  \<open>migrations.rs\<close> turns the foreign keys on).  A table is an ordered map from its primary key to
  the row.

  What is left of SQLite is a parameter, record \<open>engine\<close>: its own check that a text is JSON, the
  error value of a violated constraint, and failures for other reasons (a full disk, a lock).
\<close>

subsection \<open>Rows\<close>

record AuthRefRow =
  authrow_name :: string
  authrow_kind :: string
  authrow_header_name :: string
  authrow_scheme :: "string option"
  authrow_env_var :: "string option"
  authrow_keyring_service :: "string option"
  authrow_keyring_account :: "string option"
  authrow_secret_storage :: string
  authrow_metadata_json :: string
  authrow_created_at :: string
  authrow_updated_at :: string

record AgentRow =
  agrow_alias :: string
  agrow_source :: string
  agrow_base_url :: string
  agrow_interface_urls_json :: string
  agrow_binding_preference_json :: string
  agrow_auth_ref_name :: "string option"
  agrow_tags_json :: string
  agrow_notes :: "string option"
  agrow_metadata_json :: string
  agrow_agent_card_json :: "string option"
  agrow_agent_card_etag :: "string option"
  agrow_agent_card_last_modified :: "string option"
  agrow_agent_card_fetched_at :: "string option"
  agrow_read_only :: bool
  agrow_created_at :: string
  agrow_updated_at :: string

record ContextRow =
  ctxrow_context_id :: string
  ctxrow_agent_alias :: "string option"
  ctxrow_name :: "string option"
  ctxrow_parent_context_id :: "string option"
  ctxrow_state :: string
  ctxrow_summary :: "string option"
  ctxrow_metadata_json :: string
  ctxrow_created_at :: string
  ctxrow_updated_at :: string
  ctxrow_closed_at :: "string option"

record TaskRow =
  tskrow_task_id :: string
  tskrow_agent_alias :: string
  tskrow_context_id :: "string option"
  tskrow_state :: string
  tskrow_source :: string
  tskrow_protocol_version :: "string option"
  tskrow_remote_task_json :: "string option"
  tskrow_last_message_id :: "string option"
  tskrow_metadata_json :: string
  tskrow_created_at :: string
  tskrow_updated_at :: string
  tskrow_completed_at :: "string option"

record ArtifactRow =
  artrow_artifact_id :: string
  artrow_task_id :: string
  artrow_context_id :: "string option"
  artrow_name :: "string option"
  artrow_mime_type :: "string option"
  artrow_kind :: string
  artrow_version :: int
  artrow_content_json :: "string option"
  artrow_bytes_path :: "string option"
  artrow_metadata_json :: string
  artrow_created_at :: string
  artrow_updated_at :: string

record MessageRow =
  msgrow_message_id :: string
  msgrow_agent_alias :: "string option"
  msgrow_context_id :: "string option"
  msgrow_task_id :: "string option"
  msgrow_direction :: string
  msgrow_role :: "string option"
  msgrow_ordinal :: int
  msgrow_protocol_message_id :: "string option"
  msgrow_content_json :: string
  msgrow_metadata_json :: string
  msgrow_created_at :: string

record GroupRow =
  grprow_group_name :: string
  grprow_routing_policy :: string
  grprow_notes :: "string option"
  grprow_metadata_json :: string
  grprow_created_at :: string
  grprow_updated_at :: string

record GroupMemberRow =
  memrow_group_name :: string
  memrow_agent_alias :: string
  memrow_rank_name :: string
  memrow_tags_json :: string
  memrow_weight :: f64
  memrow_routing_metadata_json :: string
  memrow_created_at :: string

record PushConfigRow =
  pcrow_push_config_id :: string
  pcrow_agent_alias :: string
  pcrow_task_id :: "string option"
  pcrow_callback_url :: string
  pcrow_auth_ref_name :: "string option"
  pcrow_remote_config_json :: "string option"
  pcrow_metadata_json :: string
  pcrow_created_at :: string
  pcrow_updated_at :: string
  pcrow_deleted_at :: "string option"

text \<open>The database of one profile.  No statement of the program writes the table of adapter
  bindings; only its keys matter, as targets of references.\<close>

record store_db =
  st_gateway :: gateway_db
  st_auth_refs :: "(string, AuthRefRow) btree_map"
  st_agents :: "(string, AgentRow) btree_map"
  st_contexts :: "(string, ContextRow) btree_map"
  st_tasks :: "(string, TaskRow) btree_map"
  st_artifacts :: "(string, ArtifactRow) btree_map"
  st_messages :: "(string, MessageRow) btree_map"
  st_groups :: "(string, GroupRow) btree_map"
  st_members :: "(string list, GroupMemberRow) btree_map"
  st_push_configs :: "(string, PushConfigRow) btree_map"
  st_adapter_bindings :: "string list"

definition store_empty :: store_db where
  "store_empty =
     \<lparr>st_gateway = empty_db,
      st_auth_refs = [], st_agents = [], st_contexts = [], st_tasks = [], st_artifacts = [],
      st_messages = [], st_groups = [], st_members = [], st_push_configs = [],
      st_adapter_bindings = []\<rparr>"

subsection \<open>The engine\<close>

datatype violation = Check_Violation | Unique_Violation | Foreign_Key_Violation

record 'dt engine =
  eng_sql :: "'dt sqlite"
  sql_json_valid :: "string \<Rightarrow> bool"
  sql_violation :: "violation \<Rightarrow> std_error"
  sql_io_error :: "string \<Rightarrow> store_db \<Rightarrow> std_error option"

text \<open>SQLite's \<open>length\<close>: the characters before the first NUL.\<close>

definition sql_length :: "string \<Rightarrow> nat" where
  "sql_length t = length (char_chunks (takeWhile (\<lambda>c. c \<noteq> CHR 0x00) t))"

definition length_between :: "nat \<Rightarrow> nat \<Rightarrow> string \<Rightarrow> bool" where
  "length_between lo hi t \<longleftrightarrow> lo \<le> sql_length t \<and> sql_length t \<le> hi"

definition json_column :: "'dt engine \<Rightarrow> string option \<Rightarrow> bool" where
  "json_column E t = (case t of None \<Rightarrow> True | Some text \<Rightarrow> sql_json_valid E text)"

subsection \<open>\<open>CHECK\<close> constraints\<close>

definition auth_ref_check :: "'dt engine \<Rightarrow> AuthRefRow \<Rightarrow> bool" where
  "auth_ref_check E r \<longleftrightarrow>
     authrow_kind r \<in> {''env'', ''keyring'', ''external''} \<and>
     authrow_secret_storage r \<in> {''external'', ''keyring'', ''env''} \<and>
     sql_json_valid E (authrow_metadata_json r) \<and>
     (authrow_kind r \<noteq> ''env'' \<or> authrow_env_var r \<noteq> None) \<and>
     (authrow_kind r \<noteq> ''keyring'' \<or> authrow_keyring_service r \<noteq> None \<and> authrow_keyring_account r \<noteq> None)"

definition agent_check :: "'dt engine \<Rightarrow> AgentRow \<Rightarrow> bool" where
  "agent_check E r \<longleftrightarrow>
     agrow_source r \<in> {''local'', ''config_seed'', ''discovered''} \<and>
     sql_json_valid E (agrow_interface_urls_json r) \<and> sql_json_valid E (agrow_binding_preference_json r) \<and>
     sql_json_valid E (agrow_tags_json r) \<and> sql_json_valid E (agrow_metadata_json r) \<and>
     json_column E (agrow_agent_card_json r) \<and>
     length_between 1 63 (agrow_alias r) \<and> 0 < sql_length (agrow_base_url r)"

definition context_check :: "'dt engine \<Rightarrow> ContextRow \<Rightarrow> bool" where
  "context_check E r \<longleftrightarrow>
     ctxrow_state r \<in> {''open'', ''closed'', ''archived''} \<and> sql_json_valid E (ctxrow_metadata_json r) \<and>
     length_between 1 256 (ctxrow_context_id r) \<and>
     ctxrow_parent_context_id r \<noteq> Some (ctxrow_context_id r)"

definition task_check :: "'dt engine \<Rightarrow> TaskRow \<Rightarrow> bool" where
  "task_check E r \<longleftrightarrow>
     tskrow_state r \<in> {''submitted'', ''working'', ''input_required'', ''completed'', ''failed'', ''cancelled'', ''unknown''} \<and>
     tskrow_source r \<in> {''remote'', ''local'', ''gateway''} \<and>
     json_column E (tskrow_remote_task_json r) \<and> sql_json_valid E (tskrow_metadata_json r) \<and>
     length_between 1 256 (tskrow_task_id r)"

definition artifact_check :: "'dt engine \<Rightarrow> ArtifactRow \<Rightarrow> bool" where
  "artifact_check E r \<longleftrightarrow>
     artrow_kind r \<in> {''text'', ''json'', ''file'', ''bytes'', ''unknown''} \<and> 1 \<le> artrow_version r \<and>
     json_column E (artrow_content_json r) \<and> sql_json_valid E (artrow_metadata_json r) \<and>
     length_between 1 256 (artrow_artifact_id r)"

definition message_check :: "'dt engine \<Rightarrow> MessageRow \<Rightarrow> bool" where
  "message_check E r \<longleftrightarrow>
     msgrow_direction r \<in> {''request'', ''response'', ''stream_event'', ''push'', ''local''} \<and>
     (case msgrow_role r of None \<Rightarrow> True
      | Some role \<Rightarrow> role \<in> {''user'', ''agent'', ''system'', ''tool'', ''unknown''}) \<and>
     0 \<le> msgrow_ordinal r \<and> sql_json_valid E (msgrow_content_json r) \<and>
     sql_json_valid E (msgrow_metadata_json r) \<and> length_between 1 256 (msgrow_message_id r)"

definition group_check :: "'dt engine \<Rightarrow> GroupRow \<Rightarrow> bool" where
  "group_check E r \<longleftrightarrow>
     sql_json_valid E (grprow_metadata_json r) \<and> length_between 1 63 (grprow_group_name r)"

definition member_check :: "'dt engine \<Rightarrow> GroupMemberRow \<Rightarrow> bool" where
  "member_check E r \<longleftrightarrow>
     sql_json_valid E (memrow_tags_json r) \<and> f64_gt_zero (memrow_weight r) \<and>
     sql_json_valid E (memrow_routing_metadata_json r) \<and> length_between 1 63 (memrow_rank_name r)"

definition push_config_check :: "'dt engine \<Rightarrow> PushConfigRow \<Rightarrow> bool" where
  "push_config_check E r \<longleftrightarrow>
     json_column E (pcrow_remote_config_json r) \<and> sql_json_valid E (pcrow_metadata_json r) \<and>
     length_between 1 256 (pcrow_push_config_id r) \<and> 0 < sql_length (pcrow_callback_url r)"

definition job_check :: "'dt engine \<Rightarrow> GatewayJobRow \<Rightarrow> bool" where
  "job_check E r \<longleftrightarrow>
     jrow_state r \<in> {''queued'', ''running'', ''succeeded'', ''failed'', ''cancelled'', ''retrying''} \<and>
     sql_json_valid E (jrow_request_json r) \<and> json_column E (jrow_result_json r) \<and>
     sql_json_valid E (jrow_metadata_json r) \<and> 0 \<le> jrow_retry_count r \<and> 1 \<le> jrow_max_attempts r \<and>
     length_between 1 256 (jrow_gateway_job_id r) \<and> length_between 1 63 (jrow_kind r)"

definition session_check :: "'dt engine \<Rightarrow> GatewaySessionRow \<Rightarrow> bool" where
  "session_check E r \<longleftrightarrow>
     srow_reset_mode r \<in> {''none'', ''daily'', ''idle'', ''both''} \<and>
     0 \<le> srow_daily_reset_hour r \<and> srow_daily_reset_hour r \<le> 23 \<and>
     (case srow_idle_timeout_seconds r of None \<Rightarrow> True | Some s \<Rightarrow> 0 < s) \<and>
     0 \<le> srow_reset_count r \<and> sql_json_valid E (srow_metadata_json r) \<and>
     length_between 1 256 (srow_gateway_session_id r) \<and> length_between 1 63 (srow_source_kind r) \<and>
     length_between 1 256 (srow_source_id r) \<and> length_between 1 128 (srow_resume_name r) \<and>
     (srow_idle_timeout_seconds r \<noteq> None \<longleftrightarrow> srow_reset_mode r \<in> {''idle'', ''both''})"

definition event_check :: "'dt engine \<Rightarrow> EventRow \<Rightarrow> bool" where
  "event_check E r \<longleftrightarrow>
     sql_json_valid E (erow_payload_json r) \<and> sql_json_valid E (erow_metadata_json r) \<and>
     length_between 1 256 (erow_event_id r) \<and> length_between 1 128 (erow_source r) \<and>
     length_between 1 128 (erow_event_type r)"

subsection \<open>Foreign keys\<close>

datatype target = To_Auth_Ref | To_Agent | To_Context | To_Task | To_Group | To_Job | To_Adapter_Binding

definition has_row :: "store_db \<Rightarrow> target \<Rightarrow> string \<Rightarrow> bool" where
  "has_row db t k =
     (case t of
        To_Auth_Ref \<Rightarrow> bm_contains_key k (st_auth_refs db)
      | To_Agent \<Rightarrow> bm_contains_key k (st_agents db)
      | To_Context \<Rightarrow> bm_contains_key k (st_contexts db)
      | To_Task \<Rightarrow> bm_contains_key k (st_tasks db)
      | To_Group \<Rightarrow> bm_contains_key k (st_groups db)
      | To_Job \<Rightarrow> bm_contains_key k (db_jobs (st_gateway db))
      | To_Adapter_Binding \<Rightarrow> k \<in> set (st_adapter_bindings db))"

type_synonym references = "(target \<times> string option) list"

definition agent_refs :: "AgentRow \<Rightarrow> references" where
  "agent_refs r = [(To_Auth_Ref, agrow_auth_ref_name r)]"

definition context_refs :: "ContextRow \<Rightarrow> references" where
  "context_refs r = [(To_Agent, ctxrow_agent_alias r), (To_Context, ctxrow_parent_context_id r)]"

definition task_refs :: "TaskRow \<Rightarrow> references" where
  "task_refs r = [(To_Agent, Some (tskrow_agent_alias r)), (To_Context, tskrow_context_id r)]"

definition artifact_refs :: "ArtifactRow \<Rightarrow> references" where
  "artifact_refs r = [(To_Task, Some (artrow_task_id r)), (To_Context, artrow_context_id r)]"

definition message_refs :: "MessageRow \<Rightarrow> references" where
  "message_refs r =
     [(To_Agent, msgrow_agent_alias r), (To_Context, msgrow_context_id r), (To_Task, msgrow_task_id r)]"

definition member_refs :: "GroupMemberRow \<Rightarrow> references" where
  "member_refs r = [(To_Group, Some (memrow_group_name r)), (To_Agent, Some (memrow_agent_alias r))]"

definition push_config_refs :: "PushConfigRow \<Rightarrow> references" where
  "push_config_refs r =
     [(To_Agent, Some (pcrow_agent_alias r)), (To_Task, pcrow_task_id r), (To_Auth_Ref, pcrow_auth_ref_name r)]"

definition job_refs :: "GatewayJobRow \<Rightarrow> references" where
  "job_refs r =
     [(To_Agent, jrow_agent_alias r), (To_Context, jrow_context_id r), (To_Task, jrow_task_id r),
      (To_Group, jrow_group_name r), (To_Adapter_Binding, jrow_adapter_binding_id r)]"

definition session_refs :: "GatewaySessionRow \<Rightarrow> references" where
  "session_refs r = [(To_Agent, Some (srow_agent_alias r)), (To_Context, Some (srow_context_id r))]"

definition event_refs :: "EventRow \<Rightarrow> references" where
  "event_refs r =
     [(To_Agent, erow_agent_alias r), (To_Context, erow_context_id r), (To_Task, erow_task_id r),
      (To_Group, erow_group_name r), (To_Job, erow_gateway_job_id r),
      (To_Adapter_Binding, erow_adapter_binding_id r)]"

definition refs_ok :: "store_db \<Rightarrow> references \<Rightarrow> bool" where
  "refs_ok db refs =
     list_all (\<lambda>(t, k). case k of None \<Rightarrow> True | Some key \<Rightarrow> has_row db t key) refs"

subsection \<open>Statements\<close>

type_synonym 'a store_op = "('a, store_db) state_op"

text \<open>Which constraint a row to be written violates: \<open>CHECK\<close> comes first, foreign keys are
  checked at the end of the statement.\<close>

definition violates :: "bool \<Rightarrow> bool \<Rightarrow> bool \<Rightarrow> violation option" where
  "violates check unique refs =
     (if \<not> check then Some Check_Violation
      else if \<not> unique then Some Unique_Violation
      else if \<not> refs then Some Foreign_Key_Violation
      else None)"

text \<open>\<open>Connection::execute\<close> with its error mapped: the effect also tells whether a row was
  affected.  A statement that fails leaves the database as it was.\<close>

definition execute ::
  "'dt engine \<Rightarrow> string \<Rightarrow> (store_db \<Rightarrow> violation option) \<Rightarrow> (store_db \<Rightarrow> bool \<times> store_db) \<Rightarrow>
   bool store_op" where
  "execute E action violation effect db =
     (case sql_io_error E action db of
        Some error \<Rightarrow> (Inl (storage_error action error), db)
      | None \<Rightarrow>
          (case violation db of
             Some v \<Rightarrow> (Inl (storage_error action (sql_violation E v)), db)
           | None \<Rightarrow> (case effect db of (affected, db') \<Rightarrow> (Inr affected, db'))))"

text \<open>\<open>INSERT .. ON CONFLICT (key) DO UPDATE\<close>, where \<open>keep\<close> tells what the new row takes over from
  the old one.\<close>

definition put_row ::
  "('row \<Rightarrow> 'row \<Rightarrow> 'row) \<Rightarrow> 'k::linorder \<Rightarrow> 'row \<Rightarrow> ('k, 'row) btree_map \<Rightarrow> ('k, 'row) btree_map" where
  "put_row keep k row m =
     bm_insert k (case bm_get k m of None \<Rightarrow> row | Some old \<Rightarrow> keep old row) m"

text \<open>A write followed by reading the row back.\<close>

definition write_and_read :: "bool store_op \<Rightarrow> 'a option store_op \<Rightarrow> MissiveError \<Rightarrow> 'a store_op" where
  "write_and_read write read missing =
     db_bind write (\<lambda>_. db_bind read (\<lambda>stored. db_outcome (ok_or stored missing)))"

subsection \<open>Actions on references\<close>

definition map_rows :: "('row \<Rightarrow> 'row) \<Rightarrow> ('k, 'row) btree_map \<Rightarrow> ('k, 'row) btree_map" where
  "map_rows f m = map (\<lambda>(k, r). (k, f r)) m"

definition drop_rows :: "('row \<Rightarrow> bool) \<Rightarrow> ('k, 'row) btree_map \<Rightarrow> ('k, 'row) btree_map" where
  "drop_rows P m = filter (\<lambda>(k, r). \<not> P r) m"

text \<open>\<open>ON DELETE SET NULL\<close> and \<open>ON UPDATE CASCADE\<close> on one column.\<close>

definition cleared :: "string \<Rightarrow> string option \<Rightarrow> string option" where
  "cleared key column = (if column = Some key then None else column)"

definition renamed :: "string \<Rightarrow> string \<Rightarrow> string option \<Rightarrow> string option" where
  "renamed old new column = (if column = Some old then Some new else column)"

text \<open>Deleting a row by its key, with the \<open>ON DELETE\<close> action of every column that refers to it: these
  columns are in the tables of \<open>0001_initial_schema.sql\<close> and, for the sessions, of
  \<open>0002_gateway_sessions.sql\<close>.  A \<open>RESTRICT\<close> is checked before.\<close>

definition drop_auth_ref :: "string \<Rightarrow> store_db \<Rightarrow> store_db" where
  "drop_auth_ref k db =
     db\<lparr>st_auth_refs := bm_remove k (st_auth_refs db),
        st_agents := map_rows (\<lambda>r. r\<lparr>agrow_auth_ref_name := cleared k (agrow_auth_ref_name r)\<rparr>) (st_agents db),
        st_push_configs :=
          map_rows (\<lambda>r. r\<lparr>pcrow_auth_ref_name := cleared k (pcrow_auth_ref_name r)\<rparr>) (st_push_configs db)\<rparr>"

definition drop_agent :: "string \<Rightarrow> store_db \<Rightarrow> store_db" where
  "drop_agent k db =
     db\<lparr>st_agents := bm_remove k (st_agents db),
        st_contexts := map_rows (\<lambda>r. r\<lparr>ctxrow_agent_alias := cleared k (ctxrow_agent_alias r)\<rparr>) (st_contexts db),
        st_messages := map_rows (\<lambda>r. r\<lparr>msgrow_agent_alias := cleared k (msgrow_agent_alias r)\<rparr>) (st_messages db),
        st_members := drop_rows (\<lambda>r. memrow_agent_alias r = k) (st_members db),
        st_push_configs := drop_rows (\<lambda>r. pcrow_agent_alias r = k) (st_push_configs db),
        st_gateway := (st_gateway db)
          \<lparr>db_jobs := map_rows (\<lambda>r. r\<lparr>jrow_agent_alias := cleared k (jrow_agent_alias r)\<rparr>) (db_jobs (st_gateway db)),
           db_sessions := drop_rows (\<lambda>r. srow_agent_alias r = k) (db_sessions (st_gateway db)),
           db_events := map (\<lambda>r. r\<lparr>erow_agent_alias := cleared k (erow_agent_alias r)\<rparr>) (db_events (st_gateway db))\<rparr>\<rparr>"

definition drop_context :: "string \<Rightarrow> store_db \<Rightarrow> store_db" where
  "drop_context k db =
     db\<lparr>st_contexts := map_rows (\<lambda>r. r\<lparr>ctxrow_parent_context_id := cleared k (ctxrow_parent_context_id r)\<rparr>)
          (bm_remove k (st_contexts db)),
        st_tasks := map_rows (\<lambda>r. r\<lparr>tskrow_context_id := cleared k (tskrow_context_id r)\<rparr>) (st_tasks db),
        st_messages := map_rows (\<lambda>r. r\<lparr>msgrow_context_id := cleared k (msgrow_context_id r)\<rparr>) (st_messages db),
        st_artifacts := map_rows (\<lambda>r. r\<lparr>artrow_context_id := cleared k (artrow_context_id r)\<rparr>) (st_artifacts db),
        st_gateway := (st_gateway db)
          \<lparr>db_jobs := map_rows (\<lambda>r. r\<lparr>jrow_context_id := cleared k (jrow_context_id r)\<rparr>) (db_jobs (st_gateway db)),
           db_events := map (\<lambda>r. r\<lparr>erow_context_id := cleared k (erow_context_id r)\<rparr>) (db_events (st_gateway db))\<rparr>\<rparr>"

definition drop_task :: "string \<Rightarrow> store_db \<Rightarrow> store_db" where
  "drop_task k db =
     db\<lparr>st_tasks := bm_remove k (st_tasks db),
        st_messages := map_rows (\<lambda>r. r\<lparr>msgrow_task_id := cleared k (msgrow_task_id r)\<rparr>) (st_messages db),
        st_artifacts := drop_rows (\<lambda>r. artrow_task_id r = k) (st_artifacts db),
        st_push_configs := drop_rows (\<lambda>r. pcrow_task_id r = Some k) (st_push_configs db),
        st_gateway := (st_gateway db)
          \<lparr>db_jobs := map_rows (\<lambda>r. r\<lparr>jrow_task_id := cleared k (jrow_task_id r)\<rparr>) (db_jobs (st_gateway db)),
           db_events := map (\<lambda>r. r\<lparr>erow_task_id := cleared k (erow_task_id r)\<rparr>) (db_events (st_gateway db))\<rparr>\<rparr>"

definition drop_group :: "string \<Rightarrow> store_db \<Rightarrow> store_db" where
  "drop_group k db =
     db\<lparr>st_groups := bm_remove k (st_groups db),
        st_members := drop_rows (\<lambda>r. memrow_group_name r = k) (st_members db),
        st_gateway := (st_gateway db)
          \<lparr>db_jobs := map_rows (\<lambda>r. r\<lparr>jrow_group_name := cleared k (jrow_group_name r)\<rparr>) (db_jobs (st_gateway db)),
           db_events := map (\<lambda>r. r\<lparr>erow_group_name := cleared k (erow_group_name r)\<rparr>) (db_events (st_gateway db))\<rparr>\<rparr>"

definition moved_member :: "string \<Rightarrow> string \<Rightarrow> string list \<times> GroupMemberRow \<Rightarrow> string list \<times> GroupMemberRow" where
  "moved_member old new e =
     (if memrow_group_name (snd e) = old
      then ([new, memrow_agent_alias (snd e)], (snd e)\<lparr>memrow_group_name := new\<rparr>) else e)"

text \<open>Changing the key of a group: the row moves, and \<open>ON UPDATE CASCADE\<close> follows it.\<close>

definition move_group :: "string \<Rightarrow> string \<Rightarrow> GroupRow \<Rightarrow> store_db \<Rightarrow> store_db" where
  "move_group old new row db =
     db\<lparr>st_groups := bm_insert new (row\<lparr>grprow_group_name := new\<rparr>) (bm_remove old (st_groups db)),
        st_members := bm_extend [] (map (moved_member old new) (st_members db)),
        st_gateway := (st_gateway db)
          \<lparr>db_jobs := map_rows (\<lambda>r. r\<lparr>jrow_group_name := renamed old new (jrow_group_name r)\<rparr>) (db_jobs (st_gateway db)),
           db_events := map (\<lambda>r. r\<lparr>erow_group_name := renamed old new (erow_group_name r)\<rparr>) (db_events (st_gateway db))\<rparr>\<rparr>"

text \<open>\<open>DELETE .. WHERE key = ?\<close>, one row at most.\<close>

definition delete_row :: "(store_db \<Rightarrow> bool) \<Rightarrow> (store_db \<Rightarrow> store_db) \<Rightarrow> store_db \<Rightarrow> bool \<times> store_db" where
  "delete_row present erase db = (if present db then (True, erase db) else (False, db))"

definition delete_by_key ::
  "'dt engine \<Rightarrow> string \<Rightarrow> (store_db \<Rightarrow> bool) \<Rightarrow> (store_db \<Rightarrow> bool) \<Rightarrow> (store_db \<Rightarrow> store_db) \<Rightarrow> bool store_op" where
  "delete_by_key E action restricted present erase =
     execute E action (\<lambda>db. violates True True (\<not> (present db \<and> restricted db))) (delete_row present erase)"

subsection \<open>The gateway tables in the store\<close>

text \<open>What SQLite refuses to write into the gateway tables, given the rest of the store.\<close>

definition gateway_sql :: "'dt engine \<Rightarrow> store_db \<Rightarrow> 'dt sqlite" where
  "gateway_sql E db =
     (let refuse = (\<lambda>action db violation.
        case sql_io_error E action db of Some error \<Rightarrow> Some error | None \<Rightarrow> map_option (sql_violation E) violation)
      in (eng_sql E)
        \<lparr>sql_refuses_job := (\<lambda>g r. refuse ''upserting gateway job'' (db\<lparr>st_gateway := g\<rparr>)
           (violates (job_check E r) True (refs_ok (db\<lparr>st_gateway := g\<rparr>) (job_refs r)))),
         sql_refuses_session := (\<lambda>g r. refuse ''upserting gateway session'' (db\<lparr>st_gateway := g\<rparr>)
           (violates (session_check E r)
             (\<forall>(k, r') \<in> set (db_sessions g). k = srow_gateway_session_id r \<or>
                [srow_source_kind r', srow_source_id r', srow_agent_alias r', srow_resume_name r'] \<noteq>
                [srow_source_kind r, srow_source_id r, srow_agent_alias r, srow_resume_name r])
             (refs_ok (db\<lparr>st_gateway := g\<rparr>) (session_refs r)))),
         sql_refuses_event := (\<lambda>g r. refuse ''appending event'' (db\<lparr>st_gateway := g\<rparr>)
           (violates (event_check E r) (\<forall>r' \<in> set (db_events g). erow_event_id r' \<noteq> erow_event_id r)
             (refs_ok (db\<lparr>st_gateway := g\<rparr>) (event_refs r)))),
         sql_refuses_delete := (\<lambda>g k. sql_io_error E ''deleting'' (db\<lparr>st_gateway := g\<rparr>))\<rparr>)"

definition on_gateway :: "'dt engine \<Rightarrow> ('dt sqlite \<Rightarrow> 'a db_op) \<Rightarrow> 'a store_op" where
  "on_gateway E operation db =
     (case operation (gateway_sql E db) (st_gateway db) of (r, g) \<Rightarrow> (r, db\<lparr>st_gateway := g\<rparr>))"

subsection \<open>Transactions\<close>

text \<open>\<open>Store::transaction\<close>: the operation runs on the same connection; a commit that fails, like a
  failing operation, leaves the database as it was before.  A failing rollback replaces the error;
  the transaction is gone all the same once its connection is closed.\<close>

definition transaction :: "'dt engine \<Rightarrow> 'a store_op \<Rightarrow> 'a store_op" where
  "transaction E operation db =
     (case sql_io_error E ''starting SQLite repository transaction'' db of
        Some error \<Rightarrow> (Inl (storage_error ''starting SQLite repository transaction'' error), db)
      | None \<Rightarrow>
          (case operation db of
             (Inr value, db') \<Rightarrow>
               (case sql_io_error E ''committing SQLite repository transaction'' db' of
                  Some error \<Rightarrow> (Inl (storage_error ''committing SQLite repository transaction'' error), db)
                | None \<Rightarrow> (Inr value, db'))
           | (Inl e, db') \<Rightarrow>
               (case sql_io_error E ''rolling back SQLite repository transaction'' db' of
                  Some error \<Rightarrow> (Inl (storage_error ''rolling back SQLite repository transaction'' error), db)
                | None \<Rightarrow> (Inl e, db))))"
end
