(* ===== verification/Store_Registry.thy ===== *)
theory Store_Registry
  imports Store_Schema
begin

text \<open>
  The registry tables of \<open>crates/missive-store/src/repository.rs\<close>: authentication references,
  agents, groups with their members, and push configurations.  \<open>stamp\<close> is the text
  \<open>strftime\<close> gives for the time of the statement.
\<close>

subsection \<open>Typed JSON columns\<close>

text \<open>What \<open>serde\<close> makes of a vector of strings, of transport names, and of a map from transport
  names to strings, and back.\<close>

definition strings_serialize :: "string list \<Rightarrow> json" where
  "strings_serialize xs = JArray (map JString xs)"

fun map_result :: "('a \<Rightarrow> 'e + 'b) \<Rightarrow> 'a list \<Rightarrow> 'e + 'b list" where
  "map_result f [] = Inr []"
| "map_result f (x # xs) = and_then (f x) (\<lambda>y. and_then (map_result f xs) (\<lambda>ys. Inr (y # ys)))"

fun strings_deserialize :: "(json \<Rightarrow> de_error + string) \<Rightarrow> json \<Rightarrow> de_error + string list" where
  "strings_deserialize f (JArray xs) = map_result f xs"
| "strings_deserialize f other = Inl De_InvalidType"

definition urls_serialize :: "(TransportName, string) btree_map \<Rightarrow> json" where
  "urls_serialize m = JObject (map (\<lambda>(k, v). (k, JString v)) m)"

fun urls_deserialize :: "json \<Rightarrow> de_error + (TransportName, string) btree_map" where
  "urls_deserialize (JObject entries) =
     and_then
       (map_result (\<lambda>(k, v).
          and_then (de_custom (TransportName_new k)) (\<lambda>name.
          and_then (deserialize_string v) (\<lambda>url. Inr (name, url)))) entries)
       (\<lambda>pairs. Inr (bm_extend [] pairs))"
| "urls_deserialize other = Inl De_InvalidType"

definition typed_from_sql :: "'dt sqlite \<Rightarrow> (json \<Rightarrow> de_error + 'a) \<Rightarrow> string \<Rightarrow> std_error + 'a" where
  "typed_from_sql S deserialize value =
     and_then (serde_from_str S value) (\<lambda>j.
       case deserialize j of Inl e \<Rightarrow> Inl (serde_de_error S e) | Inr x \<Rightarrow> Inr x)"

subsection \<open>Authentication references\<close>

record AuthRefUpsert =
  authref_name :: string
  authref_kind :: StoreAuthRefKind
  authref_header_name :: string
  authref_scheme :: "string option"
  authref_env_var :: "string option"
  authref_keyring_service :: "string option"
  authref_keyring_account :: "string option"
  authref_secret_storage :: AuthSecretStorage
  authref_metadata :: Metadata

record 'dt AuthRefRecord = AuthRefUpsert +
  authref_created_at :: 'dt
  authref_updated_at :: 'dt

definition AuthRefUpsert_env :: "string \<Rightarrow> string \<Rightarrow> AuthRefUpsert" where
  "AuthRefUpsert_env name env_var =
     \<lparr>authref_name = name, authref_kind = SAuth_Env, authref_header_name = ''Authorization'',
      authref_scheme = Some ''Bearer'', authref_env_var = Some env_var,
      authref_keyring_service = None, authref_keyring_account = None,
      authref_secret_storage = Secret_Env, authref_metadata = metadata_new\<rparr>"

definition auth_ref_checks :: "AuthRefUpsert \<Rightarrow> unit outcome" where
  "auth_ref_checks input =
     checks
       [validate_store_identifier ''auth ref name'' (authref_name input),
        validate_len ''auth ref header_name'' (authref_header_name input) 128,
        when_some (authref_scheme input) (\<lambda>scheme. validate_len ''auth ref scheme'' scheme 64),
        (case authref_kind input of
           SAuth_Env \<Rightarrow> validate_required_option ''auth ref env_var'' (authref_env_var input)
         | SAuth_Keyring \<Rightarrow>
             checks
               [validate_required_option ''auth ref keyring_service'' (authref_keyring_service input),
                validate_required_option ''auth ref keyring_account'' (authref_keyring_account input)]
         | SAuth_External \<Rightarrow> Inr ())]"

definition auth_ref_row :: "'dt sqlite \<Rightarrow> string \<Rightarrow> AuthRefUpsert \<Rightarrow> AuthRefRow outcome" where
  "auth_ref_row S stamp input =
     and_then (to_json_text S ''auth ref metadata'' (metadata_serialize (authref_metadata input)))
       (\<lambda>metadata_json.
         Inr \<lparr>authrow_name = authref_name input, authrow_kind = auth_ref_kind_as_str (authref_kind input),
           authrow_header_name = authref_header_name input, authrow_scheme = authref_scheme input,
           authrow_env_var = authref_env_var input, authrow_keyring_service = authref_keyring_service input,
           authrow_keyring_account = authref_keyring_account input,
           authrow_secret_storage = auth_secret_storage_as_str (authref_secret_storage input),
           authrow_metadata_json = metadata_json, authrow_created_at = stamp, authrow_updated_at = stamp\<rparr>)"

definition keep_auth_ref :: "AuthRefRow \<Rightarrow> AuthRefRow \<Rightarrow> AuthRefRow" where
  "keep_auth_ref old row = row\<lparr>authrow_created_at := authrow_created_at old\<rparr>"

definition read_auth_ref_row :: "'dt sqlite \<Rightarrow> AuthRefRow \<Rightarrow> std_error + 'dt AuthRefRecord" where
  "read_auth_ref_row S row =
     and_then (parse_sql auth_ref_kind_from_str (authrow_kind row)) (\<lambda>kind.
     and_then (parse_sql auth_secret_storage_from_str (authrow_secret_storage row)) (\<lambda>secret_storage.
     and_then (metadata_from_sql S (authrow_metadata_json row)) (\<lambda>metadata.
     and_then (timestamp_from_sql S (authrow_created_at row)) (\<lambda>created_at.
     and_then (timestamp_from_sql S (authrow_updated_at row)) (\<lambda>updated_at.
       Inr \<lparr>authref_name = authrow_name row, authref_kind = kind,
         authref_header_name = authrow_header_name row, authref_scheme = authrow_scheme row,
         authref_env_var = authrow_env_var row, authref_keyring_service = authrow_keyring_service row,
         authref_keyring_account = authrow_keyring_account row, authref_secret_storage = secret_storage,
         authref_metadata = metadata, authref_created_at = created_at, authref_updated_at = updated_at\<rparr>)))))"

definition get_auth_ref :: "'dt engine \<Rightarrow> string \<Rightarrow> 'dt AuthRefRecord option store_op" where
  "get_auth_ref E name db =
     (query_row ''reading auth ref'' (read_auth_ref_row (eng_sql E)) (bm_get name (st_auth_refs db)), db)"

definition upsert_auth_ref :: "'dt engine \<Rightarrow> string \<Rightarrow> AuthRefUpsert \<Rightarrow> 'dt AuthRefRecord store_op" where
  "upsert_auth_ref E stamp input =
     db_bind (db_outcome (and_then (auth_ref_checks input) (\<lambda>_. auth_ref_row (eng_sql E) stamp input))) (\<lambda>row.
       write_and_read
         (execute E ''upserting auth ref'' (\<lambda>db. violates (auth_ref_check E row) True True)
           (\<lambda>db. (True, db\<lparr>st_auth_refs := put_row keep_auth_ref (authref_name input) row (st_auth_refs db)\<rparr>)))
         (get_auth_ref E (authref_name input)) (missing_after_write ''auth ref'' (authref_name input)))"

definition list_auth_refs :: "'dt engine \<Rightarrow> 'dt AuthRefRecord list store_op" where
  "list_auth_refs E db =
     (collect_rows ''listing auth refs'' (read_auth_ref_row (eng_sql E)) (map snd (st_auth_refs db)), db)"

definition delete_auth_ref :: "'dt engine \<Rightarrow> string \<Rightarrow> bool store_op" where
  "delete_auth_ref E name =
     delete_by_key E ''deleting auth ref'' (\<lambda>db. False) (\<lambda>db. bm_contains_key name (st_auth_refs db))
       (drop_auth_ref name)"

subsection \<open>Agents\<close>

record 'dt AgentUpsert =
  ag_alias :: AgentAlias
  ag_source :: AgentSource
  ag_base_url :: string
  ag_interface_urls :: "(TransportName, string) btree_map"
  ag_binding_preference :: "TransportName list"
  ag_auth_ref_name :: "string option"
  ag_tags :: "string list"
  ag_notes :: "string option"
  ag_metadata :: Metadata
  ag_agent_card_json :: "json option"
  ag_agent_card_etag :: "string option"
  ag_agent_card_last_modified :: "string option"
  ag_agent_card_fetched_at :: "'dt option"
  ag_read_only :: bool

record 'dt AgentRecord = "'dt AgentUpsert" +
  ag_created_at :: 'dt
  ag_updated_at :: 'dt

definition store_default_binding_preference :: "TransportName list" where
  "store_default_binding_preference = [''http+json'', ''json-rpc'']"

definition AgentUpsert_new :: "AgentAlias \<Rightarrow> string \<Rightarrow> 'dt AgentUpsert" where
  "AgentUpsert_new alias base_url =
     \<lparr>ag_alias = alias, ag_source = Source_Local, ag_base_url = base_url, ag_interface_urls = [],
      ag_binding_preference = store_default_binding_preference, ag_auth_ref_name = None, ag_tags = [],
      ag_notes = None, ag_metadata = metadata_new, ag_agent_card_json = None, ag_agent_card_etag = None,
      ag_agent_card_last_modified = None, ag_agent_card_fetched_at = None, ag_read_only = False\<rparr>"

definition agent_row :: "'dt sqlite \<Rightarrow> string \<Rightarrow> 'dt AgentUpsert \<Rightarrow> AgentRow outcome" where
  "agent_row S stamp input =
     and_then (to_json_text S ''agent interface_urls'' (urls_serialize (ag_interface_urls input))) (\<lambda>interface_urls_json.
     and_then (to_json_text S ''agent binding_preference'' (strings_serialize (ag_binding_preference input)))
       (\<lambda>binding_preference_json.
     and_then (to_json_text S ''agent tags'' (strings_serialize (ag_tags input))) (\<lambda>tags_json.
     and_then (to_json_text S ''agent metadata'' (metadata_serialize (ag_metadata input))) (\<lambda>metadata_json.
     and_then (optional_json_text S ''agent card'' (ag_agent_card_json input)) (\<lambda>agent_card_json.
       Inr \<lparr>agrow_alias = ag_alias input, agrow_source = agent_source_as_str (ag_source input),
         agrow_base_url = ag_base_url input, agrow_interface_urls_json = interface_urls_json,
         agrow_binding_preference_json = binding_preference_json,
         agrow_auth_ref_name = ag_auth_ref_name input, agrow_tags_json = tags_json,
         agrow_notes = ag_notes input, agrow_metadata_json = metadata_json,
         agrow_agent_card_json = agent_card_json, agrow_agent_card_etag = ag_agent_card_etag input,
         agrow_agent_card_last_modified = ag_agent_card_last_modified input,
         agrow_agent_card_fetched_at = map_option (to_rfc3339 (sql_chrono S)) (ag_agent_card_fetched_at input),
         agrow_read_only = ag_read_only input, agrow_created_at = stamp, agrow_updated_at = stamp\<rparr>)))))"

definition keep_agent :: "AgentRow \<Rightarrow> AgentRow \<Rightarrow> AgentRow" where
  "keep_agent old row = row\<lparr>agrow_created_at := agrow_created_at old\<rparr>"

definition read_agent_row :: "'dt sqlite \<Rightarrow> AgentRow \<Rightarrow> std_error + 'dt AgentRecord" where
  "read_agent_row S row =
     and_then (parse_sql AgentAlias_new (agrow_alias row)) (\<lambda>alias.
     and_then (parse_sql agent_source_from_str (agrow_source row)) (\<lambda>source.
     and_then (typed_from_sql S urls_deserialize (agrow_interface_urls_json row)) (\<lambda>interface_urls.
     and_then (typed_from_sql S (strings_deserialize (identifier_deserialize validate_transport_name ''transport name''))
       (agrow_binding_preference_json row)) (\<lambda>binding_preference.
     and_then (typed_from_sql S (strings_deserialize deserialize_string) (agrow_tags_json row)) (\<lambda>tags.
     and_then (metadata_from_sql S (agrow_metadata_json row)) (\<lambda>metadata.
     and_then (optional_sql (json_from_sql S) (agrow_agent_card_json row)) (\<lambda>agent_card_json.
     and_then (optional_sql (timestamp_from_sql S) (agrow_agent_card_fetched_at row)) (\<lambda>fetched_at.
     and_then (timestamp_from_sql S (agrow_created_at row)) (\<lambda>created_at.
     and_then (timestamp_from_sql S (agrow_updated_at row)) (\<lambda>updated_at.
       Inr \<lparr>ag_alias = alias, ag_source = source, ag_base_url = agrow_base_url row,
         ag_interface_urls = interface_urls, ag_binding_preference = binding_preference,
         ag_auth_ref_name = agrow_auth_ref_name row, ag_tags = tags, ag_notes = agrow_notes row,
         ag_metadata = metadata, ag_agent_card_json = agent_card_json,
         ag_agent_card_etag = agrow_agent_card_etag row,
         ag_agent_card_last_modified = agrow_agent_card_last_modified row,
         ag_agent_card_fetched_at = fetched_at, ag_read_only = agrow_read_only row,
         ag_created_at = created_at, ag_updated_at = updated_at\<rparr>))))))))))"

definition get_agent :: "'dt engine \<Rightarrow> AgentAlias \<Rightarrow> 'dt AgentRecord option store_op" where
  "get_agent E alias db =
     (query_row ''reading agent'' (read_agent_row (eng_sql E)) (bm_get alias (st_agents db)), db)"

definition upsert_agent :: "'dt engine \<Rightarrow> string \<Rightarrow> 'dt AgentUpsert \<Rightarrow> 'dt AgentRecord store_op" where
  "upsert_agent E stamp input =
     db_bind (db_outcome
       (and_then (validate_non_empty ''agent base_url'' (ag_base_url input)) (\<lambda>_. agent_row (eng_sql E) stamp input)))
     (\<lambda>row.
       write_and_read
         (execute E ''upserting agent'' (\<lambda>db. violates (agent_check E row) True (refs_ok db (agent_refs row)))
           (\<lambda>db. (True, db\<lparr>st_agents := put_row keep_agent (ag_alias input) row (st_agents db)\<rparr>)))
         (get_agent E (ag_alias input)) (missing_after_write ''agent'' (ag_alias input)))"

definition list_agents :: "'dt engine \<Rightarrow> 'dt AgentRecord list store_op" where
  "list_agents E db = (collect_rows ''listing agents'' (read_agent_row (eng_sql E)) (map snd (st_agents db)), db)"

text \<open>An agent with tasks cannot be deleted (\<open>ON DELETE RESTRICT\<close>).\<close>

definition delete_agent :: "'dt engine \<Rightarrow> AgentAlias \<Rightarrow> bool store_op" where
  "delete_agent E alias =
     delete_by_key E ''deleting agent'' (\<lambda>db. \<exists>r \<in> set (map snd (st_tasks db)). tskrow_agent_alias r = alias)
       (\<lambda>db. bm_contains_key alias (st_agents db)) (drop_agent alias)"

subsection \<open>Groups\<close>

record GroupUpsert =
  grp_group_name :: GroupName
  grp_routing_policy :: string
  grp_notes :: "string option"
  grp_metadata :: Metadata

record 'dt GroupRecord = GroupUpsert +
  grp_created_at :: 'dt
  grp_updated_at :: 'dt

definition GroupUpsert_new :: "GroupName \<Rightarrow> GroupUpsert" where
  "GroupUpsert_new group_name =
     \<lparr>grp_group_name = group_name, grp_routing_policy = ''direct'', grp_notes = None, grp_metadata = metadata_new\<rparr>"

definition group_row :: "'dt sqlite \<Rightarrow> string \<Rightarrow> GroupUpsert \<Rightarrow> GroupRow outcome" where
  "group_row S stamp input =
     and_then (to_json_text S ''group metadata'' (metadata_serialize (grp_metadata input))) (\<lambda>metadata_json.
       Inr \<lparr>grprow_group_name = grp_group_name input, grprow_routing_policy = grp_routing_policy input,
         grprow_notes = grp_notes input, grprow_metadata_json = metadata_json,
         grprow_created_at = stamp, grprow_updated_at = stamp\<rparr>)"

definition keep_group :: "GroupRow \<Rightarrow> GroupRow \<Rightarrow> GroupRow" where
  "keep_group old row = row\<lparr>grprow_created_at := grprow_created_at old\<rparr>"

definition read_group_row :: "'dt sqlite \<Rightarrow> GroupRow \<Rightarrow> std_error + 'dt GroupRecord" where
  "read_group_row S row =
     and_then (parse_sql GroupName_new (grprow_group_name row)) (\<lambda>group_name.
     and_then (metadata_from_sql S (grprow_metadata_json row)) (\<lambda>metadata.
     and_then (timestamp_from_sql S (grprow_created_at row)) (\<lambda>created_at.
     and_then (timestamp_from_sql S (grprow_updated_at row)) (\<lambda>updated_at.
       Inr \<lparr>grp_group_name = group_name, grp_routing_policy = grprow_routing_policy row,
         grp_notes = grprow_notes row, grp_metadata = metadata,
         grp_created_at = created_at, grp_updated_at = updated_at\<rparr>))))"

definition get_group :: "'dt engine \<Rightarrow> GroupName \<Rightarrow> 'dt GroupRecord option store_op" where
  "get_group E group_name db =
     (query_row ''reading group'' (read_group_row (eng_sql E)) (bm_get group_name (st_groups db)), db)"

definition upsert_group :: "'dt engine \<Rightarrow> string \<Rightarrow> GroupUpsert \<Rightarrow> 'dt GroupRecord store_op" where
  "upsert_group E stamp input =
     db_bind (db_outcome
       (and_then (validate_non_empty ''group routing_policy'' (grp_routing_policy input))
         (\<lambda>_. group_row (eng_sql E) stamp input)))
     (\<lambda>row.
       write_and_read
         (execute E ''upserting group'' (\<lambda>db. violates (group_check E row) True True)
           (\<lambda>db. (True, db\<lparr>st_groups := put_row keep_group (grp_group_name input) row (st_groups db)\<rparr>)))
         (get_group E (grp_group_name input)) (missing_after_write ''group'' (grp_group_name input)))"

definition list_groups :: "'dt engine \<Rightarrow> 'dt GroupRecord list store_op" where
  "list_groups E db = (collect_rows ''listing groups'' (read_group_row (eng_sql E)) (map snd (st_groups db)), db)"

text \<open>An \<open>UPDATE\<close> of the key; the row gets a new time of change.\<close>

definition rename_group :: "'dt engine \<Rightarrow> string \<Rightarrow> GroupName \<Rightarrow> GroupName \<Rightarrow> bool store_op" where
  "rename_group E stamp old_name new_name =
     execute E ''renaming group''
       (\<lambda>db. case bm_get old_name (st_groups db) of
          None \<Rightarrow> None
        | Some row \<Rightarrow>
            violates (group_check E (row\<lparr>grprow_group_name := new_name\<rparr>))
              (new_name = old_name \<or> \<not> bm_contains_key new_name (st_groups db)) True)
       (\<lambda>db. case bm_get old_name (st_groups db) of
          None \<Rightarrow> (False, db)
        | Some row \<Rightarrow> (True, move_group old_name new_name (row\<lparr>grprow_updated_at := stamp\<rparr>) db))"

definition delete_group :: "'dt engine \<Rightarrow> GroupName \<Rightarrow> bool store_op" where
  "delete_group E group_name =
     delete_by_key E ''deleting group'' (\<lambda>db. False) (\<lambda>db. bm_contains_key group_name (st_groups db))
       (drop_group group_name)"

subsection \<open>Group members\<close>

record GroupMemberUpsert =
  mem_group_name :: GroupName
  mem_agent_alias :: AgentAlias
  mem_rank_name :: RankName
  mem_tags :: "string list"
  mem_weight :: f64
  mem_routing_metadata :: Metadata

record 'dt GroupMemberRecord = GroupMemberUpsert +
  mem_created_at :: 'dt

definition GroupMemberUpsert_new :: "GroupName \<Rightarrow> AgentAlias \<Rightarrow> RankName \<Rightarrow> GroupMemberUpsert" where
  "GroupMemberUpsert_new group_name agent_alias rank_name =
     \<lparr>mem_group_name = group_name, mem_agent_alias = agent_alias, mem_rank_name = rank_name,
      mem_tags = [], mem_weight = f64_one, mem_routing_metadata = metadata_new\<rparr>"

definition member_row :: "'dt sqlite \<Rightarrow> string \<Rightarrow> GroupMemberUpsert \<Rightarrow> GroupMemberRow outcome" where
  "member_row S stamp input =
     and_then (to_json_text S ''group member tags'' (strings_serialize (mem_tags input))) (\<lambda>tags_json.
     and_then (to_json_text S ''group member routing metadata'' (metadata_serialize (mem_routing_metadata input)))
       (\<lambda>routing_metadata_json.
         Inr \<lparr>memrow_group_name = mem_group_name input, memrow_agent_alias = mem_agent_alias input,
           memrow_rank_name = mem_rank_name input, memrow_tags_json = tags_json,
           memrow_weight = mem_weight input, memrow_routing_metadata_json = routing_metadata_json,
           memrow_created_at = stamp\<rparr>))"

definition keep_member :: "GroupMemberRow \<Rightarrow> GroupMemberRow \<Rightarrow> GroupMemberRow" where
  "keep_member old row = row\<lparr>memrow_created_at := memrow_created_at old\<rparr>"

definition read_group_member_row :: "'dt sqlite \<Rightarrow> GroupMemberRow \<Rightarrow> std_error + 'dt GroupMemberRecord" where
  "read_group_member_row S row =
     and_then (parse_sql GroupName_new (memrow_group_name row)) (\<lambda>group_name.
     and_then (parse_sql AgentAlias_new (memrow_agent_alias row)) (\<lambda>agent_alias.
     and_then (parse_sql RankName_new (memrow_rank_name row)) (\<lambda>rank_name.
     and_then (typed_from_sql S (strings_deserialize deserialize_string) (memrow_tags_json row)) (\<lambda>tags.
     and_then (metadata_from_sql S (memrow_routing_metadata_json row)) (\<lambda>routing_metadata.
     and_then (timestamp_from_sql S (memrow_created_at row)) (\<lambda>created_at.
       Inr \<lparr>mem_group_name = group_name, mem_agent_alias = agent_alias, mem_rank_name = rank_name,
         mem_tags = tags, mem_weight = memrow_weight row, mem_routing_metadata = routing_metadata,
         mem_created_at = created_at\<rparr>))))))"

definition get_group_member :: "'dt engine \<Rightarrow> GroupName \<Rightarrow> AgentAlias \<Rightarrow> 'dt GroupMemberRecord option store_op" where
  "get_group_member E group_name agent_alias db =
     (query_row ''reading group member'' (read_group_member_row (eng_sql E))
        (bm_get [group_name, agent_alias] (st_members db)), db)"

text \<open>A rank is taken when another member of the group has it (\<open>UNIQUE (group_name, rank_name)\<close>).\<close>

definition rank_free :: "GroupMemberRow \<Rightarrow> (string list, GroupMemberRow) btree_map \<Rightarrow> bool" where
  "rank_free row m \<longleftrightarrow>
     (\<forall>(k, r) \<in> set m.
        memrow_group_name r = memrow_group_name row \<longrightarrow> memrow_rank_name r = memrow_rank_name row \<longrightarrow>
        memrow_agent_alias r = memrow_agent_alias row)"

definition upsert_group_member :: "'dt engine \<Rightarrow> string \<Rightarrow> GroupMemberUpsert \<Rightarrow> 'dt GroupMemberRecord store_op" where
  "upsert_group_member E stamp input =
     db_bind (db_outcome
       (and_then (validate_positive_weight (mem_weight input)) (\<lambda>_. member_row (eng_sql E) stamp input)))
     (\<lambda>row.
       write_and_read
         (execute E ''upserting group member''
           (\<lambda>db. violates (member_check E row) (rank_free row (st_members db)) (refs_ok db (member_refs row)))
           (\<lambda>db. (True, db\<lparr>st_members :=
              put_row keep_member [mem_group_name input, mem_agent_alias input] row (st_members db)\<rparr>)))
         (get_group_member E (mem_group_name input) (mem_agent_alias input))
         (missing_after_write ''group member'' (mem_group_name input @ ''/'' @ mem_agent_alias input)))"

definition list_group_members :: "'dt engine \<Rightarrow> GroupName \<Rightarrow> 'dt GroupMemberRecord list store_op" where
  "list_group_members E group_name db =
     (collect_rows ''listing group members'' (read_group_member_row (eng_sql E))
        (sort_by (\<lambda>a b. [memrow_rank_name a, memrow_agent_alias a] \<le> [memrow_rank_name b, memrow_agent_alias b])
          (filter (\<lambda>r. memrow_group_name r = group_name) (map snd (st_members db)))), db)"

definition remove_group_member :: "'dt engine \<Rightarrow> GroupName \<Rightarrow> AgentAlias \<Rightarrow> bool store_op" where
  "remove_group_member E group_name agent_alias =
     delete_by_key E ''removing group member'' (\<lambda>db. False)
       (\<lambda>db. bm_contains_key [group_name, agent_alias] (st_members db))
       (\<lambda>db. db\<lparr>st_members := bm_remove [group_name, agent_alias] (st_members db)\<rparr>)"

subsection \<open>Push configurations\<close>

record 'dt PushConfigUpsert =
  pc_push_config_id :: PushConfigId
  pc_agent_alias :: AgentAlias
  pc_task_id :: "TaskId option"
  pc_callback_url :: string
  pc_auth_ref_name :: "string option"
  pc_remote_config_json :: "json option"
  pc_metadata :: Metadata
  pc_deleted_at :: "'dt option"

record 'dt PushConfigRecord = "'dt PushConfigUpsert" +
  pc_created_at :: 'dt
  pc_updated_at :: 'dt

definition PushConfigUpsert_new :: "PushConfigId \<Rightarrow> AgentAlias \<Rightarrow> string \<Rightarrow> 'dt PushConfigUpsert" where
  "PushConfigUpsert_new push_config_id agent_alias callback_url =
     \<lparr>pc_push_config_id = push_config_id, pc_agent_alias = agent_alias, pc_task_id = None,
      pc_callback_url = callback_url, pc_auth_ref_name = None, pc_remote_config_json = None,
      pc_metadata = metadata_new, pc_deleted_at = None\<rparr>"

definition push_config_row :: "'dt sqlite \<Rightarrow> string \<Rightarrow> 'dt PushConfigUpsert \<Rightarrow> PushConfigRow outcome" where
  "push_config_row S stamp input =
     and_then (optional_json_text S ''push config remote config'' (pc_remote_config_json input)) (\<lambda>remote_config_json.
     and_then (to_json_text S ''push config metadata'' (metadata_serialize (pc_metadata input))) (\<lambda>metadata_json.
       Inr \<lparr>pcrow_push_config_id = pc_push_config_id input, pcrow_agent_alias = pc_agent_alias input,
         pcrow_task_id = pc_task_id input, pcrow_callback_url = pc_callback_url input,
         pcrow_auth_ref_name = pc_auth_ref_name input, pcrow_remote_config_json = remote_config_json,
         pcrow_metadata_json = metadata_json, pcrow_created_at = stamp, pcrow_updated_at = stamp,
         pcrow_deleted_at = map_option (to_rfc3339 (sql_chrono S)) (pc_deleted_at input)\<rparr>))"

definition keep_push_config :: "PushConfigRow \<Rightarrow> PushConfigRow \<Rightarrow> PushConfigRow" where
  "keep_push_config old row = row\<lparr>pcrow_created_at := pcrow_created_at old\<rparr>"

definition read_push_config_row :: "'dt sqlite \<Rightarrow> PushConfigRow \<Rightarrow> std_error + 'dt PushConfigRecord" where
  "read_push_config_row S row =
     and_then (parse_sql PushConfigId_new (pcrow_push_config_id row)) (\<lambda>push_config_id.
     and_then (parse_sql AgentAlias_new (pcrow_agent_alias row)) (\<lambda>agent_alias.
     and_then (optional_sql (parse_sql TaskId_new) (pcrow_task_id row)) (\<lambda>task.
     and_then (optional_sql (json_from_sql S) (pcrow_remote_config_json row)) (\<lambda>remote_config_json.
     and_then (metadata_from_sql S (pcrow_metadata_json row)) (\<lambda>metadata.
     and_then (timestamp_from_sql S (pcrow_created_at row)) (\<lambda>created_at.
     and_then (timestamp_from_sql S (pcrow_updated_at row)) (\<lambda>updated_at.
     and_then (optional_sql (timestamp_from_sql S) (pcrow_deleted_at row)) (\<lambda>deleted_at.
       Inr \<lparr>pc_push_config_id = push_config_id, pc_agent_alias = agent_alias, pc_task_id = task,
         pc_callback_url = pcrow_callback_url row, pc_auth_ref_name = pcrow_auth_ref_name row,
         pc_remote_config_json = remote_config_json, pc_metadata = metadata, pc_deleted_at = deleted_at,
         pc_created_at = created_at, pc_updated_at = updated_at\<rparr>))))))))"

definition get_push_config :: "'dt engine \<Rightarrow> PushConfigId \<Rightarrow> 'dt PushConfigRecord option store_op" where
  "get_push_config E push_config_id db =
     (query_row ''reading push config'' (read_push_config_row (eng_sql E))
        (bm_get push_config_id (st_push_configs db)), db)"

definition upsert_push_config :: "'dt engine \<Rightarrow> string \<Rightarrow> 'dt PushConfigUpsert \<Rightarrow> 'dt PushConfigRecord store_op" where
  "upsert_push_config E stamp input =
     db_bind (db_outcome
       (and_then
         (checks
           [validate_store_identifier ''push config id'' (pc_push_config_id input),
            validate_len ''push config callback_url'' (pc_callback_url input) 4096,
            when_some (pc_auth_ref_name input)
              (\<lambda>auth_ref_name. validate_store_identifier ''push config auth_ref_name'' auth_ref_name)])
         (\<lambda>_. push_config_row (eng_sql E) stamp input)))
     (\<lambda>row.
       write_and_read
         (execute E ''upserting push config''
           (\<lambda>db. violates (push_config_check E row) True (refs_ok db (push_config_refs row)))
           (\<lambda>db. (True, db\<lparr>st_push_configs :=
              put_row keep_push_config (pc_push_config_id input) row (st_push_configs db)\<rparr>)))
         (get_push_config E (pc_push_config_id input)) (missing_after_write ''push config'' (pc_push_config_id input)))"

text \<open>\<open>ORDER BY agent_alias, task_id, push_config_id\<close>; a missing task comes first.\<close>

definition push_config_order :: "PushConfigRow \<Rightarrow> PushConfigRow \<Rightarrow> bool" where
  "push_config_order a b =
     (let key = (\<lambda>r. [[pcrow_agent_alias r], (case pcrow_task_id r of None \<Rightarrow> [] | Some t \<Rightarrow> [t]), [pcrow_push_config_id r]])
      in key a \<le> key b)"

definition list_push_configs :: "'dt engine \<Rightarrow> 'dt PushConfigRecord list store_op" where
  "list_push_configs E db =
     (collect_rows ''listing push configs'' (read_push_config_row (eng_sql E))
        (sort_by push_config_order (map snd (st_push_configs db))), db)"

definition list_push_configs_for_task :: "'dt engine \<Rightarrow> AgentAlias \<Rightarrow> TaskId \<Rightarrow> 'dt PushConfigRecord list store_op" where
  "list_push_configs_for_task E agent_alias task_id db =
     (collect_rows ''listing task push configs'' (read_push_config_row (eng_sql E))
        (filter (\<lambda>r. pcrow_agent_alias r = agent_alias \<and> pcrow_task_id r = Some task_id)
          (map snd (st_push_configs db))), db)"

text \<open>A push configuration is not removed but marked, once.\<close>

definition delete_push_config :: "'dt engine \<Rightarrow> string \<Rightarrow> PushConfigId \<Rightarrow> bool store_op" where
  "delete_push_config E stamp push_config_id =
     execute E ''deleting push config'' (\<lambda>db. None)
       (\<lambda>db. case bm_get push_config_id (st_push_configs db) of
          None \<Rightarrow> (False, db)
        | Some row \<Rightarrow>
            if pcrow_deleted_at row \<noteq> None then (False, db)
            else (True, db\<lparr>st_push_configs := bm_insert push_config_id
              (row\<lparr>pcrow_deleted_at := Some stamp, pcrow_updated_at := stamp\<rparr>) (st_push_configs db)\<rparr>))"

end
