(* ===== verification/Store_Conversations.thy ===== *)
theory Store_Conversations
  imports Store_Schema
begin

text \<open>
  The conversation tables of \<open>crates/missive-store/src/repository.rs\<close>: contexts, tasks, their
  artifacts, and messages.
\<close>

subsection \<open>Contexts\<close>

record 'dt ContextUpsert =
  ctx_context_id :: ContextId
  ctx_agent_alias :: "AgentAlias option"
  ctx_name :: "string option"
  ctx_parent_context_id :: "ContextId option"
  ctx_state :: ContextState
  ctx_summary :: "string option"
  ctx_metadata :: Metadata
  ctx_closed_at :: "'dt option"

record 'dt ContextRecord = "'dt ContextUpsert" +
  ctx_created_at :: 'dt
  ctx_updated_at :: 'dt

definition ContextUpsert_new :: "ContextId \<Rightarrow> 'dt ContextUpsert" where
  "ContextUpsert_new context_id =
     \<lparr>ctx_context_id = context_id, ctx_agent_alias = None, ctx_name = None, ctx_parent_context_id = None,
      ctx_state = Context_Open, ctx_summary = None, ctx_metadata = metadata_new, ctx_closed_at = None\<rparr>"

definition context_row :: "'dt sqlite \<Rightarrow> string \<Rightarrow> 'dt ContextUpsert \<Rightarrow> ContextRow outcome" where
  "context_row S stamp input =
     and_then (to_json_text S ''context metadata'' (metadata_serialize (ctx_metadata input))) (\<lambda>metadata_json.
       Inr \<lparr>ctxrow_context_id = ctx_context_id input, ctxrow_agent_alias = ctx_agent_alias input,
         ctxrow_name = ctx_name input, ctxrow_parent_context_id = ctx_parent_context_id input,
         ctxrow_state = context_state_as_str (ctx_state input), ctxrow_summary = ctx_summary input,
         ctxrow_metadata_json = metadata_json, ctxrow_created_at = stamp, ctxrow_updated_at = stamp,
         ctxrow_closed_at = map_option (to_rfc3339 (sql_chrono S)) (ctx_closed_at input)\<rparr>)"

definition keep_context :: "ContextRow \<Rightarrow> ContextRow \<Rightarrow> ContextRow" where
  "keep_context old row = row\<lparr>ctxrow_created_at := ctxrow_created_at old\<rparr>"

definition read_context_row :: "'dt sqlite \<Rightarrow> ContextRow \<Rightarrow> std_error + 'dt ContextRecord" where
  "read_context_row S row =
     and_then (parse_sql ContextId_new (ctxrow_context_id row)) (\<lambda>ident.
     and_then (optional_sql (parse_sql AgentAlias_new) (ctxrow_agent_alias row)) (\<lambda>agent_alias.
     and_then (optional_sql (parse_sql ContextId_new) (ctxrow_parent_context_id row)) (\<lambda>parent.
     and_then (parse_sql context_state_from_str (ctxrow_state row)) (\<lambda>state.
     and_then (metadata_from_sql S (ctxrow_metadata_json row)) (\<lambda>metadata.
     and_then (timestamp_from_sql S (ctxrow_created_at row)) (\<lambda>created_at.
     and_then (timestamp_from_sql S (ctxrow_updated_at row)) (\<lambda>updated_at.
     and_then (optional_sql (timestamp_from_sql S) (ctxrow_closed_at row)) (\<lambda>closed_at.
       Inr \<lparr>ctx_context_id = ident, ctx_agent_alias = agent_alias, ctx_name = ctxrow_name row,
         ctx_parent_context_id = parent, ctx_state = state, ctx_summary = ctxrow_summary row,
         ctx_metadata = metadata, ctx_closed_at = closed_at, ctx_created_at = created_at,
         ctx_updated_at = updated_at\<rparr>))))))))"

definition get_context :: "'dt engine \<Rightarrow> ContextId \<Rightarrow> 'dt ContextRecord option store_op" where
  "get_context E context_id db =
     (query_row ''reading context'' (read_context_row (eng_sql E)) (bm_get context_id (st_contexts db)), db)"

definition upsert_context :: "'dt engine \<Rightarrow> string \<Rightarrow> 'dt ContextUpsert \<Rightarrow> 'dt ContextRecord store_op" where
  "upsert_context E stamp input =
     db_bind (db_outcome (context_row (eng_sql E) stamp input)) (\<lambda>row.
       write_and_read
         (execute E ''upserting context'' (\<lambda>db. violates (context_check E row) True (refs_ok db (context_refs row)))
           (\<lambda>db. (True, db\<lparr>st_contexts := put_row keep_context (ctx_context_id input) row (st_contexts db)\<rparr>)))
         (get_context E (ctx_context_id input)) (missing_after_write ''context'' (ctx_context_id input)))"

definition list_contexts :: "'dt engine \<Rightarrow> 'dt ContextRecord list store_op" where
  "list_contexts E db =
     (collect_rows ''listing contexts'' (read_context_row (eng_sql E)) (map snd (st_contexts db)), db)"

text \<open>A context with gateway sessions cannot be deleted (\<open>ON DELETE RESTRICT\<close>).\<close>

definition delete_context :: "'dt engine \<Rightarrow> ContextId \<Rightarrow> bool store_op" where
  "delete_context E context_id =
     delete_by_key E ''deleting context''
       (\<lambda>db. \<exists>r \<in> set (map snd (db_sessions (st_gateway db))). srow_context_id r = context_id)
       (\<lambda>db. bm_contains_key context_id (st_contexts db)) (drop_context context_id)"

subsection \<open>Tasks\<close>

record 'dt TaskUpsert =
  tsk_task_id :: TaskId
  tsk_agent_alias :: AgentAlias
  tsk_context_id :: "ContextId option"
  tsk_state :: TaskState
  tsk_source :: TaskSource
  tsk_protocol_version :: "string option"
  tsk_remote_task_json :: "json option"
  tsk_last_message_id :: "MessageId option"
  tsk_metadata :: Metadata
  tsk_completed_at :: "'dt option"

record 'dt TaskRecord = "'dt TaskUpsert" +
  tsk_created_at :: 'dt
  tsk_updated_at :: 'dt

definition TaskUpsert_new :: "TaskId \<Rightarrow> AgentAlias \<Rightarrow> TaskState \<Rightarrow> 'dt TaskUpsert" where
  "TaskUpsert_new task_id agent_alias state =
     \<lparr>tsk_task_id = task_id, tsk_agent_alias = agent_alias, tsk_context_id = None, tsk_state = state,
      tsk_source = TaskSource_Remote, tsk_protocol_version = None, tsk_remote_task_json = None,
      tsk_last_message_id = None, tsk_metadata = metadata_new, tsk_completed_at = None\<rparr>"

definition task_record_a2a_protocol_version :: "'dt TaskUpsert \<Rightarrow> string \<Rightarrow> 'dt TaskUpsert outcome" where
  "task_record_a2a_protocol_version t version =
     and_then (validate_store_identifier ''A2A protocol version'' version) (\<lambda>_.
       and_then (metadata_insert_str (tsk_metadata t) METADATA_A2A_PROTOCOL_VERSION version)
         (\<lambda>(m, old). Inr (t\<lparr>tsk_protocol_version := Some version, tsk_metadata := m\<rparr>)))"

definition task_row :: "'dt sqlite \<Rightarrow> string \<Rightarrow> 'dt TaskUpsert \<Rightarrow> TaskRow outcome" where
  "task_row S stamp input =
     and_then (optional_json_text S ''remote task'' (tsk_remote_task_json input)) (\<lambda>remote_task_json.
     and_then (to_json_text S ''task metadata'' (metadata_serialize (tsk_metadata input))) (\<lambda>metadata_json.
       Inr \<lparr>tskrow_task_id = tsk_task_id input, tskrow_agent_alias = tsk_agent_alias input,
         tskrow_context_id = tsk_context_id input, tskrow_state = task_state_as_str (tsk_state input),
         tskrow_source = task_source_as_str (tsk_source input),
         tskrow_protocol_version = tsk_protocol_version input, tskrow_remote_task_json = remote_task_json,
         tskrow_last_message_id = tsk_last_message_id input, tskrow_metadata_json = metadata_json,
         tskrow_created_at = stamp, tskrow_updated_at = stamp,
         tskrow_completed_at = map_option (to_rfc3339 (sql_chrono S)) (tsk_completed_at input)\<rparr>))"

definition keep_task :: "TaskRow \<Rightarrow> TaskRow \<Rightarrow> TaskRow" where
  "keep_task old row = row\<lparr>tskrow_created_at := tskrow_created_at old\<rparr>"

definition read_task_row :: "'dt sqlite \<Rightarrow> TaskRow \<Rightarrow> std_error + 'dt TaskRecord" where
  "read_task_row S row =
     and_then (parse_sql TaskId_new (tskrow_task_id row)) (\<lambda>ident.
     and_then (parse_sql AgentAlias_new (tskrow_agent_alias row)) (\<lambda>agent_alias.
     and_then (optional_sql (parse_sql ContextId_new) (tskrow_context_id row)) (\<lambda>context.
     and_then (parse_sql task_state_from_str (tskrow_state row)) (\<lambda>state.
     and_then (parse_sql task_source_from_str (tskrow_source row)) (\<lambda>source.
     and_then (optional_sql (json_from_sql S) (tskrow_remote_task_json row)) (\<lambda>remote_task_json.
     and_then (optional_sql (parse_sql MessageId_new) (tskrow_last_message_id row)) (\<lambda>last_message_id.
     and_then (metadata_from_sql S (tskrow_metadata_json row)) (\<lambda>metadata.
     and_then (timestamp_from_sql S (tskrow_created_at row)) (\<lambda>created_at.
     and_then (timestamp_from_sql S (tskrow_updated_at row)) (\<lambda>updated_at.
     and_then (optional_sql (timestamp_from_sql S) (tskrow_completed_at row)) (\<lambda>completed_at.
       Inr \<lparr>tsk_task_id = ident, tsk_agent_alias = agent_alias, tsk_context_id = context,
         tsk_state = state, tsk_source = source, tsk_protocol_version = tskrow_protocol_version row,
         tsk_remote_task_json = remote_task_json, tsk_last_message_id = last_message_id,
         tsk_metadata = metadata, tsk_completed_at = completed_at, tsk_created_at = created_at,
         tsk_updated_at = updated_at\<rparr>)))))))))))"

definition get_task :: "'dt engine \<Rightarrow> TaskId \<Rightarrow> 'dt TaskRecord option store_op" where
  "get_task E task_id db =
     (query_row ''reading task'' (read_task_row (eng_sql E)) (bm_get task_id (st_tasks db)), db)"

definition upsert_task :: "'dt engine \<Rightarrow> string \<Rightarrow> 'dt TaskUpsert \<Rightarrow> 'dt TaskRecord store_op" where
  "upsert_task E stamp input =
     db_bind (db_outcome (task_row (eng_sql E) stamp input)) (\<lambda>row.
       write_and_read
         (execute E ''upserting task'' (\<lambda>db. violates (task_check E row) True (refs_ok db (task_refs row)))
           (\<lambda>db. (True, db\<lparr>st_tasks := put_row keep_task (tsk_task_id input) row (st_tasks db)\<rparr>)))
         (get_task E (tsk_task_id input)) (missing_after_write ''task'' (tsk_task_id input)))"

definition list_tasks :: "'dt engine \<Rightarrow> 'dt TaskRecord list store_op" where
  "list_tasks E db = (collect_rows ''listing tasks'' (read_task_row (eng_sql E)) (map snd (st_tasks db)), db)"

definition delete_task :: "'dt engine \<Rightarrow> TaskId \<Rightarrow> bool store_op" where
  "delete_task E task_id =
     delete_by_key E ''deleting task'' (\<lambda>db. False) (\<lambda>db. bm_contains_key task_id (st_tasks db)) (drop_task task_id)"

subsection \<open>Artifacts\<close>

record ArtifactUpsert =
  art_artifact_id :: ArtifactId
  art_task_id :: TaskId
  art_context_id :: "ContextId option"
  art_name :: "string option"
  art_mime_type :: "string option"
  art_kind :: ArtifactKind
  art_version :: u64
  art_content_json :: "json option"
  art_bytes_path :: "string option"
  art_metadata :: Metadata

record 'dt ArtifactRecord = ArtifactUpsert +
  art_created_at :: 'dt
  art_updated_at :: 'dt

definition ArtifactUpsert_new :: "ArtifactId \<Rightarrow> TaskId \<Rightarrow> ArtifactUpsert" where
  "ArtifactUpsert_new artifact_id task_id =
     \<lparr>art_artifact_id = artifact_id, art_task_id = task_id, art_context_id = None, art_name = None,
      art_mime_type = None, art_kind = Artifact_Unknown, art_version = 1, art_content_json = None,
      art_bytes_path = None, art_metadata = metadata_new\<rparr>"

definition artifact_checks :: "ArtifactUpsert \<Rightarrow> unit outcome" where
  "artifact_checks input =
     checks
       [when_some (art_name input) (\<lambda>name. validate_len ''artifact name'' name 512),
        when_some (art_mime_type input) (\<lambda>mime_type. validate_len ''artifact mime_type'' mime_type 255),
        when_some (art_bytes_path input) (\<lambda>bytes_path. validate_len ''artifact bytes_path'' bytes_path 4096)]"

definition artifact_row :: "'dt sqlite \<Rightarrow> string \<Rightarrow> ArtifactUpsert \<Rightarrow> ArtifactRow outcome" where
  "artifact_row S stamp input =
     and_then (u64_to_i64 ''artifact version'' (art_version input)) (\<lambda>version.
     and_then (optional_json_text S ''artifact content'' (art_content_json input)) (\<lambda>content_json.
     and_then (to_json_text S ''artifact metadata'' (metadata_serialize (art_metadata input))) (\<lambda>metadata_json.
       Inr \<lparr>artrow_artifact_id = art_artifact_id input, artrow_task_id = art_task_id input,
         artrow_context_id = art_context_id input, artrow_name = art_name input,
         artrow_mime_type = art_mime_type input, artrow_kind = artifact_kind_as_str (art_kind input),
         artrow_version = version, artrow_content_json = content_json,
         artrow_bytes_path = art_bytes_path input, artrow_metadata_json = metadata_json,
         artrow_created_at = stamp, artrow_updated_at = stamp\<rparr>)))"

definition keep_artifact :: "ArtifactRow \<Rightarrow> ArtifactRow \<Rightarrow> ArtifactRow" where
  "keep_artifact old row = row\<lparr>artrow_created_at := artrow_created_at old\<rparr>"

definition read_artifact_row :: "'dt sqlite \<Rightarrow> ArtifactRow \<Rightarrow> std_error + 'dt ArtifactRecord" where
  "read_artifact_row S row =
     and_then (parse_sql ArtifactId_new (artrow_artifact_id row)) (\<lambda>ident.
     and_then (parse_sql TaskId_new (artrow_task_id row)) (\<lambda>task.
     and_then (optional_sql (parse_sql ContextId_new) (artrow_context_id row)) (\<lambda>context.
     and_then (parse_sql artifact_kind_from_str (artrow_kind row)) (\<lambda>kind.
     and_then (u64_from_sql (artrow_version row)) (\<lambda>version.
     and_then (optional_sql (json_from_sql S) (artrow_content_json row)) (\<lambda>content_json.
     and_then (metadata_from_sql S (artrow_metadata_json row)) (\<lambda>metadata.
     and_then (timestamp_from_sql S (artrow_created_at row)) (\<lambda>created_at.
     and_then (timestamp_from_sql S (artrow_updated_at row)) (\<lambda>updated_at.
       Inr \<lparr>art_artifact_id = ident, art_task_id = task, art_context_id = context,
         art_name = artrow_name row, art_mime_type = artrow_mime_type row, art_kind = kind,
         art_version = version, art_content_json = content_json, art_bytes_path = artrow_bytes_path row,
         art_metadata = metadata, art_created_at = created_at, art_updated_at = updated_at\<rparr>)))))))))"

definition get_artifact :: "'dt engine \<Rightarrow> ArtifactId \<Rightarrow> 'dt ArtifactRecord option store_op" where
  "get_artifact E artifact_id db =
     (query_row ''reading artifact'' (read_artifact_row (eng_sql E)) (bm_get artifact_id (st_artifacts db)), db)"

definition upsert_artifact :: "'dt engine \<Rightarrow> string \<Rightarrow> ArtifactUpsert \<Rightarrow> 'dt ArtifactRecord store_op" where
  "upsert_artifact E stamp input =
     db_bind (db_outcome (and_then (artifact_checks input) (\<lambda>_. artifact_row (eng_sql E) stamp input))) (\<lambda>row.
       write_and_read
         (execute E ''upserting artifact'' (\<lambda>db. violates (artifact_check E row) True (refs_ok db (artifact_refs row)))
           (\<lambda>db. (True, db\<lparr>st_artifacts := put_row keep_artifact (art_artifact_id input) row (st_artifacts db)\<rparr>)))
         (get_artifact E (art_artifact_id input)) (missing_after_write ''artifact'' (art_artifact_id input)))"

text \<open>\<open>ORDER BY task_id, version, artifact_id\<close>.\<close>

definition artifact_order :: "ArtifactRow \<Rightarrow> ArtifactRow \<Rightarrow> bool" where
  "artifact_order a b \<longleftrightarrow>
     artrow_task_id a < artrow_task_id b \<or>
     artrow_task_id a = artrow_task_id b \<and>
       (artrow_version a < artrow_version b \<or>
        artrow_version a = artrow_version b \<and> artrow_artifact_id a \<le> artrow_artifact_id b)"

definition list_artifacts :: "'dt engine \<Rightarrow> 'dt ArtifactRecord list store_op" where
  "list_artifacts E db =
     (collect_rows ''listing artifacts'' (read_artifact_row (eng_sql E))
        (sort_by artifact_order (map snd (st_artifacts db))), db)"

definition list_artifacts_for_task :: "'dt engine \<Rightarrow> TaskId \<Rightarrow> 'dt ArtifactRecord list store_op" where
  "list_artifacts_for_task E task_id db =
     (collect_rows ''listing task artifacts'' (read_artifact_row (eng_sql E))
        (sort_by artifact_order (filter (\<lambda>r. artrow_task_id r = task_id) (map snd (st_artifacts db)))), db)"

definition delete_artifact :: "'dt engine \<Rightarrow> ArtifactId \<Rightarrow> bool store_op" where
  "delete_artifact E artifact_id =
     delete_by_key E ''deleting artifact'' (\<lambda>db. False) (\<lambda>db. bm_contains_key artifact_id (st_artifacts db))
       (\<lambda>db. db\<lparr>st_artifacts := bm_remove artifact_id (st_artifacts db)\<rparr>)"

subsection \<open>Messages\<close>

record MessageInsert =
  msg_message_id :: MessageId
  msg_agent_alias :: "AgentAlias option"
  msg_context_id :: "ContextId option"
  msg_task_id :: "TaskId option"
  msg_direction :: MessageDirection
  msg_role :: "MessageRole option"
  msg_ordinal :: u64
  msg_protocol_message_id :: "string option"
  msg_content_json :: json
  msg_metadata :: Metadata

record 'dt MessageRecord = MessageInsert +
  msg_created_at :: 'dt

definition MessageInsert_new :: "MessageId \<Rightarrow> MessageDirection \<Rightarrow> json \<Rightarrow> MessageInsert" where
  "MessageInsert_new message_id direction content_json =
     \<lparr>msg_message_id = message_id, msg_agent_alias = None, msg_context_id = None, msg_task_id = None,
      msg_direction = direction, msg_role = None, msg_ordinal = 0, msg_protocol_message_id = None,
      msg_content_json = content_json, msg_metadata = metadata_new\<rparr>"

definition message_row :: "'dt sqlite \<Rightarrow> string \<Rightarrow> MessageInsert \<Rightarrow> MessageRow outcome" where
  "message_row S stamp input =
     and_then (u64_to_i64 ''message ordinal'' (msg_ordinal input)) (\<lambda>ordinal.
     and_then (to_json_text S ''message content'' (msg_content_json input)) (\<lambda>content_json.
     and_then (to_json_text S ''message metadata'' (metadata_serialize (msg_metadata input))) (\<lambda>metadata_json.
       Inr \<lparr>msgrow_message_id = msg_message_id input, msgrow_agent_alias = msg_agent_alias input,
         msgrow_context_id = msg_context_id input, msgrow_task_id = msg_task_id input,
         msgrow_direction = message_direction_as_str (msg_direction input),
         msgrow_role = map_option message_role_as_str (msg_role input), msgrow_ordinal = ordinal,
         msgrow_protocol_message_id = msg_protocol_message_id input, msgrow_content_json = content_json,
         msgrow_metadata_json = metadata_json, msgrow_created_at = stamp\<rparr>)))"

definition read_message_row :: "'dt sqlite \<Rightarrow> MessageRow \<Rightarrow> std_error + 'dt MessageRecord" where
  "read_message_row S row =
     and_then (parse_sql MessageId_new (msgrow_message_id row)) (\<lambda>ident.
     and_then (optional_sql (parse_sql AgentAlias_new) (msgrow_agent_alias row)) (\<lambda>agent_alias.
     and_then (optional_sql (parse_sql ContextId_new) (msgrow_context_id row)) (\<lambda>context.
     and_then (optional_sql (parse_sql TaskId_new) (msgrow_task_id row)) (\<lambda>task.
     and_then (parse_sql message_direction_from_str (msgrow_direction row)) (\<lambda>direction.
     and_then (optional_sql (parse_sql message_role_from_str) (msgrow_role row)) (\<lambda>role.
     and_then (u64_from_sql (msgrow_ordinal row)) (\<lambda>ordinal.
     and_then (json_from_sql S (msgrow_content_json row)) (\<lambda>content_json.
     and_then (metadata_from_sql S (msgrow_metadata_json row)) (\<lambda>metadata.
     and_then (timestamp_from_sql S (msgrow_created_at row)) (\<lambda>created_at.
       Inr \<lparr>msg_message_id = ident, msg_agent_alias = agent_alias, msg_context_id = context,
         msg_task_id = task, msg_direction = direction, msg_role = role, msg_ordinal = ordinal,
         msg_protocol_message_id = msgrow_protocol_message_id row, msg_content_json = content_json,
         msg_metadata = metadata, msg_created_at = created_at\<rparr>))))))))))"

definition get_message :: "'dt engine \<Rightarrow> MessageId \<Rightarrow> 'dt MessageRecord option store_op" where
  "get_message E message_id db =
     (query_row ''reading message'' (read_message_row (eng_sql E)) (bm_get message_id (st_messages db)), db)"

text \<open>A plain \<open>INSERT\<close>: a message is written once.\<close>

definition insert_message :: "'dt engine \<Rightarrow> string \<Rightarrow> MessageInsert \<Rightarrow> 'dt MessageRecord store_op" where
  "insert_message E stamp input =
     db_bind (db_outcome
       (and_then
         (when_some (msg_protocol_message_id input)
           (\<lambda>ident. validate_len ''message protocol_message_id'' ident STORE_IDENTIFIER_MAX_BYTES))
         (\<lambda>_. message_row (eng_sql E) stamp input)))
     (\<lambda>row.
       write_and_read
         (execute E ''inserting message''
           (\<lambda>db. violates (message_check E row) (\<not> bm_contains_key (msg_message_id input) (st_messages db))
             (refs_ok db (message_refs row)))
           (\<lambda>db. (True, db\<lparr>st_messages := bm_insert (msg_message_id input) row (st_messages db)\<rparr>)))
         (get_message E (msg_message_id input)) (missing_after_write ''message'' (msg_message_id input)))"

text \<open>\<open>ORDER BY COALESCE(context_id, ''), COALESCE(task_id, ''), ordinal, created_at, message_id\<close>.\<close>

definition message_order :: "MessageRow \<Rightarrow> MessageRow \<Rightarrow> bool" where
  "message_order a b =
     (let coalesce = (\<lambda>x. case x of None \<Rightarrow> [] | Some v \<Rightarrow> v);
          before = (\<lambda>r. [coalesce (msgrow_context_id r), coalesce (msgrow_task_id r)]);
          after = (\<lambda>r. [msgrow_created_at r, msgrow_message_id r])
      in before a < before b \<or>
         before a = before b \<and>
           (msgrow_ordinal a < msgrow_ordinal b \<or> msgrow_ordinal a = msgrow_ordinal b \<and> after a \<le> after b))"

definition list_messages :: "'dt engine \<Rightarrow> 'dt MessageRecord list store_op" where
  "list_messages E db =
     (collect_rows ''listing messages'' (read_message_row (eng_sql E))
        (sort_by message_order (map snd (st_messages db))), db)"

definition delete_message :: "'dt engine \<Rightarrow> MessageId \<Rightarrow> bool store_op" where
  "delete_message E message_id =
     delete_by_key E ''deleting message'' (\<lambda>db. False) (\<lambda>db. bm_contains_key message_id (st_messages db))
       (\<lambda>db. db\<lparr>st_messages := bm_remove message_id (st_messages db)\<rparr>)"

end
