(* ===== verification/Store_Integrity.thy ===== *)
theory Store_Integrity
  imports Store_Registry Store_Conversations
begin

text \<open>
  Integrity of the whole store: whatever operations run, one by one or in transactions, every table
  stays sorted by its key, every row satisfies the constraints of its table, and every reference has
  a row to point to.  The properties of the deletions and of renaming a group tell what happens to
  the rows that refer to the row that goes away.
\<close>

subsection \<open>The invariant\<close>

definition table_ok ::
  "('row \<Rightarrow> 'k::linorder) \<Rightarrow> ('row \<Rightarrow> bool) \<Rightarrow> ('row \<Rightarrow> references) \<Rightarrow> store_db \<Rightarrow> ('k, 'row) btree_map \<Rightarrow> bool" where
  "table_ok key check refs db m \<longleftrightarrow>
     bm_sorted m \<and> (\<forall>(k, r) \<in> set m. key r = k \<and> check r \<and> refs_ok db (refs r))"

definition member_key :: "GroupMemberRow \<Rightarrow> string list" where
  "member_key r = [memrow_group_name r, memrow_agent_alias r]"

definition session_key :: "GatewaySessionRow \<Rightarrow> string list" where
  "session_key r = [srow_source_kind r, srow_source_id r, srow_agent_alias r, srow_resume_name r]"

definition ranks_unique :: "(string list, GroupMemberRow) btree_map \<Rightarrow> bool" where
  "ranks_unique m \<longleftrightarrow> (\<forall>(k, r) \<in> set m. rank_free r m)"

definition sessions_unique :: "gateway_db \<Rightarrow> bool" where
  "sessions_unique g \<longleftrightarrow>
     (\<forall>(k, r) \<in> set (db_sessions g). \<forall>(k', r') \<in> set (db_sessions g). session_key r = session_key r' \<longrightarrow> k = k')"

definition journal_ok :: "'dt engine \<Rightarrow> store_db \<Rightarrow> EventRow list \<Rightarrow> bool" where
  "journal_ok E db es \<longleftrightarrow>
     distinct (map erow_event_id es) \<and> (\<forall>r \<in> set es. event_check E r \<and> refs_ok db (event_refs r))"

definition no_refs :: "'row \<Rightarrow> references" where
  "no_refs r = []"

definition store_ok :: "'dt engine \<Rightarrow> store_db \<Rightarrow> bool" where
  "store_ok E db \<longleftrightarrow>
     table_ok authrow_name (auth_ref_check E) no_refs db (st_auth_refs db) \<and>
     table_ok agrow_alias (agent_check E) agent_refs db (st_agents db) \<and>
     table_ok ctxrow_context_id (context_check E) context_refs db (st_contexts db) \<and>
     table_ok tskrow_task_id (task_check E) task_refs db (st_tasks db) \<and>
     table_ok artrow_artifact_id (artifact_check E) artifact_refs db (st_artifacts db) \<and>
     table_ok msgrow_message_id (message_check E) message_refs db (st_messages db) \<and>
     table_ok grprow_group_name (group_check E) no_refs db (st_groups db) \<and>
     table_ok member_key (member_check E) member_refs db (st_members db) \<and>
     table_ok pcrow_push_config_id (push_config_check E) push_config_refs db (st_push_configs db) \<and>
     table_ok jrow_gateway_job_id (job_check E) job_refs db (db_jobs (st_gateway db)) \<and>
     table_ok srow_gateway_session_id (session_check E) session_refs db (db_sessions (st_gateway db)) \<and>
     journal_ok E db (db_events (st_gateway db)) \<and> ranks_unique (st_members db) \<and> sessions_unique (st_gateway db)"

subsection \<open>References\<close>

lemma refs_ok_iff: "refs_ok db refs \<longleftrightarrow> (\<forall>t k. (t, Some k) \<in> set refs \<longrightarrow> has_row db t k)"
  by (auto simp: refs_ok_def list_all_iff split: option.splits)

lemma refs_ok_mono:
  "refs_ok db refs \<Longrightarrow> (\<And>t k. has_row db t k \<Longrightarrow> has_row db' t k) \<Longrightarrow> refs_ok db' refs"
  by (auto simp: refs_ok_iff)

lemma table_ok_mono:
  "table_ok key check refs db m \<Longrightarrow> (\<And>t k. has_row db t k \<Longrightarrow> has_row db' t k) \<Longrightarrow> table_ok key check refs db' m"
  unfolding table_ok_def using refs_ok_mono by fastforce

lemma journal_ok_mono:
  "journal_ok E db es \<Longrightarrow> (\<And>t k. has_row db t k \<Longrightarrow> has_row db' t k) \<Longrightarrow> journal_ok E db' es"
  unfolding journal_ok_def using refs_ok_mono by blast

lemma table_okD: "table_ok key check refs db m \<Longrightarrow> (k, r) \<in> set m \<Longrightarrow> key r = k \<and> check r \<and> refs_ok db (refs r)"
  by (auto simp: table_ok_def)

lemma table_ok_get:
  "table_ok key check refs db m \<Longrightarrow> bm_get k m = Some r \<Longrightarrow> key r = k \<and> check r \<and> refs_ok db (refs r)"
  by (rule table_okD) (auto simp: bm_get_def dest: map_of_SomeD)

lemma table_ok_insert:
  assumes "table_ok key check refs db m" "key r = k" "check r" "refs_ok db (refs r)"
  shows "table_ok key check refs db (bm_insert k r m)"
  using assms by (auto simp: table_ok_def bm_sorted_insert dest!: set_bm_insertD)

lemma table_ok_put:
  assumes "table_ok key check refs db m" "key r = k" "check r" "refs_ok db (refs r)"
    and "\<And>old. key (keep old r) = k" "\<And>old. check (keep old r)" "\<And>old. refs (keep old r) = refs r"
  shows "table_ok key check refs db (put_row keep k r m)"
  unfolding put_row_def using assms by (intro table_ok_insert) (auto split: option.split)

lemma table_ok_remove: "table_ok key check refs db m \<Longrightarrow> table_ok key check refs db (bm_remove k m)"
  by (auto simp: table_ok_def bm_sorted_remove) (auto simp: bm_remove_def)

lemma table_ok_drop_rows: "table_ok key check refs db m \<Longrightarrow> table_ok key check refs db (drop_rows P m)"
  by (auto simp: table_ok_def drop_rows_def bm_sorted_def sorted_wrt_map sorted_wrt_filter)

lemma table_ok_map_rows:
  assumes "table_ok key check refs db m"
    and "\<And>r. key (f r) = key r" "\<And>r. check r \<Longrightarrow> check (f r)"
    and "\<And>r t k. (t, Some k) \<in> set (refs (f r)) \<Longrightarrow> (t, Some k) \<in> set (refs r)"
  shows "table_ok key check refs db (map_rows f m)"
  using assms
  by (auto simp: table_ok_def map_rows_def bm_sorted_def comp_def case_prod_beta refs_ok_iff)

text \<open>When a row goes away, its references are cleared, dropped with their rows, or there are none.\<close>

definition gone :: "store_db \<Rightarrow> store_db \<Rightarrow> target \<Rightarrow> string \<Rightarrow> bool" where
  "gone db db' t x \<longleftrightarrow> (\<forall>t' k. has_row db t' k \<longrightarrow> (t', k) \<noteq> (t, x) \<longrightarrow> has_row db' t' k)"

lemma gone_refs: "refs_ok db refs \<Longrightarrow> gone db db' t x \<Longrightarrow> (t, Some x) \<notin> set refs \<Longrightarrow> refs_ok db' refs"
  by (auto simp: refs_ok_iff gone_def)

lemma gone_rows:
  assumes "table_ok key check refs db m" "gone db db' t x" "\<And>k r. (k, r) \<in> set m \<Longrightarrow> (t, Some x) \<notin> set (refs r)"
  shows "table_ok key check refs db' m"
proof -
  have "key r = k \<and> check r \<and> refs_ok db' (refs r)" if "(k, r) \<in> set m" for k r
    using table_okD [OF assms(1) that] gone_refs [OF _ assms(2) assms(3) [OF that]] by simp
  then show ?thesis using assms(1) by (auto simp: table_ok_def)
qed

lemma gone_map:
  assumes "table_ok key check refs db m" "gone db db' t x"
    and "\<And>r. key (f r) = key r" "\<And>r. check r \<Longrightarrow> check (f r)"
    and "\<And>r t' k. (t', Some k) \<in> set (refs (f r)) \<Longrightarrow> (t', Some k) \<in> set (refs r) \<and> (t', k) \<noteq> (t, x)"
  shows "table_ok key check refs db' (map_rows f m)"
proof (rule gone_rows)
  show "table_ok key check refs db (map_rows f m)" using assms by (intro table_ok_map_rows) auto
  show "gone db db' t x" by fact
  show "(t, Some x) \<notin> set (refs r)" if "(k, r) \<in> set (map_rows f m)" for k r
    using that assms(5) by (auto simp: map_rows_def)
qed

lemma gone_drop:
  assumes "table_ok key check refs db m" "gone db db' t x" "\<And>r. (t, Some x) \<in> set (refs r) \<Longrightarrow> P r"
  shows "table_ok key check refs db' (drop_rows P m)"
proof (rule gone_rows)
  show "table_ok key check refs db (drop_rows P m)" by (rule table_ok_drop_rows) fact
  show "gone db db' t x" by fact
  show "(t, Some x) \<notin> set (refs r)" if "(k, r) \<in> set (drop_rows P m)" for k r
    using that assms(3) by (auto simp: drop_rows_def)
qed

lemma gone_same:
  assumes "table_ok key check refs db m" "gone db db' t x" "\<And>r. (t, Some x) \<notin> set (refs r)"
  shows "table_ok key check refs db' m"
  by (rule gone_rows [OF assms(1,2)]) (rule assms(3))

lemma gone_events:
  assumes "journal_ok E db es" "gone db db' t x"
    and "\<And>r. erow_event_id (f r) = erow_event_id r" "\<And>r. event_check E r \<Longrightarrow> event_check E (f r)"
    and "\<And>r t' k. (t', Some k) \<in> set (event_refs (f r)) \<Longrightarrow> (t', Some k) \<in> set (event_refs r) \<and> (t', k) \<noteq> (t, x)"
  shows "journal_ok E db' (map f es)"
proof -
  have "refs_ok db' (event_refs (f r))" if "r \<in> set es" for r
    using assms that by (auto simp: journal_ok_def refs_ok_iff gone_def)
  then show ?thesis using assms(1,3,4) by (auto simp: journal_ok_def comp_def)
qed

lemmas refs_defs = agent_refs_def context_refs_def task_refs_def artifact_refs_def message_refs_def
  member_refs_def push_config_refs_def job_refs_def session_refs_def event_refs_def no_refs_def

lemmas check_defs = auth_ref_check_def agent_check_def context_check_def task_check_def artifact_check_def
  message_check_def group_check_def member_check_def push_config_check_def job_check_def
  session_check_def event_check_def

lemma cleared_simps [simp]:
  "cleared k c = Some k' \<longleftrightarrow> c = Some k' \<and> k' \<noteq> k" "Some k' = cleared k c \<longleftrightarrow> c = Some k' \<and> k' \<noteq> k"
  by (auto simp: cleared_def)

lemma contains_key_insert [simp]: "bm_contains_key k (bm_insert k' v m) \<longleftrightarrow> k = k' \<or> bm_contains_key k m"
  by (auto simp: bm_contains_key_def bm_get_insert)

lemma contains_key_put [simp]: "bm_contains_key k (put_row keep k' r m) \<longleftrightarrow> k = k' \<or> bm_contains_key k m"
  by (simp add: put_row_def)

lemma contains_key_remove [simp]: "bm_contains_key k (bm_remove k' m) \<longleftrightarrow> k \<noteq> k' \<and> bm_contains_key k m"
  by (auto simp: bm_contains_key_def bm_get_remove)

lemma bm_get_map_rows: "bm_get k (map_rows f m) = map_option f (bm_get k m)"
  by (induction m) (auto simp: map_rows_def)

lemma contains_key_map_rows [simp]: "bm_contains_key k (map_rows f m) \<longleftrightarrow> bm_contains_key k m"
  by (simp add: bm_contains_key_def bm_get_map_rows)

subsection \<open>Writing a row\<close>

named_theorems keeps "operations that keep the invariant of the store"

definition preserves :: "'dt engine \<Rightarrow> 'a store_op \<Rightarrow> bool" where
  "preserves E operation \<longleftrightarrow> (\<forall>db. store_ok E db \<longrightarrow> store_ok E (snd (operation db)))"

lemma preserves_outcome [keeps]: "preserves E (db_outcome r)"
  by (simp add: preserves_def db_outcome_def)

lemma preserves_bind [keeps]:
  "preserves E m \<Longrightarrow> (\<And>x. preserves E (f x)) \<Longrightarrow> preserves E (db_bind m f)"
  unfolding preserves_def db_bind_snd by (auto split: prod.splits sum.splits)

lemma preserves_execute:
  assumes "\<And>db. store_ok E db \<Longrightarrow> violation db = None \<Longrightarrow> store_ok E (snd (effect db))"
  shows "preserves E (execute E action violation effect)"
  using assms by (auto simp: preserves_def execute_def split: option.splits prod.splits) (metis snd_conv)

lemma preserves_read: "(\<And>db. snd (operation db) = db) \<Longrightarrow> preserves E operation"
  by (simp add: preserves_def)

lemma preserves_write_and_read:
  "preserves E write \<Longrightarrow> (\<And>db. snd (reading db) = db) \<Longrightarrow> preserves E (write_and_read write reading missing)"
  unfolding write_and_read_def by (simp add: keeps preserves_read [of reading])

lemma preserves_transaction [keeps]: "preserves E operation \<Longrightarrow> preserves E (transaction E operation)"
  by (auto simp: preserves_def transaction_def split: option.splits prod.splits sum.splits)

lemma violates_None [simp]: "violates c u r = None \<longleftrightarrow> c \<and> u \<and> r"
  by (simp add: violates_def)

lemma has_row_put:
  "has_row db t k \<Longrightarrow> has_row (db\<lparr>st_auth_refs := put_row keep1 k1 r1 (st_auth_refs db)\<rparr>) t k"
  "has_row db t k \<Longrightarrow> has_row (db\<lparr>st_agents := put_row keep2 k1 r2 (st_agents db)\<rparr>) t k"
  "has_row db t k \<Longrightarrow> has_row (db\<lparr>st_contexts := put_row keep3 k1 r3 (st_contexts db)\<rparr>) t k"
  "has_row db t k \<Longrightarrow> has_row (db\<lparr>st_tasks := put_row keep4 k1 r4 (st_tasks db)\<rparr>) t k"
  "has_row db t k \<Longrightarrow> has_row (db\<lparr>st_groups := put_row keep5 k1 r5 (st_groups db)\<rparr>) t k"
  by (auto simp: has_row_def split: target.splits)

lemma has_row_leaf [simp]:
  "has_row (db\<lparr>st_artifacts := a\<rparr>) t k = has_row db t k"
  "has_row (db\<lparr>st_messages := b\<rparr>) t k = has_row db t k"
  "has_row (db\<lparr>st_members := c\<rparr>) t k = has_row db t k"
  "has_row (db\<lparr>st_push_configs := d\<rparr>) t k = has_row db t k"
  by (simp_all add: has_row_def split: target.splits)

lemma refs_ok_leaf [simp]:
  "refs_ok (db\<lparr>st_artifacts := a\<rparr>) refs = refs_ok db refs"
  "refs_ok (db\<lparr>st_messages := b\<rparr>) refs = refs_ok db refs"
  "refs_ok (db\<lparr>st_members := c\<rparr>) refs = refs_ok db refs"
  "refs_ok (db\<lparr>st_push_configs := d\<rparr>) refs = refs_ok db refs"
  by (simp_all add: refs_ok_iff)

lemma table_ok_leaf [simp]:
  "table_ok key check refs (db\<lparr>st_artifacts := a\<rparr>) m = table_ok key check refs db m"
  "table_ok key check refs (db\<lparr>st_messages := b\<rparr>) m = table_ok key check refs db m"
  "table_ok key check refs (db\<lparr>st_members := c\<rparr>) m = table_ok key check refs db m"
  "table_ok key check refs (db\<lparr>st_push_configs := d\<rparr>) m = table_ok key check refs db m"
  by (simp_all add: table_ok_def)

lemma journal_ok_leaf [simp]:
  "journal_ok E (db\<lparr>st_artifacts := a\<rparr>) es = journal_ok E db es"
  "journal_ok E (db\<lparr>st_messages := b\<rparr>) es = journal_ok E db es"
  "journal_ok E (db\<lparr>st_members := c\<rparr>) es = journal_ok E db es"
  "journal_ok E (db\<lparr>st_push_configs := d\<rparr>) es = journal_ok E db es"
  by (simp_all add: journal_ok_def)

lemma ranks_unique_iff:
  "ranks_unique m \<longleftrightarrow>
     (\<forall>a r a' r'. (a, r) \<in> set m \<longrightarrow> (a', r') \<in> set m \<longrightarrow>
        memrow_group_name r = memrow_group_name r' \<longrightarrow> memrow_rank_name r = memrow_rank_name r' \<longrightarrow>
        memrow_agent_alias r = memrow_agent_alias r')"
  unfolding ranks_unique_def rank_free_def Ball_def split_paired_All case_prod_conv by metis

lemma store_okD:
  assumes "store_ok E db"
  shows "table_ok authrow_name (auth_ref_check E) no_refs db (st_auth_refs db)"
    "table_ok agrow_alias (agent_check E) agent_refs db (st_agents db)"
    "table_ok ctxrow_context_id (context_check E) context_refs db (st_contexts db)"
    "table_ok tskrow_task_id (task_check E) task_refs db (st_tasks db)"
    "table_ok artrow_artifact_id (artifact_check E) artifact_refs db (st_artifacts db)"
    "table_ok msgrow_message_id (message_check E) message_refs db (st_messages db)"
    "table_ok grprow_group_name (group_check E) no_refs db (st_groups db)"
    "table_ok member_key (member_check E) member_refs db (st_members db)"
    "table_ok pcrow_push_config_id (push_config_check E) push_config_refs db (st_push_configs db)"
    "table_ok jrow_gateway_job_id (job_check E) job_refs db (db_jobs (st_gateway db))"
    "table_ok srow_gateway_session_id (session_check E) session_refs db (db_sessions (st_gateway db))"
    "journal_ok E db (db_events (st_gateway db))" "ranks_unique (st_members db)" "sessions_unique (st_gateway db)"
  using assms by (simp_all add: store_ok_def)

text \<open>The other tables, when the rows that can be referred to only grow.\<close>

lemma store_ok_grow:
  assumes "store_ok E db" "\<And>t k. has_row db t k \<Longrightarrow> has_row db' t k"
  shows "table_ok authrow_name (auth_ref_check E) no_refs db' (st_auth_refs db)"
    "table_ok agrow_alias (agent_check E) agent_refs db' (st_agents db)"
    "table_ok ctxrow_context_id (context_check E) context_refs db' (st_contexts db)"
    "table_ok tskrow_task_id (task_check E) task_refs db' (st_tasks db)"
    "table_ok artrow_artifact_id (artifact_check E) artifact_refs db' (st_artifacts db)"
    "table_ok msgrow_message_id (message_check E) message_refs db' (st_messages db)"
    "table_ok grprow_group_name (group_check E) no_refs db' (st_groups db)"
    "table_ok member_key (member_check E) member_refs db' (st_members db)"
    "table_ok pcrow_push_config_id (push_config_check E) push_config_refs db' (st_push_configs db)"
    "table_ok jrow_gateway_job_id (job_check E) job_refs db' (db_jobs (st_gateway db))"
    "table_ok srow_gateway_session_id (session_check E) session_refs db' (db_sessions (st_gateway db))"
    "journal_ok E db' (db_events (st_gateway db))" "ranks_unique (st_members db)" "sessions_unique (st_gateway db)"
  using assms by (auto simp: store_ok_def intro: table_ok_mono journal_ok_mono)

lemmas keep_defs = keep_auth_ref_def keep_agent_def keep_context_def keep_task_def keep_artifact_def
  keep_group_def keep_member_def keep_push_config_def

lemma put_auth_ref_ok:
  assumes "store_ok E db" "auth_ref_check E row" "authrow_name row = k"
  shows "store_ok E (db\<lparr>st_auth_refs := put_row keep_auth_ref k row (st_auth_refs db)\<rparr>)" (is "store_ok E ?db")
proof -
  have "table_ok authrow_name (auth_ref_check E) no_refs ?db (put_row keep_auth_ref k row (st_auth_refs db))"
    using store_ok_grow(1) [OF assms(1) has_row_put(1)] assms(2,3)
    by (intro table_ok_put) (auto simp: keep_defs check_defs refs_defs refs_ok_iff)
  then show ?thesis using store_ok_grow [OF assms(1) has_row_put(1)]
    by (simp add: store_ok_def)
qed

lemma put_agent_ok:
  assumes "store_ok E db" "agent_check E row" "refs_ok db (agent_refs row)" "agrow_alias row = k"
  shows "store_ok E (db\<lparr>st_agents := put_row keep_agent k row (st_agents db)\<rparr>)" (is "store_ok E ?db")
proof -
  have "refs_ok ?db (agent_refs row)" using assms(3) by (rule refs_ok_mono) (rule has_row_put)
  then have "table_ok agrow_alias (agent_check E) agent_refs ?db (put_row keep_agent k row (st_agents db))"
    using store_ok_grow(2) [OF assms(1) has_row_put(2)] assms(2,4)
    by (intro table_ok_put) (auto simp: keep_defs check_defs refs_defs)
  then show ?thesis using store_ok_grow [OF assms(1) has_row_put(2)]
    by (simp add: store_ok_def)
qed

lemma put_context_ok:
  assumes "store_ok E db" "context_check E row" "refs_ok db (context_refs row)" "ctxrow_context_id row = k"
  shows "store_ok E (db\<lparr>st_contexts := put_row keep_context k row (st_contexts db)\<rparr>)" (is "store_ok E ?db")
proof -
  have "refs_ok ?db (context_refs row)" using assms(3) by (rule refs_ok_mono) (rule has_row_put)
  then have "table_ok ctxrow_context_id (context_check E) context_refs ?db (put_row keep_context k row (st_contexts db))"
    using store_ok_grow(3) [OF assms(1) has_row_put(3)] assms(2,4)
    by (intro table_ok_put) (auto simp: keep_defs check_defs refs_defs)
  then show ?thesis using store_ok_grow [OF assms(1) has_row_put(3)]
    by (simp add: store_ok_def)
qed

lemma put_task_ok:
  assumes "store_ok E db" "task_check E row" "refs_ok db (task_refs row)" "tskrow_task_id row = k"
  shows "store_ok E (db\<lparr>st_tasks := put_row keep_task k row (st_tasks db)\<rparr>)" (is "store_ok E ?db")
proof -
  have "refs_ok ?db (task_refs row)" using assms(3) by (rule refs_ok_mono) (rule has_row_put)
  then have "table_ok tskrow_task_id (task_check E) task_refs ?db (put_row keep_task k row (st_tasks db))"
    using store_ok_grow(4) [OF assms(1) has_row_put(4)] assms(2,4)
    by (intro table_ok_put) (auto simp: keep_defs check_defs refs_defs)
  then show ?thesis using store_ok_grow [OF assms(1) has_row_put(4)]
    by (simp add: store_ok_def)
qed

lemma put_group_ok:
  assumes "store_ok E db" "group_check E row" "grprow_group_name row = k"
  shows "store_ok E (db\<lparr>st_groups := put_row keep_group k row (st_groups db)\<rparr>)" (is "store_ok E ?db")
proof -
  have "table_ok grprow_group_name (group_check E) no_refs ?db (put_row keep_group k row (st_groups db))"
    using store_ok_grow(7) [OF assms(1) has_row_put(5)] assms(2,3)
    by (intro table_ok_put) (auto simp: keep_defs check_defs refs_defs refs_ok_iff)
  then show ?thesis using store_ok_grow [OF assms(1) has_row_put(5)]
    by (simp add: store_ok_def)
qed

lemma put_artifact_ok:
  assumes "store_ok E db" "artifact_check E row" "refs_ok db (artifact_refs row)" "artrow_artifact_id row = k"
  shows "store_ok E (db\<lparr>st_artifacts := put_row keep_artifact k row (st_artifacts db)\<rparr>)" (is "store_ok E ?db")
proof -
  have "table_ok artrow_artifact_id (artifact_check E) artifact_refs ?db (put_row keep_artifact k row (st_artifacts db))"
    using store_ok_grow(5) [OF assms(1), of ?db] assms(2-)
    by (intro table_ok_put) (auto simp: keep_defs check_defs refs_defs)
  then show ?thesis using store_ok_grow [OF assms(1), of ?db]
    by (simp add: store_ok_def)
qed

lemma put_message_ok:
  assumes "store_ok E db" "message_check E row" "refs_ok db (message_refs row)" "msgrow_message_id row = k"
  shows "store_ok E (db\<lparr>st_messages := bm_insert k row (st_messages db)\<rparr>)" (is "store_ok E ?db")
proof -
  have "table_ok msgrow_message_id (message_check E) message_refs ?db (bm_insert k row (st_messages db))"
    using store_ok_grow(6) [OF assms(1), of ?db] assms(2-) by (intro table_ok_insert) auto
  then show ?thesis using store_ok_grow [OF assms(1), of ?db]
    by (simp add: store_ok_def)
qed

lemma put_push_config_ok:
  assumes "store_ok E db" "push_config_check E row" "refs_ok db (push_config_refs row)" "pcrow_push_config_id row = k"
  shows "store_ok E (db\<lparr>st_push_configs := put_row keep_push_config k row (st_push_configs db)\<rparr>)" (is "store_ok E ?db")
proof -
  have "table_ok pcrow_push_config_id (push_config_check E) push_config_refs ?db (put_row keep_push_config k row (st_push_configs db))"
    using store_ok_grow(9) [OF assms(1), of ?db] assms(2-)
    by (intro table_ok_put) (auto simp: keep_defs check_defs refs_defs)
  then show ?thesis using store_ok_grow [OF assms(1), of ?db]
    by (simp add: store_ok_def)
qed

lemma put_row_cases:
  "(k', r') \<in> set (put_row keep k row m) \<Longrightarrow>
     (k', r') \<in> set m \<and> (bm_sorted m \<longrightarrow> k' \<noteq> k) \<or> k' = k \<and> (r' = row \<or> (\<exists>old. r' = keep old row))"
proof -
  assume in_put: "(k', r') \<in> set (put_row keep k row m)"
  show ?thesis
  proof (cases "k' = k")
    case False
    then show ?thesis using in_put by (auto simp: put_row_def dest!: set_bm_insertD)
  next
    case True
    show ?thesis
    proof (cases "bm_sorted m")
      case sorted: True
      define new where "new = (case bm_get k m of None \<Rightarrow> row | Some old \<Rightarrow> keep old row)"
      have "(k, r') \<in> set (bm_insert k new m)" using in_put True by (simp add: put_row_def new_def)
      then have "bm_get k (bm_insert k new m) = Some r'"
        using bm.entries_lookup [OF bm_sorted_insert [OF sorted]] by blast
      then have "r' = new" by (simp add: bm_get_insert)
      then show ?thesis using True by (auto simp: new_def split: option.splits)
    next
      case False
      then show ?thesis using in_put by (auto simp: put_row_def split: option.splits dest!: set_bm_insertD)
    qed
  qed
qed

lemma put_member_ok:
  assumes ok: "store_ok E db" and row: "member_check E row" "rank_free row (st_members db)" "refs_ok db (member_refs row)"
    and key: "member_key row = k"
  shows "store_ok E (db\<lparr>st_members := put_row keep_member k row (st_members db)\<rparr>)" (is "store_ok E ?db")
proof -
  have tab: "table_ok member_key (member_check E) member_refs db (st_members db)" using ok by (simp add: store_ok_def)
  have same: "member_key (keep_member old row) = k" "memrow_rank_name (keep_member old row) = memrow_rank_name row"
    "memrow_group_name (keep_member old row) = memrow_group_name row"
    "memrow_agent_alias (keep_member old row) = memrow_agent_alias row" for old
    using key by (simp_all add: keep_defs member_key_def)
  have "table_ok member_key (member_check E) member_refs ?db (put_row keep_member k row (st_members db))"
    using tab row key by (intro table_ok_put) (auto simp: keep_defs check_defs refs_defs member_key_def)
  moreover have "ranks_unique (put_row keep_member k row (st_members db))"
  proof -
    have "memrow_agent_alias r = memrow_agent_alias r'"
      if m: "(a, r) \<in> set (put_row keep_member k row (st_members db))" "(a', r') \<in> set (put_row keep_member k row (st_members db))"
        and eq: "memrow_group_name r = memrow_group_name r'" "memrow_rank_name r = memrow_rank_name r'" for a r a' r'
    proof -
      have old: "memrow_agent_alias x = memrow_agent_alias y"
        if "(i, x) \<in> set (st_members db)" "(j, y) \<in> set (st_members db)"
          "memrow_group_name x = memrow_group_name y" "memrow_rank_name x = memrow_rank_name y" for i x j y
        using ok that unfolding store_ok_def ranks_unique_iff by blast
      have new: "memrow_agent_alias x = memrow_agent_alias row"
        if "(i, x) \<in> set (st_members db)" "memrow_group_name x = memrow_group_name row"
          "memrow_rank_name x = memrow_rank_name row" for i x
        using row(2) that unfolding rank_free_def by blast
      have origin: "(i, x) \<in> set (st_members db) \<or> memrow_group_name x = memrow_group_name row \<and>
          memrow_rank_name x = memrow_rank_name row \<and> memrow_agent_alias x = memrow_agent_alias row"
        if "(i, x) \<in> set (put_row keep_member k row (st_members db))" for i x
        using put_row_cases [OF that] same(2-4) by auto
      from origin [OF m(1)] origin [OF m(2)] show ?thesis
        using eq old [of a r a' r'] new [of a r] new [of a' r'] by fastforce
    qed
    then show ?thesis unfolding ranks_unique_iff by blast
  qed
  ultimately show ?thesis using store_ok_grow [OF ok, of ?db] by (simp add: store_ok_def)
qed

subsection \<open>Removing a row\<close>

lemma gone_drop_target:
  "gone db (drop_auth_ref k db) To_Auth_Ref k"
  "gone db (drop_agent k db) To_Agent k"
  "gone db (drop_context k db) To_Context k"
  "gone db (drop_task k db) To_Task k"
  "gone db (drop_group k db) To_Group k"
  by (auto simp: gone_def has_row_def drop_auth_ref_def drop_agent_def drop_context_def drop_task_def
      drop_group_def split: target.splits)

lemma ranks_unique_subset: "ranks_unique m \<Longrightarrow> set m' \<subseteq> set m \<Longrightarrow> ranks_unique m'"
  unfolding ranks_unique_iff by blast

lemma ranks_unique_drop: "ranks_unique m \<Longrightarrow> ranks_unique (drop_rows P m)"
  by (erule ranks_unique_subset) (auto simp: drop_rows_def)

lemma sessions_unique_drop:
  "sessions_unique g \<Longrightarrow> sessions_unique (g\<lparr>db_jobs := js, db_sessions := drop_rows P (db_sessions g), db_events := es\<rparr>)"
  by (auto simp: sessions_unique_def drop_rows_def)

lemma sessions_unique_cong: "db_sessions g' = db_sessions g \<Longrightarrow> sessions_unique g' = sessions_unique g"
  by (simp add: sessions_unique_def)

lemma drop_auth_ref_ok:
  assumes "store_ok E db"
  shows "store_ok E (drop_auth_ref k db)" (is "store_ok E ?db")
proof -
  note g = gone_drop_target(1) [of db k] and ok = store_okD [OF assms]
  have "table_ok authrow_name (auth_ref_check E) no_refs ?db (bm_remove k (st_auth_refs db))"
    by (rule gone_same [OF table_ok_remove [OF ok(1)] g]) (simp_all add: refs_defs)
  moreover have "table_ok agrow_alias (agent_check E) agent_refs ?db
      (map_rows (\<lambda>r. r\<lparr>agrow_auth_ref_name := cleared k (agrow_auth_ref_name r)\<rparr>) (st_agents db))"
    by (rule gone_map [OF ok(2) g]) (auto simp: refs_defs check_defs)
  moreover have "table_ok pcrow_push_config_id (push_config_check E) push_config_refs ?db
      (map_rows (\<lambda>r. r\<lparr>pcrow_auth_ref_name := cleared k (pcrow_auth_ref_name r)\<rparr>) (st_push_configs db))"
    by (rule gone_map [OF ok(9) g]) (auto simp: refs_defs check_defs)
  moreover have "journal_ok E ?db (map (\<lambda>r. r) (db_events (st_gateway db)))"
    by (rule gone_events [OF ok(12) g]) (auto simp: refs_defs)
  moreover note rest = ok(3-8,10,11) [THEN gone_same [OF _ g]]
  ultimately show ?thesis
    using rest ok(13,14) by (simp add: store_ok_def drop_auth_ref_def refs_defs)
qed

lemma drop_agent_ok:
  assumes "store_ok E db" and no_task: "\<And>i r. (i, r) \<in> set (st_tasks db) \<Longrightarrow> tskrow_agent_alias r \<noteq> k"
  shows "store_ok E (drop_agent k db)" (is "store_ok E ?db")
proof -
  note g = gone_drop_target(2) [of db k] and ok = store_okD [OF assms(1)]
  have "table_ok agrow_alias (agent_check E) agent_refs ?db (bm_remove k (st_agents db))"
    by (rule gone_same [OF table_ok_remove [OF ok(2)] g]) (simp_all add: refs_defs)
  moreover have "table_ok ctxrow_context_id (context_check E) context_refs ?db
      (map_rows (\<lambda>r. r\<lparr>ctxrow_agent_alias := cleared k (ctxrow_agent_alias r)\<rparr>) (st_contexts db))"
    by (rule gone_map [OF ok(3) g]) (auto simp: refs_defs check_defs)
  moreover have "table_ok msgrow_message_id (message_check E) message_refs ?db
      (map_rows (\<lambda>r. r\<lparr>msgrow_agent_alias := cleared k (msgrow_agent_alias r)\<rparr>) (st_messages db))"
    by (rule gone_map [OF ok(6) g]) (auto simp: refs_defs check_defs)
  moreover have "table_ok member_key (member_check E) member_refs ?db (drop_rows (\<lambda>r. memrow_agent_alias r = k) (st_members db))"
    by (rule gone_drop [OF ok(8) g]) (auto simp: refs_defs)
  moreover have "table_ok pcrow_push_config_id (push_config_check E) push_config_refs ?db
      (drop_rows (\<lambda>r. pcrow_agent_alias r = k) (st_push_configs db))"
    by (rule gone_drop [OF ok(9) g]) (auto simp: refs_defs)
  moreover have "table_ok jrow_gateway_job_id (job_check E) job_refs ?db
      (map_rows (\<lambda>r. r\<lparr>jrow_agent_alias := cleared k (jrow_agent_alias r)\<rparr>) (db_jobs (st_gateway db)))"
    by (rule gone_map [OF ok(10) g]) (auto simp: refs_defs check_defs)
  moreover have "table_ok srow_gateway_session_id (session_check E) session_refs ?db
      (drop_rows (\<lambda>r. srow_agent_alias r = k) (db_sessions (st_gateway db)))"
    by (rule gone_drop [OF ok(11) g]) (auto simp: refs_defs)
  moreover have "journal_ok E ?db
      (map (\<lambda>r. r\<lparr>erow_agent_alias := cleared k (erow_agent_alias r)\<rparr>) (db_events (st_gateway db)))"
    by (rule gone_events [OF ok(12) g]) (auto simp: refs_defs check_defs)
  moreover have "table_ok tskrow_task_id (task_check E) task_refs ?db (st_tasks db)"
    by (rule gone_rows [OF ok(4) g]) (auto simp: refs_defs dest: no_task)
  moreover note rest = ok(1,5,7) [THEN gone_same [OF _ g]]
  ultimately show ?thesis
    using rest ranks_unique_drop [OF ok(13)] sessions_unique_drop [OF ok(14)]
    by (simp add: store_ok_def drop_agent_def refs_defs)
qed

lemma drop_context_ok:
  assumes "store_ok E db"
    and no_session: "\<And>i r. (i, r) \<in> set (db_sessions (st_gateway db)) \<Longrightarrow> srow_context_id r \<noteq> k"
  shows "store_ok E (drop_context k db)" (is "store_ok E ?db")
proof -
  note g = gone_drop_target(3) [of db k] and ok = store_okD [OF assms(1)]
  have "table_ok ctxrow_context_id (context_check E) context_refs ?db
      (map_rows (\<lambda>r. r\<lparr>ctxrow_parent_context_id := cleared k (ctxrow_parent_context_id r)\<rparr>) (bm_remove k (st_contexts db)))"
    by (rule gone_map [OF table_ok_remove [OF ok(3)] g]) (auto simp: refs_defs check_defs)
  moreover have "table_ok tskrow_task_id (task_check E) task_refs ?db
      (map_rows (\<lambda>r. r\<lparr>tskrow_context_id := cleared k (tskrow_context_id r)\<rparr>) (st_tasks db))"
    by (rule gone_map [OF ok(4) g]) (auto simp: refs_defs check_defs)
  moreover have "table_ok msgrow_message_id (message_check E) message_refs ?db
      (map_rows (\<lambda>r. r\<lparr>msgrow_context_id := cleared k (msgrow_context_id r)\<rparr>) (st_messages db))"
    by (rule gone_map [OF ok(6) g]) (auto simp: refs_defs check_defs)
  moreover have "table_ok artrow_artifact_id (artifact_check E) artifact_refs ?db
      (map_rows (\<lambda>r. r\<lparr>artrow_context_id := cleared k (artrow_context_id r)\<rparr>) (st_artifacts db))"
    by (rule gone_map [OF ok(5) g]) (auto simp: refs_defs check_defs)
  moreover have "table_ok jrow_gateway_job_id (job_check E) job_refs ?db
      (map_rows (\<lambda>r. r\<lparr>jrow_context_id := cleared k (jrow_context_id r)\<rparr>) (db_jobs (st_gateway db)))"
    by (rule gone_map [OF ok(10) g]) (auto simp: refs_defs check_defs)
  moreover have "table_ok srow_gateway_session_id (session_check E) session_refs ?db (db_sessions (st_gateway db))"
    by (rule gone_rows [OF ok(11) g]) (auto simp: refs_defs dest: no_session)
  moreover have "journal_ok E ?db
      (map (\<lambda>r. r\<lparr>erow_context_id := cleared k (erow_context_id r)\<rparr>) (db_events (st_gateway db)))"
    by (rule gone_events [OF ok(12) g]) (auto simp: refs_defs check_defs)
  moreover note rest = ok(1,2,7,8,9) [THEN gone_same [OF _ g]]
  ultimately show ?thesis
    using rest ok(13,14) by (simp add: store_ok_def drop_context_def refs_defs sessions_unique_def)
qed

lemma drop_task_ok:
  assumes "store_ok E db"
  shows "store_ok E (drop_task k db)" (is "store_ok E ?db")
proof -
  note g = gone_drop_target(4) [of db k] and ok = store_okD [OF assms(1)]
  have "table_ok tskrow_task_id (task_check E) task_refs ?db (bm_remove k (st_tasks db))"
    by (rule gone_same [OF table_ok_remove [OF ok(4)] g]) (simp_all add: refs_defs)
  moreover have "table_ok msgrow_message_id (message_check E) message_refs ?db
      (map_rows (\<lambda>r. r\<lparr>msgrow_task_id := cleared k (msgrow_task_id r)\<rparr>) (st_messages db))"
    by (rule gone_map [OF ok(6) g]) (auto simp: refs_defs check_defs)
  moreover have "table_ok artrow_artifact_id (artifact_check E) artifact_refs ?db
      (drop_rows (\<lambda>r. artrow_task_id r = k) (st_artifacts db))"
    by (rule gone_drop [OF ok(5) g]) (auto simp: refs_defs)
  moreover have "table_ok pcrow_push_config_id (push_config_check E) push_config_refs ?db
      (drop_rows (\<lambda>r. pcrow_task_id r = Some k) (st_push_configs db))"
    by (rule gone_drop [OF ok(9) g]) (auto simp: refs_defs)
  moreover have "table_ok jrow_gateway_job_id (job_check E) job_refs ?db
      (map_rows (\<lambda>r. r\<lparr>jrow_task_id := cleared k (jrow_task_id r)\<rparr>) (db_jobs (st_gateway db)))"
    by (rule gone_map [OF ok(10) g]) (auto simp: refs_defs check_defs)
  moreover have "journal_ok E ?db
      (map (\<lambda>r. r\<lparr>erow_task_id := cleared k (erow_task_id r)\<rparr>) (db_events (st_gateway db)))"
    by (rule gone_events [OF ok(12) g]) (auto simp: refs_defs check_defs)
  moreover note rest = ok(1,2,3,7,8,11) [THEN gone_same [OF _ g]]
  ultimately show ?thesis
    using rest ok(13,14) by (simp add: store_ok_def drop_task_def refs_defs sessions_unique_def)
qed

lemma drop_group_ok:
  assumes "store_ok E db"
  shows "store_ok E (drop_group k db)" (is "store_ok E ?db")
proof -
  note g = gone_drop_target(5) [of db k] and ok = store_okD [OF assms(1)]
  have "table_ok grprow_group_name (group_check E) no_refs ?db (bm_remove k (st_groups db))"
    by (rule gone_same [OF table_ok_remove [OF ok(7)] g]) (simp_all add: refs_defs)
  moreover have "table_ok member_key (member_check E) member_refs ?db (drop_rows (\<lambda>r. memrow_group_name r = k) (st_members db))"
    by (rule gone_drop [OF ok(8) g]) (auto simp: refs_defs)
  moreover have "table_ok jrow_gateway_job_id (job_check E) job_refs ?db
      (map_rows (\<lambda>r. r\<lparr>jrow_group_name := cleared k (jrow_group_name r)\<rparr>) (db_jobs (st_gateway db)))"
    by (rule gone_map [OF ok(10) g]) (auto simp: refs_defs check_defs)
  moreover have "journal_ok E ?db
      (map (\<lambda>r. r\<lparr>erow_group_name := cleared k (erow_group_name r)\<rparr>) (db_events (st_gateway db)))"
    by (rule gone_events [OF ok(12) g]) (auto simp: refs_defs check_defs)
  moreover note rest = ok(1,2,3,4,5,6,9,11) [THEN gone_same [OF _ g]]
  ultimately show ?thesis
    using rest ranks_unique_drop [OF ok(13)] ok(14)
    by (simp add: store_ok_def drop_group_def refs_defs sessions_unique_def)
qed

subsection \<open>Renaming a group\<close>

lemma set_bm_extend: "distinct (map fst ps) \<Longrightarrow> set (bm_extend [] ps) = set ps"
proof -
  assume d: "distinct (map fst ps)"
  have "(k, v) \<in> set (bm_extend [] ps) \<longleftrightarrow> (k, v) \<in> set ps" for k v
  proof -
    have "(k, v) \<in> set (bm_extend [] ps) \<longleftrightarrow> bm_get k (bm_extend [] ps) = Some v"
      by (rule bm.entries_lookup) (simp add: bm_sorted_extend)
    also have "\<dots> \<longleftrightarrow> map_of (rev ps) k = Some v"
      by (simp add: bm_extend_insert_all bm.lookup_insert_all split: option.split)
    also have "\<dots> \<longleftrightarrow> (k, v) \<in> set (rev ps)" using d by (intro map_of_eq_Some_iff) (simp add: rev_map [symmetric])
    finally show ?thesis by simp
  qed
  then show ?thesis by auto
qed

lemma move_group_members: "st_members (move_group old new row db) = bm_extend [] (map (moved_member old new) (st_members db))"
  by (simp add: move_group_def)

lemma moved_map:
  assumes "table_ok key check refs db m" "gone db db' t x"
    and "\<And>r. key (f r) = key r" "\<And>r. check r \<Longrightarrow> check (f r)"
    and "\<And>r t' k. (t', Some k) \<in> set (refs (f r)) \<Longrightarrow> (t', Some k) \<in> set (refs r) \<and> (t', k) \<noteq> (t, x) \<or> has_row db' t' k"
  shows "table_ok key check refs db' (map_rows f m)"
proof -
  have "refs_ok db' (refs (f r))" if "(k, r) \<in> set m" for k r
  proof -
    have "refs_ok db (refs r)" using table_okD [OF assms(1) that] by simp
    then show ?thesis unfolding refs_ok_iff using assms(2,5) unfolding gone_def by blast
  qed
  then show ?thesis
    using assms(1,3,4) by (auto simp: table_ok_def map_rows_def bm_sorted_def comp_def case_prod_beta)
qed

lemma moved_events:
  assumes "journal_ok E db es" "gone db db' t x"
    and "\<And>r. erow_event_id (f r) = erow_event_id r" "\<And>r. event_check E r \<Longrightarrow> event_check E (f r)"
    and "\<And>r t' k. (t', Some k) \<in> set (event_refs (f r)) \<Longrightarrow>
      (t', Some k) \<in> set (event_refs r) \<and> (t', k) \<noteq> (t, x) \<or> has_row db' t' k"
  shows "journal_ok E db' (map f es)"
proof -
  have "refs_ok db' (event_refs (f r))" if "r \<in> set es" for r
  proof -
    have "refs_ok db (event_refs r)" using assms(1) that by (simp add: journal_ok_def)
    then show ?thesis unfolding refs_ok_iff using assms(2,5) unfolding gone_def by blast
  qed
  then show ?thesis using assms(1,3,4) by (auto simp: journal_ok_def comp_def)
qed

lemma gone_move_group: "gone db (move_group old new row db) To_Group old"
  by (auto simp: gone_def has_row_def move_group_def split: target.splits)

lemma has_moved_group: "has_row (move_group old new row db) To_Group new"
  by (simp add: has_row_def move_group_def)

lemma renamed_simps [simp]:
  "renamed old new c = Some k \<longleftrightarrow> c = Some k \<and> k \<noteq> old \<or> c = Some old \<and> k = new"
  "Some k = renamed old new c \<longleftrightarrow> c = Some k \<and> k \<noteq> old \<or> c = Some old \<and> k = new"
  by (auto simp: renamed_def)

text \<open>No member of the new group is there before the move, unless the name stays.\<close>

lemma moved_members_distinct:
  assumes "table_ok member_key (member_check E) member_refs db (st_members db)"
    and "new = old \<or> \<not> has_row db To_Group new"
  shows "distinct (map fst (map (moved_member old new) (st_members db)))"
proof -
  define ms where "ms = st_members db"
  have key: "k = [memrow_group_name r, memrow_agent_alias r]" if "(k, r) \<in> set ms" for k r
    using table_okD [OF assms(1)] that by (auto simp: ms_def member_key_def)
  have group: "new = old \<or> memrow_group_name r \<noteq> new" if "(k, r) \<in> set ms" for k r
    using table_okD [OF assms(1)] that assms(2) by (auto simp: ms_def refs_ok_iff refs_defs)
  have d: "distinct (map fst ms)" using assms(1) by (simp add: table_ok_def ms_def bm_sorted_distinct)
  have "inj_on (fst \<circ> moved_member old new) (set ms)"
  proof (rule inj_onI, clarsimp)
    fix a r b q assume in_ms: "(a, r) \<in> set ms" "(b, q) \<in> set ms"
      and eq: "fst (moved_member old new (a, r)) = fst (moved_member old new (b, q))"
    from key [OF in_ms(1)] key [OF in_ms(2)] group [OF in_ms(1)] group [OF in_ms(2)] eq have "a = b"
      by (auto simp: moved_member_def split: if_splits)
    moreover have "r = q" using eq_key_imp_eq_value [OF d] in_ms \<open>a = b\<close> by blast
    ultimately show "a = b \<and> r = q" by simp
  qed
  moreover have "distinct ms" using d by (simp add: distinct_map)
  ultimately show ?thesis by (simp add: distinct_map ms_def)
qed

lemma moved_members_unique:
  assumes "ranks_unique ms" "\<And>k r. (k, r) \<in> set ms \<Longrightarrow> new = old \<or> memrow_group_name r \<noteq> new"
    and "set ms' = moved_member old new ` set ms"
  shows "ranks_unique ms'"
proof -
  have "memrow_agent_alias r = memrow_agent_alias q"
    if m: "(a, r) \<in> set ms'" "(b, q) \<in> set ms'"
      and eq: "memrow_group_name r = memrow_group_name q" "memrow_rank_name r = memrow_rank_name q" for a r b q
  proof -
    obtain a' r' where r: "(a', r') \<in> set ms" "(a, r) = moved_member old new (a', r')" using m(1) assms(3) by auto
    obtain b' q' where q: "(b', q') \<in> set ms" "(b, q) = moved_member old new (b', q')" using m(2) assms(3) by auto
    have same: "memrow_agent_alias r = memrow_agent_alias r'" "memrow_rank_name r = memrow_rank_name r'"
      "memrow_agent_alias q = memrow_agent_alias q'" "memrow_rank_name q = memrow_rank_name q'"
      using r(2) q(2) by (auto simp: moved_member_def split: if_splits)
    have "memrow_group_name r' = memrow_group_name q'"
      using eq(1) r(2) q(2) assms(2) [OF r(1)] assms(2) [OF q(1)] by (auto simp: moved_member_def split: if_splits)
    then have "memrow_agent_alias r' = memrow_agent_alias q'"
      using assms(1) r(1) q(1) eq(2) same(2,4) unfolding ranks_unique_iff by metis
    then show ?thesis using same by simp
  qed
  then show ?thesis unfolding ranks_unique_iff by blast
qed

lemma move_group_ok:
  assumes "store_ok E db" and row: "bm_get old (st_groups db) = Some row0" "row = row0\<lparr>grprow_updated_at := stamp\<rparr>"
    and check: "group_check E (row0\<lparr>grprow_group_name := new\<rparr>)"
    and free: "new = old \<or> \<not> bm_contains_key new (st_groups db)"
  shows "store_ok E (move_group old new row db)" (is "store_ok E ?db")
proof -
  note g = gone_move_group [of db old new row] and ok = store_okD [OF assms(1)]
    and there = has_moved_group [of old new row db]
  have new: "new = old \<or> \<not> has_row db To_Group new" using free by (simp add: has_row_def)
  have "table_ok grprow_group_name (group_check E) no_refs ?db
      (bm_insert new (row\<lparr>grprow_group_name := new\<rparr>) (bm_remove old (st_groups db)))"
    using gone_same [OF table_ok_remove [OF ok(7)] g] check row(2)
    by (intro table_ok_insert) (simp_all add: refs_defs refs_ok_iff check_defs)
  moreover have "table_ok member_key (member_check E) member_refs ?db (st_members ?db)"
  proof -
    have set: "set (st_members ?db) = moved_member old new ` set (st_members db)"
      using set_bm_extend [OF moved_members_distinct [OF ok(8) new]] by (simp add: move_group_members)
    have "member_key r = k \<and> member_check E r \<and> refs_ok ?db (member_refs r)" if kr: "(k, r) \<in> set (st_members ?db)" for k r
    proof -
      obtain k' r' where r: "(k', r') \<in> set (st_members db)" "(k, r) = moved_member old new (k', r')" using kr set by auto
      with table_okD [OF ok(8) r(1)] there g show ?thesis
        by (auto simp: moved_member_def member_key_def check_defs refs_defs refs_ok_iff gone_def split: if_splits)
    qed
    moreover have "bm_sorted (st_members ?db)" by (simp add: move_group_members bm_sorted_extend)
    ultimately show ?thesis by (auto simp: table_ok_def)
  qed
  moreover have "ranks_unique (st_members ?db)"
  proof (rule moved_members_unique [OF ok(13)])
    show "set (st_members ?db) = moved_member old new ` set (st_members db)"
      using set_bm_extend [OF moved_members_distinct [OF ok(8) new]] by (simp add: move_group_members)
    show "new = old \<or> memrow_group_name r \<noteq> new" if "(k, r) \<in> set (st_members db)" for k r
      using table_okD [OF ok(8) that] new by (auto simp: refs_ok_iff refs_defs)
  qed
  moreover have "table_ok jrow_gateway_job_id (job_check E) job_refs ?db
      (map_rows (\<lambda>r. r\<lparr>jrow_group_name := renamed old new (jrow_group_name r)\<rparr>) (db_jobs (st_gateway db)))"
    by (rule moved_map [OF ok(10) g]) (auto simp: refs_defs check_defs has_moved_group)
  moreover have "journal_ok E ?db
      (map (\<lambda>r. r\<lparr>erow_group_name := renamed old new (erow_group_name r)\<rparr>) (db_events (st_gateway db)))"
    by (rule moved_events [OF ok(12) g]) (auto simp: refs_defs check_defs has_moved_group)
  moreover note rest = ok(1,2,3,4,5,6,9,11) [THEN gone_same [OF _ g]]
  ultimately show ?thesis
    using rest ok(14) by (simp add: store_ok_def move_group_def refs_defs sessions_unique_def)
qed

subsection \<open>The gateway tables\<close>

lemma gateway_sql_refuses:
  "sql_refuses_job (gateway_sql E db) g j = None \<Longrightarrow> job_check E j \<and> refs_ok (db\<lparr>st_gateway := g\<rparr>) (job_refs j)"
  "sql_refuses_session (gateway_sql E db) g s = None \<Longrightarrow>
     session_check E s \<and> refs_ok (db\<lparr>st_gateway := g\<rparr>) (session_refs s) \<and>
     (\<forall>(k, r) \<in> set (db_sessions g). k = srow_gateway_session_id s \<or> session_key r \<noteq> session_key s)"
  "sql_refuses_event (gateway_sql E db) g e = None \<Longrightarrow>
     event_check E e \<and> refs_ok (db\<lparr>st_gateway := g\<rparr>) (event_refs e) \<and> erow_event_id e \<notin> erow_event_id ` set (db_events g)"
  by (auto simp: gateway_sql_def Let_def session_key_def split: option.splits)

lemma has_row_gateway:
  "(\<And>k. bm_contains_key k (db_jobs (st_gateway db)) \<Longrightarrow> bm_contains_key k (db_jobs g)) \<Longrightarrow>
     has_row db t k \<Longrightarrow> has_row (db\<lparr>st_gateway := g\<rparr>) t k"
  by (auto simp: has_row_def split: target.splits)

lemma put_job_ok:
  assumes "store_ok E db" "job_check E row" "refs_ok db (job_refs row)"
  shows "store_ok E (db\<lparr>st_gateway := put_gateway_job row (st_gateway db)\<rparr>)" (is "store_ok E ?db")
proof -
  have grow: "has_row db t k \<Longrightarrow> has_row ?db t k" for t k
    by (rule has_row_gateway) (simp_all add: put_gateway_job_alt)
  have "table_ok jrow_gateway_job_id (job_check E) job_refs ?db
      (put_row (\<lambda>old r. r\<lparr>jrow_created_at := jrow_created_at old\<rparr>) (jrow_gateway_job_id row) row (db_jobs (st_gateway db)))"
    using store_ok_grow(10) [OF assms(1) grow] assms(2) refs_ok_mono [OF assms(3) grow]
    by (intro table_ok_put) (auto simp: check_defs refs_defs)
  then show ?thesis using store_ok_grow [OF assms(1) grow]
    by (simp add: store_ok_def put_gateway_job_def put_row_def sessions_unique_def)
qed

lemma put_session_ok:
  assumes "store_ok E db" "session_check E row" "refs_ok db (session_refs row)"
    and free: "\<forall>(k, r) \<in> set (db_sessions (st_gateway db)). k = srow_gateway_session_id row \<or> session_key r \<noteq> session_key row"
  shows "store_ok E (db\<lparr>st_gateway := put_gateway_session row (st_gateway db)\<rparr>)" (is "store_ok E ?db")
proof -
  define sessions where "sessions = put_row (\<lambda>old r. r\<lparr>srow_created_at := srow_created_at old\<rparr>)
    (srow_gateway_session_id row) row (db_sessions (st_gateway db))"
  have grow: "has_row db t k \<Longrightarrow> has_row ?db t k" for t k
    by (rule has_row_gateway) (simp_all add: put_gateway_session_alt)
  have table: "table_ok srow_gateway_session_id (session_check E) session_refs ?db sessions"
    using store_ok_grow(11) [OF assms(1) grow] assms(2) refs_ok_mono [OF assms(3) grow]
    unfolding sessions_def by (intro table_ok_put) (auto simp: check_defs refs_defs)
  have "k = k'" if m: "(k, r) \<in> set sessions" "(k', r') \<in> set sessions" "session_key r = session_key r'" for k r k' r'
  proof -
    have origin: "(i, x) \<in> set (db_sessions (st_gateway db)) \<or> i = srow_gateway_session_id row \<and> session_key x = session_key row"
      if "(i, x) \<in> set sessions" for i x
      using put_row_cases [OF that [unfolded sessions_def]] by (auto simp: session_key_def)
    show ?thesis
      using origin [OF m(1)] origin [OF m(2)] m(3) free store_okD(14) [OF assms(1)]
      unfolding sessions_unique_def by fastforce
  qed
  then have "sessions_unique (put_gateway_session row (st_gateway db))"
    by (auto simp: sessions_unique_def put_gateway_session_def sessions_def put_row_def)
  then show ?thesis using table store_ok_grow [OF assms(1) grow]
    by (simp add: store_ok_def put_gateway_session_def put_row_def sessions_def)
qed

lemma add_event_ok:
  assumes "store_ok E db" "event_check E row" "refs_ok db (event_refs row)"
    and "erow_event_id row \<notin> erow_event_id ` set (db_events (st_gateway db))"
  shows "store_ok E (db\<lparr>st_gateway := (st_gateway db)\<lparr>db_events := db_events (st_gateway db) @ [row], db_last_sequence := n\<rparr>\<rparr>)"
    (is "store_ok E ?db")
proof -
  have grow: "has_row db t k \<Longrightarrow> has_row ?db t k" for t k by (rule has_row_gateway) simp_all
  have "journal_ok E ?db (db_events (st_gateway db) @ [row])"
    using store_ok_grow(12) [OF assms(1) grow] assms(2,4) refs_ok_mono [OF assms(3) grow]
    by (auto simp: journal_ok_def)
  then show ?thesis using store_ok_grow [OF assms(1) grow] by (simp add: store_ok_def sessions_unique_def)
qed

lemma preserves_gateway_upserts [keeps]:
  "preserves E (on_gateway E (\<lambda>S. upsert_gateway_job S stamp job))"
  "preserves E (on_gateway E (\<lambda>S. upsert_gateway_session S stamp session))"
  "preserves E (on_gateway E (\<lambda>S. append_event S stamp event))"
proof -
  have "store_ok E (db\<lparr>st_gateway := snd (upsert_gateway_job (gateway_sql E db) stamp job (st_gateway db))\<rparr>)"
    if ok: "store_ok E db" for db
  proof -
    have sorted: "bm_sorted (db_jobs (st_gateway db))" using store_okD(10) [OF ok] by (simp add: table_ok_def)
    show ?thesis unfolding upsert_gateway_job_eq [OF sorted]
      using ok put_job_ok [OF ok] gateway_sql_refuses(1) [of E db "st_gateway db"]
      by (simp del: checks_Cons split: sum.split option.split)
  qed
  then show "preserves E (on_gateway E (\<lambda>S. upsert_gateway_job S stamp job))"
    by (simp add: preserves_def on_gateway_def case_prod_beta)
  have "store_ok E (db\<lparr>st_gateway := snd (upsert_gateway_session (gateway_sql E db) stamp session (st_gateway db))\<rparr>)"
    if ok: "store_ok E db" for db
  proof -
    have sorted: "bm_sorted (db_sessions (st_gateway db))" using store_okD(11) [OF ok] by (simp add: table_ok_def)
    show ?thesis unfolding upsert_gateway_session_eq [OF sorted]
      using ok put_session_ok [OF ok] gateway_sql_refuses(2) [of E db "st_gateway db"]
      by (simp del: checks_Cons split: sum.split option.split)
  qed
  then show "preserves E (on_gateway E (\<lambda>S. upsert_gateway_session S stamp session))"
    by (simp add: preserves_def on_gateway_def case_prod_beta)
  have "store_ok E (db\<lparr>st_gateway := snd (append_event (gateway_sql E db) stamp event (st_gateway db))\<rparr>)"
    if ok: "store_ok E db" for db
    using append_event_db [of "gateway_sql E db" stamp event "st_gateway db"] ok add_event_ok [OF ok]
      gateway_sql_refuses(3) [of E db "st_gateway db"] by auto
  then show "preserves E (on_gateway E (\<lambda>S. append_event S stamp event))"
    by (simp add: preserves_def on_gateway_def case_prod_beta)
qed

lemma cleared_event [simp]: "(if erow_gateway_job_id e = Some k then e\<lparr>erow_gateway_job_id := None\<rparr> else e) =
    e\<lparr>erow_gateway_job_id := cleared k (erow_gateway_job_id e)\<rparr>"
  by (simp add: cleared_def)

lemma drop_job_ok:
  assumes "store_ok E db"
  shows "store_ok E (db\<lparr>st_gateway := (st_gateway db)\<lparr>db_jobs := bm_remove k (db_jobs (st_gateway db)),
    db_events := map (\<lambda>e. e\<lparr>erow_gateway_job_id := cleared k (erow_gateway_job_id e)\<rparr>) (db_events (st_gateway db))\<rparr>\<rparr>)"
    (is "store_ok E ?db")
proof -
  note ok = store_okD [OF assms]
  have g: "gone db ?db To_Job k" by (auto simp: gone_def has_row_def split: target.splits)
  have "table_ok jrow_gateway_job_id (job_check E) job_refs ?db (bm_remove k (db_jobs (st_gateway db)))"
    by (rule gone_same [OF table_ok_remove [OF ok(10)] g]) (simp add: refs_defs)
  moreover have "journal_ok E ?db
      (map (\<lambda>e. e\<lparr>erow_gateway_job_id := cleared k (erow_gateway_job_id e)\<rparr>) (db_events (st_gateway db)))"
    by (rule gone_events [OF ok(12) g]) (auto simp: refs_defs check_defs)
  moreover note rest = ok(1-9,11) [THEN gone_same [OF _ g]]
  ultimately show ?thesis using rest ok(13,14) by (simp add: store_ok_def refs_defs sessions_unique_def)
qed

lemma drop_session_ok:
  assumes "store_ok E db"
  shows "store_ok E (db\<lparr>st_gateway := (st_gateway db)\<lparr>db_sessions := bm_remove k (db_sessions (st_gateway db))\<rparr>\<rparr>)"
    (is "store_ok E ?db")
proof -
  have grow: "has_row db t k \<Longrightarrow> has_row ?db t k" for t k by (rule has_row_gateway) simp_all
  note ok = store_ok_grow [OF assms grow]
  have "sessions_unique ((st_gateway db)\<lparr>db_sessions := bm_remove k (db_sessions (st_gateway db))\<rparr>)"
    using ok(14) by (auto simp: sessions_unique_def bm_remove_def)
  then show ?thesis using ok table_ok_remove [OF ok(11)] by (simp add: store_ok_def)
qed

lemma drop_event_ok:
  assumes "store_ok E db"
  shows "store_ok E (db\<lparr>st_gateway := (st_gateway db)\<lparr>db_events := filter p (db_events (st_gateway db))\<rparr>\<rparr>)"
    (is "store_ok E ?db")
proof -
  have grow: "has_row db t k \<Longrightarrow> has_row ?db t k" for t k by (rule has_row_gateway) simp_all
  note ok = store_ok_grow [OF assms grow]
  have "journal_ok E ?db (filter p (db_events (st_gateway db)))"
    using ok(12) by (auto simp: journal_ok_def distinct_map_filter)
  then show ?thesis using ok by (simp add: store_ok_def sessions_unique_def)
qed

lemma preserves_gateway_deletes [keeps]:
  "preserves E (on_gateway E (\<lambda>S. delete_gateway_job S job))"
  "preserves E (on_gateway E (\<lambda>S. delete_gateway_session S session))"
  "preserves E (on_gateway E (\<lambda>S. delete_event S event))"
  unfolding preserves_def on_gateway_def delete_gateway_job_def delete_gateway_session_def delete_event_def
  by (auto simp: drop_job_ok drop_session_ok drop_event_ok split: option.split)

subsection \<open>The operations on the other tables\<close>

lemma preserves_encoded:
  "(\<And>row. r = Inr row \<Longrightarrow> preserves E (f row)) \<Longrightarrow> preserves E (db_bind (db_outcome r) f)"
  by (cases r) (simp_all add: preserves_def db_bind_def db_outcome_def)

lemma row_keys:
  "auth_ref_row S stamp a = Inr row1 \<Longrightarrow> authrow_name row1 = authref_name a"
  "agent_row S stamp b = Inr row2 \<Longrightarrow> agrow_alias row2 = ag_alias b"
  "group_row S stamp c = Inr row3 \<Longrightarrow> grprow_group_name row3 = grp_group_name c"
  "member_row S stamp d = Inr row4 \<Longrightarrow> member_key row4 = [mem_group_name d, mem_agent_alias d]"
  "push_config_row S stamp e = Inr row5 \<Longrightarrow> pcrow_push_config_id row5 = pc_push_config_id e"
  "context_row S stamp f = Inr row6 \<Longrightarrow> ctxrow_context_id row6 = ctx_context_id f"
  "task_row S stamp g = Inr row7 \<Longrightarrow> tskrow_task_id row7 = tsk_task_id g"
  "artifact_row S stamp h = Inr row8 \<Longrightarrow> artrow_artifact_id row8 = art_artifact_id h"
  "message_row S stamp i = Inr row9 \<Longrightarrow> msgrow_message_id row9 = msg_message_id i"
  by (auto simp: and_then_Inr auth_ref_row_def agent_row_def group_row_def member_row_def member_key_def
      push_config_row_def context_row_def task_row_def artifact_row_def message_row_def)

lemmas put_ok = put_auth_ref_ok put_agent_ok put_group_ok put_member_ok put_push_config_ok put_context_ok
  put_task_ok put_artifact_ok put_message_ok

lemma preserves_upserts [keeps]:
  "preserves E (upsert_auth_ref E stamp a)"
  "preserves E (upsert_agent E stamp b)"
  "preserves E (upsert_group E stamp c)"
  "preserves E (upsert_group_member E stamp d)"
  "preserves E (upsert_push_config E stamp e)"
  "preserves E (upsert_context E stamp f)"
  "preserves E (upsert_task E stamp g)"
  "preserves E (upsert_artifact E stamp h)"
  "preserves E (insert_message E stamp i)"
  unfolding upsert_auth_ref_def upsert_agent_def upsert_group_def upsert_group_member_def upsert_push_config_def
    upsert_context_def upsert_task_def upsert_artifact_def insert_message_def
  by (auto intro!: preserves_encoded preserves_write_and_read preserves_execute put_ok
      simp: and_then_Inr row_keys get_auth_ref_def get_agent_def get_group_def get_group_member_def
        get_push_config_def get_context_def get_task_def get_artifact_def get_message_def
      simp del: checks_Cons)

lemma store_ok_leaf_remove:
  assumes "store_ok E db"
  shows "store_ok E (db\<lparr>st_artifacts := bm_remove k (st_artifacts db)\<rparr>)"
    and "store_ok E (db\<lparr>st_messages := bm_remove k (st_messages db)\<rparr>)"
    and "store_ok E (db\<lparr>st_members := bm_remove k2 (st_members db)\<rparr>)"
  using store_okD [OF assms] table_ok_remove ranks_unique_subset [of "st_members db" "bm_remove k2 (st_members db)"]
  by (auto simp: store_ok_def bm_remove_def)

lemma mark_push_config_ok:
  assumes "store_ok E db" "bm_get k (st_push_configs db) = Some row"
  shows "store_ok E (db\<lparr>st_push_configs :=
    bm_insert k (row\<lparr>pcrow_deleted_at := Some stamp, pcrow_updated_at := stamp\<rparr>) (st_push_configs db)\<rparr>)"
proof -
  note ok = store_okD [OF assms(1)]
  have "pcrow_push_config_id row = k \<and> push_config_check E row \<and> refs_ok db (push_config_refs row)"
    using table_ok_get [OF ok(9) assms(2)] .
  then have "table_ok pcrow_push_config_id (push_config_check E) push_config_refs db
      (bm_insert k (row\<lparr>pcrow_deleted_at := Some stamp, pcrow_updated_at := stamp\<rparr>) (st_push_configs db))"
    by (intro table_ok_insert [OF ok(9)]) (auto simp: check_defs refs_defs)
  then show ?thesis using ok by (simp add: store_ok_def)
qed

lemma preserves_delete:
  assumes "\<And>db. store_ok E db \<Longrightarrow> present db \<Longrightarrow> \<not> restricted db \<Longrightarrow> store_ok E (erase db)"
  shows "preserves E (delete_by_key E action restricted present erase)"
  unfolding delete_by_key_def using assms by (intro preserves_execute) (auto simp: delete_row_def)

lemma preserves_deletes [keeps]:
  "preserves E (delete_auth_ref E a)"
  "preserves E (delete_agent E b)"
  "preserves E (delete_group E c)"
  "preserves E (remove_group_member E c b)"
  "preserves E (delete_push_config E stamp d)"
  "preserves E (delete_context E e)"
  "preserves E (delete_task E f)"
  "preserves E (delete_artifact E g)"
  "preserves E (delete_message E h)"
  "preserves E (rename_group E stamp c c')"
proof -
  show "preserves E (delete_agent E b)" "preserves E (delete_context E e)"
    unfolding delete_agent_def delete_context_def
    by (rule preserves_delete; force intro: drop_agent_ok drop_context_ok)+
  show "preserves E (delete_push_config E stamp d)"
    unfolding delete_push_config_def
    by (rule preserves_execute) (auto split: option.split intro: mark_push_config_ok)
  show "preserves E (rename_group E stamp c c')"
    unfolding rename_group_def
    by (rule preserves_execute) (auto split: option.splits intro: move_group_ok)
qed (unfold delete_auth_ref_def delete_group_def remove_group_member_def delete_task_def delete_artifact_def
    delete_message_def,
  (rule preserves_delete; simp add: drop_auth_ref_ok drop_group_ok drop_task_ok store_ok_leaf_remove)+)

end
