(* ===== verification/Store_Commands.thy ===== *)
theory Store_Commands
  imports Store_Integrity
begin

text \<open>
  Sequences of store operations, alone or in transactions, and what holds of every store they can
  reach.
\<close>

subsection \<open>Histories\<close>

datatype 'dt command =
    Put_Auth_Ref string AuthRefUpsert | Delete_Auth_Ref string
  | Put_Agent string "'dt AgentUpsert" | Delete_Agent AgentAlias
  | Put_Group string GroupUpsert | Rename_Group string GroupName GroupName | Delete_Group GroupName
  | Put_Member string GroupMemberUpsert | Remove_Member GroupName AgentAlias
  | Put_Push_Config string "'dt PushConfigUpsert" | Delete_Push_Config string PushConfigId
  | Put_Context string "'dt ContextUpsert" | Delete_Context ContextId
  | Put_Task string "'dt TaskUpsert" | Delete_Task TaskId
  | Put_Artifact string ArtifactUpsert | Delete_Artifact ArtifactId
  | Insert_Message string MessageInsert | Delete_Message MessageId
  | Put_Job string "'dt GatewayJobUpsert" | Delete_Job GatewayJobId
  | Put_Session string "'dt GatewaySessionUpsert" | Delete_Session GatewaySessionId
  | Append_Event string "'dt EventInsert" | Delete_Event EventId
  | Transaction "'dt command list"

definition ignore_result :: "('a, 's) state_op \<Rightarrow> (unit, 's) state_op" where
  "ignore_result operation = db_bind operation (\<lambda>_. db_return ())"

fun run :: "'dt engine \<Rightarrow> 'dt command \<Rightarrow> unit store_op"
  and run_all :: "'dt engine \<Rightarrow> 'dt command list \<Rightarrow> unit store_op" where
  "run E (Put_Auth_Ref stamp a) = ignore_result (upsert_auth_ref E stamp a)"
| "run E (Delete_Auth_Ref name) = ignore_result (delete_auth_ref E name)"
| "run E (Put_Agent stamp a) = ignore_result (upsert_agent E stamp a)"
| "run E (Delete_Agent alias) = ignore_result (delete_agent E alias)"
| "run E (Put_Group stamp g) = ignore_result (upsert_group E stamp g)"
| "run E (Rename_Group stamp old new) = ignore_result (rename_group E stamp old new)"
| "run E (Delete_Group name) = ignore_result (delete_group E name)"
| "run E (Put_Member stamp m) = ignore_result (upsert_group_member E stamp m)"
| "run E (Remove_Member name alias) = ignore_result (remove_group_member E name alias)"
| "run E (Put_Push_Config stamp p) = ignore_result (upsert_push_config E stamp p)"
| "run E (Delete_Push_Config stamp ident) = ignore_result (delete_push_config E stamp ident)"
| "run E (Put_Context stamp c) = ignore_result (upsert_context E stamp c)"
| "run E (Delete_Context ident) = ignore_result (delete_context E ident)"
| "run E (Put_Task stamp t) = ignore_result (upsert_task E stamp t)"
| "run E (Delete_Task ident) = ignore_result (delete_task E ident)"
| "run E (Put_Artifact stamp a) = ignore_result (upsert_artifact E stamp a)"
| "run E (Delete_Artifact ident) = ignore_result (delete_artifact E ident)"
| "run E (Insert_Message stamp m) = ignore_result (insert_message E stamp m)"
| "run E (Delete_Message ident) = ignore_result (delete_message E ident)"
| "run E (Put_Job stamp j) = ignore_result (on_gateway E (\<lambda>S. upsert_gateway_job S stamp j))"
| "run E (Delete_Job ident) = ignore_result (on_gateway E (\<lambda>S. delete_gateway_job S ident))"
| "run E (Put_Session stamp s) = ignore_result (on_gateway E (\<lambda>S. upsert_gateway_session S stamp s))"
| "run E (Delete_Session ident) = ignore_result (on_gateway E (\<lambda>S. delete_gateway_session S ident))"
| "run E (Append_Event stamp e) = ignore_result (on_gateway E (\<lambda>S. append_event S stamp e))"
| "run E (Delete_Event ident) = ignore_result (on_gateway E (\<lambda>S. delete_event S ident))"
| "run E (Transaction cs) = transaction E (run_all E cs)"
| "run_all E [] = db_return ()"
| "run_all E (c # cs) = db_bind (run E c) (\<lambda>_. run_all E cs)"

text \<open>A caller that goes on whatever the result of a command is.\<close>

definition history :: "'dt engine \<Rightarrow> 'dt command list \<Rightarrow> store_db" where
  "history E cs = fold (\<lambda>c db. snd (run E c db)) cs store_empty"

lemma preserves_ignore: "preserves E operation \<Longrightarrow> preserves E (ignore_result operation)"
  unfolding ignore_result_def by (rule preserves_bind) (simp_all add: preserves_def db_return_def)

lemma preserves_run: "preserves E (run E c)" "preserves E (run_all E cs)"
  by (induction E c and E cs rule: run_run_all.induct)
    (simp_all add: preserves_ignore keeps, simp add: preserves_def db_return_def)

lemma store_empty_ok: "store_ok E store_empty"
  by (simp add: store_ok_def store_empty_def empty_db_def table_ok_def journal_ok_def ranks_unique_def
      sessions_unique_def)

lemma history_ok: "store_ok E (history E cs)"
proof -
  have "store_ok E (fold (\<lambda>c db. snd (run E c db)) cs db)" if "store_ok E db" for db
    using that preserves_run(1) by (induction cs arbitrary: db) (auto simp: preserves_def)
  then show ?thesis by (simp add: history_def store_empty_ok)
qed

subsection \<open>A small engine\<close>

text \<open>An engine whose date-times are their texts and whose JSON texts tell apart the values the
  constructors of the store's inputs use; the witnesses evaluate the model on it.\<close>

definition demo_engine :: "string engine" where
  "demo_engine =
     \<lparr>eng_sql = text_store
        \<lparr>serde_to_string := (\<lambda>v. Inr
           (if v = JNull then ''null'' else if v = JArray [] then ''[]''
            else if v = strings_serialize store_default_binding_preference then ''[..]'' else ''{}'')),
         serde_from_str := (\<lambda>t. Inr
           (if t = ''null'' then JNull else if t = ''[]'' then JArray []
            else if t = ''[..]'' then strings_serialize store_default_binding_preference else JObject []))\<rparr>,
      sql_json_valid = (\<lambda>t. True), sql_violation = (\<lambda>v. StdError [] None),
      sql_io_error = (\<lambda>action db. None)\<rparr>"

definition demo_commands :: "string command list" where
  "demo_commands =
     [Put_Agent ''t0'' (AgentUpsert_new ''a'' ''u''), Put_Group ''t0'' (GroupUpsert_new ''g''),
      Transaction [Put_Member ''t0'' (GroupMemberUpsert_new ''g'' ''a'' ''r'')]]"

definition demo_member :: GroupMemberRow where
  "demo_member =
     \<lparr>memrow_group_name = ''g'', memrow_agent_alias = ''a'', memrow_rank_name = ''r'', memrow_tags_json = ''[]'',
      memrow_weight = f64_one, memrow_routing_metadata_json = ''{}'', memrow_created_at = ''t0''\<rparr>"

lemma demo_members: "st_members (history demo_engine demo_commands) = [([''g'', ''a''], demo_member)]"
  by code_simp

subsection \<open>Transactions\<close>

text \<open>C6. A transaction of several operations takes effect as a whole or not at all: it succeeds only when
  all of them succeed in sequence, with the store they leave, and when it fails the store is what it
  was before.\<close>

theorem transaction_all_or_nothing:
  "(case run E (Transaction commands) db of
      (Inr u, db') \<Rightarrow> run_all E commands db = (Inr u, db') \<and>
        (\<forall>i < length commands. \<exists>db1. run_all E (take i commands) db = (Inr (), db1) \<and>
           fst (run E (commands ! i) db1) = Inr ())
    | (Inl e, db') \<Rightarrow> db' = db)"
proof -
  have prefix: "\<exists>db1. run_all E (take i cs) d = (Inr (), db1) \<and> fst (run E (cs ! i) db1) = Inr ()"
    if "run_all E cs d = (Inr u, d')" "i < length cs" for cs d d' i u
    using that
  proof (induction cs arbitrary: d i)
    case (Cons c cs)
    then obtain d1 where d1: "run E c d = (Inr (), d1)" "run_all E cs d1 = (Inr u, d')"
      by (auto simp: db_bind_Inr)
    show ?case
    proof (cases i)
      case 0
      then show ?thesis using d1(1) by (simp add: db_return_def)
    next
      case (Suc j)
      then show ?thesis using Cons.IH [OF d1(2), of j] Cons.prems(2) d1(1) by (auto simp: db_bind_def)
    qed
  qed simp
  show ?thesis
    by (auto simp: transaction_def split: prod.splits option.splits sum.splits dest: prefix)
qed

theorem transaction_all_or_nothing_witness:
  "fst (run demo_engine (Transaction demo_commands) store_empty) = Inr () \<and>
   (\<exists>db1. run_all demo_engine (take 2 demo_commands) store_empty = (Inr (), db1) \<and>
      fst (run demo_engine (demo_commands ! 2) db1) = Inr ())"
proof -
  have ok: "fst (run demo_engine (Transaction demo_commands) store_empty) = Inr ()" by code_simp
  have "2 < length demo_commands" by (simp add: demo_commands_def)
  with ok transaction_all_or_nothing [where E = demo_engine and commands = demo_commands and db = store_empty] show ?thesis
    by (auto split: prod.splits sum.splits)
qed

subsection \<open>Deleting an agent\<close>

lemma drop_rows_none: "(\<And>k r. (k, r) \<in> set m \<Longrightarrow> \<not> P r) \<Longrightarrow> drop_rows P m = m"
  unfolding drop_rows_def by (auto intro!: filter_True)

lemma map_rows_none: "(\<And>k r. (k, r) \<in> set m \<Longrightarrow> f r = r) \<Longrightarrow> map_rows f m = m"
  by (induction m) (auto simp: map_rows_def)

lemma bm_remove_absent: "bm_get k m = None \<Longrightarrow> bm_remove k m = m"
  by (auto simp: bm_remove_def bm_get_def map_of_eq_None_iff intro!: filter_True)

lemma uncleared: "c \<noteq> Some k \<Longrightarrow> cleared k c = c"
  by (simp add: cleared_def)

text \<open>An agent that is not there is not referred to, so that nothing is there to delete or to clear.\<close>

lemma drop_absent_agent:
  assumes "store_ok E db" "\<not> has_row db To_Agent a"
  shows "drop_agent a db = db\<lparr>st_agents := bm_remove a (st_agents db)\<rparr> \<and>
    (\<forall>(k, r) \<in> set (st_tasks db). tskrow_agent_alias r \<noteq> a)"
proof -
  note ok = store_okD [OF assms(1)]
  have no: "refs_ok db refs \<Longrightarrow> (To_Agent, Some a) \<notin> set refs" for refs
    using assms(2) by (auto simp: refs_ok_iff)
  note unref = no [OF conjunct2 [OF conjunct2 [OF table_okD]]]
  have "drop_rows (\<lambda>r. memrow_agent_alias r = a) (st_members db) = st_members db"
    "drop_rows (\<lambda>r. pcrow_agent_alias r = a) (st_push_configs db) = st_push_configs db"
    "drop_rows (\<lambda>r. srow_agent_alias r = a) (db_sessions (st_gateway db)) = db_sessions (st_gateway db)"
    using unref [OF ok(8)] unref [OF ok(9)] unref [OF ok(11)]
    by (fastforce intro!: drop_rows_none simp: refs_defs)+
  moreover have
    "map_rows (\<lambda>r. r\<lparr>ctxrow_agent_alias := cleared a (ctxrow_agent_alias r)\<rparr>) (st_contexts db) = st_contexts db"
    "map_rows (\<lambda>r. r\<lparr>msgrow_agent_alias := cleared a (msgrow_agent_alias r)\<rparr>) (st_messages db) = st_messages db"
    "map_rows (\<lambda>r. r\<lparr>jrow_agent_alias := cleared a (jrow_agent_alias r)\<rparr>) (db_jobs (st_gateway db)) = db_jobs (st_gateway db)"
    using unref [OF ok(3)] unref [OF ok(6)] unref [OF ok(10)]
    by (fastforce intro!: map_rows_none simp: refs_defs uncleared)+
  moreover have "map (\<lambda>r. r\<lparr>erow_agent_alias := cleared a (erow_agent_alias r)\<rparr>) (db_events (st_gateway db)) =
      db_events (st_gateway db)"
    using ok(12) no by (fastforce intro!: map_idI simp: journal_ok_def refs_defs uncleared)
  moreover have "\<forall>(k, r) \<in> set (st_tasks db). tskrow_agent_alias r \<noteq> a"
    using unref [OF ok(4)] by (fastforce simp: refs_defs)
  ultimately show ?thesis by (simp add: drop_agent_def)
qed

text \<open>C7. Deleting an agent is refused exactly when a task of the agent is left, and then changes nothing.
  Otherwise the agent, its group memberships, its sessions and its push configurations are gone; its
  contexts, messages, jobs and events stay, each as it was but for the reference to the agent, which
  is cleared; every other agent and the tables of authentication references, groups, tasks and
  artifacts stay as they are.\<close>

theorem delete_agent_exact:
  assumes "store_ok E db" "sql_io_error E ''deleting agent'' db = None"
  shows "case delete_agent E a db of
      (Inl e, db') \<Rightarrow> db' = db \<and> (\<exists>(k, r) \<in> set (st_tasks db). tskrow_agent_alias r = a)
    | (Inr found, db') \<Rightarrow>
        found = has_row db To_Agent a \<and> (\<forall>(k, r) \<in> set (st_tasks db). tskrow_agent_alias r \<noteq> a) \<and>
        (\<forall>t k. has_row db' t k \<longleftrightarrow> has_row db t k \<and> (t, k) \<noteq> (To_Agent, a)) \<and>
        (\<forall>k. bm_get k (st_agents db') = (if k = a then None else bm_get k (st_agents db))) \<and>
        st_members db' = drop_rows (\<lambda>r. memrow_agent_alias r = a) (st_members db) \<and>
        st_push_configs db' = drop_rows (\<lambda>r. pcrow_agent_alias r = a) (st_push_configs db) \<and>
        db_sessions (st_gateway db') = drop_rows (\<lambda>r. srow_agent_alias r = a) (db_sessions (st_gateway db)) \<and>
        (\<forall>k. bm_get k (st_contexts db') =
           map_option (\<lambda>r. r\<lparr>ctxrow_agent_alias := cleared a (ctxrow_agent_alias r)\<rparr>) (bm_get k (st_contexts db))) \<and>
        (\<forall>k. bm_get k (st_messages db') =
           map_option (\<lambda>r. r\<lparr>msgrow_agent_alias := cleared a (msgrow_agent_alias r)\<rparr>) (bm_get k (st_messages db))) \<and>
        (\<forall>k. bm_get k (db_jobs (st_gateway db')) =
           map_option (\<lambda>r. r\<lparr>jrow_agent_alias := cleared a (jrow_agent_alias r)\<rparr>)
             (bm_get k (db_jobs (st_gateway db)))) \<and>
        db_events (st_gateway db') =
          map (\<lambda>r. r\<lparr>erow_agent_alias := cleared a (erow_agent_alias r)\<rparr>) (db_events (st_gateway db)) \<and>
        db_last_sequence (st_gateway db') = db_last_sequence (st_gateway db) \<and>
        st_auth_refs db' = st_auth_refs db \<and> st_groups db' = st_groups db \<and>
        st_tasks db' = st_tasks db \<and> st_artifacts db' = st_artifacts db"
proof -
  note delete = delete_agent_def delete_by_key_def execute_def delete_row_def violates_def
  have absent: "drop_agent a db = db" "\<forall>(k, r) \<in> set (st_tasks db). tskrow_agent_alias r \<noteq> a"
    if "\<not> has_row db To_Agent a"
    using drop_absent_agent [OF assms(1) that] that
    by (simp_all add: has_row_def bm_contains_key_def bm_remove_absent)
  have gone: "has_row (drop_agent a db) t k \<longleftrightarrow> has_row db t k \<and> (t, k) \<noteq> (To_Agent, a)" for t k
    by (auto simp: has_row_def drop_agent_def split: target.split)
  show ?thesis
  proof (cases "has_row db To_Agent a \<and> (\<exists>(k, r) \<in> set (st_tasks db). tskrow_agent_alias r = a)")
    case True
    then have "\<exists>e. delete_agent E a db = (Inl e, db)"
      using assms(2) by (force simp: delete has_row_def)
    with True show ?thesis by force
  next
    case False
    then have tasks: "\<forall>(k, r) \<in> set (st_tasks db). tskrow_agent_alias r \<noteq> a"
      using absent(2) by auto
    then have "delete_agent E a db = (Inr (has_row db To_Agent a), drop_agent a db)"
      using assms(2) absent(1) by (auto simp: delete has_row_def)
    moreover note tasks
    ultimately show ?thesis using gone
      by (simp add: drop_agent_def bm_get_map_rows bm_get_remove)
  qed
qed

definition demo_store :: store_db where
  "demo_store = history demo_engine demo_commands"

theorem delete_agent_exact_witness:
  "fst (delete_agent demo_engine ''a'' demo_store) = Inr True \<and>
   st_members (snd (delete_agent demo_engine ''a'' demo_store)) = []"
proof -
  have "store_ok demo_engine demo_store" unfolding demo_store_def by (rule history_ok)
  moreover have "sql_io_error demo_engine ''deleting agent'' demo_store = None" by (simp add: demo_engine_def)
  moreover have "fst (delete_agent demo_engine ''a'' demo_store) = Inr True" by code_simp
  ultimately show ?thesis
    using delete_agent_exact [of demo_engine demo_store "''a''"]
    by (auto simp: demo_store_def demo_members demo_member_def drop_rows_def split: prod.splits sum.splits)
qed

end
