(* ===== verification/Store_Histories.thy ===== *)
theory Store_Histories
  imports Store_Commands
begin

text \<open>
  The gateway tables through every history of the store.  The invariant \<open>db_ok\<close> of the jobs, the
  sessions and the journal (\<open>Store_Properties\<close>) is kept by the gateway's own operations; here it is
  shown for all the others as well, which rewrite these tables when they delete an agent, a context,
  a task or a group or rename a group, and for transactions of them.
\<close>

subsection \<open>Operations that keep the gateway tables\<close>

definition keeps_tables :: "'a store_op \<Rightarrow> bool" where
  "keeps_tables operation \<longleftrightarrow> (\<forall>db. db_ok (st_gateway db) \<longrightarrow> db_ok (st_gateway (snd (operation db))))"

named_theorems tables "operations that keep the invariant of the gateway tables"

lemma tables_outcome [tables]: "keeps_tables (db_outcome r)"
  by (simp add: keeps_tables_def db_outcome_def)

lemma tables_return [tables]: "keeps_tables (db_return x)"
  by (simp add: keeps_tables_def db_return_def)

lemma tables_bind [tables]:
  "keeps_tables m \<Longrightarrow> (\<And>x. keeps_tables (f x)) \<Longrightarrow> keeps_tables (db_bind m f)"
  unfolding keeps_tables_def db_bind_snd by (auto split: prod.splits sum.splits)

lemma tables_read: "(\<And>db. snd (operation db) = db) \<Longrightarrow> keeps_tables operation"
  by (simp add: keeps_tables_def)

lemma tables_execute:
  assumes "\<And>db. db_ok (st_gateway db) \<Longrightarrow> db_ok (st_gateway (snd (effect db)))"
  shows "keeps_tables (execute E action violation effect)"
  using assms by (auto simp: keeps_tables_def execute_def split: option.splits prod.splits) (metis snd_conv)

lemma tables_write_and_read:
  "keeps_tables write \<Longrightarrow> (\<And>db. snd (reading db) = db) \<Longrightarrow> keeps_tables (write_and_read write reading missing)"
  unfolding write_and_read_def by (simp add: tables tables_read [of reading])

lemma tables_transaction [tables]: "keeps_tables operation \<Longrightarrow> keeps_tables (transaction E operation)"
  by (auto simp: keeps_tables_def transaction_def split: option.splits prod.splits sum.splits)

lemma tables_on_gateway:
  "(\<And>S g. db_ok g \<Longrightarrow> db_ok (snd (operation S g))) \<Longrightarrow> keeps_tables (on_gateway E operation)"
  by (simp add: keeps_tables_def on_gateway_def case_prod_beta)

lemma tables_gateway [tables]:
  "keeps_tables (on_gateway E (\<lambda>S. upsert_gateway_job S stamp job))"
  "keeps_tables (on_gateway E (\<lambda>S. upsert_gateway_session S stamp session))"
  "keeps_tables (on_gateway E (\<lambda>S. append_event S stamp event))"
  "keeps_tables (on_gateway E (\<lambda>S. delete_gateway_job S job_ident))"
  "keeps_tables (on_gateway E (\<lambda>S. delete_gateway_session S session_ident))"
  "keeps_tables (on_gateway E (\<lambda>S. delete_event S event_ident))"
  by (rule tables_on_gateway;
      simp add: db_ok_upsert_job db_ok_upsert_session db_ok_append_event db_ok_deletes)+

subsection \<open>Rows rewritten by the deletions and by a rename\<close>

lemma db_ok_rewrite:
  assumes "db_ok g"
    and "\<And>r. jrow_gateway_job_id (f r) = jrow_gateway_job_id r" "\<And>r. job_row_ok r \<Longrightarrow> job_row_ok (f r)"
    and "\<And>e. erow_sequence (h e) = erow_sequence e"
  shows "db_ok (g\<lparr>db_jobs := map_rows f (db_jobs g), db_sessions := drop_rows P (db_sessions g),
    db_events := map h (db_events g)\<rparr>)"
proof -
  have "bm_sorted (map_rows f (db_jobs g))" "bm_sorted (drop_rows P (db_sessions g))"
    using assms(1)
    by (simp_all add: db_ok_def bm_sorted_def map_rows_def drop_rows_def comp_def case_prod_beta sorted_wrt_map
        sorted_wrt_filter)
  moreover have "events_ok (db_last_sequence g) (map h (db_events g))"
    using assms(1,4) by (intro events_ok_map) (simp_all add: db_ok_def)
  ultimately show ?thesis using assms(1-3) by (auto simp: db_ok_def map_rows_def drop_rows_def)
qed

lemma drop_rows_False [simp]: "drop_rows (\<lambda>r. False) m = m"
  by (simp add: drop_rows_def)

lemma db_ok_drop:
  assumes "db_ok (st_gateway db)"
  shows "db_ok (st_gateway (drop_auth_ref k db))" "db_ok (st_gateway (drop_agent k db))"
    "db_ok (st_gateway (drop_context k db))" "db_ok (st_gateway (drop_task k db))"
    "db_ok (st_gateway (drop_group k db))" "db_ok (st_gateway (move_group k k' row db))"
proof -
  note rewrite = db_ok_rewrite [OF assms] db_ok_rewrite [OF assms, where P = "\<lambda>r. False", simplified]
  show "db_ok (st_gateway (drop_auth_ref k db))" using assms by (simp add: drop_auth_ref_def)
  show "db_ok (st_gateway (drop_agent k db))" unfolding drop_agent_def by (auto intro!: rewrite(1) simp: job_row_ok_def)
  show "db_ok (st_gateway (drop_context k db))" unfolding drop_context_def by (auto intro!: rewrite(2) simp: job_row_ok_def)
  show "db_ok (st_gateway (drop_task k db))" unfolding drop_task_def by (auto intro!: rewrite(2) simp: job_row_ok_def)
  show "db_ok (st_gateway (drop_group k db))" unfolding drop_group_def by (auto intro!: rewrite(2) simp: job_row_ok_def)
  show "db_ok (st_gateway (move_group k k' row db))" unfolding move_group_def by (auto intro!: rewrite(2) simp: job_row_ok_def)
qed

lemma tables_encoded:
  "(\<And>row. r = Inr row \<Longrightarrow> keeps_tables (f row)) \<Longrightarrow> keeps_tables (db_bind (db_outcome r) f)"
  by (cases r) (simp_all add: keeps_tables_def db_bind_def db_outcome_def)

lemma tables_upserts [tables]:
  "keeps_tables (upsert_auth_ref E stamp a)" "keeps_tables (upsert_agent E stamp b)"
  "keeps_tables (upsert_group E stamp c)" "keeps_tables (upsert_group_member E stamp d)"
  "keeps_tables (upsert_push_config E stamp e)" "keeps_tables (upsert_context E stamp f)"
  "keeps_tables (upsert_task E stamp g)" "keeps_tables (upsert_artifact E stamp h)"
  "keeps_tables (insert_message E stamp i)"
  unfolding upsert_auth_ref_def upsert_agent_def upsert_group_def upsert_group_member_def upsert_push_config_def
    upsert_context_def upsert_task_def upsert_artifact_def insert_message_def
  by (auto intro!: tables_encoded tables_write_and_read tables_execute
      simp: get_auth_ref_def get_agent_def get_group_def get_group_member_def get_push_config_def get_context_def
        get_task_def get_artifact_def get_message_def
      simp del: checks_Cons)

lemma tables_deletes [tables]:
  "keeps_tables (delete_auth_ref E a)" "keeps_tables (delete_agent E b)" "keeps_tables (delete_group E c)"
  "keeps_tables (remove_group_member E c b)" "keeps_tables (delete_push_config E stamp d)"
  "keeps_tables (delete_context E e)" "keeps_tables (delete_task E f)" "keeps_tables (delete_artifact E g)"
  "keeps_tables (delete_message E h)" "keeps_tables (rename_group E stamp c c')"
  unfolding delete_auth_ref_def delete_agent_def delete_group_def remove_group_member_def delete_push_config_def
    delete_context_def delete_task_def delete_artifact_def delete_message_def rename_group_def delete_by_key_def
  by (auto intro!: tables_execute simp: delete_row_def db_ok_drop split: option.splits)

lemma keeps_tables_run: "keeps_tables (run E c)" "keeps_tables (run_all E cs)"
  by (induction E c and E cs rule: run_run_all.induct) (simp_all add: ignore_result_def tables)

lemma history_tables: "db_ok (st_gateway (history E cs))"
proof -
  have "db_ok (st_gateway (fold (\<lambda>c db. snd (run E c db)) cs db))" if "db_ok (st_gateway db)" for db
    using that keeps_tables_run(1) by (induction cs arbitrary: db) (auto simp: keeps_tables_def)
  then show ?thesis by (simp add: history_def store_empty_def db_ok_empty)
qed

subsection \<open>Integrity\<close>

text \<open>C5. Whatever store operations a client runs, one by one or in transactions, and whichever of them
  fail, the store it reaches is consistent: every table is sorted by its key, every row satisfies its
  table's constraints, ranks are unique in their group and resume names for their source and agent,
  every reference of a row points to a row that is there, and the journal's events have distinct ids
  and strictly increasing sequence numbers, none above the last one given out.\<close>

theorem store_integrity:
  "store_ok E (history E commands) \<and>
   (\<forall>(k, r) \<in> set (st_tasks (history E commands)).
      has_row (history E commands) To_Agent (tskrow_agent_alias r)) \<and>
   (\<forall>(k, r) \<in> set (st_members (history E commands)).
      has_row (history E commands) To_Agent (memrow_agent_alias r) \<and>
      has_row (history E commands) To_Group (memrow_group_name r)) \<and>
   sorted_wrt (<) (map erow_sequence (db_events (st_gateway (history E commands)))) \<and>
   (\<forall>e \<in> set (db_events (st_gateway (history E commands))).
      erow_sequence e \<le> db_last_sequence (st_gateway (history E commands)))"
  using history_ok [of E commands] store_okD(4,8) [OF history_ok, of E commands] history_tables [of E commands]
  by (auto simp: table_ok_def refs_ok_iff refs_defs db_ok_def events_ok_def)

theorem store_integrity_witness:
  "has_row (history demo_engine demo_commands) To_Group ''g'' \<and>
   has_row (history demo_engine demo_commands) To_Agent ''a''"
  using store_integrity [of demo_engine demo_commands] by (simp add: demo_members demo_member_def)

subsection \<open>What the gateway tables read as\<close>

lemma listed_jobs_sorted:
  assumes "db_ok g" "fst (list_gateway_jobs S g) = Inr js"
  shows "sorted_wrt (<) (map job_id js) \<and>
    (\<forall>j \<in> set js. job_retry_count j \<le> job_max_attempts j \<and> job_max_attempts j \<noteq> 0)"
proof -
  have l: "list_gateway_jobs S g = (Inr js, g)" using assms(2) by (simp add: list_gateway_jobs_def)
  show ?thesis
    using list_gateway_jobs_ids [OF assms(1) l] list_gateway_jobs_valid [OF assms(1) l] assms(1)
    by (auto simp: db_ok_def bm_sorted_def job_valid_def)
qed

lemma read_event_sequence: "read_event_row S row = Inr e \<Longrightarrow> erec_sequence e = erow_sequence row"
  by (auto simp: read_event_row_def and_then_Inr)

lemma listed_events_sorted:
  assumes "db_ok g" "fst (list_events S g) = Inr es"
  shows "sorted_wrt (<) (map erec_sequence es)"
proof -
  have "list_all2 (\<lambda>r e. read_event_row S r = Inr e) (db_events g) es"
    using assms(2) by (simp add: list_events_def collect_rows_Inr)
  then have "map erow_sequence (db_events g) = map erec_sequence es"
    by (rule list_all2_map_eq) (simp add: read_event_sequence)
  then show ?thesis using assms(1) by (simp add: db_ok_def events_ok_def)
qed

lemma read_session_policy:
  assumes "db_ok g" "fst (get_gateway_session S k g) = Inr (Some s)"
  shows "reset_policy_ok (session_reset_mode s) (session_daily_reset_hour s) (session_idle_timeout_seconds s)"
proof -
  obtain row where row: "bm_get k (db_sessions g) = Some row" "read_gateway_session_row S row = Inr s"
    using assms(2) by (auto simp: get_gateway_session_def query_row_Inr split: option.splits)
  have "session_row_ok row"
    using assms(1) row(1) by (auto simp: db_ok_def bm_get_def dest: map_of_SomeD)
  with read_session_row_valid [OF row(2)] show ?thesis by blast
qed

text \<open>C14. After any sequence of store operations and transactions, whatever SQLite refuses, listing the
  jobs gives them in strictly increasing order of their ids, each with at most as many retries as
  attempts and at least one attempt; reading the journal gives its events in strictly increasing
  order of their sequence numbers; and every session the store reads has a reset policy it would
  accept again.\<close>

theorem gateway_tables_invariant:
  "(\<forall>js. fst (on_gateway E list_gateway_jobs (history E commands)) = Inr js \<longrightarrow>
      sorted_wrt (<) (map job_id js) \<and>
      (\<forall>j \<in> set js. job_retry_count j \<le> job_max_attempts j \<and> job_max_attempts j \<noteq> 0)) \<and>
   (\<forall>es. fst (on_gateway E list_events (history E commands)) = Inr es \<longrightarrow>
      sorted_wrt (<) (map erec_sequence es)) \<and>
   (\<forall>k s. fst (on_gateway E (\<lambda>S. get_gateway_session S k) (history E commands)) = Inr (Some s) \<longrightarrow>
      validate_gateway_session_reset_policy (session_reset_mode s) (session_daily_reset_hour s)
        (session_idle_timeout_seconds s) = Inr ())"
proof -
  note ok = history_tables [of E commands]
  show ?thesis
    using listed_jobs_sorted [OF ok, of "gateway_sql E (history E commands)"]
      listed_events_sorted [OF ok, of "gateway_sql E (history E commands)"]
      read_session_policy [OF ok, of "gateway_sql E (history E commands)"]
    by (simp add: on_gateway_def case_prod_beta validate_reset_policy_Inr)
qed

text \<open>A job of an agent that is deleted, in a transaction with another job.\<close>

definition demo_job_commands :: "string command list" where
  "demo_job_commands =
     [Put_Agent ''t0'' (AgentUpsert_new ''a'' ''u''),
      Put_Job ''t0'' (demo_job\<lparr>job_id := ''job-2'', job_agent_alias := Some ''a''\<rparr>),
      Transaction [Delete_Agent ''a'', Put_Job ''t1'' demo_job]]"

lemma demo_jobs_listed:
  "map_sum id (map job_id) (fst (on_gateway demo_engine list_gateway_jobs (history demo_engine demo_job_commands))) =
     Inr [''job-1'', ''job-2'']"
  by code_simp

theorem gateway_tables_invariant_witness:
  "\<exists>js. fst (on_gateway demo_engine list_gateway_jobs (history demo_engine demo_job_commands)) = Inr js \<and>
     length js = 2 \<and> sorted_wrt (<) (map job_id js) \<and>
     (\<forall>j \<in> set js. job_retry_count j \<le> job_max_attempts j \<and> job_max_attempts j \<noteq> 0)"
proof -
  obtain js where js: "fst (on_gateway demo_engine list_gateway_jobs (history demo_engine demo_job_commands)) = Inr js"
    "map job_id js = [''job-1'', ''job-2'']"
    using demo_jobs_listed
    by (cases "fst (on_gateway demo_engine list_gateway_jobs (history demo_engine demo_job_commands))") auto
  have "length js = 2" using arg_cong [OF js(2), of length] by simp
  with js(1) gateway_tables_invariant [of demo_engine demo_job_commands] show ?thesis by blast
qed

end
