(* ===== verification/Store_Migrations.thy ===== *)
theory Store_Migrations
  imports Store_Properties
begin

text \<open>
  \<open>crates/missive-store/src/migrations.rs\<close>: the ledger of applied schema migrations, the checksum it
  records, and the run that brings a database up to date.

  The state is that of one SQLite connection: the table \<open>schema_migrations\<close> (absent before the first
  run), the pragmas the module sets, and the rest of the schema, of any type.  What SQLite does with
  the text of a migration, the texts of the two embedded files, the time it records and the failures
  it may have at each action are parameters (record \<open>migrator\<close>).  A migration's text does not touch
  the ledger.
\<close>

unbundle bit_operations_syntax

subsection \<open>Checksums\<close>

definition fnv_step :: "u64 \<Rightarrow> char \<Rightarrow> u64" where
  "fnv_step hash c = (hash XOR word_of_nat (byte c)) * 0x100000001b3"

definition hex_digit :: "nat \<Rightarrow> char" where
  "hex_digit n = (if n < 10 then char_of (48 + n) else char_of (87 + n))"

text \<open>\<open>{:016x}\<close>: the sixteen digits of a 64-bit value.\<close>

definition hex16 :: "u64 \<Rightarrow> string" where
  "hex16 w = map (\<lambda>i. hex_digit (unat (drop_bit (4 * i) w AND 15))) (rev [0..<16])"

definition checksum_sql :: "string \<Rightarrow> string" where
  "checksum_sql sql = ''fnv1a64:'' @ hex16 (foldl fnv_step 0xcbf29ce484222325 sql)"

subsection \<open>Migrations and the ledger\<close>

definition CURRENT_SCHEMA_VERSION :: u32 where
  "CURRENT_SCHEMA_VERSION = 2"

definition SQLITE_APPLICATION_ID :: int where
  "SQLITE_APPLICATION_ID = 0x6d697373"

record Migration =
  migration_version :: u32
  migration_name :: string
  migration_sql :: string

definition migration_checksum :: "Migration \<Rightarrow> string" where
  "migration_checksum m = checksum_sql (migration_sql m)"

record AppliedMigration =
  applied_version :: u32
  applied_name :: string
  applied_checksum :: string
  applied_at :: string

record MigrationReport =
  current_version :: u32
  report_applied :: "AppliedMigration list"

record LedgerRow =
  ledger_name :: string
  ledger_checksum :: string
  ledger_applied_at :: string

record 'schema connection =
  con_ledger :: "(int, LedgerRow) btree_map option"
  con_user_version :: int
  con_application_id :: int
  con_foreign_keys :: bool
  con_schema :: 'schema

record 'schema migrator =
  initial_schema_sql :: string
  gateway_sessions_sql :: string
  mig_execute_batch :: "string \<Rightarrow> 'schema \<Rightarrow> std_error + 'schema"
  mig_now :: "'schema connection \<Rightarrow> string"
  mig_conflict :: std_error
  mig_io_error :: "string \<Rightarrow> 'schema connection \<Rightarrow> std_error option"

definition MIGRATIONS :: "'schema migrator \<Rightarrow> Migration list" where
  "MIGRATIONS P =
     [\<lparr>migration_version = 1, migration_name = ''initial_schema'', migration_sql = initial_schema_sql P\<rparr>,
      \<lparr>migration_version = 2, migration_name = ''gateway_sessions'', migration_sql = gateway_sessions_sql P\<rparr>]"

definition embedded_migrations :: "'schema migrator \<Rightarrow> Migration list" where
  "embedded_migrations P = MIGRATIONS P"

text \<open>One call into SQLite: it fails with the named action, or takes its effect.\<close>

definition sql_call ::
  "'schema migrator \<Rightarrow> string \<Rightarrow> ('schema connection \<Rightarrow> (std_error + 'a) \<times> 'schema connection) \<Rightarrow>
   ('a, 'schema connection) state_op" where
  "sql_call P action effect con =
     (case mig_io_error P action con of
        Some error \<Rightarrow> (Inl (storage_error action error), con)
      | None \<Rightarrow>
          (case effect con of
             (Inl error, _) \<Rightarrow> (Inl (storage_error action error), con)
           | (Inr x, con') \<Rightarrow> (Inr x, con')))"

definition configure_connection :: "'schema migrator \<Rightarrow> (unit, 'schema connection) state_op" where
  "configure_connection P =
     db_bind (sql_call P ''configuring SQLite busy timeout'' (\<lambda>con. (Inr (), con))) (\<lambda>_.
     db_bind (sql_call P ''enabling SQLite foreign keys'' (\<lambda>con. (Inr (), con\<lparr>con_foreign_keys := True\<rparr>))) (\<lambda>_.
       sql_call P ''setting SQLite application_id''
         (\<lambda>con. (Inr (), con\<lparr>con_application_id := SQLITE_APPLICATION_ID\<rparr>))))"

definition bootstrap_migration_ledger :: "'schema migrator \<Rightarrow> (unit, 'schema connection) state_op" where
  "bootstrap_migration_ledger P =
     sql_call P ''bootstrapping schema_migrations'' (\<lambda>con.
       (Inr (), case con_ledger con of None \<Rightarrow> con\<lparr>con_ledger := Some []\<rparr> | Some _ \<Rightarrow> con))"

definition schema_migration_table_exists :: "'schema migrator \<Rightarrow> (bool, 'schema connection) state_op" where
  "schema_migration_table_exists P =
     sql_call P ''checking for schema_migrations'' (\<lambda>con. (Inr (con_ledger con \<noteq> None), con))"

definition read_applied_migration_row :: "int \<times> LedgerRow \<Rightarrow> std_error + AppliedMigration" where
  "read_applied_migration_row e =
     and_then (u32_from_sql (fst e)) (\<lambda>version.
       Inr \<lparr>applied_version = version, applied_name = ledger_name (snd e),
         applied_checksum = ledger_checksum (snd e), applied_at = ledger_applied_at (snd e)\<rparr>)"

definition ledger_rows :: "'schema connection \<Rightarrow> (int, LedgerRow) btree_map" where
  "ledger_rows con = (case con_ledger con of None \<Rightarrow> [] | Some rows \<Rightarrow> rows)"

fun read_ledger :: "(int \<times> LedgerRow) list \<Rightarrow> std_error + AppliedMigration list" where
  "read_ledger [] = Inr []"
| "read_ledger (e # es) =
     and_then (read_applied_migration_row e) (\<lambda>a. and_then (read_ledger es) (\<lambda>as. Inr (a # as)))"

definition read_applied_migrations :: "'schema migrator \<Rightarrow> (AppliedMigration list, 'schema connection) state_op" where
  "read_applied_migrations P =
     db_bind (sql_call P ''preparing schema_migrations query'' (\<lambda>con. (Inr (), con))) (\<lambda>_.
     db_bind (sql_call P ''querying schema_migrations'' (\<lambda>con. (Inr (), con))) (\<lambda>_.
       sql_call P ''reading schema_migrations rows'' (\<lambda>con. (read_ledger (ledger_rows con), con))))"

definition applied_migrations :: "'schema migrator \<Rightarrow> (AppliedMigration list, 'schema connection) state_op" where
  "applied_migrations P =
     db_bind (schema_migration_table_exists P) (\<lambda>exists.
       if \<not> exists then db_return [] else read_applied_migrations P)"

text \<open>The body of the loop of \<open>verify_existing_migrations\<close>.\<close>

definition verify_applied :: "Migration list \<Rightarrow> AppliedMigration \<Rightarrow> unit outcome" where
  "verify_applied ms applied =
     (case find (\<lambda>m. migration_version m = applied_version applied) ms of
        None \<Rightarrow>
          Inl (with_help (error_storage
            [Lit (''database contains unknown future migration version '' @ show_nat (unat (applied_version applied)) @
               '' ('' @ applied_name applied @ '')'')])
            ''Open this database with a newer missive binary, or use a profile database created by this version.'')
      | Some m \<Rightarrow>
          fail_if (applied_name applied \<noteq> migration_name m \<or> applied_checksum applied \<noteq> migration_checksum m)
            (with_help (error_storage
              [Lit (''migration '' @ show_nat (unat (applied_version applied)) @ '' checksum mismatch for '' @
                 applied_name applied)])
              ''Do not edit applied migration files; create a new migration for schema changes.''))"

definition verify_existing_migrations :: "'schema migrator \<Rightarrow> (unit, 'schema connection) state_op" where
  "verify_existing_migrations P =
     db_bind (applied_migrations P) (\<lambda>applied.
       db_outcome (try_for_each (verify_applied (MIGRATIONS P)) applied))"

definition applied_migration_map ::
  "'schema migrator \<Rightarrow> ((u32, AppliedMigration) btree_map, 'schema connection) state_op" where
  "applied_migration_map P =
     db_bind (applied_migrations P) (\<lambda>applied.
       db_return (bm_extend [] (map (\<lambda>a. (applied_version a, a)) applied)))"

text \<open>\<open>{:04}\<close>\<close>

definition pad4 :: "string \<Rightarrow> string" where
  "pad4 s = replicate (4 - length s) (CHR ''0'') @ s"

definition record_migration :: "'schema migrator \<Rightarrow> Migration \<Rightarrow> (unit, 'schema connection) state_op" where
  "record_migration P m =
     sql_call P ''recording SQLite migration'' (\<lambda>con.
       if bm_contains_key (uint (migration_version m)) (ledger_rows con) then (Inl (mig_conflict P), con)
       else
         (Inr (), con\<lparr>con_ledger := Some (bm_insert (uint (migration_version m))
            \<lparr>ledger_name = migration_name m, ledger_checksum = migration_checksum m,
             ledger_applied_at = mig_now P con\<rparr> (ledger_rows con))\<rparr>))"

text \<open>The transaction of \<open>apply_migration\<close>: dropped before its commit, it is rolled back.\<close>

definition migration_transaction :: "'schema migrator \<Rightarrow> Migration \<Rightarrow> (unit, 'schema connection) state_op" where
  "migration_transaction P m con =
     (case db_bind (sql_call P ''starting SQLite migration transaction'' (\<lambda>con. (Inr (), con))) (\<lambda>_.
           db_bind (sql_call P
             (''applying SQLite migration '' @ pad4 (show_nat (unat (migration_version m))) @ ''_'' @ migration_name m)
             (\<lambda>con. case mig_execute_batch P (migration_sql m) (con_schema con) of
                Inl error \<Rightarrow> (Inl error, con)
              | Inr schema \<Rightarrow> (Inr (), con\<lparr>con_schema := schema\<rparr>))) (\<lambda>_.
           db_bind (record_migration P m) (\<lambda>_.
             sql_call P ''committing SQLite migration transaction'' (\<lambda>con. (Inr (), con))))) con of
        (Inl e, _) \<Rightarrow> (Inl e, con)
      | (Inr u, con') \<Rightarrow> (Inr u, con'))"

definition query_returned_no_rows :: std_error where
  "query_returned_no_rows = StdError [Lit ''Query returned no rows''] None"

definition apply_migration :: "'schema migrator \<Rightarrow> Migration \<Rightarrow> (AppliedMigration, 'schema connection) state_op" where
  "apply_migration P m =
     db_bind (migration_transaction P m) (\<lambda>_.
       sql_call P ''reading applied SQLite migration'' (\<lambda>con.
         (case bm_get (uint (migration_version m)) (ledger_rows con) of
            None \<Rightarrow> Inl query_returned_no_rows
          | Some row \<Rightarrow> read_applied_migration_row (uint (migration_version m), row), con)))"

definition set_user_version :: "'schema migrator \<Rightarrow> u32 \<Rightarrow> (unit, 'schema connection) state_op" where
  "set_user_version P version =
     sql_call P ''setting SQLite user_version'' (\<lambda>con. (Inr (), con\<lparr>con_user_version := uint version\<rparr>))"

definition schema_version :: "'schema migrator \<Rightarrow> (u32 option, 'schema connection) state_op" where
  "schema_version P =
     db_bind (sql_call P ''reading SQLite user_version'' (\<lambda>con. (Inr (con_user_version con), con))) (\<lambda>version.
       db_outcome
         (if version \<le> 0 then Inr None
          else
            (case u32_from_sql version of
               Inr v \<Rightarrow> Inr (Some v)
             | Inl error \<Rightarrow>
                 Inl (with_source (error_storage
                   [Lit (''SQLite user_version '' @ show_int version @
                      '' cannot be represented as a missive schema version'')]) error))))"

text \<open>The loop over \<open>MIGRATIONS\<close>.\<close>

fun apply_pending ::
  "'schema migrator \<Rightarrow> (u32, AppliedMigration) btree_map \<Rightarrow> Migration list \<Rightarrow>
   (AppliedMigration list, 'schema connection) state_op" where
  "apply_pending P existing [] = db_return []"
| "apply_pending P existing (m # ms) =
     (if bm_contains_key (migration_version m) existing then apply_pending P existing ms
      else db_bind (apply_migration P m) (\<lambda>a.
        db_bind (apply_pending P existing ms) (\<lambda>as. db_return (a # as))))"

definition migrate_connection :: "'schema migrator \<Rightarrow> (MigrationReport, 'schema connection) state_op" where
  "migrate_connection P =
     db_bind (configure_connection P) (\<lambda>_.
     db_bind (bootstrap_migration_ledger P) (\<lambda>_.
     db_bind (verify_existing_migrations P) (\<lambda>_.
     db_bind (applied_migration_map P) (\<lambda>existing.
     db_bind (apply_pending P existing (MIGRATIONS P)) (\<lambda>applied.
     db_bind (set_user_version P CURRENT_SCHEMA_VERSION) (\<lambda>_.
     db_bind (schema_version P) (\<lambda>version.
       db_return \<lparr>current_version = (case version of None \<Rightarrow> 0 | Some v \<Rightarrow> v),
         report_applied = applied\<rparr>)))))))"

subsection \<open>The checksum tells edits apart\<close>

lemma fnv_prime_inverse: "(0x100000001b3 :: u64) * 0xce965057aff6957b = 1"
  by code_simp

lemma fnv_step_inj: "fnv_step h c = fnv_step h' c' \<longleftrightarrow> h XOR word_of_nat (byte c) = h' XOR word_of_nat (byte c')"
proof
  assume "fnv_step h c = fnv_step h' c'"
  then have "(h XOR word_of_nat (byte c)) * (0x100000001b3 * 0xce965057aff6957b) =
      (h' XOR word_of_nat (byte c')) * (0x100000001b3 * 0xce965057aff6957b)"
    by (simp only: fnv_step_def mult.assoc [symmetric])
  then show "h XOR word_of_nat (byte c) = h' XOR word_of_nat (byte c')" by (simp only: fnv_prime_inverse) simp
qed (simp add: fnv_step_def)

lemma byte_word_inj: "(word_of_nat (byte c) :: u64) = word_of_nat (byte d) \<longleftrightarrow> c = d"
proof -
  have "byte c mod 2 ^ 64 = byte c" "byte d mod 2 ^ 64 = byte d"
    using nat_of_char_less_256 [of c] nat_of_char_less_256 [of d] by (simp_all del: nat_of_char_less_256)
  then have "(word_of_nat (byte c) :: u64) = word_of_nat (byte d) \<longleftrightarrow> byte c = byte d"
    by (simp add: word_of_nat_eq_iff take_bit_eq_mod)
  then show ?thesis by simp
qed

lemma xor_cancel: "(a XOR c :: u64) = b XOR c \<longleftrightarrow> a = b" "c XOR a = c XOR b \<longleftrightarrow> a = b"
  by (auto simp: bit_eq_iff bit_simps)

lemma fold_fnv_inj: "foldl fnv_step h s = foldl fnv_step h' s \<longleftrightarrow> h = h'"
  by (induction s arbitrary: h h') (simp_all add: fnv_step_inj xor_cancel)

lemma hex_digit_inj: "n < 16 \<Longrightarrow> m < 16 \<Longrightarrow> hex_digit n = hex_digit m \<longleftrightarrow> n = m"
  by (auto simp: hex_digit_def char_of_eq_iff of_char_of take_bit_eq_mod split: if_splits)

lemma hex16_inj: "hex16 v = hex16 w \<longleftrightarrow> v = w"
proof
  assume eq: "hex16 v = hex16 w"
  have nib: "drop_bit (4 * i) v AND 15 = drop_bit (4 * i) w AND 15" if "i < 16" for i
  proof -
    have lt: "unat (x AND 15) < 16" for x :: u64
      using word_and_le1 [of x 15] by (simp add: word_le_nat_alt)
    have "hex_digit (unat (drop_bit (4 * i) v AND 15)) = hex_digit (unat (drop_bit (4 * i) w AND 15))"
      using eq that by (simp add: hex16_def)
    then show ?thesis using lt by (simp add: hex_digit_inj word_unat_eq_iff)
  qed
  show "v = w"
  proof (rule bit_word_eqI)
    fix n
    assume "n < LENGTH(64)"
    then have n: "n div 4 < 16" "4 * (n div 4) + n mod 4 = n" "n mod 4 < 4" by simp_all
    have "bit (drop_bit (4 * (n div 4)) x AND 15) (n mod 4) = bit x n" for x :: u64
    proof -
      have "(15 :: u64) = mask 4" by (simp add: mask_eq_exp_minus_1)
      then show ?thesis unfolding \<open>15 = mask 4\<close> using n by (simp only: bit_simps) auto
    qed
    then show "bit v n \<longleftrightarrow> bit w n" using nib [OF n(1)] by metis
  qed
qed simp

text \<open>C38. The checksum the ledger records tells a migration apart from every text that differs from it in
  exactly one byte.\<close>

theorem checksum_detects_edit:
  "checksum_sql (before @ c # after) = checksum_sql (before @ d # after) \<longleftrightarrow> c = d"
  by (simp add: checksum_sql_def hex16_inj fold_fnv_inj fnv_step_inj byte_word_inj xor_cancel)

subsection \<open>Runs as sequences of recorded migrations\<close>

definition ledger_entry :: "Migration \<Rightarrow> string \<Rightarrow> LedgerRow" where
  "ledger_entry m time = \<lparr>ledger_name = migration_name m, ledger_checksum = migration_checksum m, ledger_applied_at = time\<rparr>"

text \<open>One migration: its text takes effect and its row appears, together.\<close>

definition migrated :: "'schema migrator \<Rightarrow> Migration \<Rightarrow> 'schema connection \<Rightarrow> 'schema connection \<Rightarrow> bool" where
  "migrated P m con con' \<longleftrightarrow>
     \<not> bm_contains_key (uint (migration_version m)) (ledger_rows con) \<and>
     (\<exists>schema time. mig_execute_batch P (migration_sql m) (con_schema con) = Inr schema \<and>
       con' = con\<lparr>con_schema := schema,
         con_ledger := Some (bm_insert (uint (migration_version m)) (ledger_entry m time) (ledger_rows con))\<rparr>)"

inductive migrates :: "'schema migrator \<Rightarrow> Migration list \<Rightarrow> 'schema connection \<Rightarrow> 'schema connection \<Rightarrow> bool" for P where
  migrates_nil: "migrates P [] con con"
| migrates_step: "migrated P m con con1 \<Longrightarrow> migrates P ms con1 con2 \<Longrightarrow> migrates P (m # ms) con con2"

fun run_batches :: "'schema migrator \<Rightarrow> Migration list \<Rightarrow> 'schema \<Rightarrow> std_error + 'schema" where
  "run_batches P [] schema = Inr schema"
| "run_batches P (m # ms) schema = and_then (mig_execute_batch P (migration_sql m) schema) (run_batches P ms)"

definition pending_migrations :: "'schema migrator \<Rightarrow> 'schema connection \<Rightarrow> Migration list" where
  "pending_migrations P con =
     filter (\<lambda>m. \<not> bm_contains_key (uint (migration_version m)) (ledger_rows con)) (MIGRATIONS P)"

definition ledger_verified :: "'schema migrator \<Rightarrow> 'schema connection \<Rightarrow> bool" where
  "ledger_verified P con \<longleftrightarrow>
     (\<forall>(v, row) \<in> set (ledger_rows con).
        \<exists>m \<in> set (MIGRATIONS P). v = uint (migration_version m) \<and> ledger_name row = migration_name m \<and>
          ledger_checksum row = migration_checksum m)"

lemma sql_call_Inr:
  "sql_call P action effect con = (Inr x, con') \<longleftrightarrow>
     mig_io_error P action con = None \<and> effect con = (Inr x, con')"
  by (auto simp: sql_call_def split: option.splits prod.splits sum.splits)

lemma sql_call_Inl: "sql_call P action effect con = (Inl e, con') \<Longrightarrow> con' = con"
  by (auto simp: sql_call_def split: option.splits prod.splits sum.splits)

lemma sql_call_read:
  "sql_call P action (\<lambda>con. (f con, con)) con = (r, con') \<Longrightarrow> con' = con \<and> (\<forall>x. r = Inr x \<longrightarrow> f con = Inr x)"
  by (auto simp: sql_call_def split: option.splits sum.splits)

lemma migration_transaction_cases:
  assumes "migration_transaction P m con = (r, con')"
  shows "case r of Inl e \<Rightarrow> con' = con | Inr u \<Rightarrow> migrated P m con con'"
  using assms
  by (auto simp: migration_transaction_def record_migration_def migrated_def ledger_entry_def ledger_rows_def
      db_bind_Inr sql_call_Inr split: prod.splits sum.splits if_splits)

lemma apply_migration_cases:
  assumes "apply_migration P m con = (r, con')"
  shows "(migrated P m con con' \<and> (\<forall>a. r = Inr a \<longrightarrow> applied_version a = migration_version m)) \<or>
    (con' = con \<and> (\<exists>e. r = Inl e))"
proof -
  obtain r1 con1 where one: "migration_transaction P m con = (r1, con1)" by fastforce
  note c = migration_transaction_cases [OF one]
  show ?thesis
  proof (cases r1)
    case (Inl e)
    then show ?thesis using assms one c by (auto simp: apply_migration_def db_bind_def)
  next
    case (Inr u)
    then have "sql_call P ''reading applied SQLite migration'' (\<lambda>con.
         (case bm_get (uint (migration_version m)) (ledger_rows con) of
            None \<Rightarrow> Inl query_returned_no_rows
          | Some row \<Rightarrow> read_applied_migration_row (uint (migration_version m), row), con)) con1 = (r, con')"
      using assms one by (simp add: apply_migration_def db_bind_def)
    then have "con' = con1 \<and> (\<forall>a. r = Inr a \<longrightarrow> applied_version a = migration_version m)"
      by (cases r) (auto simp: sql_call_Inr read_applied_migration_row_def and_then_Inr
          dest: sql_call_Inl split: option.splits)
    then show ?thesis using Inr c by simp
  qed
qed

lemma migrates_prefix:
  "\<exists>n. migrates P (take n ms) con con"
  "migrated P m con con' \<Longrightarrow> \<exists>n. migrates P (take n (m # ms)) con con'"
  using migrates_nil [of P con] migrates_step [OF _ migrates_nil, of P m con con']
  by (auto intro: exI [of _ "0 :: nat"] exI [of _ "1 :: nat"])

lemma apply_pending_cases:
  assumes "apply_pending P existing ms con = (r, con')"
  shows "\<exists>n. migrates P (take n (filter (\<lambda>m. \<not> bm_contains_key (migration_version m) existing) ms)) con con' \<and>
    (\<forall>as. r = Inr as \<longrightarrow>
       length (filter (\<lambda>m. \<not> bm_contains_key (migration_version m) existing) ms) \<le> n \<and>
       map applied_version as =
         map migration_version (filter (\<lambda>m. \<not> bm_contains_key (migration_version m) existing) ms))"
  using assms
proof (induction ms arbitrary: con r)
  case Nil
  then show ?case by (auto simp: db_return_def intro: migrates_nil)
next
  case (Cons m ms)
  show ?case
  proof (cases "bm_contains_key (migration_version m) existing")
    case True
    then show ?thesis using Cons.IH Cons.prems by simp
  next
    case False
    let ?rest = "filter (\<lambda>m. \<not> bm_contains_key (migration_version m) existing) ms"
    obtain r1 con1 where one: "apply_migration P m con = (r1, con1)" by fastforce
    show ?thesis
    proof (cases r1)
      case (Inl e)
      then have "con' = con1 \<and> r = Inl e"
        using Cons.prems False one by (auto simp: db_bind_cases)
      then show ?thesis
        using apply_migration_cases [OF one] False
        by (auto simp: migrates_prefix)
    next
      case (Inr a)
      with apply_migration_cases [OF one] have a: "migrated P m con con1" "applied_version a = migration_version m"
        by auto
      obtain r2 where rest: "apply_pending P existing ms con1 = (r2, con')"
        "r = (case r2 of Inl e \<Rightarrow> Inl e | Inr as \<Rightarrow> Inr (a # as))"
        using Cons.prems False one Inr
        by (cases "apply_pending P existing ms con1") (auto simp: db_bind_def db_return_def split: sum.splits)
      obtain n where n: "migrates P (take n ?rest) con1 con'"
        "\<forall>as. r2 = Inr as \<longrightarrow> length ?rest \<le> n \<and> map applied_version as = map migration_version ?rest"
        using Cons.IH [OF rest(1)] by blast
      have "migrates P (take (Suc n) (m # ?rest)) con con'"
        using migrates_step [OF a(1) n(1)] by simp
      moreover have "length (m # ?rest) \<le> Suc n \<and> map applied_version as = map migration_version (m # ?rest)"
        if "r = Inr as" for as
        using that rest(2) n(2) a(2) by (auto split: sum.splits)
      ultimately have "migrates P (take (Suc n) (m # ?rest)) con con' \<and>
        (\<forall>as. r = Inr as \<longrightarrow> length (m # ?rest) \<le> Suc n \<and> map applied_version as = map migration_version (m # ?rest))"
        by blast
      then show ?thesis using False by (intro exI [of _ "Suc n"]) simp
    qed
  qed
qed

lemma migrates_effect:
  assumes "migrates P ms con con'"
  shows "run_batches P ms (con_schema con) = Inr (con_schema con')"
    "\<And>v. v \<notin> (\<lambda>m. uint (migration_version m)) ` set ms \<Longrightarrow> bm_get v (ledger_rows con') = bm_get v (ledger_rows con)"
    "\<And>v row. bm_get v (ledger_rows con) = Some row \<Longrightarrow> bm_get v (ledger_rows con') = Some row"
    "\<And>m. m \<in> set ms \<Longrightarrow> \<exists>time. bm_get (uint (migration_version m)) (ledger_rows con') = Some (ledger_entry m time)"
    "con_foreign_keys con' = con_foreign_keys con" "con_application_id con' = con_application_id con"
    "con_ledger con \<noteq> None \<Longrightarrow> con_ledger con' \<noteq> None"
    "\<And>v row. (v, row) \<in> set (ledger_rows con') \<Longrightarrow> (v, row) \<in> set (ledger_rows con) \<or>
       (\<exists>m \<in> set ms. \<exists>time. v = uint (migration_version m) \<and> row = ledger_entry m time)"
  using assms
proof (induction rule: migrates.induct)
  case (migrates_nil con)
  {
    case 1 then show ?case by simp
  next
    case 2 then show ?case by simp
  next
    case 3 then show ?case by simp
  next
    case 4 then show ?case by simp
  next
    case 5 then show ?case by simp
  next
    case 6 then show ?case by simp
  next
    case 7 then show ?case by simp
  next
    case 8 then show ?case by simp
  }
next
  case (migrates_step m con con1 ms con2)
  have rows: "\<exists>time. ledger_rows con1 = bm_insert (uint (migration_version m)) (ledger_entry m time) (ledger_rows con)"
    and new: "bm_get (uint (migration_version m)) (ledger_rows con) = None"
    using migrates_step.hyps(1) by (auto simp: migrated_def ledger_rows_def bm_contains_key_def)
  {
    case 1
    then show ?case using migrates_step.hyps(1) migrates_step.IH(1) by (auto simp: migrated_def and_then_def)
  next
    case (2 v)
    then show ?case using migrates_step.IH(2) [of v] rows by (auto simp: bm_get_insert)
  next
    case (3 v row)
    then have "v \<noteq> uint (migration_version m)" using new by auto
    then show ?case using migrates_step.IH(3) [of v row] 3 rows by (auto simp: bm_get_insert)
  next
    case (4 m')
    then show ?case using migrates_step.IH(3) migrates_step.IH(4) [of m'] rows by (auto simp: bm_get_insert)
  next
    case 5
    then show ?case using migrates_step.hyps(1) migrates_step.IH(5) by (auto simp: migrated_def)
  next
    case 6
    then show ?case using migrates_step.hyps(1) migrates_step.IH(6) by (auto simp: migrated_def)
  next
    case 7
    then show ?case using migrates_step.hyps(1) migrates_step.IH(7) by (auto simp: migrated_def)
  next
    case (8 v row)
    then show ?case using migrates_step.IH(8) [of v row] rows by (auto dest!: set_bm_insertD)
  }
qed

lemma migrates_verified:
  assumes "migrates P ms con con'" "ledger_verified P con" "set ms \<subseteq> set (MIGRATIONS P)"
  shows "ledger_verified P con'"
  using migrates_effect(8) [OF assms(1)] assms(2,3)
  by (fastforce simp: ledger_verified_def ledger_entry_def)

subsection \<open>Reading the ledger\<close>

lemma read_ledger_Inr:
  "read_ledger rows = Inr as \<longleftrightarrow> list_all2 (\<lambda>e a. read_applied_migration_row e = Inr a) rows as"
proof (induction rows arbitrary: as)
  case (Cons e rows)
  then show ?case by (cases as) (auto simp: and_then_Inr)
qed auto

lemma u32_from_sql_Inr: "u32_from_sql v = Inr w \<longleftrightarrow> v = uint w"
  by (auto simp: u32_from_sql_def uint_word_of_int_eq take_bit_eq_mod split: if_splits)
    (use uint_lt2p [of w] in \<open>simp_all add: take_bit_eq_mod\<close>)

lemma read_ledger_versions:
  assumes "read_ledger rows = Inr as"
  shows "fst ` set rows = (\<lambda>a. uint (applied_version a)) ` set as"
proof -
  have "map fst rows = map (\<lambda>a. uint (applied_version a)) as"
    using assms unfolding read_ledger_Inr
    by (rule list_all2_map_eq) (auto simp: read_applied_migration_row_def and_then_Inr u32_from_sql_Inr)
  then show ?thesis by (metis set_map)
qed

lemma applied_migrations_cases:
  assumes "applied_migrations P con = (r, con')"
  shows "con' = con \<and> (\<forall>as. r = Inr as \<longrightarrow> read_ledger (ledger_rows con) = Inr as)"
  using assms
  by (auto simp: applied_migrations_def schema_migration_table_exists_def read_applied_migrations_def
      db_bind_cases sql_call_Inr db_return_def ledger_rows_def split: if_splits option.splits
      dest!: sql_call_Inl sql_call_read)

lemma verify_applied_Inr:
  "verify_applied ms a = Inr () \<longleftrightarrow>
     (\<exists>m. find (\<lambda>m. migration_version m = applied_version a) ms = Some m \<and>
        applied_name a = migration_name m \<and> applied_checksum a = migration_checksum m)"
  by (auto simp: verify_applied_def fail_if_def split: option.splits)

lemma verify_existing_cases:
  assumes "verify_existing_migrations P con = (r, con')"
  shows "con' = con \<and> (r = Inr () \<longrightarrow> ledger_verified P con)"
proof -
  obtain r1 con1 where one: "applied_migrations P con = (r1, con1)" by fastforce
  note c = applied_migrations_cases [OF one]
  have "ledger_verified P con" if ok: "r = Inr ()"
  proof -
    obtain as where as: "r1 = Inr as" "\<forall>a \<in> set as. verify_applied (MIGRATIONS P) a = Inr ()"
      using assms ok one
      by (cases r1) (auto simp: verify_existing_migrations_def db_bind_def db_outcome_def try_for_each_Inr)
    then have l: "list_all2 (\<lambda>e a. read_applied_migration_row e = Inr a) (ledger_rows con) as"
      using c by (simp add: read_ledger_Inr)
    show ?thesis unfolding ledger_verified_def
    proof safe
      fix v row
      assume "(v, row) \<in> set (ledger_rows con)"
      then obtain a where "a \<in> set as" "read_applied_migration_row (v, row) = Inr a"
        using l by (auto simp: list_all2_conv_all_nth in_set_conv_nth) (metis nth_mem)
      then obtain m where "find (\<lambda>m. migration_version m = applied_version a) (MIGRATIONS P) = Some m"
        "applied_name a = migration_name m" "applied_checksum a = migration_checksum m"
        using as(2) by (auto simp: verify_applied_Inr)
      moreover from this(1) have "m \<in> set (MIGRATIONS P)" "migration_version m = applied_version a"
        by (auto simp: find_Some_iff)
      ultimately show "\<exists>m \<in> set (MIGRATIONS P). v = uint (migration_version m) \<and>
          ledger_name row = migration_name m \<and> ledger_checksum row = migration_checksum m"
        using \<open>read_applied_migration_row (v, row) = Inr a\<close>
        by (intro bexI [of _ m]) (auto simp: read_applied_migration_row_def and_then_Inr u32_from_sql_Inr)
    qed
  qed
  moreover have "con' = con"
    using assms one c by (auto simp: verify_existing_migrations_def db_bind_cases db_outcome_def)
  ultimately show ?thesis by simp
qed

lemma configure_connection_cases:
  assumes "configure_connection P con = (r, con')"
  shows "con_schema con' = con_schema con \<and> con_ledger con' = con_ledger con \<and>
    (r = Inr () \<longrightarrow> con_foreign_keys con' \<and> con_application_id con' = SQLITE_APPLICATION_ID)"
  using assms
  by (cases r) (auto simp: configure_connection_def db_bind_cases sql_call_Inr dest!: sql_call_Inl)

lemma bootstrap_cases:
  assumes "bootstrap_migration_ledger P con = (r, con')"
  shows "con_schema con' = con_schema con \<and> ledger_rows con' = ledger_rows con \<and>
    con_foreign_keys con' = con_foreign_keys con \<and> con_application_id con' = con_application_id con \<and>
    (r = Inr () \<longrightarrow> con_ledger con' \<noteq> None)"
  using assms
  by (cases r) (auto simp: bootstrap_migration_ledger_def sql_call_Inr ledger_rows_def dest!: sql_call_Inl
      split: option.splits)

lemma bm_contains_key_extend: "bm_contains_key k (bm_extend m ps) \<longleftrightarrow> bm_contains_key k m \<or> k \<in> fst ` set ps"
proof (induction ps arbitrary: m)
  case (Cons e ps)
  have "bm_extend m (e # ps) = bm_extend (bm_insert (fst e) (snd e) m) ps" by (simp add: bm_extend_def split_beta)
  then show ?case using Cons.IH [of "bm_insert (fst e) (snd e) m"] by (auto simp: bm_contains_key_def bm_get_insert)
qed (simp add: bm_extend_def)

lemma applied_migration_map_cases:
  assumes "applied_migration_map P con = (r, con')"
  shows "con' = con \<and>
    (\<forall>ex v. r = Inr ex \<longrightarrow> bm_contains_key v ex = bm_contains_key (uint v) (ledger_rows con))"
proof -
  obtain r1 con1 where one: "applied_migrations P con = (r1, con1)" by fastforce
  note c = applied_migrations_cases [OF one]
  have "bm_contains_key v ex = bm_contains_key (uint v) (ledger_rows con)" if ok: "r = Inr ex" for ex v
  proof -
    obtain as where as: "r1 = Inr as" "ex = bm_extend [] (map (\<lambda>a. (applied_version a, a)) as)"
      using assms ok one by (cases r1) (auto simp: applied_migration_map_def db_bind_def db_return_def)
    have "fst ` set (ledger_rows con) = (\<lambda>a. uint (applied_version a)) ` set as"
      using c as(1) by (simp add: read_ledger_versions)
    then have "uint v \<in> fst ` set (ledger_rows con) \<longleftrightarrow> v \<in> applied_version ` set as"
      by (auto simp: word_uint_eq_iff image_iff)
    then show ?thesis
      by (simp add: as(2) bm_contains_key_extend image_image bm_contains_key_def [of _ "ledger_rows con"] bm_get_None)
        (simp add: bm_contains_key_def)
  qed
  moreover have "con' = con"
    using assms one c by (cases r1) (auto simp: applied_migration_map_def db_bind_def db_return_def)
  ultimately show ?thesis by blast
qed

lemma finish_cases:
  assumes "db_bind (set_user_version P CURRENT_SCHEMA_VERSION) (\<lambda>_. db_bind (schema_version P) (\<lambda>version.
       db_return \<lparr>current_version = (case version of None \<Rightarrow> 0 | Some v \<Rightarrow> v), report_applied = as\<rparr>)) con = (r, con')"
  shows "con_schema con' = con_schema con \<and> con_ledger con' = con_ledger con \<and>
    con_foreign_keys con' = con_foreign_keys con \<and> con_application_id con' = con_application_id con \<and>
    (\<forall>report. r = Inr report \<longrightarrow>
       report = \<lparr>current_version = CURRENT_SCHEMA_VERSION, report_applied = as\<rparr> \<and>
       con_user_version con' = uint CURRENT_SCHEMA_VERSION)"
  using assms
  by (auto simp: set_user_version_def schema_version_def db_bind_cases sql_call_Inr db_outcome_def db_return_def
      CURRENT_SCHEMA_VERSION_def u32_from_sql_def dest!: sql_call_Inl split: if_splits)

lemma migrate_connection_cases:
  assumes "migrate_connection P con = (r, con')"
  shows "\<exists>n con0 con1. con_schema con0 = con_schema con \<and> ledger_rows con0 = ledger_rows con \<and>
    migrates P (take n (pending_migrations P con)) con0 con1 \<and>
    con_schema con' = con_schema con1 \<and> ledger_rows con' = ledger_rows con1 \<and>
    (\<not> ledger_verified P con \<longrightarrow> n = 0 \<and> (\<exists>e. r = Inl e)) \<and>
    (\<forall>report. r = Inr report \<longrightarrow>
       length (pending_migrations P con) \<le> n \<and> current_version report = CURRENT_SCHEMA_VERSION \<and>
       map applied_version (report_applied report) = map migration_version (pending_migrations P con) \<and>
       con_ledger con' \<noteq> None \<and> con_foreign_keys con' \<and> con_application_id con' = SQLITE_APPLICATION_ID \<and>
       con_user_version con' = uint CURRENT_SCHEMA_VERSION)"
proof -
  let ?early = "\<lambda>c. con_schema c = con_schema con \<and> ledger_rows c = ledger_rows con"
  have early: ?thesis if "?early con'" "r = Inl e" for e
    using that migrates_nil [of P con'] by (intro exI [of _ "0 :: nat"] exI [of _ con']) auto
  obtain r1 c1 where one: "configure_connection P con = (r1, c1)" by fastforce
  obtain r2 c2 where two: "bootstrap_migration_ledger P c1 = (r2, c2)" by fastforce
  obtain r3 c3 where three: "verify_existing_migrations P c2 = (r3, c3)" by fastforce
  obtain r4 c4 where four: "applied_migration_map P c3 = (r4, c4)" by fastforce
  note c1 = configure_connection_cases [OF one] and c2 = bootstrap_cases [OF two]
    and c3 = verify_existing_cases [OF three] and c4 = applied_migration_map_cases [OF four]
  have l1: "ledger_rows c1 = ledger_rows con" using c1 by (simp add: ledger_rows_def)
  note run = assms [unfolded migrate_connection_def]
  show ?thesis
  proof (cases "\<exists>e. r1 = Inl e \<or> (r1 = Inr () \<and> r2 = Inl e) \<or> (r1 = Inr () \<and> r2 = Inr () \<and> r3 = Inl e) \<or>
      (r1 = Inr () \<and> r2 = Inr () \<and> r3 = Inr () \<and> r4 = Inl e)")
    case True
    then have "?early con' \<and> (\<exists>e. r = Inl e)"
      using run one two three four c1 c2 c3 c4 l1 by (auto simp: db_bind_def)
    then show ?thesis using early by blast
  next
    case False
    then obtain ex where oks: "r1 = Inr ()" "r2 = Inr ()" "r3 = Inr ()" "r4 = Inr ex"
      by (metis old.unit.exhaust sum.exhaust)
    have e2: "?early c2" "ledger_verified P c2" using c1 c2 c3 oks l1 by simp_all
    have pend: "filter (\<lambda>m. \<not> bm_contains_key (migration_version m) ex) (MIGRATIONS P) = pending_migrations P con"
      using c3 c4 oks e2 by (simp add: pending_migrations_def)
    obtain r5 c5 where five: "apply_pending P ex (MIGRATIONS P) c2 = (r5, c5)" by fastforce
    obtain n where n: "migrates P (take n (pending_migrations P con)) c2 c5"
      "\<forall>as. r5 = Inr as \<longrightarrow> length (pending_migrations P con) \<le> n \<and> map applied_version as = map migration_version (pending_migrations P con)"
      using apply_pending_cases [OF five] unfolding pend by blast
    have ver: "ledger_verified P con" using e2 by (simp add: ledger_verified_def)
    show ?thesis
    proof (cases r5)
      case (Inl e)
      then have "con' = c5 \<and> r = Inl e"
        using run one two three four five oks c3 c4 by (simp add: db_bind_def)
      then show ?thesis using n e2 ver by blast
    next
      case (Inr as)
      then have "db_bind (set_user_version P CURRENT_SCHEMA_VERSION) (\<lambda>_. db_bind (schema_version P) (\<lambda>version.
          db_return \<lparr>current_version = (case version of None \<Rightarrow> 0 | Some v \<Rightarrow> v), report_applied = as\<rparr>)) c5 = (r, con')"
        using run one two three four five oks c3 c4 by (simp add: db_bind_def)
      note f = finish_cases [OF this]
      have "ledger_rows con' = ledger_rows c5" using f by (simp add: ledger_rows_def)
      then show ?thesis
        using f n Inr e2 ver c1 c2 oks migrates_effect(5,6,7) [OF n(1)]
        by (intro exI [of _ n] exI [of _ c2] exI [of _ c5]) auto
    qed
  qed
qed

lemma pending_after:
  assumes "migrates P (pending_migrations P con) con0 con1" "ledger_rows con0 = ledger_rows con" "ledger_rows con' = ledger_rows con1"
  shows "pending_migrations P con' = []"
proof -
  have "bm_contains_key (uint (migration_version m)) (ledger_rows con1)" if "m \<in> set (MIGRATIONS P)" for m
  proof (cases "bm_contains_key (uint (migration_version m)) (ledger_rows con)")
    case True
    then show ?thesis using migrates_effect(3) [OF assms(1)] assms(2) by (auto simp: bm_contains_key_def)
  next
    case False
    then show ?thesis using migrates_effect(4) [OF assms(1), of m] that by (auto simp: pending_migrations_def bm_contains_key_def)
  qed
  then show ?thesis using assms(3) by (simp add: pending_migrations_def filter_empty_conv)
qed

text \<open>C15. However a migration run ends, the schema and the ledger agree: the texts of the first pending
  migrations, in order, have taken effect, exactly these have been recorded with their names and
  checksums, and every other row of the ledger is as before.  A run that succeeds has applied all
  pending migrations and reports them and the current version; a ledger with an unknown version or
  a changed name or checksum makes the run fail before any migration is applied.\<close>

theorem migration_run_in_step:
  "case migrate_connection P con of (r, con') \<Rightarrow>
     \<exists>n. run_batches P (take n (pending_migrations P con)) (con_schema con) = Inr (con_schema con') \<and>
       (\<forall>m \<in> set (take n (pending_migrations P con)). \<exists>time.
          bm_get (uint (migration_version m)) (ledger_rows con') = Some (ledger_entry m time)) \<and>
       (\<forall>v. v \<notin> (\<lambda>m. uint (migration_version m)) ` set (take n (pending_migrations P con)) \<longrightarrow>
          bm_get v (ledger_rows con') = bm_get v (ledger_rows con)) \<and>
       (\<not> ledger_verified P con \<longrightarrow> n = 0 \<and> \<not> is_ok r) \<and>
       (\<forall>report. r = Inr report \<longrightarrow>
          length (pending_migrations P con) \<le> n \<and> pending_migrations P con' = [] \<and> current_version report = CURRENT_SCHEMA_VERSION \<and>
          map applied_version (report_applied report) = map migration_version (pending_migrations P con))"
proof -
  obtain r con' where run: "migrate_connection P con = (r, con')" by fastforce
  from migrate_connection_cases [OF run] obtain n con0 con1 where c:
    "con_schema con0 = con_schema con" "ledger_rows con0 = ledger_rows con"
    "migrates P (take n (pending_migrations P con)) con0 con1"
    "con_schema con' = con_schema con1" "ledger_rows con' = ledger_rows con1"
    "\<not> ledger_verified P con \<longrightarrow> n = 0 \<and> (\<exists>e. r = Inl e)"
    "\<forall>report. r = Inr report \<longrightarrow>
       length (pending_migrations P con) \<le> n \<and> current_version report = CURRENT_SCHEMA_VERSION \<and>
       map applied_version (report_applied report) = map migration_version (pending_migrations P con)"
    by blast
  have "pending_migrations P con' = []" if "length (pending_migrations P con) \<le> n"
    using pending_after [of P con con0 con1 con'] c(2,3,5) that by simp
  with c migrates_effect(1,2,4) [OF c(3)] show ?thesis
    unfolding run prod.case by (intro exI [of _ n]) auto
qed

definition demo_migrator :: "string list migrator" where
  "demo_migrator =
     \<lparr>initial_schema_sql = ''A'', gateway_sessions_sql = ''B'', mig_execute_batch = (\<lambda>sql schema. Inr (schema @ [sql])),
      mig_now = (\<lambda>con. ''t''), mig_conflict = StdError [] None, mig_io_error = (\<lambda>action con. None)\<rparr>"

definition fresh_connection :: "string list connection" where
  "fresh_connection =
     \<lparr>con_ledger = None, con_user_version = 0, con_application_id = 0, con_foreign_keys = False, con_schema = []\<rparr>"

lemma demo_migration:
  "fst (migrate_connection demo_migrator fresh_connection) =
     Inr \<lparr>current_version = 2, report_applied =
       map (\<lambda>m. \<lparr>applied_version = migration_version m, applied_name = migration_name m,
         applied_checksum = migration_checksum m, applied_at = ''t''\<rparr>) (MIGRATIONS demo_migrator)\<rparr>"
  by code_simp

theorem migration_run_in_step_witness:
  "con_schema (snd (migrate_connection demo_migrator fresh_connection)) = [''A'', ''B''] \<and>
   pending_migrations demo_migrator (snd (migrate_connection demo_migrator fresh_connection)) = []"
proof -
  obtain con' where run: "migrate_connection demo_migrator fresh_connection = (Inr \<lparr>current_version = 2, report_applied =
       map (\<lambda>m. \<lparr>applied_version = migration_version m, applied_name = migration_name m,
         applied_checksum = migration_checksum m, applied_at = ''t''\<rparr>) (MIGRATIONS demo_migrator)\<rparr>, con')"
    using demo_migration by (cases "migrate_connection demo_migrator fresh_connection") simp
  have "pending_migrations demo_migrator fresh_connection = MIGRATIONS demo_migrator"
    by (simp add: pending_migrations_def ledger_rows_def fresh_connection_def bm_contains_key_def)
  moreover have "run_batches demo_migrator (MIGRATIONS demo_migrator) (con_schema fresh_connection) = Inr [''A'', ''B'']"
    by (simp add: MIGRATIONS_def demo_migrator_def fresh_connection_def and_then_def)
  ultimately show ?thesis
    using migration_run_in_step [of demo_migrator fresh_connection] by (auto simp: run)
qed

lemma read_ledger_verified: "ledger_verified P con \<Longrightarrow> \<exists>as. read_ledger (ledger_rows con) = Inr as"
proof -
  have "\<exists>as. read_ledger rows = Inr as" if "\<forall>(v, row) \<in> set rows. \<exists>w :: u32. v = uint w" for rows
    using that
  proof (induction rows)
    case (Cons e rows)
    then obtain w as where "fst e = uint (w :: u32)" "read_ledger rows = Inr as" by (auto simp: split_beta)
    then show ?case by (simp add: read_applied_migration_row_def and_then_def)
  qed simp
  then show "ledger_verified P con \<Longrightarrow> ?thesis" by (fastforce simp: ledger_verified_def)
qed

lemma verify_applied_verified:
  assumes "ledger_verified P con" "read_ledger (ledger_rows con) = Inr as" "a \<in> set as"
  shows "verify_applied (MIGRATIONS P) a = Inr ()"
proof -
  obtain v row where e: "(v, row) \<in> set (ledger_rows con)" "read_applied_migration_row (v, row) = Inr a"
    using assms(2,3) by (auto simp: read_ledger_Inr list_all2_conv_all_nth in_set_conv_nth) (metis nth_mem surj_pair)
  then obtain m where "m \<in> set (MIGRATIONS P)" "v = uint (migration_version m)"
    "ledger_name row = migration_name m" "ledger_checksum row = migration_checksum m"
    using assms(1) by (fastforce simp: ledger_verified_def)
  with e(2) show ?thesis
    by (auto simp: MIGRATIONS_def verify_applied_Inr read_applied_migration_row_def and_then_Inr u32_from_sql_Inr)
qed

text \<open>A second run on an up-to-date database, with no failure of SQLite, succeeds, applies nothing and
  changes nothing.\<close>

lemma migration_idempotent:
  assumes "migrate_connection P con = (Inr report, con')" "\<And>action. mig_io_error P action con' = None"
  shows "migrate_connection P con' = (Inr \<lparr>current_version = CURRENT_SCHEMA_VERSION, report_applied = []\<rparr>, con')"
proof -
  from migrate_connection_cases [OF assms(1)] obtain n con0 con1 where c:
    "ledger_rows con0 = ledger_rows con" "migrates P (take n (pending_migrations P con)) con0 con1"
    "ledger_rows con' = ledger_rows con1" "length (pending_migrations P con) \<le> n" "ledger_verified P con"
    and up: "con_ledger con' \<noteq> None" "con_foreign_keys con'" "con_application_id con' = SQLITE_APPLICATION_ID"
    "con_user_version con' = uint CURRENT_SCHEMA_VERSION"
    by auto
  have p: "pending_migrations P con' = []" using pending_after [of P con con0 con1 con'] c by simp
  have "ledger_verified P con0" using c(1,5) by (simp add: ledger_verified_def)
  then have "ledger_verified P con1"
    by (rule migrates_verified [OF c(2)]) (auto simp: pending_migrations_def dest: in_set_takeD)
  then have v: "ledger_verified P con'" using c(3) by (simp add: ledger_verified_def)
  obtain as where as: "read_ledger (ledger_rows con') = Inr as" using read_ledger_verified [OF v] ..
  have same: "con'\<lparr>con_foreign_keys := True\<rparr> = con'" "con'\<lparr>con_application_id := SQLITE_APPLICATION_ID\<rparr> = con'"
    "con'\<lparr>con_user_version := uint CURRENT_SCHEMA_VERSION\<rparr> = con'"
    using up by (cases con'; simp)+
  have applied: "applied_migrations P con' = (Inr as, con')"
    using up(1) as by (simp add: applied_migrations_def schema_migration_table_exists_def
        read_applied_migrations_def db_bind_def sql_call_def assms(2))
  have none: "apply_pending P (bm_extend [] (map (\<lambda>a. (applied_version a, a)) as)) ms con' = (Inr [], con')"
    if "set ms \<subseteq> set (MIGRATIONS P)" for ms
    using that
  proof (induction ms)
    case (Cons m ms)
    then have "uint (migration_version m) \<in> fst ` set (ledger_rows con')"
      using p by (auto simp: pending_migrations_def filter_empty_conv bm_contains_key_def bm_get_None)
    then have "migration_version m \<in> applied_version ` set as"
      unfolding read_ledger_versions [OF as] by (auto simp: word_uint_eq_iff image_iff)
    then show ?case using Cons by (simp add: bm_contains_key_extend image_image)
  qed (simp add: db_return_def)
  have "try_for_each (verify_applied (MIGRATIONS P)) as = Inr ()"
    using verify_applied_verified [OF v as] by (simp add: try_for_each_Inr)
  then have "verify_existing_migrations P con' = (Inr (), con')"
    by (simp add: verify_existing_migrations_def applied db_bind_def db_outcome_def)
  moreover have "configure_connection P con' = (Inr (), con')"
    by (simp add: configure_connection_def db_bind_def sql_call_def assms(2) same)
  moreover have "bootstrap_migration_ledger P con' = (Inr (), con')"
    using up(1) by (auto simp: bootstrap_migration_ledger_def sql_call_def assms(2))
  moreover have "set_user_version P CURRENT_SCHEMA_VERSION con' = (Inr (), con')"
    by (simp add: set_user_version_def sql_call_def assms(2) same)
  moreover have "schema_version P con' = (Inr (Some CURRENT_SCHEMA_VERSION), con')"
    by (simp add: schema_version_def db_bind_def sql_call_def assms(2) up(4) db_outcome_def CURRENT_SCHEMA_VERSION_def
        u32_from_sql_def)
  ultimately show ?thesis
    by (simp add: migrate_connection_def db_bind_def applied_migration_map_def applied none db_return_def)
qed

end
