(* ===== verification/Store_Paths.thy ===== *)
theory Store_Paths
  imports Core_Config_Discovery Store_Gateway
begin

text \<open>
  \<open>crates/missive-store/src/paths.rs\<close>: where the state of a profile lives, and the lock files that
  keep processes apart.

  File operations are parameters (record \<open>os\<close>) over a state of the file system of any type: each
  either succeeds or fails with the kind and the value of an \<open>io::Error\<close>.
\<close>

subsection \<open>Data\<close>

datatype StatePlatform = Linux | MacOs | OtherPlatform

datatype StatePathSource = Source_MissiveHome | Source_Xdg | Source_PlatformFallback

record StatePaths =
  sp_profile :: string
  sp_source :: StatePathSource
  sp_data_dir :: string
  sp_state_dir :: string
  sp_cache_dir :: string
  sp_locks_dir :: string
  sp_database_path :: string

definition DEFAULT_DATABASE_FILE :: string where
  "DEFAULT_DATABASE_FILE = ''missive.sqlite3''"

definition StatePaths_new :: "string \<Rightarrow> StatePathSource \<Rightarrow> string \<Rightarrow> string \<Rightarrow> string \<Rightarrow> string \<Rightarrow> StatePaths" where
  "StatePaths_new profile source data_dir state_dir cache_dir database_path =
     \<lparr>sp_profile = profile, sp_source = source, sp_data_dir = data_dir, sp_state_dir = state_dir,
      sp_cache_dir = cache_dir, sp_locks_dir = path_join state_dir ''locks'', sp_database_path = database_path\<rparr>"

datatype ProcessLockKind = StateMutation | GatewayLock

fun lock_file_name :: "ProcessLockKind \<Rightarrow> string" where
  "lock_file_name StateMutation = ''state.lock''"
| "lock_file_name GatewayLock = ''gateway.lock''"

fun lock_label :: "ProcessLockKind \<Rightarrow> string" where
  "lock_label StateMutation = ''state mutation''"
| "lock_label GatewayLock = ''gateway''"

definition lock_path :: "StatePaths \<Rightarrow> ProcessLockKind \<Rightarrow> string" where
  "lock_path paths kind = path_join (sp_locks_dir paths) (lock_file_name kind)"

record StateRoots =
  roots_source :: StatePathSource
  data_root :: string
  state_root :: string
  cache_root :: string

record StatePathResolver =
  resolver_env :: "(string, string) btree_map"
  resolver_platform :: StatePlatform

definition resolver_with_env :: "StatePathResolver \<Rightarrow> (string \<times> string) list \<Rightarrow> StatePathResolver" where
  "resolver_with_env R env = R\<lparr>resolver_env := bm_extend [] env\<rparr>"

subsection \<open>Validation\<close>

definition validate_profile_segment :: "string \<Rightarrow> unit outcome" where
  "validate_profile_segment profile =
     fail_if (\<not> (profile \<noteq> [] \<and> length profile \<le> 63 \<and>
         is_ascii_lower_alphanumeric (hd profile) \<and> is_ascii_lower_alphanumeric (last profile) \<and>
         list_all (\<lambda>c. is_ascii_lower_alphanumeric c \<or> c \<in> {CHR ''-'', CHR ''_'', CHR ''.''}) profile))
       (with_help (error_config [Lit ''profile '', Dbg profile, Lit '' cannot be used as a state path segment''])
         ''Use a validated missive profile name such as default, ci, or local-dev.'')"

text \<open>On Unix a component is a parent directory when it is two dots, and a path has a root component
  when it is absolute.\<close>

definition validate_relative_database_path :: "string \<Rightarrow> unit outcome" where
  "validate_relative_database_path path =
     fail_if (is_absolute path \<or> ''..'' \<in> set (split_on CHR ''/'' path))
       (with_help (error_config
         [Lit ''storage.database_path '', Dbg path, Lit '' cannot escape the profile state directory''])
         ''Use a simple relative filename, a nested relative path without '..', or an absolute path.'')"

subsection \<open>Resolution\<close>

definition env_path :: "StatePathResolver \<Rightarrow> string \<Rightarrow> string option outcome" where
  "env_path R key =
     (case bm_get key (resolver_env R) of
        None \<Rightarrow> Inr None
      | Some value \<Rightarrow>
          if trim value = [] then
            Inl (with_help (error_config [Lit (key @ '' is set but empty'')])
              ''Unset the variable or set it to an absolute directory path.'')
          else if \<not> is_absolute value then
            Inl (with_help (error_config [Lit (key @ '' must be an absolute directory path'')])
              ''Use an absolute path so missive never writes runtime state into the source tree by accident.'')
          else Inr (Some value))"

definition home_dir :: "StatePathResolver \<Rightarrow> string outcome" where
  "home_dir R =
     and_then (env_path R ''HOME'') (\<lambda>home.
       ok_or home (with_help (error_config [Lit ''HOME is required when MISSIVE_HOME is not set''])
         ''Set MISSIVE_HOME to an absolute directory, or provide HOME for platform fallback state paths.''))"

definition resolve_xdg_roots :: "StatePathResolver \<Rightarrow> StateRoots outcome" where
  "resolve_xdg_roots R =
     and_then (home_dir R) (\<lambda>home.
     and_then (env_path R ''XDG_DATA_HOME'') (\<lambda>data_home.
     and_then (env_path R ''XDG_STATE_HOME'') (\<lambda>state_home.
     and_then (env_path R ''XDG_CACHE_HOME'') (\<lambda>cache_home.
       Inr \<lparr>roots_source = Source_Xdg,
         data_root = path_join (unwrap_or data_home (path_join (path_join home ''.local'') ''share'')) ''missive'',
         state_root = path_join (unwrap_or state_home (path_join (path_join home ''.local'') ''state'')) ''missive'',
         cache_root = path_join (unwrap_or cache_home (path_join home ''.cache'')) ''missive''\<rparr>))))"

definition resolve_macos_roots :: "StatePathResolver \<Rightarrow> StateRoots outcome" where
  "resolve_macos_roots R =
     (if bm_contains_key ''XDG_DATA_HOME'' (resolver_env R) \<or> bm_contains_key ''XDG_STATE_HOME'' (resolver_env R) \<or>
         bm_contains_key ''XDG_CACHE_HOME'' (resolver_env R)
      then resolve_xdg_roots R
      else
        and_then (home_dir R) (\<lambda>home.
          let application_support = path_join (path_join (path_join home ''Library'') ''Application Support'') ''missive'';
              cache = path_join (path_join (path_join home ''Library'') ''Caches'') ''missive''
          in Inr \<lparr>roots_source = Source_PlatformFallback, data_root = path_join application_support ''data'',
               state_root = path_join application_support ''state'', cache_root = cache\<rparr>))"

definition resolve_roots :: "StatePathResolver \<Rightarrow> StateRoots outcome" where
  "resolve_roots R =
     and_then (env_path R ''MISSIVE_HOME'') (\<lambda>home.
       case home of
         Some root \<Rightarrow>
           Inr \<lparr>roots_source = Source_MissiveHome, data_root = path_join root ''data'',
             state_root = path_join root ''state'', cache_root = path_join root ''cache''\<rparr>
       | None \<Rightarrow>
           (case resolver_platform R of MacOs \<Rightarrow> resolve_macos_roots R | _ \<Rightarrow> resolve_xdg_roots R))"

definition resolve_database_path :: "StatePathResolver \<Rightarrow> string \<Rightarrow> string \<Rightarrow> string outcome" where
  "resolve_database_path R path state_dir =
     (if is_absolute path then Inr path
      else if path = ''~'' then home_dir R
      else if take 2 path = ''~/'' then and_then (home_dir R) (\<lambda>home. Inr (path_join home (drop 2 path)))
      else if take 1 path = ''~'' then
        Inl (with_help (error_config
          [Lit ''storage.database_path '', Dbg path, Lit '' uses unsupported home expansion syntax''])
          ''Use ~/path for the current home directory, an absolute path, or a path relative to the profile state directory.'')
      else and_then (validate_relative_database_path path) (\<lambda>_. Inr (path_join state_dir path)))"

definition resolve_storage :: "StatePathResolver \<Rightarrow> string \<Rightarrow> StorageConfig \<Rightarrow> StatePaths outcome" where
  "resolve_storage R profile storage =
     and_then (validate_profile_segment profile) (\<lambda>_.
     and_then (resolve_roots R) (\<lambda>roots.
       let data_dir = path_join (path_join (data_root roots) ''profiles'') profile;
           state_dir = path_join (path_join (state_root roots) ''profiles'') profile;
           cache_dir = path_join (path_join (cache_root roots) ''profiles'') profile
       in and_then
            (case storage_database_path storage of
               Some path \<Rightarrow> resolve_database_path R path state_dir
             | None \<Rightarrow> Inr (path_join state_dir DEFAULT_DATABASE_FILE))
            (\<lambda>database_path.
               Inr (StatePaths_new profile (roots_source roots) data_dir state_dir cache_dir database_path))))"

definition resolve_config :: "StatePathResolver \<Rightarrow> MissiveConfig \<Rightarrow> string \<Rightarrow> StatePaths outcome" where
  "resolve_config R config profile =
     and_then (config_profile config profile) (\<lambda>p.
       resolve_storage R profile (unwrap_or (profile_storage p) (cfg_storage config)))"

definition resolve_loaded :: "StatePathResolver \<Rightarrow> LoadedConfig \<Rightarrow> StatePaths outcome" where
  "resolve_loaded R loaded = resolve_config R (loaded_config loaded) (loaded_selected_profile loaded)"

subsection \<open>Directories and locks\<close>

datatype io_kind = WouldBlock | AlreadyExists | OtherKind

type_synonym io_error = "io_kind \<times> std_error"
type_synonym ('a, 'fs) io_op = "'fs \<Rightarrow> (io_error + 'a) \<times> 'fs"

record 'fs os =
  os_create_dir_all :: "string \<Rightarrow> (unit, 'fs) io_op"
  os_open_lock :: "string \<Rightarrow> (unit, 'fs) io_op"
  os_lock_exclusive :: "string \<Rightarrow> (unit, 'fs) io_op"
  os_try_lock_exclusive :: "string \<Rightarrow> (unit, 'fs) io_op"
  os_set_len :: "string \<Rightarrow> nat \<Rightarrow> (unit, 'fs) io_op"
  os_rewind :: "string \<Rightarrow> (unit, 'fs) io_op"
  os_write :: "string \<Rightarrow> string \<Rightarrow> (unit, 'fs) io_op"
  os_sync_data :: "string \<Rightarrow> (unit, 'fs) io_op"
  os_unlock :: "string \<Rightarrow> (unit, 'fs) io_op"
  os_pid :: nat

text \<open>\<open>map_err\<close> on the result of a file operation.\<close>

definition io_call :: "(io_error \<Rightarrow> MissiveError) \<Rightarrow> ('a, 'fs) io_op \<Rightarrow> ('a, 'fs) state_op" where
  "io_call f operation fs = (case operation fs of (Inl e, fs') \<Rightarrow> (Inl (f e), fs') | (Inr x, fs') \<Rightarrow> (Inr x, fs'))"

definition create_dir_all :: "'fs os \<Rightarrow> string \<Rightarrow> string \<Rightarrow> (unit, 'fs) state_op" where
  "create_dir_all F path action =
     io_call (\<lambda>e. error_io (action @ '' '' @ path) (snd e)) (os_create_dir_all F path)"

definition ensure_directories :: "'fs os \<Rightarrow> StatePaths \<Rightarrow> (unit, 'fs) state_op" where
  "ensure_directories F paths =
     db_bind (create_dir_all F (sp_data_dir paths) ''creating data directory'') (\<lambda>_.
     db_bind (create_dir_all F (sp_state_dir paths) ''creating state directory'') (\<lambda>_.
     db_bind (create_dir_all F (sp_cache_dir paths) ''creating cache directory'') (\<lambda>_.
     db_bind (create_dir_all F (sp_locks_dir paths) ''creating lock directory'') (\<lambda>_.
       case parent (sp_database_path paths) of
         Some dir \<Rightarrow> create_dir_all F dir ''creating database parent directory''
       | None \<Rightarrow> db_return ()))))"

definition lock_error :: "string \<Rightarrow> ProcessLockKind \<Rightarrow> string \<Rightarrow> io_error \<Rightarrow> MissiveError" where
  "lock_error verb kind path e = error_io (verb @ '' '' @ lock_label kind @ '' lock '' @ path) (snd e)"

definition lock_permission_error :: "string \<Rightarrow> ProcessLockKind \<Rightarrow> string \<Rightarrow> io_error \<Rightarrow> MissiveError" where
  "lock_permission_error verb kind path e =
     with_help (lock_error verb kind path e) ''Check permissions on the missive state directory.''"

definition open_lock_file :: "'fs os \<Rightarrow> StatePaths \<Rightarrow> ProcessLockKind \<Rightarrow> string \<Rightarrow> (unit, 'fs) state_op" where
  "open_lock_file F paths kind path =
     db_bind (create_dir_all F (sp_locks_dir paths) ''creating lock directory'') (\<lambda>_.
       io_call (lock_permission_error ''opening'' kind path) (os_open_lock F path))"

definition annotate_lock_file :: "'fs os \<Rightarrow> ProcessLockKind \<Rightarrow> string \<Rightarrow> (unit, 'fs) state_op" where
  "annotate_lock_file F kind path =
     db_bind (io_call (lock_error ''truncating'' kind path) (os_set_len F path 0)) (\<lambda>_.
     db_bind (io_call (lock_error ''rewinding'' kind path) (os_rewind F path)) (\<lambda>_.
     db_bind (io_call (lock_error ''writing'' kind path) (os_write F path (''kind='' @ lock_label kind @ [CHR 0x0A]))) (\<lambda>_.
     db_bind (io_call (lock_error ''writing'' kind path) (os_write F path (''pid='' @ show_nat (os_pid F) @ [CHR 0x0A]))) (\<lambda>_.
       io_call (lock_error ''syncing'' kind path) (os_sync_data F path)))))"

record ProcessLock =
  plock_kind :: ProcessLockKind
  plock_path :: string

definition is_lock_contended :: "io_error \<Rightarrow> bool" where
  "is_lock_contended e \<longleftrightarrow> fst e = WouldBlock \<or> fst e = AlreadyExists"

text \<open>Closing the opened file, as an early return does, gives up a lock taken through it.\<close>

definition or_release :: "'fs os \<Rightarrow> string \<Rightarrow> ('a, 'fs) state_op \<Rightarrow> ('a, 'fs) state_op" where
  "or_release F path operation fs =
     (case operation fs of (Inl e, fs') \<Rightarrow> (Inl e, snd (os_unlock F path fs')) | (Inr x, fs') \<Rightarrow> (Inr x, fs'))"

definition acquire :: "'fs os \<Rightarrow> StatePaths \<Rightarrow> ProcessLockKind \<Rightarrow> (ProcessLock, 'fs) state_op" where
  "acquire F paths kind =
     (let path = lock_path paths kind
      in db_bind (open_lock_file F paths kind path) (\<lambda>_.
         db_bind (io_call (lock_permission_error ''locking'' kind path) (os_lock_exclusive F path)) (\<lambda>_.
         db_bind (or_release F path (annotate_lock_file F kind path)) (\<lambda>_.
           db_return \<lparr>plock_kind = kind, plock_path = path\<rparr>))))"

definition try_acquire :: "'fs os \<Rightarrow> StatePaths \<Rightarrow> ProcessLockKind \<Rightarrow> (ProcessLock, 'fs) state_op" where
  "try_acquire F paths kind =
     (let path = lock_path paths kind
      in db_bind (open_lock_file F paths kind path) (\<lambda>_.
         db_bind (io_call (\<lambda>e.
             if is_lock_contended e then
               with_help (with_source (error_storage [Lit (lock_label kind @ '' lock is already held at '' @ path)]) (snd e))
                 ''Wait for the other missive process to finish, or inspect the process that owns the lock.''
             else lock_permission_error ''locking'' kind path e) (os_try_lock_exclusive F path)) (\<lambda>_.
         db_bind (or_release F path (annotate_lock_file F kind path)) (\<lambda>_.
           db_return \<lparr>plock_kind = kind, plock_path = path\<rparr>))))"

definition drop_lock :: "'fs os \<Rightarrow> ProcessLock \<Rightarrow> 'fs \<Rightarrow> 'fs" where
  "drop_lock F lock fs = snd (os_unlock F (plock_path lock) fs)"

subsection \<open>Where the paths lie\<close>

lemma env_path_absolute: "env_path R key = Inr (Some p) \<Longrightarrow> is_absolute p"
  by (auto simp: env_path_def split: option.splits if_splits)

lemma is_absolute_join: "is_absolute base \<Longrightarrow> is_absolute (path_join base p)"
  by (auto simp: path_join_def is_absolute_def)

lemma home_dir_absolute: "home_dir R = Inr p \<Longrightarrow> is_absolute p"
  by (auto simp: home_dir_def result_iff dest: env_path_absolute)

lemma xdg_roots_absolute:
  "resolve_xdg_roots R = Inr roots \<Longrightarrow>
     is_absolute (data_root roots) \<and> is_absolute (state_root roots) \<and> is_absolute (cache_root roots)"
  by (auto simp: resolve_xdg_roots_def result_iff unwrap_or_def is_absolute_join split: option.splits
      dest!: home_dir_absolute env_path_absolute)

lemma roots_absolute:
  assumes "resolve_roots R = Inr roots"
  shows "is_absolute (data_root roots) \<and> is_absolute (state_root roots) \<and> is_absolute (cache_root roots)"
  using assms xdg_roots_absolute [of R roots]
  by (auto simp: resolve_roots_def resolve_macos_roots_def result_iff Let_def is_absolute_join
      dest!: home_dir_absolute env_path_absolute split: option.splits StatePlatform.splits if_splits)

lemma profile_segment:
  assumes "validate_profile_segment profile = Inr u"
  shows "profile \<noteq> []" "CHR ''/'' \<notin> set profile" "\<not> is_absolute profile" "last profile \<noteq> CHR ''/''"
proof -
  have ok: "profile \<noteq> []" "list_all (\<lambda>c. is_ascii_lower_alphanumeric c \<or> c \<in> {CHR ''-'', CHR ''_'', CHR ''.''}) profile"
    using assms by (auto simp: validate_profile_segment_def fail_if_def split: if_splits)
  show "profile \<noteq> []" by (rule ok)
  show slash: "CHR ''/'' \<notin> set profile"
    using ok(2) by (auto simp: list_all_iff is_ascii_lower_alphanumeric_def is_ascii_lowercase_def is_ascii_digit_def)
  then show "\<not> is_absolute profile" "last profile \<noteq> CHR ''/''"
    using ok(1) by (metis hd_in_set is_absolute_def) (metis last_in_set ok(1) slash)
qed

lemma profile_dir:
  assumes "validate_profile_segment profile = Inr u"
  shows "path_join (path_join root ''profiles'') profile = path_join root ''profiles'' @ ''/'' @ profile"
proof -
  have "last (path_join root ''profiles'') = CHR ''s''" "path_join root ''profiles'' \<noteq> []"
    by (auto simp: path_join_def is_absolute_def)
  then show ?thesis using profile_segment [OF assms] by (simp add: path_join_def [of _ profile])
qed

lemma below_profile_dir:
  assumes "validate_profile_segment profile = Inr u" "\<not> is_absolute p"
  shows "path_join (path_join (path_join root ''profiles'') profile) p =
    path_join root ''profiles'' @ ''/'' @ profile @ ''/'' @ p"
  using profile_segment [OF assms(1)] assms(2)
  by (simp add: profile_dir [OF assms(1)] path_join_def [of "_ @ _"])

text \<open>The database lies under the profile's directory unless its path is absolute or starts with a tilde.\<close>

definition local_database :: "StorageConfig \<Rightarrow> bool" where
  "local_database storage \<longleftrightarrow>
     (case storage_database_path storage of None \<Rightarrow> True | Some p \<Rightarrow> \<not> is_absolute p \<and> take 1 p \<noteq> ''~'')"

lemma resolve_storage_shape:
  assumes "resolve_storage R profile storage = Inr paths"
  obtains roots where "resolve_roots R = Inr roots" "validate_profile_segment profile = Inr ()"
    "sp_state_dir paths = path_join (path_join (state_root roots) ''profiles'') profile"
    "sp_data_dir paths = path_join (path_join (data_root roots) ''profiles'') profile"
    "sp_cache_dir paths = path_join (path_join (cache_root roots) ''profiles'') profile"
    "sp_locks_dir paths = path_join (sp_state_dir paths) ''locks''"
    "local_database storage \<Longrightarrow> \<exists>p. \<not> is_absolute p \<and> ''..'' \<notin> set (split_on CHR ''/'' p) \<and>
       sp_database_path paths = path_join (sp_state_dir paths) p"
proof -
  obtain roots database_path where r: "validate_profile_segment profile = Inr ()" "resolve_roots R = Inr roots"
    "(case storage_database_path storage of
       Some path \<Rightarrow> resolve_database_path R path (path_join (path_join (state_root roots) ''profiles'') profile)
     | None \<Rightarrow> Inr (path_join (path_join (path_join (state_root roots) ''profiles'') profile) DEFAULT_DATABASE_FILE)) =
     Inr database_path"
    "paths = StatePaths_new profile (roots_source roots)
       (path_join (path_join (data_root roots) ''profiles'') profile)
       (path_join (path_join (state_root roots) ''profiles'') profile)
       (path_join (path_join (cache_root roots) ''profiles'') profile) database_path"
    using assms by (auto simp: resolve_storage_def and_then_Inr Let_def)
  have "\<exists>p. \<not> is_absolute p \<and> ''..'' \<notin> set (split_on CHR ''/'' p) \<and>
       sp_database_path paths = path_join (sp_state_dir paths) p" if loc: "local_database storage"
  proof (cases "storage_database_path storage")
    case None
    then show ?thesis using r(3,4)
      by (intro exI [of _ DEFAULT_DATABASE_FILE])
        (simp add: StatePaths_new_def DEFAULT_DATABASE_FILE_def is_absolute_def)
  next
    case (Some p)
    moreover have "p \<noteq> ''~'' \<and> take 2 p \<noteq> ''~/''" using loc Some by (cases p) (auto simp: local_database_def)
    ultimately show ?thesis using r(3,4) loc
      by (intro exI [of _ p]) (auto simp: StatePaths_new_def local_database_def resolve_database_path_def
          validate_relative_database_path_def fail_if_def and_then_Inr split: if_splits)
  qed
  then show ?thesis using r(1,2,4) that by (simp add: StatePaths_new_def)
qed

lemma state_subpath:
  assumes "resolve_storage R profile storage = Inr paths" "\<not> is_absolute p"
  shows "path_join (sp_state_dir paths) p = sp_state_dir paths @ ''/'' @ p"
  using assms(1)
proof (rule resolve_storage_shape)
  fix roots
  assume r: "validate_profile_segment profile = Inr ()"
    "sp_state_dir paths = path_join (path_join (state_root roots) ''profiles'') profile"
  show ?thesis using below_profile_dir [OF r(1) assms(2)] profile_dir [OF r(1)] by (simp add: r(2))
qed

lemma lock_path_eq:
  assumes "resolve_storage R profile storage = Inr paths"
  shows "lock_path paths kind = sp_state_dir paths @ ''/locks/'' @ lock_file_name kind"
  using assms
proof (rule resolve_storage_shape)
  assume "sp_locks_dir paths = path_join (sp_state_dir paths) ''locks''"
  then have "sp_locks_dir paths = sp_state_dir paths @ ''/locks''"
    using state_subpath [OF assms, of "''locks''"] by (simp add: is_absolute_def)
  then show ?thesis by (cases kind) (simp_all add: lock_path_def path_join_def is_absolute_def)
qed

text \<open>C36. Whenever the paths of a profile are resolved, the directories for its data, state and cache are
  absolute; and its database, unless configured with an absolute path or one in the home directory,
  lies below its state directory and is reached without going up.\<close>

theorem state_paths_contained:
  assumes "resolve_storage R profile storage = Inr paths"
  shows "is_absolute (sp_data_dir paths) \<and> is_absolute (sp_state_dir paths) \<and> is_absolute (sp_cache_dir paths) \<and>
    (\<forall>kind. lock_path paths kind = sp_state_dir paths @ ''/locks/'' @ lock_file_name kind) \<and>
    (local_database storage \<longrightarrow>
       (\<exists>p. sp_database_path paths = sp_state_dir paths @ ''/'' @ p \<and> ''..'' \<notin> set (split_on CHR ''/'' p)))"
proof -
  obtain roots where r: "resolve_roots R = Inr roots" "validate_profile_segment profile = Inr ()"
    "sp_state_dir paths = path_join (path_join (state_root roots) ''profiles'') profile"
    "sp_data_dir paths = path_join (path_join (data_root roots) ''profiles'') profile"
    "sp_cache_dir paths = path_join (path_join (cache_root roots) ''profiles'') profile"
    "sp_locks_dir paths = path_join (sp_state_dir paths) ''locks''"
    and db: "local_database storage \<Longrightarrow> \<exists>p. \<not> is_absolute p \<and> ''..'' \<notin> set (split_on CHR ''/'' p) \<and>
       sp_database_path paths = path_join (sp_state_dir paths) p"
    using resolve_storage_shape [OF assms] by metis
  then show ?thesis
    using roots_absolute [OF r(1)] lock_path_eq [OF assms] state_subpath [OF assms]
    by (auto simp: r(3,4,5) is_absolute_join dest!: db)
qed

text \<open>C37. Two different profiles resolved in the same environment never share a state directory, a lock file
  or, when their databases are kept below their directories, a database.\<close>

theorem profiles_isolated:
  assumes "resolve_storage R p storage = Inr paths" "resolve_storage R q storage' = Inr paths'" "p \<noteq> q"
  shows "sp_state_dir paths \<noteq> sp_state_dir paths' \<and> lock_path paths kind \<noteq> lock_path paths' kind' \<and>
    (local_database storage \<longrightarrow> local_database storage' \<longrightarrow> sp_database_path paths \<noteq> sp_database_path paths')"
proof -
  have seg: "p @ ''/'' @ x \<noteq> q @ ''/'' @ y" if "CHR ''/'' \<notin> set p" "CHR ''/'' \<notin> set q" for x y
    using that assms(3)
  proof (induction p arbitrary: q)
    case Nil
    then show ?case by (cases q) auto
  next
    case (Cons c p)
    then show ?case by (cases q) auto
  qed
  obtain roots where r: "resolve_roots R = Inr roots" "validate_profile_segment p = Inr ()"
    "sp_state_dir paths = path_join (path_join (state_root roots) ''profiles'') p"
    "sp_locks_dir paths = path_join (sp_state_dir paths) ''locks''"
    and db: "local_database storage \<Longrightarrow> \<exists>p. \<not> is_absolute p \<and> ''..'' \<notin> set (split_on CHR ''/'' p) \<and>
       sp_database_path paths = path_join (sp_state_dir paths) p"
    using resolve_storage_shape [OF assms(1)] by metis
  obtain roots' where r': "resolve_roots R = Inr roots'" "validate_profile_segment q = Inr ()"
    "sp_state_dir paths' = path_join (path_join (state_root roots') ''profiles'') q"
    "sp_locks_dir paths' = path_join (sp_state_dir paths') ''locks''"
    and db': "local_database storage' \<Longrightarrow> \<exists>p. \<not> is_absolute p \<and> ''..'' \<notin> set (split_on CHR ''/'' p) \<and>
       sp_database_path paths' = path_join (sp_state_dir paths') p"
    using resolve_storage_shape [OF assms(2)] by metis
  have same: "roots' = roots" using r(1) r'(1) by simp
  let ?base = "path_join (state_root roots) ''profiles'' @ ''/''"
  have dir: "sp_state_dir paths = ?base @ p" "sp_state_dir paths' = ?base @ q"
    using profile_dir [OF r(2)] profile_dir [OF r'(2)] by (simp_all add: r(3) r'(3) same)
  note seg = seg [OF profile_segment(2) [OF r(2)] profile_segment(2) [OF r'(2)]]
  have "sp_database_path paths \<noteq> sp_database_path paths'" if "local_database storage" "local_database storage'"
    using db [OF that(1)] db' [OF that(2)] state_subpath [OF assms(1)] state_subpath [OF assms(2)] seg seg [THEN not_sym] dir by auto
  moreover have "lock_path paths kind \<noteq> lock_path paths' kind'"
    using seg [of "''locks/'' @ lock_file_name kind" "''locks/'' @ lock_file_name kind'"]
    by (simp add: lock_path_eq [OF assms(1)] lock_path_eq [OF assms(2)] dir)
  ultimately show ?thesis using assms(3) by (simp add: dir)
qed

definition demo_resolver :: StatePathResolver where
  "demo_resolver = \<lparr>resolver_env = [(''HOME'', ''/h'')], resolver_platform = Linux\<rparr>"

lemma demo_paths:
  "resolve_storage demo_resolver p StorageConfig_default =
     Inr (StatePaths_new p Source_Xdg (''/h/.local/share/missive/profiles/'' @ p)
       (''/h/.local/state/missive/profiles/'' @ p) (''/h/.cache/missive/profiles/'' @ p)
       (''/h/.local/state/missive/profiles/'' @ p @ ''/missive.sqlite3''))"
  if "p \<in> {''ci'', ''default''}"
  using that by safe code_simp+

theorem state_paths_contained_witness:
  "\<exists>paths. resolve_storage demo_resolver ''ci'' StorageConfig_default = Inr paths \<and> is_absolute (sp_state_dir paths) \<and>
     lock_path paths GatewayLock = sp_state_dir paths @ ''/locks/gateway.lock''"
  using state_paths_contained [OF demo_paths, of "''ci''"] demo_paths [of "''ci''"] by auto

theorem profiles_isolated_witness:
  "\<exists>paths paths'. resolve_storage demo_resolver ''ci'' StorageConfig_default = Inr paths \<and>
     resolve_storage demo_resolver ''default'' StorageConfig_default = Inr paths' \<and>
     sp_database_path paths \<noteq> sp_database_path paths'"
proof -
  have "local_database StorageConfig_default" by code_simp
  with profiles_isolated [OF demo_paths [of "''ci''"] demo_paths [of "''default''"]] demo_paths
  show ?thesis by auto
qed

end
