(* ===== verification/A2a_Card.thy ===== *)
theory A2a_Card
  imports A2a_Stream A2a_Service
begin

text \<open>
  Agent cards of \<open>crates/missive-a2a/src/lib.rs\<close>: reading a card from JSON, which accepts older
  spellings of its keys and drops security fields the SDK cannot read, its validation, and the
  retrieval of the public card over HTTP with the validators of a cached copy.

  The SDK's deserialiser, the URL parser and the HTTP client are parameters, record \<open>card_client\<close>.
\<close>

subsection \<open>The card\<close>

text \<open>The fields of the SDK's types the program reads.\<close>

record AgentProvider =
  provider_organization :: string
  provider_url :: string

record AgentSkill =
  skill_id :: string
  skill_name :: string
  skill_description :: string
  skill_tags :: "string list"
  skill_input_modes :: "string list option"
  skill_output_modes :: "string list option"

record AgentCapabilities =
  cap_streaming :: "bool option"
  cap_push_notifications :: "bool option"

record agent_card =
  card_name :: string
  card_description :: string
  card_provider :: "AgentProvider option"
  card_version :: string
  card_documentation_url :: "string option"
  card_icon_url :: "string option"
  card_supported_interfaces :: "AgentInterface list"
  card_capabilities :: AgentCapabilities
  card_default_input_modes :: "string list"
  card_default_output_modes :: "string list"
  card_skills :: "AgentSkill list"

record AgentCardSummary =
  summary_name :: string
  summary_description :: string
  summary_provider :: "AgentProvider option"
  summary_agent_version :: string
  summary_protocol_versions :: "string list"
  summary_documentation_url :: "string option"
  summary_icon_url :: "string option"
  summary_supported_interfaces :: "AgentInterface list"
  summary_capabilities :: AgentCapabilities
  summary_default_input_modes :: "string list"
  summary_default_output_modes :: "string list"
  summary_skills :: "AgentSkill list"

fun protocol_versions_from :: "string list \<Rightarrow> AgentInterface list \<Rightarrow> string list" where
  "protocol_versions_from versions [] = versions"
| "protocol_versions_from versions (i # interfaces) =
     protocol_versions_from
       (if iface_protocol_version i \<in> set versions then versions else versions @ [iface_protocol_version i]) interfaces"

definition protocol_versions :: "agent_card \<Rightarrow> string list" where
  "protocol_versions c = protocol_versions_from [] (card_supported_interfaces c)"

definition agent_card_summary :: "agent_card \<Rightarrow> AgentCardSummary" where
  "agent_card_summary c =
     \<lparr>summary_name = card_name c, summary_description = card_description c, summary_provider = card_provider c,
      summary_agent_version = card_version c, summary_protocol_versions = protocol_versions c,
      summary_documentation_url = card_documentation_url c, summary_icon_url = card_icon_url c,
      summary_supported_interfaces = card_supported_interfaces c, summary_capabilities = card_capabilities c,
      summary_default_input_modes = card_default_input_modes c,
      summary_default_output_modes = card_default_output_modes c, summary_skills = card_skills c\<rparr>"

subsection \<open>Spellings\<close>

type_synonym json_map = "(string, json) btree_map"

fun move_first_alias :: "string \<Rightarrow> string list \<Rightarrow> json_map \<Rightarrow> json_map" where
  "move_first_alias canonical [] m = m"
| "move_first_alias canonical (a # aliases) m =
     (case bm_get a m of
        Some value \<Rightarrow> bm_insert canonical value (bm_remove a m)
      | None \<Rightarrow> move_first_alias canonical aliases m)"

definition move_alias :: "string \<Rightarrow> string list \<Rightarrow> json_map \<Rightarrow> json_map" where
  "move_alias canonical aliases m =
     (if bm_contains_key canonical m then m else move_first_alias canonical aliases m)"

text \<open>\<open>get_mut\<close> followed by an update of the value, and the updates of arrays and objects.\<close>

definition update_field :: "string \<Rightarrow> (json \<Rightarrow> json) \<Rightarrow> json_map \<Rightarrow> json_map" where
  "update_field key f m = (case bm_get key m of None \<Rightarrow> m | Some value \<Rightarrow> bm_insert key (f value) m)"

definition update_object :: "(json_map \<Rightarrow> json_map) \<Rightarrow> json \<Rightarrow> json" where
  "update_object f v = (case v of JObject m \<Rightarrow> JObject (f m) | _ \<Rightarrow> v)"

definition update_items :: "(json \<Rightarrow> json) \<Rightarrow> json \<Rightarrow> json" where
  "update_items f v = (case v of JArray items \<Rightarrow> JArray (map f items) | _ \<Rightarrow> v)"

definition normalize_interface :: "json_map \<Rightarrow> json_map" where
  "normalize_interface =
     move_alias ''protocolVersion'' [''protocol_version''] \<circ>
     move_alias ''protocolBinding'' [''protocol_binding'', ''transport'']"

definition normalize_capabilities :: "json_map \<Rightarrow> json_map" where
  "normalize_capabilities =
     move_alias ''extendedAgentCard'' [''extended_agent_card''] \<circ>
     move_alias ''stateTransitionHistory'' [''state_transition_history''] \<circ>
     move_alias ''pushNotifications'' [''push_notifications'']"

definition normalize_skill :: "json_map \<Rightarrow> json_map" where
  "normalize_skill =
     move_alias ''securityRequirements'' [''security_requirements''] \<circ>
     move_alias ''outputModes'' [''output_modes''] \<circ>
     move_alias ''inputModes'' [''input_modes'']"

definition card_aliases :: "(string \<times> string) list" where
  "card_aliases =
     [(''supportedInterfaces'', ''supported_interfaces''), (''documentationUrl'', ''documentation_url''),
      (''securitySchemes'', ''security_schemes''), (''securityRequirements'', ''security_requirements''),
      (''defaultInputModes'', ''default_input_modes''), (''defaultOutputModes'', ''default_output_modes''),
      (''iconUrl'', ''icon_url'')]"

definition or_insert :: "string \<Rightarrow> json \<Rightarrow> json_map \<Rightarrow> json_map" where
  "or_insert key value m = (if bm_contains_key key m then m else bm_insert key value m)"

definition normalize_card_object :: "json_map \<Rightarrow> json_map" where
  "normalize_card_object m =
     update_field ''skills'' (update_items (update_object normalize_skill))
       (update_field ''capabilities'' (update_object normalize_capabilities)
         (update_field ''supportedInterfaces'' (update_items (update_object normalize_interface))
           (or_insert ''supportedInterfaces'' (JArray [])
             (fold (\<lambda>(canonical, snake). move_alias canonical [snake]) card_aliases m))))"

definition normalize_agent_card_value :: "json \<Rightarrow> json" where
  "normalize_agent_card_value = update_object normalize_card_object"

definition relax_optional_security_fields :: "json \<Rightarrow> json" where
  "relax_optional_security_fields =
     update_object (\<lambda>m.
       update_field ''skills'' (update_items (update_object (bm_remove ''securityRequirements'')))
         (bm_remove ''signatures'' (bm_remove ''securityRequirements'' (bm_remove ''securitySchemes'' m))))"

subsection \<open>Reading and validation\<close>

text \<open>What the card's code takes from libraries: \<open>serde_json::from_value::<AgentCard>\<close>, \<open>Url::parse\<close>
  with whether there is a host, joining the well-known path to a parsed URL, and the HTTP client.\<close>

record http_response =
  res_status :: http_status
  res_header :: "string \<Rightarrow> string option"
  res_text :: "std_error + string"

record 'ev card_client =
  cc_sdk :: "'ev sdk"
  cc_card :: "json \<Rightarrow> std_error + agent_card"
  cc_url_host :: url_host
  cc_url_join :: "string \<Rightarrow> string \<Rightarrow> std_error + string"
  cc_headers :: http_headers
  cc_build :: "std_error option"
  cc_get :: "string \<Rightarrow> request \<Rightarrow> std_error + http_response"

definition parse_official_agent_card :: "'ev card_client \<Rightarrow> json \<Rightarrow> std_error + agent_card" where
  "parse_official_agent_card P value =
     (case cc_card P value of
        Inr c \<Rightarrow> Inr c
      | Inl primary_error \<Rightarrow>
          (let relaxed = relax_optional_security_fields value
           in if relaxed = value then Inl primary_error
              else (case cc_card P relaxed of Inr c \<Rightarrow> Inr c | Inl _ \<Rightarrow> Inl primary_error)))"

definition a2a_validate_non_empty :: "string \<Rightarrow> string \<Rightarrow> unit outcome" where
  "a2a_validate_non_empty label value = fail_if (trim value = []) (error_protocol [Lit (label @ '' cannot be empty'')])"

text \<open>\<open>char::is_ascii_whitespace\<close>.\<close>

definition is_ascii_whitespace :: "char \<Rightarrow> bool" where
  "is_ascii_whitespace c \<longleftrightarrow> c \<in> {CHR '' '', CHR 0x09, CHR 0x0A, CHR 0x0C, CHR 0x0D}"

definition looks_like_grpc_authority :: "string \<Rightarrow> bool" where
  "looks_like_grpc_authority value \<longleftrightarrow>
     (let value = trim value
      in value \<noteq> [] \<and> \<not> sublist ''://'' value \<and> \<not> prefix ''/'' value \<and>
         \<not> list_ex is_ascii_whitespace value \<and> \<not> has_control value)"

definition interface_label :: "nat \<Rightarrow> string \<Rightarrow> string" where
  "interface_label index field = ''Agent Card supportedInterfaces['' @ show_nat index @ ''].'' @ field"

definition validate_agent_interface :: "'ev card_client \<Rightarrow> AgentInterface \<Rightarrow> nat \<Rightarrow> unit outcome" where
  "validate_agent_interface P interface index =
     checks
       [a2a_validate_non_empty (interface_label index ''url'') (iface_url interface),
        a2a_validate_non_empty (interface_label index ''protocolBinding'') (iface_protocol_binding interface),
        a2a_validate_non_empty (interface_label index ''protocolVersion'') (iface_protocol_version interface),
        (case cc_url_host P (iface_url interface) of
           Inr True \<Rightarrow> Inr ()
         | other \<Rightarrow>
             if canonical_protocol_binding (iface_protocol_binding interface) = GRPC_BINDING \<and>
                looks_like_grpc_authority (iface_url interface) then Inr ()
             else
               (case other of
                  Inr _ \<Rightarrow>
                    Inl (error_protocol [Lit (''A2A '' @ interface_label index ''url'' @ '' must include a host'')])
                | Inl error \<Rightarrow>
                    Inl (with_help (with_source
                      (error_protocol [Lit (''A2A '' @ interface_label index ''url'' @ '' is not an absolute URL'')]) error)
                      ''AgentInterface.url must be an absolute URL such as https://agent.example/a2a.'')))]"

definition validate_agent_skill :: "AgentSkill \<Rightarrow> nat \<Rightarrow> unit outcome" where
  "validate_agent_skill skill index =
     checks
       [a2a_validate_non_empty (''Agent Card skills['' @ show_nat index @ ''].id'') (skill_id skill),
        a2a_validate_non_empty (''Agent Card skills['' @ show_nat index @ ''].name'') (skill_name skill)]"

fun for_each_indexed :: "('a \<Rightarrow> nat \<Rightarrow> unit outcome) \<Rightarrow> nat \<Rightarrow> 'a list \<Rightarrow> unit outcome" where
  "for_each_indexed f index [] = Inr ()"
| "for_each_indexed f index (x # xs) = and_then (f x index) (\<lambda>_. for_each_indexed f (Suc index) xs)"

definition validate_agent_card :: "'ev card_client \<Rightarrow> agent_card \<Rightarrow> unit outcome" where
  "validate_agent_card P c =
     checks
       [a2a_validate_non_empty ''Agent Card name'' (card_name c),
        a2a_validate_non_empty ''Agent Card description'' (card_description c),
        a2a_validate_non_empty ''Agent Card version'' (card_version c),
        fail_if (card_skills c = [])
          (with_help (error_protocol [Lit ''A2A Agent Card does not declare any skills''])
            ''Public Agent Cards must include at least one skills entry.''),
        for_each_indexed (validate_agent_interface P) 0 (card_supported_interfaces c),
        for_each_indexed validate_agent_skill 0 (card_skills c)]"

definition is_object :: "json \<Rightarrow> bool" where
  "is_object v = (case v of JObject _ \<Rightarrow> True | _ \<Rightarrow> False)"

definition agent_card_from_json :: "'ev card_client \<Rightarrow> json \<Rightarrow> agent_card outcome" where
  "agent_card_from_json P value =
     (if \<not> is_object value then
        Inl (with_help (error_protocol [Lit ''A2A Agent Card JSON must be an object''])
          ''Verify that /.well-known/agent-card.json returns an AgentCard object.'')
      else
        (case parse_official_agent_card P (normalize_agent_card_value value) of
           Inl error \<Rightarrow>
             Inl (with_help (with_source (error_protocol [Lit ''malformed A2A Agent Card JSON'']) error)
               ''Verify that /.well-known/agent-card.json follows the A2A AgentCard schema.'')
         | Inr c \<Rightarrow> and_then (validate_agent_card P c) (\<lambda>_. Inr c)))"

subsection \<open>Retrieval\<close>

definition PUBLIC_AGENT_CARD_PATH :: string where
  "PUBLIC_AGENT_CARD_PATH = ''/.well-known/agent-card.json''"

record AgentCardCacheValidators =
  val_etag :: "string option"
  val_last_modified :: "string option"

record AgentCardFetch =
  fetch_url :: string
  fetch_status :: nat
  fetch_card :: agent_card
  fetch_raw_json :: json
  fetch_validators :: AgentCardCacheValidators

record AgentCardNotModified =
  unmodified_url :: string
  unmodified_status :: nat
  unmodified_validators :: AgentCardCacheValidators

datatype AgentCardFetchOutcome = Fetched AgentCardFetch | NotModified AgentCardNotModified

definition public_agent_card_url :: "'ev card_client \<Rightarrow> string \<Rightarrow> string outcome" where
  "public_agent_card_url P base_url =
     (case cc_url_host P base_url of
        Inl error \<Rightarrow>
          Inl (with_help (with_source (error_validation [Lit ''agent base URL must be an absolute URL'']) error)
            ''Use an absolute http(s) URL such as https://agent.example.'')
      | Inr _ \<Rightarrow>
          (case cc_url_join P base_url PUBLIC_AGENT_CARD_PATH of
             Inl error \<Rightarrow>
               Inl (with_source (error_validation
                 [Lit (''could not resolve '' @ PUBLIC_AGENT_CARD_PATH @ '' against agent base URL ''), Dbg base_url]) error)
           | Inr url \<Rightarrow> Inr url))"

definition validators_from_headers :: "http_response \<Rightarrow> AgentCardCacheValidators" where
  "validators_from_headers response =
     \<lparr>val_etag = res_header response ''etag'', val_last_modified = res_header response ''last-modified''\<rparr>"

definition validator_headers :: "AgentCardCacheValidators option \<Rightarrow> request" where
  "validator_headers validators =
     (case validators of
        None \<Rightarrow> []
      | Some v \<Rightarrow>
          (case val_etag v of Some etag \<Rightarrow> [(''if-none-match'', etag)] | None \<Rightarrow> []) @
          (case val_last_modified v of Some modified \<Rightarrow> [(''if-modified-since'', modified)] | None \<Rightarrow> []))"

definition AgentCardClient_new :: "'ev card_client \<Rightarrow> unit outcome" where
  "AgentCardClient_new P =
     (case cc_build P of
        None \<Rightarrow> Inr ()
      | Some error \<Rightarrow>
          Inl (with_help (with_source (error_transport [Lit ''building A2A Agent Card HTTP client'']) error)
            ''Check local TLS certificate roots and HTTP client configuration.''))"

definition agent_card_response ::
  "'ev card_client \<Rightarrow> string \<Rightarrow> string \<Rightarrow> http_response \<Rightarrow> AgentCardFetchOutcome outcome" where
  "agent_card_response P url version response =
     (let status = res_status response
      in if status_code status = 304 then
           Inr (NotModified \<lparr>unmodified_url = url, unmodified_status = status_code status,
             unmodified_validators = validators_from_headers response\<rparr>)
         else if \<not> status_is_success status then
           (case res_text response of
              Inl error \<Rightarrow>
                Inl (with_source (error_transport
                  [Lit (''reading A2A Agent Card error response from '' @ url @ '' failed'')]) error)
            | Inr body \<Rightarrow>
                if response_reports_unsupported_version (cc_sdk P) body then
                  Inl (unsupported_protocol_version_error version url status)
                else
                  Inl (with_help (error_transport
                    [Lit (''A2A Agent Card discovery returned HTTP '' @ status_text status @ '' for '' @ url)])
                    ''Ensure the agent serves /.well-known/agent-card.json and retry with --refresh after fixing the endpoint.''))
         else
           (case res_text response of
              Inl error \<Rightarrow>
                Inl (with_source (error_transport
                  [Lit (''reading A2A Agent Card response from '' @ url @ '' failed'')]) error)
            | Inr body \<Rightarrow>
                (case sdk_from_str (cc_sdk P) body of
                   Inl error \<Rightarrow>
                     Inl (with_help (with_source (error_protocol
                       [Lit (''A2A Agent Card response from '' @ url @ '' is not valid JSON'')]) error)
                       ''Verify that /.well-known/agent-card.json returns a JSON object.'')
                 | Inr raw_json \<Rightarrow>
                     if \<not> is_object raw_json then
                       Inl (with_help (error_protocol
                         [Lit (''A2A Agent Card response from '' @ url @ '' must be a JSON object'')])
                         ''Verify that /.well-known/agent-card.json returns an AgentCard object.'')
                     else
                       and_then (agent_card_from_json P raw_json) (\<lambda>c.
                         Inr (Fetched \<lparr>fetch_url = url, fetch_status = status_code status, fetch_card = c,
                           fetch_raw_json = raw_json, fetch_validators = validators_from_headers response\<rparr>)))))"

text \<open>\<open>AgentCardClient::new\<close> followed by
  \<open>fetch_public_agent_card_with_service_parameters_and_auth\<close>, as every caller has them.\<close>

definition fetch_public_agent_card ::
  "'ev card_client \<Rightarrow> string \<Rightarrow> AgentCardCacheValidators option \<Rightarrow> ServiceParameters \<Rightarrow> AuthHeaders \<Rightarrow>
   AgentCardFetchOutcome outcome" where
  "fetch_public_agent_card P base_url validators service_parameters auth_headers =
     and_then (AgentCardClient_new P) (\<lambda>_.
     and_then (public_agent_card_url P base_url) (\<lambda>url.
     and_then (apply_service_parameters (cc_headers P) service_parameters [(''accept'', ''application/json'')]) (\<lambda>request.
     and_then (apply_auth_headers (cc_headers P) auth_headers request) (\<lambda>request.
       case cc_get P url (request @ validator_headers validators) of
         Inl error \<Rightarrow>
           Inl (with_help (with_source (error_transport
             [Lit (''fetching A2A Agent Card from '' @ url @ '' failed'')]) error)
             ''Verify the agent base URL, local network access, and TLS configuration.'')
       | Inr response \<Rightarrow> agent_card_response P url (sp_protocol_version service_parameters) response))))"

end
