(* ===== verification/Cli_Auth.thy ===== *)
theory Cli_Auth
  imports Store_Commands A2a_Card Core_Config
begin

text \<open>
  \<open>crates/missive-cli/src/auth.rs\<close>: the authentication headers of a request to an agent, from its
  authentication reference (an environment variable or the platform's keyring), the flag that names
  a bearer token's variable, and the headers given as flags.

  Record \<open>cli_world\<close> holds what a command of the command line takes from outside: the engine, the
  URL parser, the times SQLite records (one per statement of the command, in order), the random part
  of a new event's id, the A2A library's client, the keyring of a build that has one, the process
  environment, the global flags and the readings of the clock.
\<close>

record keyring =
  keyring_open :: "string \<Rightarrow> string \<Rightarrow> std_error option"
  keyring_password :: "string \<Rightarrow> string \<Rightarrow> std_error + string"

record 'dt cli_world =
  cli_engine :: "'dt engine"
  cli_parse_url :: "string \<Rightarrow> std_error + url_parts"
  cli_stamp :: "nat \<Rightarrow> string"
  cli_message_id :: string
  cli_cards :: "json card_client"
  cli_keyring :: "keyring option"
  cli_environment :: "(string, string) btree_map"
  cli_globals :: GlobalArgs
  cli_now :: "nat \<Rightarrow> 'dt"

subsection \<open>Secrets\<close>

definition ENV_NAME_HELP :: string where
  "ENV_NAME_HELP = ''Pass an environment variable name, not the token value.''"

definition cli_validate_env_var_name :: "message \<Rightarrow> string \<Rightarrow> unit outcome" where
  "cli_validate_env_var_name source value =
     (if value = [] then Inl (error_validation (source @ [Lit '' must name a non-empty environment variable'']))
      else if \<not> (is_ascii_alphabetic (hd value) \<or> hd value = CHR ''_'') then
        Inl (with_help (error_validation
          (source @ [Lit '' environment variable name must start with an ASCII letter or underscore''])) ENV_NAME_HELP)
      else
        fail_if (list_ex (\<lambda>b. \<not> (is_ascii_alphanumeric b \<or> b = CHR ''_'')) value)
          (with_help (error_validation
            (source @ [Lit '' environment variable name must contain only ASCII letters, digits, and underscore'']))
            ENV_NAME_HELP))"

definition required_env_secret ::
  "message \<Rightarrow> string \<Rightarrow> (string, string) btree_map \<Rightarrow> string outcome" where
  "required_env_secret source env_name environment =
     and_then (cli_validate_env_var_name source env_name) (\<lambda>_.
     and_then
       (ok_or (bm_get env_name environment)
         (with_help (error_auth
           ([Lit ''environment variable '', Dbg env_name, Lit '' required by ''] @ source @ [Lit '' is not set'']))
           ''Set the environment variable before retrying; do not put the token in config or SQLite.''))
     (\<lambda>value.
       if trim value = [] then
         Inl (with_help (error_auth
           ([Lit ''environment variable '', Dbg env_name, Lit '' required by ''] @ source @ [Lit '' is empty'']))
           ''Set the environment variable to a non-empty token before retrying.'')
       else Inr value))"

definition resolve_keyring_secret :: "keyring option \<Rightarrow> string \<Rightarrow> string \<Rightarrow> string \<Rightarrow> string outcome" where
  "resolve_keyring_secret K auth_ref_name service account =
     (case K of
        None \<Rightarrow>
          Inl (with_help (error_auth
            [Lit ''auth ref '', Dbg auth_ref_name,
             Lit '' is keyring-backed, but this missive binary was built without native keyring support''])
            ''Rebuild with the native-keyring feature or use an env-backed auth ref.'')
      | Some k \<Rightarrow>
          (case keyring_open k service account of
             Some error \<Rightarrow>
               Inl (with_help (with_source (error_auth
                 [Lit ''could not open platform keyring entry for auth ref '', Dbg auth_ref_name]) error)
                 ''Ensure this missive build supports the platform keyring and that the service/account names are valid.'')
           | None \<Rightarrow>
               (case keyring_password k service account of
                  Inl error \<Rightarrow>
                    Inl (with_help (with_source (error_auth
                      [Lit ''keyring token for auth ref '', Dbg auth_ref_name, Lit '' is unavailable'']) error)
                      ''Provision the token in the platform keyring or choose an env-backed auth ref.'')
                | Inr secret \<Rightarrow>
                    if trim secret = [] then
                      Inl (with_help (error_auth
                        [Lit ''keyring token for auth ref '', Dbg auth_ref_name, Lit '' is empty''])
                        ''Update the platform keyring entry to contain a non-empty token.'')
                    else Inr secret)))"

subsection \<open>Headers\<close>

definition insert_auth_secret ::
  "http_headers \<Rightarrow> string \<Rightarrow> string option \<Rightarrow> string \<Rightarrow> AuthHeaders \<Rightarrow> AuthHeaders outcome" where
  "insert_auth_secret H header_name scheme secret headers =
     auth_headers_insert H header_name
       (case scheme of
          Some s \<Rightarrow> if s \<noteq> [] then s @ '' '' @ secret else secret
        | None \<Rightarrow> secret) headers"

definition UPDATE_AUTH_REFS :: string where
  "UPDATE_AUTH_REFS = ''Update [auth_refs] in the loaded config.''"

definition auth_ref_secret :: "'dt cli_world \<Rightarrow> 'dt AuthRefRecord \<Rightarrow> string outcome" where
  "auth_ref_secret W r =
     (case authref_kind r of
        SAuth_Env \<Rightarrow>
          and_then (ok_or (authref_env_var r)
            (with_help (error_auth
              [Lit ''auth ref '', Dbg (authref_name r), Lit '' is environment-backed but has no env_var''])
              UPDATE_AUTH_REFS))
          (\<lambda>env_name. required_env_secret [Lit ''auth ref '', Dbg (authref_name r)] env_name (cli_environment W))
      | SAuth_Keyring \<Rightarrow>
          and_then (ok_or (authref_keyring_service r)
            (with_help (error_auth
              [Lit ''auth ref '', Dbg (authref_name r), Lit '' is keyring-backed but has no keyring_service''])
              UPDATE_AUTH_REFS)) (\<lambda>service.
          and_then (ok_or (authref_keyring_account r)
            (with_help (error_auth
              [Lit ''auth ref '', Dbg (authref_name r), Lit '' is keyring-backed but has no keyring_account''])
              UPDATE_AUTH_REFS)) (\<lambda>account.
            resolve_keyring_secret (cli_keyring W) (authref_name r) service account))
      | SAuth_External \<Rightarrow>
          Inl (with_help (error_auth
            [Lit ''auth ref '', Dbg (authref_name r),
             Lit '' uses external secret storage that this CLI cannot resolve yet''])
            ''Use an env or keyring auth ref, or pass --bearer-token-env/--header.''))"

definition apply_auth_ref :: "'dt cli_world \<Rightarrow> 'dt AuthRefRecord \<Rightarrow> AuthHeaders \<Rightarrow> AuthHeaders outcome" where
  "apply_auth_ref W r headers =
     and_then (auth_ref_secret W r) (\<lambda>secret.
       insert_auth_secret (cc_headers (cli_cards W)) (authref_header_name r) (authref_scheme r) secret headers)"

definition config_auth_ref_secret :: "'dt cli_world \<Rightarrow> string \<Rightarrow> AuthRefConfig \<Rightarrow> string outcome" where
  "config_auth_ref_secret W name c =
     (case auth_kind c of
        AuthEnv \<Rightarrow>
          and_then (ok_or (auth_env c)
            (with_help (error_auth [Lit ''configured environment auth ref has no env variable'']) UPDATE_AUTH_REFS))
          (\<lambda>env_name. required_env_secret [Lit ''configured auth ref''] env_name (cli_environment W))
      | AuthKeyring \<Rightarrow>
          and_then (ok_or (auth_keyring_service c)
            (with_help (error_auth [Lit ''configured keyring auth ref has no keyring_service'']) UPDATE_AUTH_REFS))
          (\<lambda>service.
          and_then (ok_or (auth_keyring_account c)
            (with_help (error_auth [Lit ''configured keyring auth ref has no keyring_account'']) UPDATE_AUTH_REFS))
          (\<lambda>account. resolve_keyring_secret (cli_keyring W) name service account)))"

definition apply_config_auth_ref ::
  "'dt cli_world \<Rightarrow> string \<Rightarrow> AuthRefConfig \<Rightarrow> AuthHeaders \<Rightarrow> AuthHeaders outcome" where
  "apply_config_auth_ref W name c headers =
     and_then (config_auth_ref_secret W name c) (\<lambda>secret.
       insert_auth_secret (cc_headers (cli_cards W)) (auth_header c) (Some (auth_scheme c)) secret headers)"

text \<open>The flag's text up to its first colon and the rest, trimmed.\<close>

definition parse_header_arg :: "string \<Rightarrow> (string \<times> string) outcome" where
  "parse_header_arg value =
     (case split_colon value of
        None \<Rightarrow>
          Inl (error_validation
            [Lit ''--header must use Name:Value syntax with a non-empty HTTP header name and value''])
      | Some (name, header_value) \<Rightarrow>
          if trim name = [] \<or> trim header_value = [] then
            Inl (error_validation [Lit ''--header must include a non-empty HTTP header name and value''])
          else Inr (trim name, trim header_value))"

fun apply_header_args :: "http_headers \<Rightarrow> string list \<Rightarrow> AuthHeaders \<Rightarrow> AuthHeaders outcome" where
  "apply_header_args H [] headers = Inr headers"
| "apply_header_args H (value # values) headers =
     and_then (parse_header_arg value) (\<lambda>(name, header_value).
     and_then (auth_headers_insert H name header_value headers) (apply_header_args H values))"

definition apply_global_auth_headers :: "'dt cli_world \<Rightarrow> AuthHeaders \<Rightarrow> AuthHeaders outcome" where
  "apply_global_auth_headers W headers =
     and_then
       (case globals_bearer_token_env (cli_globals W) of
          None \<Rightarrow> Inr headers
        | Some env_name \<Rightarrow>
            and_then (cli_validate_env_var_name [Lit ''--bearer-token-env''] env_name) (\<lambda>_.
            and_then (required_env_secret [Lit ''--bearer-token-env''] env_name (cli_environment W)) (\<lambda>secret.
              auth_headers_insert (cc_headers (cli_cards W)) ''Authorization'' (''Bearer '' @ secret) headers)))
       (apply_header_args (cc_headers (cli_cards W)) (globals_headers (cli_globals W)))"

definition auth_headers_for_agent :: "'dt cli_world \<Rightarrow> 'dt AgentRecord \<Rightarrow> AuthHeaders store_op" where
  "auth_headers_for_agent W agent =
     db_bind
       (case ag_auth_ref_name agent of
          None \<Rightarrow> db_return []
        | Some auth_ref_name \<Rightarrow>
            db_bind (get_auth_ref (cli_engine W) auth_ref_name) (\<lambda>found.
            db_bind (db_outcome (ok_or found
              (with_help (error_auth
                [Lit ''agent '', Dbg (ag_alias agent), Lit '' references missing auth ref '', Dbg auth_ref_name])
                ''Add the auth ref to the loaded config or update the agent registry entry.''))) (\<lambda>auth_ref.
              db_outcome (apply_auth_ref W auth_ref []))))
       (\<lambda>headers. db_outcome (apply_global_auth_headers W headers))"

definition auth_headers_for_config_agent ::
  "'dt cli_world \<Rightarrow> LoadedConfig \<Rightarrow> string \<Rightarrow> AuthHeaders outcome" where
  "auth_headers_for_config_agent W loaded agent_alias =
     and_then (ok_or (bm_get agent_alias (cfg_agents (loaded_config loaded)))
       (error_config [Lit ''agent '', Dbg agent_alias, Lit '' is not configured''])) (\<lambda>agent.
     and_then
       (case agent_auth_ref agent of
          None \<Rightarrow> Inr []
        | Some auth_ref_name \<Rightarrow>
            and_then (ok_or (bm_get auth_ref_name (cfg_auth_refs (loaded_config loaded)))
              (with_help (error_auth
                [Lit ''configured agent '', Dbg agent_alias, Lit '' references missing auth ref''])
                ''Add the auth ref to the loaded config or remove the agent auth_ref.'')) (\<lambda>auth_ref.
              apply_config_auth_ref W auth_ref_name auth_ref []))
       (apply_global_auth_headers W))"

end
