(* ===== verification/Cli_Redaction.thy ===== *)
theory Cli_Redaction
  imports Core_Config_Redaction
begin

text \<open>
  Redaction of secrets in free text and in JSON values: \<open>redact_text\<close> and \<open>redact_json\<close> of
  \<open>crates/missive-cli/src/output.rs\<close>, and \<open>redact_text\<close> and \<open>redact_json_value\<close> of
  \<open>crates/missive-observe/src/lib.rs\<close>.  The two versions of \<open>redact_text\<close> differ only in how they
  skip an unquoted secret value; the pass over authentication schemes is the one of the
  configuration's redaction, with one more scheme.

  The scan works on the characters of the text, each kept as its bytes, and sees the characters
  left and whether the one before them is part of a key.
\<close>

datatype redactor = Cli_Output | Observe_Log

type_synonym characters = "string list"

subsection \<open>Characters\<close>

definition REDACTED_chars :: characters where
  "REDACTED_chars = map (\<lambda>c. [c]) CONFIG_REDACTED"

definition char_in :: "string \<Rightarrow> string \<Rightarrow> bool" where
  "char_in character set_of \<longleftrightarrow> (\<exists>c \<in> set set_of. character = [c])"

definition is_space_character :: "string \<Rightarrow> bool" where
  "is_space_character character \<longleftrightarrow> is_whitespace (code_point character)"

definition is_key_character :: "string \<Rightarrow> bool" where
  "is_key_character character \<longleftrightarrow>
     (case character of [c] \<Rightarrow> is_ascii_alphanumeric c \<or> c = CHR ''_'' \<or> c = CHR ''-'' | _ \<Rightarrow> False)"

definition is_quote :: "string \<Rightarrow> bool" where
  "is_quote character \<longleftrightarrow> char_in character [CHR 0x22, CHR 0x27]"

definition is_separator :: "string \<Rightarrow> bool" where
  "is_separator character \<longleftrightarrow> char_in character ''=:''"

definition is_unquoted_secret_delimiter :: "string \<Rightarrow> bool" where
  "is_unquoted_secret_delimiter character \<longleftrightarrow> is_space_character character \<or> char_in character '',;}]''"

subsection \<open>Keys\<close>

definition is_secret_key_normalized :: "string \<Rightarrow> bool" where
  "is_secret_key_normalized normalized \<longleftrightarrow>
     normalized \<in> set secret_names \<or> suffix ''token'' normalized \<or> suffix ''secret'' normalized \<or>
     suffix ''password'' normalized \<or> suffix ''apikey'' normalized"

text \<open>The characters of the key that starts here, when it is a secret one.\<close>

definition secret_key_at :: "bool \<Rightarrow> characters \<Rightarrow> characters option" where
  "secret_key_at after_key cs =
     (if after_key then None
      else
        let key = takeWhile is_key_character cs
        in if key = [] then None
           else if is_secret_key_normalized (to_ascii_lowercase (filter is_ascii_alphanumeric (concat key)))
           then Some key else None)"

text \<open>The part of the text up to the separator after a secret key, and what follows it.\<close>

definition split_quote :: "characters \<Rightarrow> characters \<times> characters" where
  "split_quote cs = (case cs of c # cs' \<Rightarrow> if is_quote c then ([c], cs') else ([], cs) | [] \<Rightarrow> ([], []))"

definition secret_assignment_at :: "bool \<Rightarrow> characters \<Rightarrow> (characters \<times> characters) option" where
  "secret_assignment_at after_key cs =
     (case secret_key_at after_key cs of
        None \<Rightarrow> None
      | Some key \<Rightarrow>
          (case split_quote (dropWhile is_key_character cs) of (quote, rest) \<Rightarrow>
            (case dropWhile is_space_character rest of
               sep # left \<Rightarrow>
                 if is_separator sep then Some (key @ quote @ takeWhile is_space_character rest @ [sep], left) else None
             | [] \<Rightarrow> None)))"

subsection \<open>Values\<close>

definition starts_with_ignore_case :: "string \<Rightarrow> characters \<Rightarrow> bool" where
  "starts_with_ignore_case needle cs \<longleftrightarrow>
     length needle \<le> length cs \<and>
     list_all2 (\<lambda>n c. case c of [b] \<Rightarrow> ascii_lower b = ascii_lower n | _ \<Rightarrow> False) needle (take (length needle) cs)"

definition output_schemes :: "string list" where
  "output_schemes = [''Bearer'', ''Basic'', ''Token'', ''ApiKey'', ''Api-Key'']"

definition scheme_at :: "characters \<Rightarrow> string \<Rightarrow> bool" where
  "scheme_at cs scheme \<longleftrightarrow>
     starts_with_ignore_case scheme cs \<and>
     (case drop (length scheme) cs of c # _ \<Rightarrow> is_space_character c | [] \<Rightarrow> False)"

definition auth_scheme_len_at :: "characters \<Rightarrow> nat option" where
  "auth_scheme_len_at cs = map_option length (List.find (scheme_at cs) output_schemes)"

definition skip_to_delimiter :: "characters \<Rightarrow> characters \<times> characters" where
  "skip_to_delimiter cs =
     (takeWhile (\<lambda>c. \<not> is_unquoted_secret_delimiter c) cs, dropWhile (\<lambda>c. \<not> is_unquoted_secret_delimiter c) cs)"

definition skip_redacted_or :: "(characters \<Rightarrow> characters \<times> characters) \<Rightarrow> characters \<Rightarrow> characters \<times> characters" where
  "skip_redacted_or otherwise cs =
     (if prefix REDACTED_chars cs then (REDACTED_chars, drop (length REDACTED_chars) cs) else otherwise cs)"

definition skip_after :: "nat \<Rightarrow> (characters \<Rightarrow> characters \<times> characters) \<Rightarrow> characters \<Rightarrow> characters \<times> characters" where
  "skip_after n f cs = (case f (drop n cs) of (skipped, rest) \<Rightarrow> (take n cs @ skipped, rest))"

text \<open>What is skipped of an unquoted value, and what is left.\<close>

definition skip_unquoted_secret_value :: "characters \<Rightarrow> characters \<times> characters" where
  "skip_unquoted_secret_value =
     skip_redacted_or (\<lambda>cs.
       case auth_scheme_len_at cs of
         Some n \<Rightarrow>
           skip_after (n + length (takeWhile is_space_character (drop n cs)))
             (skip_redacted_or skip_to_delimiter) cs
       | None \<Rightarrow> skip_to_delimiter cs)"

definition skip_value :: "redactor \<Rightarrow> characters \<Rightarrow> characters \<times> characters" where
  "skip_value r = (case r of Cli_Output \<Rightarrow> skip_unquoted_secret_value | Observe_Log \<Rightarrow> skip_to_delimiter)"

lemma skip_to_delimiter_length: "length (snd (skip_to_delimiter cs)) \<le> length cs"
  by (simp add: skip_to_delimiter_def length_dropWhile_le)

lemma skip_redacted_or_length:
  "(\<And>cs. length (snd (f cs)) \<le> length cs) \<Longrightarrow> length (snd (skip_redacted_or f cs)) \<le> length cs"
  by (simp add: skip_redacted_or_def)

lemma skip_after_length:
  "(\<And>cs. length (snd (f cs)) \<le> length cs) \<Longrightarrow> length (snd (skip_after n f cs)) \<le> length cs"
  by (metis (no_types, lifting) skip_after_def case_prod_beta snd_conv le_trans length_drop diff_le_self)

lemma skip_value_length: "length (snd (skip_value r cs)) \<le> length cs"
proof -
  have "length (snd (skip_unquoted_secret_value cs)) \<le> length cs"
    unfolding skip_unquoted_secret_value_def
    by (rule skip_redacted_or_length)
      (simp split: option.splits add: skip_to_delimiter_length skip_after_length skip_redacted_or_length)
  then show ?thesis by (simp add: skip_value_def skip_to_delimiter_length split: redactor.splits)
qed

lemma split_quote_append: "split_quote cs = (quote, rest) \<Longrightarrow> cs = quote @ rest"
  by (auto simp: split_quote_def split: list.splits if_splits)

lemma secret_assignment_split:
  assumes "secret_assignment_at p cs = Some (head, rest)"
  shows "cs = head @ rest" "head \<noteq> []"
proof -
  obtain key quote r sep where a: "secret_key_at p cs = Some key" "split_quote (dropWhile is_key_character cs) = (quote, r)"
    "dropWhile is_space_character r = sep # rest" "head = key @ quote @ takeWhile is_space_character r @ [sep]"
    using assms by (auto simp: secret_assignment_at_def split: option.splits prod.splits list.splits if_splits)
  have "key = takeWhile is_key_character cs" using a(1) by (auto simp: secret_key_at_def Let_def split: if_splits)
  moreover have "r = takeWhile is_space_character r @ sep # rest" using a(3) by (metis takeWhile_dropWhile_id)
  ultimately show "cs = head @ rest"
    using split_quote_append [OF a(2)] a(4) by (metis append.assoc append_Cons append_Nil takeWhile_dropWhile_id)
  show "head \<noteq> []" using a(4) by simp
qed

lemma value_shrinks:
  assumes "secret_assignment_at p (c # cs) = Some (head, rest)"
  shows "length rest < Suc (length cs)"
  using secret_assignment_split [OF assms]
  by (metis length_Cons length_append length_greater_0_conv less_add_same_cancel2)

lemma skip_value_shrinks: "(skipped, left) = skip_value r (dropWhile P rest) \<Longrightarrow> length left \<le> length rest"
  using skip_value_length [of r "dropWhile P rest"] length_dropWhile_le [of P rest] by (metis snd_conv le_trans)

lemma dropWhile_shrinks: "dropWhile P cs = c # left \<Longrightarrow> length left < length cs"
  "c # left = dropWhile P cs \<Longrightarrow> length left < length cs"
  using length_dropWhile_le [of P cs] by (simp_all flip: length_Cons) (metis length_Cons Suc_le_lessD)+

subsection \<open>The scan\<close>

function redact_scan :: "redactor \<Rightarrow> bool \<Rightarrow> characters \<Rightarrow> characters" where
  "redact_scan r after_key [] = []"
| "redact_scan r after_key (c # cs) =
     (case secret_assignment_at after_key (c # cs) of
        None \<Rightarrow> c # redact_scan r (is_key_character c) cs
      | Some (head, rest) \<Rightarrow>
          let spaces = takeWhile is_space_character rest;
              value = dropWhile is_space_character rest
          in head @ spaces @
             (case value of
                [] \<Rightarrow> REDACTED_chars
              | q # quoted \<Rightarrow>
                  if is_quote q then
                    q # REDACTED_chars @
                    (case dropWhile (\<lambda>c. c \<noteq> q) quoted of
                       [] \<Rightarrow> []
                     | q' # left \<Rightarrow> q' # redact_scan r (is_key_character q') left)
                  else
                    (case skip_value r value of (skipped, left) \<Rightarrow>
                       REDACTED_chars @ redact_scan r (is_key_character (last (head @ spaces @ skipped))) left)))"
  by pat_completeness auto
termination
  by (relation "measure (\<lambda>(r, p, cs). length cs)")
    (auto dest!: value_shrinks dest: skip_value_shrinks simp del: last_append, fastforce dest!: dropWhile_shrinks)

declare redact_scan.simps [simp del]

definition redact_secret_assignments :: "redactor \<Rightarrow> string \<Rightarrow> string" where
  "redact_secret_assignments r input = concat (redact_scan r False (char_chunks input))"

definition redact_text :: "redactor \<Rightarrow> string \<Rightarrow> string" where
  "redact_text r input =
     redact_secret_assignments r (fold (\<lambda>scheme output. redact_after_auth_scheme output scheme) output_schemes input)"

subsection \<open>JSON values\<close>

definition cli_redact_header :: "string \<Rightarrow> string \<Rightarrow> string" where
  "cli_redact_header name value =
     (if is_secret_key name then redact_header_value value else redact_text Cli_Output value)"

function (sequential) cli_redact_json :: "json \<Rightarrow> json"
  and cli_redact_items :: "json list \<Rightarrow> json list"
  and cli_redact_json_object :: "(string \<times> json) list \<Rightarrow> bool \<Rightarrow> (string \<times> json) list \<Rightarrow> (string \<times> json) list"
  and cli_redact_header_json_value :: "string \<Rightarrow> json \<Rightarrow> json" where
  "cli_redact_json (JObject entries) = JObject (cli_redact_json_object entries False [])"
| "cli_redact_json (JArray items) = JArray (cli_redact_items items)"
| "cli_redact_json (JString text) = JString (redact_text Cli_Output text)"
| "cli_redact_json other = other"
| "cli_redact_items [] = []"
| "cli_redact_items (v # vs) = cli_redact_json v # cli_redact_items vs"
| "cli_redact_json_object [] headers_context redacted = redacted"
| "cli_redact_json_object ((key, v) # entries) headers_context redacted =
     (let value =
        (if headers_context then cli_redact_header_json_value key v
         else if is_secret_key key then JString CONFIG_REDACTED
         else if is_headers_key key then
           (case v of JObject headers \<Rightarrow> JObject (cli_redact_json_object headers True [])
                    | other \<Rightarrow> cli_redact_json other)
         else cli_redact_json v)
      in cli_redact_json_object entries headers_context (bm_insert key value redacted))"
| "cli_redact_header_json_value name (JString text) = JString (cli_redact_header name text)"
| "cli_redact_header_json_value name other =
     (if is_secret_key name then JString CONFIG_REDACTED else cli_redact_json other)"
  by pat_completeness auto
termination
  by (relation "measure (\<lambda>x. case x of
      Inl (Inl v) \<Rightarrow> 2 * size v
    | Inl (Inr vs) \<Rightarrow> 2 * size_list size vs
    | Inr (Inl (es, b, acc)) \<Rightarrow> 2 * size_list (size_prod (\<lambda>x. 0) size) es + 1
    | Inr (Inr (n, v)) \<Rightarrow> 2 * size v + 1)") auto

fun observe_redact_json_value :: "json \<Rightarrow> json" where
  "observe_redact_json_value (JObject es) =
     JObject (bm_extend []
       (map (\<lambda>(key, v). (key, if is_secret_key key then JString CONFIG_REDACTED else observe_redact_json_value v)) es))"
| "observe_redact_json_value (JArray vs) = JArray (map observe_redact_json_value vs)"
| "observe_redact_json_value (JString text) = JString (redact_text Observe_Log text)"
| "observe_redact_json_value other = other"

subsection \<open>Where the scan stops\<close>

text \<open>A word: a secret key with its separator and value, or the end of one.\<close>

definition word :: "characters \<Rightarrow> bool" where
  "word w \<longleftrightarrow>
     w \<noteq> [] \<and> is_key_character (hd w) \<and> (\<forall>c \<in> set w. \<not> is_unquoted_secret_delimiter c \<and> \<not> is_quote c) \<and>
     (\<exists>c \<in> set w. is_separator c)"

definition ends_word :: "characters \<Rightarrow> bool" where
  "ends_word rest \<longleftrightarrow> rest = [] \<or> is_unquoted_secret_delimiter (hd rest)"

lemma key_not_delimiter:
  "is_key_character c \<Longrightarrow> \<not> is_unquoted_secret_delimiter c"
  "is_key_character c \<Longrightarrow> \<not> is_quote c" "is_key_character c \<Longrightarrow> \<not> is_separator c"
  by (auto simp: is_key_character_def is_unquoted_secret_delimiter_def is_quote_def is_separator_def char_in_def
      is_space_character_def is_whitespace_def is_ascii_alphanumeric_def is_ascii_alphabetic_def
      is_ascii_lowercase_def is_ascii_uppercase_def is_ascii_digit_def split: list.splits)

lemma space_delimiter: "is_space_character c \<Longrightarrow> is_unquoted_secret_delimiter c"
  by (simp add: is_unquoted_secret_delimiter_def)

lemma quote_not_key: "is_quote c \<Longrightarrow> \<not> is_key_character c"
  using key_not_delimiter(2) by blast

lemma no_straddle:
  assumes "word w" "0 < n" "n \<le> length (p @ w @ rest)" "is_unquoted_secret_delimiter ((p @ w @ rest) ! (n - 1))"
    "\<And>i. i < n - 1 \<Longrightarrow> \<not> is_separator ((p @ w @ rest) ! i)"
  shows "n \<le> length p"
proof (rule ccontr)
  assume "\<not> n \<le> length p"
  then have "length p \<le> n - 1" by simp
  moreover obtain j where j: "j < length w" "is_separator (w ! j)"
    using assms(1) by (auto simp: word_def in_set_conv_nth)
  moreover have "length p + length w \<le> n - 1"
  proof (rule ccontr)
    assume "\<not> length p + length w \<le> n - 1"
    then have "(p @ w @ rest) ! (n - 1) \<in> set w"
      using \<open>length p \<le> n - 1\<close> by (auto simp: nth_append)
    then show False using assms(1,4) by (auto simp: word_def)
  qed
  ultimately have "length p + j < n - 1" "(p @ w @ rest) ! (length p + j) = w ! j" by (auto simp: nth_append)
  then show False using assms(5) j(2) by metis
qed

lemma prefix_REDACTED_word:
  assumes "word w"
  shows "prefix REDACTED_chars (p @ w @ rest) \<longleftrightarrow> prefix REDACTED_chars p"
proof
  assume pre: "prefix REDACTED_chars (p @ w @ rest)"
  have len: "length REDACTED_chars = 10" by (simp add: REDACTED_chars_def CONFIG_REDACTED_def)
  have nth: "(p @ w @ rest) ! i = REDACTED_chars ! i" if "i < 10" for i
    using pre that len by (metis nth_append prefix_def)
  have "10 \<le> length p"
  proof (rule no_straddle [OF assms])
    show "10 \<le> length (p @ w @ rest)" using pre len by (metis prefix_length_le)
    show "is_unquoted_secret_delimiter ((p @ w @ rest) ! (10 - 1))"
      by (subst nth) (simp_all add: REDACTED_chars_def CONFIG_REDACTED_def is_unquoted_secret_delimiter_def char_in_def)
    show "\<not> is_separator ((p @ w @ rest) ! i)" if "i < 10 - 1" for i
    proof -
      have "\<forall>c \<in> set REDACTED_chars. \<not> is_separator c" by code_simp
      then show ?thesis using nth [of i] that len by (metis nth_mem diff_less less_trans zero_less_one zero_less_numeral)
    qed
  qed simp
  then show "prefix REDACTED_chars p"
    using pre len by (auto simp: prefix_def) (metis append_eq_append_conv_if append_take_drop_id)
qed (auto simp: prefix_def)

lemma scheme_at_nth:
  "scheme_at cs scheme \<longleftrightarrow>
     length scheme < length cs \<and> is_space_character (cs ! length scheme) \<and>
     (\<forall>i < length scheme. case cs ! i of [b] \<Rightarrow> ascii_lower b = ascii_lower (scheme ! i) | _ \<Rightarrow> False)"
proof (cases "length scheme < length cs")
  case True
  then have "drop (length scheme) cs = cs ! length scheme # drop (Suc (length scheme)) cs"
    by (rule Cons_nth_drop_Suc [symmetric])
  with True show ?thesis
    by (auto simp: scheme_at_def starts_with_ignore_case_def list_all2_conv_all_nth)
next
  case False
  then show ?thesis by (auto simp: scheme_at_def starts_with_ignore_case_def split: list.splits)
qed

lemma scheme_char_not_separator:
  assumes "scheme \<in> set output_schemes" "i < length scheme"
    "case c of [b] \<Rightarrow> ascii_lower b = ascii_lower (scheme ! i) | _ \<Rightarrow> False"
  shows "\<not> is_separator c"
proof
  assume "is_separator c"
  then have "c = ''='' \<or> c = '':''" by (auto simp: is_separator_def char_in_def)
  then have "ascii_lower (scheme ! i) \<in> {CHR ''='', CHR '':''}"
    using assms(3) by (auto simp: ascii_lower_def is_ascii_uppercase_def)
  moreover have "\<forall>s \<in> set output_schemes. \<forall>c \<in> set s. ascii_lower c \<notin> {CHR ''='', CHR '':''}" by code_simp
  ultimately show False using assms(1,2) nth_mem by blast
qed

lemma scheme_at_word:
  assumes "word w" "scheme \<in> set output_schemes"
  shows "scheme_at (p @ w @ rest) scheme \<longleftrightarrow> scheme_at p scheme"
proof
  assume at: "scheme_at (p @ w @ rest) scheme"
  have "Suc (length scheme) \<le> length p"
  proof (rule no_straddle [OF assms(1)])
    show "Suc (length scheme) \<le> length (p @ w @ rest)" using at by (simp add: scheme_at_nth)
    show "is_unquoted_secret_delimiter ((p @ w @ rest) ! (Suc (length scheme) - 1))"
      using at by (simp add: scheme_at_nth space_delimiter)
    show "\<not> is_separator ((p @ w @ rest) ! i)" if "i < Suc (length scheme) - 1" for i
      using at that scheme_char_not_separator [OF assms(2), of i] unfolding scheme_at_nth by simp
  qed simp
  then show "scheme_at p scheme" using at unfolding scheme_at_nth by (auto simp: nth_append)
qed (auto simp: scheme_at_nth nth_append)

lemma auth_scheme_len_word: "word w \<Longrightarrow> auth_scheme_len_at (p @ w @ rest) = auth_scheme_len_at p"
  unfolding auth_scheme_len_at_def
  by (rule arg_cong [of _ _ "map_option length"], rule find_cong) (simp_all add: scheme_at_word)

lemma auth_scheme_len_le: "auth_scheme_len_at p = Some n \<Longrightarrow> n \<le> length p"
  by (auto simp: auth_scheme_len_at_def find_Some_iff scheme_at_nth)

text \<open>What is skipped of a value that starts before a word: part of the text before the word, or all of
  it and the word.\<close>

definition skips :: "(characters \<Rightarrow> characters \<times> characters) \<Rightarrow> characters \<Rightarrow> bool" where
  "skips f p \<longleftrightarrow>
     (\<exists>a q. p = a @ q \<and> (q = [] \<longrightarrow> a \<noteq> [] \<and> \<not> is_key_character (last a)) \<and>
        (\<forall>w rest. word w \<longrightarrow> ends_word rest \<longrightarrow> f (p @ w @ rest) = (a, q @ w @ rest))) \<or>
     (\<forall>w rest. word w \<longrightarrow> ends_word rest \<longrightarrow> f (p @ w @ rest) = (p @ w, rest))"

lemma skips_part:
  assumes "p = a @ q" "q = [] \<Longrightarrow> a \<noteq> [] \<and> \<not> is_key_character (last a)"
    "\<And>w rest. word w \<Longrightarrow> ends_word rest \<Longrightarrow> f (p @ w @ rest) = (a, q @ w @ rest)"
  shows "skips f p"
  unfolding skips_def using assms by (intro disjI1 exI [of _ a] exI [of _ q]) blast

lemma skips_all: "(\<And>w rest. word w \<Longrightarrow> ends_word rest \<Longrightarrow> f (p @ w @ rest) = (p @ w, rest)) \<Longrightarrow> skips f p"
  by (simp add: skips_def)

lemma skips_cases:
  assumes "skips f p"
  obtains (part) a q where "p = a @ q" "q = [] \<Longrightarrow> a \<noteq> [] \<and> \<not> is_key_character (last a)"
      "\<And>w rest. word w \<Longrightarrow> ends_word rest \<Longrightarrow> f (p @ w @ rest) = (a, q @ w @ rest)"
    | (all) "\<And>w rest. word w \<Longrightarrow> ends_word rest \<Longrightarrow> f (p @ w @ rest) = (p @ w, rest)"
  using assms unfolding skips_def by blast

lemma skips_cong: "skips f p \<Longrightarrow> (\<And>w rest. word w \<Longrightarrow> g (p @ w @ rest) = f (p @ w @ rest)) \<Longrightarrow> skips g p"
  unfolding skips_def by simp

lemma skips_to_delimiter: "skips skip_to_delimiter p"
proof (cases "\<exists>c \<in> set p. is_unquoted_secret_delimiter c")
  case True
  let ?a = "takeWhile (\<lambda>c. \<not> is_unquoted_secret_delimiter c) p"
    and ?q = "dropWhile (\<lambda>c. \<not> is_unquoted_secret_delimiter c) p"
  have "?q \<noteq> []" using True by (simp add: dropWhile_eq_Nil_conv)
  moreover have "skip_to_delimiter (p @ w @ rest) = (?a, ?q @ w @ rest)" for w rest
    using True by (auto simp: skip_to_delimiter_def takeWhile_append1 dropWhile_append1)
  ultimately show ?thesis
    by (intro skips_part [of p ?a ?q, OF takeWhile_dropWhile_id [symmetric]]) blast+
next
  case False
  have "skip_to_delimiter (p @ w @ rest) = (p @ w, rest)" if "word w" "ends_word rest" for w rest
  proof -
    have all: "\<not> is_unquoted_secret_delimiter c" if "c \<in> set (p @ w)" for c
      using False \<open>word w\<close> that by (auto simp: word_def)
    have "takeWhile (\<lambda>c. \<not> is_unquoted_secret_delimiter c) rest = []"
      "dropWhile (\<lambda>c. \<not> is_unquoted_secret_delimiter c) rest = rest"
      using \<open>ends_word rest\<close> by (cases rest; simp add: ends_word_def)+
    then show ?thesis
      using takeWhile_append2 [of "p @ w" "\<lambda>c. \<not> is_unquoted_secret_delimiter c" rest]
        dropWhile_append2 [of "p @ w" "\<lambda>c. \<not> is_unquoted_secret_delimiter c" rest] all
      by (simp add: skip_to_delimiter_def)
  qed
  then show ?thesis by (rule skips_all)
qed

lemma skips_redacted_or:
  assumes "skips f p"
  shows "skips (skip_redacted_or f) p"
proof (cases "prefix REDACTED_chars p")
  case True
  then obtain q where q: "p = REDACTED_chars @ q" by (auto simp: prefix_def)
  have "skip_redacted_or f (p @ w @ rest) = (REDACTED_chars, q @ w @ rest)" if "word w" for w rest
    using prefix_REDACTED_word [OF that, of p rest] True by (simp add: skip_redacted_or_def q)
  moreover have "REDACTED_chars \<noteq> []" "\<not> is_key_character (last REDACTED_chars)" by code_simp+
  ultimately show ?thesis using q by (intro skips_part [of p REDACTED_chars q]) simp_all
next
  case False
  then show ?thesis
    using assms prefix_REDACTED_word [of _ p] by (elim skips_cong) (simp add: skip_redacted_or_def)
qed

lemma skips_after:
  assumes "skips f (drop n p)" "n \<le> length p"
  shows "skips (skip_after n f) p"
proof -
  have after: "skip_after n f (p @ w @ rest) = (case f (drop n p @ w @ rest) of (skipped, left) \<Rightarrow> (take n p @ skipped, left))"
    for w rest using assms(2) by (simp add: skip_after_def)
  show ?thesis using assms(1)
  proof (cases rule: skips_cases)
    case (part a q)
    then have "p = (take n p @ a) @ q" by (metis append.assoc append_take_drop_id)
    then show ?thesis by (rule skips_part) (use part(2,3) in \<open>auto simp: after\<close>)
  next
    case all
    then show ?thesis by (intro skips_all) (simp add: after)
  qed
qed

lemma takeWhile_space_word:
  "word w \<Longrightarrow> takeWhile is_space_character (p @ w @ rest) = takeWhile is_space_character p"
  "word w \<Longrightarrow> dropWhile is_space_character (p @ w @ rest) = dropWhile is_space_character p @ w @ rest"
proof -
  assume w: "word w"
  then obtain c w' where "w = c # w'" "\<not> is_space_character c"
    by (cases w) (auto simp: word_def dest: space_delimiter)
  then show "takeWhile is_space_character (p @ w @ rest) = takeWhile is_space_character p"
    "dropWhile is_space_character (p @ w @ rest) = dropWhile is_space_character p @ w @ rest"
    by (induction p) auto
qed

lemma skips_value: "skips (skip_value r) p"
proof (cases r)
  case Observe_Log
  then show ?thesis by (simp add: skip_value_def skips_to_delimiter)
next
  case Cli_Output
  let ?f = "\<lambda>cs. case auth_scheme_len_at cs of
      Some n \<Rightarrow> skip_after (n + length (takeWhile is_space_character (drop n cs))) (skip_redacted_or skip_to_delimiter) cs
    | None \<Rightarrow> skip_to_delimiter cs"
  have "skips ?f p"
  proof (cases "auth_scheme_len_at p")
    case None
    then show ?thesis
      using auth_scheme_len_word [of _ p] by (intro skips_cong [OF skips_to_delimiter]) simp
  next
    case (Some n)
    note n = auth_scheme_len_le [OF Some]
    let ?k = "n + length (takeWhile is_space_character (drop n p))"
    have "?k \<le> length p" using n length_takeWhile_le [of is_space_character "drop n p"] by simp
    then have "skips (skip_after ?k (skip_redacted_or skip_to_delimiter)) p"
      by (intro skips_after skips_redacted_or skips_to_delimiter) simp_all
    moreover have "?f (p @ w @ rest) = skip_after ?k (skip_redacted_or skip_to_delimiter) (p @ w @ rest)" if "word w" for w rest
      using auth_scheme_len_word [OF that, of p rest] Some n takeWhile_space_word(1) [OF that, of "drop n p" rest] by simp
    ultimately show ?thesis by (rule skips_cong)
  qed
  then show ?thesis
    using skips_redacted_or [of ?f p] by (simp add: Cli_Output skip_value_def skip_unquoted_secret_value_def)
qed

subsection \<open>Secret values do not matter\<close>

lemma scan_flag_irrelevant: "ends_word rest \<Longrightarrow> redact_scan r p rest = redact_scan r q rest"
proof (cases rest)
  case (Cons c cs)
  moreover assume "ends_word rest"
  ultimately have "\<not> is_key_character c" using key_not_delimiter(1) by (auto simp: ends_word_def)
  then have "secret_assignment_at b (c # cs) = None" for b
    by (simp add: secret_assignment_at_def secret_key_at_def)
  then show ?thesis by (simp add: Cons redact_scan.simps)
qed (simp add: redact_scan.simps)

lemma split_quote_word: "ds \<noteq> [] \<Longrightarrow> split_quote ds = (q, l) \<Longrightarrow> split_quote (ds @ xs) = (q, l @ xs)"
  by (auto simp: split_quote_def split: list.splits if_splits)

lemma secret_assignment_word:
  assumes "word w" "p \<noteq> []" "\<not> is_key_character (last p)"
  shows "secret_assignment_at b (p @ w @ rest) =
    map_option (\<lambda>(head, left). (head, left @ w @ rest)) (secret_assignment_at b p)"
proof -
  have ex: "\<exists>c \<in> set p. \<not> is_key_character c" using assms(2,3) last_in_set by blast
  then have key: "takeWhile is_key_character (p @ w @ rest) = takeWhile is_key_character p"
    "dropWhile is_key_character (p @ w @ rest) = dropWhile is_key_character p @ w @ rest"
    by (auto simp: takeWhile_append1 dropWhile_append1)
  have ne: "dropWhile is_key_character p \<noteq> []" using ex by (simp add: dropWhile_eq_Nil_conv)
  obtain q l where q: "split_quote (dropWhile is_key_character p) = (q, l)" by fastforce
  have sq: "split_quote (dropWhile is_key_character p @ w @ rest) = (q, l @ w @ rest)"
    by (rule split_quote_word [OF ne q])
  have "\<not> is_separator (hd w)" "w \<noteq> []" using assms(1) key_not_delimiter(3) by (auto simp: word_def)
  then obtain c w' where w: "w = c # w'" "\<not> is_separator c" by (cases w) auto
  then show ?thesis
    unfolding secret_assignment_at_def secret_key_at_def key Let_def sq q prod.case
      takeWhile_space_word [OF assms(1), of l rest]
    by (cases "dropWhile is_space_character l") (auto simp del: dropWhile_eq_Nil_conv)
qed

lemma scan_Some:
  assumes "secret_assignment_at b cs = Some (head, left)"
  shows "redact_scan r b cs =
    head @ takeWhile is_space_character left @
      (case dropWhile is_space_character left of
         [] \<Rightarrow> REDACTED_chars
       | q # quoted \<Rightarrow>
           if is_quote q then
             q # REDACTED_chars @
             (case dropWhile (\<lambda>c. c \<noteq> q) quoted of [] \<Rightarrow> [] | q' # later \<Rightarrow> q' # redact_scan r (is_key_character q') later)
           else
             (case skip_value r (q # quoted) of (skipped, later) \<Rightarrow>
                REDACTED_chars @
                redact_scan r (is_key_character (last (head @ takeWhile is_space_character left @ skipped))) later))"
proof (cases cs)
  case Nil
  then show ?thesis using assms secret_assignment_split [OF assms] by auto
next
  case (Cons c cs')
  then show ?thesis
    using assms
    by (cases "dropWhile is_space_character left") (simp_all add: redact_scan.simps Let_def del: last_append dropWhile_eq_Nil_conv)
qed

lemma quoted_hidden:
  assumes "is_quote q" "word w" "word w'"
    and "\<And>later. dropWhile (\<lambda>c. c \<noteq> q) quoted = q # later \<Longrightarrow>
      redact_scan r False (later @ w @ rest) = redact_scan r False (later @ w' @ rest)"
  shows "(case dropWhile (\<lambda>c. c \<noteq> q) (quoted @ w @ rest) of [] \<Rightarrow> [] | q' # later \<Rightarrow> q' # redact_scan r (is_key_character q') later) =
    (case dropWhile (\<lambda>c. c \<noteq> q) (quoted @ w' @ rest) of [] \<Rightarrow> [] | q' # later \<Rightarrow> q' # redact_scan r (is_key_character q') later)"
proof (cases "q \<in> set quoted")
  case True
  then obtain later where "dropWhile (\<lambda>c. c \<noteq> q) quoted = q # later"
    by (metis (mono_tags, lifting) dropWhile_eq_Nil_conv hd_dropWhile list.collapse)
  then show ?thesis
    using assms(4) quote_not_key [OF assms(1)] True
    by (auto simp: dropWhile_append1 [of q quoted])
next
  case False
  have skip: "dropWhile (\<lambda>c. c \<noteq> q) (quoted @ x @ rest) = dropWhile (\<lambda>c. c \<noteq> q) rest" if "word x" for x
  proof -
    have "q \<notin> set (quoted @ x)" using False that assms(1) by (auto simp: word_def)
    then have "dropWhile (\<lambda>c. c \<noteq> q) ((quoted @ x) @ rest) = dropWhile (\<lambda>c. c \<noteq> q) rest"
      by (intro dropWhile_append2) blast
    then show ?thesis by simp
  qed
  show ?thesis unfolding skip [OF assms(2)] skip [OF assms(3)] ..
qed

lemma skipped_hidden:
  assumes "word w" "word w'" "ends_word rest"
    and "\<And>a later. p = a @ later \<Longrightarrow> (later = [] \<Longrightarrow> a \<noteq> [] \<and> \<not> is_key_character (last a)) \<Longrightarrow>
      redact_scan r (is_key_character (last (head @ a))) (later @ w @ rest) =
      redact_scan r (is_key_character (last (head @ a))) (later @ w' @ rest)"
  shows "(case skip_value r (p @ w @ rest) of (skipped, later) \<Rightarrow> redact_scan r (is_key_character (last (head @ skipped))) later) =
    (case skip_value r (p @ w' @ rest) of (skipped, later) \<Rightarrow> redact_scan r (is_key_character (last (head @ skipped))) later)"
  using skips_value [of r p]
proof (cases rule: skips_cases)
  case (part a q)
  then show ?thesis using assms by simp
next
  case all
  then show ?thesis using assms(1-3) scan_flag_irrelevant [OF assms(3)] by simp
qed

lemma scan_hidden:
  assumes w: "word w" "word w'" "ends_word rest"
    and base: "redact_scan r False (w @ rest) = redact_scan r False (w' @ rest)"
    and p: "p = [] \<Longrightarrow> \<not> b" "p \<noteq> [] \<Longrightarrow> \<not> is_key_character (last p)"
  shows "redact_scan r b (p @ w @ rest) = redact_scan r b (p @ w' @ rest)"
  using p
proof (induction "length p" arbitrary: p b rule: less_induct)
  case less
  show ?case
  proof (cases p)
    case Nil
    then show ?thesis using base less.prems by simp
  next
    case (Cons c p')
    then have lp: "\<not> is_key_character (last p)" using less.prems by simp
    have sw: "secret_assignment_at b (p @ x @ rest) =
        map_option (\<lambda>(head, left). (head, left @ x @ rest)) (secret_assignment_at b p)" if "word x" for x
      using secret_assignment_word [OF that _ lp] Cons by simp
    show ?thesis
    proof (cases "secret_assignment_at b p")
      case None
      then have "redact_scan r b (p @ x @ rest) = c # redact_scan r (is_key_character c) (p' @ x @ rest)" if "word x" for x
        using sw [OF that] Cons by (simp add: redact_scan.simps)
      moreover have "redact_scan r (is_key_character c) (p' @ w @ rest) = redact_scan r (is_key_character c) (p' @ w' @ rest)"
        using less.hyps [of p' "is_key_character c"] lp Cons by (cases "p' = []") auto
      ultimately show ?thesis using w(1,2) by simp
    next
      case (Some hl)
      then obtain head left where hl: "secret_assignment_at b p = Some (head, left)" by (cases hl) auto
      let ?s = "takeWhile is_space_character left" and ?q = "dropWhile is_space_character left"
      have p_eq: "p = (head @ ?s) @ ?q" "head \<noteq> []" using secret_assignment_split [OF hl] by simp_all
      have step: "redact_scan r x (later @ w @ rest) = redact_scan r x (later @ w' @ rest)"
        if "?q = xs @ later" "later = [] \<Longrightarrow> \<not> x" for x xs later
      proof (rule less.hyps)
        have ys: "p = (head @ ?s @ xs) @ later" unfolding append.assoc that(1) [symmetric] using p_eq(1) by simp
        show "length later < length p" unfolding ys using p_eq(2) by simp
        show "\<not> is_key_character (last later)" if "later \<noteq> []" using lp that unfolding ys by simp
      qed (rule that(2))
      have at: "redact_scan r b (p @ x @ rest) = head @ ?s @
          (case ?q @ x @ rest of
             [] \<Rightarrow> REDACTED_chars
           | q # quoted \<Rightarrow>
               if is_quote q then
                 q # REDACTED_chars @
                 (case dropWhile (\<lambda>c. c \<noteq> q) quoted of [] \<Rightarrow> [] | q' # later \<Rightarrow> q' # redact_scan r (is_key_character q') later)
               else
                 REDACTED_chars @
                 (case skip_value r (?q @ x @ rest) of (skipped, later) \<Rightarrow>
                    redact_scan r (is_key_character (last ((head @ ?s) @ skipped))) later))" if "word x" for x
      proof -
        have "secret_assignment_at b (p @ x @ rest) = Some (head, left @ x @ rest)" using sw [OF that] hl by simp
        note scan_Some [OF this, of r, unfolded takeWhile_space_word [OF that]]
        then show ?thesis
          by (cases "?q @ x @ rest") (simp_all del: last_append dropWhile_eq_Nil_conv split: prod.splits)
      qed
      have sk: "(case skip_value r (?q @ w @ rest) of (skipped, later) \<Rightarrow>
            redact_scan r (is_key_character (last ((head @ ?s) @ skipped))) later) =
          (case skip_value r (?q @ w' @ rest) of (skipped, later) \<Rightarrow>
            redact_scan r (is_key_character (last ((head @ ?s) @ skipped))) later)"
        by (rule skipped_hidden [OF w], rule step, assumption) auto
      show ?thesis
      proof (cases ?q)
        case Nil
        have "\<exists>c y. x = c # y \<and> \<not> is_quote c" if "word x" for x
          using that by (cases x) (auto simp: word_def)
        then obtain c y c' y' where "w = c # y" "\<not> is_quote c" "w' = c' # y'" "\<not> is_quote c'"
          using w(1,2) by metis
        then show ?thesis using sk unfolding at [OF w(1)] at [OF w(2)] Nil by (simp del: last_append)
      next
        case (Cons q quoted)
        show ?thesis
        proof (cases "is_quote q")
          case True
          have "redact_scan r False (later @ w @ rest) = redact_scan r False (later @ w' @ rest)"
            if "dropWhile (\<lambda>c. c \<noteq> q) quoted = q # later" for later
          proof (rule step)
            show "?q = (q # takeWhile (\<lambda>c. c \<noteq> q) quoted @ [q]) @ later"
              using Cons that by (metis append_Cons append_Nil append.assoc takeWhile_dropWhile_id)
          qed simp
          note quoted_hidden [OF True w(1,2) this]
          then show ?thesis using Cons True unfolding at [OF w(1)] at [OF w(2)] by simp
        next
          case False
          then show ?thesis using sk Cons unfolding at [OF w(1)] at [OF w(2)] by (simp del: last_append)
        qed
      qed
    qed
  qed
qed

text \<open>A key that names a secret, and a value that is one word, not quoted, not itself a marker or the
  name of an authentication scheme.\<close>

definition secret_key :: "characters \<Rightarrow> bool" where
  "secret_key key \<longleftrightarrow>
     key \<noteq> [] \<and> (\<forall>c \<in> set key. is_key_character c) \<and>
     is_secret_key_normalized (to_ascii_lowercase (filter is_ascii_alphanumeric (concat key)))"

definition plain_value :: "characters \<Rightarrow> bool" where
  "plain_value v \<longleftrightarrow>
     v \<noteq> [] \<and> hd v \<noteq> ''['' \<and> (\<forall>c \<in> set v. \<not> is_unquoted_secret_delimiter c \<and> \<not> is_quote c) \<and>
     (\<forall>scheme \<in> set output_schemes. \<not> (length scheme = length v \<and> starts_with_ignore_case scheme v))"

lemma scheme_key_characters: "scheme \<in> set output_schemes \<Longrightarrow> c \<in> set scheme \<Longrightarrow> is_key_character [c]"
  by (auto simp: output_schemes_def is_key_character_def is_ascii_alphanumeric_def is_ascii_alphabetic_def
      is_ascii_lowercase_def is_ascii_uppercase_def is_ascii_digit_def)

lemma is_key_character_lower: "is_key_character [ascii_lower c] = is_key_character [c]"
proof (cases "is_ascii_uppercase c")
  case True
  then show ?thesis
    by (simp add: is_key_character_def is_ascii_alphanumeric_def is_ascii_alphabetic_def ascii_lower_def)
      (simp add: is_ascii_uppercase_def is_ascii_lowercase_def)
qed (simp add: ascii_lower_def)

lemma skip_plain_value:
  assumes "plain_value v" "ends_word rest"
  shows "skip_value r (v @ rest) = (v, rest)"
proof -
  have "skip_to_delimiter (v @ rest) = (v, rest)"
  proof -
    have "\<forall>c \<in> set v. \<not> is_unquoted_secret_delimiter c" using assms(1) by (simp add: plain_value_def)
    moreover have "takeWhile (\<lambda>c. \<not> is_unquoted_secret_delimiter c) rest = []"
      "dropWhile (\<lambda>c. \<not> is_unquoted_secret_delimiter c) rest = rest"
      using assms(2) by (cases rest; simp add: ends_word_def)+
    ultimately show ?thesis by (simp add: skip_to_delimiter_def)
  qed
  moreover have "\<not> prefix REDACTED_chars (v @ rest)"
    using assms(1) by (cases v) (auto simp: plain_value_def REDACTED_chars_def CONFIG_REDACTED_def)
  moreover have "auth_scheme_len_at (v @ rest) = None"
  proof -
    have "\<not> scheme_at (v @ rest) scheme" if "scheme \<in> set output_schemes" for scheme
    proof
      assume at: "scheme_at (v @ rest) scheme"
      have "length scheme = length v"
      proof (rule ccontr)
        assume "length scheme \<noteq> length v"
        then consider "length scheme < length v" | "length v < length scheme" by linarith
        then show False
        proof cases
          case 1
          then have "is_space_character (v ! length scheme)" using at by (simp add: scheme_at_nth nth_append)
          then show False using assms(1) 1 nth_mem [OF 1] by (auto simp: plain_value_def dest: space_delimiter)
        next
          case 2
          then have "rest \<noteq> []" using at by (auto simp: scheme_at_nth)
          then have "is_unquoted_secret_delimiter ((v @ rest) ! length v)"
            using assms(2) by (simp add: ends_word_def hd_conv_nth nth_append)
          moreover have "\<not> is_unquoted_secret_delimiter ((v @ rest) ! length v)"
          proof -
            have "case (v @ rest) ! length v of [b] \<Rightarrow> ascii_lower b = ascii_lower (scheme ! length v) | _ \<Rightarrow> False"
              using at 2 unfolding scheme_at_nth by blast
            then obtain b where b: "(v @ rest) ! length v = [b]" "ascii_lower b = ascii_lower (scheme ! length v)"
              by (auto split: list.splits)
            have "is_key_character [ascii_lower b]"
              unfolding b(2) is_key_character_lower by (rule scheme_key_characters [OF that nth_mem [OF 2]])
            then have "is_key_character [b]" by (simp add: is_key_character_lower)
            then show ?thesis using b(1) key_not_delimiter(1) by simp
          qed
          ultimately show False by simp
        qed
      qed
      moreover from this have "starts_with_ignore_case scheme v"
        using at by (simp add: scheme_at_def starts_with_ignore_case_def)
      ultimately show False using that assms(1) unfolding plain_value_def by blast
    qed
    then show ?thesis by (simp add: auth_scheme_len_at_def find_None_iff)
  qed
  ultimately show ?thesis
    by (simp add: skip_value_def skip_unquoted_secret_value_def skip_redacted_or_def split: redactor.splits)
qed

lemma scan_secret:
  assumes "secret_key key" "is_separator sep" "plain_value v" "ends_word rest"
  shows "redact_scan r False (key @ sep # v @ rest) = key @ [sep] @ REDACTED_chars @ redact_scan r False rest"
proof -
  obtain c cs where key: "key = c # cs" using assms(1) by (cases key) (auto simp: secret_key_def)
  have sep: "\<not> is_key_character sep" "\<not> is_quote sep" "\<not> is_space_character sep"
    using assms(2) by (auto simp: is_separator_def char_in_def is_key_character_def is_quote_def
        is_ascii_alphanumeric_def is_ascii_alphabetic_def is_ascii_lowercase_def is_ascii_uppercase_def
        is_ascii_digit_def is_space_character_def is_whitespace_def)
  obtain d ds where v: "v = d # ds" "\<not> is_space_character d" "\<not> is_quote d"
    using assms(3) by (cases v) (auto simp: plain_value_def dest: space_delimiter)
  have "takeWhile is_key_character (key @ sep # v @ rest) = key"
    "dropWhile is_key_character (key @ sep # v @ rest) = sep # v @ rest"
    using assms(1) sep(1) by (auto simp: secret_key_def takeWhile_append2 dropWhile_append2)
  then have at: "secret_assignment_at False (key @ sep # v @ rest) = Some (key @ [sep], v @ rest)"
    using assms(1,2) sep by (simp add: secret_assignment_at_def secret_key_at_def secret_key_def split_quote_def)
  show ?thesis
    using skip_plain_value [OF assms(3,4), of r] scan_flag_irrelevant [OF assms(4), of r _ False] v
    unfolding scan_Some [OF at] by simp
qed

lemma word_secret: "secret_key key \<Longrightarrow> is_separator sep \<Longrightarrow> plain_value v \<Longrightarrow> word (key @ sep # v)"
proof -
  assume a: "secret_key key" "is_separator sep" "plain_value v"
  have "\<not> is_unquoted_secret_delimiter sep" "\<not> is_quote sep"
    using a(2) by (auto simp: is_separator_def char_in_def is_quote_def is_unquoted_secret_delimiter_def
        is_space_character_def is_whitespace_def)
  then show ?thesis
    using a key_not_delimiter(1,2) by (auto simp: word_def secret_key_def plain_value_def)
qed

text \<open>C18. Redaction of assignments in free text, in the output of the command line and in its logs, hides the
  value of a secret: with any text before it and after it, two values that are single words give the
  same output.\<close>

theorem secret_value_hidden:
  assumes "secret_key key" "is_separator sep" "plain_value v" "plain_value v'"
    and "ends_word rest" "p = [] \<or> \<not> is_key_character (last p)"
  shows "redact_scan r False (p @ key @ sep # v @ rest) = redact_scan r False (p @ key @ sep # v' @ rest)"
proof -
  have "redact_scan r False (p @ (key @ sep # v) @ rest) = redact_scan r False (p @ (key @ sep # v') @ rest)"
    using assms scan_secret by (intro scan_hidden word_secret) auto
  then show ?thesis by simp
qed

theorem secret_value_hidden_witness:
  "redact_secret_assignments Cli_Output ''a; token=abc, b'' = redact_secret_assignments Cli_Output ''a; token=xy, b''"
proof -
  let ?c = "map (\<lambda>c. [c])"
  have "secret_key (?c ''token'')" "is_separator ''=''" "plain_value (?c ''abc'')" "plain_value (?c ''xy'')"
    "ends_word (?c '', b'')" "\<not> is_key_character (last (?c ''a; ''))"
    by code_simp+
  from secret_value_hidden [OF this(1-5) disjI2 [OF this(6)], of Cli_Output] show ?thesis
    by (simp add: redact_secret_assignments_def is_cont_def)
qed

text \<open>A quote escaped inside a quoted value ends the redaction early: the rest of the secret stays.\<close>

lemma escaped_quote_leaks:
  "redact_secret_assignments Cli_Output (''password='' @ [CHR 0x22] @ ''ab'' @ [CHR 0x5C, CHR 0x22] @ ''cd'' @ [CHR 0x22]) =
     ''password='' @ [CHR 0x22] @ ''[REDACTED]'' @ [CHR 0x22] @ ''cd'' @ [CHR 0x22]"
  by code_simp

end
