(* ===== verification/Cli_Registry.thy ===== *)
theory Cli_Registry
  imports Cli_Auth Cli_Redaction
begin

text \<open>
  The agent registry of the command line, \<open>crates/missive-cli/src/agent.rs\<close>: what its commands do to
  the store.  A command is an operation on the store that returns the records its output is rendered
  from; rendering is not modelled.
\<close>

subsection \<open>Arguments\<close>

definition NAMED_IDENTIFIER_HELP_CLI :: string where
  "NAMED_IDENTIFIER_HELP_CLI =
     ''Use lowercase ASCII letters or digits, with '' @ [CHR 0x27, CHR ''-'', CHR 0x27] @ '', '' @
     [CHR 0x27, CHR ''_'', CHR 0x27] @ '' or '' @ [CHR 0x27, CHR ''.'', CHR 0x27] @ '' only in the middle.''"

definition invalid_named_cli_identifier :: "string \<Rightarrow> string \<Rightarrow> MissiveError" where
  "invalid_named_cli_identifier kind reason =
     with_help (error_validation [Lit (''invalid '' @ kind @ '': '' @ reason)]) NAMED_IDENTIFIER_HELP_CLI"

definition validate_named_cli_identifier :: "string \<Rightarrow> string \<Rightarrow> unit outcome" where
  "validate_named_cli_identifier kind value =
     (if value = [] then Inl (invalid_named_cli_identifier kind ''value cannot be empty'')
      else if 63 < length value then
        Inl (invalid_named_cli_identifier kind
          (''value is '' @ show_nat (length value) @ '' bytes, but the maximum is 63''))
      else if \<not> is_ascii_lower_alphanumeric (hd value) then
        Inl (invalid_named_cli_identifier kind ''value must start with a lowercase ASCII letter or digit'')
      else if \<not> is_ascii_lower_alphanumeric (last value) then
        Inl (invalid_named_cli_identifier kind ''value must end with a lowercase ASCII letter or digit'')
      else
        fail_if (list_ex (\<lambda>b. \<not> (is_ascii_lower_alphanumeric b \<or> b \<in> {CHR ''-'', CHR ''_'', CHR ''.''})) value)
          (invalid_named_cli_identifier kind
            (''value must contain only lowercase ASCII letters, digits, '' @ [CHR 0x27, CHR ''-'', CHR 0x27] @ '', '' @
             [CHR 0x27, CHR ''_'', CHR 0x27] @ '' or '' @ [CHR 0x27, CHR ''.'', CHR 0x27])))"

definition split_key_value :: "string \<Rightarrow> string \<Rightarrow> (string \<times> string) outcome" where
  "split_key_value flag value =
     (case dropWhile (\<lambda>c. c \<noteq> CHR ''='') value of
        [] \<Rightarrow> Inl (error_validation [Lit (flag @ '' value ''), Dbg value, Lit '' must use KEY=VALUE syntax''])
      | c # raw_value \<Rightarrow>
          (let key = takeWhile (\<lambda>c. c \<noteq> CHR ''='') value
           in if key = [] \<or> raw_value = [] then
                Inl (error_validation
                  [Lit (flag @ '' value ''), Dbg value, Lit '' must include a non-empty key and value''])
              else Inr (key, raw_value)))"

definition cli_validate_http_url :: "'dt cli_world \<Rightarrow> string \<Rightarrow> string \<Rightarrow> unit outcome" where
  "cli_validate_http_url W field value =
     (if trim value = [] then Inl (error_validation [Lit (field @ '' cannot be empty'')])
      else if has_whitespace value \<or> has_control value then
        Inl (with_help
          (error_validation [Lit (field @ '' must be an HTTP(S) URL without whitespace or control characters'')])
          HTTP_URL_HELP)
      else
        (case cli_parse_url W value of
           Inl error \<Rightarrow>
             Inl (with_help (with_source
               (error_validation [Lit (field @ '' must be a valid absolute HTTP(S) URL'')]) error) HTTP_URL_HELP)
         | Inr parsed \<Rightarrow>
             if \<not> (url_scheme parsed = ''http'' \<or> url_scheme parsed = ''https'') \<or> \<not> url_has_host parsed then
               Inl (with_help (error_validation [Lit (field @ '' must use http or https and include a host'')]) HTTP_URL_HELP)
             else
               fail_if (url_username parsed \<noteq> [] \<or> url_has_password parsed)
                 (with_help (error_validation [Lit (field @ '' must not include embedded credentials'')])
                   ''Use auth refs for authentication material instead of username/password URLs.'')))"

fun parse_interface_urls_from ::
  "'dt cli_world \<Rightarrow> (TransportName, string) btree_map \<Rightarrow> string list \<Rightarrow>
   (TransportName, string) btree_map outcome" where
  "parse_interface_urls_from W interfaces [] = Inr interfaces"
| "parse_interface_urls_from W interfaces (value # values) =
     and_then (split_key_value ''--interface'' value) (\<lambda>(binding, url).
     and_then (TransportName_new binding) (\<lambda>binding.
     and_then (cli_validate_http_url W ''agent interface URL'' url) (\<lambda>_.
       if bm_contains_key binding interfaces then
         Inl (with_help (error_validation [Lit ''duplicate interface binding '', Dbg binding])
           ''Pass each --interface binding at most once.'')
       else parse_interface_urls_from W (bm_insert binding url interfaces) values)))"

definition parse_interface_urls :: "'dt cli_world \<Rightarrow> string list \<Rightarrow> (TransportName, string) btree_map outcome" where
  "parse_interface_urls W values = parse_interface_urls_from W [] values"

fun parse_binding_preference_from :: "TransportName list \<Rightarrow> string list \<Rightarrow> TransportName list outcome" where
  "parse_binding_preference_from preference [] = Inr preference"
| "parse_binding_preference_from preference (value # values) =
     and_then (TransportName_new value) (\<lambda>binding.
       if binding \<in> set preference then
         Inl (with_help (error_validation [Lit ''duplicate binding preference '', Dbg binding])
           ''Pass each --binding-preference value at most once.'')
       else parse_binding_preference_from (preference @ [binding]) values)"

definition parse_binding_preference :: "string list \<Rightarrow> TransportName list outcome" where
  "parse_binding_preference values = parse_binding_preference_from [] values"

definition parse_auth_ref :: "string option \<Rightarrow> LoadedConfig \<Rightarrow> string option outcome" where
  "parse_auth_ref value loaded =
     (case value of
        None \<Rightarrow> Inr None
      | Some name \<Rightarrow>
          and_then (validate_named_cli_identifier ''auth ref'' name) (\<lambda>_.
            if \<not> bm_contains_key name (cfg_auth_refs (loaded_config loaded)) then
              Inl (with_help (error_validation [Lit ''auth ref '', Dbg name, Lit '' is not defined in the loaded config''])
                ''Add [auth_refs.<name>] to the selected config file or omit --auth-ref.'')
            else Inr (Some name)))"

definition parse_tags :: "string list \<Rightarrow> string list outcome" where
  "parse_tags values =
     and_then (try_for_each (validate_named_cli_identifier ''tag'') values) (\<lambda>_. Inr values)"

definition NOTES_MAX_BYTES :: nat where
  "NOTES_MAX_BYTES = 8 * 1024"

definition parse_notes :: "string option \<Rightarrow> string option outcome" where
  "parse_notes value =
     (case value of
        None \<Rightarrow> Inr None
      | Some text \<Rightarrow>
          if NOTES_MAX_BYTES < length text then
            Inl (error_validation
              [Lit (''agent notes are '' @ show_nat (length text) @ '' bytes, but the maximum is '' @ show_nat NOTES_MAX_BYTES)])
          else if has_control text then Inl (error_validation [Lit ''agent notes cannot contain control characters''])
          else Inr (Some text))"

fun parse_metadata_from :: "'dt sqlite \<Rightarrow> Metadata \<Rightarrow> string list \<Rightarrow> Metadata outcome" where
  "parse_metadata_from S m [] = Inr m"
| "parse_metadata_from S m (value # values) =
     and_then (split_key_value ''--metadata'' value) (\<lambda>(key, raw_value).
       let parsed = (case serde_from_str S raw_value of Inr v \<Rightarrow> v | Inl _ \<Rightarrow> JString raw_value)
       in and_then (metadata_insert m key parsed) (\<lambda>(m', old).
            if old \<noteq> None then
              Inl (with_help (error_validation [Lit ''duplicate metadata key '', Dbg key])
                ''Pass each --metadata key at most once.'')
            else parse_metadata_from S m' values))"

definition parse_metadata :: "'dt sqlite \<Rightarrow> string list \<Rightarrow> Metadata outcome" where
  "parse_metadata S values = parse_metadata_from S metadata_new values"

subsection \<open>Seeding from the configuration\<close>

definition config_auth_ref_upsert :: "string \<Rightarrow> AuthRefConfig \<Rightarrow> AuthRefUpsert" where
  "config_auth_ref_upsert name c =
     \<lparr>authref_name = name,
      authref_kind = (case auth_kind c of AuthEnv \<Rightarrow> SAuth_Env | AuthKeyring \<Rightarrow> SAuth_Keyring),
      authref_header_name = auth_header c, authref_scheme = Some (auth_scheme c),
      authref_env_var = auth_env c, authref_keyring_service = auth_keyring_service c,
      authref_keyring_account = auth_keyring_account c,
      authref_secret_storage = (case auth_kind c of AuthEnv \<Rightarrow> Secret_Env | AuthKeyring \<Rightarrow> Secret_Keyring),
      authref_metadata = metadata_new\<rparr>"

fun sync_config_auth_refs ::
  "'dt cli_world \<Rightarrow> nat \<Rightarrow> (string, AuthRefConfig) btree_map \<Rightarrow> unit store_op" where
  "sync_config_auth_refs W n [] = db_return ()"
| "sync_config_auth_refs W n ((name, auth_ref) # entries) =
     db_bind (upsert_auth_ref (cli_engine W) (cli_stamp W n) (config_auth_ref_upsert name auth_ref))
       (\<lambda>_. sync_config_auth_refs W (Suc n) entries)"

definition transport_url_map :: "(string, string) btree_map \<Rightarrow> (TransportName, string) btree_map outcome" where
  "transport_url_map values =
     and_then (map_result (\<lambda>(binding, url). and_then (TransportName_new binding) (\<lambda>name. Inr (name, url))) values)
       (\<lambda>pairs. Inr (bm_extend [] pairs))"

definition transport_list :: "string list \<Rightarrow> TransportName list outcome" where
  "transport_list values = map_result TransportName_new values"

definition config_agent_upsert ::
  "string \<Rightarrow> AgentConfig \<Rightarrow> 'dt AgentRecord option \<Rightarrow> 'dt AgentUpsert outcome" where
  "config_agent_upsert alias agent existing =
     and_then (AgentAlias_new alias) (\<lambda>alias.
     and_then (transport_url_map (agent_interface_urls agent)) (\<lambda>interface_urls.
     and_then (transport_list (agent_binding_preference agent)) (\<lambda>binding_preference.
       let input = (AgentUpsert_new alias (agent_base_url agent))
         \<lparr>ag_source := Source_ConfigSeed, ag_interface_urls := interface_urls,
          ag_binding_preference := binding_preference, ag_auth_ref_name := agent_auth_ref agent,
          ag_tags := agent_tags agent, ag_notes := agent_notes agent, ag_metadata := agent_metadata agent,
          ag_read_only := True\<rparr>
       in Inr (case existing of
            Some old \<Rightarrow>
              if ag_base_url old = agent_base_url agent then
                input\<lparr>ag_agent_card_json := ag_agent_card_json old, ag_agent_card_etag := ag_agent_card_etag old,
                  ag_agent_card_last_modified := ag_agent_card_last_modified old,
                  ag_agent_card_fetched_at := ag_agent_card_fetched_at old\<rparr>
              else input
          | None \<Rightarrow> input))))"

fun sync_config_agents ::
  "'dt cli_world \<Rightarrow> nat \<Rightarrow> (string, AgentConfig) btree_map \<Rightarrow> unit store_op" where
  "sync_config_agents W n [] = db_return ()"
| "sync_config_agents W n ((alias, agent) # entries) =
     db_bind (db_outcome (AgentAlias_new alias)) (\<lambda>parsed_alias.
     db_bind (get_agent (cli_engine W) parsed_alias) (\<lambda>existing.
     db_bind (db_outcome (config_agent_upsert alias agent existing)) (\<lambda>input.
     db_bind (upsert_agent (cli_engine W) (cli_stamp W n) input) (\<lambda>_.
       sync_config_agents W (Suc n) entries))))"

text \<open>What \<open>open_agent_registry\<close> does with the store once it is open.\<close>

definition sync_config :: "'dt cli_world \<Rightarrow> LoadedConfig \<Rightarrow> unit store_op" where
  "sync_config W loaded =
     db_bind (sync_config_auth_refs W 0 (cfg_auth_refs (loaded_config loaded)))
       (\<lambda>_. sync_config_agents W (length (cfg_auth_refs (loaded_config loaded))) (cfg_agents (loaded_config loaded)))"

subsection \<open>Events\<close>

definition new_event_id :: "'dt cli_world \<Rightarrow> string \<Rightarrow> EventId outcome" where
  "new_event_id W event_prefix = EventId_new (''evt/'' @ event_prefix @ ''/'' @ cli_message_id W)"

definition new_cli_event :: "'dt cli_world \<Rightarrow> string \<Rightarrow> json \<Rightarrow> 'dt EventInsert outcome" where
  "new_cli_event W type payload =
     and_then (new_event_id W type) (\<lambda>ident. Inr (EventInsert_new ident ''cli'' type (cli_redact_json payload)))"

definition append_agent_event ::
  "'dt cli_world \<Rightarrow> nat \<Rightarrow> string \<Rightarrow> AgentAlias option \<Rightarrow> json \<Rightarrow> unit store_op" where
  "append_agent_event W n type alias payload =
     db_bind (db_outcome (new_cli_event W type payload)) (\<lambda>event.
     db_bind (on_gateway (cli_engine W) (\<lambda>S. append_event S (cli_stamp W n) (event\<lparr>event_agent_alias := alias\<rparr>)))
       (\<lambda>_. db_return ()))"

text \<open>\<open>AgentView\<close> and its serialisation: fields that are \<open>None\<close> are left out.\<close>

definition optional_entry :: "string \<Rightarrow> string option \<Rightarrow> (string \<times> json) list" where
  "optional_entry key value = (case value of None \<Rightarrow> [] | Some text \<Rightarrow> [(key, JString text)])"

definition agent_view_json :: "'dt chrono \<Rightarrow> 'dt AgentRecord \<Rightarrow> json" where
  "agent_view_json C r =
     json_object
       ([(''alias'', JString (ag_alias r)), (''source'', JString (agent_source_as_str (ag_source r))),
         (''base_url'', JString (ag_base_url r)), (''interface_urls'', urls_serialize (ag_interface_urls r)),
         (''binding_preference'', strings_serialize (ag_binding_preference r))] @
        optional_entry ''auth_ref'' (ag_auth_ref_name r) @ [(''tags'', strings_serialize (ag_tags r))] @
        optional_entry ''notes'' (ag_notes r) @ [(''metadata'', metadata_serialize (ag_metadata r))] @
        optional_entry ''agent_card_fetched_at'' (map_option (to_rfc3339 C) (ag_agent_card_fetched_at r)) @
        optional_entry ''agent_card_etag'' (ag_agent_card_etag r) @
        optional_entry ''agent_card_last_modified'' (ag_agent_card_last_modified r) @
        [(''read_only'', JBool (ag_read_only r)), (''created_at'', JString (to_rfc3339 C (ag_created_at r))),
         (''updated_at'', JString (to_rfc3339 C (ag_updated_at r)))])"

subsection \<open>Commands\<close>

record AgentAddArgs =
  add_alias :: string
  add_base_url :: string
  add_interfaces :: "string list"
  add_binding_preference :: "string list"
  add_auth_ref :: "string option"
  add_tags :: "string list"
  add_notes :: "string option"
  add_metadata :: "string list"

definition get_existing_agent :: "'dt cli_world \<Rightarrow> AgentAlias \<Rightarrow> 'dt AgentRecord store_op" where
  "get_existing_agent W alias =
     db_bind (get_agent (cli_engine W) alias) (\<lambda>found.
       db_outcome (ok_or found
         (with_help (error_validation [Lit ''agent '', Dbg alias, Lit '' is not registered''])
           (''Run '' @ [CHR 0x27] @ ''missive agent list'' @ [CHR 0x27] @ '' to see registered aliases.''))))"

definition ensure_agent_absent :: "'dt cli_world \<Rightarrow> AgentAlias \<Rightarrow> unit store_op" where
  "ensure_agent_absent W alias =
     db_bind (get_agent (cli_engine W) alias) (\<lambda>found.
       db_outcome
         (case found of
            None \<Rightarrow> Inr ()
          | Some r \<Rightarrow>
              Inl (with_help (error_validation
                [Lit ''agent alias '', Dbg alias,
                 Lit ('' already exists as '' @
                   (if ag_read_only r then ''a read-only config-seeded entry'' else ''an existing local entry''))])
                ''Choose a different alias or remove/rename the existing writable entry.'')))"

definition ensure_writable :: "'dt AgentRecord \<Rightarrow> string \<Rightarrow> unit outcome" where
  "ensure_writable r action =
     fail_if (ag_read_only r)
       (with_help (error_validation
         [Lit ''agent '', Dbg (ag_alias r), Lit ('' is read-only and cannot be '' @ action @ ''d'')])
         ''Config-seeded agents come from the loaded missive config; edit the config file instead.'')"

definition agent_upsert_from_record :: "'dt AgentRecord \<Rightarrow> AgentAlias \<Rightarrow> 'dt AgentUpsert" where
  "agent_upsert_from_record r alias =
     \<lparr>ag_alias = alias, ag_source = ag_source r, ag_base_url = ag_base_url r,
      ag_interface_urls = ag_interface_urls r, ag_binding_preference = ag_binding_preference r,
      ag_auth_ref_name = ag_auth_ref_name r, ag_tags = ag_tags r, ag_notes = ag_notes r,
      ag_metadata = ag_metadata r, ag_agent_card_json = ag_agent_card_json r,
      ag_agent_card_etag = ag_agent_card_etag r, ag_agent_card_last_modified = ag_agent_card_last_modified r,
      ag_agent_card_fetched_at = ag_agent_card_fetched_at r, ag_read_only = ag_read_only r\<rparr>"

definition add_agent_input ::
  "'dt cli_world \<Rightarrow> LoadedConfig \<Rightarrow> AgentAlias \<Rightarrow> AgentAddArgs \<Rightarrow> 'dt AgentUpsert outcome" where
  "add_agent_input W loaded alias args =
     and_then (cli_validate_http_url W ''agent base_url'' (add_base_url args)) (\<lambda>_.
     and_then (parse_interface_urls W (add_interfaces args)) (\<lambda>interface_urls.
     and_then
       (if add_binding_preference args \<noteq> [] then parse_binding_preference (add_binding_preference args)
        else Inr store_default_binding_preference) (\<lambda>binding_preference.
     and_then (parse_auth_ref (add_auth_ref args) loaded) (\<lambda>auth_ref_name.
     and_then (parse_tags (add_tags args)) (\<lambda>tags.
     and_then (parse_notes (add_notes args)) (\<lambda>notes.
     and_then (parse_metadata (eng_sql (cli_engine W)) (add_metadata args)) (\<lambda>metadata.
       Inr ((AgentUpsert_new alias (add_base_url args))
         \<lparr>ag_interface_urls := interface_urls, ag_binding_preference := binding_preference,
          ag_auth_ref_name := auth_ref_name, ag_tags := tags, ag_notes := notes, ag_metadata := metadata\<rparr>))))))))"

definition add_agent :: "'dt cli_world \<Rightarrow> LoadedConfig \<Rightarrow> AgentAddArgs \<Rightarrow> 'dt AgentRecord store_op" where
  "add_agent W loaded args =
     db_bind (db_outcome (AgentAlias_new (add_alias args))) (\<lambda>alias.
     db_bind (ensure_agent_absent W alias) (\<lambda>_.
     db_bind (db_outcome (add_agent_input W loaded alias args)) (\<lambda>input.
     db_bind (upsert_agent (cli_engine W) (cli_stamp W 0) input) (\<lambda>r.
     db_bind (append_agent_event W 1 ''missive.agent.add'' (Some (ag_alias r))
       (json_object
         [(''alias'', JString (ag_alias r)), (''source'', JString (agent_source_as_str (ag_source r))),
          (''base_url'', JString (ag_base_url r)), (''tags'', strings_serialize (ag_tags r)),
          (''metadata'', metadata_serialize (ag_metadata r))]))
       (\<lambda>_. db_return r)))))"

definition remove_agent :: "'dt cli_world \<Rightarrow> string \<Rightarrow> 'dt AgentRecord store_op" where
  "remove_agent W name =
     db_bind (db_outcome (AgentAlias_new name)) (\<lambda>alias.
     db_bind (get_existing_agent W alias) (\<lambda>r.
     db_bind (db_outcome (ensure_writable r ''remove'')) (\<lambda>_.
     db_bind (delete_agent (cli_engine W) alias) (\<lambda>deleted.
     db_bind (db_outcome (fail_if (\<not> deleted)
       (error_storage [Lit ''agent '', Dbg alias, Lit '' disappeared before it could be removed'']))) (\<lambda>_.
     db_bind (append_agent_event W 0 ''missive.agent.remove'' None
       (json_object
         [(''alias'', JString alias),
          (''removed_agent'', agent_view_json (sql_chrono (eng_sql (cli_engine W))) r)]))
       (\<lambda>_. db_return r))))))"

text \<open>The transaction of \<open>rename_agent\<close>: a copy under the new alias, then the old row is deleted.\<close>

definition rename_agent_rows ::
  "'dt cli_world \<Rightarrow> 'dt AgentRecord \<Rightarrow> AgentAlias \<Rightarrow> AgentAlias \<Rightarrow> 'dt AgentRecord store_op" where
  "rename_agent_rows W old_record old_alias new_alias =
     db_bind (upsert_agent (cli_engine W) (cli_stamp W 0)
       ((agent_upsert_from_record old_record new_alias)\<lparr>ag_read_only := False\<rparr>)) (\<lambda>new_record.
     db_bind (delete_agent (cli_engine W) old_alias) (\<lambda>deleted.
     db_bind (db_outcome (fail_if (\<not> deleted)
       (error_storage [Lit ''agent '', Dbg old_alias, Lit '' disappeared before it could be renamed''])))
       (\<lambda>_. db_return new_record)))"

definition rename_agent :: "'dt cli_world \<Rightarrow> string \<Rightarrow> string \<Rightarrow> 'dt AgentRecord store_op" where
  "rename_agent W old_name new_name =
     db_bind (db_outcome (AgentAlias_new old_name)) (\<lambda>old_alias.
     db_bind (db_outcome (AgentAlias_new new_name)) (\<lambda>new_alias.
     db_bind (db_outcome (fail_if (old_alias = new_alias)
       (with_help (error_validation [Lit ''agent rename requires a different new alias''])
         ''Choose a new alias that does not match the current alias.''))) (\<lambda>_.
     db_bind (get_existing_agent W old_alias) (\<lambda>old_record.
     db_bind (db_outcome (ensure_writable old_record ''rename'')) (\<lambda>_.
     db_bind (ensure_agent_absent W new_alias) (\<lambda>_.
     db_bind (transaction (cli_engine W) (rename_agent_rows W old_record old_alias new_alias)) (\<lambda>new_record.
     db_bind (append_agent_event W 1 ''missive.agent.rename'' (Some (ag_alias new_record))
       (json_object
         [(''previous_alias'', JString old_alias), (''alias'', JString (ag_alias new_record)),
          (''source'', JString (agent_source_as_str (ag_source new_record))),
          (''base_url'', JString (ag_base_url new_record))]))
       (\<lambda>_. db_return new_record))))))))"

definition show_agent :: "'dt cli_world \<Rightarrow> string \<Rightarrow> 'dt AgentRecord store_op" where
  "show_agent W name =
     db_bind (db_outcome (AgentAlias_new name)) (\<lambda>alias. get_existing_agent W alias)"

end
