(* ===== verification/Cli_Registry_Properties.thy ===== *)
theory Cli_Registry_Properties
  imports Cli_Registry
begin

text \<open>
  What the registry commands promise: configured agents are what the configuration says and cannot be
  removed, renamed or overwritten from the command line; what renaming an agent does to the rows that
  refer to it; and configurations that validate but cannot be written to the store.
\<close>

subsection \<open>Successful operations\<close>

lemma execute_Inr:
  "execute E action violation effect db = (Inr b, db') \<longleftrightarrow>
     sql_io_error E action db = None \<and> violation db = None \<and> effect db = (b, db')"
  by (auto simp: execute_def split: option.splits prod.splits)

definition stored_agent :: "AgentRow \<Rightarrow> store_db \<Rightarrow> AgentRow" where
  "stored_agent row db =
     (case bm_get (agrow_alias row) (st_agents db) of None \<Rightarrow> row | Some old \<Rightarrow> keep_agent old row)"

lemma agent_row_alias: "agent_row S stamp input = Inr row \<Longrightarrow> agrow_alias row = ag_alias input"
  by (auto simp: agent_row_def and_then_Inr)

lemma upsert_agent_Inr:
  "upsert_agent E stamp input db = (Inr r, db') \<longleftrightarrow>
     (\<exists>row. ag_base_url input \<noteq> [] \<and> agent_row (eng_sql E) stamp input = Inr row \<and>
        sql_io_error E ''upserting agent'' db = None \<and>
        violates (agent_check E row) True (refs_ok db (agent_refs row)) = None \<and>
        db' = db\<lparr>st_agents := bm_insert (ag_alias input) (stored_agent row db) (st_agents db)\<rparr> \<and>
        read_agent_row (eng_sql E) (stored_agent row db) = Inr r)"
proof -
  have "upsert_agent E stamp input db = (Inr r, db') \<longleftrightarrow>
     (\<exists>row. validate_non_empty ''agent base_url'' (ag_base_url input) = Inr () \<and> agent_row (eng_sql E) stamp input = Inr row \<and>
        sql_io_error E ''upserting agent'' db = None \<and>
        violates (agent_check E row) True (refs_ok db (agent_refs row)) = None \<and>
        db' = db\<lparr>st_agents := put_row keep_agent (ag_alias input) row (st_agents db)\<rparr> \<and>
        query_row ''reading agent'' (read_agent_row (eng_sql E)) (bm_get (ag_alias input) (st_agents db')) = Inr (Some r))"
    by (auto simp: upsert_agent_def write_and_read_def db_bind_Inr db_outcome_def and_then_Inr execute_Inr
        get_agent_def)
  moreover have "put_row keep_agent (ag_alias input) row (st_agents db) =
      bm_insert (ag_alias input) (stored_agent row db) (st_agents db)"
    if "agent_row (eng_sql E) stamp input = Inr row" for row
    using agent_row_alias [OF that] by (simp add: put_row_def stored_agent_def)
  ultimately show ?thesis
    by (auto simp: validate_non_empty_def fail_if_def bm_get_insert query_row_Inr split: if_splits) 
qed

lemma upsert_auth_ref_agents:
  "upsert_auth_ref E stamp input db = (r, db') \<Longrightarrow> st_agents db' = st_agents db"
  by (auto simp: upsert_auth_ref_def write_and_read_def db_bind_cases db_outcome_def execute_def get_auth_ref_def
      split: option.splits prod.splits)

lemma sync_auth_refs_agents:
  "sync_config_auth_refs W n entries db = (r, db') \<Longrightarrow> st_agents db' = st_agents db"
proof (induction W n entries arbitrary: db rule: sync_config_auth_refs.induct)
  case (2 W n name a entries)
  from 2(2) show ?case
    by (auto simp: db_bind_cases dest!: upsert_auth_ref_agents 2(1))
qed (simp add: db_return_def)

subsection \<open>Seeded agents\<close>

text \<open>What a row must say to be the one of a configured agent: all its settings, the structured ones as
  JSON texts, and that it is read-only and comes from the configuration.\<close>

definition seeded :: "'dt sqlite \<Rightarrow> AgentConfig \<Rightarrow> AgentRow \<Rightarrow> bool" where
  "seeded S c row \<longleftrightarrow>
     agrow_read_only row \<and> agrow_source row = ''config_seed'' \<and> agrow_base_url row = agent_base_url c \<and>
     agrow_auth_ref_name row = agent_auth_ref c \<and> agrow_notes row = agent_notes c \<and>
     serde_to_string S (urls_serialize (bm_extend [] (agent_interface_urls c))) = Inr (agrow_interface_urls_json row) \<and>
     serde_to_string S (strings_serialize (agent_binding_preference c)) = Inr (agrow_binding_preference_json row) \<and>
     serde_to_string S (strings_serialize (agent_tags c)) = Inr (agrow_tags_json row) \<and>
     serde_to_string S (metadata_serialize (agent_metadata c)) = Inr (agrow_metadata_json row)"

lemma map_result_same:
  "map_result f xs = Inr ys \<Longrightarrow> (\<And>x y. x \<in> set xs \<Longrightarrow> f x = Inr y \<Longrightarrow> y = x) \<Longrightarrow> ys = xs"
  by (induction xs arbitrary: ys) (auto simp: and_then_Inr)

lemma transport_kept:
  "transport_url_map urls = Inr m \<Longrightarrow> m = bm_extend [] urls"
  "transport_list names = Inr ns \<Longrightarrow> ns = names"
proof -
  have new: "TransportName_new x = Inr y \<Longrightarrow> y = x" for x y
    by (simp add: TransportName_new_def transport_name.new_Inr)
  show "transport_url_map urls = Inr m \<Longrightarrow> m = bm_extend [] urls"
    unfolding transport_url_map_def and_then_Inr by (auto simp: and_then_Inr dest!: map_result_same dest: new)
  show "transport_list names = Inr ns \<Longrightarrow> ns = names"
    unfolding transport_list_def using map_result_same [OF _ new] by blast
qed

lemma config_agent_upsert_Inr:
  assumes "config_agent_upsert alias c existing = Inr input"
  shows "ag_alias input = alias" "ag_read_only input" "ag_source input = Source_ConfigSeed"
    "ag_base_url input = agent_base_url c" "ag_auth_ref_name input = agent_auth_ref c" "ag_notes input = agent_notes c"
    "ag_interface_urls input = bm_extend [] (agent_interface_urls c)"
    "ag_binding_preference input = agent_binding_preference c" "ag_tags input = agent_tags c"
    "ag_metadata input = agent_metadata c"
  using assms
  by (auto dest!: transport_kept simp: config_agent_upsert_def and_then_Inr Let_def AgentUpsert_new_def AgentAlias_new_def agent_alias.new_Inr
      split: option.splits if_splits)

lemma stored_agent_seeded:
  assumes "config_agent_upsert alias c existing = Inr input" "agent_row S stamp input = Inr row"
  shows "seeded S c (stored_agent row db)"
  using config_agent_upsert_Inr [OF assms(1)] assms(2)
  by (auto simp: to_json_text_Inr seeded_def stored_agent_def keep_agent_def agent_row_def and_then_Inr split: option.splits)

lemma sync_agents_rows:
  assumes "sync_config_agents W n entries db = (Inr (), db')" "bm_sorted entries"
  shows "(\<forall>(a, c) \<in> set entries. \<exists>row. bm_get a (st_agents db') = Some row \<and> seeded (eng_sql (cli_engine W)) c row) \<and>
    (\<forall>a. a \<notin> fst ` set entries \<longrightarrow> bm_get a (st_agents db') = bm_get a (st_agents db))"
  using assms
proof (induction W n entries arbitrary: db rule: sync_config_agents.induct)
  case (2 W n name c entries)
  obtain existing input r db1 where step:
    "config_agent_upsert name c existing = Inr input"
    "upsert_agent (cli_engine W) (cli_stamp W n) input db = (Inr r, db1)"
    "sync_config_agents W (Suc n) entries db1 = (Inr (), db')"
    using 2(2) by (auto simp: db_bind_Inr db_outcome_def get_agent_def)
  obtain row where row: "agent_row (eng_sql (cli_engine W)) (cli_stamp W n) input = Inr row"
    "db1 = db\<lparr>st_agents := bm_insert (ag_alias input) (stored_agent row db) (st_agents db)\<rparr>"
    using step(2) by (auto simp: upsert_agent_Inr)
  have sorted: "bm_sorted entries" "name \<notin> fst ` set entries" using 2(3) by auto
  note IH = 2(1) [OF step(3) sorted(1)]
  have "bm_get name (st_agents db') = Some (stored_agent row db)"
    using IH sorted(2) row(2) config_agent_upsert_Inr(1) [OF step(1)] by (simp add: bm_get_insert)
  then show ?case
    using IH sorted row(2) config_agent_upsert_Inr(1) [OF step(1)] stored_agent_seeded [OF step(1) row(1)]
    by (auto simp: bm_get_insert)
qed (simp add: db_return_def)

lemma sync_config_rows:
  assumes "sync_config W loaded db = (Inr (), db')" "bm_sorted (cfg_agents (loaded_config loaded))"
  shows "(\<forall>(a, c) \<in> set (cfg_agents (loaded_config loaded)). \<exists>row. bm_get a (st_agents db') = Some row \<and>
       seeded (eng_sql (cli_engine W)) c row) \<and>
    (\<forall>a. a \<notin> fst ` set (cfg_agents (loaded_config loaded)) \<longrightarrow> bm_get a (st_agents db') = bm_get a (st_agents db))"
proof -
  obtain db1 where one: "sync_config_auth_refs W 0 (cfg_auth_refs (loaded_config loaded)) db = (Inr (), db1)"
    and two: "sync_config_agents W (length (cfg_auth_refs (loaded_config loaded))) (cfg_agents (loaded_config loaded)) db1 = (Inr (), db')"
    using assms(1) by (auto simp: sync_config_def db_bind_Inr)
  show ?thesis
    using sync_agents_rows [OF two assms(2)] unfolding sync_auth_refs_agents [OF one] .
qed

lemma read_agent_row_read_only: "read_agent_row S row = Inr r \<Longrightarrow> ag_read_only r = agrow_read_only row"
  by (auto simp: read_agent_row_def and_then_Inr)

lemma get_agent_row:
  "get_agent E alias db = (Inr (Some r), db') \<longleftrightarrow>
     db' = db \<and> (\<exists>row. bm_get alias (st_agents db) = Some row \<and> read_agent_row (eng_sql E) row = Inr r)"
  by (auto simp: get_agent_def query_row_Inr split: option.splits)

lemma rename_onto_blocked:
  "ensure_agent_absent W a db = (Inl e, db) \<Longrightarrow> \<exists>e. rename_agent W x a db = (Inl e, db)"
  by (auto simp: rename_agent_def get_existing_agent_def get_agent_def db_bind_def db_outcome_def AgentAlias_new_def
      agent_alias.new_Inr split: sum.splits)

text \<open>C16. After the configuration has been written to the store, every configured agent has a read-only row
  with all its settings, every other agent is as it was, and no command can remove, rename or replace
  a configured agent, be it by adding one of that alias or by renaming another agent to it: each fails
  and changes nothing.\<close>

theorem configured_agents_protected:
  assumes "sync_config W loaded db = (Inr (), db')" "bm_sorted (cfg_agents (loaded_config loaded))"
    "(a, c) \<in> set (cfg_agents (loaded_config loaded))"
  shows "(\<exists>row. bm_get a (st_agents db') = Some row \<and> seeded (eng_sql (cli_engine W)) c row) \<and>
    (\<forall>b. b \<notin> fst ` set (cfg_agents (loaded_config loaded)) \<longrightarrow> bm_get b (st_agents db') = bm_get b (st_agents db)) \<and>
    (\<exists>e. remove_agent W a db' = (Inl e, db')) \<and> (\<exists>e. rename_agent W a b db' = (Inl e, db')) \<and>
    (\<exists>e. rename_agent W other a db' = (Inl e, db')) \<and>
    (\<forall>args. add_alias args = a \<longrightarrow> (\<exists>e. add_agent W loaded args db' = (Inl e, db')))"
proof -
  note rows = sync_config_rows [OF assms(1,2)]
  obtain row where row: "bm_get a (st_agents db') = Some row" "seeded (eng_sql (cli_engine W)) c row"
    using rows assms(3) by blast
  have get: "get_agent (cli_engine W) a db' = (Inl e, db') \<or> get_agent (cli_engine W) a db' = (Inr (Some r), db') \<and> ag_read_only r"
    if "get_agent (cli_engine W) a db' = (x, y)" "e = projl x" "r = the (projr x)" for x y e r
    using that row
    by (cases x) (auto simp: get_agent_def query_row_def seeded_def read_agent_row_read_only split: option.splits sum.splits)
  obtain x y where g: "get_agent (cli_engine W) a db' = (x, y)" by fastforce
  consider (bad) e where "get_agent (cli_engine W) a db' = (Inl e, db')"
    | (found) r where "get_agent (cli_engine W) a db' = (Inr (Some r), db')" "ag_read_only r"
    using get [OF g refl refl] by blast
  then have "(\<exists>e. remove_agent W a db' = (Inl e, db')) \<and> (\<exists>e. rename_agent W a b db' = (Inl e, db')) \<and>
    (\<exists>e. ensure_agent_absent W a db' = (Inl e, db')) \<and>
    (\<forall>args. add_alias args = a \<longrightarrow> (\<exists>e. add_agent W loaded args db' = (Inl e, db')))"
  proof cases
    case bad
    then show ?thesis
      by (auto simp: remove_agent_def rename_agent_def add_agent_def get_existing_agent_def ensure_agent_absent_def
          db_bind_def db_outcome_def AgentAlias_new_def agent_alias.new_Inr split: sum.splits)
  next
    case found
    then show ?thesis
      by (auto simp: remove_agent_def rename_agent_def add_agent_def get_existing_agent_def ensure_agent_absent_def
          db_bind_def db_outcome_def ensure_writable_def fail_if_def AgentAlias_new_def agent_alias.new_Inr split: sum.splits)
  qed
  then show ?thesis using rows row rename_onto_blocked [of W a db' _ other] by blast
qed

subsection \<open>Renaming\<close>

lemma agent_event_frame:
  assumes "append_agent_event W n type alias payload db = (r, db')"
  shows "\<exists>g. db' = db\<lparr>st_gateway := g\<rparr> \<and> db_jobs g = db_jobs (st_gateway db) \<and> db_sessions g = db_sessions (st_gateway db)"
proof -
  have frame: "\<exists>g. db1 = db\<lparr>st_gateway := g\<rparr> \<and> db_jobs g = db_jobs (st_gateway db) \<and> db_sessions g = db_sessions (st_gateway db)"
    if "on_gateway E (\<lambda>S. append_event S stamp event) db = (x, db1)" for E stamp event x db1
    using that append_event_db [of "gateway_sql E db" stamp event "st_gateway db"]
    by (cases "append_event (gateway_sql E db) stamp event (st_gateway db)") (auto simp: on_gateway_def)
  have same: "\<exists>g. db = db\<lparr>st_gateway := g\<rparr> \<and> db_jobs g = db_jobs (st_gateway db) \<and> db_sessions g = db_sessions (st_gateway db)"
    by (intro exI [of _ "st_gateway db"]) simp
  show ?thesis
    using assms same by (auto simp: append_agent_event_def db_bind_cases db_outcome_def db_return_def dest!: frame)
qed

lemma transaction_Inr: "transaction E operation db = (Inr x, db') \<Longrightarrow> operation db = (Inr x, db')"
  by (auto simp: transaction_def split: option.splits prod.splits sum.splits)

lemma delete_agent_True:
  "delete_agent E a db = (Inr True, db') \<longleftrightarrow>
     sql_io_error E ''deleting agent'' db = None \<and> bm_contains_key a (st_agents db) \<and>
     (\<forall>r \<in> set (map snd (st_tasks db)). tskrow_agent_alias r \<noteq> a) \<and> db' = drop_agent a db"
  by (auto simp: delete_agent_def delete_by_key_def execute_Inr delete_row_def violates_def split: if_splits)

text \<open>The columns of a row that hold what a record says of an agent, its alias and permission aside.\<close>

definition agent_columns :: "'dt sqlite \<Rightarrow> ('dt, 'm) AgentUpsert_scheme \<Rightarrow> AgentRow \<Rightarrow> bool" where
  "agent_columns S r row \<longleftrightarrow>
     agrow_source row = agent_source_as_str (ag_source r) \<and> agrow_base_url row = ag_base_url r \<and>
     serde_to_string S (urls_serialize (ag_interface_urls r)) = Inr (agrow_interface_urls_json row) \<and>
     serde_to_string S (strings_serialize (ag_binding_preference r)) = Inr (agrow_binding_preference_json row) \<and>
     agrow_auth_ref_name row = ag_auth_ref_name r \<and>
     serde_to_string S (strings_serialize (ag_tags r)) = Inr (agrow_tags_json row) \<and>
     agrow_notes row = ag_notes r \<and>
     serde_to_string S (metadata_serialize (ag_metadata r)) = Inr (agrow_metadata_json row) \<and>
     optional_json_text S ''agent card'' (ag_agent_card_json r) = Inr (agrow_agent_card_json row) \<and>
     agrow_agent_card_etag row = ag_agent_card_etag r \<and>
     agrow_agent_card_last_modified row = ag_agent_card_last_modified r \<and>
     agrow_agent_card_fetched_at row = map_option (to_rfc3339 (sql_chrono S)) (ag_agent_card_fetched_at r)"

definition agent_stable :: "'dt sqlite \<Rightarrow> ('dt, 'm) AgentUpsert_scheme \<Rightarrow> bool" where
  "agent_stable S r \<longleftrightarrow>
     json_stable S (urls_serialize (ag_interface_urls r)) \<and> json_stable S (strings_serialize (ag_binding_preference r)) \<and>
     json_stable S (strings_serialize (ag_tags r)) \<and> json_stable S (metadata_serialize (ag_metadata r)) \<and>
     (\<forall>j. ag_agent_card_json r = Some j \<longrightarrow> json_stable S j)"

lemma agent_row_columns: "agent_row S stamp input = Inr row \<Longrightarrow> agent_columns S input row"
  by (auto simp: agent_row_def and_then_Inr to_json_text_Inr agent_columns_def)

lemma strings_read_back:
  assumes "strings_deserialize f (strings_serialize xs) = Inr ys" "\<And>x y. f (JString x) = Inr y \<Longrightarrow> y = x"
  shows "ys = xs"
  using assms by (induction xs arbitrary: ys) (auto simp: strings_serialize_def and_then_Inr)

lemma urls_read_back:
  assumes "urls_deserialize (urls_serialize m) = Inr m'" "bm_sorted m"
  shows "m' = m"
proof -
  have "map_result (\<lambda>(k, v). and_then (de_custom (TransportName_new k)) (\<lambda>name.
      and_then (deserialize_string v) (\<lambda>url. Inr (name, url)))) (map (\<lambda>(k, v). (k, JString v)) ps) = Inr qs \<Longrightarrow> qs = ps"
    for ps :: "(string \<times> string) list" and qs
    by (induction ps arbitrary: qs)
      (auto simp: and_then_Inr de_custom_def TransportName_new_def transport_name.new_Inr split: sum.splits)
  then have "m' = bm_extend [] m" using assms(1) by (auto simp: urls_serialize_def and_then_Inr)
  then show ?thesis using bm.insert_all_entries [of m] assms(2) by (simp add: bm_extend_insert_all)
qed

lemma typed_from_sql_Inr:
  "typed_from_sql S d t = Inr x \<longleftrightarrow> (\<exists>j. serde_from_str S t = Inr j \<and> d j = Inr x)"
  by (cases "serde_from_str S t"; cases "d (projr (serde_from_str S t))") (auto simp: typed_from_sql_def)

lemma urls_deserialize_sorted: "urls_deserialize j = Inr m \<Longrightarrow> bm_sorted m"
  by (cases j) (auto simp: and_then_Inr intro: bm_sorted_extend)

lemma read_agent_urls_sorted: "read_agent_row S row = Inr r \<Longrightarrow> bm_sorted (ag_interface_urls r)"
  by (auto simp: read_agent_row_def and_then_Inr typed_from_sql_Inr intro: urls_deserialize_sorted)

text \<open>A row written from a record reads as the record.\<close>

lemma agent_row_read_back:
  assumes "agent_columns S old row" "read_agent_row S row = Inr r" "agent_stable S old" "bm_sorted (ag_interface_urls old)"
  shows "AgentUpsert.truncate r = (AgentUpsert.truncate old)\<lparr>ag_alias := agrow_alias row,
    ag_read_only := agrow_read_only row, ag_agent_card_fetched_at := ag_agent_card_fetched_at r\<rparr>"
proof -
  note cols = assms(1) [unfolded agent_columns_def] and st = assms(3) [unfolded agent_stable_def json_stable_def]
  have ident: "ag_alias r = agrow_alias row"
    and source: "agent_source_from_str (agrow_source row) = Inr (ag_source r)"
    and urls: "typed_from_sql S urls_deserialize (agrow_interface_urls_json row) = Inr (ag_interface_urls r)"
    and pref: "typed_from_sql S (strings_deserialize (identifier_deserialize validate_transport_name ''transport name''))
        (agrow_binding_preference_json row) = Inr (ag_binding_preference r)"
    and tags: "typed_from_sql S (strings_deserialize deserialize_string) (agrow_tags_json row) = Inr (ag_tags r)"
    and meta: "metadata_from_sql S (agrow_metadata_json row) = Inr (ag_metadata r)"
    and json: "optional_sql (json_from_sql S) (agrow_agent_card_json row) = Inr (ag_agent_card_json r)"
    and rest: "ag_base_url r = agrow_base_url row" "ag_auth_ref_name r = agrow_auth_ref_name row"
      "ag_notes r = agrow_notes row" "ag_agent_card_etag r = agrow_agent_card_etag row"
      "ag_agent_card_last_modified r = agrow_agent_card_last_modified row" "ag_read_only r = agrow_read_only row"
    using assms(2) by (auto simp: read_agent_row_def and_then_Inr parse_sql_Inr AgentAlias_new_def agent_alias.new_Inr)
  have "ag_source r = ag_source old" using source cols by (simp add: agent_source_from_str_def agent_source.from_as_str)
  moreover have "ag_interface_urls r = ag_interface_urls old"
    using urls cols st urls_read_back [OF _ assms(4)] by (simp add: typed_from_sql_Inr)
  moreover have "ag_binding_preference r = ag_binding_preference old"
    using pref cols st
    by (intro strings_read_back) (auto simp: typed_from_sql_Inr transport_name.deserialize_iff identifier_serialize_def)
  moreover have "ag_tags r = ag_tags old"
    using tags cols st by (intro strings_read_back) (auto simp: typed_from_sql_Inr)
  moreover have "ag_metadata r = ag_metadata old"
    using meta cols st
    by (auto simp: metadata_from_sql_def metadata_serialize_def and_then_Inr split: sum.splits)
  moreover have "ag_agent_card_json r = ag_agent_card_json old"
    using json cols st by (auto simp: optional_json_text_Inr optional_sql_Inr json_from_sql_def split: option.splits)
  ultimately show ?thesis using ident rest cols by (simp add: AgentUpsert.defs)
qed

text \<open>C17. Renaming an agent, when it succeeds, copies its row to the new alias, writable: every column holds
  what the old row said (source, URLs, preferences, authentication reference, tags, notes, metadata
  and the cached card), so that the record returned, which the new row reads as, is the old one but
  for the alias, the permission and the row's own times, when the JSON values are read back from
  their texts.  The old row is removed with everything the store deletes along with an agent: its
  group memberships, its sessions and its push configurations.  It fails when the agent has a task,
  and the other agents are as before.\<close>

theorem rename_agent_effect:
  assumes "rename_agent W a b db = (Inr r, db')"
  shows "a \<noteq> b \<and> \<not> has_row db' To_Agent a \<and> has_row db' To_Agent b \<and> \<not> has_row db To_Agent b \<and>
    (\<exists>old old_record new. bm_get a (st_agents db) = Some old \<and>
       read_agent_row (eng_sql (cli_engine W)) old = Inr old_record \<and>
       bm_get b (st_agents db') = Some new \<and> agrow_alias new = b \<and> \<not> agrow_read_only new \<and>
       agent_columns (eng_sql (cli_engine W)) old_record new \<and>
       read_agent_row (eng_sql (cli_engine W)) new = Inr r \<and>
       (agent_stable (eng_sql (cli_engine W)) old_record \<longrightarrow>
          AgentUpsert.truncate r = (AgentUpsert.truncate old_record)\<lparr>ag_alias := b, ag_read_only := False,
            ag_agent_card_fetched_at := ag_agent_card_fetched_at r\<rparr>)) \<and>
    (\<forall>k. k \<notin> {a, b} \<longrightarrow> bm_get k (st_agents db') = bm_get k (st_agents db)) \<and>
    (\<forall>t \<in> set (map snd (st_tasks db)). tskrow_agent_alias t \<noteq> a) \<and>
    st_members db' = drop_rows (\<lambda>m. memrow_agent_alias m = a) (st_members db) \<and>
    st_push_configs db' = drop_rows (\<lambda>p. pcrow_agent_alias p = a) (st_push_configs db) \<and>
    db_sessions (st_gateway db') = drop_rows (\<lambda>s. srow_agent_alias s = a) (db_sessions (st_gateway db))"
proof -
  obtain old_record db1 where steps: "a \<noteq> b"
    "get_agent (cli_engine W) a db = (Inr (Some old_record), db)"
    "ensure_agent_absent W b db = (Inr (), db)"
    "rename_agent_rows W old_record a b db = (Inr r, db1)"
    "\<exists>x n t al payload. append_agent_event W n t al payload db1 = (x, db')"
    using assms
    by (auto simp: rename_agent_def get_existing_agent_def ensure_agent_absent_def db_bind_Inr db_outcome_def
        db_return_def AgentAlias_new_def agent_alias.new_Inr fail_if_def get_agent_def split: if_splits
        dest!: transaction_Inr) blast
  obtain old where old: "bm_get a (st_agents db) = Some old" "read_agent_row (eng_sql (cli_engine W)) old = Inr old_record"
    using steps(2) by (auto simp: get_agent_row)
  have absent: "bm_get b (st_agents db) = None"
    using steps(3) by (auto simp: ensure_agent_absent_def db_bind_Inr db_outcome_def get_agent_def query_row_Inr
        split: option.splits)
  define input where "input = (agent_upsert_from_record old_record b)\<lparr>ag_read_only := False\<rparr>"
  obtain row where row: "agent_row (eng_sql (cli_engine W)) (cli_stamp W 0) input = Inr row"
    and read: "read_agent_row (eng_sql (cli_engine W)) (stored_agent row db) = Inr r"
    and db1: "db1 = drop_agent a (db\<lparr>st_agents := bm_insert b (stored_agent row db) (st_agents db)\<rparr>)"
    and free: "\<forall>t \<in> set (map snd (st_tasks db)). tskrow_agent_alias t \<noteq> a"
    using steps(4)
    by (auto simp: rename_agent_rows_def db_bind_Inr db_outcome_def db_return_def fail_if_def upsert_agent_Inr
        delete_agent_True input_def agent_upsert_from_record_def split: if_splits)
  obtain g where g: "db' = db1\<lparr>st_gateway := g\<rparr>" "db_sessions g = db_sessions (st_gateway db1)"
    using steps(5) agent_event_frame by blast
  have st: "stored_agent row db = row" using absent agent_row_alias [OF row] by (simp add: stored_agent_def input_def agent_upsert_from_record_def)
  then have new: "bm_get b (st_agents db') = Some row" "bm_get a (st_agents db') = None"
    using g(1) db1 steps(1) by (simp_all add: drop_agent_def bm_get_remove bm_get_insert)
  have cols: "agent_columns (eng_sql (cli_engine W)) old_record row"
    using agent_row_columns [OF row] by (simp add: agent_columns_def input_def agent_upsert_from_record_def)
  have own: "agrow_alias row = b" "\<not> agrow_read_only row"
    using row by (auto simp: input_def agent_upsert_from_record_def agent_row_def and_then_Inr)
  have others: "\<forall>k. k \<notin> {a, b} \<longrightarrow> bm_get k (st_agents db') = bm_get k (st_agents db)"
    using g(1) db1 by (simp add: drop_agent_def bm_get_remove bm_get_insert)
  show ?thesis
    using old new cols own others read st agent_row_read_back [OF cols _ _ read_agent_urls_sorted [OF old(2)]]
      absent steps(1) free g db1
    by (auto simp: has_row_def bm_contains_key_def drop_agent_def)
qed

subsection \<open>Configurations that cannot be seeded\<close>

lemma long_auth_ref_refused:
  assumes "128 < length (auth_header c) \<or> 64 < length (auth_scheme c)"
  shows "\<exists>e. upsert_auth_ref E stamp (config_auth_ref_upsert name c) db = (Inl e, db)"
proof -
  have "\<not> is_ok (auth_ref_checks (config_auth_ref_upsert name c))"
    using assms
    by (auto simp: auth_ref_checks_def config_auth_ref_upsert_def checks_Inr validate_len_def when_some_def fail_if_def
        and_then_Inr split: if_splits)
  then obtain e where "auth_ref_checks (config_auth_ref_upsert name c) = Inl e"
    by (cases "auth_ref_checks (config_auth_ref_upsert name c)") auto
  then show ?thesis by (simp add: upsert_auth_ref_def db_bind_def db_outcome_def and_then_def)
qed

lemma sync_auth_refs_refused:
  assumes "(name, c) \<in> set entries" "128 < length (auth_header c) \<or> 64 < length (auth_scheme c)"
  shows "\<exists>e. fst (sync_config_auth_refs W n entries db) = Inl e"
  using assms
proof (induction W n entries arbitrary: db rule: sync_config_auth_refs.induct)
  case (2 W n name' c' entries)
  show ?case
  proof (cases "upsert_auth_ref (cli_engine W) (cli_stamp W n) (config_auth_ref_upsert name' c') db")
    case (Pair x db1)
    then show ?thesis
      using 2 long_auth_ref_refused [of c "cli_engine W" "cli_stamp W n" name db]
      by (cases x) (auto simp: db_bind_def)
  qed
qed simp

definition long_header_config :: MissiveConfig where
  "long_header_config = MissiveConfig_default
     \<lparr>cfg_auth_refs := [(''a'', \<lparr>auth_kind = AuthEnv, auth_env = Some ''T'', auth_keyring_service = None,
        auth_keyring_account = None, auth_header = replicate 129 (CHR ''a''), auth_scheme = ''Bearer''\<rparr>)]\<rparr>"

text \<open>C39. There are configurations that validation accepts and that no store accepts: an authentication
  reference may have a header name of any length in the configuration, but only 128 bytes in the store,
  so every command that opens the registry with such a configuration fails.\<close>

theorem valid_config_not_seedable:
  "config_validate U long_header_config = Inr () \<and>
   (\<forall>W db source profile. \<exists>e. fst (sync_config W
      \<lparr>loaded_config = long_header_config, loaded_source = source, loaded_selected_profile = profile\<rparr> db) = Inl e)"
proof -
  have "named_ok ''default''" "named_ok ''a''"
    by (simp_all add: named_ok_def shaped_def is_ascii_lower_alphanumeric_def ascii_defs)
  moreover have "profile_ok U c ProfileConfig_default" for c by (simp add: profile_ok_def ProfileConfig_default_def)
  moreover have "token_ok [CHR ''-''] (replicate 129 (CHR ''a''))" "token_ok [CHR ''-'', CHR ''_''] ''Bearer''" "env_name_ok ''T''"
    by (simp_all add: token_ok_def env_name_ok_def ascii_defs)
  ultimately have "config_ok U long_header_config"
    by (simp add: config_ok_def long_header_config_def MissiveConfig_default_def CONFIG_SCHEMA_VERSION_def DEFAULT_PROFILE_def
        all_entries_def storage_ok_def StorageConfig_default_def OutputConfig_default_def auth_ref_ok_def
        ProtocolConfig_default_ok GatewayConfig_default_ok RoutingConfig_default_ok QosConfig_default_ok)
  then have "config_validate U long_header_config = Inr ()" by (simp add: config_validate_Inr)
  moreover have "\<exists>e. fst (sync_config W
      \<lparr>loaded_config = long_header_config, loaded_source = source, loaded_selected_profile = profile\<rparr> db) = Inl e"
    for W :: "'a cli_world" and db source profile
  proof -
    obtain e where "fst (sync_config_auth_refs W 0 (cfg_auth_refs long_header_config) db) = Inl e"
      using sync_auth_refs_refused [of "''a''" _ "cfg_auth_refs long_header_config" W 0 db]
      by (auto simp: long_header_config_def)
    then show ?thesis
      by (cases "sync_config_auth_refs W 0 (cfg_auth_refs long_header_config) db") (simp add: sync_config_def db_bind_def)
  qed
  ultimately show ?thesis by blast
qed

subsection \<open>Instances\<close>

text \<open>A client whose network is down, over a SDK that reads no card.\<close>

definition demo_card_sdk :: "json sdk" where
  "demo_card_sdk =
     \<lparr>sdk_from_str = (\<lambda>t. Inl (StdError [] None)), sdk_rpc_response = (\<lambda>j. Inl (StdError [] None)),
      sdk_stream_response = (\<lambda>j. Inr j), sdk_version_not_supported = 0\<rparr>"

definition demo_client :: "json card_client" where
  "demo_client =
     \<lparr>cc_sdk = demo_card_sdk, cc_card = (\<lambda>j. Inl (StdError [] None)), cc_url_host = (\<lambda>u. Inr True),
      cc_url_join = (\<lambda>u p. Inr (u @ p)),
      cc_headers = \<lparr>hdr_name = (\<lambda>n. Inr (to_ascii_lowercase n)), hdr_value = Inr,
        svc_param_version = ''A2A-Version'', svc_param_extensions = ''A2A-Extensions''\<rparr>,
      cc_build = None, cc_get = (\<lambda>u r. Inl (StdError [] None))\<rparr>"

definition demo_world :: "string cli_world" where
  "demo_world =
     \<lparr>cli_engine = demo_engine, cli_parse_url = (\<lambda>u. Inl (StdError [] None)), cli_stamp = (\<lambda>n. ''t''),
      cli_message_id = ''1'', cli_cards = demo_client, cli_keyring = None, cli_environment = [],
      cli_globals = \<lparr>globals_protocol_version = None, globals_a2a_extensions = [], globals_service_params = [],
        globals_bearer_token_env = None, globals_headers = []\<rparr>,
      cli_now = (\<lambda>n. ''t'')\<rparr>"

definition demo_loaded :: LoadedConfig where
  "demo_loaded =
     \<lparr>loaded_config = MissiveConfig_default
        \<lparr>cfg_agents := [(''a'', \<lparr>agent_base_url = ''u'', agent_interface_urls = [],
           agent_binding_preference = store_default_binding_preference, agent_auth_ref = None, agent_tags = [],
           agent_notes = None, agent_metadata = metadata_new\<rparr>)]\<rparr>,
      loaded_source = built_in_default, loaded_selected_profile = ''default''\<rparr>"

lemma demo_sync: "fst (sync_config demo_world demo_loaded store_empty) = Inr ()"
  by code_simp

theorem configured_agents_protected_witness:
  "(\<exists>e. remove_agent demo_world ''a'' (snd (sync_config demo_world demo_loaded store_empty)) =
     (Inl e, snd (sync_config demo_world demo_loaded store_empty))) \<and>
   (\<exists>e. rename_agent demo_world ''b'' ''a'' (snd (sync_config demo_world demo_loaded store_empty)) =
     (Inl e, snd (sync_config demo_world demo_loaded store_empty)))"
proof -
  have "sync_config demo_world demo_loaded store_empty = (Inr (), snd (sync_config demo_world demo_loaded store_empty))"
    using demo_sync by (simp add: prod_eq_iff)
  moreover have "bm_sorted (cfg_agents (loaded_config demo_loaded))" by (simp add: demo_loaded_def)
  moreover have "\<exists>c. (''a'', c) \<in> set (cfg_agents (loaded_config demo_loaded))" by (simp add: demo_loaded_def)
  ultimately show ?thesis using configured_agents_protected by blast
qed

lemma demo_rename: "case fst (rename_agent demo_world ''a'' ''b'' demo_store) of Inr r \<Rightarrow> True | Inl e \<Rightarrow> False"
  by code_simp

theorem rename_agent_effect_witness:
  "\<exists>r db'. rename_agent demo_world ''a'' ''b'' demo_store = (Inr r, db') \<and> st_members demo_store \<noteq> [] \<and> st_members db' = []"
proof -
  obtain r db' where run: "rename_agent demo_world ''a'' ''b'' demo_store = (Inr r, db')"
    using demo_rename by (cases "rename_agent demo_world ''a'' ''b'' demo_store") (auto split: sum.splits)
  have "st_members demo_store = [([''g'', ''a''], demo_member)]" unfolding demo_store_def by (rule demo_members)
  with rename_agent_effect [OF run] run show ?thesis by (auto simp: drop_rows_def demo_member_def)
qed

end
