(* ===== verification/Cli_Cards.thy ===== *)
theory Cli_Cards
  imports Cli_Registry Router_Plans
begin

text \<open>
  Agent cards on the command line: the cache of cards in the store and the commands that read and
  refresh it (\<open>crates/missive-cli/src/agent.rs\<close>), and the summary of an agent's capabilities from
  its card and its local metadata (\<open>crates/missive-cli/src/capabilities.rs\<close>).
\<close>

subsection \<open>The card cache\<close>

text \<open>An error of the program as the source of another one.\<close>

definition as_source :: "MissiveError \<Rightarrow> std_error" where
  "as_source e = StdError (err_message e) (err_source e)"

definition parse_cached_agent_card :: "'dt cli_world \<Rightarrow> 'dt AgentRecord \<Rightarrow> json \<Rightarrow> agent_card outcome" where
  "parse_cached_agent_card W r raw_card =
     (case agent_card_from_json (cli_cards W) raw_card of
        Inl error \<Rightarrow>
          Inl (with_help (with_source (error_protocol
            [Lit ''cached A2A Agent Card for agent '', Dbg (ag_alias r), Lit '' is malformed'']) (as_source error))
            (''Run '' @ [CHR 0x27] @ ''missive agent refresh <alias>'' @ [CHR 0x27] @
             '' to replace the cached Agent Card.''))
      | Inr c \<Rightarrow> Inr c)"

definition cache_agent_card ::
  "'dt cli_world \<Rightarrow> nat \<Rightarrow> 'dt AgentRecord \<Rightarrow> json \<Rightarrow> AgentCardCacheValidators \<Rightarrow> 'dt \<Rightarrow> 'dt AgentRecord store_op" where
  "cache_agent_card W n r raw_card validators fetched_at =
     upsert_agent (cli_engine W) (cli_stamp W n)
       ((agent_upsert_from_record r (ag_alias r))
         \<lparr>ag_agent_card_json := Some raw_card, ag_agent_card_etag := val_etag validators,
          ag_agent_card_last_modified := val_last_modified validators,
          ag_agent_card_fetched_at := Some fetched_at\<rparr>)"

definition validators_from_record :: "'dt AgentRecord \<Rightarrow> AgentCardCacheValidators option" where
  "validators_from_record r =
     (if ag_agent_card_etag r = None \<and> ag_agent_card_last_modified r = None then None
      else Some \<lparr>val_etag = ag_agent_card_etag r, val_last_modified = ag_agent_card_last_modified r\<rparr>)"

definition merge_validators :: "'dt AgentRecord \<Rightarrow> AgentCardCacheValidators \<Rightarrow> AgentCardCacheValidators" where
  "merge_validators r updated =
     \<lparr>val_etag = (case val_etag updated of None \<Rightarrow> ag_agent_card_etag r | some \<Rightarrow> some),
      val_last_modified =
        (case val_last_modified updated of None \<Rightarrow> ag_agent_card_last_modified r | some \<Rightarrow> some)\<rparr>"

definition negotiate_record_interface ::
  "'dt cli_world \<Rightarrow> 'dt AgentRecord \<Rightarrow> agent_card \<Rightarrow> string option \<Rightarrow> NegotiatedInterface outcome" where
  "negotiate_record_interface W r c binding_override =
     negotiate_agent_interface (cc_url_host (cli_cards W)) (card_supported_interfaces c)
       \<lparr>opt_preferred_bindings = ag_binding_preference r, opt_binding_override = binding_override,
        opt_fallback_interface_urls = ag_interface_urls r, opt_fallback_base_url = Some (ag_base_url r)\<rparr>"

text \<open>What the inspection commands render.\<close>

record AgentCardCacheView =
  cache_status :: string
  cache_discovery_url :: string
  cache_fetched_at :: "string option"
  cache_etag :: "string option"
  cache_last_modified :: "string option"

record 'dt AgentCardInspection =
  insp_record :: "'dt AgentRecord"
  insp_cache :: AgentCardCacheView
  insp_selected_interface :: NegotiatedInterface
  insp_card :: agent_card
  insp_raw_card :: json

definition cli_rfc3339 :: "'dt cli_world \<Rightarrow> 'dt \<Rightarrow> string" where
  "cli_rfc3339 W = to_rfc3339 (sql_chrono (eng_sql (cli_engine W)))"

definition cached_agent_card_output ::
  "'dt cli_world \<Rightarrow> 'dt AgentRecord \<Rightarrow> string option \<Rightarrow> 'dt AgentCardInspection outcome" where
  "cached_agent_card_output W r binding_override =
     and_then (ok_or (ag_agent_card_json r)
       (with_help (error_protocol
         [Lit ''agent '', Dbg (ag_alias r), Lit '' has no cached A2A Agent Card''])
         (''Run '' @ [CHR 0x27] @ ''missive agent inspect <alias> --refresh'' @ [CHR 0x27] @
          '' to fetch the public Agent Card.''))) (\<lambda>raw_card.
     and_then (parse_cached_agent_card W r raw_card) (\<lambda>c.
     and_then (public_agent_card_url (cli_cards W) (ag_base_url r)) (\<lambda>discovery_url.
     and_then (negotiate_record_interface W r c binding_override) (\<lambda>selected_interface.
       Inr \<lparr>insp_record = r,
         insp_cache = \<lparr>cache_status = ''cached'', cache_discovery_url = discovery_url,
           cache_fetched_at = map_option (cli_rfc3339 W) (ag_agent_card_fetched_at r),
           cache_etag = ag_agent_card_etag r, cache_last_modified = ag_agent_card_last_modified r\<rparr>,
         insp_selected_interface = selected_interface, insp_card = c, insp_raw_card = raw_card\<rparr>))))"

definition inspection_output ::
  "'dt cli_world \<Rightarrow> 'dt AgentRecord \<Rightarrow> string \<Rightarrow> string \<Rightarrow> NegotiatedInterface \<Rightarrow> agent_card \<Rightarrow> json \<Rightarrow>
   'dt AgentCardInspection" where
  "inspection_output W updated status url selected c raw_card =
     \<lparr>insp_record = updated,
      insp_cache = \<lparr>cache_status = status, cache_discovery_url = url,
        cache_fetched_at = Some (cli_rfc3339 W (cli_now W 0)),
        cache_etag = ag_agent_card_etag updated, cache_last_modified = ag_agent_card_last_modified updated\<rparr>,
      insp_selected_interface = selected, insp_card = c, insp_raw_card = raw_card\<rparr>"

definition unmodified_without_cache :: "'dt AgentRecord \<Rightarrow> string \<Rightarrow> MissiveError" where
  "unmodified_without_cache r command =
     with_help (error_protocol
       [Lit ''agent '', Dbg (ag_alias r),
        Lit '' Agent Card endpoint returned 304 Not Modified without a local cache''])
       (''Run '' @ [CHR 0x27] @ command @ [CHR 0x27] @ '' after the remote endpoint returns a full card body.'')"

definition fetch_and_cache_agent_card ::
  "'dt cli_world \<Rightarrow> 'dt AgentRecord \<Rightarrow> bool \<Rightarrow> string option \<Rightarrow> ServiceParameters \<Rightarrow> AuthHeaders \<Rightarrow>
   'dt AgentCardInspection store_op" where
  "fetch_and_cache_agent_card W r refresh_requested binding_override service_parameters auth_headers =
     db_bind (db_outcome (fetch_public_agent_card (cli_cards W) (ag_base_url r) (validators_from_record r)
       service_parameters auth_headers)) (\<lambda>outcome.
       case outcome of
         Fetched fetch \<Rightarrow>
           db_bind (db_outcome (negotiate_record_interface W r (fetch_card fetch) binding_override)) (\<lambda>selected.
           db_bind (cache_agent_card W 0 r (fetch_raw_json fetch) (fetch_validators fetch) (cli_now W 0)) (\<lambda>updated.
             db_return (inspection_output W updated (if refresh_requested then ''refreshed'' else ''fetched'')
               (fetch_url fetch) selected (fetch_card fetch) (fetch_raw_json fetch))))
       | NotModified not_modified \<Rightarrow>
           db_bind (db_outcome (ok_or (ag_agent_card_json r)
             (unmodified_without_cache r ''missive agent refresh <alias>''))) (\<lambda>raw_card.
           db_bind (db_outcome (parse_cached_agent_card W r raw_card)) (\<lambda>c.
           db_bind (db_outcome (negotiate_record_interface W r c binding_override)) (\<lambda>selected.
           db_bind (cache_agent_card W 0 r raw_card (merge_validators r (unmodified_validators not_modified)) (cli_now W 0))
             (\<lambda>updated.
               db_return (inspection_output W updated ''not_modified'' (unmodified_url not_modified) selected c raw_card))))))"

definition inspect_agent ::
  "'dt cli_world \<Rightarrow> ServiceParameters \<Rightarrow> string \<Rightarrow> bool \<Rightarrow> string option \<Rightarrow> 'dt AgentCardInspection store_op" where
  "inspect_agent W service_parameters name refresh binding =
     db_bind (db_outcome (AgentAlias_new name)) (\<lambda>alias.
     db_bind (get_existing_agent W alias) (\<lambda>r.
       if refresh \<or> ag_agent_card_json r = None then
         db_bind (auth_headers_for_agent W r) (fetch_and_cache_agent_card W r refresh binding service_parameters)
       else db_outcome (cached_agent_card_output W r binding)))"

definition refresh_agent ::
  "'dt cli_world \<Rightarrow> ServiceParameters \<Rightarrow> string \<Rightarrow> 'dt AgentCardInspection store_op" where
  "refresh_agent W service_parameters name =
     db_bind (db_outcome (AgentAlias_new name)) (\<lambda>alias.
     db_bind (get_existing_agent W alias) (\<lambda>r.
     db_bind (auth_headers_for_agent W r) (fetch_and_cache_agent_card W r True None service_parameters)))"

subsection \<open>Capabilities\<close>

datatype AgentCardLoadMode = CacheOnly | FetchIfMissing | Refresh

record CapabilityCacheView =
  capcache_status :: string
  capcache_fetched_at :: "string option"
  capcache_etag :: "string option"
  capcache_last_modified :: "string option"

definition CapabilityCacheView_from_record :: "'dt cli_world \<Rightarrow> 'dt AgentRecord \<Rightarrow> string \<Rightarrow> CapabilityCacheView" where
  "CapabilityCacheView_from_record W r status =
     \<lparr>capcache_status = status, capcache_fetched_at = map_option (cli_rfc3339 W) (ag_agent_card_fetched_at r),
      capcache_etag = ag_agent_card_etag r, capcache_last_modified = ag_agent_card_last_modified r\<rparr>"

record 'dt AgentCapabilityCard =
  capcard_record :: "'dt AgentRecord"
  capcard_card :: "agent_card option"
  capcard_cache :: CapabilityCacheView

definition fetch_capability_card ::
  "'dt cli_world \<Rightarrow> nat \<Rightarrow> 'dt AgentRecord \<Rightarrow> AgentCardLoadMode \<Rightarrow> ServiceParameters \<Rightarrow> 'dt AgentCapabilityCard store_op" where
  "fetch_capability_card W n r mode service_parameters =
     db_bind (auth_headers_for_agent W r) (\<lambda>auth_headers.
     db_bind (db_outcome (fetch_public_agent_card (cli_cards W) (ag_base_url r) (validators_from_record r)
       service_parameters auth_headers)) (\<lambda>outcome.
       case outcome of
         Fetched fetch \<Rightarrow>
           db_bind (cache_agent_card W n r (fetch_raw_json fetch) (fetch_validators fetch) (cli_now W n)) (\<lambda>updated.
             db_return \<lparr>capcard_record = updated, capcard_card = Some (fetch_card fetch),
               capcard_cache = CapabilityCacheView_from_record W updated
                 (if mode = Refresh then ''refreshed'' else ''fetched'')\<rparr>)
       | NotModified not_modified \<Rightarrow>
           db_bind (db_outcome (ok_or (ag_agent_card_json r)
             (unmodified_without_cache r ''missive agent capabilities <alias> --refresh''))) (\<lambda>raw_card.
           db_bind (db_outcome (parse_cached_agent_card W r raw_card)) (\<lambda>c.
           db_bind (cache_agent_card W n r raw_card (merge_validators r (unmodified_validators not_modified)) (cli_now W n))
             (\<lambda>updated.
               db_return \<lparr>capcard_record = updated, capcard_card = Some c,
                 capcard_cache = CapabilityCacheView_from_record W updated ''not_modified''\<rparr>)))))"

definition load_agent_card_for_capabilities ::
  "'dt cli_world \<Rightarrow> nat \<Rightarrow> 'dt AgentRecord \<Rightarrow> AgentCardLoadMode \<Rightarrow> ServiceParameters \<Rightarrow> 'dt AgentCapabilityCard store_op" where
  "load_agent_card_for_capabilities W n r mode service_parameters =
     (case (mode = Refresh, ag_agent_card_json r) of
        (False, Some raw_card) \<Rightarrow>
          db_bind (db_outcome (parse_cached_agent_card W r raw_card)) (\<lambda>c.
            db_return \<lparr>capcard_record = r, capcard_card = Some c,
              capcard_cache = CapabilityCacheView_from_record W r ''cached''\<rparr>)
      | _ \<Rightarrow>
          if mode = CacheOnly then
            db_return \<lparr>capcard_record = r, capcard_card = None,
              capcard_cache = CapabilityCacheView_from_record W r ''missing''\<rparr>
          else fetch_capability_card W n r mode service_parameters)"

record SkillCapabilityView =
  skillcap_id :: string
  skillcap_name :: string
  skillcap_tags :: "string list"
  skillcap_input_modes :: "string list"
  skillcap_output_modes :: "string list"

record AgentCapabilitySummary =
  capsum_alias :: string
  capsum_source :: string
  capsum_cache :: CapabilityCacheView
  capsum_local_tags :: "string list"
  capsum_tags :: "string list"
  capsum_capability_labels :: "string list"
  capsum_input_modes :: "string list"
  capsum_output_modes :: "string list"
  capsum_supports_streaming :: "bool option"
  capsum_supports_push_notifications :: "bool option"
  capsum_skills :: "SkillCapabilityView list"

definition normalize_token :: "string \<Rightarrow> string" where
  "normalize_token value = to_ascii_lowercase (trim value)"

definition string_set :: "string list \<Rightarrow> string list" where
  "string_set values = bs_from_iter (filter (\<lambda>v. v \<noteq> []) (map normalize_token values))"

definition extend_normalized :: "string list \<Rightarrow> string list \<Rightarrow> string list" where
  "extend_normalized labels values =
     fold (\<lambda>value labels. let n = normalize_token value in if n \<noteq> [] then bs_insert n labels else labels) values labels"

text \<open>The sets the loop over the skills extends.\<close>

record capability_sets =
  capset_tags :: "string list"
  capset_labels :: "string list"
  capset_input_modes :: "string list"
  capset_output_modes :: "string list"
  capset_skills :: "SkillCapabilityView list"

definition add_skill :: "AgentSkill \<Rightarrow> capability_sets \<Rightarrow> capability_sets" where
  "add_skill skill s =
     (let ident = normalize_token (skill_id skill);
          name = normalize_token (skill_name skill);
          labels1 = (if ident \<noteq> [] then bs_insert ident (capset_labels s) else capset_labels s);
          labels2 = (if name \<noteq> [] then bs_insert name labels1 else labels1);
          tags = string_set (skill_tags skill);
          input_modes = string_set (unwrap_or (skill_input_modes skill) []);
          output_modes = string_set (unwrap_or (skill_output_modes skill) [])
      in \<lparr>capset_tags = fold bs_insert tags (capset_tags s), capset_labels = fold bs_insert tags labels2,
          capset_input_modes = fold bs_insert input_modes (capset_input_modes s),
          capset_output_modes = fold bs_insert output_modes (capset_output_modes s),
          capset_skills = capset_skills s @
            [\<lparr>skillcap_id = ident, skillcap_name = name, skillcap_tags = tags,
              skillcap_input_modes = input_modes, skillcap_output_modes = output_modes\<rparr>]\<rparr>)"

definition card_capability_sets :: "string list \<Rightarrow> string list \<Rightarrow> agent_card \<Rightarrow> capability_sets" where
  "card_capability_sets tags labels c =
     (let summary = agent_card_summary c;
          streaming = unwrap_or (cap_streaming (summary_capabilities summary)) False;
          push = unwrap_or (cap_push_notifications (summary_capabilities summary)) False;
          labels1 = (if streaming then bs_insert ''streaming'' labels else labels);
          labels2 = (if push then bs_insert ''push-notifications'' (bs_insert ''push'' labels1) else labels1)
      in fold add_skill (summary_skills summary)
           \<lparr>capset_tags = tags, capset_labels = labels2,
            capset_input_modes = extend_normalized [] (summary_default_input_modes summary),
            capset_output_modes = extend_normalized [] (summary_default_output_modes summary),
            capset_skills = []\<rparr>)"

definition summarize_agent_capabilities ::
  "'dt AgentRecord \<Rightarrow> agent_card option \<Rightarrow> CapabilityCacheView \<Rightarrow> AgentCapabilitySummary" where
  "summarize_agent_capabilities r c cache =
     (let tags = string_set (ag_tags r);
          labels = string_set (capabilities_from_metadata (ag_metadata r));
          sets = (case c of
              None \<Rightarrow> \<lparr>capset_tags = tags, capset_labels = labels, capset_input_modes = [], capset_output_modes = [],
                capset_skills = []\<rparr>
            | Some cd \<Rightarrow> card_capability_sets tags labels cd)
      in \<lparr>capsum_alias = ag_alias r,
          capsum_source = (case c of Some _ \<Rightarrow> ''agent_card''
            | None \<Rightarrow> if labels = [] then ''missing'' else ''local_metadata''),
          capsum_cache = cache, capsum_local_tags = string_set (ag_tags r), capsum_tags = capset_tags sets,
          capsum_capability_labels = capset_labels sets, capsum_input_modes = capset_input_modes sets,
          capsum_output_modes = capset_output_modes sets,
          capsum_supports_streaming =
            map_option (\<lambda>cd. unwrap_or (cap_streaming (summary_capabilities (agent_card_summary cd))) False) c,
          capsum_supports_push_notifications =
            map_option (\<lambda>cd. unwrap_or (cap_push_notifications (summary_capabilities (agent_card_summary cd))) False) c,
          capsum_skills = capset_skills sets\<rparr>)"

fun summarize_all ::
  "'dt cli_world \<Rightarrow> nat \<Rightarrow> ServiceParameters \<Rightarrow> AgentCardLoadMode \<Rightarrow> 'dt AgentRecord list \<Rightarrow> AgentCapabilitySummary list store_op" where
  "summarize_all W n service_parameters mode [] = db_return []"
| "summarize_all W n service_parameters mode (r # records) =
     db_bind (load_agent_card_for_capabilities W n r mode service_parameters) (\<lambda>loaded.
     db_bind (summarize_all W (Suc n) service_parameters mode records) (\<lambda>summaries.
       db_return (summarize_agent_capabilities (capcard_record loaded) (capcard_card loaded) (capcard_cache loaded) #
         summaries)))"

definition summarize_agent_capabilities_command ::
  "'dt cli_world \<Rightarrow> ServiceParameters \<Rightarrow> string option \<Rightarrow> bool \<Rightarrow> AgentCapabilitySummary list store_op" where
  "summarize_agent_capabilities_command W service_parameters name refresh =
     db_bind
       (case name of
          Some text \<Rightarrow>
            db_bind (db_outcome (AgentAlias_new text)) (\<lambda>alias.
            db_bind (get_existing_agent W alias) (\<lambda>r. db_return [r]))
        | None \<Rightarrow> list_agents (cli_engine W))
       (summarize_all W 0 service_parameters (if refresh then Refresh else FetchIfMissing))"

end
