(* ===== verification/Cli_Groups.thy ===== *)
theory Cli_Groups
  imports Cli_Cards
begin

text \<open>
  The group commands of the command line, \<open>crates/missive-cli/src/group.rs\<close>: creation, membership,
  renaming and deletion of groups with the events they journal, and the summary of the capabilities
  of a group's members.
\<close>

subsection \<open>Arguments\<close>

definition GROUP_NOTES_MAX_BYTES :: nat where
  "GROUP_NOTES_MAX_BYTES = 8 * 1024"

definition GROUP_NOTES_HELP :: string where
  "GROUP_NOTES_HELP = ''Use concise non-secret group notes.''"

definition GROUP_POLICY_HELP :: string where
  "GROUP_POLICY_HELP = ''Use one of: direct, capability-match, tag-match, round-robin, weighted, broadcast, first-success, quorum, fallback.''"

definition parse_group_policy :: "string \<Rightarrow> string outcome" where
  "parse_group_policy value =
     (case parse_routing_policy value of
        Inl error \<Rightarrow> Inl (if err_help error \<noteq> None then error else with_help error GROUP_POLICY_HELP)
      | Inr policy \<Rightarrow> Inr (policy_as_str policy))"

definition cli_validate_optional_text :: "string \<Rightarrow> string \<Rightarrow> nat \<Rightarrow> string \<Rightarrow> string outcome" where
  "cli_validate_optional_text flag value max_bytes help =
     (let text = trim value
      in if text = [] then Inl (with_help (error_validation [Lit (flag @ '' value cannot be empty'')]) help)
         else if max_bytes < length text then
           Inl (with_help (error_validation
             [Lit (flag @ '' value is '' @ show_nat (length text) @ '' bytes, but the maximum is '' @ show_nat max_bytes)]) help)
         else if has_control text then
           Inl (with_help (error_validation [Lit (flag @ '' value cannot contain control characters'')]) help)
         else Inr text)"

definition parse_group_notes :: "string option \<Rightarrow> string option outcome" where
  "parse_group_notes value =
     (case value of
        None \<Rightarrow> Inr None
      | Some text \<Rightarrow>
          and_then (cli_validate_optional_text ''--notes'' text GROUP_NOTES_MAX_BYTES GROUP_NOTES_HELP) (\<lambda>notes. Inr (Some notes)))"

definition parse_member_tags :: "string list \<Rightarrow> string list outcome" where
  "parse_member_tags values =
     and_then (try_for_each (validate_named_cli_identifier ''member tag'') values) (\<lambda>_. Inr values)"

fun parse_flag_metadata_from :: "'dt sqlite \<Rightarrow> string \<Rightarrow> Metadata \<Rightarrow> string list \<Rightarrow> Metadata outcome" where
  "parse_flag_metadata_from S flag m [] = Inr m"
| "parse_flag_metadata_from S flag m (value # values) =
     and_then (split_key_value flag value) (\<lambda>(key, raw_value).
       let parsed = (case serde_from_str S raw_value of Inr v \<Rightarrow> v | Inl _ \<Rightarrow> JString raw_value)
       in and_then (metadata_insert m key parsed) (\<lambda>(m', old).
            if old \<noteq> None then
              Inl (with_help (error_validation [Lit (''duplicate '' @ flag @ '' key ''), Dbg key])
                ''Pass each metadata key at most once.'')
            else parse_flag_metadata_from S flag m' values))"

definition parse_flag_metadata :: "'dt sqlite \<Rightarrow> string \<Rightarrow> string list \<Rightarrow> Metadata outcome" where
  "parse_flag_metadata S flag values = parse_flag_metadata_from S flag metadata_new values"

text \<open>The check of \<open>parse_positive_weight_arg\<close> on a weight \<open>str::parse\<close> has read.\<close>

definition positive_weight :: "f64 \<Rightarrow> bool" where
  "positive_weight weight \<longleftrightarrow> f64_is_finite weight \<and> f64_gt_zero weight"

record GroupCreateArgs =
  gc_group :: string
  gc_routing_policy :: string
  gc_notes :: "string option"
  gc_metadata :: "string list"

record GroupAddArgs =
  ga_group :: string
  ga_agent :: string
  ga_rank :: string
  ga_tags :: "string list"
  ga_weight :: f64
  ga_routing_metadata :: "string list"

subsection \<open>Looking things up\<close>

definition get_existing_group :: "'dt cli_world \<Rightarrow> GroupName \<Rightarrow> 'dt GroupRecord store_op" where
  "get_existing_group W group_name =
     db_bind (get_group (cli_engine W) group_name) (\<lambda>found.
       db_outcome (ok_or found
         (with_help (error_validation [Lit ''group '', Dbg group_name, Lit '' does not exist''])
           (''Run '' @ [CHR 0x27] @ ''missive group list'' @ [CHR 0x27] @ '' to see locally known groups.''))))"

definition ensure_group_absent :: "'dt cli_world \<Rightarrow> GroupName \<Rightarrow> unit store_op" where
  "ensure_group_absent W group_name =
     db_bind (get_group (cli_engine W) group_name) (\<lambda>found.
       db_outcome (fail_if (found \<noteq> None)
         (with_help (error_validation [Lit ''group '', Dbg group_name, Lit '' already exists''])
           ''Choose a different group name or delete/rename the existing group.'')))"

definition get_existing_member ::
  "'dt cli_world \<Rightarrow> GroupName \<Rightarrow> AgentAlias \<Rightarrow> 'dt GroupMemberRecord store_op" where
  "get_existing_member W group_name agent_alias =
     db_bind (list_group_members (cli_engine W) group_name) (\<lambda>members.
       db_outcome (ok_or (List.find (\<lambda>m. mem_agent_alias m = agent_alias) members)
         (with_help (error_validation
           [Lit ''agent '', Dbg agent_alias, Lit '' is not a member of group '', Dbg group_name])
           (''Run '' @ [CHR 0x27] @ ''missive group show <group>'' @ [CHR 0x27] @ '' to inspect current membership.''))))"

definition ensure_rank_available ::
  "'dt cli_world \<Rightarrow> GroupName \<Rightarrow> RankName \<Rightarrow> AgentAlias \<Rightarrow> unit store_op" where
  "ensure_rank_available W group_name rank_name agent_alias =
     db_bind (list_group_members (cli_engine W) group_name) (\<lambda>members.
       db_outcome
         (case List.find (\<lambda>m. mem_rank_name m = rank_name \<and> mem_agent_alias m \<noteq> agent_alias) members of
            None \<Rightarrow> Inr ()
          | Some existing \<Rightarrow>
              Inl (with_help (error_validation
                [Lit ''rank '', Dbg rank_name, Lit '' is already used in group '', Dbg group_name, Lit '' by agent '',
                 Dbg (mem_agent_alias existing)])
                ''Choose a unique --rank value for each group member.'')))"

subsection \<open>Views\<close>

record GroupMemberView =
  memview_agent :: string
  memview_rank :: string
  memview_tags :: "string list"
  memview_weight :: f64
  memview_routing_metadata :: Metadata
  memview_created_at :: string

record GroupView =
  grpview_name :: string
  grpview_routing_policy :: string
  grpview_notes :: "string option"
  grpview_metadata :: Metadata
  grpview_member_count :: nat
  grpview_members :: "GroupMemberView list"
  grpview_created_at :: string
  grpview_updated_at :: string

definition GroupMemberView_from_record :: "'dt cli_world \<Rightarrow> 'dt GroupMemberRecord \<Rightarrow> GroupMemberView" where
  "GroupMemberView_from_record W r =
     \<lparr>memview_agent = mem_agent_alias r, memview_rank = mem_rank_name r, memview_tags = mem_tags r,
      memview_weight = mem_weight r, memview_routing_metadata = mem_routing_metadata r,
      memview_created_at = cli_rfc3339 W (mem_created_at r)\<rparr>"

definition GroupView_from_record :: "'dt cli_world \<Rightarrow> 'dt GroupRecord \<Rightarrow> GroupView store_op" where
  "GroupView_from_record W r =
     db_bind (list_group_members (cli_engine W) (grp_group_name r)) (\<lambda>records.
       let members = map (GroupMemberView_from_record W) records
       in db_return
            \<lparr>grpview_name = grp_group_name r, grpview_routing_policy = grp_routing_policy r, grpview_notes = grp_notes r,
             grpview_metadata = grp_metadata r, grpview_member_count = length members, grpview_members = members,
             grpview_created_at = cli_rfc3339 W (grp_created_at r),
             grpview_updated_at = cli_rfc3339 W (grp_updated_at r)\<rparr>)"

definition member_view_json :: "GroupMemberView \<Rightarrow> json" where
  "member_view_json v =
     json_object
       [(''agent'', JString (memview_agent v)), (''rank'', JString (memview_rank v)),
        (''tags'', strings_serialize (memview_tags v)), (''weight'', JNumber (Float (memview_weight v))),
        (''routing_metadata'', metadata_serialize (memview_routing_metadata v)),
        (''created_at'', JString (memview_created_at v))]"

definition group_view_json :: "GroupView \<Rightarrow> json" where
  "group_view_json v =
     json_object
       ([(''name'', JString (grpview_name v)), (''routing_policy'', JString (grpview_routing_policy v))] @
        optional_entry ''notes'' (grpview_notes v) @
        [(''metadata'', metadata_serialize (grpview_metadata v)),
         (''member_count'', JNumber (PosInt (of_nat (grpview_member_count v)))),
         (''members'', JArray (map member_view_json (grpview_members v))),
         (''created_at'', JString (grpview_created_at v)), (''updated_at'', JString (grpview_updated_at v))])"

text \<open>An optional string in \<open>json!\<close>.\<close>

definition json_option :: "string option \<Rightarrow> json" where
  "json_option value = (case value of None \<Rightarrow> JNull | Some text \<Rightarrow> JString text)"

definition append_group_event ::
  "'dt cli_world \<Rightarrow> nat \<Rightarrow> string \<Rightarrow> GroupName option \<Rightarrow> AgentAlias option \<Rightarrow> json \<Rightarrow> unit store_op" where
  "append_group_event W n type group_name agent_alias payload =
     db_bind (db_outcome (new_cli_event W type payload)) (\<lambda>event.
     db_bind (on_gateway (cli_engine W) (\<lambda>S. append_event S (cli_stamp W n)
       (event\<lparr>event_group_name := group_name, event_agent_alias := agent_alias\<rparr>)))
       (\<lambda>_. db_return ()))"

subsection \<open>Commands\<close>

definition create_group_input :: "'dt cli_world \<Rightarrow> GroupName \<Rightarrow> GroupCreateArgs \<Rightarrow> GroupUpsert outcome" where
  "create_group_input W group_name args =
     and_then (parse_group_policy (gc_routing_policy args)) (\<lambda>routing_policy.
     and_then (parse_group_notes (gc_notes args)) (\<lambda>notes.
     and_then (parse_flag_metadata (eng_sql (cli_engine W)) ''--metadata'' (gc_metadata args)) (\<lambda>metadata.
       Inr ((GroupUpsert_new group_name)
         \<lparr>grp_routing_policy := routing_policy, grp_notes := notes, grp_metadata := metadata\<rparr>))))"

definition create_group :: "'dt cli_world \<Rightarrow> GroupCreateArgs \<Rightarrow> GroupView store_op" where
  "create_group W args =
     db_bind (db_outcome (GroupName_new (gc_group args))) (\<lambda>group_name.
     db_bind (ensure_group_absent W group_name) (\<lambda>_.
     db_bind (db_outcome (create_group_input W group_name args)) (\<lambda>input.
     db_bind (upsert_group (cli_engine W) (cli_stamp W 0) input) (\<lambda>r.
     db_bind (append_group_event W 1 ''missive.group.create'' (Some (grp_group_name r)) None
       (json_object
         [(''group'', JString (grp_group_name r)), (''routing_policy'', JString (grp_routing_policy r)),
          (''notes'', json_option (grp_notes r)), (''metadata'', metadata_serialize (grp_metadata r))])) (\<lambda>_.
       GroupView_from_record W r)))))"

definition show_group :: "'dt cli_world \<Rightarrow> string \<Rightarrow> GroupView store_op" where
  "show_group W name =
     db_bind (db_outcome (GroupName_new name)) (\<lambda>group_name.
     db_bind (get_existing_group W group_name) (GroupView_from_record W))"

record GroupSummaryView =
  grpsum_name :: string
  grpsum_routing_policy :: string
  grpsum_notes :: "string option"
  grpsum_metadata :: Metadata
  grpsum_member_count :: nat
  grpsum_created_at :: string
  grpsum_updated_at :: string

fun group_summaries :: "'dt cli_world \<Rightarrow> 'dt GroupRecord list \<Rightarrow> GroupSummaryView list store_op" where
  "group_summaries W [] = db_return []"
| "group_summaries W (r # records) =
     db_bind (list_group_members (cli_engine W) (grp_group_name r)) (\<lambda>members.
     db_bind (group_summaries W records) (\<lambda>views.
       db_return
         (\<lparr>grpsum_name = grp_group_name r, grpsum_routing_policy = grp_routing_policy r, grpsum_notes = grp_notes r,
           grpsum_metadata = grp_metadata r, grpsum_member_count = length members,
           grpsum_created_at = cli_rfc3339 W (grp_created_at r),
           grpsum_updated_at = cli_rfc3339 W (grp_updated_at r)\<rparr> # views)))"

definition cli_list_groups :: "'dt cli_world \<Rightarrow> GroupSummaryView list store_op" where
  "cli_list_groups W = db_bind (list_groups (cli_engine W)) (group_summaries W)"

definition add_member_input ::
  "'dt cli_world \<Rightarrow> GroupName \<Rightarrow> AgentAlias \<Rightarrow> RankName \<Rightarrow> GroupAddArgs \<Rightarrow> GroupMemberUpsert outcome" where
  "add_member_input W group_name agent_alias rank_name args =
     and_then (parse_member_tags (ga_tags args)) (\<lambda>tags.
     and_then (parse_flag_metadata (eng_sql (cli_engine W)) ''--routing-metadata'' (ga_routing_metadata args))
       (\<lambda>routing_metadata.
         Inr ((GroupMemberUpsert_new group_name agent_alias rank_name)
           \<lparr>mem_tags := tags, mem_weight := ga_weight args, mem_routing_metadata := routing_metadata\<rparr>)))"

definition add_group_member :: "'dt cli_world \<Rightarrow> GroupAddArgs \<Rightarrow> (GroupView \<times> GroupMemberView) store_op" where
  "add_group_member W args =
     db_bind (db_outcome (GroupName_new (ga_group args))) (\<lambda>group_name.
     db_bind (get_existing_group W group_name) (\<lambda>_.
     db_bind (db_outcome (AgentAlias_new (ga_agent args))) (\<lambda>agent_alias.
     db_bind (get_existing_agent W agent_alias) (\<lambda>_.
     db_bind (db_outcome (RankName_new (ga_rank args))) (\<lambda>rank_name.
     db_bind (ensure_rank_available W group_name rank_name agent_alias) (\<lambda>_.
     db_bind (db_outcome (add_member_input W group_name agent_alias rank_name args)) (\<lambda>input.
     db_bind (upsert_group_member (cli_engine W) (cli_stamp W 0) input) (\<lambda>m.
     db_bind (get_existing_group W group_name) (\<lambda>r.
     db_bind (append_group_event W 1 ''missive.group.member.add'' (Some group_name) (Some agent_alias)
       (json_object
         [(''group'', JString group_name), (''agent'', JString agent_alias), (''rank'', JString (mem_rank_name m)),
          (''tags'', strings_serialize (mem_tags m)), (''weight'', JNumber (Float (mem_weight m))),
          (''routing_metadata'', metadata_serialize (mem_routing_metadata m))])) (\<lambda>_.
     db_bind (GroupView_from_record W r) (\<lambda>view.
       db_return (view, GroupMemberView_from_record W m))))))))))))"

definition cli_remove_group_member ::
  "'dt cli_world \<Rightarrow> string \<Rightarrow> string \<Rightarrow> (GroupView \<times> GroupMemberView) store_op" where
  "cli_remove_group_member W group_text agent_text =
     db_bind (db_outcome (GroupName_new group_text)) (\<lambda>group_name.
     db_bind (get_existing_group W group_name) (\<lambda>_.
     db_bind (db_outcome (AgentAlias_new agent_text)) (\<lambda>agent_alias.
     db_bind (get_existing_member W group_name agent_alias) (\<lambda>m.
     db_bind (remove_group_member (cli_engine W) group_name agent_alias) (\<lambda>removed.
     db_bind (db_outcome (fail_if (\<not> removed)
       (error_storage [Lit (''group member '' @ group_name @ ''/'' @ agent_alias @ '' disappeared before it could be removed'')])))
     (\<lambda>_.
     db_bind (get_existing_group W group_name) (\<lambda>r.
     db_bind (append_group_event W 0 ''missive.group.member.remove'' (Some group_name) (Some agent_alias)
       (json_object
         [(''group'', JString group_name), (''agent'', JString agent_alias),
          (''removed_member'', member_view_json (GroupMemberView_from_record W m))])) (\<lambda>_.
     db_bind (GroupView_from_record W r) (\<lambda>view.
       db_return (view, GroupMemberView_from_record W m))))))))))"

definition cli_rename_group :: "'dt cli_world \<Rightarrow> string \<Rightarrow> string \<Rightarrow> GroupView store_op" where
  "cli_rename_group W old_text new_text =
     db_bind (db_outcome (GroupName_new old_text)) (\<lambda>old_name.
     db_bind (db_outcome (GroupName_new new_text)) (\<lambda>new_name.
     db_bind (db_outcome (fail_if (old_name = new_name)
       (with_help (error_validation [Lit ''group rename requires a different new group name''])
         ''Choose a new group name that does not match the current name.''))) (\<lambda>_.
     db_bind (get_existing_group W old_name) (\<lambda>_.
     db_bind (ensure_group_absent W new_name) (\<lambda>_.
     db_bind (rename_group (cli_engine W) (cli_stamp W 0) old_name new_name) (\<lambda>found.
     db_bind (db_outcome (fail_if (\<not> found)
       (error_storage [Lit ''group '', Dbg old_name, Lit '' disappeared before it could be renamed'']))) (\<lambda>_.
     db_bind (get_existing_group W new_name) (\<lambda>r.
     db_bind (append_group_event W 1 ''missive.group.rename'' (Some new_name) None
       (json_object [(''previous_name'', JString old_name), (''group'', JString new_name)])) (\<lambda>_.
       GroupView_from_record W r)))))))))"

definition cli_delete_group :: "'dt cli_world \<Rightarrow> string \<Rightarrow> GroupView store_op" where
  "cli_delete_group W name =
     db_bind (db_outcome (GroupName_new name)) (\<lambda>group_name.
     db_bind (get_existing_group W group_name) (\<lambda>r.
     db_bind (GroupView_from_record W r) (\<lambda>view.
     db_bind (delete_group (cli_engine W) group_name) (\<lambda>deleted.
     db_bind (db_outcome (fail_if (\<not> deleted)
       (error_storage [Lit ''group '', Dbg group_name, Lit '' disappeared before it could be deleted'']))) (\<lambda>_.
     db_bind (append_group_event W 0 ''missive.group.delete'' None None
       (json_object [(''group'', JString group_name), (''deleted_group'', group_view_json view)])) (\<lambda>_.
       db_return view))))))"

subsection \<open>Capabilities of a group\<close>

record GroupMemberCapabilityView =
  memcap_agent :: string
  memcap_rank :: string
  memcap_weight :: f64
  memcap_member_tags :: "string list"
  memcap_routing_metadata :: Metadata
  memcap_capabilities :: AgentCapabilitySummary

record GroupCapabilityAggregateView =
  aggr_tags :: "string list"
  aggr_capability_labels :: "string list"
  aggr_input_modes :: "string list"
  aggr_output_modes :: "string list"
  aggr_streaming_supported :: nat
  aggr_push_supported :: nat
  aggr_cache_statuses :: "(string, nat) btree_map"

definition merge_member_capability_hints ::
  "'dt GroupMemberRecord \<Rightarrow> AgentCapabilitySummary \<Rightarrow> AgentCapabilitySummary" where
  "merge_member_capability_hints m summary =
     summary\<lparr>capsum_tags := string_set (capsum_tags summary @ mem_tags m),
       capsum_capability_labels :=
         string_set (capsum_capability_labels summary @ capabilities_from_metadata (mem_routing_metadata m))\<rparr>"

definition aggregate_step ::
  "GroupMemberCapabilityView \<Rightarrow> GroupCapabilityAggregateView \<Rightarrow> GroupCapabilityAggregateView" where
  "aggregate_step m a =
     (let c = memcap_capabilities m;
          status = capcache_status (capsum_cache c)
      in \<lparr>aggr_tags = fold bs_insert (capsum_tags c) (aggr_tags a),
          aggr_capability_labels = fold bs_insert (capsum_capability_labels c) (aggr_capability_labels a),
          aggr_input_modes = fold bs_insert (capsum_input_modes c) (aggr_input_modes a),
          aggr_output_modes = fold bs_insert (capsum_output_modes c) (aggr_output_modes a),
          aggr_streaming_supported =
            aggr_streaming_supported a + (if capsum_supports_streaming c = Some True then 1 else 0),
          aggr_push_supported =
            aggr_push_supported a + (if capsum_supports_push_notifications c = Some True then 1 else 0),
          aggr_cache_statuses =
            bm_insert status (unwrap_or (bm_get status (aggr_cache_statuses a)) 0 + 1) (aggr_cache_statuses a)\<rparr>)"

definition aggregate_group_capabilities :: "GroupMemberCapabilityView list \<Rightarrow> GroupCapabilityAggregateView" where
  "aggregate_group_capabilities members =
     fold aggregate_step members
       \<lparr>aggr_tags = [], aggr_capability_labels = [], aggr_input_modes = [], aggr_output_modes = [],
        aggr_streaming_supported = 0, aggr_push_supported = 0, aggr_cache_statuses = []\<rparr>"

fun member_capabilities ::
  "'dt cli_world \<Rightarrow> nat \<Rightarrow> ServiceParameters \<Rightarrow> AgentCardLoadMode \<Rightarrow> 'dt GroupMemberRecord list \<Rightarrow>
   GroupMemberCapabilityView list store_op" where
  "member_capabilities W n service_parameters mode [] = db_return []"
| "member_capabilities W n service_parameters mode (m # members) =
     db_bind (get_existing_agent W (mem_agent_alias m)) (\<lambda>agent.
     db_bind (load_agent_card_for_capabilities W n agent mode service_parameters) (\<lambda>loaded.
     db_bind (member_capabilities W (Suc n) service_parameters mode members) (\<lambda>views.
       db_return
         (\<lparr>memcap_agent = mem_agent_alias m, memcap_rank = mem_rank_name m, memcap_weight = mem_weight m,
           memcap_member_tags = mem_tags m, memcap_routing_metadata = mem_routing_metadata m,
           memcap_capabilities = merge_member_capability_hints m
             (summarize_agent_capabilities (capcard_record loaded) (capcard_card loaded) (capcard_cache loaded))\<rparr>
          # views))))"

definition group_capabilities ::
  "'dt cli_world \<Rightarrow> ServiceParameters \<Rightarrow> string \<Rightarrow> bool \<Rightarrow>
   (GroupCapabilityAggregateView \<times> GroupMemberCapabilityView list) store_op" where
  "group_capabilities W service_parameters name refresh =
     db_bind (db_outcome (GroupName_new name)) (\<lambda>group_name.
     db_bind (get_existing_group W group_name) (\<lambda>_.
     db_bind (list_group_members (cli_engine W) group_name) (\<lambda>members.
     db_bind (member_capabilities W 0 service_parameters (if refresh then Refresh else FetchIfMissing) members)
       (\<lambda>views. db_return (aggregate_group_capabilities views, views)))))"

end
