(* ===== verification/Cli_Routes.thy ===== *)
theory Cli_Routes
  imports Cli_Groups
begin

text \<open>
  \<open>crates/missive-cli/src/route.rs\<close>: the dry run of a routing decision over the members of a stored
  group or over named agents.  The candidates handed to the router are built from the stored agents
  and memberships and the capabilities of their cards.
\<close>

record RouteExplainArgs =
  re_group :: "string option"
  re_agents :: "string list"
  re_policy :: "string option"
  re_preferred_agent :: "string option"
  re_required_tags :: "string list"
  re_required_capabilities :: "string list"
  re_required_input_modes :: "string list"
  re_required_output_modes :: "string list"
  re_require_streaming :: bool
  re_require_push_notifications :: bool
  re_refresh_capabilities :: bool
  re_cursor :: u64
  re_quorum :: "nat option"

record RouteSourceView =
  rsv_kind :: string
  rsv_group :: "string option"
  rsv_candidates :: nat

record RouteExplainOutput =
  reo_source :: RouteSourceView
  reo_policy_source :: string
  reo_plan :: RoutePlan
  reo_message :: string

definition validate_candidate_source :: "RouteExplainArgs \<Rightarrow> unit outcome" where
  "validate_candidate_source args =
     (case (re_group args \<noteq> None, re_agents args = []) of
        (True, True) \<Rightarrow> Inr ()
      | (False, False) \<Rightarrow> Inr ()
      | (True, False) \<Rightarrow>
          Inl (with_help (error_validation
            [Lit ''route explain accepts either --group or one or more --agent candidates, not both''])
            ''Use a stored group, or pass explicit --agent flags for an ad-hoc dry run.'')
      | (False, True) \<Rightarrow>
          Inl (with_help (error_validation [Lit ''route explain requires --group or at least one --agent candidate''])
            (''Use '' @ [CHR 0x27] @ ''missive group list'' @ [CHR 0x27] @ '' or '' @ [CHR 0x27] @
             ''missive agent list'' @ [CHR 0x27] @ '' to choose candidates.'')))"

subsection \<open>Candidates\<close>

definition candidate_capability_summary ::
  "'dt cli_world \<Rightarrow> nat \<Rightarrow> ServiceParameters \<Rightarrow> 'dt AgentRecord \<Rightarrow> bool \<Rightarrow> AgentCapabilitySummary store_op" where
  "candidate_capability_summary W n service_parameters agent refresh_capabilities =
     db_bind (load_agent_card_for_capabilities W n agent (if refresh_capabilities then Refresh else CacheOnly)
       service_parameters) (\<lambda>loaded.
       db_return (summarize_agent_capabilities (capcard_record loaded) (capcard_card loaded) (capcard_cache loaded)))"

definition agent_candidate :: "'dt AgentRecord \<Rightarrow> AgentCapabilitySummary \<Rightarrow> RouteCandidate" where
  "agent_candidate agent summary =
     (route_candidate_new (ag_alias agent))
       \<lparr>cand_tags := capsum_tags summary, cand_capabilities := capsum_capability_labels summary,
        cand_input_modes := capsum_input_modes summary, cand_output_modes := capsum_output_modes summary,
        cand_supports_streaming := capsum_supports_streaming summary,
        cand_supports_push_notifications := capsum_supports_push_notifications summary,
        cand_capability_cache_status := Some (capcache_status (capsum_cache summary)),
        cand_metadata := ag_metadata agent\<rparr>"

definition candidate_from_agent ::
  "'dt cli_world \<Rightarrow> nat \<Rightarrow> ServiceParameters \<Rightarrow> 'dt AgentRecord \<Rightarrow> bool \<Rightarrow> RouteCandidate store_op" where
  "candidate_from_agent W n service_parameters agent refresh_capabilities =
     db_bind (candidate_capability_summary W n service_parameters agent refresh_capabilities) (\<lambda>summary.
       db_return (agent_candidate agent summary))"

definition member_candidate ::
  "'dt AgentRecord \<Rightarrow> 'dt GroupMemberRecord \<Rightarrow> AgentCapabilitySummary \<Rightarrow> RouteCandidate" where
  "member_candidate agent m summary =
     \<lparr>cand_alias = mem_agent_alias m, cand_rank = Some (mem_rank_name m),
      cand_tags = fold bs_insert (string_set (mem_tags m)) (string_set (capsum_tags summary)),
      cand_capabilities =
        fold bs_insert (string_set (capabilities_from_metadata (mem_routing_metadata m)))
          (string_set (capsum_capability_labels summary)),
      cand_input_modes = capsum_input_modes summary, cand_output_modes = capsum_output_modes summary,
      cand_supports_streaming = capsum_supports_streaming summary,
      cand_supports_push_notifications = capsum_supports_push_notifications summary,
      cand_capability_cache_status = Some (capcache_status (capsum_cache summary)),
      cand_weight = mem_weight m,
      cand_metadata = metadata_merge (ag_metadata agent) (mem_routing_metadata m)\<rparr>"

definition candidate_from_group_member ::
  "'dt cli_world \<Rightarrow> nat \<Rightarrow> ServiceParameters \<Rightarrow> 'dt AgentRecord \<Rightarrow> 'dt GroupMemberRecord \<Rightarrow> bool \<Rightarrow> RouteCandidate store_op" where
  "candidate_from_group_member W n service_parameters agent m refresh_capabilities =
     db_bind (candidate_capability_summary W n service_parameters agent refresh_capabilities) (\<lambda>summary.
       db_return (member_candidate agent m summary))"

fun member_candidates ::
  "'dt cli_world \<Rightarrow> nat \<Rightarrow> ServiceParameters \<Rightarrow> bool \<Rightarrow> 'dt GroupMemberRecord list \<Rightarrow> RouteCandidate list store_op" where
  "member_candidates W n service_parameters refresh [] = db_return []"
| "member_candidates W n service_parameters refresh (m # members) =
     db_bind (get_existing_agent W (mem_agent_alias m)) (\<lambda>agent.
     db_bind (candidate_from_group_member W n service_parameters agent m refresh) (\<lambda>c.
     db_bind (member_candidates W (Suc n) service_parameters refresh members) (\<lambda>cs. db_return (c # cs))))"

fun named_candidates ::
  "'dt cli_world \<Rightarrow> nat \<Rightarrow> ServiceParameters \<Rightarrow> bool \<Rightarrow> AgentAlias list \<Rightarrow> string list \<Rightarrow> RouteCandidate list store_op" where
  "named_candidates W n service_parameters refresh seen [] = db_return []"
| "named_candidates W n service_parameters refresh seen (name # names) =
     db_bind (db_outcome (AgentAlias_new name)) (\<lambda>alias.
     db_bind (db_outcome (fail_if (alias \<in> set seen)
       (with_help (error_validation [Lit ''duplicate route candidate '', Dbg alias])
         ''Pass each --agent candidate at most once.''))) (\<lambda>_.
     db_bind (get_existing_agent W alias) (\<lambda>agent.
     db_bind (candidate_from_agent W n service_parameters agent refresh) (\<lambda>c.
     db_bind (named_candidates W (Suc n) service_parameters refresh (bs_insert alias seen) names)
       (\<lambda>cs. db_return (c # cs))))))"

definition route_candidates ::
  "'dt cli_world \<Rightarrow> ServiceParameters \<Rightarrow> RouteExplainArgs \<Rightarrow>
   (RouteSourceView \<times> string option \<times> RouteCandidate list) store_op" where
  "route_candidates W service_parameters args =
     (case re_group args of
        Some name \<Rightarrow>
          db_bind (db_outcome (GroupName_new name)) (\<lambda>group_name.
          db_bind (get_group (cli_engine W) group_name) (\<lambda>found.
          db_bind (db_outcome (ok_or found
            (with_help (error_validation [Lit ''group '', Dbg group_name, Lit '' does not exist''])
              (''Run '' @ [CHR 0x27] @ ''missive group list'' @ [CHR 0x27] @ '' to see available groups.'')))) (\<lambda>r.
          db_bind (list_group_members (cli_engine W) (grp_group_name r)) (\<lambda>members.
          db_bind (member_candidates W 0 service_parameters (re_refresh_capabilities args) members) (\<lambda>candidates.
            db_return
              (\<lparr>rsv_kind = ''group'', rsv_group = Some (grp_group_name r), rsv_candidates = length candidates\<rparr>,
               Some (grp_routing_policy r), candidates))))))
      | None \<Rightarrow>
          db_bind (named_candidates W 0 service_parameters (re_refresh_capabilities args) [] (re_agents args))
            (\<lambda>candidates.
              db_return (\<lparr>rsv_kind = ''agents'', rsv_group = None, rsv_candidates = length candidates\<rparr>, None, candidates)))"

subsection \<open>The command\<close>

definition resolve_policy ::
  "RouteExplainArgs \<Rightarrow> LoadedConfig \<Rightarrow> string option \<Rightarrow> (RoutingPolicyKind \<times> string) outcome" where
  "resolve_policy args loaded stored_policy =
     (case re_policy args of
        Some policy \<Rightarrow> and_then (parse_routing_policy policy) (\<lambda>kind. Inr (kind, ''cli''))
      | None \<Rightarrow>
          (case stored_policy of
             Some policy \<Rightarrow> and_then (parse_routing_policy policy) (\<lambda>kind. Inr (kind, ''group''))
           | None \<Rightarrow>
               and_then (routing_config loaded) (\<lambda>routing.
               and_then (parse_routing_policy (routing_default_policy routing)) (\<lambda>kind. Inr (kind, ''config'')))))"

definition preferred_alias :: "RouteExplainArgs \<Rightarrow> AgentAlias option outcome" where
  "preferred_alias args =
     (case re_preferred_agent args of
        None \<Rightarrow> Inr None
      | Some name \<Rightarrow> and_then (AgentAlias_new name) (\<lambda>alias. Inr (Some alias)))"

definition route_plan_input ::
  "RouteExplainArgs \<Rightarrow> RoutingPolicyKind \<Rightarrow> RouteCandidate list \<Rightarrow> AgentAlias option \<Rightarrow> RoutePlanInput" where
  "route_plan_input args policy candidates preferred =
     \<lparr>in_policy = policy, in_candidates = candidates, in_preferred_agent = preferred,
      in_required_tags = re_required_tags args, in_required_capabilities = re_required_capabilities args,
      in_required_input_modes = re_required_input_modes args, in_required_output_modes = re_required_output_modes args,
      in_require_streaming = re_require_streaming args,
      in_require_push_notifications = re_require_push_notifications args,
      in_round_robin_cursor = re_cursor args, in_quorum = re_quorum args\<rparr>"

definition route_message :: "RoutePlan \<Rightarrow> string" where
  "route_message p =
     (if plan_status p = ''no_match'' \<and> plan_policy p = CapabilityMatch then
        ''No route candidates matched the requested capabilities; inspect missing_requirements or rerun with --refresh-capabilities''
      else
        ''Route explain selected '' @
        (if plan_selected p = [] then ''no candidates'' else join_with '', '' (plan_selected p)) @
        '' using '' @ policy_as_str (plan_policy p) @ '' policy'')"

definition explain_route_command ::
  "'dt cli_world \<Rightarrow> LoadedConfig \<Rightarrow> RouteExplainArgs \<Rightarrow> RouteExplainOutput store_op" where
  "explain_route_command W loaded args =
     db_bind (db_outcome (validate_candidate_source args)) (\<lambda>_.
     db_bind (sync_config W loaded) (\<lambda>_.
     db_bind (db_outcome (service_parameters_from_config_and_globals (cc_headers (cli_cards W)) loaded (cli_globals W)))
       (\<lambda>service_parameters.
     db_bind (route_candidates W service_parameters args) (\<lambda>(source, stored_policy, candidates).
     db_bind (db_outcome (resolve_policy args loaded stored_policy)) (\<lambda>(policy, policy_source).
     db_bind (db_outcome (preferred_alias args)) (\<lambda>preferred.
     db_bind (db_outcome (explain_route (route_plan_input args policy candidates preferred))) (\<lambda>p.
       db_return \<lparr>reo_source = source, reo_policy_source = policy_source, reo_plan = p, reo_message = route_message p\<rparr>)))))))"

end
