(* ===== verification/Store_Weights.thy ===== *)
theory Store_Weights
  imports Store_Commands
begin

text \<open>
  The weights of group members.  The schema only asks for a positive weight, which infinity is; that
  they are finite as well is due to the validation of \<open>upsert_group_member\<close>, and no other operation of
  the store writes one.
\<close>

definition weights_ok :: "store_db \<Rightarrow> bool" where
  "weights_ok db \<longleftrightarrow> (\<forall>(k, r) \<in> set (st_members db). f64_is_finite (memrow_weight r))"

definition keeps_weights :: "'a store_op \<Rightarrow> bool" where
  "keeps_weights operation \<longleftrightarrow> (\<forall>db. weights_ok db \<longrightarrow> weights_ok (snd (operation db)))"

named_theorems weigh "operations that keep the weights of members finite"

lemma weights_outcome [weigh]: "keeps_weights (db_outcome r)"
  by (simp add: keeps_weights_def db_outcome_def)

lemma weights_return [weigh]: "keeps_weights (db_return x)"
  by (simp add: keeps_weights_def db_return_def)

lemma weights_bind [weigh]:
  "keeps_weights m \<Longrightarrow> (\<And>x. keeps_weights (f x)) \<Longrightarrow> keeps_weights (db_bind m f)"
  unfolding keeps_weights_def db_bind_snd by (auto split: prod.splits sum.splits)

lemma weights_read: "(\<And>db. snd (operation db) = db) \<Longrightarrow> keeps_weights operation"
  by (simp add: keeps_weights_def)

lemma weights_execute:
  assumes "\<And>db. weights_ok db \<Longrightarrow> weights_ok (snd (effect db))"
  shows "keeps_weights (execute E action violation effect)"
  using assms by (auto simp: keeps_weights_def execute_def split: option.splits prod.splits) (metis snd_conv)

lemma weights_write_and_read:
  "keeps_weights write \<Longrightarrow> (\<And>db. snd (reading db) = db) \<Longrightarrow> keeps_weights (write_and_read write reading missing)"
  unfolding write_and_read_def by (simp add: weigh weights_read [of reading])

lemma weights_transaction [weigh]: "keeps_weights operation \<Longrightarrow> keeps_weights (transaction E operation)"
  by (auto simp: keeps_weights_def transaction_def split: option.splits prod.splits sum.splits)

lemma weights_on_gateway [weigh]: "keeps_weights (on_gateway E operation)"
  by (auto simp: keeps_weights_def on_gateway_def weights_ok_def split: prod.splits)

lemma weights_encoded:
  "(\<And>row. r = Inr row \<Longrightarrow> keeps_weights (f row)) \<Longrightarrow> keeps_weights (db_bind (db_outcome r) f)"
  by (cases r) (simp_all add: keeps_weights_def db_bind_def db_outcome_def)

lemma weights_put_member:
  assumes "weights_ok db" "f64_is_finite (memrow_weight row)"
  shows "weights_ok (db\<lparr>st_members := put_row keep_member k row (st_members db)\<rparr>)"
  using assms by (auto simp: weights_ok_def put_row_def keep_member_def split: option.splits dest!: set_bm_insertD)

lemma weights_upserts [weigh]:
  "keeps_weights (upsert_auth_ref E stamp a)" "keeps_weights (upsert_agent E stamp b)"
  "keeps_weights (upsert_group E stamp c)" "keeps_weights (upsert_push_config E stamp e)"
  "keeps_weights (upsert_context E stamp f)" "keeps_weights (upsert_task E stamp g)"
  "keeps_weights (upsert_artifact E stamp h)" "keeps_weights (insert_message E stamp i)"
  unfolding upsert_auth_ref_def upsert_agent_def upsert_group_def upsert_push_config_def upsert_context_def
    upsert_task_def upsert_artifact_def insert_message_def
  by (auto intro!: weights_encoded weights_write_and_read weights_execute
      simp: weights_ok_def get_auth_ref_def get_agent_def get_group_def get_push_config_def get_context_def
        get_task_def get_artifact_def get_message_def
      simp del: checks_Cons)

lemma weights_upsert_member [weigh]: "keeps_weights (upsert_group_member E stamp d)"
  unfolding upsert_group_member_def
  by (auto intro!: weights_encoded weights_write_and_read weights_execute weights_put_member
      simp: and_then_Inr validate_positive_weight_def member_row_def get_group_member_def result_iff)

lemma set_bm_extendD: "e \<in> set (bm_extend m ps) \<Longrightarrow> e \<in> set ps \<or> e \<in> set m"
  by (induction ps arbitrary: m) (auto simp: bm_extend_def dest!: set_bm_insertD)

lemma weights_drop:
  assumes "weights_ok db"
  shows "weights_ok (drop_auth_ref k db)" "weights_ok (drop_agent k db)" "weights_ok (drop_context k db)"
    "weights_ok (drop_task k db)" "weights_ok (drop_group k db)" "weights_ok (move_group k k' row db)"
  using assms
  by (auto simp: weights_ok_def drop_auth_ref_def drop_agent_def drop_context_def drop_task_def drop_group_def
      move_group_def drop_rows_def moved_member_def dest!: set_bm_extendD split: if_splits) fastforce+

lemma weights_deletes [weigh]:
  "keeps_weights (delete_auth_ref E a)" "keeps_weights (delete_agent E b)" "keeps_weights (delete_group E c)"
  "keeps_weights (remove_group_member E c b)" "keeps_weights (delete_push_config E stamp d)"
  "keeps_weights (delete_context E e)" "keeps_weights (delete_task E f)" "keeps_weights (delete_artifact E g)"
  "keeps_weights (delete_message E h)" "keeps_weights (rename_group E stamp c c')"
  unfolding delete_auth_ref_def delete_agent_def delete_group_def remove_group_member_def delete_push_config_def
    delete_context_def delete_task_def delete_artifact_def delete_message_def rename_group_def delete_by_key_def
  by (auto intro!: weights_execute simp: delete_row_def weights_drop split: option.splits)
    (auto simp: weights_ok_def bm_remove_def)

lemma keeps_weights_run: "keeps_weights (run E c)" "keeps_weights (run_all E cs)"
  by (induction E c and E cs rule: run_run_all.induct) (simp_all add: ignore_result_def weigh)

lemma history_weights: "weights_ok (history E cs)"
proof -
  have "weights_ok (fold (\<lambda>c db. snd (run E c db)) cs db)" if "weights_ok db" for db
    using that keeps_weights_run(1) by (induction cs arbitrary: db) (auto simp: keeps_weights_def)
  moreover have "weights_ok store_empty" by (simp add: weights_ok_def store_empty_def)
  ultimately show ?thesis by (simp add: history_def)
qed

end
