(* ===== verification/Cli_Routes_Properties.thy ===== *)
theory Cli_Routes_Properties
  imports Cli_Routes Store_Weights Cli_Registry_Properties
begin

text \<open>
  What the group and route commands promise together: the summary of an agent's capabilities is the
  normalised set of what its card, its metadata and its tags declare, every candidate built from the
  store passes the router's validation, and the labels shown for a member are the ones it is routed by.
\<close>

subsection \<open>Labels\<close>

lemma normalize_token_label: "normalize_token v = normalize_label v"
  by (simp add: normalize_token_def normalize_label_def)

definition labels_of :: "string list \<Rightarrow> string set" where
  "labels_of vals = normalize_label ` set vals - {[]}"

lemma labels_of_Nil [simp]: "labels_of [] = {}"
  by (simp add: labels_of_def)

lemma labels_of_append: "labels_of (xs @ ys) = labels_of xs \<union> labels_of ys"
  by (auto simp: labels_of_def)

lemma string_set_props:
  "set (string_set vals) = labels_of vals" "sorted_wrt (<) (string_set vals)"
  by (auto simp: string_set_def labels_of_def normalize_token_label)

text \<open>A sorted set of normalised labels.\<close>

definition label_list :: "string list \<Rightarrow> bool" where
  "label_list ls \<longleftrightarrow> sorted_wrt (<) ls \<and> (\<forall>l \<in> set ls. normalize_label l = l \<and> l \<noteq> [])"

lemma label_list_ok: "label_list ls \<Longrightarrow> labels_ok ls"
  unfolding label_list_def labels_ok_def
  by (metis distinct_map inj_on_def strict_sorted_iff)

lemma label_list_Nil [simp]: "label_list []"
  by (simp add: label_list_def)

lemma label_list_string_set [simp]: "label_list (string_set vals)"
  unfolding label_list_def using string_set_props [of vals] by (auto simp: labels_of_def)

lemma label_list_insert: "label_list ls \<Longrightarrow> normalize_label l = l \<Longrightarrow> l \<noteq> [] \<Longrightarrow> label_list (bs_insert l ls)"
  by (auto simp: label_list_def strict_sorted_bs_insert)

lemma label_list_fold: "label_list ls \<Longrightarrow> label_list ms \<Longrightarrow> label_list (fold bs_insert ms ls)"
  by (auto simp: label_list_def fold_bs_insert)

lemma label_list_eq: "label_list xs \<Longrightarrow> label_list ys \<Longrightarrow> set xs = set ys \<Longrightarrow> xs = ys"
  by (meson label_list_def strict_sorted_equal)

lemma labels_of_label_list: "label_list ls \<Longrightarrow> labels_of ls = set ls"
  by (auto simp: label_list_def labels_of_def image_iff)

lemma extend_normalized_set: "set (extend_normalized ls vals) = set ls \<union> labels_of vals"
proof (induction vals arbitrary: ls)
  case (Cons v vs)
  then show ?case by (auto simp: extend_normalized_def labels_of_def normalize_token_label Let_def)
qed (simp add: extend_normalized_def labels_of_def)

lemma extend_normalized_list: "label_list ls \<Longrightarrow> label_list (extend_normalized ls vals)"
proof (induction vals arbitrary: ls)
  case (Cons v vs)
  have "label_list (let n = normalize_token v in if n \<noteq> [] then bs_insert n ls else ls)"
    using Cons.prems by (auto simp: Let_def normalize_token_label intro: label_list_insert)
  from Cons.IH [OF this] show ?case by (simp add: extend_normalized_def)
qed (simp add: extend_normalized_def)

subsection \<open>Summaries\<close>

text \<open>The labels a skill contributes: its id, its name and its tags.\<close>

definition skill_labels :: "AgentSkill \<Rightarrow> string list" where
  "skill_labels s = skill_id s # skill_name s # skill_tags s"

definition sets_ok :: "capability_sets \<Rightarrow> bool" where
  "sets_ok s \<longleftrightarrow> label_list (capset_tags s) \<and> label_list (capset_labels s) \<and>
     label_list (capset_input_modes s) \<and> label_list (capset_output_modes s)"

lemma add_skill_ok: "sets_ok s \<Longrightarrow> sets_ok (add_skill skill s)"
  by (auto simp: sets_ok_def add_skill_def Let_def normalize_token_label intro!: label_list_fold label_list_insert)

lemma add_skill_sets:
  "set (capset_tags (add_skill skill s)) = set (capset_tags s) \<union> labels_of (skill_tags skill)"
  "set (capset_labels (add_skill skill s)) = set (capset_labels s) \<union> labels_of (skill_labels skill)"
  "set (capset_input_modes (add_skill skill s)) =
     set (capset_input_modes s) \<union> labels_of (unwrap_or (skill_input_modes skill) [])"
  "set (capset_output_modes (add_skill skill s)) =
     set (capset_output_modes s) \<union> labels_of (unwrap_or (skill_output_modes skill) [])"
  by (auto simp: add_skill_def Let_def fold_bs_insert string_set_props normalize_token_label labels_of_def skill_labels_def)

lemma fold_add_skill:
  "sets_ok s \<Longrightarrow> sets_ok (fold add_skill skills s)"
  "set (capset_tags (fold add_skill skills s)) = set (capset_tags s) \<union> labels_of (concat (map skill_tags skills))"
  "set (capset_labels (fold add_skill skills s)) = set (capset_labels s) \<union> labels_of (concat (map skill_labels skills))"
  "set (capset_input_modes (fold add_skill skills s)) =
     set (capset_input_modes s) \<union> labels_of (concat (map (\<lambda>k. unwrap_or (skill_input_modes k) []) skills))"
  "set (capset_output_modes (fold add_skill skills s)) =
     set (capset_output_modes s) \<union> labels_of (concat (map (\<lambda>k. unwrap_or (skill_output_modes k) []) skills))"
  by (induction skills arbitrary: s)
    (simp_all add: add_skill_ok add_skill_sets labels_of_append Un_assoc)

text \<open>What a card declares beside its skills.\<close>

definition feature_labels :: "agent_card \<Rightarrow> string list" where
  "feature_labels c =
     (if cap_streaming (card_capabilities c) = Some True then [''streaming''] else []) @
     (if cap_push_notifications (card_capabilities c) = Some True then [''push'', ''push-notifications''] else [])"

lemma feature_label_text:
  "normalize_label ''streaming'' = ''streaming''" "normalize_label ''push'' = ''push''"
  "normalize_label ''push-notifications'' = ''push-notifications''"
  by code_simp+

lemma card_capability_sets_props:
  assumes "label_list tags" "label_list labels"
  shows "sets_ok (card_capability_sets tags labels c)"
    "set (capset_tags (card_capability_sets tags labels c)) =
       set tags \<union> labels_of (concat (map skill_tags (card_skills c)))"
    "set (capset_labels (card_capability_sets tags labels c)) =
       set labels \<union> labels_of (feature_labels c) \<union> labels_of (concat (map skill_labels (card_skills c)))"
    "set (capset_input_modes (card_capability_sets tags labels c)) =
       labels_of (card_default_input_modes c @ concat (map (\<lambda>k. unwrap_or (skill_input_modes k) []) (card_skills c)))"
    "set (capset_output_modes (card_capability_sets tags labels c)) =
       labels_of (card_default_output_modes c @ concat (map (\<lambda>k. unwrap_or (skill_output_modes k) []) (card_skills c)))"
proof -
  have unwrap: "unwrap_or b False \<longleftrightarrow> b = Some True" for b by (cases b) (auto simp: unwrap_or_def)
  show "sets_ok (card_capability_sets tags labels c)"
    unfolding card_capability_sets_def Let_def
    by (intro fold_add_skill(1))
      (auto simp: sets_ok_def assms feature_label_text intro!: label_list_insert extend_normalized_list)
  show "set (capset_tags (card_capability_sets tags labels c)) =
       set tags \<union> labels_of (concat (map skill_tags (card_skills c)))"
    by (simp add: card_capability_sets_def Let_def fold_add_skill agent_card_summary_def)
  show "set (capset_labels (card_capability_sets tags labels c)) =
       set labels \<union> labels_of (feature_labels c) \<union> labels_of (concat (map skill_labels (card_skills c)))"
    by (auto simp: card_capability_sets_def Let_def fold_add_skill agent_card_summary_def unwrap feature_labels_def
        labels_of_def [of "_ # _"] labels_of_def [of "[]"] feature_label_text)
  show "set (capset_input_modes (card_capability_sets tags labels c)) =
       labels_of (card_default_input_modes c @ concat (map (\<lambda>k. unwrap_or (skill_input_modes k) []) (card_skills c)))"
    "set (capset_output_modes (card_capability_sets tags labels c)) =
       labels_of (card_default_output_modes c @ concat (map (\<lambda>k. unwrap_or (skill_output_modes k) []) (card_skills c)))"
    by (simp_all add: card_capability_sets_def Let_def fold_add_skill agent_card_summary_def extend_normalized_set
        labels_of_append)
qed

text \<open>What an agent declares: with its row, and with its card when there is one.\<close>

definition declared_skills :: "agent_card option \<Rightarrow> AgentSkill list" where
  "declared_skills c = (case c of None \<Rightarrow> [] | Some cd \<Rightarrow> card_skills cd)"

definition declared_tags :: "'dt AgentRecord \<Rightarrow> agent_card option \<Rightarrow> string list" where
  "declared_tags r c = ag_tags r @ concat (map skill_tags (declared_skills c))"

definition declared_labels :: "'dt AgentRecord \<Rightarrow> agent_card option \<Rightarrow> string list" where
  "declared_labels r c =
     capabilities_from_metadata (ag_metadata r) @ (case c of None \<Rightarrow> [] | Some cd \<Rightarrow> feature_labels cd) @
     concat (map skill_labels (declared_skills c))"

definition declared_inputs :: "agent_card option \<Rightarrow> string list" where
  "declared_inputs c =
     (case c of None \<Rightarrow> [] | Some cd \<Rightarrow> card_default_input_modes cd) @
     concat (map (\<lambda>k. unwrap_or (skill_input_modes k) []) (declared_skills c))"

definition declared_outputs :: "agent_card option \<Rightarrow> string list" where
  "declared_outputs c =
     (case c of None \<Rightarrow> [] | Some cd \<Rightarrow> card_default_output_modes cd) @
     concat (map (\<lambda>k. unwrap_or (skill_output_modes k) []) (declared_skills c))"

lemmas declared_defs = declared_skills_def declared_tags_def declared_labels_def declared_inputs_def declared_outputs_def

lemma summary_sets:
  "set (capsum_tags (summarize_agent_capabilities r c cache)) = labels_of (declared_tags r c)"
  "set (capsum_capability_labels (summarize_agent_capabilities r c cache)) = labels_of (declared_labels r c)"
  "set (capsum_input_modes (summarize_agent_capabilities r c cache)) = labels_of (declared_inputs c)"
  "set (capsum_output_modes (summarize_agent_capabilities r c cache)) = labels_of (declared_outputs c)"
  by (cases c; simp add: summarize_agent_capabilities_def Let_def declared_defs string_set_props
      card_capability_sets_props labels_of_append Un_assoc)+

lemma summary_lists:
  "label_list (capsum_tags (summarize_agent_capabilities r c cache))"
  "label_list (capsum_capability_labels (summarize_agent_capabilities r c cache))"
  "label_list (capsum_input_modes (summarize_agent_capabilities r c cache))"
  "label_list (capsum_output_modes (summarize_agent_capabilities r c cache))"
  using card_capability_sets_props(1) [OF label_list_string_set label_list_string_set]
  by (cases c; simp add: summarize_agent_capabilities_def Let_def sets_ok_def)+

text \<open>C32. The capability summary of an agent is exactly what its row and its card declare: trimmed and in
  lower case, empty labels left out, each label once and in order.\<close>

theorem capability_summary_exact:
  "let s = summarize_agent_capabilities r c cache in
     set (capsum_tags s) = labels_of (declared_tags r c) \<and> sorted_wrt (<) (capsum_tags s) \<and>
     set (capsum_capability_labels s) = labels_of (declared_labels r c) \<and> sorted_wrt (<) (capsum_capability_labels s) \<and>
     set (capsum_input_modes s) = labels_of (declared_inputs c) \<and> sorted_wrt (<) (capsum_input_modes s) \<and>
     set (capsum_output_modes s) = labels_of (declared_outputs c) \<and> sorted_wrt (<) (capsum_output_modes s)"
  using summary_lists [of r c cache] by (simp add: Let_def summary_sets label_list_def)

text \<open>The labels the group command shows for a member are the ones its candidate is routed by.\<close>

lemma member_labels_agree:
  fixes r c cache
  defines "s \<equiv> summarize_agent_capabilities r c cache"
  shows "cand_tags (member_candidate agent m s) = capsum_tags (merge_member_capability_hints m s)"
    "cand_capabilities (member_candidate agent m s) = capsum_capability_labels (merge_member_capability_hints m s)"
  by (auto intro!: label_list_eq label_list_fold
      simp: member_candidate_def merge_member_capability_hints_def fold_bs_insert string_set_props labels_of_append)

subsection \<open>Candidates from the store\<close>

lemma preserves_reads [keeps]:
  "preserves E (db_return x)" "preserves E (get_agent E a)" "preserves E (get_auth_ref E n)"
  by (simp_all add: preserves_def db_return_def get_agent_def get_auth_ref_def)

lemma preserves_get_existing_agent [keeps]: "preserves (cli_engine W) (get_existing_agent W a)"
  by (simp add: get_existing_agent_def keeps)

lemma preserves_auth_headers [keeps]: "preserves (cli_engine W) (auth_headers_for_agent W agent)"
  unfolding auth_headers_for_agent_def by (rule preserves_bind) (auto simp: keeps split: option.split)

lemma preserves_summary [keeps]:
  "preserves (cli_engine W) (candidate_capability_summary W n sp agent refresh)"
  unfolding candidate_capability_summary_def load_agent_card_for_capabilities_def fetch_capability_card_def
    cache_agent_card_def
  by (intro preserves_bind) (auto intro!: preserves_bind simp: keeps split: option.split bool.split AgentCardFetchOutcome.split)

definition summary_ok :: "AgentCapabilitySummary \<Rightarrow> bool" where
  "summary_ok s \<longleftrightarrow> label_list (capsum_tags s) \<and> label_list (capsum_capability_labels s) \<and>
     label_list (capsum_input_modes s) \<and> label_list (capsum_output_modes s)"

lemma candidate_summary_ok:
  "candidate_capability_summary W n sp agent refresh db = (Inr s, db') \<Longrightarrow> summary_ok s"
  by (auto simp: candidate_capability_summary_def db_bind_Inr db_return_def summary_ok_def summary_lists)

lemma f64_one_ok [simp]: "f64_is_finite f64_one" "f64_gt_zero f64_one"
  by (simp_all add: f64_is_finite_def f64_gt_zero_def f64_one_def f64_mantissa_def f64_exponent_def f64_is_nan_def f64_sign_def)

lemma agent_candidate_ok: "summary_ok s \<Longrightarrow> candidate_ok (agent_candidate agent s)"
  by (simp add: candidate_ok_def agent_candidate_def route_candidate_new_def label_list_ok summary_ok_def)

lemma member_candidate_ok:
  "summary_ok s \<Longrightarrow> f64_is_finite (mem_weight m) \<Longrightarrow> f64_gt_zero (mem_weight m) \<Longrightarrow>
   candidate_ok (member_candidate agent m s)"
  by (simp add: candidate_ok_def member_candidate_def label_list_ok summary_ok_def label_list_fold)

lemma member_candidates_shape:
  assumes "member_candidates W n sp refresh members db = (Inr cs, db')"
    "\<And>m. m \<in> set members \<Longrightarrow> f64_is_finite (mem_weight m) \<and> f64_gt_zero (mem_weight m)"
  shows "map cand_alias cs = map mem_agent_alias members \<and> (\<forall>c \<in> set cs. candidate_ok c)"
  using assms
proof (induction members arbitrary: n db cs)
  case (Cons m members)
  from Cons.prems(1) obtain agent db1 db2 s cs' where steps:
    "candidate_capability_summary W n sp agent refresh db1 = (Inr s, db2)"
    "member_candidates W (Suc n) sp refresh members db2 = (Inr cs', db')" "cs = member_candidate agent m s # cs'"
    by (auto simp: db_bind_Inr db_return_def candidate_from_group_member_def)
  have "candidate_ok (member_candidate agent m s)"
    by (rule member_candidate_ok [OF candidate_summary_ok [OF steps(1)]]) (use Cons.prems(2) in simp_all)
  moreover have "cand_alias (member_candidate agent m s) = mem_agent_alias m" by (simp add: member_candidate_def)
  moreover have "map cand_alias cs' = map mem_agent_alias members \<and> (\<forall>c \<in> set cs'. candidate_ok c)"
    by (rule Cons.IH [OF steps(2)]) (use Cons.prems(2) in simp)
  ultimately show ?case by (simp add: steps(3))
qed (simp add: db_return_def)

lemma get_existing_agent_alias:
  assumes "get_existing_agent W a db = (Inr agent, db')" "store_ok (cli_engine W) db"
  shows "ag_alias agent = a \<and> db' = db"
proof -
  obtain row where row: "bm_get a (st_agents db) = Some row" "read_agent_row (eng_sql (cli_engine W)) row = Inr agent" "db' = db"
    using assms(1) by (auto simp: get_existing_agent_def db_bind_Inr db_outcome_def get_agent_def query_row_Inr ok_or_def
        split: option.splits)
  from table_ok_get [OF store_okD(2) [OF assms(2)] row(1)] row show ?thesis
    by (auto simp: read_agent_row_def and_then_Inr parse_sql_def AgentAlias_new_def identifier_new_def split: sum.splits)
qed

lemma named_candidates_shape:
  assumes "named_candidates W n sp refresh seen names db = (Inr cs, db')" "store_ok (cli_engine W) db"
  shows "distinct (map cand_alias cs) \<and> cand_alias ` set cs \<inter> set seen = {} \<and> (\<forall>c \<in> set cs. candidate_ok c)"
  using assms
proof (induction names arbitrary: n seen db cs)
  case (Cons name names)
  from Cons.prems(1) obtain a agent db1 db2 s cs' where steps: "a \<notin> set seen"
    "get_existing_agent W a db = (Inr agent, db1)"
    "candidate_capability_summary W n sp agent refresh db1 = (Inr s, db2)"
    "named_candidates W (Suc n) sp refresh (bs_insert a seen) names db2 = (Inr cs', db')" "cs = agent_candidate agent s # cs'"
    by (auto simp: db_bind_Inr db_return_def db_outcome_def candidate_from_agent_def fail_if_def split: if_splits)
  have same: "ag_alias agent = a" "db1 = db" using get_existing_agent_alias [OF steps(2) Cons.prems(2)] by simp_all
  have "store_ok (cli_engine W) db2"
    using preserves_summary [of W n sp agent refresh] Cons.prems(2) steps(3) same(2)
    by (auto simp: preserves_def dest!: spec [of _ db])
  from Cons.IH [OF steps(4) this] have rest: "distinct (map cand_alias cs')" "a \<notin> cand_alias ` set cs'"
    "cand_alias ` set cs' \<inter> set seen = {}" "\<forall>c \<in> set cs'. candidate_ok c" by auto
  have "candidate_ok (agent_candidate agent s)" by (rule agent_candidate_ok [OF candidate_summary_ok [OF steps(3)]])
  moreover have "cand_alias (agent_candidate agent s) = a"
    by (simp add: agent_candidate_def route_candidate_new_def same)
  ultimately show ?case using rest steps(1) by (simp add: steps(5))
qed (simp add: db_return_def)

lemma listed_members:
  assumes "list_group_members E g db = (Inr members, db')" "store_ok E db" "weights_ok db"
  shows "distinct (map mem_agent_alias members)"
    "\<forall>m \<in> set members. f64_is_finite (mem_weight m) \<and> f64_gt_zero (mem_weight m)"
proof -
  define rows where "rows = sort_by (\<lambda>a b. [memrow_rank_name a, memrow_agent_alias a] \<le> [memrow_rank_name b, memrow_agent_alias b])
    (filter (\<lambda>r. memrow_group_name r = g) (map snd (st_members db)))"
  have read: "list_all2 (\<lambda>row m. read_group_member_row (eng_sql E) row = Inr m) rows members"
    using assms(1) unfolding list_group_members_def rows_def prod.inject collect_rows_Inr by (rule conjunct1)
  have table: "table_ok member_key (member_check E) member_refs db (st_members db)" using store_okD(8) [OF assms(2)] .
  have row: "f64_is_finite (memrow_weight r) \<and> f64_gt_zero (memrow_weight r)" if "r \<in> set rows" for r
    using that table assms(3) by (fastforce simp: rows_def table_ok_def member_check_def weights_ok_def)
  have fields: "mem_agent_alias m = memrow_agent_alias r \<and> mem_weight m = memrow_weight r"
    if "read_group_member_row (eng_sql E) r = Inr m" for r m
    using that by (auto simp: read_group_member_row_def and_then_Inr parse_sql_def AgentAlias_new_def identifier_new_def
        split: sum.splits)
  from read have "map mem_agent_alias members = map memrow_agent_alias rows"
    by (induction rule: list_all2_induct) (auto dest: fields)
  moreover have "distinct (map memrow_agent_alias rows)"
  proof -
    have keys: "map fst (st_members db) = map member_key (map snd (st_members db))"
      using table by (auto simp: table_ok_def)
    have "distinct (map fst (st_members db))" using table by (simp add: table_ok_def bm_sorted_def strict_sorted_iff)
    then have members: "distinct (map snd (st_members db))" "inj_on member_key (set (map snd (st_members db)))"
      unfolding keys by (simp_all only: distinct_map)
    have "inj_on memrow_agent_alias (set rows)"
      by (rule inj_onI, rule inj_onD [OF members(2)]) (auto simp: rows_def member_key_def)
    then show ?thesis using members(1) by (simp add: distinct_map rows_def)
  qed
  ultimately show "distinct (map mem_agent_alias members)" by simp
  show "\<forall>m \<in> set members. f64_is_finite (mem_weight m) \<and> f64_gt_zero (mem_weight m)"
    using read row by (fastforce simp: list_all2_conv_all_nth set_conv_nth dest: fields)
qed

lemma route_candidates_props:
  assumes "route_candidates W sp args db = (Inr (source, stored, cs), db')" "store_ok (cli_engine W) db" "weights_ok db"
  shows "distinct (map cand_alias cs) \<and> (\<forall>c \<in> set cs. candidate_ok c)"
proof (cases "re_group args")
  case None
  with assms(1) have "named_candidates W 0 sp (re_refresh_capabilities args) [] (re_agents args) db = (Inr cs, db')"
    by (auto simp: route_candidates_def db_bind_Inr db_return_def)
  from named_candidates_shape [OF this assms(2)] show ?thesis by blast
next
  case (Some name)
  with assms(1) obtain g members db1 where "list_group_members (cli_engine W) g db = (Inr members, db1)"
    "member_candidates W 0 sp (re_refresh_capabilities args) members db1 = (Inr cs, db')"
    by (auto simp: route_candidates_def db_bind_Inr db_return_def db_outcome_def get_group_def)
  with listed_members [OF _ assms(2,3)] member_candidates_shape show ?thesis by metis
qed

text \<open>Seeding the store from the configuration keeps what the candidates rely on.\<close>

lemma sync_config_keeps:
  "preserves (cli_engine W) (sync_config W loaded) \<and> keeps_weights (sync_config W loaded)"
proof -
  have "preserves (cli_engine W) (sync_config_auth_refs W n refs) \<and> keeps_weights (sync_config_auth_refs W n refs)" for n refs
    by (induction refs arbitrary: n) (auto simp: keeps weigh)
  moreover have "keeps_weights (get_agent (cli_engine W) a)" for a by (rule weights_read) (simp add: get_agent_def)
  then have "preserves (cli_engine W) (sync_config_agents W n agents) \<and> keeps_weights (sync_config_agents W n agents)" for n agents
    by (induction agents arbitrary: n) (auto simp: keeps weigh)
  ultimately show ?thesis by (simp add: sync_config_def keeps weigh)
qed

text \<open>The steps before the plan: the source of the candidates is unambiguous, the configuration is written
  to the store, the service parameters, the candidates, the policy and the preferred alias are found.\<close>

definition route_prepared ::
  "'dt cli_world \<Rightarrow> LoadedConfig \<Rightarrow> RouteExplainArgs \<Rightarrow> store_db \<Rightarrow>
   RouteCandidate list \<Rightarrow> RoutingPolicyKind \<Rightarrow> AgentAlias option \<Rightarrow> bool" where
  "route_prepared W loaded args db cs policy preferred \<longleftrightarrow>
     validate_candidate_source args = Inr () \<and>
     (\<exists>db1 sp source stored db2 policy_source.
        sync_config W loaded db = (Inr (), db1) \<and>
        service_parameters_from_config_and_globals (cc_headers (cli_cards W)) loaded (cli_globals W) = Inr sp \<and>
        route_candidates W sp args db1 = (Inr (source, stored, cs), db2) \<and>
        resolve_policy args loaded stored = Inr (policy, policy_source)) \<and>
     preferred_alias args = Inr preferred"

text \<open>What the arguments must satisfy of the candidates.\<close>

definition route_args_ok :: "RouteExplainArgs \<Rightarrow> RoutingPolicyKind \<Rightarrow> AgentAlias option \<Rightarrow> RouteCandidate list \<Rightarrow> bool" where
  "route_args_ok args policy preferred cs \<longleftrightarrow>
     cs \<noteq> [] \<and> labels_ok (re_required_tags args) \<and> labels_ok (re_required_capabilities args) \<and>
     labels_ok (re_required_input_modes args) \<and> labels_ok (re_required_output_modes args) \<and>
     (\<forall>q. re_quorum args = Some q \<longrightarrow> 0 < q \<and> q \<le> length cs) \<and>
     (\<forall>a. preferred = Some a \<longrightarrow> policy \<in> {Direct, Fallback} \<longrightarrow> a \<in> cand_alias ` set cs)"

lemma explain_route_command_Inr:
  "is_ok (fst (explain_route_command W loaded args db)) \<longleftrightarrow>
     (\<exists>cs policy preferred. route_prepared W loaded args db cs policy preferred \<and>
        is_ok (explain_route (route_plan_input args policy cs preferred)))"
proof
  assume "is_ok (fst (explain_route_command W loaded args db))"
  then obtain out db' where "explain_route_command W loaded args db = (Inr out, db')"
    by (cases "explain_route_command W loaded args db") auto
  then show "\<exists>cs policy preferred. route_prepared W loaded args db cs policy preferred \<and>
      is_ok (explain_route (route_plan_input args policy cs preferred))"
    unfolding explain_route_command_def route_prepared_def
    by (auto simp: db_bind_Inr db_outcome_def db_return_def split: prod.splits)
next
  assume "\<exists>cs policy preferred. route_prepared W loaded args db cs policy preferred \<and>
      is_ok (explain_route (route_plan_input args policy cs preferred))"
  then show "is_ok (fst (explain_route_command W loaded args db))"
    by (auto simp: explain_route_command_def route_prepared_def db_bind_def db_outcome_def db_return_def)
qed

lemma route_prepared_candidates:
  assumes "route_prepared W loaded args (history (cli_engine W) commands) cs policy preferred"
  shows "distinct (map cand_alias cs)" "\<forall>c \<in> set cs. candidate_ok c"
proof -
  obtain db1 sp source stored db2 where
    sync: "sync_config W loaded (history (cli_engine W) commands) = (Inr (), db1)" and
    found: "route_candidates W sp args db1 = (Inr (source, stored, cs), db2)"
    using assms unfolding route_prepared_def by (elim exE conjE)
  have "store_ok (cli_engine W) db1 \<and> weights_ok db1"
    using sync_config_keeps [of W loaded] history_ok [of "cli_engine W" commands] history_weights [of "cli_engine W" commands]
    unfolding preserves_def keeps_weights_def by (metis sync snd_conv)
  then show "distinct (map cand_alias cs)" "\<forall>c \<in> set cs. candidate_ok c"
    using route_candidates_props [OF found] by blast+
qed

text \<open>C26. Whatever a store went through, the candidates the route command takes from it have different
  aliases and never make the plan fail.  The command succeeds exactly when the steps before the plan
  do (one source of candidates, the configuration written to the store, the service parameters, the
  candidates, the policy and the preferred alias found) and there is a candidate, the labels asked for
  are well formed, the quorum fits, and under the policies direct and fallback the preferred agent,
  if one is given, is among the candidates; the other policies accept any alias.\<close>

theorem route_explain_plans:
  "(\<forall>cs policy preferred. route_prepared W loaded args (history (cli_engine W) commands) cs policy preferred \<longrightarrow>
      distinct (map cand_alias cs)) \<and>
   (is_ok (fst (explain_route_command W loaded args (history (cli_engine W) commands))) \<longleftrightarrow>
      (\<exists>cs policy preferred. route_prepared W loaded args (history (cli_engine W) commands) cs policy preferred \<and>
         route_args_ok args policy preferred cs))"
proof -
  have "route_args_ok args policy preferred cs \<longleftrightarrow> is_ok (explain_route (route_plan_input args policy cs preferred))"
    if prep: "route_prepared W loaded args (history (cli_engine W) commands) cs policy preferred" for cs policy preferred
  proof -
    define inp where "inp = route_plan_input args policy cs preferred"
    have "route_args_ok args policy preferred cs \<longleftrightarrow> input_ok inp \<and> preferred_ok inp"
      using route_prepared_candidates(2) [OF prep]
      by (auto simp: route_args_ok_def inp_def route_plan_input_def input_ok_def preferred_ok_def)
    also have "\<dots> \<longleftrightarrow> is_ok (explain_route inp)"
      using explain_policy_ok [of inp] by (auto simp: explain_route_def and_then_Inr result_iff)
    finally show ?thesis unfolding inp_def .
  qed
  then show ?thesis
    unfolding explain_route_command_Inr using route_prepared_candidates(1) by blast
qed

definition demo_route_loaded :: LoadedConfig where
  "demo_route_loaded =
     \<lparr>loaded_config = MissiveConfig_default, loaded_source = built_in_default, loaded_selected_profile = ''default''\<rparr>"

definition demo_route_args :: RouteExplainArgs where
  "demo_route_args =
     \<lparr>re_group = Some ''g'', re_agents = [], re_policy = Some ''broadcast'', re_preferred_agent = None, re_required_tags = [],
      re_required_capabilities = [], re_required_input_modes = [], re_required_output_modes = [],
      re_require_streaming = False, re_require_push_notifications = False, re_refresh_capabilities = False,
      re_cursor = 0, re_quorum = None\<rparr>"

lemma demo_candidates:
  "case fst (route_candidates demo_world sp demo_route_args (history demo_engine demo_commands)) of
     Inl e \<Rightarrow> False | Inr (source, stored, cs) \<Rightarrow> map cand_alias cs = [''a'']"
  by code_simp

lemma demo_broadcast: "parse_routing_policy ''broadcast'' = Inr Broadcast"
  by code_simp

lemma demo_service_parameters:
  "case service_parameters_from_config_and_globals (cc_headers (cli_cards demo_world)) demo_route_loaded
     (cli_globals demo_world) of Inl e \<Rightarrow> False | Inr sp \<Rightarrow> True"
  by code_simp

lemma found_candidates:
  "(case r of Inl e \<Rightarrow> False | Inr (a, b, c) \<Rightarrow> P c) \<Longrightarrow> \<exists>a b c. r = Inr (a, b, c) \<and> P c"
  by (auto split: sum.splits)

theorem route_explain_plans_witness:
  "is_ok (fst (explain_route_command demo_world demo_route_loaded demo_route_args (history demo_engine demo_commands)))"
proof -
  obtain sp where sp: "service_parameters_from_config_and_globals (cc_headers (cli_cards demo_world)) demo_route_loaded
      (cli_globals demo_world) = Inr sp"
    using demo_service_parameters by (auto split: sum.splits)
  let ?run = "route_candidates demo_world sp demo_route_args (history demo_engine demo_commands)"
  obtain source stored cs where found: "fst ?run = Inr (source, stored, cs)" and cs: "map cand_alias cs = [''a'']"
    using found_candidates [OF demo_candidates [of sp]] by (elim exE conjE)
  have run: "?run = (Inr (source, stored, cs), snd ?run)" by (rule prod_eqI) (simp_all add: found)
  have engine: "cli_engine demo_world = demo_engine" by (simp add: demo_world_def)
  have sync: "sync_config demo_world demo_route_loaded (history (cli_engine demo_world) demo_commands) =
      (Inr (), history demo_engine demo_commands)"
    by (simp add: engine sync_config_def demo_route_loaded_def MissiveConfig_default_def db_bind_def db_return_def)
  have policy: "resolve_policy demo_route_args demo_route_loaded stored = Inr (Broadcast, ''cli'')"
    by (simp add: resolve_policy_def demo_route_args_def parse_routing_policy_Inr and_then_Inr demo_broadcast)
  have others: "validate_candidate_source demo_route_args = Inr ()" "preferred_alias demo_route_args = Inr None"
    by (simp_all add: validate_candidate_source_def preferred_alias_def demo_route_args_def)
  have "route_args_ok demo_route_args Broadcast None cs"
    using cs by (auto simp: route_args_ok_def demo_route_args_def labels_ok_def)
  moreover have "route_prepared demo_world demo_route_loaded demo_route_args
      (history (cli_engine demo_world) demo_commands) cs Broadcast None"
    unfolding route_prepared_def using others sync sp run policy by blast
  ultimately have "is_ok (fst (explain_route_command demo_world demo_route_loaded demo_route_args
      (history (cli_engine demo_world) demo_commands)))"
    using route_explain_plans [of demo_world demo_route_loaded demo_route_args demo_commands] by blast
  then show ?thesis by (simp add: engine)
qed

end
