(* ===== verification/Cli_Barrier.thy ===== *)
theory Cli_Barrier
  imports Cli_Groups Core_Config_Discovery
begin

text \<open>
  \<open>crates/missive-cli/src/barrier.rs\<close>: waiting until enough members of a group have brought their tasks
  to a requested state.  Each attempt refreshes the members that are not settled yet, and the verdict
  follows from their statuses and the time that has passed.  What another process writes between two
  attempts is the store each attempt sees; the refresh of a remote task, which talks to the agent, is an
  argument.  Printing, and reading the file of \<open>--from-bcast\<close>, are left out.
\<close>

subsection \<open>Targets\<close>

datatype BarrierFailurePolicy = Stop | Continue_Polling

record BarrierTargets =
  tgt_explicit :: bool
  tgt_target_states :: "TaskState list"
  tgt_success_states :: "TaskState list"

fun failure_policy_as_str :: "BarrierFailurePolicy \<Rightarrow> string" where
  "failure_policy_as_str Stop = ''stop''"
| "failure_policy_as_str Continue_Polling = ''continue''"

text \<open>The first occurrence of each state, in order.\<close>

fun unique_states :: "string list \<Rightarrow> TaskState list \<Rightarrow> TaskState list" where
  "unique_states seen [] = []"
| "unique_states seen (s # states) =
     (if task_state_as_str s \<in> set seen then unique_states seen states
      else s # unique_states (bs_insert (task_state_as_str s) seen) states)"

definition targets_from_args :: "TaskState list \<Rightarrow> BarrierTargets" where
  "targets_from_args states =
     (let explicit_states = unique_states [] states
      in if explicit_states = [] then
           \<lparr>tgt_explicit = False, tgt_target_states = [Task_Completed, Task_Failed, Task_Cancelled],
            tgt_success_states = [Task_Completed]\<rparr>
         else
           \<lparr>tgt_explicit = True, tgt_target_states = explicit_states, tgt_success_states = explicit_states\<rparr>)"

definition is_success :: "BarrierTargets \<Rightarrow> TaskState \<Rightarrow> bool" where
  "is_success targets state \<longleftrightarrow> state \<in> set (tgt_success_states targets)"

definition is_requested :: "BarrierTargets \<Rightarrow> TaskState \<Rightarrow> bool" where
  "is_requested targets state \<longleftrightarrow> state \<in> set (tgt_target_states targets)"

definition target_names :: "BarrierTargets \<Rightarrow> string list" where
  "target_names targets = map task_state_as_str (tgt_target_states targets)"

definition success_names :: "BarrierTargets \<Rightarrow> string list" where
  "success_names targets = map task_state_as_str (tgt_success_states targets)"

definition is_terminal_task_state :: "TaskState \<Rightarrow> bool" where
  "is_terminal_task_state state \<longleftrightarrow> state \<in> {Task_Completed, Task_Failed, Task_Cancelled}"

datatype MemberBarrierStatus =
    Satisfied | Pending | Member_Failed | Member_Cancelled | Missing | Member_Error | TerminalUnmatched

fun member_status_as_str :: "MemberBarrierStatus \<Rightarrow> string" where
  "member_status_as_str Satisfied = ''satisfied''"
| "member_status_as_str Pending = ''pending''"
| "member_status_as_str Member_Failed = ''failed''"
| "member_status_as_str Member_Cancelled = ''cancelled''"
| "member_status_as_str Missing = ''missing''"
| "member_status_as_str Member_Error = ''error''"
| "member_status_as_str TerminalUnmatched = ''terminal_unmatched''"

definition member_is_success :: "MemberBarrierStatus \<Rightarrow> bool" where
  "member_is_success status \<longleftrightarrow> status = Satisfied"

definition member_is_failure :: "MemberBarrierStatus \<Rightarrow> bool" where
  "member_is_failure status \<longleftrightarrow> status \<in> {Member_Failed, Member_Error, TerminalUnmatched}"

definition member_is_cancellation :: "MemberBarrierStatus \<Rightarrow> bool" where
  "member_is_cancellation status \<longleftrightarrow> status = Member_Cancelled"

definition member_is_pending :: "MemberBarrierStatus \<Rightarrow> bool" where
  "member_is_pending status \<longleftrightarrow> status \<in> {Pending, Missing}"

definition member_is_disqualified :: "MemberBarrierStatus \<Rightarrow> bool" where
  "member_is_disqualified status \<longleftrightarrow> status \<in> {Member_Failed, Member_Cancelled, Member_Error, TerminalUnmatched}"

definition classify_record_state :: "TaskState \<Rightarrow> BarrierTargets \<Rightarrow> MemberBarrierStatus" where
  "classify_record_state state targets =
     (if is_success targets state then Satisfied
      else if \<not> tgt_explicit targets then
        (case state of Task_Failed \<Rightarrow> Member_Failed | Task_Cancelled \<Rightarrow> Member_Cancelled | _ \<Rightarrow> Pending)
      else if is_terminal_task_state state \<and> \<not> is_requested targets state then TerminalUnmatched
      else if state = Task_Failed \<and> \<not> is_requested targets Task_Failed then Member_Failed
      else if state = Task_Cancelled \<and> \<not> is_requested targets Task_Cancelled then Member_Cancelled
      else Pending)"

subsection \<open>The arguments\<close>

text \<open>A \<open>Duration\<close> in nanoseconds.\<close>

definition from_millis :: "nat \<Rightarrow> nat" where
  "from_millis n = n * 1000000"

definition DEFAULT_BARRIER_TIMEOUT :: nat where
  "DEFAULT_BARRIER_TIMEOUT = from_millis 30000"

definition DEFAULT_BARRIER_INTERVAL :: nat where
  "DEFAULT_BARRIER_INTERVAL = from_millis 1000"

definition MAX_BARRIER_INTERVAL :: nat where
  "MAX_BARRIER_INTERVAL = from_millis 5000"

text \<open>\<open>str::parse::<u64>\<close>: a plus sign may precede the digits.\<close>

definition parse_u64 :: "string \<Rightarrow> nat option" where
  "parse_u64 s = (case s of [] \<Rightarrow> None | c # cs \<Rightarrow> parse_u64_digits (if c = CHR ''+'' then cs else s))"

definition ends_with :: "string \<Rightarrow> string \<Rightarrow> bool" where
  "ends_with t s \<longleftrightarrow> length t \<le> length s \<and> drop (length s - length t) s = t"

definition duration_unit :: "string \<Rightarrow> (string \<times> nat) option" where
  "duration_unit value =
     (if ends_with ''ms'' value then Some (take (length value - 2) value, 1)
      else if ends_with ''s'' value then Some (take (length value - 1) value, 1000)
      else if ends_with ''m'' value then Some (take (length value - 1) value, 60000)
      else if ends_with ''h'' value then Some (take (length value - 1) value, 3600000)
      else None)"

text \<open>\<open>parse_error\<close> is the error of a number that does not parse.\<close>

definition parse_duration_arg :: "std_error \<Rightarrow> string \<Rightarrow> string \<Rightarrow> nat outcome" where
  "parse_duration_arg parse_error flag text =
     (let value = trim text
      in case duration_unit value of
           None \<Rightarrow>
             Inl (with_help (error_validation
               [Lit (flag @ '' value ''), Dbg value, Lit '' must use a duration suffix: ms, s, m, or h''])
               ''Use values such as 500ms, 2s, 5m, or 1h.'')
         | Some (digits, multiplier) \<Rightarrow>
             (case parse_u64 digits of
                None \<Rightarrow>
                  Inl (with_help (with_source (error_validation
                    [Lit (flag @ '' value ''), Dbg value, Lit '' has an invalid number'']) parse_error)
                    ''Use a positive whole number followed by ms, s, m, or h.'')
              | Some number \<Rightarrow>
                  and_then (fail_if (number = 0)
                    (error_validation [Lit (flag @ '' value ''), Dbg value, Lit '' must be greater than zero''])) (\<lambda>_.
                  and_then (fail_if (2 ^ 64 \<le> number * multiplier)
                    (error_validation [Lit (flag @ '' value ''), Dbg value, Lit '' is too large''])) (\<lambda>_.
                    Inr (from_millis (number * multiplier))))))"

definition barrier_state_names :: "(string \<times> TaskState) list" where
  "barrier_state_names =
     [(''submitted'', Task_Submitted), (''working'', Task_Working), (''input_required'', Task_InputRequired),
      (''completed'', Task_Completed), (''failed'', Task_Failed), (''cancelled'', Task_Cancelled),
      (''canceled'', Task_Cancelled), (''unknown'', Task_Unknown)]"

definition parse_barrier_state_arg :: "string \<Rightarrow> string + TaskState" where
  "parse_barrier_state_arg value =
     (case map_of barrier_state_names
        (map (\<lambda>c. if c = CHR ''-'' then CHR ''_'' else c) (to_ascii_lowercase (trim value))) of
        Some state \<Rightarrow> Inr state
      | None \<Rightarrow> Inl ''expected submitted, working, input-required, completed, failed, cancelled, or unknown'')"

record BarrierArgs =
  ba_group :: string
  ba_context :: "string option"
  ba_states :: "TaskState list"
  ba_required :: "nat option"
  ba_failure_policy :: BarrierFailurePolicy
  ba_local :: bool
  ba_interval :: "string option"
  ba_history_length :: "int option"
  ba_timeout :: "string option"

subsection \<open>The result of a broadcast\<close>

record BcastReference =
  ref_group :: "string option"
  ref_context_id :: "string option"
  ref_task_ids_by_agent :: "(string, string) btree_map"

fun value_get :: "json \<Rightarrow> string \<Rightarrow> json option" where
  "value_get (JObject es) key = bm_get key es"
| "value_get _ key = None"

fun value_as_array :: "json \<Rightarrow> json list option" where
  "value_as_array (JArray vs) = Some vs"
| "value_as_array _ = None"

text \<open>\<open>str::lines\<close>.\<close>

definition str_lines :: "string \<Rightarrow> string list" where
  "str_lines s =
     (let parts = split_on (CHR 0x0A) s
      in map (\<lambda>line. if ends_with [CHR 0x0D] line then butlast line else line) (butlast parts) @
         (if last parts = [] then [] else [last parts]))"

definition add_bcast_member :: "json \<Rightarrow> (string, string) btree_map \<Rightarrow> (string, string) btree_map" where
  "add_bcast_member m ids =
     (case (Option.bind (value_get m ''agent'') json_as_str, Option.bind (value_get m ''task_id'') json_as_str) of
        (Some agent, Some task_id) \<Rightarrow> bm_insert agent task_id ids
      | _ \<Rightarrow> ids)"

definition parse_bcast_value :: "(string \<Rightarrow> std_error + json) \<Rightarrow> string \<Rightarrow> std_error + json" where
  "parse_bcast_value from_str content =
     (case from_str content of
        Inr value \<Rightarrow> Inr value
      | Inl whole_error \<Rightarrow>
          (case List.find (\<lambda>line. trim line \<noteq> []) (str_lines content) of
             None \<Rightarrow> Inl whole_error
           | Some line \<Rightarrow> from_str line))"

definition parse_bcast_reference :: "(string \<Rightarrow> std_error + json) \<Rightarrow> string \<Rightarrow> BcastReference outcome" where
  "parse_bcast_reference from_str content =
     (if trim content = [] then Inl (error_validation [Lit ''--from-bcast input is empty''])
      else
        case parse_bcast_value from_str content of
          Inl error \<Rightarrow>
            Inl (with_help (with_source (error_validation [Lit ''--from-bcast input is not valid JSON'']) error)
              (''Pass the JSON output produced by '' @ [CHR 0x27] @ ''missive bcast --json'' @ [CHR 0x27] @ ''.''))
        | Inr value \<Rightarrow>
            (let data = unwrap_or (value_get value ''data'') value;
                 context = (case Option.bind (value_get data ''request'') (\<lambda>r. value_get r ''context_id'') of
                     Some c \<Rightarrow> Some c | None \<Rightarrow> value_get data ''context_id'');
                 ids = fold add_bcast_member (unwrap_or (Option.bind (value_get data ''members'') value_as_array) []) []
             in if Option.bind context json_as_str = None \<and> ids = [] then
                  Inl (with_help (error_validation
                    [Lit ''--from-bcast JSON did not contain data.request.context_id or member task ids''])
                    (''Pass a complete '' @ [CHR 0x27] @ ''missive bcast --json'' @ [CHR 0x27] @ '' output document.''))
                else
                  Inr \<lparr>ref_group = Option.bind (value_get data ''group'') json_as_str,
                    ref_context_id = Option.bind context json_as_str, ref_task_ids_by_agent = ids\<rparr>))"

subsection \<open>The operation\<close>

record 'dt BarrierOperation =
  op_operation_id :: string
  op_group :: "'dt GroupRecord"
  op_members :: "'dt GroupMemberRecord list"
  op_context_id :: ContextId
  op_targets :: BarrierTargets
  op_required :: nat
  op_timeout :: nat
  op_interval :: nat
  op_failure_policy :: BarrierFailurePolicy
  op_local :: bool
  op_from_bcast :: bool
  op_history_length :: "int option"
  op_service_parameters :: ServiceParameters

definition barrier_context :: "string option \<Rightarrow> BcastReference option \<Rightarrow> string outcome" where
  "barrier_context context reference =
     (case (context, Option.bind reference ref_context_id) of
        (Some given, Some from_bcast) \<Rightarrow>
          if given \<noteq> from_bcast then
            Inl (with_help (error_validation
              [Lit ''--context '', Dbg given, Lit '' does not match --from-bcast context '', Dbg from_bcast])
              ''Use the same context id as the broadcast result, or omit --context when using --from-bcast.'')
          else Inr given
      | (Some given, None) \<Rightarrow> Inr given
      | (None, Some from_bcast) \<Rightarrow> Inr from_bcast
      | (None, None) \<Rightarrow>
          Inl (error_validation [Lit ''missive barrier requires --context <id> unless --from-bcast provides one'']))"

definition prepare_barrier_operation ::
  "'dt cli_world \<Rightarrow> std_error \<Rightarrow> BarrierArgs \<Rightarrow> BcastReference option \<Rightarrow> ServiceParameters \<Rightarrow> 'dt BarrierOperation store_op" where
  "prepare_barrier_operation W parse_error args reference service_parameters =
     db_bind (db_outcome (fail_if (case ba_history_length args of None \<Rightarrow> False | Some n \<Rightarrow> n < 0)
       (error_validation [Lit ''--history-length must be greater than or equal to zero'']))) (\<lambda>_.
     db_bind (db_outcome (case Option.bind reference ref_group of
         None \<Rightarrow> Inr ()
       | Some reference_group \<Rightarrow> fail_if (reference_group \<noteq> ba_group args)
           (error_validation [Lit ''--from-bcast result is for group '', Dbg reference_group, Lit '', not '',
             Dbg (ba_group args)]))) (\<lambda>_.
     db_bind (db_outcome (barrier_context (ba_context args) reference)) (\<lambda>context_value.
     db_bind (db_outcome (ContextId_new context_value)) (\<lambda>context_id.
     db_bind (db_outcome (GroupName_new (ba_group args))) (\<lambda>group_name.
     db_bind (get_group (cli_engine W) group_name) (\<lambda>found.
     db_bind (db_outcome (ok_or found
       (with_help (error_validation [Lit ''group '', Dbg group_name, Lit '' does not exist''])
         (''Run '' @ [CHR 0x27] @ ''missive group list'' @ [CHR 0x27] @ '' to see locally known groups.'')))) (\<lambda>g.
     db_bind (list_group_members (cli_engine W) (grp_group_name g)) (\<lambda>members.
     db_bind (db_outcome (fail_if (members = [])
       (with_help (error_validation
         [Lit ''group '', Dbg (grp_group_name g), Lit '' has no members for barrier synchronization''])
         (''Add members with '' @ [CHR 0x27] @ ''missive group add <group> <agent> --rank <rank>'' @ [CHR 0x27] @
          '' before running barrier.'')))) (\<lambda>_.
     let required = unwrap_or (ba_required args) (length members)
     in db_bind (db_outcome (fail_if (required = 0 \<or> length members < required)
          (error_validation [Lit (''--required must be between 1 and the group member count ('' @
            show_nat (length members) @ '')'')]))) (\<lambda>_.
        db_bind (db_outcome (case ba_timeout args of
            Some value \<Rightarrow> parse_duration_arg parse_error ''--timeout'' value
          | None \<Rightarrow> Inr DEFAULT_BARRIER_TIMEOUT)) (\<lambda>timeout.
        db_bind (db_outcome (case ba_interval args of
            Some value \<Rightarrow> parse_duration_arg parse_error ''--interval'' value
          | None \<Rightarrow> Inr DEFAULT_BARRIER_INTERVAL)) (\<lambda>interval.
          db_return
            \<lparr>op_operation_id = ''barrier/'' @ cli_message_id W, op_group = g, op_members = members,
             op_context_id = context_id, op_targets = targets_from_args (ba_states args), op_required = required,
             op_timeout = timeout, op_interval = min interval MAX_BARRIER_INTERVAL,
             op_failure_policy = ba_failure_policy args, op_local = ba_local args,
             op_from_bcast = (reference \<noteq> None), op_history_length = ba_history_length args,
             op_service_parameters = service_parameters\<rparr>))))))))))))"

subsection \<open>Members\<close>

record 'dt BarrierMemberState =
  bar_member :: "'dt GroupMemberRecord"
  bar_task_id :: "TaskId option"
  bar_context_id :: "ContextId option"
  bar_state :: "TaskState option"
  bar_source :: "TaskSource option"
  bar_updated_at :: "'dt option"
  bar_status :: MemberBarrierStatus
  bar_attempts :: u64
  bar_selected_interface :: "NegotiatedInterface option"
  bar_error :: "ErrorReport option"

definition BarrierMemberState_new :: "'dt GroupMemberRecord \<Rightarrow> TaskId option \<Rightarrow> 'dt BarrierMemberState" where
  "BarrierMemberState_new m task_id =
     \<lparr>bar_member = m, bar_task_id = task_id, bar_context_id = None, bar_state = None, bar_source = None,
      bar_updated_at = None, bar_status = Pending, bar_attempts = 0, bar_selected_interface = None, bar_error = None\<rparr>"

definition apply_record :: "'dt TaskRecord \<Rightarrow> BarrierTargets \<Rightarrow> 'dt BarrierMemberState \<Rightarrow> 'dt BarrierMemberState" where
  "apply_record r targets m =
     m\<lparr>bar_task_id := Some (tsk_task_id r), bar_context_id := tsk_context_id r, bar_state := Some (tsk_state r),
       bar_source := Some (tsk_source r), bar_updated_at := Some (tsk_updated_at r), bar_error := None,
       bar_status := classify_record_state (tsk_state r) targets\<rparr>"

definition mark_missing :: "'dt BarrierMemberState \<Rightarrow> 'dt BarrierMemberState" where
  "mark_missing m =
     m\<lparr>bar_state := None, bar_source := None, bar_updated_at := None, bar_status := Missing, bar_error := None\<rparr>"

definition mark_error :: "MissiveError \<Rightarrow> 'dt BarrierMemberState \<Rightarrow> 'dt BarrierMemberState" where
  "mark_error error m = m\<lparr>bar_status := Member_Error, bar_error := Some (to_report error)\<rparr>"

text \<open>The later of two tasks by the time of the last update, then by the identifier.\<close>

definition later_task :: "'dt::linorder TaskRecord \<Rightarrow> 'dt TaskRecord \<Rightarrow> bool" where
  "later_task a b \<longleftrightarrow>
     tsk_updated_at b < tsk_updated_at a \<or> tsk_updated_at a = tsk_updated_at b \<and> tsk_task_id b < tsk_task_id a"

definition latest_member_task ::
  "'dt::linorder engine \<Rightarrow> AgentAlias \<Rightarrow> ContextId \<Rightarrow> 'dt TaskRecord option store_op" where
  "latest_member_task E agent_alias context_id =
     db_bind (list_tasks E) (\<lambda>tasks.
       db_return (max_by later_task
         (filter (\<lambda>r. tsk_context_id r = Some context_id) (filter (\<lambda>r. tsk_agent_alias r = agent_alias) tasks))))"

definition member_task_id ::
  "'dt::linorder engine \<Rightarrow> ContextId \<Rightarrow> BcastReference option \<Rightarrow> 'dt GroupMemberRecord \<Rightarrow> TaskId option store_op" where
  "member_task_id E context_id reference m =
     (case Option.bind reference (\<lambda>r. bm_get (mem_agent_alias m) (ref_task_ids_by_agent r)) of
        Some text \<Rightarrow> db_bind (db_outcome (TaskId_new text)) (\<lambda>task_id. db_return (Some task_id))
      | None \<Rightarrow>
          db_bind (latest_member_task E (mem_agent_alias m) context_id) (\<lambda>r. db_return (map_option tsk_task_id r)))"

fun build_member_states ::
  "'dt::linorder engine \<Rightarrow> ContextId \<Rightarrow> BcastReference option \<Rightarrow> 'dt GroupMemberRecord list \<Rightarrow>
   'dt BarrierMemberState list store_op" where
  "build_member_states E context_id reference [] = db_return []"
| "build_member_states E context_id reference (m # members) =
     db_bind (member_task_id E context_id reference m) (\<lambda>task_id.
     db_bind (build_member_states E context_id reference members) (\<lambda>states.
       db_return (BarrierMemberState_new m task_id # states)))"

definition refresh_local_member ::
  "'dt::linorder engine \<Rightarrow> store_db \<Rightarrow> ContextId \<Rightarrow> BarrierTargets \<Rightarrow> 'dt BarrierMemberState \<Rightarrow> 'dt BarrierMemberState outcome" where
  "refresh_local_member E db context_id targets m =
     (let found = (case bar_task_id m of
          Some task_id \<Rightarrow> fst (get_task E task_id db)
        | None \<Rightarrow> fst (latest_member_task E (mem_agent_alias (bar_member m)) context_id db))
      in and_then found (\<lambda>r. Inr (case r of Some r \<Rightarrow> apply_record r targets m | None \<Rightarrow> mark_missing m)))"

text \<open>What one attempt finds: the store, and the refresh of a remote task, with the state it leaves when
  it fails.\<close>

record 'dt observation =
  obs_store :: store_db
  obs_remote :: "'dt BarrierMemberState \<Rightarrow> unit outcome \<times> 'dt BarrierMemberState"

definition saturating_inc_u64 :: "u64 \<Rightarrow> u64" where
  "saturating_inc_u64 n = (if n = - 1 then n else n + 1)"

definition refresh_barrier_member ::
  "'dt::linorder engine \<Rightarrow> 'dt BarrierOperation \<Rightarrow> 'dt observation \<Rightarrow> 'dt BarrierMemberState \<Rightarrow> 'dt BarrierMemberState" where
  "refresh_barrier_member E op obs m =
     (let m = m\<lparr>bar_attempts := saturating_inc_u64 (bar_attempts m)\<rparr>
      in if member_is_success (bar_status m) \<or> member_is_disqualified (bar_status m) then m
         else if op_local op then
           (case refresh_local_member E (obs_store obs) (op_context_id op) (op_targets op) m of
              Inr m' \<Rightarrow> m' | Inl error \<Rightarrow> mark_error error m)
         else
           (case obs_remote obs m of (Inr _, m') \<Rightarrow> m' | (Inl error, m') \<Rightarrow> mark_error error m'))"

subsection \<open>Decisions\<close>

datatype BarrierDecision = Continue | Succeeded_Barrier | Failed_Barrier | Cancelled_Barrier | Timeout_Barrier

definition count_status :: "(MemberBarrierStatus \<Rightarrow> bool) \<Rightarrow> 'dt BarrierMemberState list \<Rightarrow> nat" where
  "count_status p members = length (filter (\<lambda>m. p (bar_status m)) members)"

definition evaluate_barrier ::
  "'dt BarrierOperation \<Rightarrow> nat \<Rightarrow> 'dt BarrierMemberState list \<Rightarrow> BarrierDecision" where
  "evaluate_barrier op elapsed members =
     (let failure_count = count_status member_is_failure members;
          cancellation_count = count_status member_is_cancellation members
      in if op_required op \<le> count_status member_is_success members then Succeeded_Barrier
         else if op_failure_policy op = Stop \<and> 0 < failure_count then Failed_Barrier
         else if op_failure_policy op = Stop \<and> 0 < cancellation_count then Cancelled_Barrier
         else if length members - count_status member_is_disqualified members < op_required op then
           (if 0 < cancellation_count \<and> failure_count = 0 then Cancelled_Barrier else Failed_Barrier)
         else if op_timeout op \<le> elapsed then Timeout_Barrier
         else Continue)"

text \<open>How long the command sleeps when the time since its start reads \<open>elapsed\<close>.\<close>

definition barrier_pause :: "'dt BarrierOperation \<Rightarrow> nat \<Rightarrow> nat" where
  "barrier_pause op elapsed =
     min (op_interval op) (if elapsed \<le> op_timeout op then op_timeout op - elapsed else from_millis 1)"

text \<open>The loop of \<open>execute_barrier_command\<close>: \<open>n\<close> attempts have been made, attempt \<open>n\<close> observes
  \<open>observed n\<close> and is evaluated at \<open>clock n\<close>.\<close>

fun barrier_loop ::
  "nat \<Rightarrow> 'dt::linorder engine \<Rightarrow> 'dt BarrierOperation \<Rightarrow> (nat \<Rightarrow> 'dt observation) \<Rightarrow> (nat \<Rightarrow> nat) \<Rightarrow> nat \<Rightarrow>
   'dt BarrierMemberState list \<Rightarrow> (BarrierDecision \<times> 'dt BarrierMemberState list \<times> nat) option" where
  "barrier_loop 0 E op observed clock n members = None"
| "barrier_loop (Suc fuel) E op observed clock n members =
     (let members = map (refresh_barrier_member E op (observed n)) members;
          verdict = evaluate_barrier op (clock n) members
      in if verdict \<noteq> Continue then Some (verdict, members, n + 1)
         else barrier_loop fuel E op observed clock (n + 1) members)"

subsection \<open>The result\<close>

record BarrierInterfaceView =
  biv_binding :: string
  biv_protocol_binding :: string
  biv_url :: string
  biv_tenant :: "string option"
  biv_protocol_version :: string
  biv_source :: string

definition BarrierInterfaceView_from :: "NegotiatedInterface \<Rightarrow> BarrierInterfaceView" where
  "BarrierInterfaceView_from i =
     \<lparr>biv_binding = nego_binding i, biv_protocol_binding = nego_protocol_binding i, biv_url = nego_url i,
      biv_tenant = nego_tenant i, biv_protocol_version = nego_protocol_version i,
      biv_source = interface_source_as_str (nego_source i)\<rparr>"

record BarrierMemberView =
  bmv_agent :: string
  bmv_rank :: string
  bmv_status :: string
  bmv_attempts :: u64
  bmv_task_id :: "string option"
  bmv_context_id :: "string option"
  bmv_state :: "string option"
  bmv_source :: "string option"
  bmv_updated_at :: "string option"
  bmv_selected_interface :: "BarrierInterfaceView option"
  bmv_error :: "ErrorReport option"

definition barrier_member_view :: "'dt cli_world \<Rightarrow> 'dt BarrierMemberState \<Rightarrow> BarrierMemberView" where
  "barrier_member_view W m =
     \<lparr>bmv_agent = mem_agent_alias (bar_member m), bmv_rank = mem_rank_name (bar_member m),
      bmv_status = member_status_as_str (bar_status m), bmv_attempts = bar_attempts m, bmv_task_id = bar_task_id m,
      bmv_context_id = bar_context_id m, bmv_state = map_option task_state_as_str (bar_state m),
      bmv_source = map_option task_source_as_str (bar_source m), bmv_updated_at = map_option (cli_rfc3339 W) (bar_updated_at m),
      bmv_selected_interface = map_option BarrierInterfaceView_from (bar_selected_interface m), bmv_error = bar_error m\<rparr>"

record BarrierOutput =
  bo_profile :: string
  bo_operation_id :: string
  bo_group :: string
  bo_context_id :: string
  bo_status :: string
  bo_failure_policy :: string
  bo_local :: bool
  bo_from_bcast :: bool
  bo_attempts :: nat
  bo_member_count :: nat
  bo_required :: nat
  bo_reached_count :: nat
  bo_failure_count :: nat
  bo_cancellation_count :: nat
  bo_pending_count :: nat
  bo_target_states :: "string list"
  bo_success_states :: "string list"
  bo_timeout_ms :: nat
  bo_interval_ms :: nat
  bo_elapsed_ms :: nat
  bo_members :: "BarrierMemberView list"
  bo_message :: string

text \<open>Only a decision to stop is finalised; the other case is unreachable.\<close>

fun decision_status :: "BarrierDecision \<Rightarrow> string" where
  "decision_status Succeeded_Barrier = ''succeeded''"
| "decision_status Failed_Barrier = ''failed''"
| "decision_status Cancelled_Barrier = ''cancelled''"
| "decision_status Timeout_Barrier = ''timeout''"
| "decision_status Continue = []"

definition quoted :: "string \<Rightarrow> string" where
  "quoted s = [CHR 0x27] @ s @ [CHR 0x27]"

text \<open>\<open>elapsed\<close> is the time since the start when the output is put together.\<close>

definition finalize_barrier_output ::
  "'dt cli_world \<Rightarrow> string \<Rightarrow> 'dt BarrierOperation \<Rightarrow> 'dt BarrierMemberState list \<Rightarrow> nat \<Rightarrow> BarrierDecision \<Rightarrow> nat \<Rightarrow>
   BarrierOutput" where
  "finalize_barrier_output W profile op members attempts verdict elapsed =
     (let name = grp_group_name (op_group op);
          reached = count_status member_is_success members;
          failures = count_status member_is_failure members;
          cancellations = count_status member_is_cancellation members
      in \<lparr>bo_profile = profile, bo_operation_id = op_operation_id op, bo_group = name,
          bo_context_id = op_context_id op, bo_status = decision_status verdict,
          bo_failure_policy = failure_policy_as_str (op_failure_policy op), bo_local = op_local op,
          bo_from_bcast = op_from_bcast op, bo_attempts = attempts, bo_member_count = length members,
          bo_required = op_required op, bo_reached_count = reached, bo_failure_count = failures,
          bo_cancellation_count = cancellations, bo_pending_count = count_status member_is_pending members,
          bo_target_states = target_names (op_targets op), bo_success_states = success_names (op_targets op),
          bo_timeout_ms = op_timeout op div from_millis 1, bo_interval_ms = op_interval op div from_millis 1,
          bo_elapsed_ms = elapsed div from_millis 1, bo_members = map (barrier_member_view W) members,
          bo_message =
            (case verdict of
               Succeeded_Barrier \<Rightarrow>
                 ''Barrier for group '' @ quoted name @ '' reached quorum '' @ show_nat reached @ ''/'' @
                 show_nat (op_required op) @ '' in context '' @ quoted (op_context_id op)
             | Cancelled_Barrier \<Rightarrow>
                 ''Barrier for group '' @ quoted name @ '' observed '' @ show_nat cancellations @ '' cancelled member task(s)''
             | Timeout_Barrier \<Rightarrow>
                 ''Barrier for group '' @ quoted name @ '' timed out after '' @ show_nat attempts @ '' attempt(s)''
             | _ \<Rightarrow>
                 ''Barrier for group '' @ quoted name @ '' failed with '' @ show_nat failures @ '' failed member task(s)'')\<rparr>)"

definition barrier_exit :: "BarrierOutput \<Rightarrow> unit outcome" where
  "barrier_exit output =
     (if bo_status output = ''succeeded'' then Inr ()
      else if bo_status output = ''timeout'' then
        Inl (with_exit_code (with_help (error_orchestration
          [Lit ''barrier for group '', Dbg (bo_group output), Lit ('' timed out after '' @ show_nat (bo_timeout_ms output) @ '' ms'')])
          ''Increase --timeout, lower --interval, or inspect member task states.'') Exit_TaskTimeout)
      else if bo_status output = ''cancelled'' then
        Inl (with_exit_code (with_help (error_orchestration
          [Lit ''barrier for group '', Dbg (bo_group output), Lit '' observed cancelled member task(s)''])
          ''Inspect the barrier_result member list for cancelled tasks.'') Exit_TaskCancelled)
      else
        Inl (with_exit_code (with_help (error_orchestration
          [Lit ''barrier for group '', Dbg (bo_group output), Lit '' failed before reaching quorum''])
          ''Inspect the barrier_result member list for failed, unmatched, or errored tasks.'') Exit_TaskFailed))"

subsection \<open>The journal\<close>

text \<open>Serialisation: fields that are \<open>None\<close> and an empty list of sources are left out; \<open>render\<close> prints a
  message.\<close>

definition json_count :: "nat \<Rightarrow> json" where
  "json_count n = JNumber (PosInt (of_nat n))"

fun category_name :: "ErrorCategory \<Rightarrow> string" where
  "category_name Cat_Io = ''io''"
| "category_name Cat_Config = ''config''"
| "category_name Cat_Protocol = ''protocol''"
| "category_name Cat_Transport = ''transport''"
| "category_name Cat_Storage = ''storage''"
| "category_name Cat_Auth = ''auth''"
| "category_name Cat_Validation = ''validation''"
| "category_name Cat_Orchestration = ''orchestration''"

definition error_report_json :: "(message \<Rightarrow> string) \<Rightarrow> ErrorReport \<Rightarrow> json" where
  "error_report_json render r =
     json_object
       ([(''code'', JString (report_code r)), (''category'', JString (category_name (report_category r))),
         (''message'', JString (render (report_message r)))] @
        optional_entry ''help'' (report_help r) @
        (if report_sources r = [] then [] else [(''sources'', strings_serialize (map render (report_sources r)))]) @
        [(''exit_code'', JNumber (PosInt (ucast (report_exit_code r))))])"

definition barrier_interface_json :: "BarrierInterfaceView \<Rightarrow> json" where
  "barrier_interface_json v =
     json_object
       ([(''binding'', JString (biv_binding v)), (''protocol_binding'', JString (biv_protocol_binding v)),
         (''url'', JString (biv_url v))] @ optional_entry ''tenant'' (biv_tenant v) @
        [(''protocol_version'', JString (biv_protocol_version v)), (''source'', JString (biv_source v))])"

definition barrier_member_json :: "(message \<Rightarrow> string) \<Rightarrow> BarrierMemberView \<Rightarrow> json" where
  "barrier_member_json render v =
     json_object
       ([(''agent'', JString (bmv_agent v)), (''rank'', JString (bmv_rank v)), (''status'', JString (bmv_status v)),
         (''attempts'', JNumber (PosInt (bmv_attempts v)))] @
        optional_entry ''task_id'' (bmv_task_id v) @ optional_entry ''context_id'' (bmv_context_id v) @
        optional_entry ''state'' (bmv_state v) @ optional_entry ''source'' (bmv_source v) @
        optional_entry ''updated_at'' (bmv_updated_at v) @
        (case bmv_selected_interface v of None \<Rightarrow> [] | Some i \<Rightarrow> [(''selected_interface'', barrier_interface_json i)]) @
        (case bmv_error v of None \<Rightarrow> [] | Some r \<Rightarrow> [(''error'', error_report_json render r)]))"

definition append_barrier_started_event :: "'dt cli_world \<Rightarrow> 'dt BarrierOperation \<Rightarrow> unit store_op" where
  "append_barrier_started_event W op =
     db_bind (db_outcome (new_cli_event W ''missive.barrier.started''
       (json_object
         [(''operation_id'', JString (op_operation_id op)), (''group'', JString (grp_group_name (op_group op))),
          (''context_id'', JString (op_context_id op)), (''required'', json_count (op_required op)),
          (''member_count'', json_count (length (op_members op))),
          (''target_states'', strings_serialize (target_names (op_targets op))),
          (''success_states'', strings_serialize (success_names (op_targets op))),
          (''failure_policy'', JString (failure_policy_as_str (op_failure_policy op))), (''local'', JBool (op_local op)),
          (''from_bcast'', JBool (op_from_bcast op)), (''timeout_ms'', json_count (op_timeout op div from_millis 1)),
          (''interval_ms'', json_count (op_interval op div from_millis 1))]))) (\<lambda>event.
     db_bind (db_outcome (event_record_a2a_protocol_version
       (event\<lparr>event_group_name := Some (grp_group_name (op_group op)), event_context_id := Some (op_context_id op)\<rparr>)
       (sp_protocol_version (op_service_parameters op)))) (\<lambda>event.
     db_bind (on_gateway (cli_engine W) (\<lambda>S. append_event S (cli_stamp W 0) event)) (\<lambda>_. db_return ())))"

definition barrier_member_event_type :: "string \<Rightarrow> string \<Rightarrow> string" where
  "barrier_member_event_type verdict status =
     (if verdict = ''timeout'' \<and> status \<in> {''pending'', ''missing''} then ''missive.barrier.member.timeout''
      else if status = ''satisfied'' then ''missive.barrier.member.satisfied''
      else if status = ''cancelled'' then ''missive.barrier.member.cancelled''
      else if status \<in> {''failed'', ''error'', ''terminal_unmatched''} then ''missive.barrier.member.failed''
      else if status = ''missing'' then ''missive.barrier.member.missing''
      else ''missive.barrier.member.pending'')"

text \<open>The world in which the \<open>n\<close>-th event is made: with a fresh identifier.\<close>

definition at_event :: "(nat \<Rightarrow> string) \<Rightarrow> nat \<Rightarrow> 'dt cli_world \<Rightarrow> 'dt cli_world" where
  "at_event fresh n W = W\<lparr>cli_message_id := fresh n\<rparr>"

definition append_barrier_member_event ::
  "'dt cli_world \<Rightarrow> (message \<Rightarrow> string) \<Rightarrow> nat \<Rightarrow> 'dt BarrierOperation \<Rightarrow> string \<Rightarrow> BarrierMemberView \<Rightarrow> unit store_op" where
  "append_barrier_member_event W render n op verdict m =
     db_bind (db_outcome (new_cli_event W (barrier_member_event_type verdict (bmv_status m)) (barrier_member_json render m))) (\<lambda>event.
     db_bind (db_outcome (AgentAlias_new (bmv_agent m))) (\<lambda>alias_name.
     db_bind (db_outcome (case bmv_task_id m of
         None \<Rightarrow> Inr None | Some text \<Rightarrow> and_then (TaskId_new text) (\<lambda>t. Inr (Some t)))) (\<lambda>task_id.
     db_bind (on_gateway (cli_engine W) (\<lambda>S. append_event S (cli_stamp W n)
       (event\<lparr>event_group_name := Some (grp_group_name (op_group op)), event_context_id := Some (op_context_id op),
         event_agent_alias := Some alias_name, event_task_id := task_id\<rparr>))) (\<lambda>_. db_return ()))))"

fun append_barrier_member_events ::
  "'dt cli_world \<Rightarrow> (message \<Rightarrow> string) \<Rightarrow> (nat \<Rightarrow> string) \<Rightarrow> nat \<Rightarrow> 'dt BarrierOperation \<Rightarrow> string \<Rightarrow>
   BarrierMemberView list \<Rightarrow> unit store_op" where
  "append_barrier_member_events W render fresh n op verdict [] = db_return ()"
| "append_barrier_member_events W render fresh n op verdict (m # members) =
     db_bind (append_barrier_member_event (at_event fresh n W) render n op verdict m) (\<lambda>_.
       append_barrier_member_events W render fresh (n + 1) op verdict members)"

definition append_barrier_completed_event ::
  "'dt cli_world \<Rightarrow> (message \<Rightarrow> string) \<Rightarrow> nat \<Rightarrow> BarrierOutput \<Rightarrow> unit store_op" where
  "append_barrier_completed_event W render n out =
     db_bind (db_outcome (new_cli_event W ''missive.barrier.completed''
       (json_object
         [(''operation_id'', JString (bo_operation_id out)), (''group'', JString (bo_group out)),
          (''context_id'', JString (bo_context_id out)), (''status'', JString (bo_status out)),
          (''required'', json_count (bo_required out)), (''member_count'', json_count (bo_member_count out)),
          (''reached_count'', json_count (bo_reached_count out)), (''failure_count'', json_count (bo_failure_count out)),
          (''cancellation_count'', json_count (bo_cancellation_count out)), (''pending_count'', json_count (bo_pending_count out)),
          (''target_states'', strings_serialize (bo_target_states out)),
          (''success_states'', strings_serialize (bo_success_states out)),
          (''failure_policy'', JString (bo_failure_policy out)), (''local'', JBool (bo_local out)),
          (''from_bcast'', JBool (bo_from_bcast out)), (''timeout_ms'', json_count (bo_timeout_ms out)),
          (''interval_ms'', json_count (bo_interval_ms out)), (''elapsed_ms'', json_count (bo_elapsed_ms out)),
          (''members'', JArray (map (barrier_member_json render) (bo_members out)))]))) (\<lambda>event.
     db_bind (db_outcome (GroupName_new (bo_group out))) (\<lambda>group_name.
     db_bind (db_outcome (ContextId_new (bo_context_id out))) (\<lambda>context_id.
     db_bind (on_gateway (cli_engine W) (\<lambda>S. append_event S (cli_stamp W n)
       (event\<lparr>event_group_name := Some group_name, event_context_id := Some context_id\<rparr>))) (\<lambda>_. db_return ()))))"

subsection \<open>The command\<close>

text \<open>Up to the first attempt: the members with their tasks; the registry is open.  \<open>reference\<close> is the
  parsed result of the broadcast.\<close>

definition start_barrier ::
  "'dt::linorder cli_world \<Rightarrow> LoadedConfig \<Rightarrow> (nat \<Rightarrow> string) \<Rightarrow> std_error \<Rightarrow> BarrierArgs \<Rightarrow> BcastReference option \<Rightarrow>
   ('dt BarrierOperation \<times> 'dt BarrierMemberState list) store_op" where
  "start_barrier W loaded fresh parse_error args reference =
     db_bind (db_outcome (service_parameters_from_config_and_globals (cc_headers (cli_cards W)) loaded (cli_globals W))) (\<lambda>sp.
     db_bind (sync_config W loaded) (\<lambda>_.
     db_bind (prepare_barrier_operation W parse_error args reference sp) (\<lambda>op.
     db_bind (append_barrier_started_event (at_event fresh 0 W) op) (\<lambda>_.
     db_bind (build_member_states (cli_engine W) (op_context_id op) reference (op_members op)) (\<lambda>members.
       db_return (op, members))))))"

text \<open>After the last attempt: the journal, then the exit.\<close>

definition finish_barrier ::
  "'dt cli_world \<Rightarrow> (message \<Rightarrow> string) \<Rightarrow> (nat \<Rightarrow> string) \<Rightarrow> 'dt BarrierOperation \<Rightarrow> BarrierOutput \<Rightarrow> unit store_op" where
  "finish_barrier W render fresh op out =
     db_bind (append_barrier_member_events W render fresh 1 op (bo_status out) (bo_members out)) (\<lambda>_.
     db_bind (append_barrier_completed_event (at_event fresh (length (bo_members out) + 1) W) render (length (bo_members out) + 1) out)
       (\<lambda>_. db_outcome (barrier_exit out)))"

end
