(* ===== verification/Store_Journal.thy ===== *)
theory Store_Journal
  imports Gateway_Jobs_Properties Store_Commands
begin

text \<open>
  What appending an event does to the whole store: one row is added at the end of the journal, or the
  event is refused and nothing changes; a row that is added has all its references.
\<close>

lemma find_last: "\<forall>x \<in> set xs. \<not> p x \<Longrightarrow> p y \<Longrightarrow> List.find p (xs @ [y]) = Some y"
  by (induction xs) auto

lemma append_event_stored:
  assumes "on_gateway E (\<lambda>S. append_event S stamp e) db = (Inr r, db')"
  obtains row where
    "db' = db\<lparr>st_gateway := (st_gateway db)\<lparr>db_events := db_events (st_gateway db) @ [row],
       db_last_sequence := db_last_sequence (st_gateway db) + 1\<rparr>\<rparr>"
    "erow_event_id row = event_id e" "erow_event_type row = event_type e" "erow_source row = event_source e"
    "erec_event_id r = event_id e" "erec_sequence r = erow_sequence row"
proof -
  let ?S = "gateway_sql E db" and ?g = "st_gateway db"
  obtain g' where run: "append_event ?S stamp e ?g = (Inr r, g')" "db' = db\<lparr>st_gateway := g'\<rparr>"
    using assms by (auto simp: on_gateway_def split: prod.splits)
  obtain row where row: "event_row ?S stamp (db_last_sequence ?g + 1) e = Inr row"
    and step: "(case sql_refuses_event ?S ?g row of
          Some error \<Rightarrow> (Inl (storage_error ''appending event'' error), ?g)
        | None \<Rightarrow>
            db_bind (get_event ?S (event_id e))
              (\<lambda>stored. db_outcome (ok_or stored (missing_after_write ''event'' (event_id e))))
              (?g\<lparr>db_events := db_events ?g @ [row], db_last_sequence := db_last_sequence ?g + 1\<rparr>)) = (Inr r, g')"
    using run(1) unfolding append_event_def db_bind_Inr [of "db_outcome _"] db_outcome_Inr and_then_Inr by blast
  have fields: "erow_event_id row = event_id e" "erow_event_type row = event_type e" "erow_source row = event_source e"
    using row by (auto simp: event_row_def and_then_Inr)
  from step have allowed: "sql_refuses_event ?S ?g row = None"
    and g': "g' = ?g\<lparr>db_events := db_events ?g @ [row], db_last_sequence := db_last_sequence ?g + 1\<rparr>"
    and read: "query_row ''reading event'' (read_event_row ?S)
      (List.find (\<lambda>x. erow_event_id x = event_id e) (db_events ?g @ [row])) = Inr (Some r)"
    by (auto simp: db_bind_Inr db_outcome_Inr get_event_def ok_or_def split: option.splits)
  from allowed have "\<forall>x \<in> set (db_events ?g). erow_event_id x \<noteq> erow_event_id row"
    by (auto simp: gateway_sql_def Let_def split: option.splits)
  then have "List.find (\<lambda>x. erow_event_id x = event_id e) (db_events ?g @ [row]) = Some row"
    by (intro find_last) (simp_all add: fields(1))
  with read have "read_event_row ?S row = Inr r" by (simp add: query_row_Inr)
  then have "erec_event_id r = event_id e" "erec_sequence r = erow_sequence row"
    using fields(1) by (auto simp: read_event_row_def and_then_Inr parse_sql_def EventId_new_def identifier_new_def split: sum.splits)
  with that fields g' run(2) show ?thesis by blast
qed

text \<open>Only the journal grows.\<close>

definition only_journal :: "store_db \<Rightarrow> store_db \<Rightarrow> EventRow list \<Rightarrow> bool" where
  "only_journal db db' es \<longleftrightarrow>
     (\<exists>n. db' = db\<lparr>st_gateway := (st_gateway db)\<lparr>db_events := db_events (st_gateway db) @ es, db_last_sequence := n\<rparr>\<rparr>)"

lemma only_journal_refl: "only_journal db db []"
  by (auto simp: only_journal_def intro!: exI [of _ "db_last_sequence (st_gateway db)"])

lemma only_journal_trans: "only_journal db db1 es \<Longrightarrow> only_journal db1 db2 fs \<Longrightarrow> only_journal db db2 (es @ fs)"
  by (auto simp: only_journal_def)

lemma has_row_journal: "only_journal db db' es \<Longrightarrow> has_row db' t k = has_row db t k"
  by (cases t) (auto simp: only_journal_def has_row_def)

lemma append_event_rows:
  assumes "on_gateway E (\<lambda>S. append_event S stamp e) db = (r, db')"
  shows "\<exists>es. only_journal db db' es \<and> length es \<le> 1 \<and> (is_ok r \<longrightarrow> length es = 1) \<and>
    (\<forall>row \<in> set es. erow_event_type row = event_type e \<and>
       (\<forall>c. event_context_id e = Some c \<longrightarrow> has_row db To_Context c) \<and>
       (\<forall>t. event_task_id e = Some t \<longrightarrow> has_row db To_Task t))"
proof -
  let ?S = "gateway_sql E db" and ?g = "st_gateway db"
  have db': "db' = db\<lparr>st_gateway := snd (append_event ?S stamp e ?g)\<rparr>"
    using assms by (auto simp: on_gateway_def split: prod.splits)
  consider (same) "snd (append_event ?S stamp e ?g) = ?g"
    | (added) row where "event_row ?S stamp (db_last_sequence ?g + 1) e = Inr row" "sql_refuses_event ?S ?g row = None"
      "snd (append_event ?S stamp e ?g) =
        ?g\<lparr>db_events := db_events ?g @ [row], db_last_sequence := db_last_sequence ?g + 1\<rparr>"
    using append_event_db [of ?S stamp e ?g] by blast
  then show ?thesis
  proof cases
    case same
    have "\<not> is_ok r"
    proof
      assume "is_ok r"
      then obtain x where "r = Inr x" by auto
      with assms obtain row where "db' = db\<lparr>st_gateway := ?g\<lparr>db_events := db_events ?g @ [row],
          db_last_sequence := db_last_sequence ?g + 1\<rparr>\<rparr>"
        using append_event_stored by metis
      then have "db_events (st_gateway db') = db_events ?g @ [row]" by simp
      moreover have "db_events (st_gateway db') = db_events ?g" using db' same by simp
      ultimately show False by simp
    qed
    then show ?thesis using only_journal_refl [of db] same by (intro exI [of _ "[]"]) (simp add: db')
  next
    case (added row)
    have "refs_ok db (event_refs row)"
      using added(2) by (auto simp: gateway_sql_def Let_def violates_def split: option.splits if_splits)
    moreover have "erow_context_id row = event_context_id e" "erow_task_id row = event_task_id e"
      "erow_event_type row = event_type e"
      using added(1) by (auto simp: event_row_def and_then_Inr)
    ultimately show ?thesis
      using added(3) by (intro exI [of _ "[row]"]) (auto simp: db' only_journal_def refs_ok_def event_refs_def)
  qed
qed

lemma append_event_effect:
  assumes "on_gateway E (\<lambda>S. append_event S stamp e) db = (r, db')"
  shows "\<exists>es. only_journal db db' es \<and> length es \<le> 1 \<and> (\<forall>row \<in> set es. erow_event_type row = event_type e)"
  using append_event_rows [OF assms] by blast

end
