(* ===== verification/Cli_Barrier_Properties.thy ===== *)
theory Cli_Barrier_Properties
  imports Cli_Barrier Cli_Registry_Properties Store_Journal "HOL-Library.Sublist"
begin

text \<open>
  What the barrier promises: it always ends, within a number of attempts given by its timeout and its
  interval, and its verdict is right: it succeeds exactly with a quorum, and with the policy to go on it
  fails only when no later attempt could have reached the quorum.
\<close>

subsection \<open>Settled members\<close>

lemmas status_defs = member_is_success_def member_is_failure_def member_is_cancellation_def member_is_pending_def
  member_is_disqualified_def

text \<open>A satisfied or disqualified member stays what it is.\<close>

lemma refresh_settled:
  "member_is_success (bar_status m) \<or> member_is_disqualified (bar_status m) \<Longrightarrow>
   bar_status (refresh_barrier_member E op obs m) = bar_status m"
  by (simp add: refresh_barrier_member_def)

lemma count_partition:
  "length ms = count_status member_is_success ms + count_status member_is_disqualified ms + count_status member_is_pending ms"
  "count_status member_is_disqualified ms = count_status member_is_failure ms + count_status member_is_cancellation ms"
proof (induction ms)
  case (Cons m ms)
  case 1
  show ?case using Cons by (cases "bar_status m") (simp_all add: count_status_def status_defs)
  case 2
  show ?case using Cons by (cases "bar_status m") (simp_all add: count_status_def status_defs)
qed (simp_all add: count_status_def)

lemma count_refresh_mono:
  assumes "\<And>st. p st \<Longrightarrow> member_is_success st \<or> member_is_disqualified st"
  shows "count_status p ms \<le> count_status p (map (refresh_barrier_member E op obs) ms)"
proof (induction ms)
  case (Cons m ms)
  have "p (bar_status m) \<Longrightarrow> p (bar_status (refresh_barrier_member E op obs m))"
    using assms [of "bar_status m"] by (simp add: refresh_settled)
  with Cons show ?case by (simp add: count_status_def)
qed simp

text \<open>The members after \<open>k\<close> more attempts.\<close>

fun members_after ::
  "'dt::linorder engine \<Rightarrow> 'dt BarrierOperation \<Rightarrow> (nat \<Rightarrow> 'dt observation) \<Rightarrow> nat \<Rightarrow> nat \<Rightarrow> 'dt BarrierMemberState list \<Rightarrow>
   'dt BarrierMemberState list" where
  "members_after E op observed n 0 ms = ms"
| "members_after E op observed n (Suc k) ms =
     members_after E op observed (n + 1) k (map (refresh_barrier_member E op (observed n)) ms)"

lemma members_after_mono:
  "(\<And>st. p st \<Longrightarrow> member_is_success st \<or> member_is_disqualified st) \<Longrightarrow>
   count_status p ms \<le> count_status p (members_after E op observed n k ms)"
proof (induction k arbitrary: n ms)
  case (Suc k)
  have "count_status p ms \<le> count_status p (map (refresh_barrier_member E op (observed n)) ms)"
    by (rule count_refresh_mono) (rule Suc.prems)
  also have "\<dots> \<le> count_status p (members_after E op observed (n + 1) k (map (refresh_barrier_member E op (observed n)) ms))"
    by (rule Suc.IH) (rule Suc.prems)
  finally show ?case by simp
qed simp

lemma length_members_after [simp]: "length (members_after E op observed n k ms) = length ms"
  by (induction k arbitrary: n ms) simp_all

lemma quorum_out_of_reach:
  assumes "length ms - count_status member_is_disqualified ms < op_required op"
  shows "count_status member_is_success (members_after E op observed n k ms) < op_required op"
proof -
  let ?ms = "members_after E op observed n k ms"
  have "count_status member_is_disqualified ms \<le> count_status member_is_disqualified ?ms"
    by (rule members_after_mono) simp
  moreover have "count_status member_is_success ?ms + count_status member_is_disqualified ?ms \<le> length ms"
    using count_partition(1) [of ?ms] by simp
  ultimately show ?thesis using assms by linarith
qed

text \<open>C29. The verdict of an attempt is right.  It is a success exactly with a quorum of satisfied members.
  A failure or cancellation means that a member is disqualified under the policy to stop, or that no
  later attempt, whatever it observes, can reach the quorum.  Otherwise a quorum is still possible, and
  the attempt is the last one exactly when the time is up.\<close>

theorem barrier_verdict_right:
  "let reached = count_status member_is_success ms;
       possible = reached + count_status member_is_pending ms;
       hopeless = (op_failure_policy op = Stop \<and> 0 < count_status member_is_disqualified ms \<or>
         (\<forall>observed n k. count_status member_is_success (members_after E op observed n k ms) < op_required op))
   in case evaluate_barrier op elapsed ms of
        Succeeded_Barrier \<Rightarrow> op_required op \<le> reached
      | Failed_Barrier \<Rightarrow> reached < op_required op \<and> hopeless
      | Cancelled_Barrier \<Rightarrow> reached < op_required op \<and> hopeless \<and> 0 < count_status member_is_cancellation ms
      | Timeout_Barrier \<Rightarrow> reached < op_required op \<and> op_required op \<le> possible \<and> op_timeout op \<le> elapsed
      | Continue \<Rightarrow> reached < op_required op \<and> op_required op \<le> possible \<and> elapsed < op_timeout op"
  using count_partition [of ms] quorum_out_of_reach [of ms op E]
  by (auto simp: evaluate_barrier_def Let_def)

subsection \<open>The end of the loop\<close>

text \<open>Time passes: \<open>slept n\<close> is read after the evaluation of attempt \<open>n\<close>, and sleeping takes as long as it
  should or longer.\<close>

definition clock_law :: "'dt BarrierOperation \<Rightarrow> (nat \<Rightarrow> nat) \<Rightarrow> (nat \<Rightarrow> nat) \<Rightarrow> bool" where
  "clock_law op clock slept \<longleftrightarrow> (\<forall>n. clock n \<le> slept n \<and> slept n + barrier_pause op (slept n) \<le> clock (Suc n))"

lemma clock_progress:
  assumes "clock_law op clock slept"
  shows "min (n * op_interval op) (op_timeout op) \<le> clock n"
proof (induction n)
  case (Suc n)
  have law: "clock n \<le> slept n" "slept n + barrier_pause op (slept n) \<le> clock (Suc n)"
    using assms by (simp_all add: clock_law_def)
  show ?case
  proof (cases "slept n \<le> op_timeout op")
    case True
    then have "min (slept n + op_interval op) (op_timeout op) \<le> clock (Suc n)"
      using law(2) by (simp add: barrier_pause_def)
    then show ?thesis using Suc law(1) by (simp add: min_def split: if_splits)
  qed (use law(2) in simp)
qed simp

lemma barrier_loop_ends:
  assumes "\<And>ms. evaluate_barrier op (clock (n + k)) ms \<noteq> Continue"
  shows "\<exists>j verdict ms'. j \<le> k \<and> barrier_loop (Suc k) E op observed clock n ms = Some (verdict, ms', n + Suc j) \<and>
    ms' = members_after E op observed n (Suc j) ms \<and> verdict = evaluate_barrier op (clock (n + j)) ms' \<and> verdict \<noteq> Continue \<and>
    (\<forall>i < j. evaluate_barrier op (clock (n + i)) (members_after E op observed n (Suc i) ms) = Continue)"
  using assms
proof (induction k arbitrary: n ms)
  case (Suc k)
  let ?ms = "map (refresh_barrier_member E op (observed n)) ms"
  show ?case
  proof (cases "evaluate_barrier op (clock n) ?ms = Continue")
    case True
    have "\<And>ms. evaluate_barrier op (clock (Suc n + k)) ms \<noteq> Continue" using Suc.prems by simp
    from Suc.IH [OF this, of ?ms] obtain j verdict ms' where j: "j \<le> k"
      "barrier_loop (Suc k) E op observed clock (Suc n) ?ms = Some (verdict, ms', Suc n + Suc j)"
      "ms' = members_after E op observed (Suc n) (Suc j) ?ms" "verdict = evaluate_barrier op (clock (Suc n + j)) ms'"
      "verdict \<noteq> Continue"
      "\<forall>i < j. evaluate_barrier op (clock (Suc n + i)) (members_after E op observed (Suc n) (Suc i) ?ms) = Continue"
      by blast
    have "evaluate_barrier op (clock (n + i)) (members_after E op observed n (Suc i) ms) = Continue" if "i < Suc j" for i
      using that j(6) True by (cases i) auto
    with j True show ?thesis by (intro exI [of _ "Suc j"] exI [of _ verdict] exI [of _ ms']) (simp add: Let_def)
  next
    case False
    then show ?thesis by (intro exI [of _ 0]) (simp add: Let_def)
  qed
next
  case 0
  then show ?case using 0 [of "map (refresh_barrier_member E op (observed n)) ms"] by (auto simp: Let_def)
qed

lemma parse_duration_positive: "parse_duration_arg e flag text = Inr d \<Longrightarrow> 0 < d"
  by (auto simp: parse_duration_arg_def Let_def and_then_Inr fail_if_def from_millis_def duration_unit_def
      split: option.splits if_splits)

lemma prepare_barrier_ok:
  assumes "prepare_barrier_operation W e args reference sp db = (Inr op, db')"
  shows "0 < op_interval op" "op_interval op \<le> MAX_BARRIER_INTERVAL" "0 < op_timeout op"
    "1 \<le> op_required op" "op_required op \<le> length (op_members op)"
  using assms
  by (auto simp: prepare_barrier_operation_def db_bind_Inr db_outcome_def db_return_def Let_def fail_if_def
      DEFAULT_BARRIER_TIMEOUT_def DEFAULT_BARRIER_INTERVAL_def MAX_BARRIER_INTERVAL_def from_millis_def
      dest: parse_duration_positive split: if_splits option.splits)

lemma barrier_exit_ok:
  "barrier_exit (finalize_barrier_output W profile op ms attempts verdict elapsed) = Inr () \<longleftrightarrow> verdict = Succeeded_Barrier"
  by (cases verdict) (auto simp: barrier_exit_def finalize_barrier_output_def Let_def)

text \<open>The exit code of each verdict.\<close>

lemma barrier_exit_codes:
  "barrier_exit (finalize_barrier_output W profile op ms attempts verdict elapsed) = Inl e \<Longrightarrow> verdict \<noteq> Continue \<Longrightarrow>
   exit_code e = (case verdict of Timeout_Barrier \<Rightarrow> Exit_TaskTimeout | Cancelled_Barrier \<Rightarrow> Exit_TaskCancelled | _ \<Rightarrow> Exit_TaskFailed)"
  by (cases verdict) (auto simp: barrier_exit_def finalize_barrier_output_def Let_def)

text \<open>With explicit states a failed or cancelled task that is not asked for is always unmatched: the two
  last cases of \<open>classify_record_state\<close> are never reached.\<close>

lemma explicit_never_cancelled:
  assumes "tgt_explicit (targets_from_args states)"
  shows "classify_record_state state (targets_from_args states) \<notin> {Member_Failed, Member_Cancelled}"
  using assms by (auto simp: classify_record_state_def targets_from_args_def Let_def is_success_def is_requested_def
      is_terminal_task_state_def split: if_splits)

lemma finish_barrier_ok: "finish_barrier W render fresh op out db = (Inr u, db') \<Longrightarrow> barrier_exit out = Inr ()"
  by (auto simp: finish_barrier_def db_bind_Inr db_outcome_def)

text \<open>C30. A prepared barrier always ends: as time passes while it sleeps, it stops after at most
  \<open>timeout / interval + 2\<close> attempts, whatever they observe, with the verdict of the last one.  The exit
  of that verdict is a success exactly when the quorum was reached; the command takes it after it has
  journalled the result, so that it succeeds only with a quorum, but may also end with an error of the
  journal.\<close>

theorem barrier_ends:
  assumes "prepare_barrier_operation W e args reference sp db = (Inr op, db')" "clock_law op clock slept"
  shows "\<exists>verdict ms' attempts.
    barrier_loop (op_timeout op div op_interval op + 2) E op observed clock 0 ms = Some (verdict, ms', attempts) \<and>
    attempts \<le> op_timeout op div op_interval op + 2 \<and> ms' = members_after E op observed 0 attempts ms \<and>
    verdict = evaluate_barrier op (clock (attempts - 1)) ms' \<and> verdict \<noteq> Continue \<and>
    (is_ok (barrier_exit (finalize_barrier_output W profile op ms' attempts verdict elapsed)) \<longleftrightarrow>
       op_required op \<le> count_status member_is_success ms') \<and>
    (\<forall>render fresh db2 db3.
       finish_barrier W render fresh op (finalize_barrier_output W profile op ms' attempts verdict elapsed) db2 = (Inr (), db3) \<longrightarrow>
       op_required op \<le> count_status member_is_success ms')"
proof -
  define k where "k = op_timeout op div op_interval op + 1"
  have "op_timeout op \<le> k * op_interval op"
    using prepare_barrier_ok(1) [OF assms(1)] by (simp add: k_def div_mult_mod_eq [symmetric] less_imp_le dividend_less_times_div algebra_simps)
  then have "op_timeout op \<le> clock (0 + k)" using clock_progress [OF assms(2), of k] by simp
  then have "evaluate_barrier op (clock (0 + k)) ms \<noteq> Continue" for ms :: "'a BarrierMemberState list"
    by (auto simp: evaluate_barrier_def Let_def)
  from barrier_loop_ends [where n = 0 and k = k and clock = clock, OF this, of E observed ms] obtain j verdict ms' where j: "j \<le> k"
    "barrier_loop (Suc k) E op observed clock 0 ms = Some (verdict, ms', 0 + Suc j)"
    "ms' = members_after E op observed 0 (Suc j) ms" "verdict = evaluate_barrier op (clock (0 + j)) ms'" "verdict \<noteq> Continue"
    by blast
  have "verdict = Succeeded_Barrier \<longleftrightarrow> op_required op \<le> count_status member_is_success ms'"
    unfolding j(4) by (auto simp: evaluate_barrier_def Let_def)
  moreover have fuel: "op_timeout op div op_interval op + 2 = Suc k" by (simp add: k_def)
  ultimately show ?thesis unfolding fuel using j
    by (intro exI [of _ verdict] exI [of _ ms'] exI [of _ "Suc j"])
      (auto simp: barrier_exit_ok dest: finish_barrier_ok simp del: barrier_loop.simps members_after.simps)
qed

subsection \<open>The journal of a barrier\<close>

lemma new_cli_event_type: "new_cli_event W type payload = Inr event \<Longrightarrow> event_type event = type"
  by (auto simp: new_cli_event_def EventInsert_new_def and_then_Inr)

text \<open>What appending one event of the type \<open>type\<close> leaves, when it needs the rows \<open>needs\<close>.\<close>

definition one_event :: "string \<Rightarrow> (target \<times> string) set \<Rightarrow> store_db \<Rightarrow> unit outcome \<Rightarrow> store_db \<Rightarrow> bool" where
  "one_event type needs db r db' \<longleftrightarrow>
     (\<exists>es. only_journal db db' es \<and> length es \<le> 1 \<and> (r = Inr () \<longrightarrow> length es = 1) \<and>
        (\<forall>row \<in> set es. erow_event_type row = type \<and> (\<forall>(t, k) \<in> needs. has_row db t k)))"

lemma one_event_refused: "one_event type needs db (Inl e) db"
  using only_journal_refl [of db] by (auto simp: one_event_def intro!: exI [of _ "[]"])

lemma one_event_appended:
  assumes "db_bind (on_gateway E (\<lambda>S. append_event S stamp e)) (\<lambda>_. db_return ()) db = (r, db')" "event_type e = type"
    "\<And>t k. (t, k) \<in> needs \<Longrightarrow> t = To_Context \<and> event_context_id e = Some k \<or> t = To_Task \<and> event_task_id e = Some k"
  shows "one_event type needs db r db'"
proof -
  obtain r1 where run: "on_gateway E (\<lambda>S. append_event S stamp e) db = (r1, db')" "r = Inr () \<longrightarrow> is_ok r1"
    using assms(1) by (auto simp: db_bind_cases db_return_def)
  obtain es where es: "only_journal db db' es" "length es \<le> 1" "is_ok r1 \<longrightarrow> length es = 1"
    "\<forall>row \<in> set es. erow_event_type row = event_type e \<and>
       (\<forall>c. event_context_id e = Some c \<longrightarrow> has_row db To_Context c) \<and>
       (\<forall>t. event_task_id e = Some t \<longrightarrow> has_row db To_Task t)"
    using append_event_rows [OF run(1)] by (elim exE conjE)
  have "erow_event_type row = type \<and> (\<forall>(t, k) \<in> needs. has_row db t k)" if "row \<in> set es" for row
    using es(4) [rule_format, OF that] assms(2) by (auto dest: assms(3))
  then show ?thesis unfolding one_event_def using es(1-3) run(2) by blast
qed

lemma one_event_after:
  assumes "db_bind (db_outcome x) f db = (r, db')"
    "\<And>v. x = Inr v \<Longrightarrow> f v db = (r, db') \<Longrightarrow> one_event type needs db r db'"
  shows "one_event type needs db r db'"
  using assms by (cases x) (auto simp: db_bind_def db_outcome_def one_event_refused)

lemma barrier_started_row:
  assumes "append_barrier_started_event W op db = (r, db')"
  shows "one_event ''missive.barrier.started'' {(To_Context, op_context_id op)} db r db'"
  using assms unfolding append_barrier_started_event_def
  by (elim one_event_after)
    (auto simp: event_record_a2a_protocol_version_def and_then_Inr new_cli_event_type elim!: one_event_appended)

lemma barrier_member_row:
  assumes "append_barrier_member_event W render n op verdict m db = (r, db')"
  shows "one_event (barrier_member_event_type verdict (bmv_status m))
    ({(To_Context, op_context_id op)} \<union> {(To_Task, t) |t. bmv_task_id m = Some t}) db r db'"
  using assms unfolding append_barrier_member_event_def
  by (elim one_event_after)
    (auto simp: new_cli_event_type TaskId_new_def identifier_new_def and_then_Inr elim!: one_event_appended split: option.splits)

lemma barrier_completed_row:
  assumes "append_barrier_completed_event W render n out db = (r, db')"
  shows "one_event ''missive.barrier.completed'' {} db r db'"
  using assms unfolding append_barrier_completed_event_def
  by (elim one_event_after) (auto simp: new_cli_event_type elim!: one_event_appended)

lemma build_member_states_reads: "snd (build_member_states E c reference members db) = db"
proof (induction members)
  case (Cons m members)
  have "snd (member_task_id E c reference m db) = db"
    by (auto simp: member_task_id_def latest_member_task_def list_tasks_def db_bind_def db_outcome_def db_return_def
        split: option.splits sum.splits)
  with Cons show ?case by (auto simp: db_bind_def db_return_def split: prod.splits sum.splits)
qed (simp add: db_return_def)

text \<open>A barrier can only be started in a context that is already stored.\<close>

lemma start_needs_context:
  assumes "start_barrier W loaded fresh e args reference db = (Inr (op, ms), db')"
  shows "has_row db' To_Context (op_context_id op)"
proof -
  obtain db1 db2 where run: "append_barrier_started_event (at_event fresh 0 W) op db1 = (Inr (), db2)"
    "build_member_states (cli_engine W) (op_context_id op) reference (op_members op) db2 = (Inr ms, db')"
    using assms by (auto simp: start_barrier_def db_bind_Inr db_return_def)
  obtain es where es: "only_journal db1 db2 es" "length es = 1" "\<forall>row \<in> set es. has_row db1 To_Context (op_context_id op)"
    using barrier_started_row [OF run(1)] by (auto simp: one_event_def)
  then have "has_row db1 To_Context (op_context_id op)" by (cases es) auto
  moreover have "db' = db2" using build_member_states_reads run(2) by (metis snd_conv)
  ultimately show ?thesis using has_row_journal [OF es(1)] by simp
qed

text \<open>The events of the members, in order, and a member whose task is not stored.\<close>

definition member_event_types :: "string \<Rightarrow> BarrierMemberView list \<Rightarrow> string list" where
  "member_event_types verdict members = map (\<lambda>m. barrier_member_event_type verdict (bmv_status m)) members"

definition unknown_task :: "store_db \<Rightarrow> BarrierMemberView \<Rightarrow> bool" where
  "unknown_task db m \<longleftrightarrow> (\<exists>t. bmv_task_id m = Some t \<and> \<not> has_row db To_Task t)"

definition member_journal :: "string \<Rightarrow> BarrierMemberView list \<Rightarrow> store_db \<Rightarrow> unit outcome \<Rightarrow> store_db \<Rightarrow> EventRow list \<Rightarrow> bool" where
  "member_journal verdict members db r db' es \<longleftrightarrow>
     only_journal db db' es \<and> prefix (map erow_event_type es) (member_event_types verdict members) \<and>
     (r = Inr () \<longrightarrow> length es = length members) \<and> (list_ex (unknown_task db) members \<longrightarrow> length es < length members)"

lemma member_events:
  assumes "append_barrier_member_events W render fresh n op verdict members db = (r, db')"
  shows "\<exists>es. member_journal verdict members db r db' es"
  using assms
proof (induction members arbitrary: n db)
  case Nil
  then show ?case using only_journal_refl [of db] by (intro exI [of _ "[]"]) (simp add: member_journal_def db_return_def)
next
  case (Cons m members)
  obtain r1 db1 where run: "append_barrier_member_event (at_event fresh n W) render n op verdict m db = (r1, db1)" by fastforce
  obtain es1 where es1: "only_journal db db1 es1" "length es1 \<le> 1" "r1 = Inr () \<longrightarrow> length es1 = 1"
    "\<forall>row \<in> set es1. erow_event_type row = barrier_member_event_type verdict (bmv_status m) \<and> \<not> unknown_task db m"
    using barrier_member_row [OF run] by (auto simp: one_event_def unknown_task_def)
  from es1(2) consider (none) "es1 = []" | (one) row where "es1 = [row]" by (cases es1) auto
  note shape = this
  show ?case
  proof (cases r1)
    case (Inl e)
    then have r: "r = Inl e" "db' = db1" using Cons.prems run by (simp_all add: db_bind_def)
    from shape show ?thesis
      by cases (use es1 r in \<open>auto intro!: exI [of _ es1] simp: member_journal_def member_event_types_def\<close>)
  next
    case (Inr u)
    then have rest: "append_barrier_member_events W render fresh (n + 1) op verdict members db1 = (r, db')"
      using Cons.prems run by (simp add: db_bind_def)
    obtain row where row: "es1 = [row]" using shape es1(3) Inr by cases auto
    obtain es2 where es2: "member_journal verdict members db1 r db' es2" using Cons.IH [OF rest] by blast
    have "unknown_task db1 = unknown_task db" using has_row_journal [OF es1(1)] by (auto simp: unknown_task_def)
    with es2 es1(4) only_journal_trans [OF es1(1), of db' es2] show ?thesis
      by (intro exI [of _ "es1 @ es2"]) (auto simp: member_journal_def member_event_types_def row)
  qed
qed

text \<open>What goes wrong while the journal is written is an error of the store or of validation.  The exits of
  the verdicts are errors of orchestration.\<close>

definition journal_error :: "MissiveError \<Rightarrow> bool" where
  "journal_error e \<longleftrightarrow> err_category e \<in> {Cat_Storage, Cat_Validation}"

definition journal_errors :: "('a, 's) state_op \<Rightarrow> bool" where
  "journal_errors operation \<longleftrightarrow> (\<forall>db e db'. operation db = (Inl e, db') \<longrightarrow> journal_error e)"

lemma errors_return: "journal_errors (db_return x)"
  by (simp add: journal_errors_def db_return_def)

lemma errors_outcome: "(\<And>e. r = Inl e \<Longrightarrow> journal_error e) \<Longrightarrow> journal_errors (db_outcome r)"
  by (simp add: journal_errors_def db_outcome_def)

lemma errors_bind: "journal_errors m \<Longrightarrow> (\<And>x. journal_errors (f x)) \<Longrightarrow> journal_errors (db_bind m f)"
  unfolding journal_errors_def db_bind_cases by blast

lemma identifier_errors:
  "AgentAlias_new s = Inl e \<Longrightarrow> journal_error e" "GroupName_new s = Inl e \<Longrightarrow> journal_error e"
  "ContextId_new s = Inl e \<Longrightarrow> journal_error e" "TaskId_new s = Inl e \<Longrightarrow> journal_error e"
  "EventId_new s = Inl e \<Longrightarrow> journal_error e"
  by (auto simp: AgentAlias_new_def GroupName_new_def ContextId_new_def TaskId_new_def EventId_new_def identifier_new_def
      and_then_def journal_error_def validate_named_identifier_category validate_opaque_identifier_category
      split: sum.splits)

lemma new_cli_event_error: "new_cli_event W type payload = Inl e \<Longrightarrow> journal_error e"
  by (auto simp: new_cli_event_def new_event_id_def and_then_def split: sum.splits dest: identifier_errors)

lemma validate_len_error: "validate_len label s n = Inl e \<Longrightarrow> journal_error e"
  by (auto simp: validate_len_def validate_non_empty_def fail_if_def journal_error_def split: if_splits)

lemma to_json_text_error: "to_json_text S label v = Inl e \<Longrightarrow> journal_error e"
  by (auto simp: to_json_text_def journal_error_def split: sum.splits)

lemma storage_error_journal: "journal_error (storage_error action e)" "journal_error (missing_after_write kind ident)"
  by (simp_all add: storage_error_def missing_after_write_def journal_error_def split: std_error.split)

lemma append_event_error:
  assumes "append_event S stamp input db = (Inl e, db')"
  shows "journal_error e"
proof -
  have "journal_error e" if "and_then (checks [validate_len ''event source'' (event_source input) 128,
      validate_len ''event type'' (event_type input) 128]) (\<lambda>_. event_row S stamp n input) = Inl e" for n
    using that
    by (auto simp: and_then_def event_row_def split: sum.splits dest: validate_len_error to_json_text_error)
  moreover have "query_row action read row = Inl e \<Longrightarrow> journal_error e"
    for action and read :: "EventRow \<Rightarrow> std_error + 'a EventRecord" and row
    by (auto simp: query_row_def storage_error_journal split: option.splits sum.splits)
  ultimately show ?thesis
    using assms unfolding append_event_def
    by (auto simp: db_bind_cases db_outcome_def get_event_def ok_or_def storage_error_journal
        simp del: checks_Cons split: option.splits)
qed

lemma errors_append: "journal_errors (on_gateway E (\<lambda>S. append_event S stamp input))"
  by (auto simp: journal_errors_def on_gateway_def split: prod.splits dest: append_event_error)

lemma member_event_errors: "journal_errors (append_barrier_member_event W render n op verdict m)"
  unfolding append_barrier_member_event_def
  by (intro errors_bind errors_outcome errors_append errors_return)
    (auto dest: new_cli_event_error identifier_errors simp: and_then_def split: option.splits sum.splits)

lemma member_events_errors: "journal_errors (append_barrier_member_events W render fresh n op verdict members)"
  by (induction members arbitrary: n) (auto intro: errors_bind errors_return member_event_errors)

lemma completed_event_errors: "journal_errors (append_barrier_completed_event W render n out)"
  unfolding append_barrier_completed_event_def
  by (intro errors_bind errors_outcome errors_append errors_return) (auto dest: new_cli_event_error identifier_errors)

lemma barrier_exit_error: "barrier_exit out = Inl e \<Longrightarrow> err_category e = Cat_Orchestration"
  by (auto simp: barrier_exit_def split: if_splits)

text \<open>C31. When the barrier has its verdict it journals one event per member, of the type its status has, and
  then the completed barrier, and only then exits with the code of the verdict: with an error of
  orchestration or a success, it has written all these events.  Otherwise it stops with an error of
  the journal, of the store or of validation, after some of them.  It always does so, before all
  members are journalled and without reporting the verdict, when a member refers to a task that is not
  stored, as the result of a broadcast may.\<close>

theorem barrier_journal:
  assumes "finish_barrier W render fresh op out db = (r, db')"
  shows "(\<forall>e. barrier_exit out = Inl e \<longrightarrow> err_category e = Cat_Orchestration) \<and>
    (\<exists>es. only_journal db db' es \<and>
       (r = barrier_exit out \<and>
          map erow_event_type es = member_event_types (bo_status out) (bo_members out) @ [''missive.barrier.completed''] \<or>
        (\<exists>e. r = Inl e \<and> err_category e \<in> {Cat_Storage, Cat_Validation}) \<and>
          prefix (map erow_event_type es) (member_event_types (bo_status out) (bo_members out) @ [''missive.barrier.completed''])) \<and>
       (list_ex (unknown_task db) (bo_members out) \<longrightarrow>
          (\<exists>e. r = Inl e \<and> err_category e \<in> {Cat_Storage, Cat_Validation}) \<and> length es < length (bo_members out)))" (is "_ \<and> ?journalled")
proof -
  let ?types = "member_event_types (bo_status out) (bo_members out)"
  obtain r1 db1 where run: "append_barrier_member_events W render fresh 1 op (bo_status out) (bo_members out) db = (r1, db1)"
    by fastforce
  obtain es1 where es1: "member_journal (bo_status out) (bo_members out) db r1 db1 es1" using member_events [OF run] by blast
  note j = es1 [unfolded member_journal_def]
  show ?thesis
  proof (intro conjI allI impI barrier_exit_error, assumption, cases r1)
    case (Inl e)
    then have "r = Inl e" "db' = db1" using assms run by (simp_all add: finish_barrier_def db_bind_def)
    moreover have "journal_error e" using member_events_errors run Inl unfolding journal_errors_def by blast
    ultimately show "?journalled" using j by (intro exI [of _ es1]) (auto simp: journal_error_def)
  next
    case (Inr u)
    then have all: "length es1 = length (bo_members out)" and known: "\<not> list_ex (unknown_task db) (bo_members out)"
      using j by auto
    then have "length (map erow_event_type es1) = length ?types" by (simp add: member_event_types_def)
    then have types: "map erow_event_type es1 = ?types" using j by (auto simp: prefix_def)
    obtain r2 db2 where run2: "append_barrier_completed_event (at_event fresh (length (bo_members out) + 1) W) render
        (length (bo_members out) + 1) out db1 = (r2, db2)" by fastforce
    obtain es2 where es2: "only_journal db1 db2 es2" "length es2 \<le> 1" "r2 = Inr () \<longrightarrow> length es2 = 1"
      "\<forall>row \<in> set es2. erow_event_type row = ''missive.barrier.completed''"
      using barrier_completed_row [OF run2] by (auto simp: one_event_def)
    have "journal_error e" if "r2 = Inl e" for e
      using completed_event_errors run2 that unfolding journal_errors_def by blast
    then have "r2 = Inr () \<and> r = barrier_exit out \<and> db' = db2 \<or> (\<exists>e. r2 = Inl e \<and> r = Inl e \<and> journal_error e \<and> db' = db2)"
      using assms run run2 Inr by (cases r2) (auto simp: finish_barrier_def db_bind_def db_outcome_def)
    moreover have "only_journal db db2 (es1 @ es2)" using only_journal_trans j es2(1) by blast
    moreover have "es2 = [] \<or> (\<exists>row. es2 = [row])" using es2(2) by (cases es2) auto
    ultimately show "?journalled" using es2(3,4) known types
      by (intro exI [of _ "es1 @ es2"]) (auto simp: journal_error_def)
  qed
qed

definition demo_barrier_args :: BarrierArgs where
  "demo_barrier_args =
     \<lparr>ba_group = ''g'', ba_context = Some ''c'', ba_states = [], ba_required = None, ba_failure_policy = Stop,
      ba_local = True, ba_interval = None, ba_history_length = None, ba_timeout = None\<rparr>"

lemma demo_group:
  "case fst (get_group demo_engine ''g'' (history demo_engine demo_commands)) of
     Inr (Some g) \<Rightarrow> grp_group_name g = ''g'' | _ \<Rightarrow> False"
  by code_simp

lemma demo_group_members:
  "case fst (list_group_members demo_engine ''g'' (history demo_engine demo_commands)) of
     Inr members \<Rightarrow> members \<noteq> [] | Inl e \<Rightarrow> False"
  by code_simp

lemma demo_names: "ContextId_new ''c'' = Inr ''c''" "GroupName_new ''g'' = Inr ''g''"
  by code_simp+

lemma demo_prepared:
  "\<exists>op. prepare_barrier_operation demo_world e demo_barrier_args None sp (history demo_engine demo_commands) =
     (Inr op, history demo_engine demo_commands)"
proof -
  obtain g where g: "fst (get_group demo_engine ''g'' (history demo_engine demo_commands)) = Inr (Some g)" "grp_group_name g = ''g''"
    using demo_group by (auto split: sum.splits option.splits)
  obtain members where m: "fst (list_group_members demo_engine ''g'' (history demo_engine demo_commands)) = Inr members" "members \<noteq> []"
    using demo_group_members by (auto split: sum.splits)
  have "get_group demo_engine ''g'' (history demo_engine demo_commands) = (Inr (Some g), history demo_engine demo_commands)"
    "list_group_members demo_engine ''g'' (history demo_engine demo_commands) = (Inr members, history demo_engine demo_commands)"
    using g(1) m(1) by (simp_all add: get_group_def list_group_members_def)
  moreover have "cli_engine demo_world = demo_engine" by (simp add: demo_world_def)
  ultimately show ?thesis using g(2) m(2)
    by (simp add: prepare_barrier_operation_def demo_barrier_args_def barrier_context_def demo_names db_bind_def db_outcome_def
        db_return_def ok_or_def Let_def unwrap_or_def fail_if_def)
qed

text \<open>A member that a broadcast sent to a task another machine keeps.\<close>

definition demo_barrier_output :: BarrierOutput where
  "demo_barrier_output =
     \<lparr>bo_profile = ''p'', bo_operation_id = ''o'', bo_group = ''g'', bo_context_id = ''c'', bo_status = ''timeout'',
      bo_failure_policy = ''stop'', bo_local = True, bo_from_bcast = True, bo_attempts = 1, bo_member_count = 1,
      bo_required = 1, bo_reached_count = 0, bo_failure_count = 0, bo_cancellation_count = 0, bo_pending_count = 1,
      bo_target_states = [], bo_success_states = [], bo_timeout_ms = 1, bo_interval_ms = 1, bo_elapsed_ms = 1,
      bo_members = [\<lparr>bmv_agent = ''a'', bmv_rank = ''r'', bmv_status = ''missing'', bmv_attempts = 1,
        bmv_task_id = Some ''t'', bmv_context_id = None, bmv_state = None, bmv_source = None, bmv_updated_at = None,
        bmv_selected_interface = None, bmv_error = None\<rparr>],
      bo_message = []\<rparr>"

theorem barrier_journal_witness:
  "\<exists>op e. prepare_barrier_operation demo_world (StdError [] None) demo_barrier_args None
       \<lparr>sp_protocol_version = [], sp_extensions = [], sp_extra = []\<rparr> (history demo_engine demo_commands) =
       (Inr op, history demo_engine demo_commands) \<and>
     fst (finish_barrier demo_world (\<lambda>m. []) (\<lambda>n. ''i'') op demo_barrier_output store_empty) = Inl e \<and>
     err_category e \<in> {Cat_Storage, Cat_Validation}"
proof -
  obtain op where run: "prepare_barrier_operation demo_world (StdError [] None) demo_barrier_args None
      \<lparr>sp_protocol_version = [], sp_extensions = [], sp_extra = []\<rparr> (history demo_engine demo_commands) =
      (Inr op, history demo_engine demo_commands)"
    using demo_prepared by blast
  have "list_ex (unknown_task store_empty) (bo_members demo_barrier_output)"
    by (simp add: demo_barrier_output_def unknown_task_def has_row_def store_empty_def bm_contains_key_def)
  moreover obtain r db' where "finish_barrier demo_world (\<lambda>m. []) (\<lambda>n. ''i'') op demo_barrier_output store_empty = (r, db')"
    by fastforce
  ultimately show ?thesis
    using run barrier_journal [of demo_world "\<lambda>m. []" "\<lambda>n. ''i''" op demo_barrier_output store_empty r db'] by auto
qed

theorem barrier_ends_witness:
  "\<exists>op attempts verdict ms'. 0 < op_interval op \<and>
     barrier_loop (op_timeout op div op_interval op + 2) demo_engine op (\<lambda>n. \<lparr>obs_store = store_empty, obs_remote = (\<lambda>m. (Inr (), m))\<rparr>)
       (\<lambda>n. n * op_interval op) 0 [] = Some (verdict, ms', attempts) \<and> verdict \<noteq> Continue"
proof -
  obtain op where run: "prepare_barrier_operation demo_world (StdError [] None) demo_barrier_args None
      \<lparr>sp_protocol_version = [], sp_extensions = [], sp_extra = []\<rparr> (history demo_engine demo_commands) =
      (Inr op, history demo_engine demo_commands)"
    using demo_prepared by blast
  have law: "clock_law op (\<lambda>n. n * op_interval op) (\<lambda>n. n * op_interval op)"
    by (simp add: clock_law_def barrier_pause_def)
  show ?thesis using barrier_ends [OF run law] prepare_barrier_ok(1) [OF run] by blast
qed

end
