(* ===== verification/Gateway_Webhook.thy ===== *)
theory Gateway_Webhook
  imports Store_Conversations A2a_Service
begin

text \<open>
  \<open>crates/missive-gateway/src/webhook.rs\<close>: the receiver of push notifications.  A callback is
  authenticated by one header, decoded, and journalled: an accepted one with its redacted payload, a
  rejected one with the reason.  The state is the application state of the receiver (its settings, its
  counters, the requested shutdown and the events it has sent to its caller) beside the store.  The HTTP
  server that calls the handlers is not modelled; a handler runs to its end before the next one.
\<close>

subsection \<open>Settings\<close>

datatype WebhookAuth = Disabled | Header string string "string option"

record WebhookAuthView =
  view_required :: bool
  view_header :: "string option"
  view_scheme :: "string option"
  view_token :: "string option"

text \<open>A \<open>SocketAddr\<close>: the address as it is printed, its family and its port.\<close>

record socket_addr =
  sock_ip :: string
  sock_ipv6 :: bool
  sock_port :: u16

text \<open>The directory of the state is given by what opening the store does at each callback.\<close>

record WebhookReceiverConfig =
  whc_profile :: string
  whc_bind_addr :: socket_addr
  whc_path :: string
  whc_auth :: WebhookAuth
  whc_max_events :: "u64 option"
  whc_shutdown_after :: "nat option"
  whc_max_body_bytes :: nat
  whc_protocol_version :: string

definition WEBHOOK_SOURCE :: string where
  "WEBHOOK_SOURCE = ''gateway:webhook''"

definition WEBHOOK_REDACTED :: string where
  "WEBHOOK_REDACTED = ''[REDACTED]''"

definition validate_webhook_path :: "string \<Rightarrow> unit outcome" where
  "validate_webhook_path path =
     checks
       [fail_if (take 1 path \<noteq> ''/'' \<or> path = ''/'')
          (with_help (error_validation
            [Lit (''webhook path must start with '' @ [CHR 0x27] @ ''/'' @ [CHR 0x27] @ '' and include a non-root path segment'')])
            ''Use a callback path such as /a2a/push.''),
        fail_if (CHR ''?'' \<in> set path \<or> CHR ''#'' \<in> set path \<or> has_whitespace path)
          (error_validation [Lit ''webhook path must not contain whitespace, query strings, or fragments''])]"

definition webhook_validate_header_name :: "http_headers \<Rightarrow> string \<Rightarrow> unit outcome" where
  "webhook_validate_header_name H name =
     checks
       [fail_if (trim name = []) (error_validation [Lit ''webhook auth header name cannot be empty'']),
        (case hdr_name H name of
           Inl error \<Rightarrow>
             Inl (with_help (with_source
               (error_validation [Lit ''webhook auth header name is not a valid HTTP header name'']) error)
               ''Use an ASCII HTTP header name such as Authorization or X-Webhook-Token.'')
         | Inr _ \<Rightarrow> Inr ())]"

definition webhook_validate_auth_scheme :: "string \<Rightarrow> unit outcome" where
  "webhook_validate_auth_scheme scheme =
     checks
       [fail_if (trim scheme = [])
          (error_validation [Lit (''webhook auth scheme cannot be empty; use '' @ [CHR 0x27] @ ''none'' @ [CHR 0x27] @
             '' for a raw token comparison'')]),
        fail_if (has_whitespace scheme \<or> has_control scheme)
          (error_validation [Lit ''webhook auth scheme must not contain whitespace or control characters''])]"

fun auth_validate :: "http_headers \<Rightarrow> WebhookAuth \<Rightarrow> unit outcome" where
  "auth_validate H Disabled = Inr ()"
| "auth_validate H (Header name token_text scheme) =
     checks
       [webhook_validate_header_name H name,
        fail_if (token_text = [])
          (error_auth [Lit ''webhook auth token cannot be empty when auth validation is enabled'']),
        (case scheme of None \<Rightarrow> Inr () | Some s \<Rightarrow> webhook_validate_auth_scheme s)]"

definition webhook_config_validate :: "http_headers \<Rightarrow> WebhookReceiverConfig \<Rightarrow> unit outcome" where
  "webhook_config_validate H c =
     checks
       [validate_webhook_path (whc_path c),
        auth_validate H (whc_auth c),
        fail_if (whc_max_events c = Some 0) (error_validation [Lit ''--max-events must be greater than zero'']),
        fail_if (whc_max_body_bytes c = 0)
          (error_validation [Lit ''webhook maximum body size must be greater than zero'']),
        fail_if (trim (whc_protocol_version c) = [])
          (error_validation [Lit ''webhook protocol version fallback cannot be empty''])]"

fun redacted_view :: "WebhookAuth \<Rightarrow> WebhookAuthView" where
  "redacted_view Disabled =
     \<lparr>view_required = False, view_header = None, view_scheme = None, view_token = None\<rparr>"
| "redacted_view (Header name token_text scheme) =
     \<lparr>view_required = True, view_header = Some name, view_scheme = scheme, view_token = Some WEBHOOK_REDACTED\<rparr>"

subsection \<open>Authentication of a callback\<close>

definition expected_auth_header_value :: "string option \<Rightarrow> string \<Rightarrow> string" where
  "expected_auth_header_value scheme token_text =
     (case scheme of Some s \<Rightarrow> s @ '' '' @ token_text | None \<Rightarrow> token_text)"

text \<open>\<open>usize\<close> has 64 bits; a byte is a \<open>u8\<close>, zero beyond the end of the slice.\<close>

definition byte_at :: "string \<Rightarrow> nat \<Rightarrow> u8" where
  "byte_at s i = (if i < length s then word_of_nat (byte (s ! i)) else 0)"

definition constant_time_eq :: "string \<Rightarrow> string \<Rightarrow> bool" where
  "constant_time_eq left right \<longleftrightarrow>
     fold (\<lambda>i diff. or diff (ucast (xor (byte_at left i) (byte_at right i))))
       [0..<max (length left) (length right)]
       (xor (of_nat (length left) :: u64) (of_nat (length right))) = 0"

text \<open>The headers of a request, names in lower case; \<open>HeaderMap::get\<close> returns the first value.  The
  receiver's environment: the \<open>http\<close> crate with \<open>HeaderValue::to_str\<close>, \<open>serde_json\<close> and the types
  of the protocol, the state directory (its lock and the opening of the database), the clock of SQLite,
  fresh identifiers, and the rendering of messages.\<close>

datatype ProtocolTaskState =
    Unspecified | Submitted | Working | InputRequired | AuthRequired | Completed | Failed | Canceled | Rejected

datatype StreamResponse =
    StreamTask string string ProtocolTaskState
  | StreamMessage "string option" "string option"
  | StreamStatusUpdate string string ProtocolTaskState
  | StreamArtifactUpdate string string string

record 'dt webhook_env =
  we_engine :: "'dt engine"
  we_headers :: http_headers
  we_to_str :: "string \<Rightarrow> string option"
  we_from_slice :: "string \<Rightarrow> std_error + json"
  we_stream_response :: "json \<Rightarrow> std_error + StreamResponse"
  we_render :: "message \<Rightarrow> string"

record arrival =
  arr_headers :: "(string \<times> string) list"
  arr_body :: string
  arr_remote_addr :: string
  arr_open :: "unit outcome"
  arr_context_stamp :: string
  arr_event_stamp :: string
  arr_message_id :: string

definition header_text :: "'dt webhook_env \<Rightarrow> (string \<times> string) list \<Rightarrow> string \<Rightarrow> string option" where
  "header_text P headers name = Option.bind (map_of headers name) (we_to_str P)"

fun validate_headers :: "'dt webhook_env \<Rightarrow> WebhookAuth \<Rightarrow> (string \<times> string) list \<Rightarrow> message + bool" where
  "validate_headers P Disabled headers = Inr False"
| "validate_headers P (Header name token_text scheme) headers =
     (case hdr_name (we_headers P) name of
        Inl _ \<Rightarrow> Inl [Lit ''configured auth header '', Dbg name, Lit '' is invalid'']
      | Inr header_name \<Rightarrow>
          (case map_of headers header_name of
             None \<Rightarrow> Inl [Lit (''missing required auth header '' @ name)]
           | Some value \<Rightarrow>
               (case we_to_str P value of
                  None \<Rightarrow> Inl [Lit (''auth header '' @ name @ '' contains non-UTF-8 data'')]
                | Some actual \<Rightarrow>
                    if constant_time_eq actual (expected_auth_header_value scheme token_text) then Inr True
                    else Inl [Lit (''auth header '' @ name @ '' did not match the configured token'')])))"

subsection \<open>Redaction\<close>

definition webhook_secret_names :: "string list" where
  "webhook_secret_names =
     [''authorization'', ''proxyauthorization'', ''token'', ''accesstoken'', ''refreshtoken'',
      ''apikey'', ''apiKey'', ''password'', ''secret'', ''credentials'', ''cookie'', ''setcookie'']"

definition str_contains :: "string \<Rightarrow> string \<Rightarrow> bool" where
  "str_contains needle s \<longleftrightarrow> find_str needle s \<noteq> None"

definition webhook_is_secret_key :: "string \<Rightarrow> bool" where
  "webhook_is_secret_key key \<longleftrightarrow>
     (let normalized = to_ascii_lowercase (filter is_ascii_alphanumeric key)
      in normalized \<in> set webhook_secret_names \<or> str_contains ''token'' normalized \<or>
         str_contains ''secret'' normalized \<or> str_contains ''password'' normalized)"

fun webhook_redact_json :: "json \<Rightarrow> json" where
  "webhook_redact_json (JObject es) =
     JObject (bm_extend []
       (map (\<lambda>(key, value).
          (key, if webhook_is_secret_key key then JString WEBHOOK_REDACTED else webhook_redact_json value)) es))"
| "webhook_redact_json (JArray vs) = JArray (map webhook_redact_json vs)"
| "webhook_redact_json other = other"

subsection \<open>The payload\<close>

record PayloadDetails =
  pay_kind :: string
  pay_event_type :: string
  pay_task_id :: "TaskId option"
  pay_context_id :: "ContextId option"
  pay_state :: "string option"
  pay_artifact_id :: "string option"

fun task_state_label :: "ProtocolTaskState \<Rightarrow> string" where
  "task_state_label Submitted = ''submitted''"
| "task_state_label Working = ''working''"
| "task_state_label Completed = ''completed''"
| "task_state_label Failed = ''failed''"
| "task_state_label Rejected = ''failed''"
| "task_state_label Canceled = ''cancelled''"
| "task_state_label InputRequired = ''input_required''"
| "task_state_label AuthRequired = ''input_required''"
| "task_state_label Unspecified = ''unknown''"

definition optional_new :: "('a \<Rightarrow> 'b outcome) \<Rightarrow> 'a option \<Rightarrow> 'b option outcome" where
  "optional_new f x = (case x of None \<Rightarrow> Inr None | Some v \<Rightarrow> and_then (f v) (\<lambda>r. Inr (Some r)))"

fun from_stream_response :: "StreamResponse \<Rightarrow> PayloadDetails outcome" where
  "from_stream_response (StreamTask ident context state) =
     and_then (TaskId_new ident) (\<lambda>task_id.
     and_then (ContextId_new context) (\<lambda>context_id.
       Inr \<lparr>pay_kind = ''task'', pay_event_type = ''task'', pay_task_id = Some task_id,
         pay_context_id = Some context_id, pay_state = Some (task_state_label state), pay_artifact_id = None\<rparr>))"
| "from_stream_response (StreamMessage ident context) =
     and_then (optional_new TaskId_new ident) (\<lambda>task_id.
     and_then (optional_new ContextId_new context) (\<lambda>context_id.
       Inr \<lparr>pay_kind = ''message'', pay_event_type = ''message'', pay_task_id = task_id,
         pay_context_id = context_id, pay_state = None, pay_artifact_id = None\<rparr>))"
| "from_stream_response (StreamStatusUpdate ident context state) =
     and_then (TaskId_new ident) (\<lambda>task_id.
     and_then (ContextId_new context) (\<lambda>context_id.
       Inr \<lparr>pay_kind = ''status_update'', pay_event_type = ''status_update'', pay_task_id = Some task_id,
         pay_context_id = Some context_id, pay_state = Some (task_state_label state), pay_artifact_id = None\<rparr>))"
| "from_stream_response (StreamArtifactUpdate ident context artifact) =
     and_then (TaskId_new ident) (\<lambda>task_id.
     and_then (ContextId_new context) (\<lambda>context_id.
       Inr \<lparr>pay_kind = ''artifact_update'', pay_event_type = ''artifact_update'', pay_task_id = Some task_id,
         pay_context_id = Some context_id, pay_state = None, pay_artifact_id = Some artifact\<rparr>))"

definition webhook_new_event_id :: "arrival \<Rightarrow> string \<Rightarrow> EventId outcome" where
  "webhook_new_event_id a event_prefix = EventId_new (''evt/webhook/'' @ event_prefix @ ''/'' @ arr_message_id a)"

definition webhook_metadata ::
  "string \<Rightarrow> string \<Rightarrow> string \<Rightarrow> string option \<Rightarrow> string option \<Rightarrow> bool \<Rightarrow> bool \<Rightarrow> Metadata outcome" where
  "webhook_metadata path payload_kind version content_type remote_addr auth_validated valid_payload =
     insert_pairs metadata_new
       ([(''webhook.path'', JString path), (''webhook.payload_kind'', JString payload_kind),
         (''webhook.auth_validated'', JBool auth_validated), (''webhook.valid_payload'', JBool valid_payload),
         (METADATA_A2A_PROTOCOL_VERSION, JString version)] @
        (case content_type of None \<Rightarrow> [] | Some t \<Rightarrow> [(''webhook.content_type'', JString t)]) @
        (case remote_addr of None \<Rightarrow> [] | Some r \<Rightarrow> [(''webhook.remote_addr'', JString r)]))"

subsection \<open>The application state\<close>

datatype ShutdownReason = MaxEvents | Timeout | Signal | ServerStopped

fun shutdown_as_str :: "ShutdownReason \<Rightarrow> string" where
  "shutdown_as_str MaxEvents = ''max_events''"
| "shutdown_as_str Timeout = ''timeout''"
| "shutdown_as_str Signal = ''signal''"
| "shutdown_as_str ServerStopped = ''server_stopped''"

record WebhookTlsNote =
  tls_mode :: string
  tls_note :: string

definition WebhookTlsNote_default :: WebhookTlsNote where
  "WebhookTlsNote_default =
     \<lparr>tls_mode = ''external_termination'',
      tls_note = ''missive webhook run serves local HTTP only; terminate HTTPS in a trusted tunnel or reverse proxy before forwarding callbacks to this listener''\<rparr>"

text \<open>\<open>SocketAddr::to_string\<close>, and a URL below the address.\<close>

definition socket_text :: "socket_addr \<Rightarrow> string" where
  "socket_text a =
     (if sock_ipv6 a then ''['' @ sock_ip a @ '']'' else sock_ip a) @ '':'' @ show_nat (unat (sock_port a))"

definition local_url :: "socket_addr \<Rightarrow> string \<Rightarrow> string" where
  "local_url a path =
     ''http://'' @ (if sock_ipv6 a then ''['' @ sock_ip a @ '']'' else sock_ip a) @ '':'' @ show_nat (unat (sock_port a)) @ path"

record WebhookStarted =
  wst_profile :: string
  wst_bind_address :: string
  wst_callback_url :: string
  wst_health_url :: string
  wst_path :: string
  wst_auth :: WebhookAuthView
  wst_tls :: WebhookTlsNote
  wst_message :: string

definition started_event :: "WebhookReceiverConfig \<Rightarrow> socket_addr \<Rightarrow> WebhookStarted" where
  "started_event c local_addr =
     (let callback_url = local_url local_addr (whc_path c); health_url = local_url local_addr ''/healthz''
      in \<lparr>wst_profile = whc_profile c, wst_bind_address = socket_text local_addr, wst_callback_url = callback_url,
          wst_health_url = health_url, wst_path = whc_path c, wst_auth = redacted_view (whc_auth c),
          wst_tls = WebhookTlsNote_default,
          wst_message = ''Webhook receiver listening on '' @ callback_url @ '' (health: '' @ health_url @ '')''\<rparr>)"

record WebhookAccepted =
  wacc_profile :: string
  wacc_event_sequence :: int
  wacc_event_id :: string
  wacc_event_type :: string
  wacc_payload_kind :: string
  wacc_task_id :: "string option"
  wacc_context_id :: "string option"
  wacc_state :: "string option"
  wacc_artifact_id :: "string option"
  wacc_remote_addr :: "string option"
  wacc_message :: string

record WebhookRejected =
  wrej_profile :: string
  wrej_status :: nat
  wrej_reason :: string
  wrej_event_sequence :: "int option"
  wrej_event_id :: "string option"
  wrej_remote_addr :: "string option"
  wrej_message :: message

datatype WebhookRuntimeEvent = Ev_Started WebhookStarted | Ev_Accepted WebhookAccepted | Ev_Rejected WebhookRejected

record WebhookAppState =
  wa_profile :: string
  wa_path :: string
  wa_auth :: WebhookAuth
  wa_max_events :: "u64 option"
  wa_accepted :: u64
  wa_rejected :: u64
  wa_protocol_version :: string
  wa_sent :: "WebhookRuntimeEvent list"
  wa_shutdown :: "ShutdownReason option"

definition webhook_app_state :: "WebhookReceiverConfig \<Rightarrow> WebhookAppState" where
  "webhook_app_state c =
     \<lparr>wa_profile = whc_profile c, wa_path = whc_path c, wa_auth = whc_auth c, wa_max_events = whc_max_events c,
      wa_accepted = 0, wa_rejected = 0, wa_protocol_version = whc_protocol_version c, wa_sent = [], wa_shutdown = None\<rparr>"

text \<open>The first request for a shutdown wins.\<close>

definition request_shutdown :: "ShutdownReason \<Rightarrow> WebhookAppState \<Rightarrow> WebhookAppState" where
  "request_shutdown reason s = (if wa_shutdown s = None then s\<lparr>wa_shutdown := Some reason\<rparr> else s)"

definition shutdown_reason :: "WebhookAppState \<Rightarrow> ShutdownReason" where
  "shutdown_reason s = unwrap_or (wa_shutdown s) ServerStopped"

definition maybe_shutdown_after_max_events :: "WebhookAppState \<Rightarrow> WebhookAppState" where
  "maybe_shutdown_after_max_events s =
     (case wa_max_events s of
        None \<Rightarrow> s
      | Some max_events \<Rightarrow> if max_events \<le> wa_accepted s then request_shutdown MaxEvents s else s)"

record HealthResponse =
  health_ok :: bool
  health_status :: string
  health_component :: string
  health_profile :: string
  health_path :: string
  health_accepted :: u64
  health_rejected :: u64

definition health :: "WebhookAppState \<Rightarrow> HealthResponse" where
  "health s =
     \<lparr>health_ok = True, health_status = ''ok'', health_component = ''webhook'', health_profile = wa_profile s,
      health_path = wa_path s, health_accepted = wa_accepted s, health_rejected = wa_rejected s\<rparr>"

datatype webhook_response =
    AcceptedResponse nat string string int
  | ErrorResponse nat message string

record Rejection =
  rej_status :: nat
  rej_reason :: string
  rej_message :: message
  rej_remote_addr :: "string option"
  rej_content_type :: "string option"
  rej_payload :: "json option"
  rej_auth_validated :: bool

subsection \<open>The journal\<close>

text \<open>A context that is not there yet is created; a task that is not there is not referred to.\<close>

definition normalize_event_links :: "'dt engine \<Rightarrow> string \<Rightarrow> 'dt EventInsert \<Rightarrow> 'dt EventInsert store_op" where
  "normalize_event_links E stamp event =
     db_bind
       (case event_context_id event of
          None \<Rightarrow> db_return ()
        | Some context_id \<Rightarrow>
            db_bind (get_context E context_id) (\<lambda>found.
              if found = None then db_bind (upsert_context E stamp (ContextUpsert_new context_id)) (\<lambda>_. db_return ())
              else db_return ()))
       (\<lambda>_.
         case event_task_id event of
           None \<Rightarrow> db_return event
         | Some task_id \<Rightarrow>
             db_bind (get_task E task_id) (\<lambda>found.
               db_return (if found = None then event\<lparr>event_task_id := None\<rparr> else event)))"

definition append_event_blocking :: "'dt webhook_env \<Rightarrow> arrival \<Rightarrow> 'dt EventInsert \<Rightarrow> 'dt EventRecord store_op" where
  "append_event_blocking P a event =
     db_bind (db_outcome (arr_open a)) (\<lambda>_.
     db_bind (normalize_event_links (we_engine P) (arr_context_stamp a) event) (\<lambda>event.
       on_gateway (we_engine P) (\<lambda>S. append_event S (arr_event_stamp a) event)))"

definition persist_accepted_event ::
  "'dt webhook_env \<Rightarrow> arrival \<Rightarrow> WebhookAppState \<Rightarrow> PayloadDetails \<Rightarrow> json \<Rightarrow> string \<Rightarrow> string option \<Rightarrow> string option \<Rightarrow>
   bool \<Rightarrow> 'dt EventRecord store_op" where
  "persist_accepted_event P a s details raw_json version content_type remote_addr auth_validated =
     db_bind (db_outcome (webhook_new_event_id a ''push'')) (\<lambda>ident.
     db_bind (db_outcome (webhook_metadata (wa_path s) (pay_kind details) version content_type remote_addr
       auth_validated True)) (\<lambda>metadata.
       append_event_blocking P a
         ((EventInsert_new ident WEBHOOK_SOURCE (''a2a.push.'' @ pay_event_type details) (webhook_redact_json raw_json))
            \<lparr>event_context_id := pay_context_id details, event_task_id := pay_task_id details,
             event_metadata := metadata\<rparr>)))"

definition persist_rejected_event ::
  "'dt webhook_env \<Rightarrow> arrival \<Rightarrow> WebhookAppState \<Rightarrow> Rejection \<Rightarrow> 'dt EventRecord store_op" where
  "persist_rejected_event P a s rejection =
     db_bind (db_outcome (webhook_new_event_id a ''push-rejected'')) (\<lambda>ident.
     db_bind (db_outcome (webhook_metadata (wa_path s) ''rejected'' (wa_protocol_version s) (rej_content_type rejection)
       (rej_remote_addr rejection) (rej_auth_validated rejection) False)) (\<lambda>metadata.
       append_event_blocking P a
         ((EventInsert_new ident WEBHOOK_SOURCE ''a2a.push.rejected''
             (json_object
               [(''status'', JNumber (PosInt (of_nat (rej_status rejection)))), (''reason'', JString (rej_reason rejection)),
                (''error'', JString (we_render P (rej_message rejection))),
                (''payload'', case rej_payload rejection of None \<Rightarrow> JNull | Some v \<Rightarrow> v)]))
            \<lparr>event_metadata := metadata\<rparr>)))"

definition accepted_event ::
  "WebhookAppState \<Rightarrow> PayloadDetails \<Rightarrow> 'dt EventRecord \<Rightarrow> string option \<Rightarrow> WebhookAccepted" where
  "accepted_event s details r remote_addr =
     \<lparr>wacc_profile = wa_profile s, wacc_event_sequence = erec_sequence r, wacc_event_id = erec_event_id r,
      wacc_event_type = erec_event_type r, wacc_payload_kind = pay_kind details, wacc_task_id = pay_task_id details,
      wacc_context_id = pay_context_id details, wacc_state = pay_state details,
      wacc_artifact_id = pay_artifact_id details, wacc_remote_addr = remote_addr,
      wacc_message = (case pay_task_id details of
          Some task_id \<Rightarrow> ''Accepted A2A push '' @ pay_event_type details @ '' callback for task '' @ task_id
        | None \<Rightarrow> ''Accepted A2A push '' @ pay_event_type details @ '' callback'')\<rparr>"

subsection \<open>The handlers\<close>

type_synonym receiver = "WebhookAppState \<times> store_db"

definition internal_error_response :: "MissiveError \<Rightarrow> webhook_response" where
  "internal_error_response error = ErrorResponse 500 (err_message error) ''persistence_failed''"

definition reject_callback ::
  "'dt webhook_env \<Rightarrow> arrival \<Rightarrow> Rejection \<Rightarrow> receiver \<Rightarrow> webhook_response \<times> receiver" where
  "reject_callback P a rejection = (\<lambda>(s, db).
     case persist_rejected_event P a s rejection db of
       (Inr r, db') \<Rightarrow>
         (ErrorResponse (rej_status rejection) (rej_message rejection) (rej_reason rejection),
          s\<lparr>wa_rejected := wa_rejected s + 1,
            wa_sent := wa_sent s @
              [Ev_Rejected \<lparr>wrej_profile = wa_profile s, wrej_status = rej_status rejection,
                 wrej_reason = rej_reason rejection, wrej_event_sequence = Some (erec_sequence r),
                 wrej_event_id = Some (erec_event_id r), wrej_remote_addr = rej_remote_addr rejection,
                 wrej_message = Lit ''Rejected webhook callback: '' # rej_message rejection\<rparr>]\<rparr>, db')
     | (Inl error, db') \<Rightarrow> (internal_error_response error, s, db'))"

definition accept_callback ::
  "'dt webhook_env \<Rightarrow> arrival \<Rightarrow> PayloadDetails \<Rightarrow> json \<Rightarrow> string \<Rightarrow> string option \<Rightarrow> string option \<Rightarrow> bool \<Rightarrow>
   receiver \<Rightarrow> webhook_response \<times> receiver" where
  "accept_callback P a details raw_json version content_type remote_addr auth_validated = (\<lambda>(s, db).
     case persist_accepted_event P a s details raw_json version content_type remote_addr auth_validated db of
       (Inr r, db') \<Rightarrow>
         (let accepted = accepted_event s details r remote_addr;
              s' = maybe_shutdown_after_max_events (s\<lparr>wa_accepted := wa_accepted s + 1\<rparr>)
          in (AcceptedResponse 202 (wacc_event_type accepted) (wacc_event_id accepted) (wacc_event_sequence accepted),
              s'\<lparr>wa_sent := wa_sent s' @ [Ev_Accepted accepted]\<rparr>, db'))
     | (Inl error, db') \<Rightarrow> (internal_error_response error, s, db'))"

definition handle_authorized_callback ::
  "'dt webhook_env \<Rightarrow> arrival \<Rightarrow> string option \<Rightarrow> bool \<Rightarrow> receiver \<Rightarrow> webhook_response \<times> receiver" where
  "handle_authorized_callback P a remote_addr auth_validated rcv =
     (let content_type = header_text P (arr_headers a) ''content-type'';
          version = unwrap_or (header_text P (arr_headers a) (to_ascii_lowercase (svc_param_version (we_headers P))))
            (wa_protocol_version (fst rcv));
          bad_request = (\<lambda>reason text payload. reject_callback P a
            \<lparr>rej_status = 400, rej_reason = reason, rej_message = text, rej_remote_addr = remote_addr,
             rej_content_type = content_type, rej_payload = payload, rej_auth_validated = auth_validated\<rparr> rcv)
      in case we_from_slice P (arr_body a) of
           Inl (StdError text _) \<Rightarrow>
             bad_request ''invalid_json'' (Lit ''request body is not valid JSON: '' # text) None
         | Inr raw_json \<Rightarrow>
             (case we_stream_response P raw_json of
                Inl (StdError text _) \<Rightarrow>
                  bad_request ''invalid_a2a_stream_response''
                    (Lit ''request body is not an A2A StreamResponse payload: '' # text) (Some (webhook_redact_json raw_json))
              | Inr stream_response \<Rightarrow>
                  (case from_stream_response stream_response of
                     Inl error \<Rightarrow>
                       bad_request ''invalid_a2a_identifiers'' (err_message error) (Some (webhook_redact_json raw_json))
                   | Inr details \<Rightarrow>
                       accept_callback P a details raw_json version content_type remote_addr auth_validated rcv)))"

definition push_callback :: "'dt webhook_env \<Rightarrow> arrival \<Rightarrow> receiver \<Rightarrow> webhook_response \<times> receiver" where
  "push_callback P a rcv =
     (case validate_headers P (wa_auth (fst rcv)) (arr_headers a) of
        Inr auth_validated \<Rightarrow> handle_authorized_callback P a (Some (arr_remote_addr a)) auth_validated rcv
      | Inl reason \<Rightarrow>
          reject_callback P a
            \<lparr>rej_status = 401, rej_reason = ''auth_failed'', rej_message = reason,
             rej_remote_addr = Some (arr_remote_addr a), rej_content_type = None, rej_payload = None,
             rej_auth_validated = False\<rparr> rcv)"

text \<open>The receiver once its socket is bound, the callbacks in the order they are served, and the summary at
  the end.\<close>

definition start_receiver :: "WebhookReceiverConfig \<Rightarrow> socket_addr \<Rightarrow> WebhookAppState" where
  "start_receiver c local_addr =
     (webhook_app_state c)\<lparr>wa_sent := [Ev_Started (started_event c local_addr)]\<rparr>"

definition serve_callbacks :: "'dt webhook_env \<Rightarrow> arrival list \<Rightarrow> receiver \<Rightarrow> receiver" where
  "serve_callbacks P as rcv = fold (\<lambda>a rcv. snd (push_callback P a rcv)) as rcv"

record WebhookReceiverSummary =
  whs_profile :: string
  whs_bind_address :: string
  whs_callback_url :: string
  whs_health_url :: string
  whs_accepted :: u64
  whs_rejected :: u64
  whs_shutdown_reason :: string
  whs_tls :: WebhookTlsNote
  whs_message :: string

definition receiver_summary :: "WebhookReceiverConfig \<Rightarrow> socket_addr \<Rightarrow> WebhookAppState \<Rightarrow> WebhookReceiverSummary" where
  "receiver_summary c local_addr s =
     \<lparr>whs_profile = whc_profile c, whs_bind_address = socket_text local_addr,
      whs_callback_url = local_url local_addr (whc_path c), whs_health_url = local_url local_addr ''/healthz'',
      whs_accepted = wa_accepted s, whs_rejected = wa_rejected s,
      whs_shutdown_reason = shutdown_as_str (shutdown_reason s), whs_tls = WebhookTlsNote_default,
      whs_message = ''Webhook receiver stopped after accepting '' @ show_nat (unat (wa_accepted s)) @
        '' callback(s) and rejecting '' @ show_nat (unat (wa_rejected s)) @ '' callback(s)''\<rparr>"

end
