(* ===== verification/Gateway_Webhook_Properties.thy ===== *)
theory Gateway_Webhook_Properties
  imports Gateway_Webhook Store_Journal "HOL-Library.Sublist"
begin

text \<open>
  What the receiver of push notifications promises: only a callback with exactly the configured header
  value is authorised, an unauthorised one leaves nothing but a rejection in the journal, and the
  counters, the events sent to the caller, the journal and the shutdown agree.
\<close>

subsection \<open>Comparison of secrets\<close>

lemma fold_or_zero:
  "fold (\<lambda>i d. or d (f i)) is d = 0 \<longleftrightarrow> d = (0 :: 'a :: len word) \<and> (\<forall>i \<in> set is. f i = 0)"
  by (induction "is" arbitrary: d) (auto simp: or_eq_0_iff)

lemma xor_zero: "xor a b = 0 \<longleftrightarrow> a = (b :: 'a :: len word)"
  by (metis xor.right_neutral xor.assoc xor_self_eq)

lemma ucast_u8_zero: "(ucast (w :: u8) :: u64) = 0 \<longleftrightarrow> w = 0"
proof -
  have "unat (ucast w :: u64) = unat w" using unsigned_less [where 'a = nat and w = w] by (simp add: unsigned_ucast_eq take_bit_eq_mod)
  then show ?thesis by (metis unat_eq_zero)
qed

lemma word_of_byte_inj: "(word_of_nat (byte c) :: u8) = word_of_nat (byte d) \<longleftrightarrow> c = d"
proof -
  have "byte c mod 2 ^ 8 = byte c" "byte d mod 2 ^ 8 = byte d"
    using nat_of_char_less_256 [of c] nat_of_char_less_256 [of d] by (simp_all del: nat_of_char_less_256)
  then have "(word_of_nat (byte c) :: u8) = word_of_nat (byte d) \<longleftrightarrow> byte c = byte d"
    by (simp add: word_of_nat_eq_iff take_bit_eq_mod)
  then show ?thesis by simp
qed

text \<open>The comparison that takes the same time for every header value is equality, since the length of a
  slice fits a machine word.\<close>

lemma constant_time_eq_iff:
  assumes "length left < 2 ^ 64" "length right < 2 ^ 64"
  shows "constant_time_eq left right \<longleftrightarrow> left = right"
proof -
  have len: "(of_nat (length left) :: u64) = of_nat (length right) \<longleftrightarrow> length left = length right"
    using assms by (simp add: word_of_nat_eq_iff take_bit_eq_mod)
  have "constant_time_eq left right \<longleftrightarrow> length left = length right \<and>
      (\<forall>i < max (length left) (length right). byte_at left i = byte_at right i)"
    by (auto simp: constant_time_eq_def fold_or_zero xor_zero len ucast_u8_zero)
  also have "\<dots> \<longleftrightarrow> left = right"
    by (auto simp: byte_at_def word_of_byte_inj intro: nth_equalityI)
  finally show ?thesis .
qed

subsection \<open>Authorisation\<close>

text \<open>What the \<open>http\<close> crate documents: \<open>to_str\<close> gives the bytes of the value or nothing; and slices
  are shorter than the address space.\<close>

definition to_str_law :: "'dt webhook_env \<Rightarrow> bool" where
  "to_str_law P \<longleftrightarrow> (\<forall>v t. we_to_str P v = Some t \<longrightarrow> t = v)"

definition slices_fit :: "WebhookAuth \<Rightarrow> arrival \<Rightarrow> bool" where
  "slices_fit auth a \<longleftrightarrow> (\<forall>(n, v) \<in> set (arr_headers a). length v < 2 ^ 64) \<and>
     (case auth of Disabled \<Rightarrow> True | Header name token_text scheme \<Rightarrow>
        length (expected_auth_header_value scheme token_text) < 2 ^ 64)"

text \<open>The callbacks a setting lets through.\<close>

fun authorised :: "'dt webhook_env \<Rightarrow> WebhookAuth \<Rightarrow> arrival \<Rightarrow> bool" where
  "authorised P Disabled a \<longleftrightarrow> True"
| "authorised P (Header name token_text scheme) a \<longleftrightarrow>
     (\<exists>h. hdr_name (we_headers P) name = Inr h \<and>
        header_text P (arr_headers a) h = Some (expected_auth_header_value scheme token_text))"

lemma validate_headers_authorised:
  assumes "to_str_law P" "slices_fit auth a"
  shows "(\<exists>b. validate_headers P auth (arr_headers a) = Inr b) \<longleftrightarrow> authorised P auth a"
proof (cases auth)
  case (Header name token_text scheme)
  have "constant_time_eq actual (expected_auth_header_value scheme token_text) \<longleftrightarrow>
      actual = expected_auth_header_value scheme token_text"
    if "map_of (arr_headers a) h = Some v" "we_to_str P v = Some actual" for h v actual
  proof (rule constant_time_eq_iff)
    have "actual = v" "(h, v) \<in> set (arr_headers a)" using that assms(1) by (auto simp: to_str_law_def dest: map_of_SomeD)
    then show "length actual < 2 ^ 64" using assms(2) by (auto simp: slices_fit_def)
  qed (use assms(2) Header in \<open>simp add: slices_fit_def\<close>)
  then show ?thesis
    by (auto simp: Header header_text_def split: sum.splits option.splits)
qed auto

subsection \<open>The journal\<close>

lemma normalize_unlinked:
  "event_context_id e = None \<Longrightarrow> event_task_id e = None \<Longrightarrow> normalize_event_links E stamp e db = (Inr e, db)"
  by (simp add: normalize_event_links_def db_bind_def db_return_def)

lemma append_blocking_unlinked:
  assumes "append_event_blocking P a e db = (r, db')" "event_context_id e = None" "event_task_id e = None"
  shows "\<exists>es. only_journal db db' es \<and> length es \<le> 1 \<and> (\<forall>row \<in> set es. erow_event_type row = event_type e)"
proof (cases "arr_open a")
  case (Inl error)
  with assms(1) have "db' = db" by (simp add: append_event_blocking_def db_bind_def db_outcome_def)
  then show ?thesis using only_journal_refl by (intro exI [of _ "[]"]) simp
next
  case (Inr u)
  with assms have "on_gateway (we_engine P) (\<lambda>S. append_event S (arr_event_stamp a) e) db = (r, db')"
    by (simp add: append_event_blocking_def db_bind_def db_outcome_def normalize_unlinked)
  then show ?thesis by (rule append_event_effect)
qed

lemma persist_rejected_effect:
  assumes "persist_rejected_event P a s rejection db = (r, db')"
  shows "\<exists>es. only_journal db db' es \<and> length es \<le> 1 \<and> (\<forall>row \<in> set es. erow_event_type row = ''a2a.push.rejected'')"
proof -
  note run = assms [unfolded persist_rejected_event_def db_bind_cases [of "db_outcome _"] db_outcome_Inr]
  show ?thesis
  proof (cases "db' = db")
    case True
    then show ?thesis using only_journal_refl by (intro exI [of _ "[]"]) simp
  next
    case False
    with run show ?thesis
      by (elim disjE exE conjE) (simp_all add: db_outcome_def, auto dest!: append_blocking_unlinked simp: EventInsert_new_def)
  qed
qed

text \<open>C27. With authentication configured, a callback gets past it exactly when the configured header is
  there with exactly the expected value.  Any other callback is answered with 401, or 500 when the
  journal cannot be written: it is not counted as accepted, stops nothing, and leaves nothing in the
  store but at most one rejection in the journal.\<close>

theorem webhook_unauthorised:
  assumes "to_str_law P" "slices_fit (wa_auth s) a"
  shows "case push_callback P a (s, db) of (response, s', db') \<Rightarrow>
    (\<not> authorised P (wa_auth s) a \<longrightarrow>
       (\<exists>m. response = ErrorResponse 401 m ''auth_failed'' \<or> response = ErrorResponse 500 m ''persistence_failed'') \<and>
       wa_accepted s' = wa_accepted s \<and> wa_shutdown s' = wa_shutdown s \<and>
       (\<exists>es. only_journal db db' es \<and> length es \<le> 1 \<and> (\<forall>row \<in> set es. erow_event_type row = ''a2a.push.rejected''))) \<and>
    (authorised P (wa_auth s) a \<longrightarrow> (\<forall>m reason. response \<noteq> ErrorResponse 401 m reason))"
proof (cases "validate_headers P (wa_auth s) (arr_headers a)")
  case (Inl reason)
  then have "\<not> authorised P (wa_auth s) a" using validate_headers_authorised [OF assms] by auto
  then show ?thesis using Inl persist_rejected_effect
    by (fastforce simp: push_callback_def reject_callback_def internal_error_response_def split: prod.splits sum.splits)
next
  case (Inr b)
  then have "authorised P (wa_auth s) a" using validate_headers_authorised [OF assms] by auto
  then show ?thesis using Inr
    by (auto simp: push_callback_def handle_authorized_callback_def reject_callback_def accept_callback_def
        internal_error_response_def Let_def split: prod.splits sum.splits std_error.splits)
qed

subsection \<open>Counters, events and the journal\<close>

lemma upsert_context_gateway: "st_gateway (snd (upsert_context E stamp c db)) = st_gateway db"
  by (auto simp: upsert_context_def write_and_read_def execute_def get_context_def db_bind_def db_outcome_def
      split: sum.splits option.splits prod.splits)

lemma normalize_gateway:
  assumes "normalize_event_links E stamp e db = (r, db')"
  shows "st_gateway db' = st_gateway db" "r = Inr e' \<Longrightarrow> event_id e' = event_id e"
  using assms upsert_context_gateway [of E stamp]
  by (auto simp: normalize_event_links_def db_bind_cases db_return_def get_context_def get_task_def
      split: option.splits if_splits) (metis snd_conv)+

text \<open>What a handler did: nothing that counts, a rejection, or an acceptance, each with its row.\<close>

definition journal_of :: "store_db \<Rightarrow> EventRow list" where
  "journal_of db = db_events (st_gateway db)"

lemma append_blocking_effect:
  assumes "append_event_blocking P a e db = (r, db')"
  shows "\<exists>es. journal_of db' = journal_of db @ es \<and>
    (\<forall>x. r = Inr x \<longrightarrow> (\<exists>row. es = [row] \<and> erow_event_id row = erec_event_id x))"
proof -
  consider (closed) error where "r = Inl error" "db' = db"
    | (linked) error where "normalize_event_links (we_engine P) (arr_context_stamp a) e db = (Inl error, db')" "r = Inl error"
    | (appended) e1 db1 where "normalize_event_links (we_engine P) (arr_context_stamp a) e db = (Inr e1, db1)"
        "on_gateway (we_engine P) (\<lambda>S. append_event S (arr_event_stamp a) e1) db1 = (r, db')"
    using assms unfolding append_event_blocking_def db_bind_cases db_outcome_def by auto
  then show ?thesis
  proof cases
    case closed
    then show ?thesis by simp
  next
    case linked
    then show ?thesis using normalize_gateway(1) [OF linked(1)] by (simp add: journal_of_def)
  next
    case appended
    have start: "journal_of db1 = journal_of db" using normalize_gateway(1) [OF appended(1)] by (simp add: journal_of_def)
    show ?thesis
    proof (cases r)
      case (Inl error)
      with append_event_effect [OF appended(2)] start show ?thesis by (auto simp: only_journal_def journal_of_def)
    next
      case (Inr x)
      obtain row where "db' = db1\<lparr>st_gateway := (st_gateway db1)\<lparr>db_events := db_events (st_gateway db1) @ [row],
          db_last_sequence := db_last_sequence (st_gateway db1) + 1\<rparr>\<rparr>" "erow_event_id row = erec_event_id x"
        using append_event_stored [OF appended(2) [unfolded Inr]] by metis
      then show ?thesis using Inr start by (intro exI [of _ "[row]"]) (simp add: journal_of_def)
    qed
  qed
qed

fun sent_event_id :: "WebhookRuntimeEvent \<Rightarrow> string option" where
  "sent_event_id (Ev_Started e) = None"
| "sent_event_id (Ev_Accepted e) = Some (wacc_event_id e)"
| "sent_event_id (Ev_Rejected e) = wrej_event_id e"

fun is_accepted :: "WebhookRuntimeEvent \<Rightarrow> bool" where
  "is_accepted (Ev_Accepted e) \<longleftrightarrow> True"
| "is_accepted _ \<longleftrightarrow> False"

fun is_rejected :: "WebhookRuntimeEvent \<Rightarrow> bool" where
  "is_rejected (Ev_Rejected e) \<longleftrightarrow> True"
| "is_rejected _ \<longleftrightarrow> False"

text \<open>One callback: what is sent and counted, and the rows it adds.\<close>

definition callback_step :: "receiver \<Rightarrow> receiver \<Rightarrow> bool" where
  "callback_step = (\<lambda>(s, db) (s', db'). \<exists>es. journal_of db' = journal_of db @ es \<and>
     (s' = s \<or>
      (\<exists>e row. es = [row] \<and> sent_event_id e = Some (erow_event_id row) \<and>
         (is_accepted e \<noteq> is_rejected e) \<and>
         (if is_accepted e
          then s' = (maybe_shutdown_after_max_events (s\<lparr>wa_accepted := wa_accepted s + 1\<rparr>))\<lparr>wa_sent := wa_sent s @ [e]\<rparr>
          else s' = s\<lparr>wa_rejected := wa_rejected s + 1, wa_sent := wa_sent s @ [e]\<rparr>))))"

lemma callback_failed: "journal_of db' = journal_of db @ es \<Longrightarrow> callback_step (s, db) (s, db')"
  by (auto simp: callback_step_def)

lemma callback_rejected:
  "journal_of db' = journal_of db @ [row] \<Longrightarrow> wrej_event_id e = Some (erow_event_id row) \<Longrightarrow>
   callback_step (s, db) (s\<lparr>wa_rejected := wa_rejected s + 1, wa_sent := wa_sent s @ [Ev_Rejected e]\<rparr>, db')"
  unfolding callback_step_def by (force intro: exI [of _ "Ev_Rejected e"])

lemma callback_accepted:
  "journal_of db' = journal_of db @ [row] \<Longrightarrow> wacc_event_id e = erow_event_id row \<Longrightarrow>
   callback_step (s, db) ((maybe_shutdown_after_max_events (s\<lparr>wa_accepted := wa_accepted s + 1\<rparr>))
     \<lparr>wa_sent := wa_sent s @ [Ev_Accepted e]\<rparr>, db')"
  unfolding callback_step_def by (force intro: exI [of _ "Ev_Accepted e"])

lemma persist_accepted_effect:
  assumes "persist_accepted_event P a s details raw version content_type remote b db = (r, db')"
  shows "\<exists>es. journal_of db' = journal_of db @ es \<and>
    (\<forall>x. r = Inr x \<longrightarrow> (\<exists>row. es = [row] \<and> erow_event_id row = erec_event_id x))"
  using assms [unfolded persist_accepted_event_def db_bind_cases [of "db_outcome _"]]
  by (elim disjE exE conjE) (auto simp: db_outcome_def dest: append_blocking_effect)

lemma persist_rejected_journal:
  assumes "persist_rejected_event P a s rejection db = (r, db')"
  shows "\<exists>es. journal_of db' = journal_of db @ es \<and>
    (\<forall>x. r = Inr x \<longrightarrow> (\<exists>row. es = [row] \<and> erow_event_id row = erec_event_id x))"
  using assms [unfolded persist_rejected_event_def db_bind_cases [of "db_outcome _"]]
  by (elim disjE exE conjE) (auto simp: db_outcome_def dest: append_blocking_effect)

lemma reject_callback_step: "callback_step (s, db) (snd (reject_callback P a rejection (s, db)))"
proof -
  obtain r db' where run: "persist_rejected_event P a s rejection db = (r, db')" by fastforce
  show ?thesis
    using persist_rejected_journal [OF run]
    by (cases r) (auto simp: reject_callback_def run intro!: callback_rejected intro: callback_failed)
qed

lemma maybe_shutdown_sent [simp]: "wa_sent (maybe_shutdown_after_max_events s) = wa_sent s"
  by (simp add: maybe_shutdown_after_max_events_def request_shutdown_def split: option.split)

lemma accept_callback_step:
  "callback_step (s, db) (snd (accept_callback P a details raw version content_type remote b (s, db)))"
proof -
  obtain r db' where run: "persist_accepted_event P a s details raw version content_type remote b db = (r, db')" by fastforce
  show ?thesis
    using persist_accepted_effect [OF run]
    by (cases r) (auto simp: accept_callback_def run Let_def accepted_event_def intro!: callback_accepted intro: callback_failed)
qed

lemma push_callback_step: "callback_step rcv (snd (push_callback P a rcv))"
proof -
  obtain s db where "rcv = (s, db)" by fastforce
  then show ?thesis
    by (auto simp: push_callback_def handle_authorized_callback_def Let_def
        intro: reject_callback_step accept_callback_step split: sum.splits std_error.splits)
qed

text \<open>After \<open>n\<close> callbacks.\<close>

definition receiver_inv :: "WebhookReceiverConfig \<Rightarrow> socket_addr \<Rightarrow> store_db \<Rightarrow> nat \<Rightarrow> receiver \<Rightarrow> bool" where
  "receiver_inv c local_addr db0 n = (\<lambda>(s, db). \<exists>reports es.
     wa_sent s = Ev_Started (started_event c local_addr) # reports \<and> wa_max_events s = whc_max_events c \<and>
     length reports \<le> n \<and> (\<forall>e \<in> set reports. is_accepted e \<noteq> is_rejected e) \<and>
     unat (wa_accepted s) = length (filter is_accepted reports) \<and>
     unat (wa_rejected s) = length (filter is_rejected reports) \<and>
     wa_shutdown s = (if \<exists>m. whc_max_events c = Some m \<and> m \<le> wa_accepted s then Some MaxEvents else None) \<and>
     journal_of db = journal_of db0 @ es \<and>
     subseq (map sent_event_id reports) (map (\<lambda>row. Some (erow_event_id row)) es))"

lemma unat_succ: "unat (w :: u64) < n \<Longrightarrow> n < 2 ^ 64 \<Longrightarrow> unat (w + 1) = unat w + 1"
  by (simp add: unat_word_ariths)

lemma subseq_snoc: "subseq xs ys \<Longrightarrow> subseq (xs @ [x]) (ys @ [x])"
  by (simp add: list_emb_append_mono)

lemma receiver_inv_step:
  assumes "receiver_inv c local_addr db0 n rcv" "callback_step rcv rcv'" "Suc n < 2 ^ 64"
  shows "receiver_inv c local_addr db0 (Suc n) rcv'"
proof -
  obtain s db s' db' where rcv: "rcv = (s, db)" "rcv' = (s', db')" by fastforce
  let ?start = "Ev_Started (started_event c local_addr)" and ?id = "\<lambda>row. Some (erow_event_id row)"
  from assms(1) obtain reports es where inv: "wa_sent s = ?start # reports" "wa_max_events s = whc_max_events c"
    "length reports \<le> n" "\<forall>e \<in> set reports. is_accepted e \<noteq> is_rejected e"
    "unat (wa_accepted s) = length (filter is_accepted reports)" "unat (wa_rejected s) = length (filter is_rejected reports)"
    "wa_shutdown s = (if \<exists>m. whc_max_events c = Some m \<and> m \<le> wa_accepted s then Some MaxEvents else None)"
    "journal_of db = journal_of db0 @ es" "subseq (map sent_event_id reports) (map ?id es)"
    by (auto simp: receiver_inv_def rcv)
  have small: "unat (wa_accepted s) < Suc n" "unat (wa_rejected s) < Suc n"
    using inv(3,5,6) length_filter_le [of _ reports] by (metis le_imp_less_Suc le_trans)+
  note succ = small [THEN unat_succ, OF assms(3)]
  from assms(2) obtain more where more: "journal_of db' = journal_of db @ more" and step:
    "s' = s \<or> (\<exists>e row. more = [row] \<and> sent_event_id e = Some (erow_event_id row) \<and> is_accepted e \<noteq> is_rejected e \<and>
         (if is_accepted e
          then s' = (maybe_shutdown_after_max_events (s\<lparr>wa_accepted := wa_accepted s + 1\<rparr>))\<lparr>wa_sent := wa_sent s @ [e]\<rparr>
          else s' = s\<lparr>wa_rejected := wa_rejected s + 1, wa_sent := wa_sent s @ [e]\<rparr>))"
    by (auto simp: callback_step_def rcv)
  have journal: "journal_of db' = journal_of db0 @ es @ more" by (simp add: more inv(8))
  from step consider (failed) "s' = s"
    | (rejected) e row where "more = [row]" "sent_event_id e = Some (erow_event_id row)" "\<not> is_accepted e" "is_rejected e"
        "s' = s\<lparr>wa_rejected := wa_rejected s + 1, wa_sent := wa_sent s @ [e]\<rparr>"
    | (accepted) e row where "more = [row]" "sent_event_id e = Some (erow_event_id row)" "is_accepted e" "\<not> is_rejected e"
        "s' = (maybe_shutdown_after_max_events (s\<lparr>wa_accepted := wa_accepted s + 1\<rparr>))\<lparr>wa_sent := wa_sent s @ [e]\<rparr>"
    by (auto split: if_splits)
  then show ?thesis
  proof cases
    case failed
    have "subseq (map sent_event_id reports) (map ?id (es @ more))"
      using list_emb_append_mono [OF inv(9) list_emb_Nil [of _ "map ?id more"]] by simp
    then show ?thesis using inv(1-7) journal by (auto simp: receiver_inv_def rcv failed)
  next
    case rejected
    have "subseq (map sent_event_id (reports @ [e])) (map ?id (es @ more))"
      using subseq_snoc [OF inv(9), of "sent_event_id e"] rejected(1,2) by simp
    then show ?thesis using inv(1-7) journal rejected(3,4) succ(2)
      unfolding receiver_inv_def rcv prod.case by (intro exI [of _ "reports @ [e]"] exI [of _ "es @ more"]) (auto simp: rejected(5))
  next
    case accepted
    have "subseq (map sent_event_id (reports @ [e])) (map ?id (es @ more))"
      using subseq_snoc [OF inv(9), of "sent_event_id e"] accepted(1,2) by simp
    moreover have "m \<le> wa_accepted s \<Longrightarrow> m \<le> wa_accepted s + 1" for m
      using succ(1) by (simp add: word_le_nat_alt)
    ultimately show ?thesis using inv(1-7) journal accepted(3,4) succ(1)
      unfolding receiver_inv_def rcv prod.case
      by (intro exI [of _ "reports @ [e]"] exI [of _ "es @ more"])
        (auto simp: accepted(5) maybe_shutdown_after_max_events_def request_shutdown_def split: option.splits)
  qed
qed

text \<open>C28. Over any sequence of callbacks the receiver's books agree: it announces itself, it counts as accepted
  and as rejected what it then reports to its caller, what it reports was added to the journal in that
  order, nothing of the journal was lost, and it asks for its own shutdown exactly when the configured
  number of callbacks has been accepted.\<close>

theorem webhook_books_agree:
  assumes "webhook_config_validate H c = Inr ()" "length as < 2 ^ 64"
  shows "case serve_callbacks P as (start_receiver c local_addr, db) of (s, db') \<Rightarrow>
    \<exists>reports es. wa_sent s = Ev_Started (started_event c local_addr) # reports \<and> length reports \<le> length as \<and>
      (\<forall>e \<in> set reports. is_accepted e \<noteq> is_rejected e) \<and>
      unat (wa_accepted s) = length (filter is_accepted reports) \<and>
      unat (wa_rejected s) = length (filter is_rejected reports) \<and>
      wa_shutdown s = (if \<exists>m. whc_max_events c = Some m \<and> m \<le> wa_accepted s then Some MaxEvents else None) \<and>
      journal_of db' = journal_of db @ es \<and>
      subseq (map sent_event_id reports) (map (\<lambda>row. Some (erow_event_id row)) es)"
proof -
  have run: "receiver_inv c local_addr db (n + length as) (serve_callbacks P as rcv)"
    if "receiver_inv c local_addr db n rcv" "n + length as < 2 ^ 64" for n rcv
    using that unfolding serve_callbacks_def
  proof (induction as arbitrary: n rcv)
    case (Cons a as)
    have "receiver_inv c local_addr db (Suc n) (snd (push_callback P a rcv))"
      using Cons.prems by (intro receiver_inv_step [OF _ push_callback_step]) auto
    from Cons.IH [OF this] Cons.prems(2) show ?case by simp
  qed simp
  have "whc_max_events c \<noteq> Some 0" using assms(1) by (auto simp: webhook_config_validate_def result_iff)
  then have "receiver_inv c local_addr db 0 (start_receiver c local_addr, db)"
    by (auto simp: receiver_inv_def start_receiver_def webhook_app_state_def)
  from run [OF this] have "receiver_inv c local_addr db (length as) (serve_callbacks P as (start_receiver c local_addr, db))"
    using assms(2) by simp
  then show ?thesis by (auto simp: receiver_inv_def split: prod.splits)
qed

subsection \<open>Instances\<close>

text \<open>A receiver that asks for one bearer token and stops after one callback.\<close>

definition demo_webhook :: "string webhook_env" where
  "demo_webhook =
     \<lparr>we_engine = demo_engine,
      we_headers = \<lparr>hdr_name = (\<lambda>n. Inr (to_ascii_lowercase n)), hdr_value = Inr,
        svc_param_version = ''A2A-Version'', svc_param_extensions = ''A2A-Extensions''\<rparr>,
      we_to_str = Some, we_from_slice = (\<lambda>t. Inr JNull), we_stream_response = (\<lambda>v. Inr (StreamMessage None None)),
      we_render = (\<lambda>m. [])\<rparr>"

definition demo_addr :: socket_addr where
  "demo_addr = \<lparr>sock_ip = ''::1'', sock_ipv6 = True, sock_port = 80\<rparr>"

definition demo_webhook_config :: WebhookReceiverConfig where
  "demo_webhook_config =
     \<lparr>whc_profile = ''p'', whc_bind_addr = demo_addr, whc_path = ''/a'', whc_auth = Header ''X'' ''t'' None,
      whc_max_events = Some 1, whc_shutdown_after = None, whc_max_body_bytes = 1, whc_protocol_version = ''1''\<rparr>"

definition demo_arrival :: "string \<Rightarrow> string \<Rightarrow> arrival" where
  "demo_arrival ident secret =
     \<lparr>arr_headers = [(''x'', secret)], arr_body = [], arr_remote_addr = ''r'', arr_open = Inr (),
      arr_context_stamp = ''t0'', arr_event_stamp = ''t0'', arr_message_id = ident\<rparr>"

lemma demo_header_name: "to_ascii_lowercase ''X'' = ''x''"
  by code_simp

theorem webhook_unauthorised_witness:
  "case push_callback demo_webhook (demo_arrival ''1'' ''u'') (webhook_app_state demo_webhook_config, store_empty) of
     (response, s', db') \<Rightarrow> wa_accepted s' = 0 \<and> (\<exists>es. only_journal store_empty db' es \<and> length es \<le> 1)"
proof -
  let ?s = "webhook_app_state demo_webhook_config" and ?a = "demo_arrival ''1'' ''u''"
  have "to_str_law demo_webhook" by (simp add: to_str_law_def demo_webhook_def)
  moreover have "slices_fit (wa_auth ?s) ?a"
    by (simp add: slices_fit_def webhook_app_state_def demo_webhook_config_def demo_arrival_def expected_auth_header_value_def)
  moreover have "\<not> authorised demo_webhook (wa_auth ?s) ?a"
    by (simp add: webhook_app_state_def demo_webhook_config_def demo_arrival_def demo_webhook_def demo_header_name
        header_text_def expected_auth_header_value_def)
  moreover have "wa_accepted ?s = 0" by (simp add: webhook_app_state_def)
  ultimately show ?thesis using webhook_unauthorised [of demo_webhook ?s ?a store_empty] by (auto split: prod.splits)
qed

definition demo_details :: PayloadDetails where
  "demo_details =
     \<lparr>pay_kind = ''message'', pay_event_type = ''message'', pay_task_id = None, pay_context_id = None,
      pay_state = None, pay_artifact_id = None\<rparr>"

lemma demo_authorised:
  "validate_headers demo_webhook (Header ''X'' ''t'' None) (arr_headers (demo_arrival ident ''t'')) = Inr True"
  by code_simp

lemma demo_version_header: "to_ascii_lowercase ''A2A-Version'' = ''a2a-version''"
  by code_simp

lemma demo_version:
  "unwrap_or (header_text demo_webhook (arr_headers (demo_arrival ident ''t''))
     (to_ascii_lowercase (svc_param_version (we_headers demo_webhook)))) v = v"
proof -
  have "svc_param_version (we_headers demo_webhook) = ''A2A-Version''" by (simp add: demo_webhook_def)
  then show ?thesis
    by (simp only: demo_version_header) (simp add: header_text_def demo_arrival_def unwrap_or_def)
qed

lemma demo_pushed:
  "push_callback demo_webhook (demo_arrival ident ''t'') (start_receiver demo_webhook_config demo_addr, db) =
     accept_callback demo_webhook (demo_arrival ident ''t'') demo_details JNull ''1'' None (Some ''r'') True
       (start_receiver demo_webhook_config demo_addr, db)"
proof -
  have "wa_auth (start_receiver demo_webhook_config demo_addr) = Header ''X'' ''t'' None"
    "wa_protocol_version (start_receiver demo_webhook_config demo_addr) = ''1''"
    "arr_remote_addr (demo_arrival ident ''t'') = ''r''"
    "header_text demo_webhook (arr_headers (demo_arrival ident ''t'')) ''content-type'' = None"
    "we_from_slice demo_webhook t = Inr JNull" "we_stream_response demo_webhook v = Inr (StreamMessage None None)" for t v
    by (simp_all add: start_receiver_def webhook_app_state_def demo_webhook_config_def demo_arrival_def header_text_def demo_webhook_def)
  then show ?thesis
    unfolding push_callback_def handle_authorized_callback_def demo_version
    by (simp add: demo_authorised optional_new_def demo_details_def del: validate_headers.simps)
qed

lemma demo_served:
  "wa_accepted (fst (snd (accept_callback demo_webhook (demo_arrival ''1'' ''t'') demo_details JNull ''1'' None (Some ''r'') True
     (start_receiver demo_webhook_config demo_addr, store_empty)))) = 1"
  by code_simp

theorem webhook_books_agree_witness:
  "wa_shutdown (fst (serve_callbacks demo_webhook [demo_arrival ''1'' ''t'']
     (start_receiver demo_webhook_config demo_addr, store_empty))) = Some MaxEvents"
proof -
  let ?run = "serve_callbacks demo_webhook [demo_arrival ''1'' ''t''] (start_receiver demo_webhook_config demo_addr, store_empty)"
  have valid: "webhook_config_validate (we_headers demo_webhook) demo_webhook_config = Inr ()" by code_simp
  have "wa_accepted (fst ?run) = 1" using demo_served by (simp add: serve_callbacks_def demo_pushed)
  moreover have "whc_max_events demo_webhook_config = Some 1" by (simp add: demo_webhook_config_def)
  ultimately show ?thesis
    using webhook_books_agree [OF valid, of "[demo_arrival ''1'' ''t'']" demo_addr store_empty demo_webhook] by (cases ?run) auto
qed

end
