(* ===== verification/Spec2Isabelle.thy ===== *)
theory Spec2Isabelle
  imports Core_Properties Router_Plans Core_Config_Properties Core_Config_Redaction
    Store_Properties Gateway_Session Gateway_Busy Gateway_Jobs_Properties
    A2a_Service A2a_Negotiation_Properties A2a_Stream_Properties
    Store_Histories Store_Migrations Store_Paths Cli_Registry_Properties
    Cli_Routes_Properties Cli_Barrier_Properties Gateway_Webhook_Properties
begin

text \<open>
  A verification development of \<^emph>\<open>missive\<close>, a command-line client and local gateway for the A2A
  agent protocol (a Rust workspace under \<open>src/crates\<close>).

  \<^bold>\<open>The program.\<close>  \<open>missive-core\<close> has the shared data: errors with exit codes, validated
  identifiers, metadata maps, routing policy names, timestamps, envelopes and the configuration with
  its discovery, validation and redaction.  \<open>missive-router\<close> turns candidate agents and a policy
  into an explained route plan.  \<open>missive-store\<close> keeps everything in SQLite.
  \<open>missive-gateway\<close> is the daemon: it evaluates input that arrives while an operation is in
  flight, resets sessions, runs background jobs out of the store and receives push callbacks.  \<open>missive-a2a\<close> speaks the
  protocol, \<open>missive-adapters\<close> bridges other message sources, \<open>missive-cli\<close> is the command
  line.  The configuration decides the router's default policy, the gateway's busy-input policy and
  the protocol client's service parameters; the gateway's job manager and session resets work on what
  the store returns, and stored agents give the protocol client its negotiation options.  The command
  line writes the configured agents into the store, keeps agents, groups and cached cards there, takes
  authentication headers from the environment or the keyring, plans routes over what is stored, and
  waits at a barrier until the tasks of a group have reached a state.

  \<^bold>\<open>Theories.\<close>
  \<^item> \<open>Missive_Prelude\<close>: results as sums (\<open>and_then\<close> is the \<open>?\<close> operator), sequences of
    checks, machine integers, the collection \<open>result_iff\<close> of facts telling when a step succeeds.
  \<^item> \<open>Rust_Strings\<close>, \<open>Rust_Collections\<close>, \<open>Rust_Floats\<close>, \<open>Rust_Json\<close>,
    \<open>Rust_Net\<close>, \<open>Rust_Paths\<close>: what the sources use of the standard library and of
    \<open>serde_json\<close> values: strings as UTF-8 bytes, ordered maps as sorted association lists (with
    the map interface as a locale), binary64 comparisons on bit patterns, socket addresses, paths.
  \<^item> \<open>Core_Error\<close>, \<open>Core_Ids\<close>, \<open>Core_Metadata\<close>, \<open>Core_Routing\<close>,
    \<open>Core_Timestamp\<close> model \<open>error.rs\<close>, \<open>ids.rs\<close>, \<open>metadata.rs\<close>, \<open>routing.rs\<close>,
    \<open>timestamp.rs\<close> and \<open>envelope.rs\<close>; the string identifiers share a locale that each of
    them interprets.  \<open>Core_Properties\<close>: what the constructors accept, exactly; round trips
    through the external forms; exit codes; lookups after updates.
  \<^item> \<open>Core_Config\<close>, \<open>Core_Config_Discovery\<close>, \<open>Core_Config_Text\<close> model
    \<open>config.rs\<close>: schema, defaults, validation, discovery, loading, accessors, redaction.
    \<open>Core_Config_Properties\<close>: validation accepts exactly the well-formed configurations, loading
    only returns validated ones, precedence and termination of the search.
    \<open>Core_Config_Redaction\<close>: the redaction loop equals a pass over tokens, what it guarantees
    and where it leaks.
  \<^item> \<open>Router\<close> models \<open>missive-router\<close>; \<open>Router_Plans\<close>: every plan is the one an
    abstract contract of the policy determines, planning succeeds exactly on valid inputs, fairness
    of round robin, quorum intersection.
  \<^item> \<open>Store_Types\<close> and \<open>Store_Gateway\<close> model the parts of \<open>repository.rs\<close> the gateway
    uses: string enumerations (one locale, eleven interpretations), identifiers, validators, column
    conversions, and every operation on the tables of jobs, sessions and events.
    \<open>Store_Properties\<close>: reading back what was written, date-times to the second, and an invariant
    of these tables that their operations keep.
  \<^item> \<open>Store_Schema\<close>, \<open>Store_Registry\<close>, \<open>Store_Conversations\<close> model the rest of
    \<open>repository.rs\<close> over the constraints of the SQL schema (checks, unique ranks and resume names,
    references with what deleting and renaming do to them): authentication references, agents, groups,
    members, push configurations, contexts, tasks, artifacts, messages, and transactions.
    \<open>Store_Integrity\<close>, \<open>Store_Commands\<close> and \<open>Store_Histories\<close>: every store that operations and
    transactions reach satisfies the whole schema and the invariant of the gateway tables, a
    transaction is all or nothing, what deleting an agent takes along, clears and leaves.
    \<open>Store_Weights\<close>: stored weights are finite.  \<open>Store_Journal\<close>: what appending an event does
    to the whole store.
  \<^item> \<open>Store_Migrations\<close> models \<open>migrations.rs\<close>: ledger, verification, checksum, the run of the
    pending migrations; a run keeps schema and ledger in step however it ends, and a second run does
    nothing.  \<open>Store_Paths\<close> models \<open>paths.rs\<close>: state directories, database paths, process
    locks; the paths of a profile stay in its directories and profiles do not share any.
  \<^item> \<open>Gateway_Session\<close> models \<open>session.rs\<close>, \<open>Gateway_Busy\<close> models \<open>busy.rs\<close>,
    each with the refinement of an abstract specification; \<open>Gateway_Jobs\<close> models \<open>jobs.rs\<close>
    (scan, claim, attempt, finish, retry, sweep).
    \<open>Gateway_Jobs_Properties\<close>: finishing refines a state machine on the schedule of a job, the
    retry budget is spent exactly, scans claim exactly due jobs, backoff bounds.
  \<^item> \<open>Gateway_Webhook\<close> models \<open>webhook.rs\<close>: settings, authentication, payloads, journal,
    counters, shutdown requests and the handlers.  \<open>Gateway_Webhook_Properties\<close>: only the
    configured header value is let through, and counters, reports, journal and shutdown agree.
  \<^item> \<open>A2a_Service\<close>, \<open>A2a_Negotiation\<close>, \<open>A2a_Stream\<close> model parts of
    \<open>missive-a2a\<close>: service parameters and authentication headers (with their assembly from the
    flags in \<open>missive-cli\<close>), the choice of an interface of a remote agent, and the reader of
    server-sent event streams.  \<open>A2a_Card\<close>: agent cards, their older field names, validation and
    conditional retrieval.  \<open>A2a_Negotiation_Properties\<close>: negotiation is the first offered
    wanted binding.  \<open>A2a_Stream_Properties\<close>: the reader's loop equals cutting the body into
    blocks, printed records are read back, events are numbered without gaps.
  \<^item> \<open>Cli_Redaction\<close> models the redaction of \<open>output.rs\<close> and \<open>missive-observe\<close>, with
    what it hides and where it leaks.  \<open>Cli_Auth\<close>, \<open>Cli_Registry\<close>, \<open>Cli_Cards\<close>,
    \<open>Cli_Groups\<close>, \<open>Cli_Routes\<close> model \<open>auth.rs\<close>, \<open>agent.rs\<close>,
    \<open>capabilities.rs\<close>, \<open>group.rs\<close> and \<open>route.rs\<close>.  \<open>Cli_Registry_Properties\<close>:
    configured agents are protected from every command, what renaming an agent keeps and what it
    loses, and configurations that no store accepts.  \<open>Cli_Routes_Properties\<close>: capability summaries
    are exact, and the route command plans exactly the well-formed requests.
  \<^item> \<open>Cli_Barrier\<close> models \<open>barrier.rs\<close>: targets, arguments, the result of a broadcast,
    members, verdicts, the loop, the output and the journal.  \<open>Cli_Barrier_Properties\<close>: the
    verdict is right, the loop ends, and the verdict is reported only after the journal is written.
  \<^item> This theory: the properties that span the configuration, the gateway, the router and the
    protocol client.

  \<^bold>\<open>Correspondence.\<close>  A struct is a record, an enum a datatype, a fallible function returns a sum
  with the error on the left, a function that writes to the store maps the database to a result and
  the database it leaves.  Integers keep their width where they are bounded or saturate
  (\<open>u16\<close>, \<open>u32\<close>, \<open>u64\<close> words; \<open>i64\<close> as an integer with its bounds written out).
  Readings of the clock, generated identifiers and shutdown signals are arguments.

  \<^bold>\<open>Parameters.\<close>  The TOML deserialiser, the URL parser, the file system and the environment
  (record \<open>world\<close>), \<open>chrono\<close> (record \<open>chrono\<close>), SQLite and the texts of JSON values
  (record \<open>sqlite\<close>), the executors of background jobs (record \<open>executors\<close>), the
  \<open>http\<close> crate (record \<open>http_headers\<close>), the protocol SDK (record \<open>sdk\<close>) and its
  cards (record \<open>card_client\<close>), the failures of SQLite (record \<open>engine\<close>), the execution of
  migration scripts (record \<open>migrator\<close>), the operating system for paths and locks (record
  \<open>os\<close>), the environment, keyring, clock and identifiers of a command (record
  \<open>cli_world\<close>), what the webhook receiver calls (record \<open>webhook_env\<close>) and what a barrier
  sees at each attempt (record \<open>observation\<close>, and its clock).  What a theorem relies on is a named
  hypothesis with a witness on concrete functions, such as \<open>chrono_text_law\<close>: the code renders a
  date-time to the second, so its text parses to a date-time of the same second, and to the date-time
  itself only when it is a whole second.

  \<^bold>\<open>Bounds and fuel.\<close>  The mutual recursion of \<open>apply_mode\<close> and \<open>apply_steer\<close> may not
  end; it takes fuel, and three is enough whenever it ends at all (\<open>busy_input_terminates\<close>).  The
  loop of a barrier takes fuel too; since time passes while it sleeps, \<open>timeout / interval + 2\<close>
  attempts are enough (\<open>barrier_ends\<close>).
  Every other loop is a total function.

  \<^bold>\<open>Not modelled.\<close>  The gateway's asynchronous loops, subscriptions, sockets and service files (the
  handlers of the webhook run one after the other); the protocol client's unary calls; the adapters; tracing set-up; the commands that send messages, wait
  for them or read them back (send, stream, task, context, artifact, push, bcast, gather, reduce,
  job, logs, doctor), the refresh of remote tasks in a barrier, the printing of results on the terminal, and the declarations of flags.
  Log records and spans have no effect on the modelled state and are left out.
\<close>

section \<open>From the configuration to the gateway and the router\<close>

text \<open>Whatever file a configuration was loaded from, each source has a busy-input policy, evaluating
  an input under it ends within three nested calls, and an input is refused only when the queue of
  its source is as long as the policy allows, never when it is empty.\<close>

lemma loaded_busy_input:
  assumes "load W d = Inr l" "\<forall>n. source_name = Some n \<longrightarrow> named_ok n"
  shows "\<exists>policy. busy_input_config_for_source l source_name = Inr policy \<and>
    (\<forall>s input. \<exists>r. apply_busy_input 3 policy s input = Some r \<and>
      (\<forall>e. r = Inl e \<longrightarrow> 0 < queue_depth s \<and> unat (busy_max_queue_depth policy) \<le> queue_depth s))"
proof -
  have "loaded_ok (url_parse W) l" using load_facts [OF assms(1)] by blast
  then obtain policy where p: "busy_input_config_for_source l source_name = Inr policy" "busy_ok policy"
    using busy_input_config_ok assms(2) by blast
  have "\<exists>r. apply_busy_input 3 policy s input = Some r \<and>
      (\<forall>e. r = Inl e \<longrightarrow> 0 < queue_depth s \<and> unat (busy_max_queue_depth policy) \<le> queue_depth s)" for s input
  proof -
    have ends: "\<not> steers_forever policy s" using p(2) by (rule busy_ok_not_forever)
    have "0 < unat (busy_max_queue_depth policy)" using p(2) by (simp add: busy_ok_def unat_gt_0)
    then have "refuses policy s \<Longrightarrow> 0 < queue_depth s \<and> unat (busy_max_queue_depth policy) \<le> queue_depth s"
      by (auto simp: refuses_def queue_full_def)
    then show ?thesis
      using apply_busy_input_decision [OF ends, of 0 input] apply_busy_input_refusal [OF ends, of 0 input]
      by (cases "refuses policy s") (auto simp: numeral_3_eq_3)
  qed
  with p(1) show ?thesis by blast
qed

text \<open>The routing policy of a loaded configuration is one the router's own parser accepts, and with it
  every valid request is planned, under that policy, as soon as no agent outside the candidates is
  preferred.\<close>

lemma loaded_routing_plans:
  assumes "load W d = Inr l" "input_ok inp"
    and "\<forall>a. in_preferred_agent inp = Some a \<longrightarrow> a \<in> cand_alias ` set (in_candidates inp)"
  shows "\<exists>r policy p. routing_config l = Inr r \<and> parse_routing_policy (routing_default_policy r) = Inr policy \<and>
    explain_route (inp\<lparr>in_policy := policy\<rparr>) = Inr p"
proof -
  have "loaded_ok (url_parse W) l" using load_facts [OF assms(1)] by blast
  then obtain r policy where r: "routing_config l = Inr r" "trim (routing_default_policy r) \<in> set (policy_spellings policy)"
    using routing_config_ok [of "url_parse W" l] unfolding routing_ok_def by blast
  define inp' where "inp' = inp\<lparr>in_policy := policy\<rparr>"
  have ok: "input_ok inp'" "preferred_ok inp'"
    using assms(2,3) by (simp_all add: inp'_def input_ok_def preferred_ok_def)
  then have "is_ok (explain_route inp')"
    using explain_policy_ok [OF ok(1)] by (simp add: explain_route_def and_then_Inr result_iff)
  then show ?thesis using r by (auto simp: parse_routing_policy_Inr inp'_def)
qed

text \<open>C22. The protocol section of every loaded configuration becomes service parameters as it is, since what
  the configuration accepts the protocol client accepts (with header names of at most 65535 bytes),
  and they can be recorded as metadata.  But requests carry the extensions joined in one header of at
  most 8192 bytes: with longer ones every request fails, which no validation foresees.\<close>

theorem loaded_service_parameters:
  assumes "load W d = Inr l" "header_law H"
    and "\<And>p. protocol_config l = Inr p \<Longrightarrow> \<forall>(n, v) \<in> set (protocol_service_parameters p). length n \<le> 65535"
  shows "\<exists>p sp. protocol_config l = Inr p \<and>
    service_parameters_from_config_and_globals H l
      \<lparr>globals_protocol_version = None, globals_a2a_extensions = [], globals_service_params = [],
       globals_bearer_token_env = None, globals_headers = []\<rparr> = Inr sp \<and>
    sp_protocol_version sp = protocol_version p \<and> sp_extensions sp = protocol_extensions p \<and>
    sp_extra sp = protocol_service_parameters p \<and> is_ok (to_metadata sp) \<and>
    (8192 < length (join_with '', '' (protocol_extensions p)) \<longrightarrow>
       (\<forall>request. \<not> is_ok (apply_service_parameters H sp request)))"
proof -
  have "loaded_ok (url_parse W) l" using load_facts [OF assms(1)] by blast
  then obtain p where p: "protocol_config l = Inr p" "protocol_ok p" using protocol_config_ok by blast
  define sp where "sp = \<lparr>sp_protocol_version = protocol_version p, sp_extensions = protocol_extensions p,
    sp_extra = protocol_service_parameters p\<rparr>"
  have "service_parameters_validate H sp = Inr ()"
    using protocol_ok_service_parameters [OF p(2) assms(2) assms(3) [OF p(1)]] by (simp add: sp_def)
  then have "service_parameters_from_config_and_globals H l
      \<lparr>globals_protocol_version = None, globals_a2a_extensions = [], globals_service_params = [],
       globals_bearer_token_env = None, globals_headers = []\<rparr> = Inr sp"
    by (simp add: service_parameters_from_config_and_globals_def p(1) ServiceParameters_new_def sp_def unwrap_or_def)
  moreover have "8192 < length (join_with '', '' (sp_extensions sp)) \<Longrightarrow> \<not> is_ok (apply_service_parameters H sp request)" for request
    by (rule apply_service_parameters_long)
  ultimately show ?thesis using p(1) to_metadata_total [of sp]
    by (intro exI [of _ p] exI [of _ sp]) (simp add: sp_def)
qed

definition demo_headers :: http_headers where
  "demo_headers =
     \<lparr>hdr_name = (\<lambda>n. Inr (to_ascii_lowercase n)), hdr_value = Inr,
      svc_param_version = ''A2A-Version'', svc_param_extensions = ''A2A-Extensions''\<rparr>"

theorem loaded_service_parameters_witness:
  "\<exists>l sp. load empty_world discovery_new = Inr l \<and>
     service_parameters_from_config_and_globals demo_headers l
       \<lparr>globals_protocol_version = None, globals_a2a_extensions = [], globals_service_params = [],
       globals_bearer_token_env = None, globals_headers = []\<rparr> = Inr sp"
proof -
  define l where "l = \<lparr>loaded_config = MissiveConfig_default, loaded_source = built_in_default,
    loaded_selected_profile = ''default''\<rparr>"
  have l: "load empty_world discovery_new = Inr l" unfolding l_def
    by (rule load_builtin) (simp_all add: discovery_new_def empty_world_def)
  have "protocol_config l = Inr ProtocolConfig_default" unfolding l_def by code_simp
  then have "\<forall>(n, v) \<in> set (protocol_service_parameters p). length n \<le> 65535" if "protocol_config l = Inr p" for p
    using that by (simp add: ProtocolConfig_default_def)
  moreover have "header_law demo_headers" by (simp add: header_law_def demo_headers_def)
  ultimately show ?thesis using loaded_service_parameters [OF l, of demo_headers] l by blast
qed

end
